(* ===== verification/Prelude.thy ===== *)
theory Prelude
  imports Complex_Main "HOL-Library.AList"
begin

text \<open>
  Shared vocabulary of the development: the Python values, strings, numbers and
  exceptions that the modelled code uses, and the generic lemmas about them.

  Conventions.
  \<^item> A Python \<open>float\<close> is an exact rational (\<open>rat\<close>). Rounding of single binary64
    operations, infinities and NaN are outside the model; the explicit \<open>round(x, n)\<close>
    calls of the source are modelled (\<open>py_round\<close>, ties to even).
  \<^item> A Python \<open>str\<close> is a \<open>string\<close> (one \<open>char\<close> per code point; case mapping and
    whitespace are the ASCII ones).
  \<^item> A timestamp is the number of microseconds since the epoch (\<open>int\<close>). The code
    stores ISO-8601 UTC strings, whose text order is the time order.
  \<^item> An exception is a value of \<open>exn\<close>; a fallible call returns \<open>exn + 'a\<close>.
\<close>

named_theorems py_simps \<open>evaluation rules for the modelled Python primitives\<close>
named_theorems gate_defs \<open>definitions of the single checks of a gate\<close>

type_synonym pyfloat = rat
type_synonym time = int

subsection \<open>Exceptions\<close>

datatype exn =
    ValueError string
  | LookupError string
  | PermissionError string
  | IntegrityError string
  | TypeError string
  | KeyError string
  | NoBrokerForAssetClass string
  | BrokerError string
  | ZeroDivisionError

text \<open>\<open>str(exc)\<close>: the message of an exception.\<close>

fun exn_str :: "exn \<Rightarrow> string" where
  "exn_str (ValueError m) = m"
| "exn_str (LookupError m) = m"
| "exn_str (PermissionError m) = m"
| "exn_str (IntegrityError m) = m"
| "exn_str (TypeError m) = m"
| "exn_str (KeyError m) = m"
| "exn_str (NoBrokerForAssetClass m) = m"
| "exn_str (BrokerError m) = m"
| "exn_str ZeroDivisionError = ''division by zero''"

subsection \<open>Strings\<close>

definition upper_char :: "char \<Rightarrow> char" where
  "upper_char c = (let n = (of_char c :: nat) in if 97 \<le> n \<and> n \<le> 122 then char_of (n - 32) else c)"

definition lower_char :: "char \<Rightarrow> char" where
  "lower_char c = (let n = (of_char c :: nat) in if 65 \<le> n \<and> n \<le> 90 then char_of (n + 32) else c)"

definition py_upper :: "string \<Rightarrow> string" where
  "py_upper s = map upper_char s"

definition py_lower :: "string \<Rightarrow> string" where
  "py_lower s = map lower_char s"

definition is_space :: "char \<Rightarrow> bool" where
  "is_space c = (let n = (of_char c :: nat) in n = 32 \<or> (9 \<le> n \<and> n \<le> 13) \<or> (28 \<le> n \<and> n \<le> 31))"

definition is_alnum :: "char \<Rightarrow> bool" where
  "is_alnum c = (let n = (of_char c :: nat) in
     (48 \<le> n \<and> n \<le> 57) \<or> (65 \<le> n \<and> n \<le> 90) \<or> (97 \<le> n \<and> n \<le> 122))"

definition py_strip :: "string \<Rightarrow> string" where
  "py_strip s = rev (dropWhile is_space (rev (dropWhile is_space s)))"

text \<open>\<open>s.isalnum()\<close> is false on the empty string.\<close>

definition py_isalnum :: "string \<Rightarrow> bool" where
  "py_isalnum s = (s \<noteq> [] \<and> list_all is_alnum s)"

text \<open>\<open>s.replace(c, d)\<close> for single characters, and \<open>s.replace(c, "")\<close>.\<close>

definition py_replace_char :: "char \<Rightarrow> char \<Rightarrow> string \<Rightarrow> string" where
  "py_replace_char a b s = map (\<lambda>c. if c = a then b else c) s"

definition py_remove_char :: "char \<Rightarrow> string \<Rightarrow> string" where
  "py_remove_char a s = filter (\<lambda>c. c \<noteq> a) s"

definition py_startswith :: "string \<Rightarrow> string \<Rightarrow> bool" where
  "py_startswith s p = (take (length p) s = p)"

definition py_endswith :: "string \<Rightarrow> string \<Rightarrow> bool" where
  "py_endswith s q = (length q \<le> length s \<and> drop (length s - length q) s = q)"

fun py_join :: "string \<Rightarrow> string list \<Rightarrow> string" where
  "py_join sep [] = []"
| "py_join sep [x] = x"
| "py_join sep (x # y # zs) = x @ sep @ py_join sep (y # zs)"

fun show_nat :: "nat \<Rightarrow> string" where
  "show_nat n = (if n < 10 then [char_of (48 + n)] else show_nat (n div 10) @ [char_of (48 + n mod 10)])"

declare show_nat.simps [simp del]

definition show_int :: "int \<Rightarrow> string" where
  "show_int i = (if i < 0 then ''-'' @ show_nat (nat (- i)) else show_nat (nat i))"

lemma upper_char_idem [simp]: "upper_char (upper_char c) = upper_char c"
  by (auto simp: upper_char_def Let_def of_char_of)

lemma py_upper_idem [simp]: "py_upper (py_upper s) = py_upper s"
  by (simp add: py_upper_def comp_def)

lemma length_py_upper [simp]: "length (py_upper s) = length s"
  by (simp add: py_upper_def)

lemma py_upper_append [simp]: "py_upper (s @ t) = py_upper s @ py_upper t"
  by (simp add: py_upper_def)

lemma py_upper_eq_Nil [simp]: "py_upper s = [] \<longleftrightarrow> s = []"
  by (simp add: py_upper_def)

subsection \<open>Numbers\<close>

text \<open>\<open>round(x)\<close> with ties to even, and \<open>round(x, n)\<close>.\<close>

definition round_even :: "pyfloat \<Rightarrow> int" where
  "round_even x = (let f = \<lfloor>x\<rfloor>; d = x - of_int f in
     if d < 1/2 then f else if 1/2 < d then f + 1 else if even f then f else f + 1)"

definition py_round :: "nat \<Rightarrow> pyfloat \<Rightarrow> pyfloat" where
  "py_round n x = of_int (round_even (x * 10 ^ n)) / 10 ^ n"

text \<open>
  \<open>f"{x:.nf}"\<close>: the digits of \<open>\<bar>x\<bar>\<close> rounded to \<open>n\<close> decimals, zero padded. \<open>str(x)\<close> of
  a float prints the shortest such text that is exact (at least one decimal, no exponent).
\<close>

definition fmt_fixed :: "nat \<Rightarrow> pyfloat \<Rightarrow> string" where
  "fmt_fixed n x = (let m = nat (round_even (\<bar>x\<bar> * 10 ^ n)); frac = show_nat (m mod 10 ^ n) in
     (if x < 0 then ''-'' else []) @ show_nat (m div 10 ^ n) @
     (if n = 0 then [] else ''.'' @ replicate (n - length frac) (CHR ''0'') @ frac))"

definition has_decimals :: "nat \<Rightarrow> pyfloat \<Rightarrow> bool" where
  "has_decimals n x = (x * 10 ^ n = of_int \<lfloor>x * 10 ^ n\<rfloor>)"

definition show_float :: "pyfloat \<Rightarrow> string" where
  "show_float x = (case find (\<lambda>n. has_decimals n x) [1..<17] of None \<Rightarrow> fmt_fixed 17 x | Some n \<Rightarrow> fmt_fixed n x)"

lemma round_even_bounds: "of_int (round_even x) - 1/2 \<le> x" "x \<le> of_int (round_even x) + 1/2"
proof -
  obtain f where f: "\<lfloor>x\<rfloor> = f" by simp
  have "of_int f \<le> x" and "x < of_int f + 1"
    using floor_correct [of x] f by simp_all
  then show "of_int (round_even x) - 1/2 \<le> x" and "x \<le> of_int (round_even x) + 1/2"
    by (simp_all add: round_even_def Let_def f)
qed

lemma round_even_of_int [simp]: "round_even (of_int k) = k"
  by (simp add: round_even_def)

lemma round_even_mono: "x \<le> y \<Longrightarrow> round_even x \<le> round_even y"
proof -
  assume xy: "x \<le> y"
  then have fl: "\<lfloor>x\<rfloor> \<le> \<lfloor>y\<rfloor>" by (rule floor_mono)
  have up: "round_even x \<le> \<lfloor>x\<rfloor> + 1" and lo: "\<lfloor>y\<rfloor> \<le> round_even y"
    by (auto simp: round_even_def Let_def)
  show ?thesis
  proof (cases "\<lfloor>x\<rfloor> = \<lfloor>y\<rfloor>")
    case True
    with xy show ?thesis by (auto simp: round_even_def Let_def)
  next
    case False
    with fl up lo show ?thesis by linarith
  qed
qed

lemma py_round_mono: "x \<le> y \<Longrightarrow> py_round n x \<le> py_round n y"
  by (simp add: py_round_def divide_right_mono mult_right_mono round_even_mono)

lemma py_round_error: "\<bar>py_round n x - x\<bar> \<le> 1 / (2 * 10 ^ n)"
proof -
  have pos: "(0::rat) < 10 ^ n" by simp
  have "\<bar>of_int (round_even (x * 10 ^ n)) - x * 10 ^ n\<bar> \<le> 1/2"
    using round_even_bounds [of "x * 10 ^ n"] by linarith
  then have "\<bar>(of_int (round_even (x * 10 ^ n)) - x * 10 ^ n) / 10 ^ n\<bar> \<le> (1/2) / 10 ^ n"
    by (simp only: abs_divide abs_of_pos [OF pos]) (rule divide_right_mono, simp_all)
  moreover have "(of_int (round_even (x * 10 ^ n)) - x * 10 ^ n) / 10 ^ n = py_round n x - x"
    using pos by (simp add: py_round_def diff_divide_distrib)
  ultimately show ?thesis by (simp add: field_simps)
qed

text \<open>A value that already has \<open>n\<close> decimals is a fixed point of \<open>round(x, n)\<close>.\<close>

lemma py_round_has_decimals [simp]: "has_decimals n (py_round n x)"
  by (simp add: has_decimals_def py_round_def)

lemma py_round_fixed: "has_decimals n x \<Longrightarrow> py_round n x = x"
proof -
  assume h: "has_decimals n x"
  then have "round_even (x * 10 ^ n) = \<lfloor>x * 10 ^ n\<rfloor>"
    by (metis has_decimals_def round_even_of_int)
  with h show ?thesis by (simp add: py_round_def has_decimals_def field_simps)
qed

lemma py_round_le_fixed: "has_decimals n y \<Longrightarrow> x \<le> y \<Longrightarrow> py_round n x \<le> y"
  using py_round_mono [of x y n] by (simp add: py_round_fixed)

lemma py_round_0 [simp]: "py_round n 0 = 0"
  by (simp add: py_round_def round_even_def)

lemma py_round_nonneg: "0 \<le> x \<Longrightarrow> 0 \<le> py_round n x"
  using py_round_mono [of 0 x n] by simp

subsection \<open>Dynamic values and dictionaries\<close>

text \<open>
  The values of \<open>dict[str, Any]\<close> payloads. \<open>PTime\<close> is the text of an ISO-8601
  timestamp, kept as the instant it denotes. A dictionary is an association list in
  insertion order.
\<close>

datatype pyval =
    PNone
  | PBool bool
  | PInt int
  | PFloat pyfloat
  | PStr string
  | PTime time
  | PList "pyval list"
  | PDict "(string \<times> pyval) list"

type_synonym pydict = "(string \<times> pyval) list"

text \<open>\<open>bool(v)\<close>, \<open>a or b\<close>, \<open>d.get(k)\<close> and \<open>d.get(k, default)\<close>.\<close>

fun truthy :: "pyval \<Rightarrow> bool" where
  "truthy PNone = False"
| "truthy (PBool b) = b"
| "truthy (PInt i) = (i \<noteq> 0)"
| "truthy (PFloat x) = (x \<noteq> 0)"
| "truthy (PStr s) = (s \<noteq> [])"
| "truthy (PTime t) = True"
| "truthy (PList vs) = (vs \<noteq> [])"
| "truthy (PDict d) = (d \<noteq> [])"

definition py_or :: "pyval \<Rightarrow> pyval \<Rightarrow> pyval" where
  "py_or a b = (if truthy a then a else b)"

definition dict_get :: "pydict \<Rightarrow> string \<Rightarrow> pyval" where
  "dict_get d k = (case map_of d k of None \<Rightarrow> PNone | Some v \<Rightarrow> v)"

definition get_default :: "('k \<times> 'v) list \<Rightarrow> 'k \<Rightarrow> 'v \<Rightarrow> 'v" where
  "get_default d k v = (case map_of d k of None \<Rightarrow> v | Some w \<Rightarrow> w)"

fun as_dict :: "pyval \<Rightarrow> pydict" where
  "as_dict (PDict d) = d"
| "as_dict _ = []"

fun as_list :: "pyval \<Rightarrow> pyval list" where
  "as_list (PList vs) = vs"
| "as_list _ = []"

definition is_digit :: "char \<Rightarrow> bool" where
  "is_digit c = (let n = (of_char c :: nat) in 48 \<le> n \<and> n \<le> 57)"

definition digits_val :: "string \<Rightarrow> int" where
  "digits_val s = foldl (\<lambda>a c. a * 10 + (of_char c - 48)) 0 s"

text \<open>The sign of a numeric text and the rest of it.\<close>

fun split_sign :: "string \<Rightarrow> bool \<times> string" where
  "split_sign [] = (False, [])"
| "split_sign (c # r) =
     (if c = CHR ''-'' then (True, r) else if c = CHR ''+'' then (False, r) else (False, c # r))"

text \<open>
  \<open>float(s)\<close> on text: sign, digits, fraction, exponent. The spellings of infinity and
  NaN, which have no rational value, are rejected like any other non-number.
\<close>

definition parse_float :: "string \<Rightarrow> exn + pyfloat" where
  "parse_float s =
     (let bad = Inl (ValueError (''could not convert string to float: '' @ s));
          (neg, u) = split_sign (py_strip s);
          ip = takeWhile is_digit u; r1 = dropWhile is_digit u;
          (fp, r2) = (case r1 of [] \<Rightarrow> ([], [])
                      | c # r \<Rightarrow> if c = CHR ''.'' then (takeWhile is_digit r, dropWhile is_digit r) else ([], r1));
          m = of_int (digits_val (ip @ fp)) / 10 ^ length fp;
          v = (if neg then - m else m)
      in if ip = [] \<and> fp = [] then bad
         else case r2 of [] \<Rightarrow> Inr v
         | c # r3 \<Rightarrow>
             (let (eneg, e) = split_sign r3
              in if lower_char c \<noteq> CHR ''e'' \<or> e = [] \<or> \<not> list_all is_digit e then bad
                 else Inr (if eneg then v / 10 ^ nat (digits_val e) else v * 10 ^ nat (digits_val e))))"

fun to_float :: "pyval \<Rightarrow> exn + pyfloat" where
  "to_float (PBool b) = Inr (if b then 1 else 0)"
| "to_float (PInt i) = Inr (of_int i)"
| "to_float (PFloat x) = Inr x"
| "to_float (PStr s) = parse_float s"
| "to_float _ = Inl (TypeError ''float() argument must be a string or a real number'')"

text \<open>
  \<open>str(v or "")\<close>, for the fields the code reads as text: falsy values give the empty
  string. Containers and timestamps, which no such field holds, give no text.
\<close>

definition str_or_empty :: "pyval \<Rightarrow> string" where
  "str_or_empty v =
     (if \<not> truthy v then []
      else case v of PStr s \<Rightarrow> s | PBool b \<Rightarrow> ''True'' | PInt i \<Rightarrow> show_int i | PFloat x \<Rightarrow> show_float x | _ \<Rightarrow> [])"

text \<open>\<open>d[k] = d.get(k, 0) + x\<close>: the accumulating dictionaries of the risk code.\<close>

definition dict_add :: "'k \<Rightarrow> 'n::monoid_add \<Rightarrow> ('k \<times> 'n) list \<Rightarrow> ('k \<times> 'n) list" where
  "dict_add k x d = AList.update k (get_default d k 0 + x) d"

lemma get_default_Nil [simp]: "get_default [] k v = v"
  by (simp add: get_default_def)

lemma get_default_update [simp]:
  "get_default (AList.update k w d) j v = (if j = k then w else get_default d j v)"
  by (simp add: get_default_def update_conv')

lemma get_default_dict_add:
  "get_default (dict_add k x d) j 0 = (if j = k then get_default d k 0 + x else get_default d j 0)"
  by (simp add: dict_add_def)

lemma dict_add_total:
  fixes x :: "'n::ab_group_add"
  shows "sum_list (map snd (dict_add k x d)) = sum_list (map snd d) + x"
proof -
  have "sum_list (map snd (AList.update k (get_default d k 0 + x) d)) = sum_list (map snd d) + x"
    by (induction d) (auto simp: get_default_def algebra_simps)
  then show ?thesis by (simp add: dict_add_def)
qed

lemma dict_get_update [simp]:
  "dict_get (AList.update k v d) j = (if j = k then v else dict_get d j)"
  by (simp add: dict_get_def update_conv')

text \<open>
  A table of running totals: every item of a list adds its weight under its key. The
  total under a key is the sum over the items with that key, and the grand total is the
  sum over all items, so no exposure is lost or counted twice.
\<close>

locale running_totals =
  fixes key :: "'p \<Rightarrow> 'k" and weight :: "'p \<Rightarrow> 'n::ab_group_add"
begin

lemma totals_lookup:
  "get_default (fold (\<lambda>p. dict_add (key p) (weight p)) ps d) k 0 =
   get_default d k 0 + (\<Sum>p\<leftarrow>filter (\<lambda>p. key p = k) ps. weight p)"
  by (induction ps arbitrary: d) (auto simp: get_default_dict_add algebra_simps)

lemma totals_sum:
  "sum_list (map snd (fold (\<lambda>p. dict_add (key p) (weight p)) ps d)) =
   sum_list (map snd d) + (\<Sum>p\<leftarrow>ps. weight p)"
  by (induction ps arbitrary: d) (auto simp: dict_add_total algebra_simps)

end

subsection \<open>Statements with several conclusions\<close>

lemma conj3I: "A \<Longrightarrow> B \<Longrightarrow> C \<Longrightarrow> A \<and> B \<and> C"
  by simp

lemma conj4I: "A \<Longrightarrow> B \<Longrightarrow> C \<Longrightarrow> D \<Longrightarrow> A \<and> B \<and> C \<and> D"
  by simp

lemma conj5I: "A \<Longrightarrow> B \<Longrightarrow> C \<Longrightarrow> D \<Longrightarrow> E \<Longrightarrow> A \<and> B \<and> C \<and> D \<and> E"
  by simp

end
