(* ===== verification/Settings.thy ===== *)
theory Settings
  imports Prelude
begin

text \<open>
  The part of \<open>AppSettings\<close> (src/app/runtime_settings.py) that the modelled components
  read, with the source's field names and defaults. The source has one flat class; here it
  is a chain of record extensions (risk limits, instruments, execution, automation), so
  field access stays flat. \<open>Literal\<close> fields are datatypes: pydantic admits no other value.
\<close>

datatype execution_mode = Mode_paper | Mode_live
datatype paper_broker = PB_alpaca | PB_self_simulated
datatype account_mode = Acc_demo | Acc_real
datatype broker_choice = Use_alpaca | Use_etoro | Use_none
datatype auto_operation_mode = Op_shadow | Op_supervised | Op_unattended
datatype approval_tier = Tier0_pending_only | Tier1_supervised_only | Tier2_strict_valid | Tier3_strategy_qualified

fun execution_mode_value :: "execution_mode \<Rightarrow> string" where
  "execution_mode_value Mode_paper = ''paper''"
| "execution_mode_value Mode_live = ''live''"

fun account_mode_value :: "account_mode \<Rightarrow> string" where
  "account_mode_value Acc_demo = ''demo''"
| "account_mode_value Acc_real = ''real''"

fun broker_choice_value :: "broker_choice \<Rightarrow> string" where
  "broker_choice_value Use_alpaca = ''alpaca''"
| "broker_choice_value Use_etoro = ''etoro''"
| "broker_choice_value Use_none = ''none''"

text \<open>Risk limits.\<close>

record risk_settings =
  max_risk_per_trade_pct :: pyfloat
  auto_propose_risk_based_sizing :: bool
  max_daily_loss_usd :: pyfloat
  max_weekly_loss_usd :: pyfloat
  loss_limit_includes_unrealized :: bool
  max_open_positions :: int
  max_open_positions_per_sector :: int
  max_trades_per_day :: int
  per_symbol_position_limit :: int
  max_consecutive_losses_before_cooldown :: int
  portfolio_soft_drawdown_pct :: pyfloat
  portfolio_hard_drawdown_pct :: pyfloat
  portfolio_max_gross_exposure_pct :: pyfloat
  portfolio_max_symbol_exposure_pct :: pyfloat
  portfolio_max_sector_exposure_pct :: pyfloat
  portfolio_max_correlated_exposure_pct :: pyfloat
  portfolio_max_heat_pct :: pyfloat
  portfolio_future_max_risk_per_trade_pct :: pyfloat
  portfolio_micro_live_max_risk_per_trade_pct :: pyfloat
  institutional_portfolio_controls_enabled :: bool
  drawdown_governor_enabled :: bool
  drawdown_governor_soft_pct :: pyfloat
  drawdown_governor_hard_pct :: pyfloat
  drawdown_governor_floor :: pyfloat
  short_trading_enabled :: bool
  short_minimum_account_equity_usd :: pyfloat
  short_max_borrow_cost_annual_pct :: pyfloat
  short_require_easy_to_borrow :: bool
  short_require_margin_requirement :: bool
  kill_switch_enabled :: bool
  reentry_cooldown_minutes_after_loss :: int
  max_daily_entries_per_correlation_bucket :: int
  market_direction_min_drop_pct :: pyfloat

text \<open>Instruments, leverage and notional limits.\<close>

record instrument_settings = risk_settings +
  allowed_instruments :: "string list"
  blocked_instruments :: "string list"
  crypto_trading_enabled :: bool
  crypto_symbols :: "string list"
  max_equity_leverage :: int
  max_gold_leverage :: int
  default_trade_amount_usd :: pyfloat
  max_trade_amount_usd :: pyfloat
  proposal_expiry_minutes :: int

text \<open>Execution routing.\<close>

record execution_settings = instrument_settings +
  exec_mode :: execution_mode
  broker_for_equities :: broker_choice
  broker_for_non_equities :: broker_choice
  broker_for_crypto :: broker_choice
  paper_broker_choice :: paper_broker
  paper_simulated_fallback_enabled :: bool
  kill_switch_auto_close_positions :: bool
  paper_trading_enabled :: bool
  paper_account_balance_usd :: pyfloat
  paper_slippage_bps :: pyfloat
  paper_max_hold_minutes_scalp :: int
  paper_max_hold_minutes_intraday :: int
  paper_max_hold_days_swing :: int
  etoro_account_mode :: account_mode
  enable_real_trading :: bool
  alpaca_expected_account_number :: string
  alpaca_live_expected_account_number :: string
  alpaca_require_bracket_orders :: bool
  require_approval :: bool
  max_market_data_age_seconds :: int
  workflow_lock_timeout_minutes :: int
  execution_max_entry_drift_bps :: pyfloat
  execution_min_reward_to_risk_at_quote :: pyfloat

text \<open>Unattended operation.\<close>

record app_settings = execution_settings +
  automation_paused_default :: bool
  auto_propose_enabled :: bool
  auto_execute_after_approval :: bool
  paper_auto_approve_proposals :: bool
  auto_execution_worker_enabled :: bool
  paper_auto_operation_mode :: auto_operation_mode
  paper_auto_approval_tier :: approval_tier
  paper_auto_min_clean_supervised_lifecycles :: int
  paper_auto_min_strategy_closed_trades :: int
  paper_auto_min_strategy_profit_factor :: pyfloat
  paper_unattended_near_miss_auto_exec_enabled :: bool
  live_operator_acknowledgement :: string
  etoro_demo_v2_enabled :: bool
  etoro_parallel_comparison_enabled :: bool
  alpaca_reconciliation_enabled :: bool
  alpaca_reconciliation_max_attempts :: int
  alpaca_reconciliation_retry_backoff_seconds :: pyfloat
  reconciliation_flatten_unprotected_positions :: bool
  reconciliation_failures_before_kill_switch :: int
  paper_scanner_exploration_enabled :: bool
  paper_scanner_bypass_production_approval :: bool
  paper_scanner_allowed_strategies :: "string list"
  paper_exploration_require_backtest_validated :: bool
  paper_exploration_require_regular_hours :: bool
  paper_exploration_signal_profile :: string
  paper_exploration_auto_execution_min_score :: pyfloat
  paper_near_miss_promotion_enabled :: bool
  paper_near_miss_max_score_gap :: pyfloat
  auto_execution_min_score :: pyfloat
  auto_execution_regular_hours_only :: bool
  crypto_regular_hours_exempt :: bool
  strategy_health_enabled :: bool
  strategy_health_min_closed_trades :: int
  strategy_health_rolling_trades :: int
  market_universe_tier :: string
  market_universe_limit :: int
  market_universe_symbols :: "string list"

text \<open>\<open>AppSettings()\<close> with no environment overrides.\<close>

definition default_settings :: app_settings where
  "default_settings = \<lparr>
     max_risk_per_trade_pct = 1, auto_propose_risk_based_sizing = False,
     max_daily_loss_usd = 50, max_weekly_loss_usd = 125,
     loss_limit_includes_unrealized = True,
     max_open_positions = 3, max_open_positions_per_sector = 2, max_trades_per_day = 6,
     per_symbol_position_limit = 1, max_consecutive_losses_before_cooldown = 2,
     portfolio_soft_drawdown_pct = 5, portfolio_hard_drawdown_pct = 10,
     portfolio_max_gross_exposure_pct = 30, portfolio_max_symbol_exposure_pct = 15,
     portfolio_max_sector_exposure_pct = 25, portfolio_max_correlated_exposure_pct = 30,
     portfolio_max_heat_pct = 6,
     portfolio_future_max_risk_per_trade_pct = 1/2,
     portfolio_micro_live_max_risk_per_trade_pct = 1/10,
     institutional_portfolio_controls_enabled = False,
     drawdown_governor_enabled = False, drawdown_governor_soft_pct = 2,
     drawdown_governor_hard_pct = 5, drawdown_governor_floor = 1/4,
     short_trading_enabled = False, short_minimum_account_equity_usd = 25000,
     short_max_borrow_cost_annual_pct = 5, short_require_easy_to_borrow = True,
     short_require_margin_requirement = True,
     kill_switch_enabled = False,
     reentry_cooldown_minutes_after_loss = 240,
     max_daily_entries_per_correlation_bucket = 2,
     market_direction_min_drop_pct = 3/10,
     allowed_instruments = [''NVDA'', ''GOOG'', ''GOOGL'', ''AMD'', ''MU'', ''GOLD''],
     blocked_instruments = [''OIL'', ''NATGAS'', ''SILVER''],
     crypto_trading_enabled = False,
     crypto_symbols = [''BTC/USD'', ''ETH/USD'', ''SOL/USD'', ''LTC/USD'', ''LINK/USD'', ''AVAX/USD''],
     max_equity_leverage = 5, max_gold_leverage = 10,
     default_trade_amount_usd = 500, max_trade_amount_usd = 500,
     proposal_expiry_minutes = 240,
     exec_mode = Mode_paper,
     broker_for_equities = Use_alpaca, broker_for_non_equities = Use_etoro, broker_for_crypto = Use_alpaca,
     paper_broker_choice = PB_alpaca, paper_simulated_fallback_enabled = False,
     kill_switch_auto_close_positions = False, paper_trading_enabled = True,
     paper_account_balance_usd = 100000, paper_slippage_bps = 3,
     paper_max_hold_minutes_scalp = 90, paper_max_hold_minutes_intraday = 480, paper_max_hold_days_swing = 20,
     etoro_account_mode = Acc_demo, enable_real_trading = False,
     alpaca_expected_account_number = [], alpaca_live_expected_account_number = [],
     alpaca_require_bracket_orders = True, require_approval = True,
     max_market_data_age_seconds = 120, workflow_lock_timeout_minutes = 45,
     execution_max_entry_drift_bps = 35, execution_min_reward_to_risk_at_quote = 1,
     automation_paused_default = False, auto_propose_enabled = False,
     auto_execute_after_approval = False, paper_auto_approve_proposals = False,
     auto_execution_worker_enabled = False, paper_auto_operation_mode = Op_shadow,
     paper_auto_approval_tier = Tier1_supervised_only,
     paper_auto_min_clean_supervised_lifecycles = 10,
     paper_auto_min_strategy_closed_trades = 30,
     paper_auto_min_strategy_profit_factor = 6/5,
     paper_unattended_near_miss_auto_exec_enabled = False,
     live_operator_acknowledgement = [],
     etoro_demo_v2_enabled = False, etoro_parallel_comparison_enabled = False,
     alpaca_reconciliation_enabled = True, alpaca_reconciliation_max_attempts = 3,
     alpaca_reconciliation_retry_backoff_seconds = 1, reconciliation_flatten_unprotected_positions = True,
     reconciliation_failures_before_kill_switch = 3,
     paper_scanner_exploration_enabled = True, paper_scanner_bypass_production_approval = False,
     paper_scanner_allowed_strategies = [''all''], paper_exploration_require_backtest_validated = False,
     paper_exploration_require_regular_hours = True, paper_exploration_signal_profile = ''balanced_loose'',
     paper_exploration_auto_execution_min_score = 60, paper_near_miss_promotion_enabled = True,
     paper_near_miss_max_score_gap = 5, auto_execution_min_score = 65, auto_execution_regular_hours_only = True,
     crypto_regular_hours_exempt = True, strategy_health_enabled = True, strategy_health_min_closed_trades = 20,
     strategy_health_rolling_trades = 30, market_universe_tier = ''broad_top200'', market_universe_limit = 200,
     market_universe_symbols = []\<rparr>"

definition alpaca_effective_expected_account_number :: "app_settings \<Rightarrow> string" where
  "alpaca_effective_expected_account_number s =
     (if exec_mode s = Mode_live then alpaca_live_expected_account_number s
      else alpaca_expected_account_number s)"

end
