(* ===== verification/Models.thy ===== *)
theory Models
  imports Settings
begin

text \<open>
  The data model: orders, signals, proposals, executions, queue items, broker and quote
  records (src/app/models/*.py, src/app/live_signal_schema.py). Field names carry a short
  prefix (\<open>ord_\<close>, \<open>sig_\<close>, \<open>prop_\<close>, \<open>ex_\<close>, \<open>q_\<close>, \<dots>) because Isabelle record fields share one
  name space. The pydantic field constraints are the \<open>*_valid\<close> predicates; a constructor
  that violates one raises a \<open>ValidationError\<close>, which is a \<open>ValueError\<close>.
\<close>

datatype order_side = Buy | Sell
datatype asset_class = Equity | Gold | Crypto | Unknown_class
datatype signal_action = Act_buy | Act_sell
datatype approval_status = PENDING | APPROVED | REJECTED | EXPIRED | EXECUTED
datatype queue_status = QUEUED | PROCESSING | Q_EXECUTED | CANCELLED | BLOCKED | FAILED

fun side_value :: "order_side \<Rightarrow> string" where
  "side_value Buy = ''buy''"
| "side_value Sell = ''sell''"

fun asset_class_value :: "asset_class \<Rightarrow> string" where
  "asset_class_value Equity = ''equity''"
| "asset_class_value Gold = ''gold''"
| "asset_class_value Crypto = ''crypto''"
| "asset_class_value Unknown_class = ''unknown''"

fun approval_status_value :: "approval_status \<Rightarrow> string" where
  "approval_status_value PENDING = ''pending''"
| "approval_status_value APPROVED = ''approved''"
| "approval_status_value REJECTED = ''rejected''"
| "approval_status_value EXPIRED = ''expired''"
| "approval_status_value EXECUTED = ''executed''"

text \<open>The execution statuses (\<open>ExecutionStatus\<close>) are plain strings in the source.\<close>

definition ES_VALIDATED :: string where "ES_VALIDATED = ''validated''"
definition ES_SUBMITTED :: string where "ES_SUBMITTED = ''submitted''"
definition ES_FAILED :: string where "ES_FAILED = ''failed''"
definition ES_FILLED :: string where "ES_FILLED = ''filled''"
definition ES_CANCELED :: string where "ES_CANCELED = ''canceled''"
definition ES_BLOCKED :: string where "ES_BLOCKED = ''blocked''"

lemmas exec_status_defs = ES_VALIDATED_def ES_SUBMITTED_def ES_FAILED_def ES_FILLED_def ES_CANCELED_def ES_BLOCKED_def

record trade_order =
  ord_symbol :: string
  ord_side :: order_side
  ord_amount_usd :: pyfloat
  ord_leverage :: int
  ord_proposed_price :: pyfloat
  ord_stop_loss :: "pyfloat option"
  ord_take_profit :: "pyfloat option"
  ord_asset_class :: asset_class
  ord_broker_symbol :: "string option"
  ord_strategy_name :: "string option"
  ord_rationale :: string
  ord_metadata :: pydict

definition pos_opt :: "pyfloat option \<Rightarrow> bool" where
  "pos_opt v = (case v of None \<Rightarrow> True | Some x \<Rightarrow> 0 < x)"

definition order_valid :: "trade_order \<Rightarrow> bool" where
  "order_valid o1 = (0 < ord_amount_usd o1 \<and> 1 \<le> ord_leverage o1 \<and> 0 < ord_proposed_price o1 \<and>
     pos_opt (ord_stop_loss o1) \<and> pos_opt (ord_take_profit o1))"

text \<open>\<open>order.model_dump()\<close>.\<close>

definition opt_float :: "pyfloat option \<Rightarrow> pyval" where
  "opt_float v = (case v of None \<Rightarrow> PNone | Some x \<Rightarrow> PFloat x)"

definition opt_str :: "string option \<Rightarrow> pyval" where
  "opt_str v = (case v of None \<Rightarrow> PNone | Some x \<Rightarrow> PStr x)"

definition order_dump :: "trade_order \<Rightarrow> pydict" where
  "order_dump o1 = [
     (''symbol'', PStr (ord_symbol o1)), (''side'', PStr (side_value (ord_side o1))),
     (''amount_usd'', PFloat (ord_amount_usd o1)), (''leverage'', PInt (ord_leverage o1)),
     (''proposed_price'', PFloat (ord_proposed_price o1)),
     (''stop_loss'', opt_float (ord_stop_loss o1)), (''take_profit'', opt_float (ord_take_profit o1)),
     (''asset_class'', PStr (asset_class_value (ord_asset_class o1))),
     (''broker_symbol'', opt_str (ord_broker_symbol o1)), (''strategy_name'', opt_str (ord_strategy_name o1)),
     (''rationale'', PStr (ord_rationale o1)), (''metadata'', PDict (ord_metadata o1))]"

record trade_signal =
  sig_id :: string
  sig_symbol :: string
  sig_strategy_name :: string
  sig_action :: signal_action
  sig_rationale :: string
  sig_timestamp :: time
  sig_confidence :: "pyfloat option"
  sig_price :: "pyfloat option"
  sig_stop_loss :: "pyfloat option"
  sig_take_profit :: "pyfloat option"
  sig_metadata :: pydict

definition signal_dump :: "trade_signal \<Rightarrow> pydict" where
  "signal_dump s = [
     (''id'', PStr (sig_id s)), (''symbol'', PStr (sig_symbol s)),
     (''strategy_name'', PStr (sig_strategy_name s)),
     (''action'', PStr (case sig_action s of Act_buy \<Rightarrow> ''buy'' | Act_sell \<Rightarrow> ''sell'')),
     (''rationale'', PStr (sig_rationale s)), (''timestamp'', PTime (sig_timestamp s)),
     (''confidence'', opt_float (sig_confidence s)), (''price'', opt_float (sig_price s)),
     (''stop_loss'', opt_float (sig_stop_loss s)), (''take_profit'', opt_float (sig_take_profit s)),
     (''metadata'', PDict (sig_metadata s))]"

text \<open>\<open>TradeProposalCreate\<close> and its conversion to an order.\<close>

record proposal_create =
  tpc_symbol :: string
  tpc_side :: order_side
  tpc_amount_usd :: pyfloat
  tpc_leverage :: int
  tpc_proposed_price :: pyfloat
  tpc_stop_loss :: "pyfloat option"
  tpc_take_profit :: "pyfloat option"
  tpc_strategy_name :: "string option"
  tpc_rationale :: string
  tpc_notes :: string
  tpc_asset_class :: asset_class
  tpc_signal :: "trade_signal option"
  tpc_metadata :: pydict

definition proposal_create_valid :: "proposal_create \<Rightarrow> bool" where
  "proposal_create_valid r = (0 < tpc_amount_usd r \<and> 1 \<le> tpc_leverage r \<and> 0 < tpc_proposed_price r \<and>
     pos_opt (tpc_stop_loss r) \<and> pos_opt (tpc_take_profit r))"

definition make_proposal_create :: "proposal_create \<Rightarrow> exn + proposal_create" where
  "make_proposal_create r =
     (if proposal_create_valid r then Inr r
      else Inl (ValueError ''validation error for TradeProposalCreate''))"

definition to_order :: "proposal_create \<Rightarrow> trade_order" where
  "to_order r = \<lparr>
     ord_symbol = py_upper (tpc_symbol r), ord_side = tpc_side r, ord_amount_usd = tpc_amount_usd r,
     ord_leverage = tpc_leverage r, ord_proposed_price = tpc_proposed_price r,
     ord_stop_loss = tpc_stop_loss r, ord_take_profit = tpc_take_profit r,
     ord_asset_class = tpc_asset_class r, ord_broker_symbol = None,
     ord_strategy_name = tpc_strategy_name r, ord_rationale = tpc_rationale r,
     ord_metadata = tpc_metadata r \<rparr>"

lemma to_order_valid: "proposal_create_valid r \<Longrightarrow> order_valid (to_order r)"
  by (simp add: proposal_create_valid_def order_valid_def to_order_def)

record approval_decision =
  dec_reviewer :: string
  dec_notes :: string

record trade_proposal =
  prop_id :: string
  prop_status :: approval_status
  prop_order :: trade_order
  prop_signal :: "trade_signal option"
  prop_notes :: string
  prop_decision_notes :: string
  prop_approved_by :: "string option"
  prop_execution_id :: "string option"
  prop_created_at :: time
  prop_updated_at :: time
  prop_expires_at :: time
  prop_executed_at :: "time option"

record execution_record =
  ex_id :: string
  ex_proposal_id :: string
  ex_status :: string
  ex_mode :: string
  ex_broker_order_id :: "string option"
  ex_strategy_name :: "string option"
  ex_request_payload :: pydict
  ex_response_payload :: pydict
  ex_error_message :: "string option"
  ex_realized_pnl_usd :: pyfloat
  ex_created_at :: time
  ex_updated_at :: time

record queue_record =
  q_id :: string
  q_proposal_id :: string
  q_signal_id :: "string option"
  q_symbol :: string
  q_strategy_name :: "string option"
  q_timeframe :: "string option"
  q_mode :: string
  q_client_order_id :: "string option"
  q_status :: queue_status
  q_approval_required :: bool
  q_ready_for_execution :: bool
  q_requested_entry_price :: "pyfloat option"
  q_latest_quote_price :: "pyfloat option"
  q_latest_quote_timestamp :: "time option"
  q_validation_reason :: "string option"
  q_payload :: pydict
  q_created_at :: time
  q_updated_at :: time
  q_executed_at :: "time option"

text \<open>The paper ledger: open positions and closed trades.\<close>

record paper_position =
  pp_id :: string
  pp_proposal_id :: "string option"
  pp_signal_id :: "string option"
  pp_symbol :: string
  pp_strategy_name :: string
  pp_timeframe :: string
  pp_side :: string
  pp_regime_label :: "string option"
  pp_hold_style :: "string option"
  pp_status :: string
  pp_quantity :: pyfloat
  pp_entry_price :: pyfloat
  pp_current_price :: pyfloat
  pp_stop_loss :: "pyfloat option"
  pp_target_1 :: "pyfloat option"
  pp_target_2 :: "pyfloat option"
  pp_target_3 :: "pyfloat option"
  pp_opened_at :: time
  pp_updated_at :: time
  pp_closed_at :: "time option"
  pp_realized_pnl_usd :: pyfloat
  pp_unrealized_pnl_usd :: pyfloat
  pp_payload :: pydict

record paper_trade =
  pt_id :: string
  pt_position_id :: string
  pt_proposal_id :: "string option"
  pt_signal_id :: "string option"
  pt_symbol :: string
  pt_strategy_name :: string
  pt_timeframe :: string
  pt_side :: string
  pt_regime_label :: "string option"
  pt_hold_style :: "string option"
  pt_outcome :: string
  pt_entry_price :: pyfloat
  pt_exit_price :: pyfloat
  pt_quantity :: pyfloat
  pt_realized_pnl_usd :: pyfloat
  pt_realized_pnl_pct :: pyfloat
  pt_opened_at :: time
  pt_closed_at :: time
  pt_payload :: pydict

text \<open>Broker portfolio, broker answers and market quotes.\<close>

record portfolio_position =
  pos_symbol :: string
  pos_quantity :: pyfloat
  pos_average_price :: pyfloat
  pos_market_value :: pyfloat
  pos_unrealized_pnl :: pyfloat

record account_summary =
  acc_cash_balance :: pyfloat
  acc_equity :: pyfloat
  acc_daily_pnl :: pyfloat
  acc_currency :: string

record portfolio_summary =
  pf_mode :: string
  pf_account :: account_summary
  pf_positions :: "portfolio_position list"

record broker_order_response =
  br_order_id :: string
  br_status :: string
  br_mode :: string
  br_message :: string
  br_raw_response :: pydict

text \<open>What a broker's \<open>submit_*\<close> methods return, as the coordinator reads it.\<close>

record broker_execution =
  be_broker_order_id :: "string option"
  be_status :: string
  be_mode :: string
  be_dump :: pydict

text \<open>\<open>BrokerComparison\<close>; the fill, cost and slippage fields keep their defaults here.\<close>

record broker_comparison =
  bc_id :: string
  bc_signal_id :: "string option"
  bc_symbol :: string
  bc_strategy_name :: string
  bc_primary_broker :: string
  bc_comparison_broker :: string
  bc_primary_order_id :: string
  bc_comparison_order_id :: string
  bc_status :: string
  bc_details :: pydict
  bc_created_at :: time

record market_quote =
  mq_symbol :: string
  mq_bid :: "pyfloat option"
  mq_ask :: "pyfloat option"
  mq_last_execution :: "pyfloat option"
  mq_timestamp :: "time option"
  mq_source :: "string option"
  mq_derived_from_history :: bool
  mq_data_age_seconds :: "pyfloat option"

text \<open>\<open>a or b\<close> on optional floats: \<open>None\<close> and \<open>0.0\<close> are false.\<close>

definition float_or :: "pyfloat option \<Rightarrow> pyfloat option \<Rightarrow> pyfloat option" where
  "float_or a b = (case a of None \<Rightarrow> b | Some x \<Rightarrow> if x = 0 then b else Some x)"

text \<open>\<open>float(quote.last_execution or quote.ask or quote.bid or fallback)\<close>.\<close>

definition quote_price_or :: "market_quote \<Rightarrow> pyfloat \<Rightarrow> pyfloat" where
  "quote_price_or qt fb =
     (case float_or (mq_last_execution qt) (float_or (mq_ask qt) (float_or (mq_bid qt) None)) of
        None \<Rightarrow> fb | Some p \<Rightarrow> p)"

end
