(* ===== verification/Sizing.thy ===== *)
theory Sizing
  imports Models
begin

text \<open>
  Position sizing and the per-trade risk rules: src/app/risk/position_sizing.py,
  src/app/risk/rules.py, src/app/risk/proposal_sizing.py and the pure helpers of
  src/app/risk/volatility_target.py (volatility target, fractional Kelly, portfolio heat,
  drawdown governor, time stop).
\<close>

subsection \<open>Fixed-fraction sizing\<close>

record position_sizing_result =
  psr_amount_usd :: pyfloat
  psr_quantity :: pyfloat
  psr_risk_amount_usd :: pyfloat

definition calculate_position_size ::
    "pyfloat \<Rightarrow> pyfloat \<Rightarrow> pyfloat \<Rightarrow> pyfloat \<Rightarrow> int \<Rightarrow> exn + position_sizing_result" where
  "calculate_position_size account_balance risk_pct entry_price stop_price leverage =
     (if account_balance \<le> 0 then Inl (ValueError ''account_balance must be positive'')
      else if entry_price \<le> 0 \<or> stop_price \<le> 0
        then Inl (ValueError ''entry_price and stop_price must be positive'')
      else if entry_price = stop_price then Inl (ValueError ''stop_price must differ from entry_price'')
      else if leverage < 1 then Inl (ValueError ''leverage must be at least 1'')
      else
        let risk_budget = account_balance * (risk_pct / 100);
            stop_distance_pct = \<bar>entry_price - stop_price\<bar> / entry_price;
            gross_exposure = risk_budget / stop_distance_pct;
            amount_usd = gross_exposure / of_int leverage;
            quantity = gross_exposure / entry_price;
            r = \<lparr>psr_amount_usd = py_round 2 amount_usd, psr_quantity = py_round 6 quantity,
                 psr_risk_amount_usd = py_round 2 risk_budget\<rparr>
        in if 0 < psr_amount_usd r \<and> 0 < psr_quantity r \<and> 0 < psr_risk_amount_usd r then Inr r
           else Inl (ValueError ''validation error for PositionSizingResult''))"

subsection \<open>Risk rules\<close>

definition leverage_cap_for_asset :: "asset_class \<Rightarrow> int \<Rightarrow> int \<Rightarrow> int" where
  "leverage_cap_for_asset ac max_equity max_gold = (if ac = Gold then max_gold else max_equity)"

definition estimate_risk_amount :: "pyfloat \<Rightarrow> pyfloat \<Rightarrow> pyfloat \<Rightarrow> int \<Rightarrow> pyfloat" where
  "estimate_risk_amount entry_price stop_loss amount_usd leverage =
     (let stop_distance_pct = \<bar>entry_price - stop_loss\<bar> / entry_price;
          notional = amount_usd * of_int leverage
      in notional * stop_distance_pct)"

definition effective_max_risk_per_trade_pct :: "app_settings \<Rightarrow> bool \<Rightarrow> pyfloat" where
  "effective_max_risk_per_trade_pct s live =
     (let cap = (if max_risk_per_trade_pct s = 0 then 1 else max_risk_per_trade_pct s) in
      if institutional_portfolio_controls_enabled s
      then min cap (if live then portfolio_micro_live_max_risk_per_trade_pct s
                    else portfolio_future_max_risk_per_trade_pct s)
      else cap)"

definition SIZING_HEADROOM :: pyfloat where "SIZING_HEADROOM = 98/100"

definition sizing_risk_pct :: "app_settings \<Rightarrow> bool \<Rightarrow> pyfloat" where
  "sizing_risk_pct s live = effective_max_risk_per_trade_pct s live * SIZING_HEADROOM"

subsection \<open>Notional of an automatic proposal\<close>

text \<open>
  The result is the amount and the \<open>details\<close> dictionary, or the exception that
  \<open>calculate_position_size\<close> raises.
\<close>

definition flat_notional :: "app_settings \<Rightarrow> pyfloat" where
  "flat_notional s = (if default_trade_amount_usd s = 0 then 1000 else default_trade_amount_usd s)"

definition notional_cap :: "app_settings \<Rightarrow> pyfloat" where
  "notional_cap s = min (flat_notional s)
     (if max_trade_amount_usd s = 0 then flat_notional s else max_trade_amount_usd s)"

definition risk_based_proposal_notional ::
    "app_settings \<Rightarrow> pyfloat option \<Rightarrow> pyfloat option \<Rightarrow> pyfloat option \<Rightarrow> exn + pyfloat \<times> pydict" where
  "risk_based_proposal_notional s entry_price stop_price equity_usd =
     (let flat = flat_notional s; cap = notional_cap s;
          details = [(''sizing_mode'', PStr ''flat_default''), (''amount_usd'', PFloat flat)];
          entry = (case entry_price of None \<Rightarrow> 0 | Some x \<Rightarrow> x);
          stop = (case stop_price of None \<Rightarrow> 0 | Some x \<Rightarrow> x);
          equity = (case equity_usd of None \<Rightarrow> 0 | Some x \<Rightarrow> x)
      in if \<not> auto_propose_risk_based_sizing s then Inr (flat, details)
         else if entry \<le> 0 \<or> stop \<le> 0 \<or> entry = stop \<or> equity \<le> 0
           then Inr (flat, details @ [(''fallback_reason'', PStr ''missing_entry_stop_or_equity'')])
         else
           let live = (exec_mode s = Mode_live); risk_pct = sizing_risk_pct s live
           in case calculate_position_size equity risk_pct entry stop 1 of
                Inl e \<Rightarrow> Inl e
              | Inr sized \<Rightarrow>
                  let amount = py_round 2 (min (psr_amount_usd sized) cap);
                      stop_distance_pct = \<bar>entry - stop\<bar> / entry * 100
                  in Inr (amount, [
                       (''sizing_mode'', PStr ''risk_based''), (''amount_usd'', PFloat amount),
                       (''uncapped_amount_usd'', PFloat (psr_amount_usd sized)),
                       (''notional_cap_usd'', PFloat cap), (''capped'', PBool (cap < psr_amount_usd sized)),
                       (''risk_pct'', PFloat risk_pct),
                       (''risk_budget_usd'', PFloat (psr_risk_amount_usd sized)),
                       (''effective_risk_usd'', PFloat (py_round 2 (amount * stop_distance_pct / 100))),
                       (''stop_distance_pct'', PFloat (py_round 4 stop_distance_pct)),
                       (''equity_usd'', PFloat equity)]))"

subsection \<open>Volatility target, Kelly, heat, governor\<close>

definition volatility_target_quantity ::
    "pyfloat \<Rightarrow> pyfloat \<Rightarrow> pyfloat \<Rightarrow> pyfloat \<Rightarrow> pyfloat \<Rightarrow> pyfloat \<Rightarrow> pyfloat" where
  "volatility_target_quantity equity_usd target_daily_vol_pct atr price weight max_position_pct =
     (if equity_usd \<le> 0 \<or> atr \<le> 0 \<or> price \<le> 0 \<or> target_daily_vol_pct \<le> 0 then 0
      else
        let w = max weight 0;
            target = equity_usd * w * (target_daily_vol_pct / 100);
            quantity = target / atr;
            capped = (if 0 < max_position_pct
              then min quantity (equity_usd * (max_position_pct / 100) / price) else quantity)
        in max capped 0)"

definition fractional_kelly_weight :: "pyfloat \<Rightarrow> pyfloat \<Rightarrow> pyfloat \<Rightarrow> pyfloat \<Rightarrow> pyfloat" where
  "fractional_kelly_weight win_rate win_loss_ratio fraction cap =
     (if win_loss_ratio \<le> 0 then 0
      else
        let w0 = (if 1 < win_rate then win_rate / 100 else win_rate);
            w = min (max w0 0) 1;
            kelly = w - (1 - w) / win_loss_ratio
        in if kelly \<le> 0 then 0 else min (kelly * max fraction 0) (max cap 0))"

definition used_risk :: "pyfloat list \<Rightarrow> pyfloat" where
  "used_risk risks = sum_list (map (\<lambda>r. max r 0) risks)"

definition portfolio_heat_pct :: "pyfloat list \<Rightarrow> pyfloat \<Rightarrow> pyfloat" where
  "portfolio_heat_pct open_risks equity_usd =
     (if equity_usd \<le> 0 then 0 else used_risk open_risks / equity_usd * 100)"

definition heat_budget_remaining_usd :: "pyfloat list \<Rightarrow> pyfloat \<Rightarrow> pyfloat \<Rightarrow> pyfloat" where
  "heat_budget_remaining_usd open_risks equity_usd max_heat_pct =
     (if equity_usd \<le> 0 \<or> max_heat_pct \<le> 0 then 0
      else max (equity_usd * (max_heat_pct / 100) - used_risk open_risks) 0)"

definition fits_within_heat :: "pyfloat \<Rightarrow> pyfloat list \<Rightarrow> pyfloat \<Rightarrow> pyfloat \<Rightarrow> bool" where
  "fits_within_heat new_risk open_risks equity_usd max_heat_pct =
     (max new_risk 0 \<le> heat_budget_remaining_usd open_risks equity_usd max_heat_pct + 1 / 10 ^ 9)"

definition drawdown_governor_multiplier :: "pyfloat \<Rightarrow> pyfloat \<Rightarrow> pyfloat \<Rightarrow> pyfloat \<Rightarrow> pyfloat" where
  "drawdown_governor_multiplier drawdown_pct soft_pct hard_pct floor0 =
     (let dd = \<bar>drawdown_pct\<bar>; soft = \<bar>soft_pct\<bar>; hard = \<bar>hard_pct\<bar>; fl = min (max floor0 0) 1 in
      if dd \<le> soft then 1
      else if hard \<le> soft \<or> hard \<le> dd then fl
      else
        let span = hard - soft; scaled = 1 - (dd - soft) / span * (1 - fl)
        in min (max scaled fl) 1)"

definition daily_drawdown_pct :: "pyfloat \<Rightarrow> pyfloat \<Rightarrow> pyfloat" where
  "daily_drawdown_pct daily_realized_pnl_usd equity_usd =
     (if equity_usd \<le> 0 then 0 else - min 0 daily_realized_pnl_usd / equity_usd * 100)"

definition time_stop_hit :: "int \<Rightarrow> int option \<Rightarrow> bool" where
  "time_stop_hit bars_held max_bars =
     (case max_bars of None \<Rightarrow> False | Some m \<Rightarrow> if m \<le> 0 then False else m \<le> bars_held)"

subsection \<open>Lemmas\<close>

lemma calculate_position_size_InrD:
  assumes "calculate_position_size bal risk entry stop lev = Inr r"
  shows "0 < bal" "0 < entry" "0 < stop" "entry \<noteq> stop" "1 \<le> lev"
    "psr_amount_usd r = py_round 2 (bal * (risk / 100) / (\<bar>entry - stop\<bar> / entry) / of_int lev)"
    "psr_quantity r = py_round 6 (bal * (risk / 100) / (\<bar>entry - stop\<bar> / entry) / entry)"
    "psr_risk_amount_usd r = py_round 2 (bal * (risk / 100))"
  using assms by (auto simp: calculate_position_size_def Let_def split: if_splits)

lemma py_round_bounds: "py_round n x \<le> x + 1 / (2 * 10 ^ n)" "x - 1 / (2 * 10 ^ n) \<le> py_round n x"
  using py_round_error [of n x] by linarith+

text \<open>The amount a sized proposal asks for never exceeds the uncapped size.\<close>

lemma round_min_le_sized: "has_decimals 2 sized \<Longrightarrow> py_round 2 (min sized cap) \<le> sized"
  by (rule py_round_le_fixed) simp_all

lemma risk_based_InrD:
  assumes "risk_based_proposal_notional s (Some entry) (Some stop) (Some equity) = Inr (amount, d)"
    and "auto_propose_risk_based_sizing s" "0 < entry" "0 < stop" "entry \<noteq> stop" "0 < equity"
  obtains r where
    "calculate_position_size equity (sizing_risk_pct s (exec_mode s = Mode_live)) entry stop 1 = Inr r"
    "amount = py_round 2 (min (psr_amount_usd r) (notional_cap s))"
  using assms by (auto simp: risk_based_proposal_notional_def Let_def split: sum.splits)

lemma sized_amount_bound:
  assumes "calculate_position_size equity pct entry stop 1 = Inr r"
  shows "py_round 2 (min (psr_amount_usd r) cap) \<le>
    equity * (pct / 100) / (\<bar>entry - stop\<bar> / entry) + 1 / 200"
proof -
  note r = calculate_position_size_InrD [OF assms]
  have "py_round 2 (min (psr_amount_usd r) cap) \<le> psr_amount_usd r"
    by (rule round_min_le_sized) (simp add: r)
  also have "\<dots> \<le> equity * (pct / 100) / (\<bar>entry - stop\<bar> / entry) + 1 / 200"
    using py_round_bounds(1) [of 2] r(6) by simp
  finally show ?thesis .
qed

text \<open>
  The risk of a sized proposal stays within the enforced per-trade cap: the headroom of 2%
  absorbs the rounding of the notional as soon as the account is not tiny.
\<close>

lemma sized_risk_within_cap:
  assumes "risk_based_proposal_notional s (Some entry) (Some stop) (Some equity) = Inr (amount, d)"
    and sizing: "auto_propose_risk_based_sizing s"
    and pos: "0 < entry" "0 < stop" "entry \<noteq> stop" "0 < equity"
    and cap: "cap = effective_max_risk_per_trade_pct s (exec_mode s = Mode_live)"
    and room: "25 * (\<bar>entry - stop\<bar> / entry) \<le> cap * equity"
  shows "estimate_risk_amount entry stop amount 1 / equity * 100 \<le> cap"
proof -
  obtain r where r: "calculate_position_size equity (sizing_risk_pct s (exec_mode s = Mode_live)) entry stop 1 = Inr r"
    and amount: "amount = py_round 2 (min (psr_amount_usd r) (notional_cap s))"
    using risk_based_InrD [OF assms(1) sizing pos] by blast
  define dist where "dist = \<bar>entry - stop\<bar> / entry"
  have dist: "0 < dist" using pos by (simp add: dist_def)
  define budget where "budget = equity * (cap * SIZING_HEADROOM / 100)"
  have "amount \<le> budget / dist + 1 / 200"
    using sized_amount_bound [OF r, of "notional_cap s"] amount
    by (simp add: sizing_risk_pct_def cap dist_def budget_def)
  then have "amount * dist \<le> (budget / dist + 1 / 200) * dist"
    using dist by (intro mult_right_mono) auto
  also have "\<dots> = budget + dist / 200" using dist by (simp add: field_simps)
  also have "\<dots> \<le> equity * cap / 100"
    using room unfolding dist_def [symmetric] by (simp add: budget_def SIZING_HEADROOM_def field_simps)
  finally have "amount * dist \<le> equity * cap / 100" .
  then show ?thesis
    using pos by (simp add: estimate_risk_amount_def Let_def dist_def field_simps)
qed

lemma used_risk_nonneg: "0 \<le> used_risk rs"
  by (auto simp: used_risk_def intro!: sum_list_nonneg)

lemma used_risk_Cons [simp]: "used_risk (r # rs) = max r 0 + used_risk rs"
  by (simp add: used_risk_def)

text \<open>The risk of an order grows with its notional.\<close>

lemma estimate_risk_amount_mono:
  assumes "a' \<le> a" "0 < entry" "0 \<le> lev"
  shows "estimate_risk_amount entry stop a' lev \<le> estimate_risk_amount entry stop a lev"
proof -
  have "a' * of_int lev \<le> a * of_int lev" using assms by (intro mult_right_mono) auto
  then have "a' * of_int lev * (\<bar>entry - stop\<bar> / entry) \<le> a * of_int lev * (\<bar>entry - stop\<bar> / entry)"
    using assms by (intro mult_right_mono) auto
  then show ?thesis by (simp add: estimate_risk_amount_def Let_def)
qed

lemma fits_within_heat_antimono:
  "fits_within_heat r rs e m \<Longrightarrow> r' \<le> r \<Longrightarrow> fits_within_heat r' rs e m"
  by (auto simp: fits_within_heat_def)

text \<open>The clamped floor of the governor, and the ramp between soft and hard.\<close>

lemma governor_ramp_bounds:
  assumes "soft < dd" "dd < hard" "0 \<le> fl" "fl \<le> (1::rat)"
  shows "fl \<le> 1 - (dd - soft) / (hard - soft) * (1 - fl)" "1 - (dd - soft) / (hard - soft) * (1 - fl) \<le> 1"
proof -
  have k: "0 \<le> (dd - soft) / (hard - soft)" "(dd - soft) / (hard - soft) \<le> 1"
    using assms by (simp_all add: field_simps)
  then show "1 - (dd - soft) / (hard - soft) * (1 - fl) \<le> 1" using assms by simp
  have "(dd - soft) / (hard - soft) * (1 - fl) \<le> 1 * (1 - fl)"
    using k assms by (intro mult_right_mono) auto
  then show "fl \<le> 1 - (dd - soft) / (hard - soft) * (1 - fl)" by simp
qed

lemma governor_closed_form:
  assumes "soft < dd" "dd < hard" "0 \<le> soft" "fl = min (max f 0) 1"
  shows "drawdown_governor_multiplier dd soft hard f = 1 - (dd - soft) / (hard - soft) * (1 - fl)"
  using assms governor_ramp_bounds [of soft dd hard fl]
  by (simp add: drawdown_governor_multiplier_def Let_def)

lemma governor_abs: "drawdown_governor_multiplier dd soft hard f =
    drawdown_governor_multiplier \<bar>dd\<bar> \<bar>soft\<bar> \<bar>hard\<bar> f"
  by (simp add: drawdown_governor_multiplier_def)

lemma governor_bounds:
  "min (max f 0) 1 \<le> drawdown_governor_multiplier dd soft hard f"
  "drawdown_governor_multiplier dd soft hard f \<le> 1"
  by (auto simp: drawdown_governor_multiplier_def Let_def)

lemma governor_antimono_nonneg:
  assumes "0 \<le> a" "a \<le> b" "0 \<le> soft"
  shows "drawdown_governor_multiplier b soft hard f \<le> drawdown_governor_multiplier a soft hard f"
proof (cases "soft < a \<and> b < \<bar>hard\<bar>")
  case True
  let ?fl = "min (max f 0) 1"
  have m: "drawdown_governor_multiplier c soft hard f = 1 - (c - soft) / (\<bar>hard\<bar> - soft) * (1 - ?fl)"
    if "soft < c" "c < \<bar>hard\<bar>" for c
    using that assms governor_closed_form [of soft c "\<bar>hard\<bar>" ?fl f] governor_abs [of c soft hard f] by simp
  have "(a - soft) / (\<bar>hard\<bar> - soft) \<le> (b - soft) / (\<bar>hard\<bar> - soft)"
    using True assms by (intro divide_right_mono) auto
  then have "(a - soft) / (\<bar>hard\<bar> - soft) * (1 - ?fl) \<le> (b - soft) / (\<bar>hard\<bar> - soft) * (1 - ?fl)"
    by (intro mult_right_mono) auto
  with True assms m [of a] m [of b] show ?thesis by simp
next
  case False
  then consider "a \<le> soft" | "soft < a" "\<bar>hard\<bar> \<le> b" by linarith
  then show ?thesis
  proof cases
    case 1
    then have "drawdown_governor_multiplier a soft hard f = 1"
      using assms by (simp add: drawdown_governor_multiplier_def)
    then show ?thesis using governor_bounds(2) [of b soft hard f] by simp
  next
    case 2
    then have "drawdown_governor_multiplier b soft hard f = min (max f 0) 1"
      using assms by (simp add: drawdown_governor_multiplier_def)
    then show ?thesis using governor_bounds(1) [of f a soft hard] by simp
  qed
qed

subsection \<open>Properties\<close>

text \<open>
  fixed-fraction sizing spends the risk budget. When \<open>calculate_position_size\<close>
  returns, the quantity times the stop distance is the risk budget up to the rounding of
  the quantity to 6 decimals, the leveraged amount is the gross exposure up to the rounding
  to cents, and all inputs were admissible; on any inadmissible input it raises.
\<close>

theorem position_size_spends_budget:
  assumes "calculate_position_size bal risk entry stop lev = Inr r"
  shows "(0 < bal \<and> 0 < entry \<and> 0 < stop \<and> entry \<noteq> stop \<and> 1 \<le> lev) \<and>
    (\<bar>psr_quantity r * \<bar>entry - stop\<bar> - bal * risk / 100\<bar> \<le> \<bar>entry - stop\<bar> / (2 * 10 ^ 6)) \<and>
    (\<bar>psr_amount_usd r * of_int lev * \<bar>entry - stop\<bar> - bal * risk / 100 * entry\<bar>
          \<le> of_int lev * \<bar>entry - stop\<bar> / 200) \<and>
    (0 < psr_amount_usd r \<and> 0 < psr_quantity r \<and> 0 < psr_risk_amount_usd r)"
proof (rule conj4I)
  note r = calculate_position_size_InrD [OF assms]
  show "0 < bal \<and> 0 < entry \<and> 0 < stop \<and> entry \<noteq> stop \<and> 1 \<le> lev" using r by simp
  show "0 < psr_amount_usd r \<and> 0 < psr_quantity r \<and> 0 < psr_risk_amount_usd r"
    using assms by (auto simp: calculate_position_size_def Let_def mult.assoc split: if_splits)
  define d where "d = \<bar>entry - stop\<bar>"
  have d: "0 < d" using r by (simp add: d_def)
  define B where "B = bal * risk / 100"
  define L where "L = (of_int lev :: rat)"
  have L: "1 \<le> L" using r(5) by (simp add: L_def)
  have q: "\<bar>psr_quantity r - B / d\<bar> \<le> 1 / (2 * 10 ^ 6)"
    using py_round_error [of 6 "B / d"] r d by (simp add: B_def d_def field_simps)
  have "psr_quantity r * d - B = (psr_quantity r - B / d) * d" using d by (simp add: field_simps)
  then have "\<bar>psr_quantity r * d - B\<bar> = \<bar>psr_quantity r - B / d\<bar> * d" using d by (simp add: abs_mult)
  also have "\<dots> \<le> 1 / (2 * 10 ^ 6) * d" using q d by (intro mult_right_mono) auto
  finally show "\<bar>psr_quantity r * \<bar>entry - stop\<bar> - bal * risk / 100\<bar> \<le> \<bar>entry - stop\<bar> / (2 * 10 ^ 6)"
    by (simp add: d_def B_def)
  have a: "\<bar>psr_amount_usd r - B * entry / (d * L)\<bar> \<le> 1 / 200"
    using py_round_error [of 2 "B * entry / (d * L)"] r d L by (simp add: B_def d_def L_def field_simps)
  have "psr_amount_usd r * L * d - B * entry = (psr_amount_usd r - B * entry / (d * L)) * (L * d)"
    using d L by (simp add: field_simps)
  then have "\<bar>psr_amount_usd r * L * d - B * entry\<bar> = \<bar>psr_amount_usd r - B * entry / (d * L)\<bar> * (L * d)"
    using d L by (simp add: abs_mult)
  also have "\<dots> \<le> 1 / 200 * (L * d)" using a d L by (intro mult_right_mono) auto
  finally show "\<bar>psr_amount_usd r * of_int lev * \<bar>entry - stop\<bar> - bal * risk / 100 * entry\<bar>
      \<le> of_int lev * \<bar>entry - stop\<bar> / 200"
    by (simp add: d_def B_def L_def)
qed

theorem position_size_spends_budget_witness:
  "calculate_position_size 10000 1 50 49 1 = Inr \<lparr>psr_amount_usd = 5000, psr_quantity = 100, psr_risk_amount_usd = 100\<rparr>
   \<and> \<bar>100 * \<bar>50 - 49\<bar> - 10000 * 1 / (100::rat)\<bar> \<le> \<bar>50 - 49\<bar> / (2 * 10 ^ 6)"
proof -
  have h: "calculate_position_size 10000 1 50 49 1 =
      Inr \<lparr>psr_amount_usd = 5000, psr_quantity = 100, psr_risk_amount_usd = 100\<rparr>"
    by code_simp
  show ?thesis using h position_size_spends_budget [THEN conjunct2, THEN conjunct1, OF h] by simp
qed

text \<open>
  the drawdown governor. The multiplier always lies between the clamped floor and 1, it
  is 1 up to the soft threshold, the floor from the hard threshold on, and a deeper
  drawdown never gives a larger multiplier.
\<close>

theorem governor_monotone_ramp:
  shows "(min (max f 0) 1 \<le> drawdown_governor_multiplier dd soft hard f \<and>
         drawdown_governor_multiplier dd soft hard f \<le> 1) \<and>
    (\<bar>dd\<bar> \<le> \<bar>soft\<bar> \<longrightarrow> drawdown_governor_multiplier dd soft hard f = 1) \<and>
    (\<bar>soft\<bar> < \<bar>dd\<bar> \<longrightarrow> \<bar>hard\<bar> \<le> \<bar>dd\<bar> \<longrightarrow>
         drawdown_governor_multiplier dd soft hard f = min (max f 0) 1) \<and>
    (\<bar>dd\<bar> \<le> \<bar>dd'\<bar> \<longrightarrow>
         drawdown_governor_multiplier dd' soft hard f \<le> drawdown_governor_multiplier dd soft hard f)"
proof (rule conj4I; (intro impI)?)
  show "min (max f 0) 1 \<le> drawdown_governor_multiplier dd soft hard f \<and>
        drawdown_governor_multiplier dd soft hard f \<le> 1"
    using governor_bounds by blast
  show "\<bar>dd\<bar> \<le> \<bar>soft\<bar> \<Longrightarrow> drawdown_governor_multiplier dd soft hard f = 1"
    by (simp add: drawdown_governor_multiplier_def)
  show "\<bar>soft\<bar> < \<bar>dd\<bar> \<Longrightarrow> \<bar>hard\<bar> \<le> \<bar>dd\<bar> \<Longrightarrow>
        drawdown_governor_multiplier dd soft hard f = min (max f 0) 1"
    by (simp add: drawdown_governor_multiplier_def)
  assume "\<bar>dd\<bar> \<le> \<bar>dd'\<bar>"
  then show "drawdown_governor_multiplier dd' soft hard f \<le> drawdown_governor_multiplier dd soft hard f"
    using governor_antimono_nonneg [of "\<bar>dd\<bar>" "\<bar>dd'\<bar>" "\<bar>soft\<bar>" "\<bar>hard\<bar>" f]
      governor_abs [of dd soft hard f] governor_abs [of dd' soft hard f] by simp
qed

theorem governor_monotone_ramp_witness:
  "drawdown_governor_multiplier 3 2 5 (1/4) = 3/4 \<and> drawdown_governor_multiplier (-1) 2 5 (1/4) = 1 \<and>
   drawdown_governor_multiplier 6 2 5 (1/4) = 1/4 \<and>
   drawdown_governor_multiplier 4 2 5 (1/4) \<le> drawdown_governor_multiplier 3 2 5 (1/4)"
proof -
  have "drawdown_governor_multiplier 3 2 5 (1/4) = 3/4" by code_simp
  moreover have "drawdown_governor_multiplier (-1) 2 5 (1/4) = 1"
    by (rule governor_monotone_ramp [THEN conjunct2, THEN conjunct1, THEN mp]) simp
  moreover have "drawdown_governor_multiplier 6 2 5 (1/4) = min (max (1/4) 0) 1"
    by (rule governor_monotone_ramp [THEN conjunct2, THEN conjunct2, THEN conjunct1, THEN mp, THEN mp]) simp_all
  moreover have "drawdown_governor_multiplier 4 2 5 (1/4) \<le> drawdown_governor_multiplier 3 2 5 (1/4)"
    by (rule governor_monotone_ramp [THEN conjunct2, THEN conjunct2, THEN conjunct2, THEN mp]) simp
  ultimately show ?thesis by simp
qed

text \<open>
  the portfolio-heat check is the aggregate cap. For a positive equity, a positive heat
  limit and a new trade that risks more than the tolerance of 1e-9, \<open>fits_within_heat\<close>
  accepts exactly when the summed open risk including the new trade is at most the heat
  budget plus the tolerance.
\<close>

theorem heat_check_is_aggregate_cap:
  assumes "0 < equity" "0 < max_heat" "1 / 10 ^ 9 < new_risk"
  shows "fits_within_heat new_risk open_risks equity max_heat \<longleftrightarrow>
    used_risk (new_risk # open_risks) \<le> equity * (max_heat / 100) + 1 / 10 ^ 9"
  using assms by (auto simp: fits_within_heat_def heat_budget_remaining_usd_def max_def)

theorem heat_check_is_aggregate_cap_witness:
  "fits_within_heat 50 [100, -20, 400] 10000 6 \<longleftrightarrow> used_risk [50, 100, -20, 400] \<le> 10000 * (6 / 100) + 1 / 10 ^ 9"
  by (rule heat_check_is_aggregate_cap) simp_all

text \<open>
  volatility-target sizing. On positive inputs the quantity meets both the daily
  volatility target and the notional cap, and one of the two is attained: it is the largest
  quantity that respects both. On degenerate inputs it is 0.
\<close>

theorem volatility_target_tight:
  assumes "0 < equity" "0 < target" "0 < atr" "0 < price" "0 \<le> weight" "0 < max_pct"
  defines "q \<equiv> volatility_target_quantity equity target atr price weight max_pct"
  shows "(0 \<le> q) \<and>
    (q * atr \<le> equity * weight * (target / 100)) \<and>
    (q * price \<le> equity * (max_pct / 100)) \<and>
    (q * atr = equity * weight * (target / 100) \<or> q * price = equity * (max_pct / 100))"
proof (rule conj4I)
  define a where "a = equity * weight * (target / 100) / atr"
  define b where "b = equity * (max_pct / 100) / price"
  have nn: "0 \<le> a" "0 \<le> b" using assms by (simp_all add: a_def b_def)
  have q: "q = min a b" using assms nn by (simp add: q_def volatility_target_quantity_def a_def b_def)
  show "0 \<le> q" using q nn by simp
  have "q * atr \<le> a * atr" using q assms by (intro mult_right_mono) auto
  then show "q * atr \<le> equity * weight * (target / 100)" using assms by (simp add: a_def)
  have "q * price \<le> b * price" using q assms by (intro mult_right_mono) auto
  then show "q * price \<le> equity * (max_pct / 100)" using assms by (simp add: b_def)
  show "q * atr = equity * weight * (target / 100) \<or> q * price = equity * (max_pct / 100)"
    using q assms by (auto simp: a_def b_def min_def)
qed

theorem volatility_target_tight_witness:
  "volatility_target_quantity 100000 1 2 50 1 10 * 50 \<le> 100000 * (10 / 100) \<and>
   volatility_target_quantity 100000 1 2 50 1 10 = 200"
proof -
  have "volatility_target_quantity 100000 1 2 50 1 10 * 50 \<le> 100000 * (10 / 100)"
    by (rule volatility_target_tight [THEN conjunct2, THEN conjunct2, THEN conjunct1]) simp_all
  moreover have "volatility_target_quantity 100000 1 2 50 1 10 = 200" by code_simp
  ultimately show ?thesis by simp
qed

text \<open>
  fractional Kelly never allocates without an edge. The weight lies between 0 and the
  (non-negative) cap for all inputs, and it is positive only when the raw Kelly fraction
  \<open>W - (1 - W) / R\<close> is positive, where the win rate may be a fraction or a percentage.
\<close>

theorem kelly_needs_edge:
  shows "(0 \<le> fractional_kelly_weight wr ratio fraction cap \<and>
         fractional_kelly_weight wr ratio fraction cap \<le> max cap 0) \<and>
    (0 < fractional_kelly_weight wr ratio fraction cap \<longrightarrow>
         0 < ratio \<and> (let w = min (max (if 1 < wr then wr / 100 else wr) 0) 1 in (1 - w) < w * ratio))"
proof (rule conjI; (intro impI)?)
  define w where "w = min (max (if 1 < wr then wr / 100 else wr) 0) 1"
  define k where "k = w - (1 - w) / ratio"
  have f: "fractional_kelly_weight wr ratio fraction cap =
      (if ratio \<le> 0 then 0 else if k \<le> 0 then 0 else min (k * max fraction 0) (max cap 0))"
    unfolding fractional_kelly_weight_def Let_def k_def w_def by (rule refl)
  have "0 \<le> k * max fraction 0" if "\<not> k \<le> 0" using that by simp
  with f show "0 \<le> fractional_kelly_weight wr ratio fraction cap \<and>
        fractional_kelly_weight wr ratio fraction cap \<le> max cap 0"
    by simp
  assume "0 < fractional_kelly_weight wr ratio fraction cap"
  with f have r: "0 < ratio" and k: "0 < k" by (auto split: if_splits)
  from k r have "(1 - w) < w * ratio" by (simp add: k_def field_simps)
  with r show "0 < ratio \<and> (let w = min (max (if 1 < wr then wr / 100 else wr) 0) 1 in (1 - w) < w * ratio)"
    by (simp add: w_def Let_def)
qed

theorem kelly_needs_edge_witness:
  "0 < fractional_kelly_weight 60 2 (1/2) (1/4) \<and>
   (0::rat) < 2 \<and> (let w = min (max (if (1::rat) < 60 then 60 / 100 else 60 :: rat) 0) 1 in (1 - w) < w * 2)"
proof -
  have h: "0 < fractional_kelly_weight 60 2 (1/2) (1/4)" by code_simp
  show ?thesis using h kelly_needs_edge [THEN conjunct2, THEN mp, OF h] by blast
qed

text \<open>
  the sizing helper can raise. Its module says that any missing or invalid input falls
  back to the flat default so that sizing can never block a proposal, but with a known entry,
  stop and equity of one dollar the rounded risk budget is 0 and the result model rejects it.
\<close>

theorem sizing_can_block_a_proposal:
  "\<exists>s e. auto_propose_risk_based_sizing s \<and> max_risk_per_trade_pct s = 1/2 \<and>
     risk_based_proposal_notional s (Some 100) (Some 95) (Some 1) = Inl e"
proof (intro exI conjI)
  let ?s = "default_settings\<lparr>auto_propose_risk_based_sizing := True, max_risk_per_trade_pct := 1/2\<rparr>"
  show "auto_propose_risk_based_sizing ?s" by simp
  show "max_risk_per_trade_pct ?s = 1/2" by simp
  show "risk_based_proposal_notional ?s (Some 100) (Some 95) (Some 1) =
      Inl (ValueError ''validation error for PositionSizingResult'')"
    by code_simp
qed

end
