(* ===== verification/Allocation.thy ===== *)
theory Allocation
  imports Sizing "HOL-Library.Product_Lexorder"
begin

text \<open>
  Portfolio-level evaluation: the allocator of src/app/risk/allocation.py and the drawdown
  and concentration evaluator of src/app/risk/portfolio.py.
\<close>

subsection \<open>Allocation across candidates\<close>

record allocation_candidate =
  ac_symbol :: string
  ac_strategy_name :: string
  ac_sector :: string
  ac_score :: pyfloat
  ac_annualized_volatility_pct :: pyfloat
  ac_correlation_bucket :: string
  ac_requested_amount_usd :: pyfloat

record allocation_decision =
  ad_symbol :: string
  ad_strategy_name :: string
  ad_amount_usd :: pyfloat
  ad_weight_pct :: pyfloat
  ad_blockers :: "string list"

record allocation_limits =
  al_equity :: pyfloat
  al_gross :: pyfloat
  al_symbol :: pyfloat
  al_sector :: pyfloat
  al_correlation :: pyfloat
  al_per_trade :: pyfloat

record allocation_state =
  as_gross_used :: pyfloat
  as_sector_used :: "(string \<times> pyfloat) list"
  as_correlation_used :: "(string \<times> pyfloat) list"

text \<open>\<open>sorted(candidates, key=(score, 1/vol), reverse=True)\<close>: descending and stable.\<close>

definition rank_candidates :: "allocation_candidate list \<Rightarrow> allocation_candidate list" where
  "rank_candidates cs = sort_key (\<lambda>c. (- ac_score c, - (1 / ac_annualized_volatility_pct c))) cs"

definition candidate_amount :: "allocation_limits \<Rightarrow> allocation_candidate \<Rightarrow> pyfloat" where
  "candidate_amount l c = min (ac_requested_amount_usd c) (min (al_per_trade l) (al_symbol l))"

definition allocation_blockers ::
    "allocation_limits \<Rightarrow> allocation_state \<Rightarrow> allocation_candidate \<Rightarrow> string list" where
  "allocation_blockers l st c = (let amount = candidate_amount l c in
     (if al_gross l < as_gross_used st + amount then [''gross_exposure_limit''] else []) @
     (if al_sector l < get_default (as_sector_used st) (ac_sector c) 0 + amount
      then [''sector_exposure_limit''] else []) @
     (if al_correlation l < get_default (as_correlation_used st) (ac_correlation_bucket c) 0 + amount
      then [''correlated_exposure_limit''] else []))"

definition accepted_amount ::
    "allocation_limits \<Rightarrow> allocation_state \<Rightarrow> allocation_candidate \<Rightarrow> pyfloat" where
  "accepted_amount l st c = (if allocation_blockers l st c \<noteq> [] then 0 else candidate_amount l c)"

definition allocation_charge ::
    "allocation_limits \<Rightarrow> allocation_state \<Rightarrow> allocation_candidate \<Rightarrow> allocation_state" where
  "allocation_charge l st c = (let a = accepted_amount l st c in
     if a \<noteq> 0 then st\<lparr>as_gross_used := as_gross_used st + a,
       as_sector_used := dict_add (ac_sector c) a (as_sector_used st),
       as_correlation_used := dict_add (ac_correlation_bucket c) a (as_correlation_used st)\<rparr>
     else st)"

definition allocation_decide ::
    "allocation_limits \<Rightarrow> allocation_state \<Rightarrow> allocation_candidate \<Rightarrow> allocation_decision" where
  "allocation_decide l st c = \<lparr>
     ad_symbol = py_upper (ac_symbol c), ad_strategy_name = ac_strategy_name c,
     ad_amount_usd = py_round 2 (accepted_amount l st c),
     ad_weight_pct = py_round 4 (accepted_amount l st c / al_equity l * 100),
     ad_blockers = allocation_blockers l st c \<rparr>"

fun allocate_loop ::
    "allocation_limits \<Rightarrow> allocation_state \<Rightarrow> allocation_candidate list \<Rightarrow> allocation_decision list" where
  "allocate_loop l st [] = []"
| "allocate_loop l st (c # cs) = allocation_decide l st c # allocate_loop l (allocation_charge l st c) cs"

definition mk_limits ::
    "pyfloat \<Rightarrow> pyfloat \<Rightarrow> pyfloat \<Rightarrow> pyfloat \<Rightarrow> pyfloat \<Rightarrow> pyfloat \<Rightarrow> allocation_limits" where
  "mk_limits equity gross_pct symbol_pct sector_pct correlation_pct per_trade = \<lparr>
     al_equity = equity, al_gross = equity * gross_pct / 100, al_symbol = equity * symbol_pct / 100,
     al_sector = equity * sector_pct / 100, al_correlation = equity * correlation_pct / 100,
     al_per_trade = per_trade \<rparr>"

definition allocate_candidates ::
    "allocation_candidate list \<Rightarrow> pyfloat \<Rightarrow> pyfloat \<Rightarrow> pyfloat \<Rightarrow> pyfloat \<Rightarrow> pyfloat \<Rightarrow> pyfloat
      \<Rightarrow> exn + allocation_decision list" where
  "allocate_candidates cs equity gross_pct symbol_pct sector_pct correlation_pct per_trade =
     (if equity \<le> 0 then Inl (ValueError ''equity_usd must be positive'')
      else Inr (allocate_loop (mk_limits equity gross_pct symbol_pct sector_pct correlation_pct per_trade)
        \<lparr>as_gross_used = 0, as_sector_used = [], as_correlation_used = []\<rparr> (rank_candidates cs)))"

subsection \<open>Portfolio drawdown and concentration\<close>

record portfolio_risk_snapshot =
  prs_equity_usd :: pyfloat
  prs_peak_equity_usd :: pyfloat
  prs_drawdown_pct :: pyfloat
  prs_gross_exposure_pct :: pyfloat
  prs_largest_symbol_exposure_pct :: pyfloat
  prs_largest_sector_exposure_pct :: pyfloat
  prs_largest_correlated_exposure_pct :: pyfloat
  prs_open_positions :: int
  prs_status :: string
  prs_blockers :: "string list"

definition drawdown_of :: "portfolio_risk_snapshot \<Rightarrow> pyfloat" where
  "drawdown_of p = max (prs_drawdown_pct p)
     (max ((prs_peak_equity_usd p - prs_equity_usd p) / prs_peak_equity_usd p * 100) 0)"

definition portfolio_evaluate :: "app_settings \<Rightarrow> portfolio_risk_snapshot \<Rightarrow> portfolio_risk_snapshot" where
  "portfolio_evaluate s p =
     (let dd = drawdown_of p;
          b0 = (if portfolio_hard_drawdown_pct s \<le> dd then [''portfolio_hard_drawdown_limit'']
                else if portfolio_soft_drawdown_pct s \<le> dd then [''portfolio_soft_drawdown_pause''] else []);
          st0 = (if portfolio_hard_drawdown_pct s \<le> dd then ''kill_switch''
                 else if portfolio_soft_drawdown_pct s \<le> dd then ''pause'' else ''ok'');
          blockers = b0 @
            (if portfolio_max_gross_exposure_pct s < prs_gross_exposure_pct p then [''gross_exposure_limit''] else []) @
            (if portfolio_max_symbol_exposure_pct s < prs_largest_symbol_exposure_pct p then [''symbol_exposure_limit''] else []) @
            (if portfolio_max_sector_exposure_pct s < prs_largest_sector_exposure_pct p then [''sector_exposure_limit''] else []) @
            (if portfolio_max_correlated_exposure_pct s < prs_largest_correlated_exposure_pct p
             then [''correlated_exposure_limit''] else []) @
            (if max_open_positions s < prs_open_positions p then [''open_position_limit''] else []);
          st = (if blockers \<noteq> [] \<and> st0 = ''ok'' then ''blocked'' else st0)
      in p\<lparr>prs_drawdown_pct := dd, prs_status := st, prs_blockers := blockers\<rparr>)"

subsection \<open>Lemmas\<close>

lemma allocation_unblocked:
  assumes "allocation_blockers l st c = []"
  shows "as_gross_used st + candidate_amount l c \<le> al_gross l"
    "get_default (as_sector_used st) (ac_sector c) 0 + candidate_amount l c \<le> al_sector l"
    "get_default (as_correlation_used st) (ac_correlation_bucket c) 0 + candidate_amount l c \<le> al_correlation l"
  using assms by (auto simp: allocation_blockers_def Let_def split: if_splits)

lemma charge_used [simp]:
  "as_gross_used (allocation_charge l st c) = as_gross_used st + accepted_amount l st c"
  "get_default (as_sector_used (allocation_charge l st c)) k 0 =
     get_default (as_sector_used st) k 0 + (if k = ac_sector c then accepted_amount l st c else 0)"
  "get_default (as_correlation_used (allocation_charge l st c)) k 0 =
     get_default (as_correlation_used st) k 0 + (if k = ac_correlation_bucket c then accepted_amount l st c else 0)"
  by (auto simp: allocation_charge_def Let_def get_default_dict_add)

lemma decide_amount_le: "ad_amount_usd (allocation_decide l st c) \<le> accepted_amount l st c + 1 / 200"
  using py_round_bounds(1) [of 2 "accepted_amount l st c"] by (simp add: allocation_decide_def)

text \<open>
  One budget of the allocator, abstractly: a reading \<open>used\<close> of the state that every accepted
  candidate in scope increases by its amount, and that no acceptance may push over \<open>limit\<close>.
  Whatever such a budget is, the (rounded) amounts handed out in its scope fit what is left
  of it, up to half a cent each.
\<close>

locale allocation_budget =
  fixes l :: allocation_limits
    and used :: "allocation_state \<Rightarrow> pyfloat"
    and scope :: "allocation_candidate \<Rightarrow> bool"
    and limit :: pyfloat
  assumes charge: "used (allocation_charge l st c) = used st + (if scope c then accepted_amount l st c else 0)"
    and guard: "scope c \<Longrightarrow> allocation_blockers l st c = [] \<Longrightarrow> used st + candidate_amount l c \<le> limit"
begin

lemma charge_within: "used st \<le> limit \<Longrightarrow> used (allocation_charge l st c) \<le> limit"
  using guard [of c st] by (simp add: charge accepted_amount_def)

lemma handed_out_within:
  "used st \<le> limit \<Longrightarrow>
   (\<Sum>(c, d)\<leftarrow>filter (\<lambda>(c, d). scope c) (zip cs (allocate_loop l st cs)). ad_amount_usd d)
     \<le> limit - used st + of_nat (length (filter scope cs)) / 200"
proof (induction cs arbitrary: st)
  case Nil
  then show ?case by simp
next
  case (Cons c cs)
  have "used (allocation_charge l st c) \<le> limit" by (rule charge_within [OF Cons.prems])
  from Cons.IH [OF this] decide_amount_le [of l st c] show ?case
    by (auto simp: charge add_divide_distrib)
qed

end

interpretation gross_budget: allocation_budget l as_gross_used "\<lambda>c. True" "al_gross l" for l
  by unfold_locales (auto dest: allocation_unblocked)

interpretation sector_budget: allocation_budget l "\<lambda>st. get_default (as_sector_used st) k 0"
    "\<lambda>c. ac_sector c = k" "al_sector l" for l k
  by unfold_locales (auto dest: allocation_unblocked)

interpretation correlation_budget: allocation_budget l "\<lambda>st. get_default (as_correlation_used st) k 0"
    "\<lambda>c. ac_correlation_bucket c = k" "al_correlation l" for l k
  by unfold_locales (auto dest: allocation_unblocked)

lemma length_allocate_loop [simp]: "length (allocate_loop l st cs) = length cs"
  by (induction cs arbitrary: st) auto

lemma allocate_loop_symbols: "map ad_symbol (allocate_loop l st cs) = map (\<lambda>c. py_upper (ac_symbol c)) cs"
  by (induction cs arbitrary: st) (auto simp: allocation_decide_def)

lemma allocate_loop_zip: "(c, d) \<in> set (zip cs (allocate_loop l st cs)) \<Longrightarrow> \<exists>st'. d = allocation_decide l st' c"
  by (induction cs arbitrary: st) auto

lemma length_rank [simp]: "length (rank_candidates cs) = length cs"
  by (simp add: rank_candidates_def)

lemma allocate_InrD:
  assumes "allocate_candidates cs equity gp sp scp cp pt = Inr ds"
  shows "0 < equity"
    "ds = allocate_loop (mk_limits equity gp sp scp cp pt)
       \<lparr>as_gross_used = 0, as_sector_used = [], as_correlation_used = []\<rparr> (rank_candidates cs)"
  using assms by (auto simp: allocate_candidates_def split: if_splits)

lemma accepted_amount_zero_or_bounded:
  "accepted_amount l st c = 0 \<or> accepted_amount l st c \<le> min (ac_requested_amount_usd c) (min (al_per_trade l) (al_symbol l))"
  by (auto simp: accepted_amount_def candidate_amount_def)

subsection \<open>Properties\<close>

text \<open>
  C35: the allocator enforces its exposure limits. With non-negative limits, the amounts it
  hands out in total, within any one sector and within any one correlation bucket stay
  within the corresponding percentage of equity, up to the rounding of each decision to
  cents; every candidate gets exactly one decision, in rank order.
\<close>

theorem allocation_respects_limits:
  assumes "allocate_candidates cs equity gp sp scp cp pt = Inr ds" "0 \<le> gp" "0 \<le> scp" "0 \<le> cp"
  shows "(map ad_symbol ds = map (\<lambda>c. py_upper (ac_symbol c)) (rank_candidates cs)) \<and>
    ((\<Sum>d\<leftarrow>ds. ad_amount_usd d) \<le> equity * gp / 100 + of_nat (length cs) / 200) \<and>
    ((\<Sum>(c, d)\<leftarrow>filter (\<lambda>(c, d). ac_sector c = k) (zip (rank_candidates cs) ds). ad_amount_usd d)
           \<le> equity * scp / 100 + of_nat (length (filter (\<lambda>c. ac_sector c = k) (rank_candidates cs))) / 200) \<and>
    ((\<Sum>(c, d)\<leftarrow>filter (\<lambda>(c, d). ac_correlation_bucket c = k) (zip (rank_candidates cs) ds). ad_amount_usd d)
           \<le> equity * cp / 100 + of_nat (length (filter (\<lambda>c. ac_correlation_bucket c = k) (rank_candidates cs))) / 200)"
proof (rule conj4I)
  let ?l = "mk_limits equity gp sp scp cp pt"
  let ?st = "\<lparr>as_gross_used = 0, as_sector_used = [], as_correlation_used = []\<rparr>"
  note eq = allocate_InrD [OF assms(1)]
  show "map ad_symbol ds = map (\<lambda>c. py_upper (ac_symbol c)) (rank_candidates cs)"
    by (simp add: eq allocate_loop_symbols)
  have "map (\<lambda>(c, d). ad_amount_usd d) (zip (rank_candidates cs) ds) = map ad_amount_usd (map snd (zip (rank_candidates cs) ds))"
    by (simp add: split_beta comp_def)
  also have "\<dots> = map ad_amount_usd ds" by (simp add: eq)
  finally have "(\<Sum>d\<leftarrow>ds. ad_amount_usd d) = (\<Sum>(c, d)\<leftarrow>zip (rank_candidates cs) ds. ad_amount_usd d)"
    by simp
  also have "\<dots> \<le> al_gross ?l - 0 + of_nat (length (rank_candidates cs)) / 200"
    using gross_budget.handed_out_within [of ?st ?l "rank_candidates cs"] eq assms by (simp add: mk_limits_def)
  finally show "(\<Sum>d\<leftarrow>ds. ad_amount_usd d) \<le> equity * gp / 100 + of_nat (length cs) / 200"
    by (simp add: mk_limits_def)
  show "(\<Sum>(c, d)\<leftarrow>filter (\<lambda>(c, d). ac_sector c = k) (zip (rank_candidates cs) ds). ad_amount_usd d)
      \<le> equity * scp / 100 + of_nat (length (filter (\<lambda>c. ac_sector c = k) (rank_candidates cs))) / 200"
    using sector_budget.handed_out_within [of ?st k ?l "rank_candidates cs"] eq assms by (simp add: mk_limits_def)
  show "(\<Sum>(c, d)\<leftarrow>filter (\<lambda>(c, d). ac_correlation_bucket c = k) (zip (rank_candidates cs) ds). ad_amount_usd d)
      \<le> equity * cp / 100 + of_nat (length (filter (\<lambda>c. ac_correlation_bucket c = k) (rank_candidates cs))) / 200"
    using correlation_budget.handed_out_within [of ?st k ?l "rank_candidates cs"] eq assms by (simp add: mk_limits_def)
qed

theorem allocation_respects_limits_witness:
  "\<exists>ds. allocate_candidates
      [\<lparr>ac_symbol = ''a'', ac_strategy_name = ''s'', ac_sector = ''x'', ac_score = 1,
        ac_annualized_volatility_pct = 10, ac_correlation_bucket = ''t'', ac_requested_amount_usd = 400\<rparr>,
       \<lparr>ac_symbol = ''b'', ac_strategy_name = ''s'', ac_sector = ''x'', ac_score = 2,
        ac_annualized_volatility_pct = 10, ac_correlation_bucket = ''t'', ac_requested_amount_usd = 700\<rparr>]
      1000 100 60 80 100 500 = Inr ds \<and> map ad_amount_usd ds = [500, 0]
      \<and> (\<Sum>d\<leftarrow>ds. ad_amount_usd d) \<le> 1000 * 100 / 100 + 2 / 200"
proof -
  let ?cs = "[\<lparr>ac_symbol = ''a'', ac_strategy_name = ''s'', ac_sector = ''x'', ac_score = 1,
        ac_annualized_volatility_pct = 10, ac_correlation_bucket = ''t'', ac_requested_amount_usd = 400\<rparr>,
       \<lparr>ac_symbol = ''b'', ac_strategy_name = ''s'', ac_sector = ''x'', ac_score = 2,
        ac_annualized_volatility_pct = 10, ac_correlation_bucket = ''t'', ac_requested_amount_usd = 700\<rparr>]"
  have ex: "map_sum (\<lambda>e. e) (map ad_amount_usd) (allocate_candidates ?cs 1000 100 60 80 100 500) = Inr [500, 0]"
    by code_simp
  then obtain ds where ds: "allocate_candidates ?cs 1000 100 60 80 100 500 = Inr ds" and am: "map ad_amount_usd ds = [500, 0]"
    by (cases "allocate_candidates ?cs 1000 100 60 80 100 500") auto
  from allocation_respects_limits [THEN conjunct2, THEN conjunct1, OF ds] have "(\<Sum>d\<leftarrow>ds. ad_amount_usd d) \<le> 1000 * 100 / 100 + of_nat (length ?cs) / 200"
    by simp
  with ds am show ?thesis by (intro exI [of _ ds]) simp
qed

text \<open>
  the portfolio evaluator. Its verdict is determined by the limits: \<open>kill_switch\<close>
  exactly from the hard drawdown on, \<open>pause\<close> between soft and hard, and otherwise \<open>ok\<close> exactly
  when there is no blocker at all; the recorded drawdown is never below the one implied by
  peak and current equity, and re-evaluating a verdict changes nothing.
\<close>

theorem portfolio_verdict:
  fixes s p
  defines "r \<equiv> portfolio_evaluate s p"
  shows "(prs_status r = ''kill_switch'' \<longleftrightarrow> portfolio_hard_drawdown_pct s \<le> drawdown_of p) \<and>
    (prs_status r = ''pause'' \<longleftrightarrow>
         portfolio_soft_drawdown_pct s \<le> drawdown_of p \<and> drawdown_of p < portfolio_hard_drawdown_pct s) \<and>
    (prs_status r = ''ok'' \<longleftrightarrow> prs_blockers r = []) \<and>
    ((prs_peak_equity_usd p - prs_equity_usd p) / prs_peak_equity_usd p * 100 \<le> prs_drawdown_pct r) \<and>
    (portfolio_evaluate s r = r)"
proof (rule conj5I)
  show "prs_status r = ''kill_switch'' \<longleftrightarrow> portfolio_hard_drawdown_pct s \<le> drawdown_of p"
    by (auto simp: r_def portfolio_evaluate_def Let_def)
  show "prs_status r = ''pause'' \<longleftrightarrow>
      portfolio_soft_drawdown_pct s \<le> drawdown_of p \<and> drawdown_of p < portfolio_hard_drawdown_pct s"
    by (auto simp: r_def portfolio_evaluate_def Let_def)
  show "prs_status r = ''ok'' \<longleftrightarrow> prs_blockers r = []"
    by (auto simp: r_def portfolio_evaluate_def Let_def)
  show "(prs_peak_equity_usd p - prs_equity_usd p) / prs_peak_equity_usd p * 100 \<le> prs_drawdown_pct r"
    by (simp add: r_def portfolio_evaluate_def Let_def drawdown_of_def)
  have "drawdown_of r = drawdown_of p"
    by (simp add: r_def portfolio_evaluate_def Let_def drawdown_of_def)
  then show "portfolio_evaluate s r = r"
    by (simp add: r_def portfolio_evaluate_def Let_def)
qed

end
