(* ===== verification/Router.thy ===== *)
theory Router
  imports Models
begin

text \<open>
  Broker selection (src/app/broker/router.py). A broker client is known by its identity and
  by the methods it has: the code probes them with \<open>hasattr\<close>.
\<close>

record client =
  cl_id :: string
  cl_class :: string
  cl_get_account_identity :: bool
  cl_is_supported_equity :: bool
  cl_submit_order :: bool
  cl_submit_bracket_order :: bool
  cl_submit_crypto_protected_order :: bool
  cl_open_market_order_by_amount :: bool
  cl_cancel_all_orders :: bool
  cl_close_all_positions :: bool
  cl_close_position :: bool

record broker_router =
  rt_alpaca :: "client option"
  rt_etoro :: "client option"
  rt_equities_choice :: broker_choice
  rt_non_equities_choice :: broker_choice
  rt_crypto_choice :: broker_choice
  rt_emergency_clients :: "client list"

text \<open>The order's asset class is an enum with a non-empty value, so \<open>_asset_class_of\<close> is its value.\<close>

definition asset_class_of :: "trade_proposal \<Rightarrow> asset_class" where
  "asset_class_of p = ord_asset_class (prop_order p)"

definition choice_for :: "broker_router \<Rightarrow> asset_class \<Rightarrow> broker_choice" where
  "choice_for r ac = (case ac of Equity \<Rightarrow> rt_equities_choice r | Crypto \<Rightarrow> rt_crypto_choice r
     | _ \<Rightarrow> rt_non_equities_choice r)"

definition client_or :: "client option \<Rightarrow> string \<Rightarrow> exn + client" where
  "client_or c msg = (case c of None \<Rightarrow> Inl (NoBrokerForAssetClass msg) | Some x \<Rightarrow> Inr x)"

definition select_broker_for :: "broker_router \<Rightarrow> trade_proposal \<Rightarrow> exn + client" where
  "select_broker_for r p =
     (let ac = asset_class_of p; suffix = '' configured for asset_class='' @ asset_class_value ac in
      case choice_for r ac of
        Use_alpaca \<Rightarrow> client_or (rt_alpaca r) (''alpaca client not'' @ suffix)
      | Use_etoro \<Rightarrow> client_or (rt_etoro r) (''etoro client not'' @ suffix)
      | Use_none \<Rightarrow> Inl (NoBrokerForAssetClass (''no broker'' @ suffix)))"

definition selected_broker_name_for :: "broker_router \<Rightarrow> trade_proposal \<Rightarrow> string" where
  "selected_broker_name_for r p = broker_choice_value (choice_for r (asset_class_of p))"

definition filter_opt :: "'a option list \<Rightarrow> 'a list" where
  "filter_opt xs = List.map_filter (\<lambda>x. x) xs"

text \<open>\<open>list(dict.fromkeys(clients))\<close> keeps the first occurrence of each client.\<close>

definition all_clients :: "broker_router \<Rightarrow> client list" where
  "all_clients r = rev (remdups (rev
     (filter_opt [rt_alpaca r, rt_etoro r] @ rt_emergency_clients r)))"

definition add_emergency_client :: "client option \<Rightarrow> broker_router \<Rightarrow> broker_router" where
  "add_emergency_client c r = (case c of None \<Rightarrow> r
     | Some x \<Rightarrow> if x \<in> set (rt_emergency_clients r) then r
                 else r\<lparr>rt_emergency_clients := rt_emergency_clients r @ [x]\<rparr>)"

subsection \<open>Properties\<close>

text \<open>
  routing follows the configuration. A selected client is the one configured under the
  name the router reports for the order's asset class, that name is never \<open>none\<close>, the client
  is covered by the emergency stop, and selection fails only when the configured choice is
  \<open>none\<close> or has no client.
\<close>

theorem select_broker_matches_configuration:
  "(case select_broker_for r p of
      Inr c \<Rightarrow> c \<in> set (all_clients r) \<and>
        ((selected_broker_name_for r p = ''alpaca'' \<and> rt_alpaca r = Some c) \<or>
         (selected_broker_name_for r p = ''etoro'' \<and> rt_etoro r = Some c))
    | Inl e \<Rightarrow> (\<exists>m. e = NoBrokerForAssetClass m) \<and>
        (choice_for r (asset_class_of p) = Use_none \<or>
         (choice_for r (asset_class_of p) = Use_alpaca \<and> rt_alpaca r = None) \<or>
         (choice_for r (asset_class_of p) = Use_etoro \<and> rt_etoro r = None)))"
  by (auto simp: select_broker_for_def selected_broker_name_for_def client_or_def all_clients_def filter_opt_def map_filter_def Let_def
      split: broker_choice.splits option.splits)

end
