(* ===== verification/Instruments.thy ===== *)
theory Instruments
  imports Models
begin

text \<open>
  Symbols and instruments: crypto pair recognition (src/app/broker/crypto.py), the allow
  and block policy (src/app/broker/instrument_resolver.py) and the sector and correlation
  maps (src/app/risk/sectors.py, src/app/intelligence/market_regime.py).
\<close>

subsection \<open>Crypto pairs\<close>

definition KNOWN_CRYPTO_BASES :: "string list" where
  "KNOWN_CRYPTO_BASES = [''BTC'', ''ETH'', ''SOL'', ''LTC'', ''LINK'', ''AVAX'', ''BCH'', ''UNI'',
     ''AAVE'', ''DOGE'', ''DOT'', ''MATIC'', ''USDT'', ''USDC'']"

definition QUOTES :: "string list" where
  "QUOTES = [''USD'', ''USDT'', ''USDC'']"

text \<open>\<open>raw.partition(sep)\<close> on a single character: before and after its first occurrence.\<close>

definition partition_at :: "char \<Rightarrow> string \<Rightarrow> string \<times> string" where
  "partition_at c s = (takeWhile (\<lambda>d. d \<noteq> c) s, drop 1 (dropWhile (\<lambda>d. d \<noteq> c) s))"

definition known_pair :: "string \<times> string \<Rightarrow> (string \<times> string) option" where
  "known_pair bq = (let b = py_strip (fst bq); q = py_strip (snd bq) in
     if b \<in> set KNOWN_CRYPTO_BASES \<and> q \<in> set QUOTES then Some (b, q) else None)"

text \<open>The loop over the quotes, longest first, for a concatenated pair.\<close>

fun split_concatenated :: "string \<Rightarrow> string list \<Rightarrow> (string \<times> string) option" where
  "split_concatenated raw [] = None"
| "split_concatenated raw (q # qs) =
     (let base = take (length raw - length q) raw in
      if py_endswith raw q \<and> base \<in> set KNOWN_CRYPTO_BASES then Some (base, q)
      else split_concatenated raw qs)"

definition crypto_split :: "string \<Rightarrow> (string \<times> string) option" where
  "crypto_split symbol =
     (let raw = py_upper (py_strip symbol) in
      if raw = [] then None
      else if CHR ''/'' \<in> set raw then known_pair (partition_at (CHR ''/'') raw)
      else if CHR ''-'' \<in> set raw then known_pair (partition_at (CHR ''-'') raw)
      else split_concatenated raw (sort_key (\<lambda>q. - int (length q)) QUOTES))"

definition is_crypto_symbol :: "string \<Rightarrow> bool" where
  "is_crypto_symbol symbol = (crypto_split symbol \<noteq> None)"

definition to_alpaca_symbol :: "string \<Rightarrow> exn + string" where
  "to_alpaca_symbol symbol = (case crypto_split symbol of
       None \<Rightarrow> Inl (ValueError (symbol @ '' is not a recognized crypto symbol''))
     | Some (b, q) \<Rightarrow> Inr (b @ ''/'' @ q))"

definition to_yfinance_symbol :: "string \<Rightarrow> exn + string" where
  "to_yfinance_symbol symbol = (case crypto_split symbol of
       None \<Rightarrow> Inl (ValueError (symbol @ '' is not a recognized crypto symbol''))
     | Some (b, q) \<Rightarrow> Inr (b @ ''-'' @ q))"

subsection \<open>Instrument policy\<close>

record supported_instrument =
  ins_symbol :: string
  ins_broker_symbol :: string
  ins_asset_class :: asset_class

definition DEFAULT_INSTRUMENTS :: "(string \<times> supported_instrument) list" where
  "DEFAULT_INSTRUMENTS =
     map (\<lambda>(s, c). (s, \<lparr>ins_symbol = s, ins_broker_symbol = s, ins_asset_class = c\<rparr>))
       [(''NVDA'', Equity), (''GOOG'', Equity), (''GOOGL'', Equity), (''AMD'', Equity), (''MU'', Equity),
        (''GOLD'', Gold)]"

definition catalog_or_equity :: "string \<Rightarrow> exn + supported_instrument" where
  "catalog_or_equity normalized = (case map_of DEFAULT_INSTRUMENTS normalized of
       Some ins \<Rightarrow> Inr ins
     | None \<Rightarrow>
         if \<not> py_isalnum (py_remove_char (CHR ''-'') (py_remove_char (CHR ''.'') normalized))
         then Inl (ValueError (''Instrument '' @ normalized @ '' is not a valid ticker symbol''))
         else Inr \<lparr>ins_symbol = normalized, ins_broker_symbol = normalized, ins_asset_class = Equity\<rparr>)"

text \<open>The canonical forms of the recognised pairs of an allowlist.\<close>

definition canonical_pairs :: "string list \<Rightarrow> string list" where
  "canonical_pairs syms = map (\<lambda>(b, q). b @ ''/'' @ q) (List.map_filter crypto_split syms)"

text \<open>\<open>Inr None\<close>: not a crypto matter; \<open>Inr (Some i)\<close>: an allowed pair; \<open>Inl e\<close>: refused.\<close>

definition resolve_crypto :: "app_settings \<Rightarrow> string \<Rightarrow> exn + supported_instrument option" where
  "resolve_crypto s normalized =
     (if \<not> crypto_trading_enabled s then Inr None
      else case to_alpaca_symbol normalized of
        Inl e \<Rightarrow> Inr None
      | Inr canonical \<Rightarrow>
          if canonical \<notin> set (canonical_pairs (crypto_symbols s))
          then Inl (ValueError (''Instrument '' @ canonical @ '' is not in the allowed crypto list''))
          else Inr (Some \<lparr>ins_symbol = canonical, ins_broker_symbol = canonical, ins_asset_class = Crypto\<rparr>))"

definition resolve :: "app_settings \<Rightarrow> string \<Rightarrow> exn + supported_instrument" where
  "resolve s symbol =
     (let normalized = py_strip (py_upper symbol) in
      if normalized \<in> set (blocked_instruments s)
      then Inl (ValueError (''Instrument '' @ normalized @ '' is explicitly blocked''))
      else case resolve_crypto s normalized of
        Inl e \<Rightarrow> Inl e
      | Inr (Some ins) \<Rightarrow> Inr ins
      | Inr None \<Rightarrow>
          if normalized \<notin> set (allowed_instruments s)
          then Inl (ValueError (''Instrument '' @ normalized @ '' is not in the allowed instrument list''))
          else catalog_or_equity normalized)"

text \<open>The loop of \<open>list_supported\<close> over the equity allowlist; a malformed ticker raises.\<close>

fun list_supported_equities :: "app_settings \<Rightarrow> string list \<Rightarrow> exn + supported_instrument list" where
  "list_supported_equities s [] = Inr []"
| "list_supported_equities s (sy # syms) =
     (let normalized = py_strip (py_upper sy) in
      if normalized \<noteq> [] \<and> normalized \<notin> set (blocked_instruments s)
      then case catalog_or_equity normalized of
             Inl e \<Rightarrow> Inl e
           | Inr ins \<Rightarrow> (case list_supported_equities s syms of Inl e \<Rightarrow> Inl e | Inr xs \<Rightarrow> Inr (ins # xs))
      else list_supported_equities s syms)"

definition list_supported :: "app_settings \<Rightarrow> exn + supported_instrument list" where
  "list_supported s = (case list_supported_equities s (allowed_instruments s) of
       Inl e \<Rightarrow> Inl e
     | Inr xs \<Rightarrow> Inr (xs @ (if crypto_trading_enabled s
         then map (\<lambda>c. \<lparr>ins_symbol = c, ins_broker_symbol = c, ins_asset_class = Crypto\<rparr>)
                (canonical_pairs (crypto_symbols s))
         else [])))"

subsection \<open>Sectors and correlation buckets\<close>

definition SECTOR_ETF_BY_SYMBOL :: "(string \<times> string) list" where
  "SECTOR_ETF_BY_SYMBOL = [
     (''AAPL'', ''XLK''), (''MSFT'', ''XLK''), (''NVDA'', ''SMH''), (''AMD'', ''SMH''),
     (''MU'', ''SMH''), (''AVGO'', ''SMH''), (''QCOM'', ''SMH''), (''AMAT'', ''SMH''),
     (''LRCX'', ''SMH''), (''KLAC'', ''SMH''), (''ANET'', ''IGV''), (''CRM'', ''IGV''),
     (''NOW'', ''IGV''), (''ORCL'', ''IGV''), (''ADBE'', ''IGV''), (''PANW'', ''HACK''),
     (''CRWD'', ''HACK''), (''SHOP'', ''XLY''), (''AMZN'', ''XLY''), (''TSLA'', ''XLY''),
     (''MCD'', ''XLY''), (''BKNG'', ''XLY''), (''NFLX'', ''XLC''), (''GOOG'', ''XLC''),
     (''GOOGL'', ''XLC''), (''META'', ''XLC''), (''DIS'', ''XLC''), (''JPM'', ''XLF''),
     (''BAC'', ''XLF''), (''WFC'', ''XLF''), (''GS'', ''XLF''), (''MS'', ''XLF''),
     (''AXP'', ''XLF''), (''BLK'', ''XLF''), (''UNH'', ''XLV''), (''LLY'', ''XLV''),
     (''JNJ'', ''XLV''), (''MRK'', ''XLV''), (''ABBV'', ''XLV''), (''ABT'', ''XLV''),
     (''PFE'', ''XLV''), (''AMGN'', ''XLV''), (''ISRG'', ''XLV''), (''XOM'', ''XLE''),
     (''CVX'', ''XLE''), (''COP'', ''XLE''), (''SLB'', ''XLE''), (''RTX'', ''XLI''),
     (''CAT'', ''XLI''), (''GE'', ''XLI''), (''DE'', ''XLI''), (''HON'', ''XLI''),
     (''UNP'', ''XLI''), (''BA'', ''XLI''), (''WMT'', ''XLP''), (''PG'', ''XLP''),
     (''KO'', ''XLP''), (''PEP'', ''XLP''), (''COST'', ''XLP''), (''HD'', ''XLY''),
     (''LOW'', ''XLY''), (''LIN'', ''XLB''), (''TMO'', ''XLV''), (''DHR'', ''XLV''),
     (''INTC'', ''SMH''), (''PLTR'', ''IWF''), (''SNOW'', ''IGV'')]"

definition CORRELATION_BUCKET_BY_SECTOR_ETF :: "(string \<times> string) list" where
  "CORRELATION_BUCKET_BY_SECTOR_ETF = [
     (''XLK'', ''tech_complex''), (''SMH'', ''tech_complex''), (''IGV'', ''tech_complex''),
     (''HACK'', ''tech_complex''), (''XLC'', ''tech_complex''), (''IWF'', ''tech_complex''),
     (''XLY'', ''consumer_cyclical''), (''XLP'', ''consumer_staples''), (''XLF'', ''financials''),
     (''XLV'', ''healthcare''), (''XLE'', ''energy''), (''XLI'', ''industrials''), (''XLB'', ''materials'')]"

definition BUCKET_OVERRIDES :: "(string \<times> string) list" where
  "BUCKET_OVERRIDES = [
     (''QQQ'', ''tech_complex''), (''CSCO'', ''tech_complex''), (''SPY'', ''broad_market''),
     (''IWM'', ''broad_market''), (''DIA'', ''broad_market'')]"

definition GICS_BY_SECTOR_ETF :: "(string \<times> string) list" where
  "GICS_BY_SECTOR_ETF = [
     (''XLK'', ''information_technology''), (''SMH'', ''information_technology''),
     (''IGV'', ''information_technology''), (''HACK'', ''information_technology''),
     (''IWF'', ''information_technology''), (''XLC'', ''communication_services''),
     (''XLY'', ''consumer_discretionary''), (''XLP'', ''consumer_staples''), (''XLF'', ''financials''),
     (''XLV'', ''health_care''), (''XLE'', ''energy''), (''XLI'', ''industrials''), (''XLB'', ''materials'')]"

definition GICS_OVERRIDES :: "(string \<times> string) list" where
  "GICS_OVERRIDES = [(''CSCO'', ''information_technology''), (''PYPL'', ''financials'')]"

definition UNKNOWN_SECTOR :: string where "UNKNOWN_SECTOR = ''unknown''"
definition UNKNOWN_BUCKET :: string where "UNKNOWN_BUCKET = ''unclassified''"

definition sector_for_symbol :: "string \<Rightarrow> string" where
  "sector_for_symbol symbol = get_default SECTOR_ETF_BY_SYMBOL (py_upper symbol) UNKNOWN_SECTOR"

definition correlation_bucket_for_symbol :: "string \<Rightarrow> string" where
  "correlation_bucket_for_symbol symbol = (case map_of BUCKET_OVERRIDES (py_upper symbol) of
       Some b \<Rightarrow> b
     | None \<Rightarrow> get_default CORRELATION_BUCKET_BY_SECTOR_ETF (sector_for_symbol symbol) UNKNOWN_BUCKET)"

definition gics_sector_for_symbol :: "string \<Rightarrow> string" where
  "gics_sector_for_symbol symbol = (let key = py_upper symbol in
     case map_of GICS_OVERRIDES key of
       Some g \<Rightarrow> g
     | None \<Rightarrow> get_default GICS_BY_SECTOR_ETF (sector_for_symbol key) UNKNOWN_SECTOR)"

subsection \<open>Laws\<close>

lemma known_pair_SomeD:
  "known_pair bq = Some (b, q) \<Longrightarrow> b \<in> set KNOWN_CRYPTO_BASES \<and> q \<in> set QUOTES"
  by (auto simp: known_pair_def Let_def split: if_splits)

lemma split_concatenated_SomeD:
  "split_concatenated raw qs = Some (b, q) \<Longrightarrow> b \<in> set KNOWN_CRYPTO_BASES \<and> q \<in> set qs"
  by (induction qs) (auto simp: Let_def split: if_splits)

lemma crypto_split_SomeD:
  "crypto_split s = Some (b, q) \<Longrightarrow> b \<in> set KNOWN_CRYPTO_BASES \<and> q \<in> set QUOTES"
  by (auto simp: crypto_split_def Let_def dest: known_pair_SomeD split_concatenated_SomeD split: if_splits)

text \<open>All three spellings of every known pair are split into that pair: a finite check.\<close>

lemma split_spellings_all:
  "list_all (\<lambda>b. list_all (\<lambda>q. crypto_split (b @ ''/'' @ q) = Some (b, q) \<and>
      crypto_split (b @ ''-'' @ q) = Some (b, q) \<and> crypto_split (b @ q) = Some (b, q)) QUOTES)
    KNOWN_CRYPTO_BASES"
  by code_simp

lemma split_spellings:
  assumes "crypto_split s = Some (b, q)"
  shows "crypto_split (b @ ''/'' @ q) = Some (b, q)" "crypto_split (b @ ''-'' @ q) = Some (b, q)"
    "crypto_split (b @ q) = Some (b, q)"
  using split_spellings_all crypto_split_SomeD [OF assms] by (auto simp: list_all_iff)

lemma base_quote_no_slash:
  "list_all (\<lambda>s. CHR ''/'' \<notin> set s) (KNOWN_CRYPTO_BASES @ QUOTES)"
  by code_simp

lemma remove_slash_pair:
  assumes "crypto_split s = Some (b, q)"
  shows "py_remove_char (CHR ''/'') (b @ ''/'' @ q) = b @ q"
proof -
  have "CHR ''/'' \<notin> set b" and "CHR ''/'' \<notin> set q"
    using crypto_split_SomeD [OF assms] base_quote_no_slash by (auto simp: list_all_iff)
  then have "filter (\<lambda>c. c \<noteq> CHR ''/'') b = b" and "filter (\<lambda>c. c \<noteq> CHR ''/'') q = q"
    by (auto intro: filter_True)
  then show ?thesis by (simp add: py_remove_char_def)
qed

lemma to_alpaca_symbol_Inr_iff:
  "to_alpaca_symbol s = Inr c \<longleftrightarrow> (\<exists>b q. crypto_split s = Some (b, q) \<and> c = b @ ''/'' @ q)"
  by (auto simp: to_alpaca_symbol_def split: option.splits)

text \<open>The canonical form of an allowlisted pair recognises that pair again.\<close>

lemma canonical_pairs_iff:
  "c \<in> set (canonical_pairs syms) \<longleftrightarrow> (\<exists>sy \<in> set syms. to_alpaca_symbol sy = Inr c)"
  by (force simp: canonical_pairs_def to_alpaca_symbol_def map_filter_def split: option.splits)

lemma resolve_crypto_Inr_Some_iff:
  "resolve_crypto s n = Inr (Some i) \<longleftrightarrow> crypto_trading_enabled s \<and>
     (\<exists>c. to_alpaca_symbol n = Inr c \<and> c \<in> set (canonical_pairs (crypto_symbols s)) \<and>
          i = \<lparr>ins_symbol = c, ins_broker_symbol = c, ins_asset_class = Crypto\<rparr>)"
  by (auto simp: resolve_crypto_def split: sum.splits if_splits)

lemma resolve_crypto_None_iff:
  "resolve_crypto s n = Inr None \<longleftrightarrow> \<not> (crypto_trading_enabled s \<and> is_crypto_symbol n)"
  by (auto simp: resolve_crypto_def is_crypto_symbol_def to_alpaca_symbol_def split: sum.splits option.splits if_splits)

lemma catalog_keys: "map_of DEFAULT_INSTRUMENTS n = Some i \<Longrightarrow>
    ins_symbol i = n \<and> ins_broker_symbol i = n \<and> ins_asset_class i \<noteq> Crypto"
  by (auto simp: DEFAULT_INSTRUMENTS_def split: if_splits)

lemma catalog_or_equity_Inr:
  "catalog_or_equity n = Inr i \<Longrightarrow> ins_symbol i = n \<and> ins_broker_symbol i = n \<and> ins_asset_class i \<noteq> Crypto"
  by (auto simp: catalog_or_equity_def dest: catalog_keys split: option.splits if_splits)

lemma resolve_Inr_cases:
  assumes "resolve s symbol = Inr i"
  obtains (crypto) c where "crypto_trading_enabled s"
      "to_alpaca_symbol (py_strip (py_upper symbol)) = Inr c"
      "c \<in> set (canonical_pairs (crypto_symbols s))"
      "i = \<lparr>ins_symbol = c, ins_broker_symbol = c, ins_asset_class = Crypto\<rparr>"
      "py_strip (py_upper symbol) \<notin> set (blocked_instruments s)"
  | (listed) "py_strip (py_upper symbol) \<in> set (allowed_instruments s)"
      "catalog_or_equity (py_strip (py_upper symbol)) = Inr i"
      "\<not> (crypto_trading_enabled s \<and> is_crypto_symbol (py_strip (py_upper symbol)))"
      "py_strip (py_upper symbol) \<notin> set (blocked_instruments s)"
proof -
  let ?n = "py_strip (py_upper symbol)"
  have nb: "?n \<notin> set (blocked_instruments s)"
    using assms by (auto simp: resolve_def Let_def)
  show thesis
  proof (cases "resolve_crypto s ?n")
    case (Inl e)
    with assms nb show ?thesis by (simp add: resolve_def Let_def)
  next
    case (Inr oi)
    show ?thesis
    proof (cases oi)
      case None
      with assms nb Inr have "?n \<in> set (allowed_instruments s)" "catalog_or_equity ?n = Inr i"
        by (auto simp: resolve_def Let_def split: if_splits)
      with nb Inr None show ?thesis by (intro listed) (auto simp: resolve_crypto_None_iff)
    next
      case (Some j)
      with assms nb Inr have "j = i" by (simp add: resolve_def Let_def)
      with nb Inr Some show ?thesis by (auto simp: resolve_crypto_Inr_Some_iff intro: crypto)
    qed
  qed
qed

subsection \<open>Properties\<close>

text \<open>
  C38: the canonical form of a crypto symbol is stable. Whatever spelling \<open>s\<close> the operator
  typed, \<open>to_alpaca_symbol\<close> of its canonical form, of its yfinance form and of the
  concatenated form all give the same canonical form.
\<close>

theorem crypto_forms_agree:
  assumes "to_alpaca_symbol s = Inr c"
  shows "(to_alpaca_symbol c = Inr c) \<and>
    (\<exists>y. to_yfinance_symbol s = Inr y \<and> to_alpaca_symbol y = Inr c) \<and>
    (to_alpaca_symbol (py_remove_char (CHR ''/'') c) = Inr c)"
proof (rule conj3I)
  from assms obtain b q where bq: "crypto_split s = Some (b, q)" and c: "c = b @ ''/'' @ q"
    by (auto simp: to_alpaca_symbol_Inr_iff)
  note forms = split_spellings [OF bq]
  show "to_alpaca_symbol c = Inr c"
    using forms by (simp add: c to_alpaca_symbol_def)
  show "\<exists>y. to_yfinance_symbol s = Inr y \<and> to_alpaca_symbol y = Inr c"
    using forms bq by (simp add: c to_alpaca_symbol_def to_yfinance_symbol_def)
  show "to_alpaca_symbol (py_remove_char (CHR ''/'') c) = Inr c"
    using forms remove_slash_pair [OF bq] by (simp add: c to_alpaca_symbol_def)
qed

theorem crypto_forms_agree_witness:
  "to_alpaca_symbol ''eth-usdt'' = Inr ''ETH/USDT'' \<and> to_alpaca_symbol ''ETH/USDT'' = Inr ''ETH/USDT''"
proof -
  have "to_alpaca_symbol ''eth-usdt'' = Inr ''ETH/USDT''" by code_simp
  with crypto_forms_agree [THEN conjunct1, OF this] show ?thesis by simp
qed

text \<open>
  the instrument policy. \<open>resolve\<close> succeeds exactly on symbols that, upper-cased and
  stripped, are not on the block list and are either (crypto enabled and a recognised
  pair) on the crypto allowlist in canonical form, or on the equity allowlist and a
  catalogued or well-formed ticker. Nothing outside the operator's lists ever resolves.
\<close>

theorem resolve_policy:
  "(\<exists>i. resolve s symbol = Inr i) \<longleftrightarrow>
   (let n = py_strip (py_upper symbol) in
    n \<notin> set (blocked_instruments s) \<and>
    (if crypto_trading_enabled s \<and> is_crypto_symbol n
     then \<exists>c. to_alpaca_symbol n = Inr c \<and> (\<exists>sy \<in> set (crypto_symbols s). to_alpaca_symbol sy = Inr c)
     else n \<in> set (allowed_instruments s) \<and>
       (n \<in> set (map fst DEFAULT_INSTRUMENTS) \<or>
        py_isalnum (py_remove_char (CHR ''-'') (py_remove_char (CHR ''.'') n)))))"
proof -
  let ?n = "py_strip (py_upper symbol)"
  have cat: "(\<exists>i. catalog_or_equity ?n = Inr i) \<longleftrightarrow> ?n \<in> set (map fst DEFAULT_INSTRUMENTS) \<or>
      py_isalnum (py_remove_char (CHR ''-'') (py_remove_char (CHR ''.'') ?n))"
    by (auto simp: catalog_or_equity_def map_of_eq_None_iff split: option.splits) (force dest: map_of_SomeD)+
  show ?thesis
  proof (cases "crypto_trading_enabled s \<and> is_crypto_symbol ?n")
    case True
    then obtain c where c: "to_alpaca_symbol ?n = Inr c"
      by (auto simp: is_crypto_symbol_def to_alpaca_symbol_def)
    with True show ?thesis
      by (auto simp: resolve_def Let_def resolve_crypto_def canonical_pairs_iff)
  next
    case False
    then have "resolve_crypto s ?n = Inr None" by (simp add: resolve_crypto_None_iff)
    with False cat show ?thesis by (auto simp: resolve_def Let_def)
  qed
qed

text \<open>
  a block-list entry for a crypto pair is bypassed by another spelling of the pair.
  The block list is compared with the typed symbol, not with the canonical one, so with
  \<open>BTC/USD\<close> blocked the symbol \<open>BTCUSD\<close> still resolves to the instrument \<open>BTC/USD\<close>.
\<close>

theorem block_list_bypassed_by_spelling:
  "\<exists>s i. ''BTC/USD'' \<in> set (blocked_instruments s) \<and>
     resolve s ''BTC/USD'' = Inl (ValueError ''Instrument BTC/USD is explicitly blocked'') \<and>
     resolve s ''BTCUSD'' = Inr i \<and> ins_symbol i = ''BTC/USD''"
proof (intro exI conjI)
  let ?s = "default_settings\<lparr>blocked_instruments := [''BTC/USD''], crypto_trading_enabled := True\<rparr>"
  let ?i = "\<lparr>ins_symbol = ''BTC/USD'', ins_broker_symbol = ''BTC/USD'', ins_asset_class = Crypto\<rparr>"
  show "''BTC/USD'' \<in> set (blocked_instruments ?s)" by simp
  show "resolve ?s ''BTC/USD'' = Inl (ValueError ''Instrument BTC/USD is explicitly blocked'')" by code_simp
  show "resolve ?s ''BTCUSD'' = Inr ?i" by code_simp
  show "ins_symbol ?i = ''BTC/USD''" by simp
qed

end
