(* ===== verification/Guardrails.thy ===== *)
theory Guardrails
  imports Sizing Instruments
begin

text \<open>
  The hard risk gate every order passes twice (at proposal and at execution):
  \<open>RiskManager.validate_order\<close> of src/app/risk/guardrails.py with the short-sale policy of
  src/app/risk/shorting.py. Each block of the source is one definition that returns the
  reasons it appends; \<open>validate_order\<close> concatenates them in the source's order. The abstract
  specification is \<open>order_admissible\<close>, one conjunct per limit.
\<close>

record risk_context =
  rc_account_balance :: pyfloat
  rc_daily_realized_pnl_usd :: pyfloat
  rc_weekly_realized_pnl_usd :: pyfloat
  rc_open_unrealized_pnl_usd :: pyfloat
  rc_open_positions :: int
  rc_positions_by_symbol :: "(string \<times> int) list"
  rc_exposure_by_symbol_pct :: "(string \<times> pyfloat) list"
  rc_exposure_by_sector_pct :: "(string \<times> pyfloat) list"
  rc_exposure_by_correlation_bucket_pct :: "(string \<times> pyfloat) list"
  rc_gross_exposure_pct :: pyfloat
  rc_correlated_exposure_pct :: pyfloat
  rc_portfolio_drawdown_pct :: pyfloat
  rc_consecutive_losses_today :: int
  rc_trades_today :: int
  rc_recently_stopped_symbols :: "string list"
  rc_entries_today_by_correlation_bucket :: "(string \<times> int) list"
  rc_open_trade_risks_usd :: "pyfloat list"
  rc_mode :: string

record risk_validation_result =
  rv_passed :: bool
  rv_reasons :: "string list"
  rv_risk_amount_usd :: pyfloat
  rv_risk_pct_of_balance :: pyfloat
  rv_room_authority :: string

subsection \<open>Short-sale policy\<close>

definition short_blockers :: "app_settings \<Rightarrow> trade_order \<Rightarrow> pyfloat \<Rightarrow> exn + string list" where
  "short_blockers s o1 account_equity_usd =
     (let md = ord_metadata o1; borrow_cost = dict_get md ''borrow_cost_annual_pct'';
          b1 = (if \<not> short_trading_enabled s then [''short_trading_disabled''] else []);
          b2 = (if account_equity_usd < short_minimum_account_equity_usd s
                then [''short_minimum_account_equity_not_met''] else []);
          b3 = (if short_require_easy_to_borrow s \<and> \<not> truthy (dict_get md ''easy_to_borrow'')
                then [''short_not_easy_to_borrow''] else []);
          b5 = (if short_require_margin_requirement s \<and> dict_get md ''margin_requirement_pct'' = PNone
                then [''short_margin_requirement_missing''] else [])
      in if ord_side o1 \<noteq> Sell \<or> \<not> truthy (dict_get md ''opens_short'') then Inr []
         else if borrow_cost = PNone then Inr (b1 @ b2 @ b3 @ [''short_borrow_cost_missing''] @ b5)
         else case to_float borrow_cost of
           Inl e \<Rightarrow> Inl e
         | Inr c \<Rightarrow> Inr (b1 @ b2 @ b3 @
             (if short_max_borrow_cost_annual_pct s < c then [''short_borrow_cost_above_limit''] else []) @ b5))"

subsection \<open>The checks of the gate\<close>

definition leverage_reasons :: "app_settings \<Rightarrow> trade_order \<Rightarrow> supported_instrument \<Rightarrow> string list" where
  [gate_defs]: "leverage_reasons s o1 ins =
     (let cap = leverage_cap_for_asset (ins_asset_class ins) (max_equity_leverage s) (max_gold_leverage s) in
      if cap < ord_leverage o1
      then [''Leverage '' @ show_int (ord_leverage o1) @ '' exceeds the cap of '' @ show_int cap @ '' for '' @
            asset_class_value (ins_asset_class ins)]
      else [])"

definition room_reasons ::
    "app_settings \<Rightarrow> trade_order \<Rightarrow> risk_context \<Rightarrow> string list option \<Rightarrow> string list" where
  [gate_defs]: "room_reasons s o1 ctx etoro_room =
     (if etoro_room = None \<and> max_open_positions s \<le> rc_open_positions ctx
      then [''Maximum number of open positions reached''] else []) @
     (case etoro_room of None \<Rightarrow> [] | Some rs \<Rightarrow> map (\<lambda>r. ''eToro live room: '' @ r) rs) @
     (if max_trades_per_day s \<le> rc_trades_today ctx
      then [''Maximum number of trades for today reached''] else []) @
     (if per_symbol_position_limit s \<le> get_default (rc_positions_by_symbol ctx) (py_upper (ord_symbol o1)) 0
      then [''Per-symbol position limit reached''] else [])"

definition cooldown_reasons :: "trade_order \<Rightarrow> risk_context \<Rightarrow> string list" where
  [gate_defs]: "cooldown_reasons o1 ctx =
     (if py_upper (ord_symbol o1) \<in> set (rc_recently_stopped_symbols ctx)
      then [''Re-entry cooldown after a losing exit on '' @ py_upper (ord_symbol o1)] else [])"

definition bucket_entry_reasons :: "app_settings \<Rightarrow> trade_order \<Rightarrow> risk_context \<Rightarrow> string list" where
  [gate_defs]: "bucket_entry_reasons s o1 ctx =
     (let cap = max_daily_entries_per_correlation_bucket s;
          bucket = correlation_bucket_for_symbol (ord_symbol o1);
          entries = get_default (rc_entries_today_by_correlation_bucket ctx) bucket 0
      in if 0 < cap \<and> bucket \<noteq> UNKNOWN_BUCKET \<and> cap \<le> entries
         then [''Daily entry cap of '' @ show_int cap @ '' reached for the '' @ bucket @ '' group''] else [])"

definition sector_held :: "trade_order \<Rightarrow> risk_context \<Rightarrow> int" where
  "sector_held o1 ctx = sum_list (map snd (filter (\<lambda>(symbol, count).
     0 < count \<and> py_upper symbol \<noteq> py_upper (ord_symbol o1) \<and>
     gics_sector_for_symbol symbol = gics_sector_for_symbol (ord_symbol o1)) (rc_positions_by_symbol ctx)))"

definition sector_position_reasons ::
    "app_settings \<Rightarrow> trade_order \<Rightarrow> risk_context \<Rightarrow> string list option \<Rightarrow> string list" where
  [gate_defs]: "sector_position_reasons s o1 ctx etoro_room =
     (let cap = max_open_positions_per_sector s; gics = gics_sector_for_symbol (ord_symbol o1) in
      if etoro_room = None \<and> 0 < cap \<and> ord_side o1 = Buy \<and> gics \<noteq> UNKNOWN_SECTOR \<and> cap \<le> sector_held o1 ctx
      then [''Open-position cap of '' @ show_int cap @ '' reached for the '' @
            py_replace_char (CHR ''_'') (CHR '' '') gics @ '' sector'']
      else [])"

definition open_loss :: "app_settings \<Rightarrow> risk_context \<Rightarrow> pyfloat" where
  "open_loss s ctx = (if loss_limit_includes_unrealized s then min 0 (rc_open_unrealized_pnl_usd ctx) else 0)"

definition loss_limit_reasons :: "app_settings \<Rightarrow> risk_context \<Rightarrow> string list" where
  [gate_defs]: "loss_limit_reasons s ctx =
     (if rc_daily_realized_pnl_usd ctx + open_loss s ctx \<le> - \<bar>max_daily_loss_usd s\<bar>
      then [''Daily loss limit has already been reached''] else []) @
     (if rc_weekly_realized_pnl_usd ctx + open_loss s ctx \<le> - \<bar>max_weekly_loss_usd s\<bar>
      then [''Weekly loss limit has already been reached''] else []) @
     (if max_consecutive_losses_before_cooldown s \<le> rc_consecutive_losses_today ctx
      then [''Trading halted after '' @ show_int (max_consecutive_losses_before_cooldown s) @
            '' consecutive losses today''] else []) @
     (if kill_switch_enabled s then [''Kill switch is enabled''] else [])"

definition drawdown_reasons :: "app_settings \<Rightarrow> risk_context \<Rightarrow> string list" where
  [gate_defs]: "drawdown_reasons s ctx =
     (if institutional_portfolio_controls_enabled s then
        (if portfolio_hard_drawdown_pct s \<le> rc_portfolio_drawdown_pct ctx
         then [''Portfolio hard drawdown limit reached'']
         else if portfolio_soft_drawdown_pct s \<le> rc_portfolio_drawdown_pct ctx
         then [''Portfolio soft drawdown pause reached''] else [])
      else [])"

definition order_sector :: "trade_order \<Rightarrow> string" where
  "order_sector o1 = (let m = py_strip (str_or_empty (dict_get (ord_metadata o1) ''sector'')) in
     if m \<noteq> [] then m else sector_for_symbol (ord_symbol o1))"

definition current_correlated_exposure :: "trade_order \<Rightarrow> risk_context \<Rightarrow> pyfloat" where
  "current_correlated_exposure o1 ctx =
     (if rc_exposure_by_correlation_bucket_pct ctx \<noteq> []
      then get_default (rc_exposure_by_correlation_bucket_pct ctx) (correlation_bucket_for_symbol (ord_symbol o1)) 0
      else rc_correlated_exposure_pct ctx)"

definition proposed_exposure_pct :: "trade_order \<Rightarrow> risk_context \<Rightarrow> pyfloat" where
  "proposed_exposure_pct o1 ctx = ord_amount_usd o1 / rc_account_balance ctx * 100"

definition exposure_reasons ::
    "app_settings \<Rightarrow> trade_order \<Rightarrow> risk_context \<Rightarrow> string list option \<Rightarrow> string list" where
  [gate_defs]: "exposure_reasons s o1 ctx etoro_room =
     (let p = proposed_exposure_pct o1 ctx in
      if institutional_portfolio_controls_enabled s \<and> etoro_room = None then
        (if portfolio_max_gross_exposure_pct s < rc_gross_exposure_pct ctx + p
         then [''Projected gross exposure exceeds the portfolio limit''] else []) @
        (if portfolio_max_symbol_exposure_pct s <
              get_default (rc_exposure_by_symbol_pct ctx) (py_upper (ord_symbol o1)) 0 + p
         then [''Projected symbol exposure exceeds the portfolio limit''] else []) @
        (if portfolio_max_sector_exposure_pct s < get_default (rc_exposure_by_sector_pct ctx) (order_sector o1) 0 + p
         then [''Projected sector exposure exceeds the portfolio limit''] else []) @
        (if portfolio_max_correlated_exposure_pct s < current_correlated_exposure o1 ctx + p
         then [''Projected correlated exposure exceeds the portfolio limit''] else [])
      else [])"

definition order_risk_amount :: "trade_order \<Rightarrow> pyfloat" where
  "order_risk_amount o1 = (case ord_stop_loss o1 of None \<Rightarrow> 0
     | Some stop \<Rightarrow> estimate_risk_amount (ord_proposed_price o1) stop (ord_amount_usd o1) (ord_leverage o1))"

definition order_risk_pct :: "trade_order \<Rightarrow> risk_context \<Rightarrow> pyfloat" where
  "order_risk_pct o1 ctx = (case ord_stop_loss o1 of None \<Rightarrow> 0
     | Some stop \<Rightarrow> order_risk_amount o1 / rc_account_balance ctx * 100)"

definition gate_risk_cap :: "app_settings \<Rightarrow> risk_context \<Rightarrow> pyfloat" where
  "gate_risk_cap s ctx =
     (if institutional_portfolio_controls_enabled s then
        (if rc_mode ctx = ''real'' \<or> exec_mode s = Mode_live
         then min (max_risk_per_trade_pct s) (portfolio_micro_live_max_risk_per_trade_pct s)
         else min (max_risk_per_trade_pct s) (portfolio_future_max_risk_per_trade_pct s))
      else max_risk_per_trade_pct s)"

definition stop_and_risk_reasons :: "app_settings \<Rightarrow> trade_order \<Rightarrow> risk_context \<Rightarrow> string list" where
  [gate_defs]: "stop_and_risk_reasons s o1 ctx =
     (case ord_stop_loss o1 of
        None \<Rightarrow> [''A stop loss is required before submitting any order'']
      | Some stop \<Rightarrow>
          (if gate_risk_cap s ctx < order_risk_pct o1 ctx
           then [''Estimated trade risk '' @ fmt_fixed 2 (order_risk_pct o1 ctx) @ ''% exceeds the '' @
                 fmt_fixed 2 (gate_risk_cap s ctx) @ ''% cap''] else []) @
          (if 0 < portfolio_max_heat_pct s \<and>
              \<not> fits_within_heat (order_risk_amount o1) (rc_open_trade_risks_usd ctx)
                   (rc_account_balance ctx) (portfolio_max_heat_pct s)
           then [''Portfolio heat '' @
                 fmt_fixed 2 (portfolio_heat_pct (rc_open_trade_risks_usd ctx) (rc_account_balance ctx)) @
                 ''% + this trade exceeds the '' @ fmt_fixed 2 (portfolio_max_heat_pct s) @
                 ''% aggregate risk cap''] else []))"

definition real_mode_reasons :: "app_settings \<Rightarrow> risk_context \<Rightarrow> string list" where
  [gate_defs]: "real_mode_reasons s ctx =
     (if rc_mode ctx = ''real'' \<and> \<not> enable_real_trading s
      then [''Real trading is disabled by configuration''] else [])"

definition gate_reasons ::
    "app_settings \<Rightarrow> trade_order \<Rightarrow> risk_context \<Rightarrow> string list option \<Rightarrow> supported_instrument \<Rightarrow> string list
      \<Rightarrow> string list" where
  "gate_reasons s o1 ctx etoro_room ins shorts =
     leverage_reasons s o1 ins @ room_reasons s o1 ctx etoro_room @ cooldown_reasons o1 ctx @
     bucket_entry_reasons s o1 ctx @ sector_position_reasons s o1 ctx etoro_room @
     loss_limit_reasons s ctx @ drawdown_reasons s ctx @ exposure_reasons s o1 ctx etoro_room @
     shorts @ stop_and_risk_reasons s o1 ctx @ real_mode_reasons s ctx"

definition validate_order ::
    "app_settings \<Rightarrow> trade_order \<Rightarrow> risk_context \<Rightarrow> string list option \<Rightarrow> exn + risk_validation_result" where
  "validate_order s o1 ctx etoro_room =
     (case resolve s (ord_symbol o1) of
        Inl e \<Rightarrow> Inr \<lparr>rv_passed = False, rv_reasons = [exn_str e], rv_risk_amount_usd = 0,
                     rv_risk_pct_of_balance = 0, rv_room_authority = ''paper''\<rparr>
      | Inr ins \<Rightarrow>
          (case short_blockers s o1 (rc_account_balance ctx) of
             Inl e \<Rightarrow> Inl e
           | Inr shorts \<Rightarrow>
               let reasons = gate_reasons s o1 ctx etoro_room ins shorts in
               Inr \<lparr>rv_passed = (reasons = []), rv_reasons = reasons,
                    rv_risk_amount_usd = py_round 2 (order_risk_amount o1),
                    rv_risk_pct_of_balance = py_round 4 (order_risk_pct o1 ctx),
                    rv_room_authority = (if etoro_room = None then ''paper'' else ''etoro_live'')\<rparr>))"

subsection \<open>Specification\<close>

text \<open>What the gate promises, limit by limit, without the reason texts.\<close>

definition within_counts :: "app_settings \<Rightarrow> trade_order \<Rightarrow> risk_context \<Rightarrow> string list option \<Rightarrow> bool" where
  "within_counts s o1 ctx etoro_room \<longleftrightarrow>
     (case etoro_room of None \<Rightarrow> rc_open_positions ctx < max_open_positions s | Some rs \<Rightarrow> rs = []) \<and>
     rc_trades_today ctx < max_trades_per_day s \<and>
     get_default (rc_positions_by_symbol ctx) (py_upper (ord_symbol o1)) 0 < per_symbol_position_limit s \<and>
     py_upper (ord_symbol o1) \<notin> set (rc_recently_stopped_symbols ctx) \<and>
     (let cap = max_daily_entries_per_correlation_bucket s; b = correlation_bucket_for_symbol (ord_symbol o1) in
      cap \<le> 0 \<or> b = UNKNOWN_BUCKET \<or> get_default (rc_entries_today_by_correlation_bucket ctx) b 0 < cap) \<and>
     (etoro_room \<noteq> None \<or> max_open_positions_per_sector s \<le> 0 \<or> ord_side o1 \<noteq> Buy \<or>
      gics_sector_for_symbol (ord_symbol o1) = UNKNOWN_SECTOR \<or>
      sector_held o1 ctx < max_open_positions_per_sector s)"

definition within_losses :: "app_settings \<Rightarrow> risk_context \<Rightarrow> bool" where
  "within_losses s ctx \<longleftrightarrow>
     - \<bar>max_daily_loss_usd s\<bar> < rc_daily_realized_pnl_usd ctx + open_loss s ctx \<and>
     - \<bar>max_weekly_loss_usd s\<bar> < rc_weekly_realized_pnl_usd ctx + open_loss s ctx \<and>
     rc_consecutive_losses_today ctx < max_consecutive_losses_before_cooldown s \<and>
     \<not> kill_switch_enabled s \<and>
     (\<not> institutional_portfolio_controls_enabled s \<or>
      rc_portfolio_drawdown_pct ctx < portfolio_hard_drawdown_pct s \<and>
      rc_portfolio_drawdown_pct ctx < portfolio_soft_drawdown_pct s)"

definition within_exposure :: "app_settings \<Rightarrow> trade_order \<Rightarrow> risk_context \<Rightarrow> string list option \<Rightarrow> bool" where
  "within_exposure s o1 ctx etoro_room \<longleftrightarrow>
     \<not> institutional_portfolio_controls_enabled s \<or> etoro_room \<noteq> None \<or>
     (let p = proposed_exposure_pct o1 ctx in
      rc_gross_exposure_pct ctx + p \<le> portfolio_max_gross_exposure_pct s \<and>
      get_default (rc_exposure_by_symbol_pct ctx) (py_upper (ord_symbol o1)) 0 + p \<le> portfolio_max_symbol_exposure_pct s \<and>
      get_default (rc_exposure_by_sector_pct ctx) (order_sector o1) 0 + p \<le> portfolio_max_sector_exposure_pct s \<and>
      current_correlated_exposure o1 ctx + p \<le> portfolio_max_correlated_exposure_pct s)"

definition within_trade_risk :: "app_settings \<Rightarrow> trade_order \<Rightarrow> risk_context \<Rightarrow> bool" where
  "within_trade_risk s o1 ctx \<longleftrightarrow>
     ord_stop_loss o1 \<noteq> None \<and> order_risk_pct o1 ctx \<le> gate_risk_cap s ctx \<and>
     (portfolio_max_heat_pct s \<le> 0 \<or>
      fits_within_heat (order_risk_amount o1) (rc_open_trade_risks_usd ctx) (rc_account_balance ctx)
        (portfolio_max_heat_pct s))"

definition order_admissible :: "app_settings \<Rightarrow> trade_order \<Rightarrow> risk_context \<Rightarrow> string list option \<Rightarrow> bool" where
  "order_admissible s o1 ctx etoro_room \<longleftrightarrow>
     (\<exists>ins. resolve s (ord_symbol o1) = Inr ins \<and>
       ord_leverage o1 \<le> leverage_cap_for_asset (ins_asset_class ins) (max_equity_leverage s) (max_gold_leverage s)) \<and>
     within_counts s o1 ctx etoro_room \<and> within_losses s ctx \<and> within_exposure s o1 ctx etoro_room \<and>
     short_blockers s o1 (rc_account_balance ctx) = Inr [] \<and> within_trade_risk s o1 ctx \<and>
     (rc_mode ctx = ''real'' \<longrightarrow> enable_real_trading s)"

subsection \<open>Lemmas\<close>

lemma leverage_reasons_Nil:
  "leverage_reasons s o1 ins = [] \<longleftrightarrow>
   ord_leverage o1 \<le> leverage_cap_for_asset (ins_asset_class ins) (max_equity_leverage s) (max_gold_leverage s)"
  by (simp add: leverage_reasons_def Let_def)

lemma count_reasons_Nil:
  "room_reasons s o1 ctx room @ cooldown_reasons o1 ctx @ bucket_entry_reasons s o1 ctx @
   sector_position_reasons s o1 ctx room = [] \<longleftrightarrow> within_counts s o1 ctx room"
  by (cases room) (auto simp: gate_defs within_counts_def Let_def)

lemma loss_reasons_Nil:
  "loss_limit_reasons s ctx @ drawdown_reasons s ctx = [] \<longleftrightarrow> within_losses s ctx"
  by (auto simp: gate_defs within_losses_def)

lemma exposure_reasons_Nil: "exposure_reasons s o1 ctx room = [] \<longleftrightarrow> within_exposure s o1 ctx room"
  by (auto simp: gate_defs within_exposure_def Let_def)

lemma stop_and_risk_reasons_Nil: "stop_and_risk_reasons s o1 ctx = [] \<longleftrightarrow> within_trade_risk s o1 ctx"
  by (auto simp: gate_defs within_trade_risk_def split: option.splits)

lemma real_mode_reasons_Nil: "real_mode_reasons s ctx = [] \<longleftrightarrow> (rc_mode ctx = ''real'' \<longrightarrow> enable_real_trading s)"
  by (simp add: real_mode_reasons_def)

lemmas gate_Nil = leverage_reasons_Nil count_reasons_Nil loss_reasons_Nil exposure_reasons_Nil
  stop_and_risk_reasons_Nil real_mode_reasons_Nil

lemma gate_reasons_Nil:
  "gate_reasons s o1 ctx room ins shorts = [] \<longleftrightarrow>
   ord_leverage o1 \<le> leverage_cap_for_asset (ins_asset_class ins) (max_equity_leverage s) (max_gold_leverage s) \<and>
   within_counts s o1 ctx room \<and> within_losses s ctx \<and> within_exposure s o1 ctx room \<and> shorts = [] \<and>
   within_trade_risk s o1 ctx \<and> (rc_mode ctx = ''real'' \<longrightarrow> enable_real_trading s)"
  unfolding gate_reasons_def gate_Nil [symmetric] by simp

lemma validate_passed_iff:
  "(\<exists>r. validate_order s o1 ctx room = Inr r \<and> rv_passed r) \<longleftrightarrow> order_admissible s o1 ctx room"
  by (auto simp: validate_order_def order_admissible_def gate_reasons_Nil Let_def split: sum.splits)

lemma validate_passedD:
  "validate_order s o1 ctx room = Inr r \<Longrightarrow> rv_passed r \<Longrightarrow> order_admissible s o1 ctx room"
  using validate_passed_iff by blast

lemma validate_not_passed_reasons:
  "validate_order s o1 ctx room = Inr r \<Longrightarrow> rv_passed r \<longleftrightarrow> rv_reasons r = []"
  by (auto simp: validate_order_def Let_def split: sum.splits)

text \<open>Scaling the notional of an order changes none of the limits that do not read it.\<close>

lemma amount_frame:
  "within_counts s (o1\<lparr>ord_amount_usd := a\<rparr>) ctx room = within_counts s o1 ctx room"
  "short_blockers s (o1\<lparr>ord_amount_usd := a\<rparr>) e = short_blockers s o1 e"
  "order_sector (o1\<lparr>ord_amount_usd := a\<rparr>) = order_sector o1"
  "current_correlated_exposure (o1\<lparr>ord_amount_usd := a\<rparr>) ctx = current_correlated_exposure o1 ctx"
  by (simp_all add: within_counts_def sector_held_def short_blockers_def order_sector_def
      current_correlated_exposure_def Let_def)

lemma exposure_antimono:
  assumes "within_exposure s o1 ctx room" "a \<le> ord_amount_usd o1" "0 < rc_account_balance ctx"
  shows "within_exposure s (o1\<lparr>ord_amount_usd := a\<rparr>) ctx room"
proof -
  have "proposed_exposure_pct (o1\<lparr>ord_amount_usd := a\<rparr>) ctx \<le> proposed_exposure_pct o1 ctx"
    using assms by (simp add: proposed_exposure_pct_def divide_right_mono)
  with assms(1) show ?thesis by (auto simp: within_exposure_def Let_def amount_frame)
qed

lemma trade_risk_antimono:
  assumes w: "within_trade_risk s o1 ctx" and le: "a \<le> ord_amount_usd o1" and bal: "0 < rc_account_balance ctx"
    and ov: "order_valid o1"
  shows "within_trade_risk s (o1\<lparr>ord_amount_usd := a\<rparr>) ctx"
proof -
  from w obtain stop where stop: "ord_stop_loss o1 = Some stop" by (auto simp: within_trade_risk_def)
  have risk: "order_risk_amount (o1\<lparr>ord_amount_usd := a\<rparr>) \<le> order_risk_amount o1"
    using le ov by (auto simp: order_risk_amount_def stop order_valid_def intro!: estimate_risk_amount_mono)
  then have "order_risk_pct (o1\<lparr>ord_amount_usd := a\<rparr>) ctx \<le> order_risk_pct o1 ctx"
    using bal by (simp add: order_risk_pct_def stop divide_right_mono)
  with w risk show ?thesis
    by (auto simp: within_trade_risk_def dest: fits_within_heat_antimono)
qed

lemma admissible_antimono:
  assumes "order_admissible s o1 ctx room" "a \<le> ord_amount_usd o1" "order_valid o1" "0 < rc_account_balance ctx"
  shows "order_admissible s (o1\<lparr>ord_amount_usd := a\<rparr>) ctx room"
  using assms exposure_antimono [of s o1 ctx room a] trade_risk_antimono [of s o1 ctx a]
  by (simp add: order_admissible_def amount_frame)

text \<open>The cap the gate enforces is the one the sizers use, unless that cap is configured as 0.\<close>

lemma gate_cap_is_sizing_cap:
  assumes "max_risk_per_trade_pct s \<noteq> 0" "rc_mode ctx = ''real'' \<longrightarrow> exec_mode s = Mode_live"
  shows "gate_risk_cap s ctx = effective_max_risk_per_trade_pct s (exec_mode s = Mode_live)"
  using assms by (auto simp: gate_risk_cap_def effective_max_risk_per_trade_pct_def Let_def)

subsection \<open>Properties\<close>


text \<open>
  the gate is monotone in the notional. If an order passes and its notional is reduced,
  the reduced order passes too, so scaling an order down after the check is safe.
\<close>

theorem validate_order_antimono_amount:
  assumes "validate_order s o1 ctx room = Inr r" "rv_passed r"
    and "order_valid o1" "0 < rc_account_balance ctx" "a \<le> ord_amount_usd o1"
  shows "\<exists>r'. validate_order s (o1\<lparr>ord_amount_usd := a\<rparr>) ctx room = Inr r' \<and> rv_passed r'"
  using assms admissible_antimono [of s o1 ctx room a]
  by (auto simp: validate_passed_iff dest: validate_passedD)

text \<open>An order and a context for the witnesses: a 500 USD long in NVDA with a 2% stop.\<close>

definition demo_order :: trade_order where
  "demo_order = \<lparr>ord_symbol = ''NVDA'', ord_side = Buy, ord_amount_usd = 500, ord_leverage = 1,
     ord_proposed_price = 100, ord_stop_loss = Some 98, ord_take_profit = Some 104,
     ord_asset_class = Equity, ord_broker_symbol = Some ''NVDA'', ord_strategy_name = Some ''swing'',
     ord_rationale = [], ord_metadata = []\<rparr>"

definition demo_context :: risk_context where
  "demo_context = \<lparr>rc_account_balance = 10000, rc_daily_realized_pnl_usd = 0,
     rc_weekly_realized_pnl_usd = 0, rc_open_unrealized_pnl_usd = 0, rc_open_positions = 0,
     rc_positions_by_symbol = [], rc_exposure_by_symbol_pct = [], rc_exposure_by_sector_pct = [],
     rc_exposure_by_correlation_bucket_pct = [], rc_gross_exposure_pct = 0, rc_correlated_exposure_pct = 0,
     rc_portfolio_drawdown_pct = 0, rc_consecutive_losses_today = 0, rc_trades_today = 0,
     rc_recently_stopped_symbols = [], rc_entries_today_by_correlation_bucket = [],
     rc_open_trade_risks_usd = [], rc_mode = ''paper''\<rparr>"

lemma demo_validates:
  "validate_order default_settings demo_order demo_context None =
     Inr \<lparr>rv_passed = True, rv_reasons = [], rv_risk_amount_usd = 10, rv_risk_pct_of_balance = 1/10,
          rv_room_authority = ''paper''\<rparr>"
  by code_simp

theorem validate_order_antimono_amount_witness:
  "\<exists>r'. validate_order default_settings (demo_order\<lparr>ord_amount_usd := 125\<rparr>) demo_context None = Inr r' \<and> rv_passed r'"
  by (rule validate_order_antimono_amount [OF demo_validates])
    (simp_all add: demo_order_def demo_context_def order_valid_def pos_opt_def)

text \<open>
  sizing and the gate agree. A notional sized by \<open>risk_based_proposal_notional\<close> never
  exceeds the per-trade risk cap the gate enforces, for every order with that entry, stop
  and notional, when the sizing equity is the gate's balance, the cap is not configured as 0
  and the account is large enough for the 2% headroom to absorb the rounding to cents.
\<close>

theorem sized_order_within_gate_cap:
  assumes "risk_based_proposal_notional s (Some entry) (Some stop) (Some equity) = Inr (amount, d)"
    and "auto_propose_risk_based_sizing s" "0 < entry" "0 < stop" "entry \<noteq> stop" "0 < equity"
    and "max_risk_per_trade_pct s \<noteq> 0" "rc_mode ctx = ''real'' \<longrightarrow> exec_mode s = Mode_live"
    and "25 * (\<bar>entry - stop\<bar> / entry) \<le> gate_risk_cap s ctx * equity"
    and "rc_account_balance ctx = equity" "ord_proposed_price o1 = entry" "ord_stop_loss o1 = Some stop"
    and "ord_amount_usd o1 = amount" "ord_leverage o1 = 1"
  shows "order_risk_pct o1 ctx \<le> gate_risk_cap s ctx"
  using sized_risk_within_cap [OF assms(1-6), of "gate_risk_cap s ctx"] assms(7-) gate_cap_is_sizing_cap [of s ctx]
  by (simp add: order_risk_pct_def order_risk_amount_def)

theorem sized_order_within_gate_cap_witness:
  "order_risk_pct (demo_order\<lparr>ord_amount_usd := 490\<rparr>) demo_context \<le>
     gate_risk_cap (default_settings\<lparr>auto_propose_risk_based_sizing := True, max_risk_per_trade_pct := 1/10\<rparr>) demo_context"
proof -
  let ?s = "default_settings\<lparr>auto_propose_risk_based_sizing := True, max_risk_per_trade_pct := 1/10\<rparr>"
  have ex: "map_sum (\<lambda>e. e) fst (risk_based_proposal_notional ?s (Some 100) (Some 98) (Some 10000)) = Inr 490"
    by code_simp
  then obtain d where d: "risk_based_proposal_notional ?s (Some 100) (Some 98) (Some 10000) = Inr (490, d)"
    by (cases "risk_based_proposal_notional ?s (Some 100) (Some 98) (Some 10000)") auto
  show ?thesis
    by (rule sized_order_within_gate_cap [OF d])
      (simp_all add: demo_order_def demo_context_def gate_risk_cap_def default_settings_def)
qed

end
