(* ===== verification/Storage.thy ===== *)
theory Storage
  imports Models
begin

text \<open>
  The persistent store: the repositories of src/app/storage/repositories.py for proposals,
  signals, executions, the execution queue, the run log and the runtime state, over the
  tables and unique indexes of src/app/storage/db.py.

  A table is the list of its rows in insertion order, a row is the model object that
  \<open>_row_to_model\<close> reads back. Each repository method is one SQL statement in its own
  transaction; an \<open>IntegrityError\<close> leaves the table unchanged. Where a query orders by
  \<open>created_at DESC\<close>, rows with equal timestamps keep insertion order.
\<close>

subsection \<open>Rows and keys\<close>

definition row_get :: "('r \<Rightarrow> string) \<Rightarrow> string \<Rightarrow> 'r list \<Rightarrow> 'r option" where
  "row_get key k rows = find (\<lambda>r. key r = k) rows"

text \<open>\<open>UPDATE \<dots> SET columns WHERE id = ?\<close>: \<open>merge new old\<close> is the row with the columns set.\<close>

definition row_update :: "('r \<Rightarrow> string) \<Rightarrow> ('r \<Rightarrow> 'r \<Rightarrow> 'r) \<Rightarrow> 'r \<Rightarrow> 'r list \<Rightarrow> 'r list" where
  "row_update key merge new rows = map (\<lambda>old. if key old = key new then merge new old else old) rows"

text \<open>\<open>INSERT \<dots> ON CONFLICT(key) DO UPDATE\<close>.\<close>

definition row_upsert :: "('r \<Rightarrow> string) \<Rightarrow> ('r \<Rightarrow> 'r \<Rightarrow> 'r) \<Rightarrow> 'r \<Rightarrow> 'r list \<Rightarrow> 'r list" where
  "row_upsert key merge new rows =
     (if key new \<in> key ` set rows then row_update key merge new rows else rows @ [new])"

definition newest_first :: "('r \<Rightarrow> time) \<Rightarrow> 'r list \<Rightarrow> 'r list" where
  "newest_first created rows = sort_key (\<lambda>r. - created r) rows"

lemma set_newest_first [simp]: "set (newest_first c rows) = set rows"
  by (simp add: newest_first_def)

lemma hd_newest_first:
  assumes "rows \<noteq> []"
  shows "hd (newest_first c rows) \<in> set rows" "\<forall>r \<in> set rows. c r \<le> c (hd (newest_first c rows))"
proof -
  have ne: "newest_first c rows \<noteq> []" using assms set_newest_first [of c rows] by fastforce
  then show "hd (newest_first c rows) \<in> set rows" by (metis hd_in_set set_newest_first)
  have "sorted (map (\<lambda>r. - c r) (newest_first c rows))" by (simp add: newest_first_def)
  with ne show "\<forall>r \<in> set rows. c r \<le> c (hd (newest_first c rows))"
    by (cases "newest_first c rows") (auto simp flip: set_newest_first [of c rows])
qed

text \<open>
  The contract of a keyed table: an update sets columns but never the key, and reading a
  row back after an update gives the merged row, leaving every other row alone.
\<close>

locale keyed_table =
  fixes key :: "'r \<Rightarrow> string" and merge :: "'r \<Rightarrow> 'r \<Rightarrow> 'r"
  assumes merge_key: "key new = key old \<Longrightarrow> key (merge new old) = key old"
begin

lemma get_key: "row_get key k rows = Some r \<Longrightarrow> key r = k"
  by (auto simp: row_get_def find_Some_iff)

lemma get_in: "row_get key k rows = Some r \<Longrightarrow> r \<in> set rows"
  by (auto simp: row_get_def find_Some_iff)

lemma get_None_iff: "row_get key k rows = None \<longleftrightarrow> k \<notin> key ` set rows"
  by (auto simp: row_get_def find_None_iff)

lemma keys_update: "map key (row_update key merge new rows) = map key rows"
  by (auto simp: row_update_def merge_key)

lemma get_update:
  "row_get key k (row_update key merge new rows) =
     (if k = key new then map_option (merge new) (row_get key k rows) else row_get key k rows)"
  by (induction rows) (auto simp: row_get_def row_update_def merge_key)

lemma get_append_new:
  "k \<notin> key ` set rows \<Longrightarrow> row_get key j (rows @ [r]) =
     (if row_get key j rows = None then (if key r = j then Some r else None) else row_get key j rows)"
  by (induction rows) (auto simp: row_get_def)

lemma distinct_upsert: "distinct (map key rows) \<Longrightarrow> distinct (map key (row_upsert key merge new rows))"
  by (simp add: row_upsert_def keys_update)

lemma get_upsert:
  "row_get key k (row_upsert key merge new rows) =
     (if k = key new then Some (case row_get key k rows of None \<Rightarrow> new | Some old \<Rightarrow> merge new old) else row_get key k rows)"
proof (cases "key new \<in> key ` set rows")
  case True
  then show ?thesis by (auto simp: row_upsert_def get_update get_None_iff split: option.splits)
next
  case False
  then have "row_get key (key new) rows = None" by (simp add: get_None_iff)
  with False show ?thesis by (auto simp: row_upsert_def get_append_new [OF False])
qed

lemma in_update: "r \<in> set (row_update key merge new rows) \<Longrightarrow>
    r \<in> set rows \<or> (\<exists>old \<in> set rows. key old = key new \<and> r = merge new old)"
  by (auto simp: row_update_def split: if_splits)

end

subsection \<open>The store\<close>

record run_log =
  log_event :: string
  log_payload :: pydict
  log_created_at :: time

text \<open>Rows of the broker snapshots and of the reconciliation runs; JSON columns as values.\<close>

record order_snapshot =
  os_broker_order_id :: string
  os_execution_id :: "string option"
  os_client_order_id :: "string option"
  os_symbol :: string
  os_side :: string
  os_order_class :: string
  os_status :: string
  os_filled_qty :: pyfloat
  os_filled_avg_price :: "pyfloat option"
  os_parent_order_id :: "string option"
  os_payload :: pydict
  os_created_at :: time
  os_updated_at :: time

record position_snapshot =
  bp_symbol :: string
  bp_account_number :: string
  bp_position :: portfolio_position
  bp_active :: bool
  bp_created_at :: time
  bp_updated_at :: time

record reconciliation_run =
  rr_status :: string
  rr_account_number :: string
  rr_orders_seen :: int
  rr_positions_seen :: int
  rr_issues :: "string list"
  rr_account :: pydict
  rr_created_at :: time

text \<open>\<open>instrument_blacklist\<close> and \<open>strategy_health\<close>.\<close>

record blacklist_row =
  bk_symbol :: string
  bk_reason :: string
  bk_active :: bool
  bk_created_at :: time
  bk_updated_at :: time

record strategy_health =
  sh_strategy_name :: string
  sh_active :: bool
  sh_closed_trades :: int
  sh_expectancy_usd :: pyfloat
  sh_profit_factor :: pyfloat
  sh_reason :: string
  sh_updated_at :: time

record store =
  st_proposals :: "trade_proposal list"
  st_signals :: "trade_signal list"
  st_executions :: "execution_record list"
  st_queue :: "queue_record list"
  st_logs :: "run_log list"
  st_runtime :: "(string \<times> string) list"
  st_positions :: "paper_position list"
  st_trades :: "paper_trade list"
  st_orders :: "order_snapshot list"
  st_broker_positions :: "position_snapshot list"
  st_reconciliations :: "reconciliation_run list"
  st_blacklist :: "blacklist_row list"
  st_health :: "strategy_health list"

definition empty_store :: store where
  "empty_store = \<lparr>st_proposals = [], st_signals = [], st_executions = [], st_queue = [], st_logs = [], st_runtime = [],
     st_positions = [], st_trades = [], st_orders = [], st_broker_positions = [], st_reconciliations = [],
     st_blacklist = [], st_health = []\<rparr>"

subsection \<open>ProposalRepository and SignalRepository\<close>

text \<open>The columns \<open>update\<close> sets are all but \<open>id\<close> and \<open>created_at\<close>.\<close>

definition proposal_merge :: "trade_proposal \<Rightarrow> trade_proposal \<Rightarrow> trade_proposal" where
  "proposal_merge new old = new\<lparr>prop_id := prop_id old, prop_created_at := prop_created_at old\<rparr>"

definition proposal_create_row :: "trade_proposal \<Rightarrow> store \<Rightarrow> exn + store" where
  "proposal_create_row p st =
     (if prop_id p \<in> prop_id ` set (st_proposals st)
      then Inl (IntegrityError ''UNIQUE constraint failed: approvals.id'')
      else Inr (st\<lparr>st_proposals := st_proposals st @ [p]\<rparr>))"

definition proposal_list :: "approval_status option \<Rightarrow> store \<Rightarrow> trade_proposal list" where
  "proposal_list status st = newest_first prop_created_at
     (case status of None \<Rightarrow> st_proposals st | Some x \<Rightarrow> filter (\<lambda>p. prop_status p = x) (st_proposals st))"

definition proposal_get :: "string \<Rightarrow> store \<Rightarrow> trade_proposal option" where
  "proposal_get pid st = row_get prop_id pid (st_proposals st)"

definition proposal_update :: "trade_proposal \<Rightarrow> store \<Rightarrow> store" where
  "proposal_update p st = st\<lparr>st_proposals := row_update prop_id proposal_merge p (st_proposals st)\<rparr>"

definition signal_create_row :: "trade_signal \<Rightarrow> store \<Rightarrow> exn + store" where
  "signal_create_row sg st =
     (if sig_id sg \<in> sig_id ` set (st_signals st)
      then Inl (IntegrityError ''UNIQUE constraint failed: signals.id'')
      else Inr (st\<lparr>st_signals := st_signals st @ [sg]\<rparr>))"

subsection \<open>ExecutionRepository\<close>

definition attributed_strategy :: "execution_record \<Rightarrow> string option" where
  "attributed_strategy e =
     (let t = py_strip (str_or_empty (dict_get (ex_request_payload e) ''strategy_name''));
          fb = (if t = [] then None else Some t)
      in case ex_strategy_name e of None \<Rightarrow> fb | Some n \<Rightarrow> if n = [] then fb else Some n)"

definition broker_id_taken :: "string option \<Rightarrow> execution_record list \<Rightarrow> bool" where
  "broker_id_taken b rows = (b \<noteq> None \<and> b \<in> ex_broker_order_id ` set rows)"

text \<open>\<open>create\<close> returns the execution with its strategy filled in.\<close>

definition execution_create :: "execution_record \<Rightarrow> store \<Rightarrow> exn + execution_record \<times> store" where
  "execution_create e st =
     (let e' = e\<lparr>ex_strategy_name := attributed_strategy e\<rparr> in
      if ex_id e \<in> ex_id ` set (st_executions st)
      then Inl (IntegrityError ''UNIQUE constraint failed: executions.id'')
      else if broker_id_taken (ex_broker_order_id e) (st_executions st)
      then Inl (IntegrityError ''UNIQUE constraint failed: executions.broker_order_id'')
      else Inr (e', st\<lparr>st_executions := st_executions st @ [e']\<rparr>))"

definition execution_get :: "string \<Rightarrow> store \<Rightarrow> execution_record option" where
  "execution_get eid st = row_get ex_id eid (st_executions st)"

definition execution_get_by_broker_order_id :: "string \<Rightarrow> store \<Rightarrow> execution_record option" where
  "execution_get_by_broker_order_id b st = find (\<lambda>e. ex_broker_order_id e = Some b) (st_executions st)"

definition execution_get_latest_by_proposal_id :: "string \<Rightarrow> store \<Rightarrow> execution_record option" where
  "execution_get_latest_by_proposal_id pid st =
     (case newest_first ex_created_at (filter (\<lambda>e. ex_proposal_id e = pid) (st_executions st)) of
        [] \<Rightarrow> None | e # _ \<Rightarrow> Some e)"

definition execution_list :: "int \<Rightarrow> store \<Rightarrow> execution_record list" where
  "execution_list limit st = take (nat (max 1 limit)) (newest_first ex_created_at (st_executions st))"

text \<open>The columns \<open>update\<close> sets: all but \<open>id\<close>, \<open>proposal_id\<close>, \<open>mode\<close> and \<open>created_at\<close>.\<close>

definition execution_merge :: "execution_record \<Rightarrow> execution_record \<Rightarrow> execution_record" where
  "execution_merge new old = old\<lparr>ex_status := ex_status new, ex_broker_order_id := ex_broker_order_id new,
     ex_strategy_name := attributed_strategy new, ex_request_payload := ex_request_payload new,
     ex_response_payload := ex_response_payload new, ex_error_message := ex_error_message new,
     ex_realized_pnl_usd := ex_realized_pnl_usd new, ex_updated_at := ex_updated_at new\<rparr>"

definition execution_update :: "execution_record \<Rightarrow> store \<Rightarrow> exn + store" where
  "execution_update e st =
     (if ex_id e \<in> ex_id ` set (st_executions st) \<and>
         broker_id_taken (ex_broker_order_id e) (filter (\<lambda>r. ex_id r \<noteq> ex_id e) (st_executions st))
      then Inl (IntegrityError ''UNIQUE constraint failed: executions.broker_order_id'')
      else Inr (st\<lparr>st_executions := row_update ex_id execution_merge e (st_executions st)\<rparr>))"

definition day_us :: int where "day_us = 86400 * 1000000"
definition minute_us :: int where "minute_us = 60 * 1000000"

definition parse_time :: "pyval \<Rightarrow> exn + time" where
  "parse_time v = (case v of PTime t \<Rightarrow> Inr t | _ \<Rightarrow> Inl (ValueError ''Invalid isoformat string''))"

definition leg_filled :: "pydict \<Rightarrow> bool" where
  "leg_filled leg = (py_lower (str_or_empty (dict_get leg ''status'')) = ''filled'' \<and> truthy (dict_get leg ''filled_at''))"

text \<open>The legs of the broker execution followed by the recorded exit fill.\<close>

definition exit_legs :: "pydict \<Rightarrow> pydict list" where
  "exit_legs payload =
     map as_dict (as_list (dict_get (as_dict (dict_get payload ''broker_execution'')) ''legs'')) @
     [as_dict (dict_get payload ''exit_fill'')]"

definition realized_at :: "execution_record \<Rightarrow> exn + time" where
  "realized_at e = (case filter leg_filled (exit_legs (ex_response_payload e)) of
       [] \<Rightarrow> Inr (ex_updated_at e)
     | leg # _ \<Rightarrow> parse_time (dict_get leg ''filled_at''))"

fun realized_events_of :: "execution_record list \<Rightarrow> exn + (time \<times> pyfloat) list" where
  "realized_events_of [] = Inr []"
| "realized_events_of (e # es) =
     (case realized_at e of Inl x \<Rightarrow> Inl x | Inr t \<Rightarrow>
        (case realized_events_of es of Inl x \<Rightarrow> Inl x | Inr evs \<Rightarrow> Inr ((t, ex_realized_pnl_usd e) # evs)))"

definition realized_events :: "store \<Rightarrow> exn + (time \<times> pyfloat) list" where
  "realized_events st =
     (case realized_events_of (filter (\<lambda>e. ex_realized_pnl_usd e \<noteq> 0) (st_executions st)) of
        Inl x \<Rightarrow> Inl x | Inr evs \<Rightarrow> Inr (sort_key fst evs))"

text \<open>The loop of \<open>daily_loss_stats\<close>: total, longest losing streak, current streak.\<close>

fun loss_stats_loop :: "(time \<times> pyfloat) list \<Rightarrow> pyfloat \<Rightarrow> int \<Rightarrow> int \<Rightarrow> pyfloat \<times> int" where
  "loss_stats_loop [] tot worst streak = (tot, worst)"
| "loss_stats_loop ((t, pnl) # evs) tot worst streak =
     (if pnl < 0 then loss_stats_loop evs (tot + pnl) (max worst (streak + 1)) (streak + 1)
      else if 0 < pnl then loss_stats_loop evs (tot + pnl) worst 0
      else loss_stats_loop evs (tot + pnl) worst streak)"

definition daily_loss_stats :: "time \<Rightarrow> store \<Rightarrow> exn + pyfloat \<times> int" where
  "daily_loss_stats day st = (case realized_events st of Inl x \<Rightarrow> Inl x
     | Inr evs \<Rightarrow> Inr (loss_stats_loop (filter (\<lambda>(t, p). t div day_us = day div day_us) evs) 0 0 0))"

definition period_realized_pnl :: "time \<Rightarrow> int \<Rightarrow> store \<Rightarrow> exn + pyfloat" where
  "period_realized_pnl now days st = (case realized_events st of Inl x \<Rightarrow> Inl x
     | Inr evs \<Rightarrow> Inr (sum_list (map snd (filter (\<lambda>(t, p). now - max days 1 * day_us \<le> t) evs))))"

fun streak_loop :: "(time \<times> pyfloat) list \<Rightarrow> int \<Rightarrow> int" where
  "streak_loop [] streak = streak"
| "streak_loop ((t, pnl) # evs) streak =
     streak_loop evs (if pnl < 0 then streak + 1 else if 0 < pnl then 0 else streak)"

definition consecutive_losses :: "store \<Rightarrow> exn + int" where
  "consecutive_losses st = (case realized_events st of Inl x \<Rightarrow> Inl x | Inr evs \<Rightarrow> Inr (streak_loop evs 0))"

definition count_since :: "time \<Rightarrow> store \<Rightarrow> int" where
  "count_since since st = int (length (filter (\<lambda>e. since \<le> ex_created_at e) (st_executions st)))"

subsection \<open>ExecutionQueueRepository\<close>

definition queue_open :: "queue_record \<Rightarrow> bool" where
  "queue_open q = (q_status q = QUEUED \<or> q_status q = PROCESSING)"

text \<open>The partial unique index \<open>idx_queue_unique_open_per_symbol\<close>.\<close>

definition queue_index_ok :: "queue_record list \<Rightarrow> bool" where
  "queue_index_ok rows = distinct (map q_symbol (filter queue_open rows))"

definition queue_create :: "queue_record \<Rightarrow> store \<Rightarrow> exn + store" where
  "queue_create q st =
     (let rows = st_queue st @ [q] in
      if q_id q \<in> q_id ` set (st_queue st) \<or> \<not> queue_index_ok rows
      then Inl (IntegrityError ''UNIQUE constraint failed: execution_queue'')
      else Inr (st\<lparr>st_queue := rows\<rparr>))"

text \<open>The columns \<open>update\<close> sets.\<close>

definition queue_merge :: "queue_record \<Rightarrow> queue_record \<Rightarrow> queue_record" where
  "queue_merge new old = old\<lparr>q_status := q_status new, q_ready_for_execution := q_ready_for_execution new,
     q_latest_quote_price := q_latest_quote_price new, q_latest_quote_timestamp := q_latest_quote_timestamp new,
     q_validation_reason := q_validation_reason new, q_payload := q_payload new,
     q_updated_at := q_updated_at new, q_executed_at := q_executed_at new\<rparr>"

definition queue_update :: "queue_record \<Rightarrow> store \<Rightarrow> exn + store" where
  "queue_update q st =
     (let rows = row_update q_id queue_merge q (st_queue st) in
      if \<not> queue_index_ok rows then Inl (IntegrityError ''UNIQUE constraint failed: execution_queue'')
      else Inr (st\<lparr>st_queue := rows\<rparr>))"

definition queue_get :: "string \<Rightarrow> store \<Rightarrow> queue_record option" where
  "queue_get qid st = row_get q_id qid (st_queue st)"

definition claimable :: "time \<Rightarrow> queue_record \<Rightarrow> bool" where
  "claimable stale_before q =
     (q_status q = QUEUED \<or> q_status q = BLOCKED \<or> (q_status q = PROCESSING \<and> q_updated_at q < stale_before))"

text \<open>The atomic claim: \<open>(rowcount = 1, store)\<close>, or the index violation.\<close>

definition claim_for_processing :: "time \<Rightarrow> string \<Rightarrow> time \<Rightarrow> store \<Rightarrow> exn + bool \<times> store" where
  "claim_for_processing now qid stale_before st =
     (let hit = (\<lambda>q. q_id q = qid \<and> claimable stale_before q);
          rows = map (\<lambda>q. if hit q then q\<lparr>q_status := PROCESSING, q_updated_at := now\<rparr> else q) (st_queue st)
      in if \<not> queue_index_ok rows then Inl (IntegrityError ''UNIQUE constraint failed: execution_queue.symbol'')
         else Inr (length (filter hit (st_queue st)) = 1, st\<lparr>st_queue := rows\<rparr>))"

definition queue_list :: "queue_status option \<Rightarrow> int \<Rightarrow> store \<Rightarrow> queue_record list" where
  "queue_list status limit st = take (nat (max limit 1)) (newest_first q_created_at
     (case status of None \<Rightarrow> st_queue st | Some x \<Rightarrow> filter (\<lambda>q. q_status q = x) (st_queue st)))"

definition latest_open_for_symbol :: "string \<Rightarrow> store \<Rightarrow> queue_record option" where
  "latest_open_for_symbol symbol st =
     (case newest_first q_created_at (filter (\<lambda>q. q_symbol q = py_upper symbol \<and> queue_open q) (st_queue st)) of
        [] \<Rightarrow> None | q # _ \<Rightarrow> Some q)"

subsection \<open>RunLogRepository and RuntimeStateRepository\<close>

definition log_run :: "time \<Rightarrow> string \<Rightarrow> pydict \<Rightarrow> store \<Rightarrow> store" where
  "log_run now event payload st =
     st\<lparr>st_logs := st_logs st @ [\<lparr>log_event = event, log_payload = payload, log_created_at = now\<rparr>]\<rparr>"

definition list_by_event :: "string \<Rightarrow> int \<Rightarrow> time option \<Rightarrow> store \<Rightarrow> run_log list" where
  "list_by_event event limit since st =
     (let rows = rev (filter (\<lambda>l. log_event l = event \<and>
            (case since of None \<Rightarrow> True | Some t \<Rightarrow> t \<le> log_created_at l)) (st_logs st))
      in if limit < 0 then rows else take (nat limit) rows)"

definition runtime_get :: "string \<Rightarrow> store \<Rightarrow> string option" where
  "runtime_get k st = map_of (st_runtime st) k"

definition runtime_set :: "string \<Rightarrow> string \<Rightarrow> store \<Rightarrow> store" where
  "runtime_set k v st = st\<lparr>st_runtime := AList.update k v (st_runtime st)\<rparr>"

text \<open>\<open>get_many\<close>: the non-empty keys without repetition, each with its value.\<close>

definition runtime_get_many :: "string list \<Rightarrow> store \<Rightarrow> (string \<times> string option) list" where
  "runtime_get_many ks st = map (\<lambda>k. (k, runtime_get k st)) (rev (remdups (rev (filter (\<lambda>k. k \<noteq> []) ks))))"

subsection \<open>PaperPositionRepository and PaperTradeRepository\<close>

definition position_create_row :: "paper_position \<Rightarrow> store \<Rightarrow> exn + store" where
  "position_create_row p st =
     (if pp_id p \<in> pp_id ` set (st_positions st)
      then Inl (IntegrityError ''UNIQUE constraint failed: paper_positions.id'')
      else Inr (st\<lparr>st_positions := st_positions st @ [p]\<rparr>))"

text \<open>The columns \<open>update\<close> sets.\<close>

definition position_merge :: "paper_position \<Rightarrow> paper_position \<Rightarrow> paper_position" where
  "position_merge new old = old\<lparr>pp_status := pp_status new, pp_current_price := pp_current_price new,
     pp_updated_at := pp_updated_at new, pp_closed_at := pp_closed_at new,
     pp_realized_pnl_usd := pp_realized_pnl_usd new, pp_unrealized_pnl_usd := pp_unrealized_pnl_usd new,
     pp_payload := pp_payload new\<rparr>"

definition position_update :: "paper_position \<Rightarrow> store \<Rightarrow> store" where
  "position_update p st = st\<lparr>st_positions := row_update pp_id position_merge p (st_positions st)\<rparr>"

definition position_get :: "string \<Rightarrow> store \<Rightarrow> paper_position option" where
  "position_get pid st = row_get pp_id pid (st_positions st)"

definition position_list :: "string option \<Rightarrow> int \<Rightarrow> store \<Rightarrow> paper_position list" where
  "position_list status limit st = take (nat (max limit 1)) (newest_first pp_updated_at
     (case status of None \<Rightarrow> st_positions st | Some x \<Rightarrow> filter (\<lambda>p. pp_status p = x) (st_positions st)))"

definition trade_create_row :: "paper_trade \<Rightarrow> store \<Rightarrow> exn + store" where
  "trade_create_row t st =
     (if pt_id t \<in> pt_id ` set (st_trades st)
      then Inl (IntegrityError ''UNIQUE constraint failed: paper_trades.id'')
      else Inr (st\<lparr>st_trades := st_trades st @ [t]\<rparr>))"

definition trade_list :: "int \<Rightarrow> store \<Rightarrow> paper_trade list" where
  "trade_list limit st = take (nat (max limit 1)) (newest_first pt_closed_at (st_trades st))"

subsection \<open>Broker snapshots and reconciliation runs\<close>

definition snapshot_merge :: "order_snapshot \<Rightarrow> order_snapshot \<Rightarrow> order_snapshot" where
  "snapshot_merge new old = new\<lparr>os_broker_order_id := os_broker_order_id old, os_created_at := os_created_at old\<rparr>"

definition snapshot_upsert :: "order_snapshot \<Rightarrow> store \<Rightarrow> store" where
  "snapshot_upsert s st = st\<lparr>st_orders := row_upsert os_broker_order_id snapshot_merge
     (s\<lparr>os_symbol := py_upper (os_symbol s)\<rparr>) (st_orders st)\<rparr>"

definition snapshot_list :: "int \<Rightarrow> store \<Rightarrow> order_snapshot list" where
  "snapshot_list limit st = take (nat (max 1 limit)) (newest_first os_updated_at (st_orders st))"

definition position_snapshot_merge :: "position_snapshot \<Rightarrow> position_snapshot \<Rightarrow> position_snapshot" where
  "position_snapshot_merge new old = new\<lparr>bp_symbol := bp_symbol old, bp_created_at := bp_created_at old\<rparr>"

definition upsert_position :: "time \<Rightarrow> string \<Rightarrow> portfolio_position \<Rightarrow> position_snapshot list \<Rightarrow> position_snapshot list" where
  "upsert_position now account p rows =
     (let symbol = py_upper (pos_symbol p) in
      if symbol = [] then rows
      else row_upsert bp_symbol position_snapshot_merge
        \<lparr>bp_symbol = symbol, bp_account_number = account, bp_position = p, bp_active = True, bp_created_at = now,
         bp_updated_at = now\<rparr> rows)"

definition active_symbols :: "portfolio_position list \<Rightarrow> string list" where
  "active_symbols ps = filter (\<lambda>s. s \<noteq> []) (map (\<lambda>p. py_upper (pos_symbol p)) ps)"

definition replace_active :: "time \<Rightarrow> string \<Rightarrow> portfolio_position list \<Rightarrow> store \<Rightarrow> store" where
  "replace_active now account ps st = st\<lparr>st_broker_positions :=
     map (\<lambda>r. if bp_active r \<and> bp_symbol r \<notin> set (active_symbols ps) then r\<lparr>bp_active := False, bp_updated_at := now\<rparr> else r)
       (fold (upsert_position now account) ps (st_broker_positions st))\<rparr>"

definition record_reconciliation :: "reconciliation_run \<Rightarrow> store \<Rightarrow> store" where
  "record_reconciliation r st = st\<lparr>st_reconciliations := st_reconciliations st @ [r]\<rparr>"

definition latest_reconciliation :: "store \<Rightarrow> reconciliation_run option" where
  "latest_reconciliation st = (if st_reconciliations st = [] then None else Some (last (st_reconciliations st)))"

definition blacklist_merge :: "blacklist_row \<Rightarrow> blacklist_row \<Rightarrow> blacklist_row" where
  "blacklist_merge new old = new\<lparr>bk_symbol := bk_symbol old, bk_created_at := bk_created_at old\<rparr>"

definition blacklist :: "time \<Rightarrow> string \<Rightarrow> string \<Rightarrow> store \<Rightarrow> store" where
  "blacklist now symbol reason st = st\<lparr>st_blacklist := row_upsert bk_symbol blacklist_merge
     \<lparr>bk_symbol = py_upper symbol, bk_reason = reason, bk_active = True, bk_created_at = now, bk_updated_at = now\<rparr>
     (st_blacklist st)\<rparr>"

definition unblacklist :: "time \<Rightarrow> string \<Rightarrow> store \<Rightarrow> store" where
  "unblacklist now symbol st = st\<lparr>st_blacklist :=
     map (\<lambda>r. if bk_symbol r = py_upper symbol then r\<lparr>bk_active := False, bk_updated_at := now\<rparr> else r) (st_blacklist st)\<rparr>"

definition is_blacklisted :: "string \<Rightarrow> store \<Rightarrow> bool" where
  "is_blacklisted symbol st = list_ex (\<lambda>r. bk_symbol r = py_upper symbol \<and> bk_active r) (st_blacklist st)"

definition health_merge :: "strategy_health \<Rightarrow> strategy_health \<Rightarrow> strategy_health" where
  "health_merge new old = new\<lparr>sh_strategy_name := sh_strategy_name old\<rparr>"

definition upsert_strategy_health :: "strategy_health \<Rightarrow> store \<Rightarrow> store" where
  "upsert_strategy_health h st = st\<lparr>st_health := row_upsert sh_strategy_name health_merge h (st_health st)\<rparr>"

definition strategy_active :: "string \<Rightarrow> store \<Rightarrow> bool" where
  "strategy_active name st = (case row_get sh_strategy_name name (st_health st) of None \<Rightarrow> True | Some h \<Rightarrow> sh_active h)"

subsection \<open>Laws\<close>

interpretation proposals: keyed_table prop_id proposal_merge
  by unfold_locales (simp add: proposal_merge_def)

interpretation executions: keyed_table ex_id execution_merge
  by unfold_locales (simp add: execution_merge_def)

interpretation queue: keyed_table q_id queue_merge
  by unfold_locales (simp add: queue_merge_def)

interpretation positions: keyed_table pp_id position_merge
  by unfold_locales (simp add: position_merge_def)

interpretation orders: keyed_table os_broker_order_id snapshot_merge
  by unfold_locales (simp add: snapshot_merge_def)

interpretation broker_positions: keyed_table bp_symbol position_snapshot_merge
  by unfold_locales (simp add: position_snapshot_merge_def)

interpretation blacklisted: keyed_table bk_symbol blacklist_merge
  by unfold_locales (simp add: blacklist_merge_def)

interpretation health: keyed_table sh_strategy_name health_merge
  by unfold_locales (simp add: health_merge_def)

text \<open>Which tables an operation leaves alone.\<close>

lemma proposal_update_frame [simp]:
  "st_signals (proposal_update p st) = st_signals st" "st_executions (proposal_update p st) = st_executions st"
  "st_queue (proposal_update p st) = st_queue st" "st_logs (proposal_update p st) = st_logs st"
  "st_runtime (proposal_update p st) = st_runtime st" "st_positions (proposal_update p st) = st_positions st"
  "st_trades (proposal_update p st) = st_trades st" "st_orders (proposal_update p st) = st_orders st"
  "st_broker_positions (proposal_update p st) = st_broker_positions st" "st_reconciliations (proposal_update p st) = st_reconciliations st"
  by (simp_all add: proposal_update_def)

lemma log_run_frame [simp]:
  "st_proposals (log_run t e d st) = st_proposals st" "st_signals (log_run t e d st) = st_signals st"
  "st_executions (log_run t e d st) = st_executions st" "st_queue (log_run t e d st) = st_queue st"
  "st_runtime (log_run t e d st) = st_runtime st" "st_positions (log_run t e d st) = st_positions st"
  "st_trades (log_run t e d st) = st_trades st" "st_orders (log_run t e d st) = st_orders st"
  "st_broker_positions (log_run t e d st) = st_broker_positions st" "st_reconciliations (log_run t e d st) = st_reconciliations st"
  by (simp_all add: log_run_def)

lemma runtime_set_frame [simp]:
  "st_proposals (runtime_set k v st) = st_proposals st" "st_signals (runtime_set k v st) = st_signals st"
  "st_executions (runtime_set k v st) = st_executions st" "st_queue (runtime_set k v st) = st_queue st"
  "st_logs (runtime_set k v st) = st_logs st" "st_positions (runtime_set k v st) = st_positions st"
  "st_trades (runtime_set k v st) = st_trades st" "st_orders (runtime_set k v st) = st_orders st"
  "st_broker_positions (runtime_set k v st) = st_broker_positions st" "st_reconciliations (runtime_set k v st) = st_reconciliations st"
  by (simp_all add: runtime_set_def)

lemma runtime_get_set [simp]: "runtime_get j (runtime_set k v st) = (if j = k then Some v else runtime_get j st)"
  by (simp add: runtime_get_def runtime_set_def update_conv')

lemma runtime_get_log [simp]: "runtime_get k (log_run t e d st) = runtime_get k st"
  by (simp add: runtime_get_def)

lemma proposal_get_update:
  "proposal_get pid (proposal_update p st) =
     (if pid = prop_id p then map_option (proposal_merge p) (proposal_get pid st) else proposal_get pid st)"
  by (simp add: proposal_get_def proposal_update_def proposals.get_update)

lemma proposal_get_log [simp]: "proposal_get pid (log_run t e d st) = proposal_get pid st"
  by (simp add: proposal_get_def)

lemma proposal_get_id: "proposal_get pid st = Some p \<Longrightarrow> prop_id p = pid"
  by (simp add: proposal_get_def proposals.get_key)

lemma queue_get_id: "queue_get qid st = Some q \<Longrightarrow> q_id q = qid"
  by (simp add: queue_get_def queue.get_key)

text \<open>
  The store invariant: primary keys are unique, broker order ids are unique where present,
  and at most one queue item per symbol is open.
\<close>

definition store_inv :: "store \<Rightarrow> bool" where
  "store_inv st \<longleftrightarrow> distinct (map prop_id (st_proposals st)) \<and> distinct (map ex_id (st_executions st)) \<and>
     distinct (List.map_filter ex_broker_order_id (st_executions st)) \<and>
     distinct (map q_id (st_queue st)) \<and> queue_index_ok (st_queue st) \<and>
     distinct (map pp_id (st_positions st)) \<and> distinct (map pt_id (st_trades st)) \<and>
     distinct (map os_broker_order_id (st_orders st)) \<and> distinct (map bp_symbol (st_broker_positions st))"

lemma store_inv_empty: "store_inv empty_store"
  by (simp add: store_inv_def empty_store_def queue_index_ok_def map_filter_def)

lemma store_inv_log [simp]: "store_inv (log_run t e d st) = store_inv st"
  by (simp add: store_inv_def)

lemma store_inv_runtime [simp]: "store_inv (runtime_set k v st) = store_inv st"
  by (simp add: store_inv_def)

lemma store_inv_proposal_update [simp]: "store_inv (proposal_update p st) = store_inv st"
  by (simp add: store_inv_def proposal_update_def proposals.keys_update)

lemma store_inv_proposal_create:
  "proposal_create_row p st = Inr st' \<Longrightarrow> store_inv st \<Longrightarrow> store_inv st'"
  by (auto simp: proposal_create_row_def store_inv_def split: if_splits)

lemma store_inv_signal_create: "signal_create_row sg st = Inr st' \<Longrightarrow> store_inv st' = store_inv st"
  by (auto simp: signal_create_row_def store_inv_def split: if_splits)

lemma set_map_filter: "x \<in> set (List.map_filter f ys) \<longleftrightarrow> (\<exists>y \<in> set ys. f y = Some x)"
  by (force simp: map_filter_def)

lemma map_filter_append: "List.map_filter f (xs @ ys) = List.map_filter f xs @ List.map_filter f ys"
  by (simp add: map_filter_def)

lemma store_inv_execution_create:
  assumes "execution_create e st = Inr (e', st')" "store_inv st"
  shows "store_inv st'"
proof -
  from assms(1) have new: "ex_id e \<notin> ex_id ` set (st_executions st)"
    and bid: "\<not> broker_id_taken (ex_broker_order_id e) (st_executions st)"
    and st': "st' = st\<lparr>st_executions := st_executions st @ [e\<lparr>ex_strategy_name := attributed_strategy e\<rparr>]\<rparr>"
    by (auto simp: execution_create_def Let_def split: if_splits)
  have "distinct (List.map_filter ex_broker_order_id (st_executions st @ [e\<lparr>ex_strategy_name := attributed_strategy e\<rparr>]))"
    using assms(2) bid
    by (cases "ex_broker_order_id e")
      (auto simp: store_inv_def map_filter_append map_filter_simps set_map_filter broker_id_taken_def image_iff)
  with assms(2) new show ?thesis by (simp add: store_inv_def st')
qed

lemma merge_broker_id [simp]: "ex_broker_order_id (execution_merge new old) = ex_broker_order_id new"
  by (simp add: execution_merge_def)

lemma row_update_absent: "ex_id e \<notin> ex_id ` set rows \<Longrightarrow> row_update ex_id execution_merge e rows = rows"
  unfolding row_update_def by (induction rows) auto

lemma broker_ids_update:
  assumes "distinct (map ex_id rows)" "distinct (List.map_filter ex_broker_order_id rows)"
    and "\<not> broker_id_taken (ex_broker_order_id e) (filter (\<lambda>r. ex_id r \<noteq> ex_id e) rows)"
  shows "distinct (List.map_filter ex_broker_order_id (row_update ex_id execution_merge e rows))"
  using assms
proof (induction rows)
  case Nil
  then show ?case by (simp add: row_update_def map_filter_def)
next
  case (Cons r rows)
  have tail: "distinct (List.map_filter ex_broker_order_id rows)"
    using Cons.prems(2) by (simp add: map_filter_simps split: option.splits)
  show ?case
  proof (cases "ex_id r = ex_id e")
    case True
    then have "row_update ex_id execution_merge e rows = rows"
      using Cons.prems(1) by (intro row_update_absent) simp
    with True have "row_update ex_id execution_merge e (r # rows) = execution_merge e r # rows"
      by (simp add: row_update_def)
    moreover have "filter (\<lambda>x. ex_id x \<noteq> ex_id e) rows = rows"
      using Cons.prems(1) True by (auto simp: filter_id_conv image_iff)
    ultimately show ?thesis
      using True Cons.prems tail
      by (auto simp: map_filter_simps set_map_filter broker_id_taken_def image_iff
          split: option.splits)
  next
    case False
    have nt: "\<not> broker_id_taken (ex_broker_order_id e) (filter (\<lambda>x. ex_id x \<noteq> ex_id e) rows)"
      and nr: "ex_broker_order_id e \<noteq> None \<Longrightarrow> ex_broker_order_id r \<noteq> ex_broker_order_id e"
      using Cons.prems(3) False by (auto simp: broker_id_taken_def)
    have ih: "distinct (List.map_filter ex_broker_order_id (row_update ex_id execution_merge e rows))"
      using Cons.IH Cons.prems(1) tail nt by simp
    have "b \<notin> set (List.map_filter ex_broker_order_id (row_update ex_id execution_merge e rows))"
      if b: "ex_broker_order_id r = Some b" for b
    proof
      assume "b \<in> set (List.map_filter ex_broker_order_id (row_update ex_id execution_merge e rows))"
      then obtain y where y: "y \<in> set (row_update ex_id execution_merge e rows)" "ex_broker_order_id y = Some b"
        by (auto simp: set_map_filter)
      from executions.in_update [OF y(1)] consider "y \<in> set rows" | old where "old \<in> set rows" "y = execution_merge e old"
        by auto
      then show False
      proof cases
        case 1
        with y(2) b Cons.prems(2) show ?thesis by (auto simp: map_filter_simps set_map_filter)
      next
        case 2
        with y(2) b nr show ?thesis by (auto simp: execution_merge_def)
      qed
    qed
    with ih False show ?thesis by (auto simp: row_update_def map_filter_simps split: option.splits)
  qed
qed

lemma store_inv_execution_update:
  assumes "execution_update e st = Inr st'" "store_inv st"
  shows "store_inv st'"
proof (cases "ex_id e \<in> ex_id ` set (st_executions st)")
  case True
  with assms show ?thesis
    by (auto simp: execution_update_def store_inv_def executions.keys_update intro!: broker_ids_update split: if_splits)
next
  case False
  with assms show ?thesis by (auto simp: execution_update_def row_update_absent)
qed

lemma store_inv_queue_create: "queue_create q st = Inr st' \<Longrightarrow> store_inv st \<Longrightarrow> store_inv st'"
  by (auto simp: queue_create_def store_inv_def Let_def split: if_splits)

lemma store_inv_queue_update: "queue_update q st = Inr st' \<Longrightarrow> store_inv st \<Longrightarrow> store_inv st'"
  by (auto simp: queue_update_def store_inv_def Let_def queue.keys_update split: if_splits)

lemma claim_ids:
  "q_id \<circ> (\<lambda>q. if hit q then q\<lparr>q_status := v, q_updated_at := t\<rparr> else q) = q_id"
  by auto

lemma store_inv_claim: "claim_for_processing now qid stale st = Inr (b, st') \<Longrightarrow> store_inv st \<Longrightarrow> store_inv st'"
  by (auto simp: claim_for_processing_def store_inv_def Let_def claim_ids split: if_splits)

lemma store_inv_position_create: "position_create_row p st = Inr st' \<Longrightarrow> store_inv st \<Longrightarrow> store_inv st'"
  by (auto simp: position_create_row_def store_inv_def split: if_splits)

lemma store_inv_position_update [simp]: "store_inv (position_update p st) = store_inv st"
  by (simp add: store_inv_def position_update_def positions.keys_update)

lemma store_inv_trade_create: "trade_create_row t st = Inr st' \<Longrightarrow> store_inv st \<Longrightarrow> store_inv st'"
  by (auto simp: trade_create_row_def store_inv_def split: if_splits)

lemma store_inv_snapshot [simp]: "store_inv st \<Longrightarrow> store_inv (snapshot_upsert s st)"
  by (simp add: store_inv_def snapshot_upsert_def orders.distinct_upsert)

lemma store_inv_replace_active [simp]:
  assumes "store_inv st"
  shows "store_inv (replace_active now account ps st)"
proof -
  have folded: "distinct (map bp_symbol (fold (upsert_position now account) ps rows))"
    if "distinct (map bp_symbol rows)" for rows
    using that by (induction ps arbitrary: rows) (auto simp: upsert_position_def Let_def broker_positions.distinct_upsert)
  have same: "bp_symbol \<circ> (\<lambda>r. if h r then r\<lparr>bp_active := False, bp_updated_at := now\<rparr> else r) = bp_symbol" for h
    by auto
  from assms show ?thesis by (simp add: store_inv_def replace_active_def folded same Let_def)
qed

lemma store_inv_reconciliation [simp]: "store_inv (record_reconciliation r st) = store_inv st"
  by (simp add: store_inv_def record_reconciliation_def)

lemmas store_inv_ops = store_inv_position_create store_inv_trade_create store_inv_proposal_create store_inv_signal_create store_inv_execution_create
  store_inv_execution_update store_inv_queue_create store_inv_queue_update store_inv_claim

text \<open>Every way the repositories change the store.\<close>

inductive store_step :: "store \<Rightarrow> store \<Rightarrow> bool" where
  step_proposal_create: "proposal_create_row p st = Inr st' \<Longrightarrow> store_step st st'"
| step_proposal_update: "store_step st (proposal_update p st)"
| step_signal_create: "signal_create_row sg st = Inr st' \<Longrightarrow> store_step st st'"
| step_execution_create: "execution_create e st = Inr (e', st') \<Longrightarrow> store_step st st'"
| step_execution_update: "execution_update e st = Inr st' \<Longrightarrow> store_step st st'"
| step_queue_create: "queue_create q st = Inr st' \<Longrightarrow> store_step st st'"
| step_queue_update: "queue_update q st = Inr st' \<Longrightarrow> store_step st st'"
| step_claim: "claim_for_processing now qid stale st = Inr (b, st') \<Longrightarrow> store_step st st'"
| step_position_create: "position_create_row pp st = Inr st' \<Longrightarrow> store_step st st'"
| step_position_update: "store_step st (position_update pp st)"
| step_trade_create: "trade_create_row tr st = Inr st' \<Longrightarrow> store_step st st'"
| step_snapshot: "store_step st (snapshot_upsert s st)"
| step_replace_active: "store_step st (replace_active now account ps st)"
| step_reconciliation: "store_step st (record_reconciliation rr st)"
| step_log: "store_step st (log_run t e d st)"
| step_runtime: "store_step st (runtime_set k v st)"

inductive_cases store_stepE: "store_step st st'"

lemma store_inv_step: "store_step st st' \<Longrightarrow> store_inv st \<Longrightarrow> store_inv st'"
  by (erule store_stepE) (auto dest: store_inv_ops)

lemma store_inv_reachable: "store_step\<^sup>*\<^sup>* empty_store st \<Longrightarrow> store_inv st"
  by (induction rule: rtranclp_induct) (auto simp: store_inv_empty intro: store_inv_step)

lemma open_unique:
  assumes "store_inv st" "q \<in> set (st_queue st)" "q' \<in> set (st_queue st)" "queue_open q" "queue_open q'"
    and "q_symbol q = q_symbol q'"
  shows "q = q'"
  using assms by (simp add: store_inv_def queue_index_ok_def distinct_map inj_on_def)

lemma get_member:
  assumes "store_inv st" "q \<in> set (st_queue st)"
  shows "queue_get (q_id q) st = Some q"
proof (cases "queue_get (q_id q) st")
  case None
  with assms(2) show ?thesis by (simp add: queue_get_def queue.get_None_iff)
next
  case (Some r)
  then have "r \<in> set (st_queue st)" "q_id r = q_id q"
    by (simp_all add: queue_get_def queue.get_in queue.get_key)
  with assms Some show ?thesis by (auto simp: store_inv_def distinct_map inj_on_def)
qed

lemma claim_hits:
  assumes "store_inv st"
  shows "length (filter (\<lambda>q. q_id q = qid \<and> claimable stale q) (st_queue st)) = 1 \<longleftrightarrow>
    (\<exists>q. queue_get qid st = Some q \<and> claimable stale q)"
proof -
  have d: "distinct (map q_id (st_queue st))" using assms by (simp add: store_inv_def)
  have "length (filter (\<lambda>q. q_id q = qid \<and> claimable stale q) rows) = 1 \<longleftrightarrow>
      (\<exists>q. row_get q_id qid rows = Some q \<and> claimable stale q)" if "distinct (map q_id rows)" for rows
    using that
  proof (induction rows)
    case (Cons a rows)
    then have "filter (\<lambda>q. q_id q = q_id a \<and> claimable stale q) rows = []" "row_get q_id (q_id a) rows = None"
      by (auto simp: filter_empty_conv queue.get_None_iff image_iff)
    with Cons show ?case by (auto simp: row_get_def)
  qed (simp add: row_get_def)
  from this [OF d] show ?thesis by (simp add: queue_get_def)
qed

lemma get_claimed:
  assumes "claim_for_processing now qid stale st = Inr (b, st')" "queue_get qid st = Some q"
  shows "queue_get qid st' = Some (if claimable stale q then q\<lparr>q_status := PROCESSING, q_updated_at := now\<rparr> else q)"
proof -
  have "row_get q_id qid (map (\<lambda>q. if q_id q = qid \<and> claimable stale q
        then q\<lparr>q_status := PROCESSING, q_updated_at := now\<rparr> else q) rows) =
      map_option (\<lambda>q. if claimable stale q then q\<lparr>q_status := PROCESSING, q_updated_at := now\<rparr> else q)
        (row_get q_id qid rows)" for rows
    by (induction rows) (auto simp: row_get_def)
  with assms show ?thesis
    by (auto simp: claim_for_processing_def queue_get_def Let_def split: if_splits)
qed

lemma claim_misses:
  assumes "store_inv st" "queue_get qid st = Some q" "\<not> claimable stale q"
  shows "claim_for_processing now qid stale st = Inr (False, st)"
proof -
  have miss: "\<not> (q_id r = qid \<and> claimable stale r)" if "r \<in> set (st_queue st)" for r
    using that assms get_member [of st r] by auto
  then have "map (\<lambda>q. if q_id q = qid \<and> claimable stale q then q\<lparr>q_status := PROCESSING, q_updated_at := now\<rparr> else q)
      (st_queue st) = st_queue st"
    by (intro map_idI) auto
  moreover have "filter (\<lambda>q. q_id q = qid \<and> claimable stale q) (st_queue st) = []"
    using miss by (simp add: filter_empty_conv)
  ultimately show ?thesis
    using assms(1) by (simp add: claim_for_processing_def Let_def store_inv_def)
qed

text \<open>Losing runs: the longest one, and the one still open at the end.\<close>

definition losses :: "(time \<times> pyfloat) list \<Rightarrow> bool" where
  "losses evs = (\<forall>(t, p) \<in> set evs. p < 0)"

lemma loss_stats_total: "fst (loss_stats_loop evs tot worst streak) = tot + sum_list (map snd evs)"
  by (induction evs tot worst streak rule: loss_stats_loop.induct) auto

text \<open>A losing run of at least \<open>n\<close> exits, when \<open>streak\<close> losses precede the list.\<close>

definition has_run :: "int \<Rightarrow> int \<Rightarrow> (time \<times> pyfloat) list \<Rightarrow> bool" where
  "has_run streak n evs \<longleftrightarrow> (\<exists>xs ys zs. evs = xs @ ys @ zs \<and> losses ys \<and> ys \<noteq> [] \<and>
     n \<le> int (length ys) + (if xs = [] then streak else 0))"

lemma has_runI: "losses ys \<Longrightarrow> ys \<noteq> [] \<Longrightarrow> n \<le> int (length ys) + (if xs = [] then streak else 0) \<Longrightarrow>
    has_run streak n (xs @ ys @ zs)"
  unfolding has_run_def by blast

lemma has_run_loss:
  assumes "p < 0" "0 \<le> streak"
  shows "has_run streak n ((t, p) # evs) \<longleftrightarrow> n \<le> streak + 1 \<or> has_run (streak + 1) n evs"
proof
  assume "has_run streak n ((t, p) # evs)"
  then obtain xs ys zs where e: "(t, p) # evs = xs @ ys @ zs" "losses ys" "ys \<noteq> []"
    "n \<le> int (length ys) + (if xs = [] then streak else 0)" unfolding has_run_def by blast
  show "n \<le> streak + 1 \<or> has_run (streak + 1) n evs"
  proof (cases xs)
    case Nil
    with e obtain ys' where ys: "ys = (t, p) # ys'" "evs = ys' @ zs" by (cases ys) auto
    with e Nil show ?thesis using has_runI [of ys' n "[]" "streak + 1" zs]
      by (cases "ys' = []") (simp_all add: losses_def)
  next
    case (Cons x xs')
    with e assms have "evs = xs' @ ys @ zs" "n \<le> int (length ys) + (if xs' = [] then streak + 1 else 0)" by auto
    with e has_runI [of ys n xs' "streak + 1" zs] show ?thesis by simp
  qed
next
  assume "n \<le> streak + 1 \<or> has_run (streak + 1) n evs"
  then show "has_run streak n ((t, p) # evs)"
  proof
    assume "n \<le> streak + 1"
    with assms has_runI [of "[(t, p)]" n "[]" streak evs] show ?thesis by (simp add: losses_def)
  next
    assume "has_run (streak + 1) n evs"
    then obtain xs ys zs where e: "evs = xs @ ys @ zs" "losses ys" "ys \<noteq> []"
      "n \<le> int (length ys) + (if xs = [] then streak + 1 else 0)" unfolding has_run_def by blast
    then show ?thesis
      using has_runI [of "(t, p) # ys" n "[]" streak zs] has_runI [of ys n "(t, p) # xs" streak zs] assms
      by (cases "xs = []") (simp_all add: losses_def)
  qed
qed

lemma has_run_gain:
  assumes "0 < p"
  shows "has_run streak n ((t, p) # evs) \<longleftrightarrow> has_run 0 n evs"
proof
  assume "has_run streak n ((t, p) # evs)"
  then obtain xs ys zs where e: "(t, p) # evs = xs @ ys @ zs" "losses ys" "ys \<noteq> []"
    "n \<le> int (length ys) + (if xs = [] then streak else 0)" unfolding has_run_def by blast
  show "has_run 0 n evs"
  proof (cases xs)
    case Nil
    with e assms show ?thesis by (cases ys) (auto simp: losses_def)
  next
    case (Cons x xs')
    with e has_runI [of ys n xs' 0 zs] show ?thesis by simp
  qed
next
  assume "has_run 0 n evs"
  then obtain xs ys zs where e: "evs = xs @ ys @ zs" "losses ys" "ys \<noteq> []" "n \<le> int (length ys)"
    unfolding has_run_def by (auto split: if_splits)
  with has_runI [of ys n "(t, p) # xs" streak zs] show "has_run streak n ((t, p) # evs)" by simp
qed

lemma loss_stats_worst:
  assumes "\<forall>(t, p) \<in> set evs. p \<noteq> 0" "0 \<le> streak"
  shows "n \<le> snd (loss_stats_loop evs tot worst streak) \<longleftrightarrow> n \<le> worst \<or> has_run streak n evs"
  using assms
proof (induction evs tot worst streak rule: loss_stats_loop.induct)
  case (2 t p evs tot worst streak)
  then show ?case
    by (cases "p < 0") (auto simp: has_run_loss has_run_gain le_max_iff_disj)
qed (simp add: has_run_def)

lemma realized_events_of_nonzero:
  "realized_events_of es = Inr evs \<Longrightarrow> \<forall>e \<in> set es. ex_realized_pnl_usd e \<noteq> 0 \<Longrightarrow> \<forall>(t, p) \<in> set evs. p \<noteq> 0"
  by (induction es arbitrary: evs) (auto split: sum.splits)

lemma realized_events_nonzero: "realized_events st = Inr evs \<Longrightarrow> \<forall>(t, p) \<in> set evs. p \<noteq> 0"
  by (auto simp: realized_events_def split: sum.splits dest!: realized_events_of_nonzero)

subsection \<open>Properties\<close>

text \<open>
  C14: whatever sequence of repository calls produced the store, primary keys and broker
  order ids are unique, and two open (queued or processing) queue items for one symbol are
  the same item, so a symbol never has two orders in flight.
\<close>

theorem one_open_item_per_symbol:
  assumes "store_step\<^sup>*\<^sup>* empty_store st"
  shows "(store_inv st) \<and>
    (\<forall>q \<in> set (st_queue st). \<forall>q' \<in> set (st_queue st).
           queue_open q \<longrightarrow> queue_open q' \<longrightarrow> q_symbol q = q_symbol q' \<longrightarrow> q = q')"
  using store_inv_reachable [OF assms] open_unique [of st] by blast+

definition demo_item :: "string \<Rightarrow> queue_status \<Rightarrow> queue_record" where
  "demo_item qid status = \<lparr>q_id = qid, q_proposal_id = ''prop_1'', q_signal_id = None, q_symbol = ''NVDA'',
     q_strategy_name = Some ''swing'', q_timeframe = None, q_mode = ''paper'', q_client_order_id = None,
     q_status = status, q_approval_required = True, q_ready_for_execution = False,
     q_requested_entry_price = Some 100, q_latest_quote_price = None, q_latest_quote_timestamp = None,
     q_validation_reason = None, q_payload = [], q_created_at = 0, q_updated_at = 0, q_executed_at = None\<rparr>"

definition demo_store :: store where
  "demo_store = empty_store\<lparr>st_queue := [demo_item ''q1'' QUEUED]\<rparr>"

lemma demo_store_create: "queue_create (demo_item ''q1'' QUEUED) empty_store = Inr demo_store"
  by code_simp

lemma demo_store_second: "queue_create (demo_item ''q2'' QUEUED) demo_store =
    Inl (IntegrityError ''UNIQUE constraint failed: execution_queue'')"
  by code_simp

theorem one_open_item_per_symbol_witness: "store_inv demo_store \<and> st_queue demo_store \<noteq> []"
proof
  have "store_step\<^sup>*\<^sup>* empty_store demo_store" using step_queue_create [OF demo_store_create] by blast
  then show "store_inv demo_store" by (rule one_open_item_per_symbol [THEN conjunct1])
qed (simp add: demo_store_def)

text \<open>
  the claim is exclusive. When a claim succeeds the item exists, was claimable and is
  now processing with the claim time; a second claim of it, by any worker whose staleness
  bound is not past the first claim time, fails and changes nothing. A claim of an item that
  is not claimable fails and changes nothing.
\<close>

theorem claim_is_exclusive:
  assumes "store_inv st" "claim_for_processing now qid stale st = Inr (True, st')" "stale2 \<le> now"
  shows "\<exists>q. queue_get qid st = Some q \<and> claimable stale q \<and>
           queue_get qid st' = Some (q\<lparr>q_status := PROCESSING, q_updated_at := now\<rparr>) \<and>
           claim_for_processing now2 qid stale2 st' = Inr (False, st')"
proof -
  have "length (filter (\<lambda>q. q_id q = qid \<and> claimable stale q) (st_queue st)) = 1"
    using assms(2) by (auto simp: claim_for_processing_def Let_def split: if_splits)
  then obtain q where q: "queue_get qid st = Some q" "claimable stale q"
    using claim_hits [OF assms(1)] by blast
  with get_claimed [OF assms(2)] have
    g: "queue_get qid st' = Some (q\<lparr>q_status := PROCESSING, q_updated_at := now\<rparr>)" by simp
  have "claim_for_processing now2 qid stale2 st' = Inr (False, st')"
    by (rule claim_misses [OF store_inv_claim [OF assms(2,1)] g]) (use assms(3) in \<open>simp add: claimable_def\<close>)
  with q g show ?thesis by blast
qed

theorem claim_is_exclusive_witness:
  "\<exists>q. queue_get ''q1'' demo_store = Some q \<and> claimable (-45) q \<and>
     queue_get ''q1'' (demo_store\<lparr>st_queue := [(demo_item ''q1'' PROCESSING)\<lparr>q_updated_at := 7\<rparr>]\<rparr>) =
       Some (q\<lparr>q_status := PROCESSING, q_updated_at := 7\<rparr>) \<and>
     claim_for_processing 8 ''q1'' (-44) (demo_store\<lparr>st_queue := [(demo_item ''q1'' PROCESSING)\<lparr>q_updated_at := 7\<rparr>]\<rparr>) =
       Inr (False, demo_store\<lparr>st_queue := [(demo_item ''q1'' PROCESSING)\<lparr>q_updated_at := 7\<rparr>]\<rparr>)"
proof (rule claim_is_exclusive)
  show "store_inv demo_store" by (rule store_inv_queue_create [OF demo_store_create store_inv_empty])
  show "claim_for_processing 7 ''q1'' (-45) demo_store =
      Inr (True, demo_store\<lparr>st_queue := [(demo_item ''q1'' PROCESSING)\<lparr>q_updated_at := 7\<rparr>]\<rparr>)"
    by code_simp
qed simp

text \<open>
  the daily loss statistics are the sum of the realised results of the day's exits and
  the length of the longest unbroken run of losing exits, in exit order.
\<close>

theorem daily_loss_stats_longest_run:
  assumes "realized_events st = Inr evs" "daily_loss_stats day st = Inr (pnl, worst)"
  shows "(pnl = sum_list (map snd (filter (\<lambda>(t, p). t div day_us = day div day_us) evs))) \<and>
    (0 < n \<longrightarrow> n \<le> worst \<longleftrightarrow> (\<exists>xs ys zs. filter (\<lambda>(t, p). t div day_us = day div day_us) evs = xs @ ys @ zs \<and>
           losses ys \<and> n \<le> int (length ys)))"
proof (rule conjI; (intro impI)?)
  let ?evs = "filter (\<lambda>(t, p). t div day_us = day div day_us) evs"
  have run: "loss_stats_loop ?evs 0 0 0 = (pnl, worst)" using assms by (simp add: daily_loss_stats_def)
  show "pnl = sum_list (map snd ?evs)" using loss_stats_total [of ?evs 0 0 0] run by simp
  have nz: "\<forall>(t, p) \<in> set ?evs. p \<noteq> 0" using realized_events_nonzero [OF assms(1)] by auto
  assume "0 < n"
  then show "n \<le> worst \<longleftrightarrow> (\<exists>xs ys zs. ?evs = xs @ ys @ zs \<and> losses ys \<and> n \<le> int (length ys))"
    using loss_stats_worst [OF nz, of 0 n 0 0] run by (simp add: has_run_def) fastforce
qed

definition demo_exit :: "string \<Rightarrow> time \<Rightarrow> pyfloat \<Rightarrow> execution_record" where
  "demo_exit eid t pnl = \<lparr>ex_id = eid, ex_proposal_id = ''prop_1'', ex_status = ''closed'', ex_mode = ''paper'',
     ex_broker_order_id = None, ex_strategy_name = None, ex_request_payload = [],
     ex_response_payload = [(''exit_fill'', PDict [(''status'', PStr ''filled''), (''filled_at'', PTime t)])],
     ex_error_message = None, ex_realized_pnl_usd = pnl, ex_created_at = 0, ex_updated_at = 0\<rparr>"

definition demo_exits :: store where
  "demo_exits = empty_store\<lparr>st_executions := [demo_exit ''e1'' 30 (-5), demo_exit ''e2'' 10 4, demo_exit ''e3'' 20 (-2)]\<rparr>"

theorem daily_loss_stats_longest_run_witness:
  "(-3 :: pyfloat) = sum_list (map snd (filter (\<lambda>(t, p). t div day_us = 5 div day_us)
     [(10, 4), (20, -2), (30, -5)])) \<and>
   (\<exists>xs ys zs. filter (\<lambda>(t, p). t div day_us = 5 div day_us) [(10, 4), (20, -2), (30, -5)] = xs @ ys @ zs \<and>
     losses ys \<and> 2 \<le> int (length ys))"
proof -
  have evs: "realized_events demo_exits = Inr [(10, 4), (20, -2), (30, -5)]" by code_simp
  have stats: "daily_loss_stats 5 demo_exits = Inr (-3, 2)" by code_simp
  show ?thesis
    using daily_loss_stats_longest_run [THEN conjunct1, OF evs stats] daily_loss_stats_longest_run [THEN conjunct2, THEN mp, OF evs stats, of 2] by simp
qed

end
