(* ===== verification/RiskContext.thy ===== *)
theory RiskContext
  imports Guardrails Storage "HOL-Library.List_Lexorder" "HOL-Library.Char_ord"
begin

text \<open>
  The account context of the risk gate (src/app/risk/context.py): \<open>build_risk_context\<close> with
  its exposure tables, \<open>recently_stopped_symbols\<close> and \<open>entries_today_by_bucket\<close>. The
  broker's \<open>get_portfolio\<close> answer is an argument, \<open>utc_now()\<close> is read once per call.
\<close>

subsection \<open>Exposure tables\<close>

record exposure_tables =
  et_positions_by_symbol :: "(string \<times> int) list"
  et_symbol_pct :: "(string \<times> pyfloat) list"
  et_sector_pct :: "(string \<times> pyfloat) list"
  et_bucket_pct :: "(string \<times> pyfloat) list"
  et_gross_market_value :: pyfloat
  et_open_unrealized_pnl :: pyfloat

definition empty_tables :: exposure_tables where
  "empty_tables = \<lparr>et_positions_by_symbol = [], et_symbol_pct = [], et_sector_pct = [], et_bucket_pct = [],
     et_gross_market_value = 0, et_open_unrealized_pnl = 0\<rparr>"

definition position_key :: "portfolio_position \<Rightarrow> string" where
  "position_key p = py_upper (pos_symbol p)"

definition exposure_pct :: "pyfloat \<Rightarrow> portfolio_position \<Rightarrow> pyfloat" where
  "exposure_pct balance p = \<bar>pos_market_value p\<bar> / balance * 100"

text \<open>The body of the loop over \<open>portfolio.positions\<close>.\<close>

definition position_step :: "pyfloat \<Rightarrow> portfolio_position \<Rightarrow> exposure_tables \<Rightarrow> exposure_tables" where
  "position_step balance p t =
     (let symbol = position_key p; x = exposure_pct balance p in
      if symbol = [] then t
      else t\<lparr>et_positions_by_symbol := dict_add symbol 1 (et_positions_by_symbol t),
             et_gross_market_value := et_gross_market_value t + \<bar>pos_market_value p\<bar>,
             et_open_unrealized_pnl := et_open_unrealized_pnl t + pos_unrealized_pnl p,
             et_symbol_pct := dict_add symbol x (et_symbol_pct t),
             et_sector_pct := dict_add (sector_for_symbol symbol) x (et_sector_pct t),
             et_bucket_pct := dict_add (correlation_bucket_for_symbol symbol) x (et_bucket_pct t)\<rparr>)"

definition exposure_tables_of :: "pyfloat \<Rightarrow> portfolio_position list \<Rightarrow> exposure_tables" where
  "exposure_tables_of balance ps = fold (position_step balance) ps empty_tables"

text \<open>\<open>max(values, default=0.0)\<close>.\<close>

definition max_default :: "pyfloat list \<Rightarrow> pyfloat" where
  "max_default xs = (case xs of [] \<Rightarrow> 0 | x # r \<Rightarrow> fold max r x)"

subsection \<open>recently_stopped_symbols and entries_today_by_bucket\<close>

fun parse_times :: "pyval list \<Rightarrow> exn + time list" where
  "parse_times [] = Inr []"
| "parse_times (v # vs) = (case parse_time v of Inl e \<Rightarrow> Inl e | Inr t \<Rightarrow>
     (case parse_times vs of Inl e \<Rightarrow> Inl e | Inr ts \<Rightarrow> Inr (t # ts)))"

definition request_symbol :: "execution_record \<Rightarrow> string" where
  "request_symbol e = py_upper (str_or_empty (dict_get (ex_request_payload e) ''symbol''))"

text \<open>One execution's exit: its symbol, the time of its last exit fill and its result.\<close>

definition exit_event :: "execution_record \<Rightarrow> exn + (string \<times> time \<times> pyfloat) option" where
  "exit_event e =
     (if ex_realized_pnl_usd e = 0 \<or> request_symbol e = [] then Inr None
      else case parse_times (map (\<lambda>l. dict_get l ''filled_at'') (filter leg_filled (exit_legs (ex_response_payload e)))) of
             Inl x \<Rightarrow> Inl x
           | Inr [] \<Rightarrow> Inr None
           | Inr (t # ts) \<Rightarrow> Inr (Some (request_symbol e, fold max ts t, ex_realized_pnl_usd e)))"

definition note_exit :: "string \<times> time \<times> pyfloat \<Rightarrow> (string \<times> time \<times> pyfloat) list \<Rightarrow> (string \<times> time \<times> pyfloat) list" where
  "note_exit ev latest = (case ev of (symbol, exited, pnl) \<Rightarrow>
     (case map_of latest symbol of
        None \<Rightarrow> AList.update symbol (exited, pnl) latest
      | Some (t, _) \<Rightarrow> if t < exited then AList.update symbol (exited, pnl) latest else latest))"

fun latest_exits :: "execution_record list \<Rightarrow> (string \<times> time \<times> pyfloat) list \<Rightarrow> exn + (string \<times> time \<times> pyfloat) list" where
  "latest_exits [] latest = Inr latest"
| "latest_exits (e # es) latest =
     (case exit_event e of Inl x \<Rightarrow> Inl x
      | Inr None \<Rightarrow> latest_exits es latest
      | Inr (Some ev) \<Rightarrow> latest_exits es (note_exit ev latest))"

definition recently_stopped_symbols :: "app_settings \<Rightarrow> time \<Rightarrow> store \<Rightarrow> exn + string list" where
  "recently_stopped_symbols s now st =
     (let minutes = reentry_cooldown_minutes_after_loss s; cutoff = now - minutes * minute_us in
      if minutes \<le> 0 then Inr []
      else case latest_exits (execution_list 200 st) [] of Inl x \<Rightarrow> Inl x
           | Inr latest \<Rightarrow> Inr (sort (map fst (filter (\<lambda>(symbol, exited, pnl). pnl < 0 \<and> cutoff \<le> exited) latest))))"

definition LIVE_ENTRY_STATUSES :: "string list" where
  "LIVE_ENTRY_STATUSES = [''filled'', ''submitted'', ''partially_filled'', ''accepted'', ''new'', ''pending_new'']"

definition is_entry_since :: "time \<Rightarrow> execution_record \<Rightarrow> bool" where
  "is_entry_since since e = (since \<le> ex_created_at e \<and> py_lower (ex_status e) \<in> set LIVE_ENTRY_STATUSES \<and>
     request_symbol e \<noteq> [])"

definition entries_today_by_bucket :: "time \<Rightarrow> store \<Rightarrow> (string \<times> int) list" where
  "entries_today_by_bucket since st =
     fold (\<lambda>e. dict_add (correlation_bucket_for_symbol (request_symbol e)) 1)
       (filter (is_entry_since since) (execution_list 200 st)) []"

subsection \<open>build_risk_context\<close>

definition start_of_day :: "time \<Rightarrow> time" where
  "start_of_day now = now - now mod day_us"

definition context_mode :: "app_settings \<Rightarrow> string" where
  "context_mode s = (if exec_mode s = Mode_paper then ''paper'' else account_mode_value (etoro_account_mode s))"

definition simulated_context :: "app_settings \<Rightarrow> pyfloat \<Rightarrow> pyfloat \<Rightarrow> int \<Rightarrow> int \<Rightarrow> risk_context" where
  "simulated_context s daily weekly streak trades = \<lparr>
     rc_account_balance = max (paper_account_balance_usd s) 1,
     rc_daily_realized_pnl_usd = daily, rc_weekly_realized_pnl_usd = weekly, rc_open_unrealized_pnl_usd = 0,
     rc_open_positions = 0, rc_positions_by_symbol = [], rc_exposure_by_symbol_pct = [],
     rc_exposure_by_sector_pct = [], rc_exposure_by_correlation_bucket_pct = [],
     rc_gross_exposure_pct = 0, rc_correlated_exposure_pct = 0, rc_portfolio_drawdown_pct = 0,
     rc_consecutive_losses_today = streak, rc_trades_today = trades, rc_recently_stopped_symbols = [],
     rc_entries_today_by_correlation_bucket = [], rc_open_trade_risks_usd = [], rc_mode = ''paper''\<rparr>"

definition account_balance_of :: "portfolio_summary \<Rightarrow> pyfloat" where
  "account_balance_of pf = max (max (acc_equity (pf_account pf)) (acc_cash_balance (pf_account pf))) 1"

definition per_position_risk_usd :: "app_settings \<Rightarrow> pyfloat \<Rightarrow> pyfloat" where
  "per_position_risk_usd s balance = balance * (effective_max_risk_per_trade_pct s (exec_mode s = Mode_live) / 100)"

definition portfolio_context ::
  "app_settings \<Rightarrow> portfolio_summary \<Rightarrow> pyfloat \<Rightarrow> pyfloat \<Rightarrow> int \<Rightarrow> int \<Rightarrow> string list \<Rightarrow> (string \<times> int) list \<Rightarrow> risk_context" where
  "portfolio_context s pf daily weekly streak trades stopped entries =
     (let balance = account_balance_of pf; t = exposure_tables_of balance (pf_positions pf); n = length (pf_positions pf) in
      \<lparr>rc_account_balance = balance,
       rc_daily_realized_pnl_usd = daily, rc_weekly_realized_pnl_usd = weekly,
       rc_open_unrealized_pnl_usd = py_round 2 (et_open_unrealized_pnl t),
       rc_open_positions = int n, rc_positions_by_symbol = et_positions_by_symbol t,
       rc_exposure_by_symbol_pct = et_symbol_pct t, rc_exposure_by_sector_pct = et_sector_pct t,
       rc_exposure_by_correlation_bucket_pct = et_bucket_pct t,
       rc_gross_exposure_pct = et_gross_market_value t / balance * 100,
       rc_correlated_exposure_pct = max_default (map snd (et_bucket_pct t)),
       rc_portfolio_drawdown_pct = 0,
       rc_consecutive_losses_today = streak, rc_trades_today = trades, rc_recently_stopped_symbols = stopped,
       rc_entries_today_by_correlation_bucket = entries,
       rc_open_trade_risks_usd = replicate n (per_position_risk_usd s balance),
       rc_mode = context_mode s\<rparr>)"

definition build_risk_context ::
  "app_settings \<Rightarrow> time \<Rightarrow> (exn + portfolio_summary) \<Rightarrow> store \<Rightarrow> exn + risk_context" where
  "build_risk_context s now get_portfolio st =
     (let trades = count_since (start_of_day now) st in
      case daily_loss_stats now st of Inl x \<Rightarrow> Inl x
      | Inr (daily, streak) \<Rightarrow>
          (case period_realized_pnl now 7 st of Inl x \<Rightarrow> Inl x
           | Inr weekly \<Rightarrow>
               if exec_mode s = Mode_paper \<and> paper_broker_choice s = PB_self_simulated
               then Inr (simulated_context s daily weekly streak trades)
               else (case get_portfolio of Inl x \<Rightarrow> Inl x
                     | Inr pf \<Rightarrow>
                         (case recently_stopped_symbols s now st of Inl x \<Rightarrow> Inl x
                          | Inr stopped \<Rightarrow>
                              Inr (portfolio_context s pf daily weekly streak trades stopped
                                     (entries_today_by_bucket (start_of_day now) st))))))"

subsection \<open>Lemmas\<close>

interpretation by_symbol: running_totals position_key "exposure_pct balance" for balance .

interpretation by_sector: running_totals "\<lambda>p. sector_for_symbol (position_key p)" "exposure_pct balance" for balance .

interpretation by_bucket: running_totals "\<lambda>p. correlation_bucket_for_symbol (position_key p)" "exposure_pct balance"
  for balance .

interpretation counts: running_totals position_key "\<lambda>p. 1 :: int" .

interpretation entries: running_totals "\<lambda>e. correlation_bucket_for_symbol (request_symbol e)" "\<lambda>e. 1 :: int" .

definition listed :: "portfolio_position list \<Rightarrow> portfolio_position list" where
  "listed ps = filter (\<lambda>p. position_key p \<noteq> []) ps"

lemma position_step_skip: "position_key p = [] \<Longrightarrow> position_step b p t = t"
  by (simp add: position_step_def)

lemma tables_fold:
  "et_positions_by_symbol (fold (position_step b) ps t) = fold (\<lambda>p. dict_add (position_key p) 1) (listed ps) (et_positions_by_symbol t)"
  "et_symbol_pct (fold (position_step b) ps t) = fold (\<lambda>p. dict_add (position_key p) (exposure_pct b p)) (listed ps) (et_symbol_pct t)"
  "et_sector_pct (fold (position_step b) ps t) =
     fold (\<lambda>p. dict_add (sector_for_symbol (position_key p)) (exposure_pct b p)) (listed ps) (et_sector_pct t)"
  "et_bucket_pct (fold (position_step b) ps t) =
     fold (\<lambda>p. dict_add (correlation_bucket_for_symbol (position_key p)) (exposure_pct b p)) (listed ps) (et_bucket_pct t)"
  "et_gross_market_value (fold (position_step b) ps t) = et_gross_market_value t + (\<Sum>p\<leftarrow>listed ps. \<bar>pos_market_value p\<bar>)"
  by (induction ps arbitrary: t) (simp_all add: listed_def position_step_def Let_def)

lemmas tables_simps = exposure_tables_of_def tables_fold empty_tables_def

lemma gross_is_sum_of_pct:
  "(\<Sum>p\<leftarrow>ps. exposure_pct b p) = (\<Sum>p\<leftarrow>ps. \<bar>pos_market_value p\<bar>) / b * 100"
  by (induction ps) (simp_all add: exposure_pct_def add_divide_distrib distrib_right)

lemma built_context_cases:
  assumes "build_risk_context s now pf st = Inr ctx"
  obtains (simulated) daily weekly streak trades where
      "exec_mode s = Mode_paper" "ctx = simulated_context s daily weekly streak trades"
    | (broker) p daily weekly streak trades stopped entries where
      "pf = Inr p" "ctx = portfolio_context s p daily weekly streak trades stopped entries"
  using assms
  by (auto simp: build_risk_context_def Let_def split: sum.splits prod.splits if_splits)

lemma built_balance_pos: "build_risk_context s now pf st = Inr ctx \<Longrightarrow> 0 < rc_account_balance ctx"
  by (erule built_context_cases) (auto simp: simulated_context_def portfolio_context_def account_balance_of_def Let_def max_def)

lemma built_mode: "build_risk_context s now pf st = Inr ctx \<Longrightarrow> rc_mode ctx = ''real'' \<Longrightarrow> exec_mode s = Mode_live"
  by (erule built_context_cases; cases "exec_mode s")
    (auto simp: simulated_context_def portfolio_context_def context_mode_def Let_def)

lemma fold_max: "fold max xs (x :: 'a :: linorder) \<in> insert x (set xs) \<and> x \<le> fold max xs x \<and> (\<forall>y \<in> set xs. y \<le> fold max xs x)"
proof (induction xs arbitrary: x)
  case (Cons y xs)
  from Cons [of "max y x"] show ?case by (auto simp: max_def split: if_splits)
qed simp

text \<open>The exits the cooldown looks at, and the latest one per symbol.\<close>

fun exit_events :: "execution_record list \<Rightarrow> (string \<times> time \<times> pyfloat) list" where
  "exit_events [] = []"
| "exit_events (e # es) = (case exit_event e of Inr (Some ev) \<Rightarrow> ev # exit_events es | _ \<Rightarrow> exit_events es)"

lemma latest_exits_fold: "latest_exits es d = Inr d' \<Longrightarrow> d' = fold note_exit (exit_events es) d"
  by (induction es d rule: latest_exits.induct) (auto split: sum.splits option.splits)

definition is_latest :: "(string \<times> time \<times> pyfloat) list \<Rightarrow> string \<Rightarrow> time \<Rightarrow> pyfloat \<Rightarrow> bool" where
  "is_latest evs k t p \<longleftrightarrow> (k, t, p) \<in> set evs \<and> (\<forall>t' p'. (k, t', p') \<in> set evs \<longrightarrow> t' \<le> t)"

definition tracks_latest :: "(string \<times> time \<times> pyfloat) list \<Rightarrow> (string \<times> time \<times> pyfloat) list \<Rightarrow> bool" where
  "tracks_latest evs d \<longleftrightarrow> distinct (map fst d) \<and> fst ` set d = fst ` set evs \<and>
     (\<forall>k t p. map_of d k = Some (t, p) \<longrightarrow> is_latest evs k t p)"

lemma is_latest_other: "is_latest evs j u q \<Longrightarrow> j \<noteq> k \<Longrightarrow> is_latest (evs @ [(k, t, p)]) j u q"
  by (auto simp: is_latest_def)

lemma is_latest_new: "(\<And>u q. (k, u, q) \<in> set evs \<Longrightarrow> u \<le> t) \<Longrightarrow> is_latest (evs @ [(k, t, p)]) k t p"
  by (auto simp: is_latest_def)

lemma is_latest_keep: "is_latest evs k u q \<Longrightarrow> t \<le> u \<Longrightarrow> is_latest (evs @ [(k, t, p)]) k u q"
  by (auto simp: is_latest_def)

lemma tracks_update:
  assumes "tracks_latest evs d" "\<And>u q. (k, u, q) \<in> set evs \<Longrightarrow> u \<le> t"
  shows "tracks_latest (evs @ [(k, t, p)]) (AList.update k (t, p) d)"
  using assms is_latest_new [of k evs t p] is_latest_other [of evs _ _ _ k t p]
  unfolding tracks_latest_def by (simp add: distinct_update dom_update update_conv')

lemma tracks_note:
  assumes tr: "tracks_latest evs d"
  shows "tracks_latest (evs @ [(k, t, p)]) (note_exit (k, t, p) d)"
proof (cases "map_of d k")
  case None
  then have "k \<notin> fst ` set d" by (simp add: map_of_eq_None_iff)
  with tr have "k \<notin> fst ` set evs" by (simp add: tracks_latest_def)
  then have "(k, u, q) \<notin> set evs" for u q by force
  with None tracks_update [OF tr, of k t p] show ?thesis by (simp add: note_exit_def)
next
  case (Some v)
  obtain t0 p0 where v: "v = (t0, p0)" by (cases v)
  with Some tr have old: "is_latest evs k t0 p0" by (simp add: tracks_latest_def)
  have known: "insert k (fst ` set evs) = fst ` set evs"
    using old by (force simp: is_latest_def)
  show ?thesis
  proof (cases "t0 < t")
    case True
    have "u \<le> t" if "(k, u, q) \<in> set evs" for u q
      using that old True by (fastforce simp: is_latest_def)
    with True Some v tracks_update [OF tr, of k t p] show ?thesis by (simp add: note_exit_def)
  next
    case False
    have "is_latest (evs @ [(k, t, p)]) j u q" if "map_of d j = Some (u, q)" for j u q
      using that tr Some v False is_latest_keep [of evs k u q t p] is_latest_other [of evs j u q k t p]
      by (cases "j = k") (auto simp: tracks_latest_def)
    with False Some v tr known show ?thesis by (simp add: note_exit_def tracks_latest_def)
  qed
qed

lemma tracks_fold: "tracks_latest evs0 d \<Longrightarrow> tracks_latest (evs0 @ evs) (fold note_exit evs d)"
proof (induction evs arbitrary: evs0 d)
  case (Cons ev evs)
  then show ?case using tracks_note [of evs0 d] by (cases ev) (metis append_Cons append_Nil append_assoc fold_simps(2))
qed simp

lemma tracks_all: "tracks_latest evs (fold note_exit evs [])"
  using tracks_fold [of "[]" "[]" evs] by (simp add: tracks_latest_def)

lemma stopped_unfold:
  assumes "recently_stopped_symbols s now st = Inr stopped" "0 < reentry_cooldown_minutes_after_loss s"
  obtains d where "tracks_latest (exit_events (execution_list 200 st)) d"
    "set stopped = {k. \<exists>t p. map_of d k = Some (t, p) \<and> p < 0 \<and> now - reentry_cooldown_minutes_after_loss s * minute_us \<le> t}"
proof -
  from assms obtain d where d: "latest_exits (execution_list 200 st) [] = Inr d"
    and st: "stopped = sort (map fst (filter (\<lambda>(k, t, p). p < 0 \<and>
      now - reentry_cooldown_minutes_after_loss s * minute_us \<le> t) d))"
    by (auto simp: recently_stopped_symbols_def Let_def split: sum.splits)
  have tr: "tracks_latest (exit_events (execution_list 200 st)) d"
    using tracks_all latest_exits_fold [OF d] by simp
  then have "(k, t, p) \<in> set d \<longleftrightarrow> map_of d k = Some (t, p)" for k t p
    by (simp add: tracks_latest_def)
  with st have "set stopped = {k. \<exists>t p. map_of d k = Some (t, p) \<and> p < 0 \<and>
      now - reentry_cooldown_minutes_after_loss s * minute_us \<le> t}"
    by (force simp: image_iff)
  with tr show thesis by (rule that)
qed

subsection \<open>Properties\<close>

text \<open>
  no exposure is lost or counted twice. In a context built from a broker portfolio, the
  exposure recorded for a symbol is the sum over the open positions in that symbol, and the
  symbol, sector and correlation tables each add up to the gross exposure.
\<close>

theorem risk_context_exposure_conserved:
  assumes "build_risk_context s now (Inr pf) st = Inr ctx" "paper_broker_choice s = PB_alpaca"
  shows "(get_default (rc_exposure_by_symbol_pct ctx) k 0 =
           (\<Sum>p\<leftarrow>filter (\<lambda>p. position_key p = k) (listed (pf_positions pf)). exposure_pct (rc_account_balance ctx) p)) \<and>
    (get_default (rc_exposure_by_sector_pct ctx) sec 0 =
           (\<Sum>p\<leftarrow>filter (\<lambda>p. sector_for_symbol (position_key p) = sec) (listed (pf_positions pf)).
              exposure_pct (rc_account_balance ctx) p)) \<and>
    (rc_gross_exposure_pct ctx = sum_list (map snd (rc_exposure_by_symbol_pct ctx))) \<and>
    (rc_gross_exposure_pct ctx = sum_list (map snd (rc_exposure_by_sector_pct ctx))) \<and>
    (rc_gross_exposure_pct ctx = sum_list (map snd (rc_exposure_by_correlation_bucket_pct ctx)))"
proof (rule conj5I)
  from assms obtain daily weekly streak trades stopped entries where
    ctx: "ctx = portfolio_context s pf daily weekly streak trades stopped entries"
    by (auto simp: build_risk_context_def Let_def split: sum.splits prod.splits if_splits)
  show "get_default (rc_exposure_by_symbol_pct ctx) k 0 =
      (\<Sum>p\<leftarrow>filter (\<lambda>p. position_key p = k) (listed (pf_positions pf)). exposure_pct (rc_account_balance ctx) p)"
    by (simp add: ctx portfolio_context_def Let_def tables_simps by_symbol.totals_lookup)
  show "get_default (rc_exposure_by_sector_pct ctx) sec 0 =
      (\<Sum>p\<leftarrow>filter (\<lambda>p. sector_for_symbol (position_key p) = sec) (listed (pf_positions pf)).
         exposure_pct (rc_account_balance ctx) p)"
    by (simp add: ctx portfolio_context_def Let_def tables_simps by_sector.totals_lookup)
  show "rc_gross_exposure_pct ctx = sum_list (map snd (rc_exposure_by_symbol_pct ctx))"
    by (simp add: ctx portfolio_context_def Let_def tables_simps by_symbol.totals_sum gross_is_sum_of_pct)
  show "rc_gross_exposure_pct ctx = sum_list (map snd (rc_exposure_by_sector_pct ctx))"
    by (simp add: ctx portfolio_context_def Let_def tables_simps by_sector.totals_sum gross_is_sum_of_pct)
  show "rc_gross_exposure_pct ctx = sum_list (map snd (rc_exposure_by_correlation_bucket_pct ctx))"
    by (simp add: ctx portfolio_context_def Let_def tables_simps by_bucket.totals_sum gross_is_sum_of_pct)
qed

definition demo_position :: "string \<Rightarrow> pyfloat \<Rightarrow> portfolio_position" where
  "demo_position symbol v = \<lparr>pos_symbol = symbol, pos_quantity = 1, pos_average_price = v, pos_market_value = v,
     pos_unrealized_pnl = -3\<rparr>"

definition demo_portfolio :: portfolio_summary where
  "demo_portfolio = \<lparr>pf_mode = ''paper'',
     pf_account = \<lparr>acc_cash_balance = 9000, acc_equity = 10000, acc_daily_pnl = 0, acc_currency = ''USD''\<rparr>,
     pf_positions = [demo_position ''NVDA'' 400, demo_position ''AMD'' 300, demo_position ''nvda'' 300]\<rparr>"

definition demo_built :: risk_context where
  "demo_built = portfolio_context default_settings demo_portfolio 0 0 0 0 [] []"

lemma demo_built: "build_risk_context default_settings 1000 (Inr demo_portfolio) empty_store = Inr demo_built"
  by code_simp

theorem risk_context_exposure_conserved_witness:
  "get_default (rc_exposure_by_symbol_pct demo_built) ''NVDA'' 0 =
     (\<Sum>p\<leftarrow>filter (\<lambda>p. position_key p = ''NVDA'') (listed (pf_positions demo_portfolio)). exposure_pct (rc_account_balance demo_built) p) \<and>
   rc_gross_exposure_pct demo_built = sum_list (map snd (rc_exposure_by_symbol_pct demo_built)) \<and>
   rc_gross_exposure_pct demo_built = 10"
proof (intro conjI)
  have alpaca: "paper_broker_choice default_settings = PB_alpaca" by (simp add: default_settings_def)
  show "get_default (rc_exposure_by_symbol_pct demo_built) ''NVDA'' 0 =
     (\<Sum>p\<leftarrow>filter (\<lambda>p. position_key p = ''NVDA'') (listed (pf_positions demo_portfolio)). exposure_pct (rc_account_balance demo_built) p)"
    by (rule risk_context_exposure_conserved [THEN conjunct1, OF demo_built alpaca])
  show "rc_gross_exposure_pct demo_built = sum_list (map snd (rc_exposure_by_symbol_pct demo_built))"
    by (rule risk_context_exposure_conserved [THEN conjunct2, THEN conjunct2, THEN conjunct1, OF demo_built alpaca])
  show "rc_gross_exposure_pct demo_built = 10" by code_simp
qed

text \<open>
  the heat proxy never under-estimates. When an order passes the gate against a context
  built by the program, its entry-to-stop risk is at most the budget that
  \<open>build_risk_context\<close> books for one open position, so the aggregate heat check counts every
  position opened through the gate at no less than its entry risk.
\<close>

theorem heat_proxy_covers_admitted_risk:
  assumes "build_risk_context s now pf st = Inr ctx" "max_risk_per_trade_pct s \<noteq> 0"
    and "validate_order s o1 ctx room = Inr r" "rv_passed r"
  shows "order_risk_amount o1 \<le> per_position_risk_usd s (rc_account_balance ctx)"
proof -
  have "within_trade_risk s o1 ctx"
    using validate_passedD [OF assms(3,4)] by (simp add: order_admissible_def)
  then obtain stop where stop: "ord_stop_loss o1 = Some stop" and le: "order_risk_pct o1 ctx \<le> gate_risk_cap s ctx"
    by (auto simp: within_trade_risk_def)
  have cap: "gate_risk_cap s ctx = effective_max_risk_per_trade_pct s (exec_mode s = Mode_live)"
    by (rule gate_cap_is_sizing_cap [OF assms(2)]) (use built_mode [OF assms(1)] in blast)
  from le show ?thesis
    using built_balance_pos [OF assms(1)]
    by (simp add: cap per_position_risk_usd_def order_risk_pct_def stop field_simps)
qed

theorem heat_proxy_covers_admitted_risk_witness:
  "order_risk_amount (demo_order\<lparr>ord_symbol := ''MU''\<rparr>) \<le> per_position_risk_usd default_settings (rc_account_balance demo_built)"
proof -
  have v: "validate_order (default_settings\<lparr>max_open_positions := 5, max_open_positions_per_sector := 0\<rparr>)
      (demo_order\<lparr>ord_symbol := ''MU''\<rparr>) demo_built None =
    Inr \<lparr>rv_passed = True, rv_reasons = [], rv_risk_amount_usd = 10, rv_risk_pct_of_balance = 1/10,
         rv_room_authority = ''paper''\<rparr>"
    by code_simp
  have b: "build_risk_context (default_settings\<lparr>max_open_positions := 5, max_open_positions_per_sector := 0\<rparr>)
      1000 (Inr demo_portfolio) empty_store = Inr demo_built"
    by code_simp
  show ?thesis
    using heat_proxy_covers_admitted_risk [OF b _ v]
    by (simp add: default_settings_def per_position_risk_usd_def effective_max_risk_per_trade_pct_def)
qed

text \<open>
  the re-entry cooldown. A symbol is on cooldown exactly when its latest exit among the
  executions examined lost money and happened within the configured number of minutes;
  where several exits share the latest time, one of them decides.
\<close>

theorem recently_stopped_means_latest_exit_lost:
  assumes "recently_stopped_symbols s now st = Inr stopped" "0 < reentry_cooldown_minutes_after_loss s"
  defines "evs \<equiv> exit_events (execution_list 200 st)"
    and "cutoff \<equiv> now - reentry_cooldown_minutes_after_loss s * minute_us"
  shows "(k \<in> set stopped \<longrightarrow> (\<exists>t p. is_latest evs k t p \<and> p < 0 \<and> cutoff \<le> t)) \<and>
    (is_latest evs k t p \<longrightarrow> (\<forall>p'. is_latest evs k t p' \<longrightarrow> p' < 0) \<longrightarrow> cutoff \<le> t \<longrightarrow> k \<in> set stopped)"
proof (rule conjI; (intro impI)?)
  obtain d where tr: "tracks_latest evs d"
    and st: "set stopped = {k. \<exists>t p. map_of d k = Some (t, p) \<and> p < 0 \<and> cutoff \<le> t}"
    using stopped_unfold [OF assms(1,2)] unfolding evs_def cutoff_def by blast
  have known: "is_latest evs k t p" if "map_of d k = Some (t, p)" for k t p
    using tr that unfolding tracks_latest_def by blast
  show "\<exists>t p. is_latest evs k t p \<and> p < 0 \<and> cutoff \<le> t" if "k \<in> set stopped"
    using that known unfolding st by fast
  assume l: "is_latest evs k t p" and neg: "\<forall>p'. is_latest evs k t p' \<longrightarrow> p' < 0" and c: "cutoff \<le> t"
  from l have "k \<in> fst ` set evs" by (force simp: is_latest_def)
  with tr have "map_of d k \<noteq> None" by (simp add: map_of_eq_None_iff tracks_latest_def)
  then obtain t' p' where m: "map_of d k = Some (t', p')" by fast
  then have l': "is_latest evs k t' p'" by (rule known)
  with l have "t' = t" unfolding is_latest_def by (meson order_antisym)
  with m l' neg c st show "k \<in> set stopped" by blast
qed

definition demo_stopped :: store where
  "demo_stopped = empty_store\<lparr>st_executions :=
     [(demo_exit ''e1'' 1000 (-5))\<lparr>ex_request_payload := [(''symbol'', PStr ''nvda'')]\<rparr>,
      (demo_exit ''e2'' 900 7)\<lparr>ex_request_payload := [(''symbol'', PStr ''NVDA'')]\<rparr>]\<rparr>"

theorem recently_stopped_means_latest_exit_lost_witness:
  "\<exists>t p. is_latest (exit_events (execution_list 200 demo_stopped)) ''NVDA'' t p \<and> p < 0 \<and>
     2000 - reentry_cooldown_minutes_after_loss default_settings * minute_us \<le> t"
proof -
  have r: "recently_stopped_symbols default_settings 2000 demo_stopped = Inr [''NVDA'']" by code_simp
  show ?thesis
    by (rule recently_stopped_means_latest_exit_lost [THEN conjunct1, THEN mp, OF r]) (simp_all add: default_settings_def)
qed

text \<open>
  the portfolio drawdown limits never act on live state. Every context the program builds
  carries a drawdown of zero, so with positive soft and hard limits the drawdown checks of the
  gate add no reason, whatever the account has lost.
\<close>

theorem portfolio_drawdown_never_measured:
  assumes "build_risk_context s now pf st = Inr ctx"
    and "0 < portfolio_soft_drawdown_pct s" "0 < portfolio_hard_drawdown_pct s"
  shows "rc_portfolio_drawdown_pct ctx = 0 \<and> drawdown_reasons s ctx = []"
  using assms
  by (elim built_context_cases) (auto simp: simulated_context_def portfolio_context_def drawdown_reasons_def Let_def)

theorem portfolio_drawdown_never_measured_witness:
  "rc_portfolio_drawdown_pct demo_built = 0 \<and> drawdown_reasons default_settings demo_built = []"
  by (rule portfolio_drawdown_never_measured [OF demo_built]) (simp_all add: default_settings_def)

end
