(* ===== verification/Program.thy ===== *)
theory Program
  imports Router RiskContext
begin

text \<open>
  The services as programs. A program takes the world (the store, and the calls made so far
  to everything outside the modelled code) to a result and the new world; an exception keeps
  the effects made before it, as in Python. Everything outside answers as an arbitrary
  function of all calls so far, the current one included: brokers, quotes, the clock, fresh
  ids, the eToro live mirror, the learning service. Time passes at such calls only, so the
  \<open>utc_now()\<close> readings between two of them agree.

  The theory also holds the three judgements that the component proofs use: \<open>keeps\<close> (a store
  invariant), \<open>at_most\<close> (how many calls of a kind a program makes) and \<open>after\<close> (what holds
  when it ends).
\<close>

record bar =
  bar_timestamp :: time
  bar_high :: pyfloat
  bar_low :: pyfloat
  bar_close :: pyfloat
  bar_volume :: pyfloat

datatype ext_call =
    Gen_id string
  | Get_portfolio string
  | Get_balance string
  | Get_account_identity string
  | Is_supported_equity string string
  | Get_quote string string "string option"
  | Get_history string string int
  | Submit_order string string order_side pyfloat "string option"
  | Submit_bracket_order string string order_side int pyfloat pyfloat "string option"
  | Submit_crypto_protected_order string string pyfloat pyfloat "pyfloat option" "string option"
  | Open_market_order_by_amount string trade_order "string option"
  | Close_position string string
  | Cancel_all_orders string
  | Close_all_positions string
  | Live_mirror string string string
  | Open_demo_order string trade_order string
  | Record_comparison broker_comparison
  | Learning_event string string
  | Room_verdict trade_order string
  | Paper_only_held trade_order
  | Safety_flatten_mark string
  | Symbol_flatten_mark string string
  | Get_all_orders string
  | Get_order string string
  | Governance_identity pydict
  | Governance_capability pydict
  | Governance_reconciliation pydict
  | Comparison_fill string "pyfloat option" "pyfloat option"
  | Send_text string
  | Regular_market_open string
  | Institutional_readiness
  | Production_approved string
  | Exploration_approved string
  | Reviewed_executions "string list"
  | Trade_review string
  | Sleep pyfloat

text \<open>The calls that send an order to a broker for a queue item.\<close>

fun is_submission :: "ext_call \<Rightarrow> bool" where
  "is_submission (Submit_order _ _ _ _ _) = True"
| "is_submission (Submit_bracket_order _ _ _ _ _ _ _) = True"
| "is_submission (Submit_crypto_protected_order _ _ _ _ _ _) = True"
| "is_submission (Open_market_order_by_amount _ _ _) = True"
| "is_submission (Close_position _ _) = True"
| "is_submission _ = False"

text \<open>The outside world and the wiring of the services.\<close>

record env =
  e_settings :: app_settings
  e_router :: "broker_router option"
  e_trader_broker :: client
  e_proposal_broker :: client
  e_automation :: bool
  e_learning :: bool
  e_live_mirror :: bool
  e_parallel_broker :: bool
  e_demo_client :: "client option"
  e_clock :: "ext_call list \<Rightarrow> time"
  e_uuid :: "ext_call list \<Rightarrow> string"
  e_portfolio :: "ext_call list \<Rightarrow> exn + portfolio_summary"
  e_balance :: "ext_call list \<Rightarrow> exn + account_summary"
  e_identity :: "ext_call list \<Rightarrow> exn + pydict"
  e_supported :: "ext_call list \<Rightarrow> exn + bool"
  e_quote :: "ext_call list \<Rightarrow> exn + market_quote"
  e_history :: "ext_call list \<Rightarrow> exn + bar list"
  e_execution :: "ext_call list \<Rightarrow> exn + broker_execution"
  e_response :: "ext_call list \<Rightarrow> exn + broker_order_response"
  e_count :: "ext_call list \<Rightarrow> exn + int"
  e_done :: "ext_call list \<Rightarrow> exn + unit"
  e_room :: "ext_call list \<Rightarrow> string list option"
  e_held :: "ext_call list \<Rightarrow> string list"
  e_readiness :: "time \<Rightarrow> (string \<times> string) list \<Rightarrow> bool"
  e_safety_json :: "ext_call list \<Rightarrow> string option"
  e_isoformat :: "time \<Rightarrow> string"
  e_ny_date :: "time \<Rightarrow> int"
  e_sha256_hex :: "string \<Rightarrow> string"

text \<open>
  What \<open>AlpacaReconciliationService\<close> keeps in memory between sweeps: the fingerprint last
  written for each row key, the sweep number, the writes left for rows of unknown state and
  the sweep lock.
\<close>

record sweep_state =
  ss_written :: "(string \<times> pyval) list"
  ss_sweep_no :: int
  ss_unknown_budget :: int
  ss_locked :: bool

definition fresh_sweep :: sweep_state where
  "fresh_sweep = \<lparr>ss_written = [], ss_sweep_no = 0, ss_unknown_budget = 150, ss_locked = False\<rparr>"

record world =
  w_store :: store
  w_calls :: "ext_call list"
  w_sweep :: sweep_state

definition start_world :: "store \<Rightarrow> world" where
  "start_world st = \<lparr>w_store = st, w_calls = [], w_sweep = fresh_sweep\<rparr>"

lemma start_world_simps [simp]:
  "w_store (start_world st) = st" "w_calls (start_world st) = []" "w_sweep (start_world st) = fresh_sweep"
  by (simp_all add: start_world_def)

type_synonym 'a prog = "world \<Rightarrow> (exn + 'a) \<times> world"

subsection \<open>Combinators\<close>

text \<open>
  Sequencing and exceptions, over any state and any type of exceptions: the services run over
  \<open>world\<close> with Python's exceptions, the real-money mirror over a state of its own.
\<close>

type_synonym ('s, 'e, 'a) state_exn = "'s \<Rightarrow> ('e + 'a) \<times> 's"

definition returnP :: "'a \<Rightarrow> ('s, 'e, 'a) state_exn" where
  "returnP x w = (Inr x, w)"

definition raiseP :: "'e \<Rightarrow> ('s, 'e, 'a) state_exn" where
  "raiseP e w = (Inl e, w)"

definition bindP :: "('s, 'e, 'a) state_exn \<Rightarrow> ('a \<Rightarrow> ('s, 'e, 'b) state_exn) \<Rightarrow> ('s, 'e, 'b) state_exn" where
  "bindP m f w = (case m w of (Inl e, w') \<Rightarrow> (Inl e, w') | (Inr x, w') \<Rightarrow> f x w')"

text \<open>\<open>try: m except Exception as e: h(e)\<close>.\<close>

definition catchP :: "('s, 'e, 'a) state_exn \<Rightarrow> ('e \<Rightarrow> ('s, 'f, 'a) state_exn) \<Rightarrow> ('s, 'f, 'a) state_exn" where
  "catchP m h w = (case m w of (Inl e, w') \<Rightarrow> h e w' | (Inr x, w') \<Rightarrow> (Inr x, w'))"

definition liftP :: "'e + 'a \<Rightarrow> ('s, 'e, 'a) state_exn" where
  "liftP r w = (r, w)"

text \<open>Reading the store, updating it, and an update that may be refused.\<close>

definition readP :: "(store \<Rightarrow> 'a) \<Rightarrow> 'a prog" where
  "readP f w = (Inr (f (w_store w)), w)"

definition storeP :: "(store \<Rightarrow> store) \<Rightarrow> unit prog" where
  "storeP f w = (Inr (), w\<lparr>w_store := f (w_store w)\<rparr>)"

definition tryStoreP :: "(store \<Rightarrow> exn + 'a \<times> store) \<Rightarrow> 'a prog" where
  "tryStoreP f w = (case f (w_store w) of Inl e \<Rightarrow> (Inl e, w) | Inr (x, st) \<Rightarrow> (Inr x, w\<lparr>w_store := st\<rparr>))"

definition with_unit :: "exn + store \<Rightarrow> exn + unit \<times> store" where
  "with_unit r = (case r of Inl e \<Rightarrow> Inl e | Inr st \<Rightarrow> Inr ((), st))"

text \<open>A call to the outside, the clock, a fresh id and a log line.\<close>

definition extP :: "ext_call \<Rightarrow> (ext_call list \<Rightarrow> exn + 'a) \<Rightarrow> 'a prog" where
  "extP c answer w = (let t = w_calls w @ [c] in (answer t, w\<lparr>w_calls := t\<rparr>))"

definition utc_now :: "env \<Rightarrow> time prog" where
  "utc_now env w = (Inr (e_clock env (w_calls w)), w)"

definition generate_id :: "env \<Rightarrow> string \<Rightarrow> string prog" where
  "generate_id env prefix = extP (Gen_id prefix) (\<lambda>t. Inr (prefix @ ''_'' @ take 12 (e_uuid env t)))"

definition logP :: "env \<Rightarrow> string \<Rightarrow> pydict \<Rightarrow> unit prog" where
  "logP env event payload = bindP (utc_now env) (\<lambda>now. storeP (log_run now event payload))"

lemmas prog_defs = returnP_def raiseP_def bindP_def catchP_def liftP_def readP_def storeP_def tryStoreP_def
  extP_def utc_now_def generate_id_def logP_def

subsection \<open>Store invariants\<close>

definition keeps :: "(store \<Rightarrow> bool) \<Rightarrow> 'a prog \<Rightarrow> bool" where
  "keeps I m \<longleftrightarrow> (\<forall>w. I (w_store w) \<longrightarrow> I (w_store (snd (m w))))"

named_theorems keeps_intros \<open>rules of the store-invariant judgement\<close>

lemma keeps_return [keeps_intros]: "keeps I (returnP x)"
  by (simp add: keeps_def returnP_def)

lemma keeps_raise [keeps_intros]: "keeps I (raiseP e)"
  by (simp add: keeps_def raiseP_def)

lemma keeps_lift [keeps_intros]: "keeps I (liftP r)"
  by (simp add: keeps_def liftP_def)

lemma keeps_read [keeps_intros]: "keeps I (readP f)"
  by (simp add: keeps_def readP_def)

lemma keeps_ext [keeps_intros]: "keeps I (extP c a)"
  by (simp add: keeps_def extP_def Let_def)

lemma keeps_now [keeps_intros]: "keeps I (utc_now env)"
  by (simp add: keeps_def utc_now_def)

lemma keeps_id [keeps_intros]: "keeps I (generate_id env p)"
  by (simp add: generate_id_def keeps_ext)

lemma keeps_bind [keeps_intros]: "keeps I m \<Longrightarrow> (\<And>x. keeps I (f x)) \<Longrightarrow> keeps I (bindP m f)"
  by (fastforce simp: keeps_def bindP_def split: sum.splits prod.splits)

lemma keeps_catch [keeps_intros]: "keeps I m \<Longrightarrow> (\<And>e. keeps I (h e)) \<Longrightarrow> keeps I (catchP m h)"
  by (fastforce simp: keeps_def catchP_def split: sum.splits prod.splits)

lemma keeps_if [keeps_intros]: "(b \<Longrightarrow> keeps I m) \<Longrightarrow> (\<not> b \<Longrightarrow> keeps I n) \<Longrightarrow> keeps I (if b then m else n)"
  by simp

lemma keeps_option [keeps_intros]:
  "keeps I m \<Longrightarrow> (\<And>x. keeps I (f x)) \<Longrightarrow> keeps I (case v of None \<Rightarrow> m | Some x \<Rightarrow> f x)"
  by (cases v) simp_all

lemma keeps_sum [keeps_intros]:
  "(\<And>x. keeps I (g x)) \<Longrightarrow> (\<And>x. keeps I (f x)) \<Longrightarrow> keeps I (case v of Inl x \<Rightarrow> g x | Inr x \<Rightarrow> f x)"
  by (cases v) simp_all

lemma keeps_prod [keeps_intros]: "(\<And>x y. keeps I (f x y)) \<Longrightarrow> keeps I (case v of (x, y) \<Rightarrow> f x y)"
  by (cases v) simp

lemma keeps_list [keeps_intros]:
  "keeps I m \<Longrightarrow> (\<And>x xs. keeps I (f x xs)) \<Longrightarrow> keeps I (case v of [] \<Rightarrow> m | x # xs \<Rightarrow> f x xs)"
  by (cases v) simp_all

lemma keeps_store: "(\<And>st. I st \<Longrightarrow> I (f st)) \<Longrightarrow> keeps I (storeP f)"
  by (simp add: keeps_def storeP_def)

lemma keeps_tryStore: "(\<And>st st' x. I st \<Longrightarrow> f st = Inr (x, st') \<Longrightarrow> I st') \<Longrightarrow> keeps I (tryStoreP f)"
  by (auto simp: keeps_def tryStoreP_def split: sum.splits prod.splits)

lemma keepsD: "keeps I m \<Longrightarrow> m w = (r, w') \<Longrightarrow> I (w_store w) \<Longrightarrow> I (w_store w')"
  by (force simp: keeps_def)

subsection \<open>Counting calls\<close>

definition at_most :: "(ext_call \<Rightarrow> bool) \<Rightarrow> nat \<Rightarrow> 'a prog \<Rightarrow> bool" where
  "at_most P n m \<longleftrightarrow> (\<forall>w. \<exists>cs. w_calls (snd (m w)) = w_calls w @ cs \<and> length (filter P cs) \<le> n)"

named_theorems calls_intros \<open>rules of the call-counting judgement, for programs that make no such call\<close>

lemma at_most_same: "(\<And>w. w_calls (snd (m w)) = w_calls w) \<Longrightarrow> at_most P n m"
  unfolding at_most_def by (metis append_Nil2 filter.simps(1) le0 list.size(3))

lemma at_most_return [calls_intros]: "at_most P n (returnP x)"
  by (rule at_most_same) (simp add: returnP_def)

lemma at_most_raise [calls_intros]: "at_most P n (raiseP e)"
  by (rule at_most_same) (simp add: raiseP_def)

lemma at_most_lift [calls_intros]: "at_most P n (liftP r)"
  by (rule at_most_same) (simp add: liftP_def)

lemma at_most_read [calls_intros]: "at_most P n (readP f)"
  by (rule at_most_same) (simp add: readP_def)

lemma at_most_store [calls_intros]: "at_most P n (storeP f)"
  by (rule at_most_same) (simp add: storeP_def)

lemma at_most_tryStore [calls_intros]: "at_most P n (tryStoreP f)"
  by (rule at_most_same) (simp add: tryStoreP_def split: sum.splits prod.splits)

lemma at_most_now [calls_intros]: "at_most P n (utc_now env)"
  by (rule at_most_same) (simp add: utc_now_def)

lemma at_most_ext [calls_intros]: "\<not> P c \<Longrightarrow> at_most P n (extP c a)"
  by (auto simp: at_most_def extP_def Let_def)

lemma at_most_ext_1: "at_most P (Suc 0) (extP c a)"
  by (auto simp: at_most_def extP_def Let_def)

lemma at_most_mono: "at_most P n m \<Longrightarrow> n \<le> k \<Longrightarrow> at_most P k m"
  unfolding at_most_def by (meson le_trans)

lemma at_most_weaken: "at_most Q n m \<Longrightarrow> (\<And>c. P c \<Longrightarrow> Q c) \<Longrightarrow> at_most P n m"
proof -
  assume q: "at_most Q n m" and i: "\<And>c. P c \<Longrightarrow> Q c"
  have "length (filter P cs) \<le> length (filter Q cs)" for cs using i by (induction cs) auto
  with q show ?thesis unfolding at_most_def by (meson le_trans)
qed

lemma at_most_bind_add: "at_most P n m \<Longrightarrow> (\<And>x. at_most P k (f x)) \<Longrightarrow> at_most P (n + k) (bindP m f)"
proof -
  assume m: "at_most P n m" and f: "\<And>x. at_most P k (f x)"
  show ?thesis
    unfolding at_most_def
  proof
    fix w
    obtain r w' where mw: "m w = (r, w')" by (cases "m w")
    from m obtain cs where cs: "w_calls w' = w_calls w @ cs" "length (filter P cs) \<le> n"
      unfolding at_most_def by (metis mw snd_conv)
    show "\<exists>cs. w_calls (snd (bindP m f w)) = w_calls w @ cs \<and> length (filter P cs) \<le> n + k"
    proof (cases r)
      case (Inl e)
      with mw cs show ?thesis by (auto simp: bindP_def)
    next
      case (Inr x)
      from f [of x] obtain ds where "w_calls (snd (f x w')) = w_calls w' @ ds" "length (filter P ds) \<le> k"
        unfolding at_most_def by blast
      with mw cs Inr show ?thesis by (intro exI [of _ "cs @ ds"]) (simp add: bindP_def)
    qed
  qed
qed

lemma at_most_bind [calls_intros]: "at_most P 0 m \<Longrightarrow> (\<And>x. at_most P n (f x)) \<Longrightarrow> at_most P n (bindP m f)"
  using at_most_bind_add [of P 0 m n f] by simp

lemma at_most_bind_1: "at_most P n m \<Longrightarrow> (\<And>x. at_most P 0 (f x)) \<Longrightarrow> at_most P n (bindP m f)"
  using at_most_bind_add [of P n m 0 f] by simp

lemma at_most_catch: "at_most P n m \<Longrightarrow> (\<And>e. at_most P 0 (h e)) \<Longrightarrow> at_most P n (catchP m h)"
proof -
  assume m: "at_most P n m" and h: "\<And>e. at_most P 0 (h e)"
  show ?thesis
    unfolding at_most_def
  proof
    fix w
    obtain r w' where mw: "m w = (r, w')" by (cases "m w")
    from m obtain cs where cs: "w_calls w' = w_calls w @ cs" "length (filter P cs) \<le> n"
      unfolding at_most_def by (metis mw snd_conv)
    show "\<exists>cs. w_calls (snd (catchP m h w)) = w_calls w @ cs \<and> length (filter P cs) \<le> n"
    proof (cases r)
      case (Inr e)
      with mw cs show ?thesis by (auto simp: catchP_def)
    next
      case (Inl x)
      from h [of x] obtain ds where "w_calls (snd (h x w')) = w_calls w' @ ds" "length (filter P ds) \<le> 0"
        unfolding at_most_def by blast
      with mw cs Inl show ?thesis by (intro exI [of _ "cs @ ds"]) (simp add: catchP_def)
    qed
  qed
qed

lemma at_most_if [calls_intros]: "(b \<Longrightarrow> at_most P n m) \<Longrightarrow> (\<not> b \<Longrightarrow> at_most P n m') \<Longrightarrow> at_most P n (if b then m else m')"
  by simp

lemma at_most_option [calls_intros]:
  "at_most P n m \<Longrightarrow> (\<And>x. at_most P n (f x)) \<Longrightarrow> at_most P n (case v of None \<Rightarrow> m | Some x \<Rightarrow> f x)"
  by (cases v) simp_all

lemma at_most_sum [calls_intros]:
  "(\<And>x. at_most P n (g x)) \<Longrightarrow> (\<And>x. at_most P n (f x)) \<Longrightarrow> at_most P n (case v of Inl x \<Rightarrow> g x | Inr x \<Rightarrow> f x)"
  by (cases v) simp_all

lemma at_most_prod [calls_intros]: "(\<And>x y. at_most P n (f x y)) \<Longrightarrow> at_most P n (case v of (x, y) \<Rightarrow> f x y)"
  by (cases v) simp

lemma at_most_id [calls_intros]: "\<not> P (Gen_id p) \<Longrightarrow> at_most P n (generate_id env p)"
  by (simp add: generate_id_def at_most_ext)

lemma at_most_log [calls_intros]: "at_most P n (logP env e d)"
  by (simp add: logP_def at_most_bind at_most_now at_most_store)

text \<open>The calls a run made.\<close>

definition new_calls :: "world \<Rightarrow> world \<Rightarrow> ext_call list" where
  "new_calls w w' = drop (length (w_calls w)) (w_calls w')"

lemma at_most_new:
  assumes "at_most P n m" "m w = (r, w')"
  shows "w_calls w' = w_calls w @ new_calls w w'" "length (filter P (new_calls w w')) \<le> n"
proof -
  from assms obtain cs where "w_calls w' = w_calls w @ cs" "length (filter P cs) \<le> n"
    unfolding at_most_def by (metis snd_conv)
  then show "w_calls w' = w_calls w @ new_calls w w'" "length (filter P (new_calls w w')) \<le> n"
    by (simp_all add: new_calls_def)
qed

lemma at_most_0_new: "at_most P 0 m \<Longrightarrow> m w = (r, w') \<Longrightarrow> c \<in> set (new_calls w w') \<Longrightarrow> \<not> P c"
  using at_most_new(2) [of P 0 m w r w'] by (auto simp: filter_empty_conv)

lemma new_calls_trans:
  assumes "w_calls w1 = w_calls w @ new_calls w w1" "w_calls w2 = w_calls w1 @ new_calls w1 w2"
  shows "new_calls w w2 = new_calls w w1 @ new_calls w1 w2"
  using assms by (metis append_assoc append_eq_conv_conj new_calls_def)

subsection \<open>What holds when a program ends\<close>

definition after :: "('s, 'e, 'a) state_exn \<Rightarrow> 's \<Rightarrow> ('e + 'a \<Rightarrow> 's \<Rightarrow> bool) \<Rightarrow> bool" where
  "after m w Q = (case m w of (r, w') \<Rightarrow> Q r w')"

lemma after_return [simp]: "after (returnP x) w Q = Q (Inr x) w"
  by (simp add: after_def returnP_def)

lemma after_raise [simp]: "after (raiseP e) w Q = Q (Inl e) w"
  by (simp add: after_def raiseP_def)

lemma after_lift [simp]: "after (liftP r) w Q = Q r w"
  by (simp add: after_def liftP_def)

lemma after_bind [simp]:
  "after (bindP m f) w Q = after m w (\<lambda>r w'. case r of Inl e \<Rightarrow> Q (Inl e) w' | Inr x \<Rightarrow> after (f x) w' Q)"
  by (simp add: after_def bindP_def split: sum.splits prod.splits)

lemma after_catch [simp]:
  "after (catchP m h) w Q = after m w (\<lambda>r w'. case r of Inl e \<Rightarrow> after (h e) w' Q | Inr x \<Rightarrow> Q (Inr x) w')"
  by (simp add: after_def catchP_def split: sum.splits prod.splits)

lemma after_read [simp]: "after (readP f) w Q = Q (Inr (f (w_store w))) w"
  by (simp add: after_def readP_def)

lemma after_store [simp]: "after (storeP f) w Q = Q (Inr ()) (w\<lparr>w_store := f (w_store w)\<rparr>)"
  by (simp add: after_def storeP_def)

lemma after_now [simp]: "after (utc_now env) w Q = Q (Inr (e_clock env (w_calls w))) w"
  by (simp add: after_def utc_now_def)

lemma after_log [simp]:
  "after (logP env e d) w Q = Q (Inr ()) (w\<lparr>w_store := log_run (e_clock env (w_calls w)) e d (w_store w)\<rparr>)"
  by (simp add: logP_def)

lemma after_ext [simp]: "after (extP c a) w Q = Q (a (w_calls w @ [c])) (w\<lparr>w_calls := w_calls w @ [c]\<rparr>)"
  by (simp add: after_def extP_def Let_def)

lemma after_tryStore:
  "after (tryStoreP f) w Q = (case f (w_store w) of Inl e \<Rightarrow> Q (Inl e) w | Inr (x, st) \<Rightarrow> Q (Inr x) (w\<lparr>w_store := st\<rparr>))"
  by (simp add: after_def tryStoreP_def split: sum.splits prod.splits)

lemma afterI: "(\<And>r w'. m w = (r, w') \<Longrightarrow> Q r w') \<Longrightarrow> after m w Q"
  by (simp add: after_def split: prod.splits)

lemma afterD: "after m w Q \<Longrightarrow> m w = (r, w') \<Longrightarrow> Q r w'"
  by (simp add: after_def)

lemma after_mono: "after m w Q \<Longrightarrow> (\<And>r w'. Q r w' \<Longrightarrow> R r w') \<Longrightarrow> after m w R"
  by (simp add: after_def split: prod.splits)

text \<open>The rule of sequencing with an intermediate assertion.\<close>

lemma after_bindI:
  assumes "after m w R" "\<And>e w'. R (Inl e) w' \<Longrightarrow> Q (Inl e) w'" "\<And>x w'. R (Inr x) w' \<Longrightarrow> after (f x) w' Q"
  shows "after (bindP m f) w Q"
  unfolding after_bind by (rule after_mono [OF assms(1)]) (auto intro: assms split: sum.splits)

lemma after_catchI:
  assumes "after m w R" "\<And>e w'. R (Inl e) w' \<Longrightarrow> after (h e) w' Q" "\<And>x w'. R (Inr x) w' \<Longrightarrow> Q (Inr x) w'"
  shows "after (catchP m h) w Q"
  unfolding after_catch by (rule after_mono [OF assms(1)]) (auto intro: assms split: sum.splits)

lemma bindP_cases:
  assumes "bindP m f w = (r, w')"
  obtains (failed) e where "m w = (Inl e, w')" "r = Inl e" | (cont) x w1 where "m w = (Inr x, w1)" "f x w1 = (r, w')"
  using assms by (auto simp: bindP_def split: prod.splits sum.splits)

lemma bindP_right:
  assumes "bindP m f w = (Inr y, w2)"
  obtains x w1 where "m w = (Inr x, w1)" "f x w1 = (Inr y, w2)"
  using assms by (auto simp: bindP_def split: prod.splits sum.splits)

lemma catchP_cases:
  assumes "catchP m h w = (r, w')"
  obtains (fine) x where "m w = (Inr x, w')" "r = Inr x" | (err) e w1 where "m w = (Inl e, w1)" "h e w1 = (r, w')"
  using assms by (auto simp: catchP_def split: prod.splits sum.splits)

subsection \<open>What the services may rely on of the store\<close>

text \<open>
  A property of the store that log lines and permitted writes to the runtime state keep;
  \<open>rt_ok\<close> says which writes are permitted. Programs that only log, read, ask outside and set
  flags keep it.
\<close>

locale quiet_invariant =
  fixes I :: "store \<Rightarrow> bool" and rt_ok :: "string \<Rightarrow> string \<Rightarrow> bool"
  assumes log: "I st \<Longrightarrow> I (log_run t ev d st)"
    and runtime: "I st \<Longrightarrow> rt_ok k v \<Longrightarrow> I (runtime_set k v st)"
begin

lemma keeps_log: "keeps I (logP env e d)"
  unfolding logP_def by (intro keeps_intros keeps_store log)

lemma keeps_runtime: "rt_ok k v \<Longrightarrow> keeps I (storeP (runtime_set k v))"
  by (intro keeps_store runtime)

end

text \<open>One that every repository call keeps; the services' programs then keep it too.\<close>

locale repository_invariant = quiet_invariant +
  assumes proposal_create: "I st \<Longrightarrow> proposal_create_row p st = Inr st' \<Longrightarrow> I st'"
    and proposal_update: "I st \<Longrightarrow> I (proposal_update p st)"
    and signal_create: "I st \<Longrightarrow> signal_create_row sg st = Inr st' \<Longrightarrow> I st'"
    and execution_create: "I st \<Longrightarrow> execution_create e st = Inr (e', st') \<Longrightarrow> I st'"
    and execution_update: "I st \<Longrightarrow> execution_update e st = Inr st' \<Longrightarrow> I st'"
    and queue_create: "I st \<Longrightarrow> queue_create q st = Inr st' \<Longrightarrow> I st'"
    and queue_update: "I st \<Longrightarrow> queue_update q st = Inr st' \<Longrightarrow> I st'"
    and queue_claim: "I st \<Longrightarrow> claim_for_processing now qid stale st = Inr (b, st') \<Longrightarrow> I st'"
    and position_create: "I st \<Longrightarrow> position_create_row pp st = Inr st' \<Longrightarrow> I st'"
    and position_update: "I st \<Longrightarrow> I (position_update pp st)"
    and trade_create: "I st \<Longrightarrow> trade_create_row tr st = Inr st' \<Longrightarrow> I st'"
    and snapshot: "I st \<Longrightarrow> I (snapshot_upsert sn st)"
    and replace: "I st \<Longrightarrow> I (replace_active now account pps st)"
    and reconciliation: "I st \<Longrightarrow> I (record_reconciliation rr st)"
begin

lemma keeps_proposal_update: "keeps I (storeP (Storage.proposal_update p))"
  by (intro keeps_store proposal_update)

lemma keeps_position_update: "keeps I (storeP (Storage.position_update p))"
  by (intro keeps_store position_update)

lemma keeps_proposal_create: "keeps I (tryStoreP (\<lambda>st. with_unit (proposal_create_row p st)))"
  by (rule keeps_tryStore) (auto simp: with_unit_def intro: proposal_create split: sum.splits)

lemma keeps_signal_create: "keeps I (tryStoreP (\<lambda>st. with_unit (signal_create_row p st)))"
  by (rule keeps_tryStore) (auto simp: with_unit_def intro: signal_create split: sum.splits)

lemma keeps_execution_create: "keeps I (tryStoreP (Storage.execution_create e))"
  by (rule keeps_tryStore) (rule execution_create)

lemma keeps_execution_update: "keeps I (tryStoreP (\<lambda>st. with_unit (Storage.execution_update e st)))"
  by (rule keeps_tryStore) (auto simp: with_unit_def intro: execution_update split: sum.splits)

lemma keeps_queue_create: "keeps I (tryStoreP (\<lambda>st. with_unit (Storage.queue_create e st)))"
  by (rule keeps_tryStore) (auto simp: with_unit_def intro: queue_create split: sum.splits)

lemma keeps_queue_update: "keeps I (tryStoreP (\<lambda>st. with_unit (Storage.queue_update e st)))"
  by (rule keeps_tryStore) (auto simp: with_unit_def intro: queue_update split: sum.splits)

lemma keeps_claim: "keeps I (tryStoreP (claim_for_processing now qid stale))"
  by (rule keeps_tryStore) (rule queue_claim)

lemma keeps_position_create: "keeps I (tryStoreP (\<lambda>st. with_unit (position_create_row e st)))"
  by (rule keeps_tryStore) (auto simp: with_unit_def intro: position_create split: sum.splits)

lemma keeps_trade_create: "keeps I (tryStoreP (\<lambda>st. with_unit (trade_create_row e st)))"
  by (rule keeps_tryStore) (auto simp: with_unit_def intro: trade_create split: sum.splits)

lemma keeps_snapshot: "keeps I (storeP (snapshot_upsert s))"
  by (intro keeps_store snapshot)

lemma keeps_replace: "keeps I (storeP (replace_active now account ps))"
  by (intro keeps_store replace)

lemma keeps_reconciliation: "keeps I (storeP (record_reconciliation r))"
  by (intro keeps_store reconciliation)

lemmas keeps_ops = keeps_log keeps_snapshot keeps_replace keeps_reconciliation keeps_proposal_update keeps_position_update keeps_proposal_create
  keeps_signal_create keeps_execution_create keeps_execution_update keeps_queue_create keeps_queue_update
  keeps_claim keeps_position_create keeps_trade_create

end

text \<open>The store's own invariant is one, with no condition on the runtime state.\<close>

interpretation keys: repository_invariant store_inv "\<lambda>k v. True"
  by unfold_locales (auto dest: store_inv_ops)

end
