(* ===== verification/Approvals.thy ===== *)
theory Approvals
  imports Program
begin

text \<open>
  The proposal workflow: \<open>ProposalService\<close> of src/app/approvals/service.py, with the
  paper-only tag of src/app/performance/paper_only.py. Proposals move from pending through
  approval to execution; reading one expires it when its time is over.
\<close>

subsection \<open>Paper-only tag\<close>

definition PAPER_ONLY_FIELD :: string where "PAPER_ONLY_FIELD = ''paper_only''"
definition AUTO_REVIEWER :: string where "AUTO_REVIEWER = ''paper_auto''"
definition AUTOMATIC_ONLY :: string where
  "AUTOMATIC_ONLY = ''Paper-only entries are automatic only: they cannot be approved by hand.''"

definition is_paper_only :: "pydict \<Rightarrow> bool" where
  "is_paper_only metadata = truthy (dict_get metadata PAPER_ONLY_FIELD)"

subsection \<open>Shared steps\<close>

text \<open>\<open>build_risk_context\<close> as a program: the store reads that may fail come before the broker call.\<close>

definition context_inputs :: "time \<Rightarrow> store \<Rightarrow> exn + unit" where
  "context_inputs now st = (case daily_loss_stats now st of Inl x \<Rightarrow> Inl x
     | Inr _ \<Rightarrow> (case period_realized_pnl now 7 st of Inl x \<Rightarrow> Inl x | Inr _ \<Rightarrow> Inr ()))"

definition risk_contextP :: "env \<Rightarrow> client \<Rightarrow> risk_context prog" where
  "risk_contextP env broker =
     (let s = e_settings env in
      bindP (utc_now env) (\<lambda>now.
      bindP (readP (context_inputs now)) (\<lambda>inputs.
      bindP (liftP inputs) (\<lambda>_.
      if exec_mode s = Mode_paper \<and> paper_broker_choice s = PB_self_simulated
      then bindP (readP (build_risk_context s now (Inl ZeroDivisionError))) liftP
      else bindP (extP (Get_portfolio (cl_id broker)) (e_portfolio env)) (\<lambda>pf.
           bindP (readP (build_risk_context s now (Inr pf))) liftP)))))"

definition room_verdictP :: "env \<Rightarrow> trade_order \<Rightarrow> string \<Rightarrow> string list option prog" where
  "room_verdictP env o1 primary_broker =
     (if e_live_mirror env then extP (Room_verdict o1 primary_broker) (\<lambda>t. Inr (e_room env t)) else returnP None)"

subsection \<open>ProposalService\<close>

definition prepare_order :: "app_settings \<Rightarrow> trade_order \<Rightarrow> exn + trade_order" where
  "prepare_order s o1 = (case resolve s (ord_symbol o1) of Inl e \<Rightarrow> Inl e
     | Inr ins \<Rightarrow> Inr (o1\<lparr>ord_symbol := ins_symbol ins, ord_broker_symbol := Some (ins_broker_symbol ins),
         ord_asset_class := ins_asset_class ins, ord_leverage := (if ord_leverage o1 < 1 then 1 else ord_leverage o1)\<rparr>))"

definition expire_if_needed :: "env \<Rightarrow> trade_proposal \<Rightarrow> trade_proposal prog" where
  "expire_if_needed env p =
     (if prop_status p \<notin> {PENDING, APPROVED} then returnP p
      else bindP (utc_now env) (\<lambda>now.
        if prop_expires_at p \<le> now
        then let p' = p\<lparr>prop_status := EXPIRED, prop_updated_at := now\<rparr> in
             bindP (storeP (proposal_update p')) (\<lambda>_.
             bindP (logP env ''proposal_expired'' [(''proposal_id'', PStr (prop_id p))]) (\<lambda>_.
             returnP p'))
        else returnP p))"

definition get_proposal :: "env \<Rightarrow> string \<Rightarrow> trade_proposal prog" where
  "get_proposal env pid =
     bindP (readP (proposal_get pid)) (\<lambda>r.
     case r of None \<Rightarrow> raiseP (LookupError (''Proposal '' @ pid @ '' was not found''))
     | Some p \<Rightarrow> expire_if_needed env p)"

fun expire_all :: "env \<Rightarrow> trade_proposal list \<Rightarrow> trade_proposal list prog" where
  "expire_all env [] = returnP []"
| "expire_all env (p # ps) =
     bindP (expire_if_needed env p) (\<lambda>p'. bindP (expire_all env ps) (\<lambda>ps'. returnP (p' # ps')))"

definition list_proposals :: "env \<Rightarrow> approval_status option \<Rightarrow> trade_proposal list prog" where
  "list_proposals env status = bindP (readP (proposal_list status)) (expire_all env)"

definition save_signal :: "trade_signal option \<Rightarrow> unit prog" where
  "save_signal sg = (case sg of None \<Rightarrow> returnP ()
     | Some x \<Rightarrow> tryStoreP (\<lambda>st. with_unit (signal_create_row x st)))"

definition new_proposal :: "env \<Rightarrow> string \<Rightarrow> time \<Rightarrow> trade_order \<Rightarrow> proposal_create \<Rightarrow> trade_proposal" where
  "new_proposal env pid now o1 r = \<lparr>prop_id = pid, prop_status = PENDING, prop_order = o1, prop_signal = tpc_signal r,
     prop_notes = tpc_notes r, prop_decision_notes = [], prop_approved_by = None, prop_execution_id = None,
     prop_created_at = now, prop_updated_at = now,
     prop_expires_at = now + proposal_expiry_minutes (e_settings env) * minute_us, prop_executed_at = None\<rparr>"

definition create_proposal :: "env \<Rightarrow> proposal_create \<Rightarrow> trade_proposal prog" where
  "create_proposal env r =
     bindP (liftP (prepare_order (e_settings env) (to_order r))) (\<lambda>o1.
     bindP (risk_contextP env (e_proposal_broker env)) (\<lambda>ctx.
     bindP (room_verdictP env o1 ''alpaca'') (\<lambda>room.
     bindP (liftP (validate_order (e_settings env) o1 ctx room)) (\<lambda>risk.
     if \<not> rv_passed risk then raiseP (ValueError (py_join ''; '' (rv_reasons risk)))
     else bindP (save_signal (tpc_signal r)) (\<lambda>_.
          bindP (utc_now env) (\<lambda>now.
          bindP (generate_id env ''prop'') (\<lambda>pid.
          let p = new_proposal env pid now o1 r in
          bindP (tryStoreP (\<lambda>st. with_unit (proposal_create_row p st))) (\<lambda>_.
          bindP (logP env ''proposal_created'' [(''proposal_id'', PStr pid), (''symbol'', PStr (ord_symbol o1)),
            (''risk_pct_of_balance'', PFloat (rv_risk_pct_of_balance risk)),
            (''risk_amount_usd'', PFloat (rv_risk_amount_usd risk)),
            (''room_authority'', PStr (rv_room_authority risk))]) (\<lambda>_.
          returnP p))))))))) "

definition decide :: "env \<Rightarrow> approval_status \<Rightarrow> string \<Rightarrow> trade_proposal \<Rightarrow> approval_decision \<Rightarrow> trade_proposal prog" where
  "decide env status event p d =
     bindP (utc_now env) (\<lambda>now.
     let p' = p\<lparr>prop_status := status, prop_approved_by := Some (dec_reviewer d),
                prop_decision_notes := dec_notes d, prop_updated_at := now\<rparr> in
     bindP (storeP (proposal_update p')) (\<lambda>_.
     bindP (logP env event [(''proposal_id'', PStr (prop_id p)), (''reviewer'', PStr (dec_reviewer d)),
       (''notes'', PStr (dec_notes d))]) (\<lambda>_.
     returnP p')))"

definition approve_proposal :: "env \<Rightarrow> string \<Rightarrow> approval_decision \<Rightarrow> trade_proposal prog" where
  "approve_proposal env pid d =
     bindP (get_proposal env pid) (\<lambda>p.
     if prop_status p \<noteq> PENDING then raiseP (ValueError ''Only pending proposals can be approved'')
     else if is_paper_only (ord_metadata (prop_order p)) \<and> dec_reviewer d \<noteq> AUTO_REVIEWER
     then raiseP (ValueError AUTOMATIC_ONLY)
     else decide env APPROVED ''proposal_approved'' p d)"

definition reject_proposal :: "env \<Rightarrow> string \<Rightarrow> approval_decision \<Rightarrow> trade_proposal prog" where
  "reject_proposal env pid d =
     bindP (get_proposal env pid) (\<lambda>p.
     if prop_status p \<notin> {PENDING, APPROVED}
     then raiseP (ValueError ''Only pending or approved proposals can be rejected'')
     else decide env REJECTED ''proposal_rejected'' p d)"

definition mark_executed :: "env \<Rightarrow> string \<Rightarrow> string \<Rightarrow> trade_proposal prog" where
  "mark_executed env pid eid =
     bindP (get_proposal env pid) (\<lambda>p.
     bindP (utc_now env) (\<lambda>now.
     let p' = p\<lparr>prop_status := EXECUTED, prop_execution_id := Some eid, prop_executed_at := Some now,
                prop_updated_at := now\<rparr> in
     bindP (storeP (proposal_update p')) (\<lambda>_.
     bindP (logP env ''proposal_executed'' [(''proposal_id'', PStr (prop_id p)), (''execution_id'', PStr eid)]) (\<lambda>_.
     returnP p'))))"

text \<open>
  The HTTP route for approvals (src/app/approvals/routes.py): a client may not use the
  unattended path's reviewer name for a paper-only proposal.
\<close>

definition route_approve_proposal :: "env \<Rightarrow> string \<Rightarrow> approval_decision \<Rightarrow> trade_proposal prog" where
  "route_approve_proposal env pid d =
     (if dec_reviewer d = AUTO_REVIEWER
      then bindP (get_proposal env pid) (\<lambda>p.
           if is_paper_only (ord_metadata (prop_order p)) then raiseP (ValueError AUTOMATIC_ONLY)
           else approve_proposal env pid d)
      else approve_proposal env pid d)"

lemmas approval_ops = create_proposal_def list_proposals_def get_proposal_def approve_proposal_def
  reject_proposal_def mark_executed_def expire_if_needed_def decide_def save_signal_def room_verdictP_def
  risk_contextP_def route_approve_proposal_def

subsection \<open>Lemmas\<close>

lemma keeps_risk_context: "keeps I (risk_contextP env b)"
  unfolding risk_contextP_def Let_def by (intro keeps_intros)

lemma keeps_room: "keeps I (room_verdictP env o1 b)"
  unfolding room_verdictP_def by (intro keeps_intros)

context repository_invariant
begin

lemma keeps_expire: "keeps I (expire_if_needed env p)"
  unfolding expire_if_needed_def Let_def by (intro keeps_intros keeps_ops)

lemma keeps_get_proposal: "keeps I (get_proposal env pid)"
  unfolding get_proposal_def by (intro keeps_intros keeps_expire)

lemma keeps_expire_all: "keeps I (expire_all env ps)"
  by (induction ps) (auto intro!: keeps_intros keeps_expire)

lemma keeps_list_proposals: "keeps I (list_proposals env status)"
  unfolding list_proposals_def by (intro keeps_intros keeps_expire_all)

lemma keeps_create_proposal: "keeps I (create_proposal env r)"
  unfolding create_proposal_def save_signal_def Let_def
  by (intro keeps_intros keeps_ops keeps_risk_context keeps_room)

lemma keeps_decide: "keeps I (decide env status event p d)"
  unfolding decide_def Let_def by (intro keeps_intros keeps_ops)

lemma keeps_approve: "keeps I (approve_proposal env pid d)"
  unfolding approve_proposal_def by (intro keeps_intros keeps_get_proposal keeps_decide)

lemma keeps_reject: "keeps I (reject_proposal env pid d)"
  unfolding reject_proposal_def by (intro keeps_intros keeps_get_proposal keeps_decide)

lemma keeps_mark_executed: "keeps I (mark_executed env pid eid)"
  unfolding mark_executed_def Let_def by (intro keeps_intros keeps_ops keeps_get_proposal)

lemmas keeps_approvals = keeps_get_proposal keeps_list_proposals keeps_create_proposal keeps_approve keeps_reject
  keeps_mark_executed keeps_risk_context keeps_room

end

lemma calls_expire [calls_intros]: "at_most P n (expire_if_needed env p)"
  unfolding expire_if_needed_def Let_def by (intro calls_intros)

lemma calls_get_proposal [calls_intros]: "at_most P n (get_proposal env pid)"
  unfolding get_proposal_def by (intro calls_intros)

lemma calls_decide [calls_intros]: "at_most P n (decide env status event p d)"
  unfolding decide_def Let_def by (intro calls_intros)

lemma calls_mark_executed [calls_intros]: "at_most P n (mark_executed env pid eid)"
  unfolding mark_executed_def Let_def by (intro calls_intros)

lemma calls_risk_context [calls_intros]: "\<not> P (Get_portfolio (cl_id b)) \<Longrightarrow> at_most P n (risk_contextP env b)"
  unfolding risk_contextP_def Let_def by (intro calls_intros)

lemma calls_room [calls_intros]: "\<not> P (Room_verdict o1 b) \<Longrightarrow> at_most P n (room_verdictP env o1 b)"
  unfolding room_verdictP_def by (intro calls_intros)

text \<open>What \<open>get_proposal\<close> shows: an open proposal past its time is expired.\<close>

definition effective :: "time \<Rightarrow> trade_proposal \<Rightarrow> trade_proposal" where
  "effective now p = (if prop_status p \<in> {PENDING, APPROVED} \<and> prop_expires_at p \<le> now
     then p\<lparr>prop_status := EXPIRED, prop_updated_at := now\<rparr> else p)"

lemma proposal_merge_same: "prop_id new = prop_id old \<Longrightarrow> prop_created_at new = prop_created_at old \<Longrightarrow> proposal_merge new old = new"
  by (simp add: proposal_merge_def)

lemma effective_fields [simp]:
  "prop_id (effective now p) = prop_id p" "prop_order (effective now p) = prop_order p"
  "prop_created_at (effective now p) = prop_created_at p" "prop_signal (effective now p) = prop_signal p"
  "prop_expires_at (effective now p) = prop_expires_at p"
  by (simp_all add: effective_def)

lemma expiry_changes:
  assumes "prop_status p \<noteq> EXPIRED"
  shows "p\<lparr>prop_status := EXPIRED, prop_updated_at := t\<rparr> \<noteq> p"
proof
  assume "p\<lparr>prop_status := EXPIRED, prop_updated_at := t\<rparr> = p"
  then have "prop_status (p\<lparr>prop_status := EXPIRED, prop_updated_at := t\<rparr>) = prop_status p" by (rule arg_cong)
  with assms show False by simp
qed

lemma after_get_proposal:
  "after (get_proposal env pid) w Q \<longleftrightarrow>
     (case proposal_get pid (w_store w) of
        None \<Rightarrow> Q (Inl (LookupError (''Proposal '' @ pid @ '' was not found''))) w
      | Some p \<Rightarrow> let now = e_clock env (w_calls w); p' = effective now p in
          Q (Inr p') (if p' = p then w else w\<lparr>w_store := log_run now ''proposal_expired''
            [(''proposal_id'', PStr (prop_id p))] (proposal_update p' (w_store w))\<rparr>))"
proof (cases "proposal_get pid (w_store w)")
  case (Some p)
  with expiry_changes [of p] show ?thesis
    by (auto simp: get_proposal_def expire_if_needed_def effective_def Let_def)
qed (simp add: get_proposal_def)

subsection \<open>Lifecycle\<close>

text \<open>The intended status changes of a proposal.\<close>

inductive lifecycle :: "approval_status \<Rightarrow> approval_status \<Rightarrow> bool" where
  "lifecycle PENDING APPROVED"
| "lifecycle PENDING REJECTED"
| "lifecycle PENDING EXPIRED"
| "lifecycle APPROVED REJECTED"
| "lifecycle APPROVED EXPIRED"
| "lifecycle APPROVED EXECUTED"

inductive_simps lifecycle_simps: "lifecycle a b"

lemma lifecycle_final: "lifecycle\<^sup>*\<^sup>* a b \<Longrightarrow> a \<in> {REJECTED, EXPIRED, EXECUTED} \<Longrightarrow> b = a"
  by (induction rule: rtranclp_induct) (auto simp: lifecycle_simps)

text \<open>
  One store evolves from another when every proposal is still there, its order, signal and
  expiry unchanged, its status moved along the lifecycle.
\<close>

definition proposal_evolves :: "trade_proposal \<Rightarrow> trade_proposal \<Rightarrow> bool" where
  "proposal_evolves p p' \<longleftrightarrow> lifecycle\<^sup>*\<^sup>* (prop_status p) (prop_status p') \<and> prop_order p' = prop_order p \<and>
     prop_signal p' = prop_signal p \<and> prop_expires_at p' = prop_expires_at p"

definition evolves :: "store \<Rightarrow> store \<Rightarrow> bool" where
  "evolves st st' \<longleftrightarrow> (\<forall>pid p. proposal_get pid st = Some p \<longrightarrow>
     (\<exists>p'. proposal_get pid st' = Some p' \<and> proposal_evolves p p'))"

lemma evolves_refl [simp]: "evolves st st"
  by (simp add: evolves_def proposal_evolves_def)

lemma evolves_trans: "evolves a b \<Longrightarrow> evolves b c \<Longrightarrow> evolves a c"
  unfolding evolves_def proposal_evolves_def by (smt (verit, best) rtranclp_trans)

lemma evolves_same_proposals: "st_proposals st' = st_proposals st \<Longrightarrow> evolves st st'"
  by (simp add: evolves_def proposal_get_def proposal_evolves_def)

lemma evolves_log [simp]: "evolves st (log_run t e d st') = evolves st st'"
  by (simp add: evolves_def)

lemma evolves_update:
  assumes "proposal_get (prop_id p') st = Some p" "proposal_evolves p p'"
  shows "evolves st (proposal_update p' st)"
  using assms
  by (auto simp: evolves_def proposal_get_update proposal_evolves_def proposal_merge_def)

lemma evolves_create:
  assumes "proposal_create_row p st = Inr st'"
  shows "evolves st st'"
  using assms proposals.get_append_new [of "prop_id p" "st_proposals st" _ p]
  by (auto simp: proposal_create_row_def evolves_def proposal_get_def proposal_evolves_def split: if_splits)

lemma effective_evolves: "proposal_evolves p (effective now p)"
  by (auto simp: proposal_evolves_def effective_def lifecycle_simps intro!: r_into_rtranclp [of lifecycle])

lemma get_proposal_spec:
  assumes "get_proposal env pid w = (r, w')"
  shows "evolves (w_store w) (w_store w')" "w_calls w' = w_calls w"
    and "r = Inr p \<Longrightarrow> proposal_get pid (w_store w') = Some p \<and>
      (\<exists>p0. proposal_get pid (w_store w) = Some p0 \<and> p = effective (e_clock env (w_calls w)) p0)"
proof -
  let ?now = "e_clock env (w_calls w)"
  have "after (get_proposal env pid) w (\<lambda>r w'. evolves (w_store w) (w_store w') \<and> w_calls w' = w_calls w \<and>
    (\<forall>p. r = Inr p \<longrightarrow> proposal_get pid (w_store w') = Some p \<and>
      (\<exists>p0. proposal_get pid (w_store w) = Some p0 \<and> p = effective ?now p0)))"
  proof (cases "proposal_get pid (w_store w)")
    case (Some p0)
    then have "prop_id p0 = pid" by (rule proposal_get_id)
    with Some evolves_update [OF _ effective_evolves, of ?now p0 "w_store w"] show ?thesis
      by (auto simp: after_get_proposal Let_def proposal_get_update proposal_merge_same)
  qed (simp add: after_get_proposal)
  from afterD [OF this assms] show "evolves (w_store w) (w_store w')" "w_calls w' = w_calls w"
    "r = Inr p \<Longrightarrow> proposal_get pid (w_store w') = Some p \<and>
      (\<exists>p0. proposal_get pid (w_store w) = Some p0 \<and> p = effective ?now p0)" by auto
qed

lemma decide_spec:
  assumes "decide env status event p d w = (r, w')" "proposal_get (prop_id p) (w_store w) = Some p"
    and "lifecycle (prop_status p) status"
  shows "evolves (w_store w) (w_store w') \<and> (\<exists>p'. r = Inr p' \<and> proposal_get (prop_id p) (w_store w') = Some p' \<and>
    p' = p\<lparr>prop_status := status, prop_approved_by := Some (dec_reviewer d), prop_decision_notes := dec_notes d,
           prop_updated_at := e_clock env (w_calls w)\<rparr>)"
proof -
  let ?p = "p\<lparr>prop_status := status, prop_approved_by := Some (dec_reviewer d), prop_decision_notes := dec_notes d,
      prop_updated_at := e_clock env (w_calls w)\<rparr>"
  have "evolves (w_store w) (proposal_update ?p (w_store w))"
    by (rule evolves_update [where p = p]) (use assms(2,3) in \<open>auto simp: proposal_evolves_def\<close>)
  moreover have "after (decide env status event p d) w (\<lambda>r w'. r = Inr ?p \<and>
      w_store w' = log_run (e_clock env (w_calls w)) event [(''proposal_id'', PStr (prop_id p)),
        (''reviewer'', PStr (dec_reviewer d)), (''notes'', PStr (dec_notes d))] (proposal_update ?p (w_store w)))"
    by (simp add: decide_def Let_def)
  from afterD [OF this assms(1)] have "r = Inr ?p" and "w_store w' = log_run (e_clock env (w_calls w)) event
      [(''proposal_id'', PStr (prop_id p)), (''reviewer'', PStr (dec_reviewer d)), (''notes'', PStr (dec_notes d))]
      (proposal_update ?p (w_store w))" by auto
  ultimately show ?thesis
    using assms(2) by (auto simp: proposal_get_update proposal_merge_same)
qed

lemma expire_evolves:
  assumes "expire_if_needed env p w = (r, w')" "proposal_get (prop_id p) (w_store w) = Some p'"
    and "prop_status p' = prop_status p" "prop_order p' = prop_order p" "prop_signal p' = prop_signal p"
    and "prop_expires_at p' = prop_expires_at p"
  shows "evolves (w_store w) (w_store w')"
proof -
  let ?p = "p\<lparr>prop_status := EXPIRED, prop_updated_at := e_clock env (w_calls w)\<rparr>"
  have "evolves (w_store w) (proposal_update ?p (w_store w))" if "prop_status p \<in> {PENDING, APPROVED}"
    by (rule evolves_update [where p = p'])
      (use assms that in \<open>auto simp: proposal_evolves_def lifecycle_simps intro!: r_into_rtranclp [of lifecycle]\<close>)
  then have "after (expire_if_needed env p) w (\<lambda>r w'. evolves (w_store w) (w_store w'))"
    by (simp add: expire_if_needed_def Let_def)
  from afterD [OF this assms(1)] show ?thesis .
qed

text \<open>The calls of the service, and of its HTTP route, that a reviewer or a reader makes.\<close>

inductive approval_step :: "env \<Rightarrow> world \<Rightarrow> world \<Rightarrow> bool" for env where
  step_create: "create_proposal env r w = (res, w') \<Longrightarrow> approval_step env w w'"
| step_get: "get_proposal env pid w = (res, w') \<Longrightarrow> approval_step env w w'"
| step_approve: "approve_proposal env pid d w = (res, w') \<Longrightarrow> approval_step env w w'"
| step_route_approve: "route_approve_proposal env pid d w = (res, w') \<Longrightarrow> approval_step env w w'"
| step_reject: "reject_proposal env pid d w = (res, w') \<Longrightarrow> approval_step env w w'"

inductive_cases approval_stepE: "approval_step env w w'"

lemma approve_evolves:
  assumes "approve_proposal env pid d w = (r, w')"
  shows "evolves (w_store w) (w_store w')"
  using assms unfolding approve_proposal_def
proof (cases rule: bindP_cases)
  case failed
  then show ?thesis by (blast intro: get_proposal_spec(1))
next
  case (cont p w1)
  note g = get_proposal_spec [OF cont(1)]
  from cont(2) show ?thesis
    using g(1) evolves_trans [OF g(1)] decide_spec [of env APPROVED "''proposal_approved''" p d w1 r w'] g(3) [of p]
      proposal_get_id [of pid "w_store w1" p]
    by (auto simp: raiseP_def lifecycle_simps split: if_splits)
qed

lemma reject_evolves:
  assumes "reject_proposal env pid d w = (r, w')"
  shows "evolves (w_store w) (w_store w')"
  using assms unfolding reject_proposal_def
proof (cases rule: bindP_cases)
  case failed
  then show ?thesis by (blast intro: get_proposal_spec(1))
next
  case (cont p w1)
  note g = get_proposal_spec [OF cont(1)]
  from cont(2) show ?thesis
    using g(1) evolves_trans [OF g(1)] decide_spec [of env REJECTED "''proposal_rejected''" p d w1 r w'] g(3) [of p]
      proposal_get_id [of pid "w_store w1" p]
    by (auto simp: raiseP_def lifecycle_simps split: if_splits)
qed

lemma create_evolves: "keeps (evolves st) (create_proposal env r)"
proof -
  have sig: "evolves st a \<Longrightarrow> signal_create_row x a = Inr b \<Longrightarrow> evolves st b" for x a b
    using evolves_trans [of st a b] evolves_same_proposals [of b a]
    by (auto simp: signal_create_row_def split: if_splits)
  have pro: "evolves st a \<Longrightarrow> proposal_create_row x a = Inr b \<Longrightarrow> evolves st b" for x a b
    using evolves_trans [of st a b] evolves_create [of x a b] by blast
  have "keeps (evolves st) (tryStoreP (\<lambda>a. with_unit (signal_create_row x a)))" for x
    by (rule keeps_tryStore) (auto simp: with_unit_def intro: sig split: sum.splits)
  moreover have "keeps (evolves st) (tryStoreP (\<lambda>a. with_unit (proposal_create_row x a)))" for x
    by (rule keeps_tryStore) (auto simp: with_unit_def intro: pro split: sum.splits)
  moreover have "keeps (evolves st) (logP env e d)" for e d
    unfolding logP_def by (intro keeps_intros keeps_store) simp
  ultimately show ?thesis
    unfolding create_proposal_def save_signal_def risk_contextP_def room_verdictP_def Let_def
    by (intro keeps_intros)
qed

lemma route_approve_evolves:
  assumes "route_approve_proposal env pid d w = (r, w')"
  shows "evolves (w_store w) (w_store w')"
proof (cases "dec_reviewer d = AUTO_REVIEWER")
  case True
  with assms have "bindP (get_proposal env pid) (\<lambda>p. if is_paper_only (ord_metadata (prop_order p))
      then raiseP (ValueError AUTOMATIC_ONLY) else approve_proposal env pid d) w = (r, w')"
    by (simp add: route_approve_proposal_def)
  then show ?thesis
  proof (cases rule: bindP_cases)
    case failed
    then show ?thesis by (blast intro: get_proposal_spec(1))
  next
    case (cont p w1)
    note g = get_proposal_spec(1) [OF cont(1)]
    from cont(2) show ?thesis
      using g evolves_trans [OF g] approve_evolves [of env pid d w1 r w']
      by (auto simp: raiseP_def split: if_splits)
  qed
next
  case False
  with assms approve_evolves show ?thesis by (simp add: route_approve_proposal_def)
qed

lemma approval_step_evolves: "approval_step env w w' \<Longrightarrow> evolves (w_store w) (w_store w')"
  by (erule approval_stepE)
    (auto dest: get_proposal_spec(1) approve_evolves reject_evolves route_approve_evolves
      keepsD [OF create_evolves [of "w_store w"]])

lemma approval_steps_evolve: "(approval_step env)\<^sup>*\<^sup>* w w' \<Longrightarrow> evolves (w_store w) (w_store w')"
  by (induction rule: rtranclp_induct) (auto intro: evolves_trans approval_step_evolves)

subsection \<open>Properties\<close>


definition demo_proposal :: "approval_status \<Rightarrow> trade_proposal" where
  "demo_proposal status = \<lparr>prop_id = ''prop_1'', prop_status = status, prop_order = demo_order, prop_signal = None,
     prop_notes = [], prop_decision_notes = [], prop_approved_by = None, prop_execution_id = None,
     prop_created_at = 0, prop_updated_at = 0, prop_expires_at = 14400000000, prop_executed_at = None\<rparr>"

definition demo_client :: "string \<Rightarrow> client" where
  "demo_client name = \<lparr>cl_id = name, cl_class = name, cl_get_account_identity = True, cl_is_supported_equity = True,
     cl_submit_order = True, cl_submit_bracket_order = True, cl_submit_crypto_protected_order = True,
     cl_open_market_order_by_amount = False, cl_cancel_all_orders = True, cl_close_all_positions = True, cl_close_position = True\<rparr>"

definition demo_quote :: market_quote where
  "demo_quote = \<lparr>mq_symbol = ''NVDA'', mq_bid = Some 100, mq_ask = Some 100, mq_last_execution = Some 100,
     mq_timestamp = None, mq_source = Some ''alpaca'', mq_derived_from_history = False, mq_data_age_seconds = Some 1\<rparr>"

text \<open>An outside world for the witnesses: an empty 10,000 USD account, a fresh quote, a broker that accepts.\<close>

definition demo_env :: env where
  "demo_env = \<lparr>e_settings = default_settings,
     e_router = Some \<lparr>rt_alpaca = Some (demo_client ''alpaca''), rt_etoro = Some (demo_client ''etoro''),
       rt_equities_choice = Use_alpaca, rt_non_equities_choice = Use_etoro, rt_crypto_choice = Use_alpaca,
       rt_emergency_clients = []\<rparr>,
     e_trader_broker = demo_client ''etoro'', e_proposal_broker = demo_client ''alpaca'',
     e_automation = True, e_learning = False, e_live_mirror = False, e_parallel_broker = False, e_demo_client = None,
     e_clock = (\<lambda>t. 1000 + int (length t)), e_uuid = (\<lambda>t. show_nat (length t)),
     e_portfolio = (\<lambda>t. Inr (demo_portfolio\<lparr>pf_positions := []\<rparr>)),
     e_balance = (\<lambda>t. Inr (pf_account demo_portfolio)),
     e_identity = (\<lambda>t. Inr [(''account_number'', PStr ''PA1'')]), e_supported = (\<lambda>t. Inr True),
     e_quote = (\<lambda>t. Inr demo_quote), e_history = (\<lambda>t. Inr []),
     e_execution = (\<lambda>t. Inr \<lparr>be_broker_order_id = Some ''b1'', be_status = ''accepted'', be_mode = ''paper'', be_dump = []\<rparr>),
     e_response = (\<lambda>t. Inr \<lparr>br_order_id = ''b1'', br_status = ''submitted'', br_mode = ''demo'', br_message = [], br_raw_response = []\<rparr>),
     e_count = (\<lambda>t. Inr 1), e_done = (\<lambda>t. Inr ()), e_room = (\<lambda>t. None), e_held = (\<lambda>t. []),
     e_readiness = (\<lambda>now rows. False), e_safety_json = (\<lambda>t. Some ''all''), e_isoformat = show_int, e_ny_date = (\<lambda>t. t div day_us), e_sha256_hex = (\<lambda>x. x)\<rparr>"

definition demo_world :: "approval_status \<Rightarrow> world" where
  "demo_world status = start_world (empty_store\<lparr>st_proposals := [demo_proposal status]\<rparr>)"

definition demo_decision :: approval_decision where
  "demo_decision = \<lparr>dec_reviewer = ''human'', dec_notes = ''ok''\<rparr>"


lemma risk_contextP_built:
  assumes "risk_contextP env b w = (Inr ctx, w1)"
  obtains pf where "w_store w1 = w_store w"
    "build_risk_context (e_settings env) (e_clock env (w_calls w)) pf (w_store w) = Inr ctx"
    "\<forall>x. pf = Inr x \<longrightarrow> e_portfolio env (w_calls w @ [Get_portfolio (cl_id b)]) = Inr x"
proof -
  have "after (risk_contextP env b) w (\<lambda>r w1. \<forall>ctx. r = Inr ctx \<longrightarrow> w_store w1 = w_store w \<and>
    (\<exists>pf. build_risk_context (e_settings env) (e_clock env (w_calls w)) pf (w_store w) = Inr ctx \<and>
       (\<forall>x. pf = Inr x \<longrightarrow> e_portfolio env (w_calls w @ [Get_portfolio (cl_id b)]) = Inr x)))"
    by (auto simp: risk_contextP_def Let_def split: sum.splits)
  from afterD [OF this assms] show thesis using that by blast
qed

text \<open>
  a proposal is stored only if it passes the risk gate. When \<open>create_proposal\<close> succeeds,
  the order of the stored pending proposal is the prepared request and is admissible in a
  context built from the current store and the broker's portfolio answer.
\<close>

theorem created_proposals_are_admissible:
  assumes "create_proposal env r w = (Inr p, w')"
  shows "\<exists>o1 pf ctx room. prepare_order (e_settings env) (to_order r) = Inr o1 \<and> prop_order p = o1 \<and>
    build_risk_context (e_settings env) (e_clock env (w_calls w)) pf (w_store w) = Inr ctx \<and>
    order_admissible (e_settings env) o1 ctx room \<and> prop_status p = PENDING \<and> p \<in> set (st_proposals (w_store w'))"
proof -
  obtain o1 where o1: "prepare_order (e_settings env) (to_order r) = Inr o1"
    using assms by (cases "prepare_order (e_settings env) (to_order r)") (auto simp: create_proposal_def bindP_def liftP_def)
  obtain ctx w1 where c: "risk_contextP env (e_proposal_broker env) w = (Inr ctx, w1)"
    using assms o1
    by (cases "risk_contextP env (e_proposal_broker env) w"; cases "fst (risk_contextP env (e_proposal_broker env) w)")
      (auto simp: create_proposal_def bindP_def liftP_def)
  obtain room w2 where room: "room_verdictP env o1 ''alpaca'' w1 = (Inr room, w2)"
    by (cases "e_live_mirror env") (auto simp: room_verdictP_def extP_def returnP_def Let_def)
  obtain risk where risk: "validate_order (e_settings env) o1 ctx room = Inr risk" "rv_passed risk"
    using assms o1 c room
    by (cases "validate_order (e_settings env) o1 ctx room")
      (auto simp: create_proposal_def bindP_def liftP_def raiseP_def split: if_splits)
  have adm: "order_admissible (e_settings env) o1 ctx room" using risk by (rule validate_passedD)
  have "prop_order p = o1 \<and> prop_status p = PENDING \<and> p \<in> set (st_proposals (w_store w'))"
    using assms o1 c room risk
    by (auto simp: create_proposal_def prog_defs with_unit_def Let_def proposal_create_row_def new_proposal_def log_run_def
        split: sum.splits if_splits prod.splits)
  with o1 adm show ?thesis using risk_contextP_built [OF c] by metis
qed

definition demo_request :: proposal_create where
  "demo_request = \<lparr>tpc_symbol = ''nvda'', tpc_side = Buy, tpc_amount_usd = 500, tpc_leverage = 1, tpc_proposed_price = 100,
     tpc_stop_loss = Some 98, tpc_take_profit = Some 104, tpc_strategy_name = Some ''swing'', tpc_rationale = [],
     tpc_notes = [], tpc_asset_class = Unknown_class, tpc_signal = None, tpc_metadata = []\<rparr>"

definition demo_created :: trade_proposal where
  "demo_created = new_proposal demo_env ''prop_2'' 1001 demo_order demo_request"

lemma demo_create: "fst (create_proposal demo_env demo_request (start_world empty_store)) = Inr demo_created"
  by code_simp

theorem created_proposals_are_admissible_witness:
  "\<exists>o1 pf ctx room. prepare_order (e_settings demo_env) (to_order demo_request) = Inr o1 \<and> prop_order demo_created = o1 \<and>
    build_risk_context (e_settings demo_env) (e_clock demo_env (w_calls (start_world empty_store))) pf
      (w_store (start_world empty_store)) = Inr ctx \<and>
    order_admissible (e_settings demo_env) o1 ctx room \<and> prop_status demo_created = PENDING \<and>
    demo_created \<in> set (st_proposals (w_store (snd (create_proposal demo_env demo_request (start_world empty_store)))))"
  by (rule created_proposals_are_admissible) (simp flip: demo_create)

text \<open>What a successful approval read and wrote.\<close>

lemma approve_spec:
  assumes "approve_proposal env pid d w = (Inr p, w')"
  shows "\<exists>p0. proposal_get pid (w_store w) = Some p0 \<and> prop_status p0 = PENDING \<and>
         e_clock env (w_calls w) < prop_expires_at p0 \<and> prop_order p = prop_order p0 \<and>
         prop_status p = APPROVED \<and> prop_approved_by p = Some (dec_reviewer d) \<and>
         proposal_get pid (w_store w') = Some p \<and>
         (is_paper_only (ord_metadata (prop_order p0)) \<longrightarrow> dec_reviewer d = AUTO_REVIEWER)"
  using assms unfolding approve_proposal_def
proof (cases rule: bindP_cases)
  case (cont q w1)
  obtain p0 where p0: "proposal_get pid (w_store w) = Some p0" "q = effective (e_clock env (w_calls w)) p0"
    "proposal_get pid (w_store w1) = Some q" using get_proposal_spec(3) [OF cont(1)] by blast
  from cont(2) have pend: "prop_status q = PENDING"
    and auto: "is_paper_only (ord_metadata (prop_order q)) \<longrightarrow> dec_reviewer d = AUTO_REVIEWER"
    and dec: "decide env APPROVED ''proposal_approved'' q d w1 = (Inr p, w')"
    by (auto simp: raiseP_def split: if_splits)
  from p0(2) pend have "q = p0" "e_clock env (w_calls w) < prop_expires_at p0"
    by (auto simp: effective_def split: if_splits)
  moreover have "prop_id q = pid" using p0(3) by (rule proposal_get_id)
  moreover note decide_spec [OF dec] p0 pend auto
  ultimately show ?thesis by (auto simp: lifecycle_simps)
qed simp

text \<open>
  C32: an approval is timely and, for paper-only entries, automatic. A successful approval
  was of a pending proposal whose expiry lies ahead, records the reviewer, and leaves the
  approved proposal in the store; through the HTTP route no paper-only proposal is approved.
\<close>

theorem approvals_are_timely_and_paper_only_is_automatic:
  assumes "approve_proposal env pid d w = (Inr p, w')"
  shows "(\<exists>p0. proposal_get pid (w_store w) = Some p0 \<and> prop_status p0 = PENDING \<and>
           e_clock env (w_calls w) < prop_expires_at p0 \<and> prop_order p = prop_order p0 \<and>
           prop_status p = APPROVED \<and> prop_approved_by p = Some (dec_reviewer d) \<and>
           proposal_get pid (w_store w') = Some p \<and>
           (is_paper_only (ord_metadata (prop_order p0)) \<longrightarrow> dec_reviewer d = AUTO_REVIEWER)) \<and>
    (route_approve_proposal env pid d w2 = (Inr p2, w2') \<longrightarrow> \<not> is_paper_only (ord_metadata (prop_order p2)))"
proof (rule conjI; (intro impI)?)
  show "\<exists>p0. proposal_get pid (w_store w) = Some p0 \<and> prop_status p0 = PENDING \<and>
           e_clock env (w_calls w) < prop_expires_at p0 \<and> prop_order p = prop_order p0 \<and>
           prop_status p = APPROVED \<and> prop_approved_by p = Some (dec_reviewer d) \<and>
           proposal_get pid (w_store w') = Some p \<and>
           (is_paper_only (ord_metadata (prop_order p0)) \<longrightarrow> dec_reviewer d = AUTO_REVIEWER)"
    by (rule approve_spec [OF assms])
  assume route: "route_approve_proposal env pid d w2 = (Inr p2, w2')"
  show "\<not> is_paper_only (ord_metadata (prop_order p2))"
  proof (cases "dec_reviewer d = AUTO_REVIEWER")
    case False
    with route approve_spec [of env pid d w2 p2 w2'] show ?thesis by (auto simp: route_approve_proposal_def)
  next
    case True
    with route have "bindP (get_proposal env pid) (\<lambda>p. if is_paper_only (ord_metadata (prop_order p))
      then raiseP (ValueError AUTOMATIC_ONLY) else approve_proposal env pid d) w2 = (Inr p2, w2')"
      by (simp add: route_approve_proposal_def)
    then show ?thesis
    proof (cases rule: bindP_cases)
      case (cont q w3)
      then have q: "\<not> is_paper_only (ord_metadata (prop_order q))" "approve_proposal env pid d w3 = (Inr p2, w2')"
        by (auto simp: raiseP_def split: if_splits)
      from get_proposal_spec(3) [OF cont(1)] approve_spec [OF q(2)] q(1) show ?thesis by auto
    qed simp
  qed
qed

lemma demo_approve: "fst (approve_proposal demo_env ''prop_1'' demo_decision (demo_world PENDING)) =
    Inr ((demo_proposal APPROVED)\<lparr>prop_approved_by := Some ''human'', prop_decision_notes := ''ok'', prop_updated_at := 1000\<rparr>)"
  by code_simp

theorem approvals_are_timely_and_paper_only_is_automatic_witness:
  "\<exists>p0. proposal_get ''prop_1'' (w_store (demo_world PENDING)) = Some p0 \<and> prop_status p0 = PENDING"
proof -
  obtain p w' where a: "approve_proposal demo_env ''prop_1'' demo_decision (demo_world PENDING) = (Inr p, w')"
    using demo_approve by (metis prod.collapse)
  from approvals_are_timely_and_paper_only_is_automatic [THEN conjunct1, OF a] show ?thesis by blast
qed

text \<open>
  \<open>mark_executed\<close> does not look at the status. Its documentation speaks of an approved
  proposal, but every existing proposal, also a rejected or expired one, becomes executed.
\<close>

theorem mark_executed_ignores_status:
  assumes "proposal_get pid (w_store w) = Some p"
  shows "\<exists>p' w'. mark_executed env pid eid w = (Inr p', w') \<and> prop_status p' = EXECUTED \<and>
    prop_execution_id p' = Some eid \<and> proposal_get pid (w_store w') = Some p'"
proof -
  have "after (mark_executed env pid eid) w (\<lambda>r w'. \<exists>p'. r = Inr p' \<and> prop_status p' = EXECUTED \<and>
      prop_execution_id p' = Some eid \<and> proposal_get pid (w_store w') = Some p')"
    using assms proposal_get_id [OF assms]
    by (simp add: mark_executed_def after_get_proposal Let_def proposal_get_update proposal_merge_same)
  then show ?thesis by (auto simp: after_def split: prod.splits)
qed

theorem mark_executed_ignores_status_witness:
  "\<exists>p' w'. mark_executed demo_env ''prop_1'' ''exec_1'' (demo_world REJECTED) = (Inr p', w') \<and> prop_status p' = EXECUTED \<and>
    prop_execution_id p' = Some ''exec_1'' \<and> proposal_get ''prop_1'' (w_store w') = Some p'"
  by (rule mark_executed_ignores_status [of _ _ "demo_proposal REJECTED"])
    (simp add: demo_world_def demo_proposal_def proposal_get_def row_get_def)

end
