(* ===== verification/Automation.thy ===== *)
theory Automation
  imports Approvals
begin

text \<open>
  Runtime automation controls (src/app/automation/service.py): pause, kill switch, circuit
  breaker, the execution blockers with the live-trading locks, and the emergency stop that
  fans out to every broker client. The flags live in the runtime state table.
\<close>

definition LIVE_OPERATOR_ACKNOWLEDGEMENT :: string where
  "LIVE_OPERATOR_ACKNOWLEDGEMENT = ''I accept real-money risk on this account''"

definition PAUSED_KEY :: string where "PAUSED_KEY = ''automation:paused''"
definition KILL_SWITCH_KEY :: string where "KILL_SWITCH_KEY = ''automation:kill_switch''"
definition REASON_KEY :: string where "REASON_KEY = ''automation:reason''"
definition UPDATED_AT_KEY :: string where "UPDATED_AT_KEY = ''automation:updated_at''"
definition CIRCUIT_REASON_KEY :: string where "CIRCUIT_REASON_KEY = ''automation:circuit_breaker_reason''"
definition ACCOUNT_VERIFIED_KEY :: string where "ACCOUNT_VERIFIED_KEY = ''automation:account_verified''"
definition SAFETY_KEY :: string where "SAFETY_KEY = ''paper_safety_flatten''"

lemmas key_defs = PAUSED_KEY_def KILL_SWITCH_KEY_def REASON_KEY_def UPDATED_AT_KEY_def CIRCUIT_REASON_KEY_def
  ACCOUNT_VERIFIED_KEY_def SAFETY_KEY_def

record automation_status =
  as_paused :: bool
  as_kill_switch_enabled :: bool
  as_auto_propose_enabled :: bool
  as_auto_execute_after_approval :: bool
  as_paper_auto_approve_proposals :: bool
  as_auto_execution_worker_enabled :: bool
  as_execution_mode :: string
  as_require_approval :: bool
  as_enable_real_trading :: bool
  as_reason :: string
  as_updated_at :: "string option"
  as_circuit_breaker_reason :: string
  as_account_verified :: "bool option"

definition or_empty :: "string option \<Rightarrow> string" where
  "or_empty v = (case v of None \<Rightarrow> [] | Some x \<Rightarrow> x)"

definition to_bool :: "string option \<Rightarrow> bool" where
  "to_bool v = (py_lower (py_strip (or_empty v)) \<in> {''1'', ''true'', ''yes'', ''on''})"

definition bool_text :: "bool \<Rightarrow> string" where
  "bool_text b = (if b then ''true'' else ''false'')"

definition is_paused :: "app_settings \<Rightarrow> store \<Rightarrow> bool" where
  "is_paused s st = (case runtime_get PAUSED_KEY st of None \<Rightarrow> automation_paused_default s
     | Some raw \<Rightarrow> to_bool (Some raw))"

definition kill_switch_on :: "app_settings \<Rightarrow> store \<Rightarrow> bool" where
  "kill_switch_on s st = (kill_switch_enabled s \<or> to_bool (runtime_get KILL_SWITCH_KEY st))"

definition automation_status_of :: "app_settings \<Rightarrow> store \<Rightarrow> automation_status" where
  "automation_status_of s st = \<lparr>
     as_paused = is_paused s st, as_kill_switch_enabled = kill_switch_on s st,
     as_auto_propose_enabled = auto_propose_enabled s, as_auto_execute_after_approval = auto_execute_after_approval s,
     as_paper_auto_approve_proposals = paper_auto_approve_proposals s,
     as_auto_execution_worker_enabled = auto_execution_worker_enabled s,
     as_execution_mode = execution_mode_value (exec_mode s), as_require_approval = require_approval s,
     as_enable_real_trading = enable_real_trading s,
     as_reason = or_empty (runtime_get REASON_KEY st), as_updated_at = runtime_get UPDATED_AT_KEY st,
     as_circuit_breaker_reason = or_empty (runtime_get CIRCUIT_REASON_KEY st),
     as_account_verified = (case runtime_get ACCOUNT_VERIFIED_KEY st of None \<Rightarrow> None | Some v \<Rightarrow> Some (to_bool (Some v)))\<rparr>"

definition scan_blockers :: "app_settings \<Rightarrow> store \<Rightarrow> string list" where
  "scan_blockers s st = (if kill_switch_on s st then [''automation_kill_switch_enabled''] else []) @
     (if is_paused s st then [''automation_paused''] else [])"

definition go_live_guard_blockers :: "app_settings \<Rightarrow> bool \<Rightarrow> string list" where
  "go_live_guard_blockers s ready =
     (if \<not> ready then [''go_live_readiness_not_met''] else []) @
     (let cap = (if portfolio_micro_live_max_risk_per_trade_pct s = 0 then 1 else portfolio_micro_live_max_risk_per_trade_pct s) in
      if \<not> institutional_portfolio_controls_enabled s then [''micro_live_risk_cap_not_active'']
      else if 1/10 < cap then [''micro_live_risk_cap_above_0_1_pct''] else []) @
     (if live_operator_acknowledgement s \<noteq> LIVE_OPERATOR_ACKNOWLEDGEMENT
      then [''live_operator_acknowledgement_missing''] else [])"

definition live_mode_blockers :: "app_settings \<Rightarrow> string list" where
  "live_mode_blockers s =
     (if \<not> require_approval s then [''approval_required_must_remain_enabled''] else []) @
     (if \<not> enable_real_trading s then [''enable_real_trading_false''] else []) @
     (if paper_trading_enabled s then [''paper_trading_enabled_in_live_mode''] else [])"

definition execution_blockers :: "env \<Rightarrow> time \<Rightarrow> store \<Rightarrow> string list" where
  "execution_blockers env now st =
     (let s = e_settings env; circuit = or_empty (runtime_get CIRCUIT_REASON_KEY st) in
      scan_blockers s st @
      (if circuit \<noteq> [] then [''circuit_breaker:'' @ circuit] else []) @
      (if alpaca_effective_expected_account_number s \<noteq> [] \<and> \<not> to_bool (runtime_get ACCOUNT_VERIFIED_KEY st)
       then [''alpaca_account_not_verified''] else []) @
      (if exec_mode s = Mode_live then live_mode_blockers s @ go_live_guard_blockers s (e_readiness env now (st_runtime st)) else []))"

subsection \<open>State changes\<close>

definition set_state :: "env \<Rightarrow> bool \<Rightarrow> bool option \<Rightarrow> string \<Rightarrow> automation_status prog" where
  "set_state env paused kill_switch reason =
     bindP (utc_now env) (\<lambda>now.
     bindP (storeP (runtime_set PAUSED_KEY (bool_text paused))) (\<lambda>_.
     bindP (case kill_switch of None \<Rightarrow> returnP () | Some k \<Rightarrow> storeP (runtime_set KILL_SWITCH_KEY (bool_text k))) (\<lambda>_.
     bindP (storeP (runtime_set REASON_KEY reason)) (\<lambda>_.
     bindP (storeP (runtime_set UPDATED_AT_KEY (e_isoformat env now))) (\<lambda>_.
     bindP (logP env ''automation_state_changed'' [(''paused'', PBool paused),
       (''kill_switch'', case kill_switch of None \<Rightarrow> PNone | Some k \<Rightarrow> PBool k), (''reason'', PStr reason),
       (''updated_at'', PTime now)]) (\<lambda>_.
     readP (automation_status_of (e_settings env))))))))"

definition pause :: "env \<Rightarrow> string \<Rightarrow> automation_status prog" where
  "pause env reason = set_state env True None (if reason = [] then ''paused manually'' else reason)"

definition resume :: "env \<Rightarrow> string \<Rightarrow> automation_status prog" where
  "resume env reason = set_state env False (Some False) (if reason = [] then ''resumed manually'' else reason)"

text \<open>
  One client of the emergency stop: the attempts, their counts and errors. A failing call is
  recorded and the fan-out goes on.
\<close>

definition attempt :: "ext_call \<Rightarrow> env \<Rightarrow> string \<Rightarrow> (int \<times> pyval list) prog" where
  "attempt c env name =
     catchP (bindP (extP c (e_count env)) (\<lambda>n. returnP (n, [])))
            (\<lambda>e. returnP (0, [PStr (name @ '':'' @ exn_str e)]))"

definition stop_client :: "env \<Rightarrow> bool \<Rightarrow> client \<Rightarrow> (int \<times> int \<times> pyval) prog" where
  "stop_client env close_allowed cl =
     bindP (if cl_cancel_all_orders cl then attempt (Cancel_all_orders (cl_id cl)) env ''cancel_all_orders''
            else returnP (0, [])) (\<lambda>(cancelled, errs1).
     bindP (if close_allowed \<and> cl_close_all_positions cl
            then attempt (Close_all_positions (cl_id cl)) env ''close_all_positions''
            else returnP (0, [])) (\<lambda>(closed, errs2).
     returnP (cancelled, closed, PDict ([(''client'', PStr (cl_class cl)), (''orders_cancelled'', PInt cancelled),
         (''positions_closed'', PInt closed), (''errors'', PList (errs1 @ errs2))] @
       (if close_allowed then [] else [(''close_all_positions_skipped'',
          PStr ''live_mode_requires_kill_switch_auto_close_positions'')])))))"

fun stop_clients :: "env \<Rightarrow> bool \<Rightarrow> client list \<Rightarrow> (int \<times> int \<times> pyval list) prog" where
  "stop_clients env close_allowed [] = returnP (0, 0, [])"
| "stop_clients env close_allowed (cl # cls) =
     bindP (stop_client env close_allowed cl) (\<lambda>(n, m, item).
     bindP (stop_clients env close_allowed cls) (\<lambda>(ns, ms, items).
     returnP (n + ns, m + ms, item # items)))"

definition close_allowed :: "app_settings \<Rightarrow> bool" where
  "close_allowed s = (exec_mode s \<noteq> Mode_live \<or> kill_switch_auto_close_positions s)"

text \<open>\<open>mark_paper_safety_flatten\<close> never raises; \<open>None\<close> is the swallowed failure.\<close>

definition mark_paper_safety_flatten :: "env \<Rightarrow> string \<Rightarrow> unit prog" where
  "mark_paper_safety_flatten env reason =
     bindP (extP (Safety_flatten_mark reason) (\<lambda>t. Inr (e_safety_json env t))) (\<lambda>j.
     case j of None \<Rightarrow> returnP () | Some v \<Rightarrow> storeP (runtime_set SAFETY_KEY v))"

definition emergency_stop :: "env \<Rightarrow> string \<Rightarrow> unit prog" where
  "emergency_stop env reason =
     (case e_router env of None \<Rightarrow> returnP ()
      | Some r \<Rightarrow>
          (let allowed = close_allowed (e_settings env) in
           bindP (if allowed then mark_paper_safety_flatten env (''emergency_stop:'' @ reason) else returnP ()) (\<lambda>_.
           bindP (stop_clients env allowed (all_clients r)) (\<lambda>(cancelled, closed, items).
           logP env ''kill_switch_emergency_stop'' [(''reason'', PStr reason), (''orders_cancelled'', PInt cancelled),
             (''positions_closed'', PInt closed), (''close_positions_allowed'', PBool allowed), (''clients'', PList items)]))))"

definition enable_kill_switch :: "env \<Rightarrow> string \<Rightarrow> bool \<Rightarrow> automation_status prog" where
  "enable_kill_switch env reason stop =
     (let effective_reason = (if reason = [] then ''kill switch enabled'' else reason) in
      bindP (set_state env True (Some True) effective_reason) (\<lambda>status.
      bindP (if stop then emergency_stop env effective_reason else returnP ()) (\<lambda>_.
      returnP status)))"

definition set_account_verified :: "env \<Rightarrow> bool \<Rightarrow> unit prog" where
  "set_account_verified env verified = storeP (runtime_set ACCOUNT_VERIFIED_KEY (bool_text verified))"

definition trip_circuit_breaker :: "env \<Rightarrow> string \<Rightarrow> bool \<Rightarrow> automation_status prog" where
  "trip_circuit_breaker env reason stop =
     bindP (storeP (runtime_set CIRCUIT_REASON_KEY reason)) (\<lambda>_.
     enable_kill_switch env (''circuit breaker: '' @ reason) stop)"

definition clear_circuit_breaker :: "env \<Rightarrow> automation_status prog" where
  "clear_circuit_breaker env =
     bindP (storeP (runtime_set CIRCUIT_REASON_KEY [])) (\<lambda>_. readP (automation_status_of (e_settings env)))"

subsection \<open>Lemmas\<close>

text \<open>The runtime writes that leave the kill switch on.\<close>

definition kill_ok :: "string \<Rightarrow> string \<Rightarrow> bool" where
  "kill_ok k v \<longleftrightarrow> (k = KILL_SWITCH_KEY \<longrightarrow> v = ''true'')"

lemma kill_ok_other [simp]: "kill_ok PAUSED_KEY v" "kill_ok REASON_KEY v" "kill_ok UPDATED_AT_KEY v"
  "kill_ok CIRCUIT_REASON_KEY v" "kill_ok ACCOUNT_VERIFIED_KEY v" "kill_ok SAFETY_KEY v" "kill_ok KILL_SWITCH_KEY (bool_text True)"
  by (simp_all add: kill_ok_def key_defs bool_text_def)

lemma to_bool_true [simp]: "to_bool (Some ''true'')"
  by code_simp

text \<open>A locale for the services that may also write automation flags without lifting the kill switch.\<close>

locale automation_quiet = quiet_invariant I kill_ok for I
begin

lemma keeps_set_state: "k \<noteq> Some False \<Longrightarrow> keeps I (set_state env paused k reason)"
  unfolding set_state_def
  by (cases k; simp; intro keeps_intros keeps_log keeps_runtime) (simp_all add: kill_ok_other [simplified])

lemma keeps_attempt: "keeps I (attempt c env name)"
  unfolding attempt_def by (intro keeps_intros)

lemma keeps_stop_client: "keeps I (stop_client env ok cl)"
  unfolding stop_client_def by (intro keeps_intros keeps_attempt)

lemma keeps_stop_clients: "keeps I (stop_clients env ok cls)"
  by (induction cls) (auto intro!: keeps_intros keeps_stop_client)

lemma keeps_emergency_stop: "keeps I (emergency_stop env reason)"
  unfolding emergency_stop_def mark_paper_safety_flatten_def Let_def
  by (intro keeps_intros keeps_log keeps_runtime keeps_stop_clients) simp

lemma keeps_enable_kill_switch: "keeps I (enable_kill_switch env reason stop)"
  unfolding enable_kill_switch_def Let_def
  by (intro keeps_intros keeps_emergency_stop keeps_set_state) simp

lemma keeps_set_account_verified: "keeps I (set_account_verified env b)"
  unfolding set_account_verified_def by (intro keeps_runtime) simp

lemma keeps_trip: "keeps I (trip_circuit_breaker env reason stop)"
  unfolding trip_circuit_breaker_def by (intro keeps_intros keeps_enable_kill_switch keeps_runtime) simp

lemma keeps_clear: "keeps I (clear_circuit_breaker env)"
  unfolding clear_circuit_breaker_def by (intro keeps_intros keeps_runtime) simp

lemma keeps_pause: "keeps I (pause env reason)"
  unfolding pause_def by (intro keeps_set_state) simp

lemmas keeps_automation = keeps_set_account_verified keeps_trip keeps_clear keeps_pause keeps_enable_kill_switch

end

locale automation_invariant = repository_invariant I kill_ok for I

sublocale automation_invariant \<subseteq> automation_quiet
  by unfold_locales

definition killed :: "store \<Rightarrow> bool" where
  "killed st \<longleftrightarrow> runtime_get KILL_SWITCH_KEY st = Some ''true''"

lemma killed_on: "killed st \<Longrightarrow> kill_switch_on s st"
  by (simp add: killed_def kill_switch_on_def)

lemma killed_cong: "st_runtime st' = st_runtime st \<Longrightarrow> killed st' = killed st"
  by (simp add: killed_def runtime_get_def)

interpretation kill: automation_invariant killed
  by unfold_locales
    (auto simp: killed_def runtime_get_def proposal_create_row_def signal_create_row_def execution_create_def
      execution_update_def queue_create_def queue_update_def claim_for_processing_def position_create_row_def
      position_update_def trade_create_row_def snapshot_upsert_def replace_active_def record_reconciliation_def
      Let_def kill_ok_def runtime_set_def update_conv' split: if_splits)

interpretation keyed: automation_invariant store_inv
  by unfold_locales (auto dest: store_inv_ops)

lemma calls_set_state [calls_intros]: "at_most P n (set_state env paused k reason)"
  unfolding set_state_def by (intro calls_intros)

text \<open>The calls of the fan-out: what each client is asked to do.\<close>

definition stop_calls :: "bool \<Rightarrow> client \<Rightarrow> ext_call list" where
  "stop_calls allowed cl = (if cl_cancel_all_orders cl then [Cancel_all_orders (cl_id cl)] else []) @
     (if allowed \<and> cl_close_all_positions cl then [Close_all_positions (cl_id cl)] else [])"

lemma after_attempt: "after (attempt c env name) w (\<lambda>r w'. (\<exists>x. r = Inr x) \<and> w_calls w' = w_calls w @ [c] \<and> w_store w' = w_store w)"
  by (auto simp: attempt_def split: sum.splits)

lemma after_stop_client:
  "after (stop_client env allowed cl) w
     (\<lambda>r w'. (\<exists>x. r = Inr x) \<and> w_calls w' = w_calls w @ stop_calls allowed cl \<and> w_store w' = w_store w)"
  by (auto simp: stop_client_def stop_calls_def attempt_def split: sum.splits prod.splits)

lemma after_stop_clients:
  "after (stop_clients env allowed cls) w
     (\<lambda>r w'. (\<exists>x. r = Inr x) \<and> w_calls w' = w_calls w @ concat (map (stop_calls allowed) cls) \<and> w_store w' = w_store w)"
proof (induction cls arbitrary: w)
  case (Cons cl cls)
  have tail: "after (stop_clients env allowed cls) w1 (\<lambda>r w'. case r of Inl e \<Rightarrow> False
      | Inr x \<Rightarrow> w_calls w' = w_calls w @ stop_calls allowed cl @ concat (map (stop_calls allowed) cls) \<and> w_store w' = w_store w)"
    if "w_calls w1 = w_calls w @ stop_calls allowed cl" "w_store w1 = w_store w" for w1
    by (rule after_mono [OF Cons]) (use that in auto)
  show ?case
    by (simp, rule after_mono [OF after_stop_client])
      (auto split: prod.splits intro!: after_mono [OF tail] split: sum.splits)
qed simp

lemma killed_set_state: "after (set_state env p (Some True) reason) w (\<lambda>r w'. killed (w_store w'))"
  by (simp add: set_state_def killed_def key_defs bool_text_def)

lemma set_state_total: "after (set_state env p k reason) w (\<lambda>r w'. \<exists>x. r = Inr x)"
  by (cases k) (simp_all add: set_state_def)

lemma emergency_stop_calls:
  assumes "e_router env = Some r"
  shows "after (emergency_stop env reason) w (\<lambda>res w'. res = Inr () \<and>
    w_calls w' = w_calls w @
      (if close_allowed (e_settings env) then [Safety_flatten_mark (''emergency_stop:'' @ reason)] else []) @
      concat (map (stop_calls (close_allowed (e_settings env))) (all_clients r)))"
proof (cases "close_allowed (e_settings env)")
  case True
  then show ?thesis
    by (auto simp: assms emergency_stop_def Let_def mark_paper_safety_flatten_def split: option.splits prod.splits
        intro!: after_mono [OF after_stop_clients])
next
  case False
  then show ?thesis
    by (auto simp: assms emergency_stop_def Let_def split: prod.splits intro!: after_mono [OF after_stop_clients])
qed

text \<open>Operator and system calls that change the automation state, other than \<open>resume\<close>.\<close>

inductive automation_step :: "env \<Rightarrow> world \<Rightarrow> world \<Rightarrow> bool" for env where
  step_pause: "pause env reason w = (r, w') \<Longrightarrow> automation_step env w w'"
| step_kill: "enable_kill_switch env reason stop w = (r, w') \<Longrightarrow> automation_step env w w'"
| step_verified: "set_account_verified env b w = (u, w') \<Longrightarrow> automation_step env w w'"
| step_trip: "trip_circuit_breaker env reason stop w = (r, w') \<Longrightarrow> automation_step env w w'"
| step_clear: "clear_circuit_breaker env w = (r, w') \<Longrightarrow> automation_step env w w'"
| step_review: "approval_step env w w' \<Longrightarrow> automation_step env w w'"

inductive_cases automation_stepE: "automation_step env w w'"

lemma killed_approval_step: "approval_step env w w' \<Longrightarrow> killed (w_store w) \<Longrightarrow> killed (w_store w')"
proof (erule approval_stepE)
  fix pid d res
  assume "route_approve_proposal env pid d w = (res, w')" "killed (w_store w)"
  moreover have "keeps killed (route_approve_proposal env pid d)"
    unfolding route_approve_proposal_def by (intro keeps_intros kill.keeps_approvals)
  ultimately show "killed (w_store w')" by (blast intro: keepsD)
qed (auto dest: keepsD [OF kill.keeps_create_proposal] keepsD [OF kill.keeps_get_proposal]
    keepsD [OF kill.keeps_approve] keepsD [OF kill.keeps_reject])

lemma killed_automation_step: "automation_step env w w' \<Longrightarrow> killed (w_store w) \<Longrightarrow> killed (w_store w')"
  by (erule automation_stepE)
    (auto dest: keepsD [OF kill.keeps_pause] keepsD [OF kill.keeps_enable_kill_switch]
      keepsD [OF kill.keeps_set_account_verified] keepsD [OF kill.keeps_trip] keepsD [OF kill.keeps_clear]
      killed_approval_step)

subsection \<open>Properties\<close>

text \<open>
  C33: the kill switch stays on until \<open>resume\<close>. After \<open>enable_kill_switch\<close> or a tripped circuit
  breaker, no sequence of pauses, verifications, breaker trips and clears, or proposal reviews
  removes the kill-switch blocker from scanning and execution.
\<close>

theorem kill_switch_holds_until_resume:
  assumes "enable_kill_switch env reason stop w = (r, w1) \<or> trip_circuit_breaker env reason stop w = (r, w1)"
    and "(automation_step env)\<^sup>*\<^sup>* w1 w2"
  shows "(''automation_kill_switch_enabled'' \<in> set (scan_blockers (e_settings env) (w_store w2))) \<and>
    (''automation_kill_switch_enabled'' \<in> set (execution_blockers env now (w_store w2)))"
proof (rule conjI)
  have e: "after (enable_kill_switch env why stop) u (\<lambda>r w'. killed (w_store w'))" for u why
    unfolding enable_kill_switch_def Let_def after_bind
    by (rule after_mono [OF killed_set_state])
      (auto split: sum.splits intro!: afterI dest: keepsD [OF kill.keeps_emergency_stop])
  have "killed (w_store w1)"
    using assms(1) afterD [OF e] by (auto simp: trip_circuit_breaker_def bindP_def storeP_def)
  with assms(2) have "killed (w_store w2)"
    by (induction rule: rtranclp_induct) (auto intro: killed_automation_step)
  then show "''automation_kill_switch_enabled'' \<in> set (scan_blockers (e_settings env) (w_store w2))"
    "''automation_kill_switch_enabled'' \<in> set (execution_blockers env now (w_store w2))"
    by (simp_all add: execution_blockers_def scan_blockers_def Let_def killed_on)
qed

lemma demo_kill: "enable_kill_switch demo_env [] True (demo_world PENDING) =
    (fst (enable_kill_switch demo_env [] True (demo_world PENDING)), snd (enable_kill_switch demo_env [] True (demo_world PENDING)))"
  by simp

theorem kill_switch_holds_until_resume_witness:
  "''automation_kill_switch_enabled'' \<in> set (scan_blockers (e_settings demo_env)
     (w_store (snd (clear_circuit_breaker demo_env (snd (enable_kill_switch demo_env [] True (demo_world PENDING)))))))"
  by (rule kill_switch_holds_until_resume [THEN conjunct1, OF disjI1 [OF demo_kill]])
    (rule r_into_rtranclp, rule step_clear, rule prod.collapse [symmetric])

text \<open>
  a tripped circuit breaker outlives \<open>resume\<close>: execution stays blocked by its reason, the
  kill switch and the pause being lifted, until \<open>clear_circuit_breaker\<close> is called.
\<close>

theorem circuit_breaker_survives_resume:
  assumes "reason \<noteq> []" "trip_circuit_breaker env reason False w = (r1, w1)" "resume env why w1 = (r2, w2)"
    and "clear_circuit_breaker env w2 = (r3, w3)"
  shows "(''circuit_breaker:'' @ reason \<in> set (execution_blockers env now (w_store w2))) \<and>
    (runtime_get KILL_SWITCH_KEY (w_store w2) = Some ''false'' \<and> \<not> is_paused (e_settings env) (w_store w2)) \<and>
    (runtime_get CIRCUIT_REASON_KEY (w_store w3) = Some [])"
proof (rule conj3I)
  have "after (trip_circuit_breaker env reason False) w (\<lambda>r w'. runtime_get CIRCUIT_REASON_KEY (w_store w') = Some reason)"
    by (simp add: trip_circuit_breaker_def enable_kill_switch_def set_state_def key_defs Let_def)
  from afterD [OF this assms(2)] have one: "runtime_get CIRCUIT_REASON_KEY (w_store w1) = Some reason" .
  have "after (resume env why) w1 (\<lambda>r w'. runtime_get CIRCUIT_REASON_KEY (w_store w') = Some reason \<and>
      runtime_get KILL_SWITCH_KEY (w_store w') = Some ''false'' \<and> runtime_get PAUSED_KEY (w_store w') = Some ''false'')"
    using one by (simp add: resume_def set_state_def key_defs bool_text_def)
  from afterD [OF this assms(3)] have two: "runtime_get CIRCUIT_REASON_KEY (w_store w2) = Some reason"
    "runtime_get KILL_SWITCH_KEY (w_store w2) = Some ''false''" "runtime_get PAUSED_KEY (w_store w2) = Some ''false''"
    by auto
  show "''circuit_breaker:'' @ reason \<in> set (execution_blockers env now (w_store w2))"
    using assms(1) two by (simp add: execution_blockers_def or_empty_def Let_def)
  have "\<not> to_bool (Some ''false'')" by code_simp
  with two show "runtime_get KILL_SWITCH_KEY (w_store w2) = Some ''false'' \<and> \<not> is_paused (e_settings env) (w_store w2)"
    by (simp add: is_paused_def)
  have "after (clear_circuit_breaker env) w2 (\<lambda>r w'. runtime_get CIRCUIT_REASON_KEY (w_store w') = Some [])"
    by (simp add: clear_circuit_breaker_def)
  from afterD [OF this assms(4)] show "runtime_get CIRCUIT_REASON_KEY (w_store w3) = Some []" .
qed

theorem circuit_breaker_survives_resume_witness:
  "''circuit_breaker:'' @ ''x'' \<in> set (execution_blockers demo_env 0 (w_store (snd (resume demo_env []
     (snd (trip_circuit_breaker demo_env ''x'' False (demo_world PENDING)))))))"
  by (rule circuit_breaker_survives_resume [THEN conjunct1, of "''x''" demo_env "demo_world PENDING"])
    (simp_all add: prod_eq_iff)

text \<open>
  execution is unblocked exactly when every lock is open: no kill switch, no pause, no
  circuit breaker, the expected account verified, and in live mode approval required, real
  trading enabled, paper trading off, the readiness bar met, the micro-live risk cap active and
  at most 0.1%, and the operator's acknowledgement phrase set.
\<close>

theorem execution_unblocked_iff_all_locks_open:
  "execution_blockers env now st = [] \<longleftrightarrow>
     \<not> kill_switch_on (e_settings env) st \<and> \<not> is_paused (e_settings env) st \<and>
     or_empty (runtime_get CIRCUIT_REASON_KEY st) = [] \<and>
     (alpaca_effective_expected_account_number (e_settings env) = [] \<or> to_bool (runtime_get ACCOUNT_VERIFIED_KEY st)) \<and>
     (exec_mode (e_settings env) = Mode_paper \<or>
      require_approval (e_settings env) \<and> enable_real_trading (e_settings env) \<and> \<not> paper_trading_enabled (e_settings env) \<and>
      e_readiness env now (st_runtime st) \<and> institutional_portfolio_controls_enabled (e_settings env) \<and>
      portfolio_micro_live_max_risk_per_trade_pct (e_settings env) \<le> 1/10 \<and>
      portfolio_micro_live_max_risk_per_trade_pct (e_settings env) \<noteq> 0 \<and>
      live_operator_acknowledgement (e_settings env) = LIVE_OPERATOR_ACKNOWLEDGEMENT)"
  by (cases "exec_mode (e_settings env)")
    (auto simp: execution_blockers_def scan_blockers_def live_mode_blockers_def go_live_guard_blockers_def Let_def)

text \<open>
  C34: the emergency stop reaches every broker. Whatever the brokers answer, it ends without an
  exception after asking each client of the router, in order, to cancel all its orders and,
  unless live positions are protected by configuration, to close all its positions; in live
  mode without auto-close no position is closed.
\<close>

theorem emergency_stop_reaches_every_client:
  assumes "e_router env = Some r" "emergency_stop env reason w = (res, w')"
  shows "(res = Inr ()) \<and>
    (\<forall>cl \<in> set (all_clients r). cl_cancel_all_orders cl \<longrightarrow> Cancel_all_orders (cl_id cl) \<in> set (drop (length (w_calls w)) (w_calls w'))) \<and>
    (\<forall>cl \<in> set (all_clients r). cl_close_all_positions cl \<and> close_allowed (e_settings env) \<longrightarrow>
           Close_all_positions (cl_id cl) \<in> set (drop (length (w_calls w)) (w_calls w'))) \<and>
    (exec_mode (e_settings env) = Mode_live \<and> \<not> kill_switch_auto_close_positions (e_settings env) \<longrightarrow>
           (\<forall>c \<in> set (drop (length (w_calls w)) (w_calls w')). \<forall>x. c \<noteq> Close_all_positions x))"
proof (rule conj4I)
  from afterD [OF emergency_stop_calls [OF assms(1)] assms(2)]
  have res: "res = Inr ()" and calls: "drop (length (w_calls w)) (w_calls w') =
      (if close_allowed (e_settings env) then [Safety_flatten_mark (''emergency_stop:'' @ reason)] else []) @
      concat (map (stop_calls (close_allowed (e_settings env))) (all_clients r))" by auto
  show "res = Inr ()" by (rule res)
  show "\<forall>cl \<in> set (all_clients r). cl_cancel_all_orders cl \<longrightarrow> Cancel_all_orders (cl_id cl) \<in> set (drop (length (w_calls w)) (w_calls w'))"
    unfolding calls by (auto simp: stop_calls_def)
  show "\<forall>cl \<in> set (all_clients r). cl_close_all_positions cl \<and> close_allowed (e_settings env) \<longrightarrow>
      Close_all_positions (cl_id cl) \<in> set (drop (length (w_calls w)) (w_calls w'))"
    unfolding calls by (auto simp: stop_calls_def)
  show "exec_mode (e_settings env) = Mode_live \<and> \<not> kill_switch_auto_close_positions (e_settings env) \<longrightarrow>
      (\<forall>c \<in> set (drop (length (w_calls w)) (w_calls w')). \<forall>x. c \<noteq> Close_all_positions x)"
    unfolding calls by (auto simp: stop_calls_def close_allowed_def)
qed

theorem emergency_stop_reaches_every_client_witness:
  "fst (emergency_stop (demo_env\<lparr>e_count := (\<lambda>t. Inl (BrokerError ''down''))\<rparr>) ''drill'' (demo_world PENDING)) = Inr ()"
proof -
  have r: "e_router (demo_env\<lparr>e_count := (\<lambda>t. Inl (BrokerError ''down''))\<rparr>) = Some (the (e_router demo_env))"
    by (simp add: demo_env_def)
  show ?thesis by (rule emergency_stop_reaches_every_client [THEN conjunct1, OF r prod.collapse [symmetric]])
qed

text \<open>
  creating proposals is not gated by the runtime kill switch. The start checklist says new
  proposals are blocked while the kill switch is on; \<open>create_proposal\<close> itself never reads it, and
  a proposal is stored with the switch on.
\<close>

theorem proposals_created_while_killed:
  "\<exists>env w r p w'. killed (w_store w) \<and> \<not> kill_switch_enabled (e_settings env) \<and>
     create_proposal env r w = (Inr p, w') \<and> p \<in> set (st_proposals (w_store w'))"
proof -
  let ?w = "start_world (runtime_set KILL_SWITCH_KEY ''true'' empty_store)"
  have c: "fst (create_proposal demo_env demo_request ?w) = Inr demo_created \<and>
      st_proposals (w_store (snd (create_proposal demo_env demo_request ?w))) = [demo_created]"
    by code_simp
  then have "create_proposal demo_env demo_request ?w = (Inr demo_created, snd (create_proposal demo_env demo_request ?w))"
    by (metis prod.collapse)
  moreover have "killed (w_store ?w)" "\<not> kill_switch_enabled (e_settings demo_env)"
    by (simp_all add: killed_def demo_env_def default_settings_def)
  moreover have "demo_created \<in> set (st_proposals (w_store (snd (create_proposal demo_env demo_request ?w))))"
    using c by simp
  ultimately show ?thesis by blast
qed

end
