(* ===== verification/Paper.thy ===== *)
theory Paper
  imports Approvals
begin

text \<open>
  The simulated paper ledger (src/app/paper/service.py): opening a position from an approved
  proposal at a slipped fill, marking and closing open positions on a quote, and the
  accounting of a close. The mirroring of broker fills is an argument of the refresh.
\<close>

text \<open>The optional signal snapshot, as \<open>open_from_approved_proposal\<close> reads it.\<close>

record signal_snapshot =
  snap_metadata :: pydict
  snap_targets :: "pyfloat list"
  snap_timeframe :: string
  snap_dump :: pydict

definition apply_slippage :: "app_settings \<Rightarrow> pyfloat \<Rightarrow> string \<Rightarrow> pyfloat" where
  "apply_slippage s price side =
     (let slippage = price * (paper_slippage_bps s / 10000) in
      py_round 4 (if side = ''buy'' then price + slippage else price - slippage))"

definition pnl_usd :: "paper_position \<Rightarrow> pyfloat \<Rightarrow> pyfloat" where
  "pnl_usd p price = (if pp_side p = ''sell'' then (pp_entry_price p - price) * pp_quantity p
     else (price - pp_entry_price p) * pp_quantity p)"

definition realized_r_multiple :: "paper_position \<Rightarrow> pyfloat \<Rightarrow> pyfloat" where
  "realized_r_multiple p price = (case pp_stop_loss p of None \<Rightarrow> 0
     | Some stop \<Rightarrow> let unit_risk = \<bar>pp_entry_price p - stop\<bar> in
         if unit_risk \<le> 0 then 0
         else if pp_side p = ''sell'' then py_round 3 ((pp_entry_price p - price) / unit_risk)
         else py_round 3 ((price - pp_entry_price p) / unit_risk))"

definition paper_only_tags :: "pydict \<Rightarrow> pydict" where
  "paper_only_tags metadata = (if \<not> is_paper_only metadata then []
     else [(PAPER_ONLY_FIELD, PBool True), (''paper_only_reason'', dict_get metadata ''paper_only_reason'')])"

text \<open>\<open>str(v or default)\<close> on an optional text.\<close>

definition text_or :: "pyval \<Rightarrow> string \<Rightarrow> string" where
  "text_or v d = (if str_or_empty v = [] then d else str_or_empty v)"

definition opt_or :: "string option \<Rightarrow> string \<Rightarrow> string" where
  "opt_or v d = (case v of None \<Rightarrow> d | Some x \<Rightarrow> if x = [] then d else x)"

definition new_position ::
  "env \<Rightarrow> string \<Rightarrow> time \<Rightarrow> trade_proposal \<Rightarrow> market_quote \<Rightarrow> signal_snapshot option \<Rightarrow> paper_position" where
  "new_position env pid now p qt snap =
     (let o1 = prop_order p; side = side_value (ord_side o1);
          quote_price = quote_price_or qt (ord_proposed_price o1);
          fill_price = apply_slippage (e_settings env) quote_price side;
          metadata = (case snap of None \<Rightarrow> [] | Some sn \<Rightarrow> snap_metadata sn);
          targets = (case snap of None \<Rightarrow> [] | Some sn \<Rightarrow> snap_targets sn);
          trade_plan = as_dict (dict_get metadata ''trade_plan'')
      in \<lparr>pp_id = pid, pp_proposal_id = Some (prop_id p), pp_signal_id = map_option sig_id (prop_signal p),
          pp_symbol = py_upper (ord_symbol o1),
          pp_strategy_name = opt_or (ord_strategy_name o1) (text_or (dict_get metadata ''strategy_name'') ''manual''),
          pp_timeframe = text_or (dict_get metadata ''timeframe'') (case snap of None \<Rightarrow> ''1d'' | Some sn \<Rightarrow> snap_timeframe sn),
          pp_side = side, pp_regime_label = Some (str_or_empty (dict_get metadata ''market_regime_label'')),
          pp_hold_style = Some (text_or (dict_get trade_plan ''hold_style'') ''swing''),
          pp_status = ''open'', pp_quantity = py_round 6 (ord_amount_usd o1 / max fill_price (1/100)),
          pp_entry_price = fill_price, pp_current_price = fill_price, pp_stop_loss = ord_stop_loss o1,
          pp_target_1 = (if targets = [] then ord_take_profit o1 else Some (targets ! 0)),
          pp_target_2 = (if 1 < length targets then Some (targets ! 1) else None),
          pp_target_3 = (if 2 < length targets then Some (targets ! 2) else None),
          pp_opened_at = now, pp_updated_at = now, pp_closed_at = None,
          pp_realized_pnl_usd = 0, pp_unrealized_pnl_usd = 0,
          pp_payload = [(''risk_reward_ratio'', py_or (dict_get metadata ''risk_reward_ratio'') (dict_get metadata ''estimated_reward_to_risk'')),
            (''signal_snapshot'', case snap of None \<Rightarrow> PNone | Some sn \<Rightarrow> PDict (snap_dump sn)),
            (''quote_price'', PFloat quote_price),
            (''quote_timestamp'', case mq_timestamp qt of None \<Rightarrow> PNone | Some t \<Rightarrow> PTime t)] @
            paper_only_tags (ord_metadata o1)\<rparr>)"

definition open_from_approved_proposal ::
  "env \<Rightarrow> trade_proposal \<Rightarrow> market_quote \<Rightarrow> signal_snapshot option \<Rightarrow> paper_position prog" where
  "open_from_approved_proposal env p qt snap =
     bindP (generate_id env ''paperpos'') (\<lambda>pid.
     bindP (utc_now env) (\<lambda>now.
     let record = new_position env pid now p qt snap in
     bindP (tryStoreP (\<lambda>st. with_unit (position_create_row record st))) (\<lambda>_.
     bindP (logP env ''paper_position_opened'' [(''proposal_id'', PStr (prop_id p)), (''symbol'', PStr (pp_symbol record)),
       (''entry_price'', PFloat (pp_entry_price record)), (''quantity'', PFloat (pp_quantity record)),
       (''timeframe'', PStr (pp_timeframe record))]) (\<lambda>_.
     returnP record))))"

definition is_broker_backed :: "paper_position \<Rightarrow> bool" where
  "is_broker_backed p = (str_or_empty (dict_get (pp_payload p) ''ledger_source'') = ''alpaca_paper'')"

text \<open>The exit of a simulated position on a price: stop first, then the targets in order, then time.\<close>

definition stop_hit :: "paper_position \<Rightarrow> pyfloat \<Rightarrow> bool" where
  "stop_hit p price = (case pp_stop_loss p of None \<Rightarrow> False
     | Some stop \<Rightarrow> if pp_side p = ''sell'' then stop \<le> price else price \<le> stop)"

definition target_hit :: "paper_position \<Rightarrow> pyfloat \<Rightarrow> pyfloat option \<Rightarrow> bool" where
  "target_hit p price target = (case target of None \<Rightarrow> False
     | Some t \<Rightarrow> if pp_side p = ''sell'' then price \<le> t else t \<le> price)"

definition timed_out :: "app_settings \<Rightarrow> time \<Rightarrow> paper_position \<Rightarrow> bool" where
  "timed_out s now p =
     (pp_timeframe p = ''1m'' \<and> pp_opened_at p + paper_max_hold_minutes_scalp s * minute_us \<le> now \<or>
      pp_timeframe p \<in> {''5m'', ''15m''} \<and> pp_opened_at p + paper_max_hold_minutes_intraday s * minute_us \<le> now \<or>
      pp_timeframe p \<in> {''10m'', ''1h'', ''1d'', ''1w''} \<and> pp_opened_at p + paper_max_hold_days_swing s * day_us \<le> now)"

definition close_outcome :: "app_settings \<Rightarrow> time \<Rightarrow> paper_position \<Rightarrow> pyfloat \<Rightarrow> string option" where
  "close_outcome s now p price =
     (if stop_hit p price then Some ''stop_loss''
      else if target_hit p price (pp_target_1 p) then Some ''target_1''
      else if target_hit p price (pp_target_2 p) then Some ''target_2''
      else if target_hit p price (pp_target_3 p) then Some ''target_3''
      else if timed_out s now p then Some ''timed_exit'' else None)"

definition closed_position :: "paper_position \<Rightarrow> pyfloat \<Rightarrow> time \<Rightarrow> paper_position" where
  "closed_position p exit_price closed_at = p\<lparr>pp_status := ''closed'', pp_closed_at := Some closed_at,
     pp_updated_at := closed_at, pp_current_price := exit_price,
     pp_realized_pnl_usd := py_round 2 (pnl_usd p exit_price), pp_unrealized_pnl_usd := 0\<rparr>"

definition trade_of :: "string \<Rightarrow> paper_position \<Rightarrow> pyfloat \<Rightarrow> string \<Rightarrow> time \<Rightarrow> paper_trade" where
  "trade_of tid p exit_price outcome closed_at =
     (let realized = py_round 2 (pnl_usd p exit_price) in
      \<lparr>pt_id = tid, pt_position_id = pp_id p, pt_proposal_id = pp_proposal_id p, pt_signal_id = pp_signal_id p,
       pt_symbol = pp_symbol p, pt_strategy_name = pp_strategy_name p, pt_timeframe = pp_timeframe p,
       pt_side = pp_side p, pt_regime_label = pp_regime_label p, pt_hold_style = pp_hold_style p,
       pt_outcome = outcome, pt_entry_price = pp_entry_price p, pt_exit_price = exit_price,
       pt_quantity = pp_quantity p, pt_realized_pnl_usd = realized,
       pt_realized_pnl_pct = py_round 2 (realized / max (pp_entry_price p * pp_quantity p) (1/100) * 100),
       pt_opened_at = pp_opened_at p, pt_closed_at = closed_at,
       pt_payload = AList.update ''realized_r_multiple'' (PFloat (realized_r_multiple p exit_price)) (pp_payload p)\<rparr>)"

definition close_position :: "env \<Rightarrow> paper_position \<Rightarrow> pyfloat \<Rightarrow> string \<Rightarrow> time option \<Rightarrow> paper_trade prog" where
  "close_position env p exit_price outcome closed_at =
     bindP (utc_now env) (\<lambda>now.
     let stamp = (case closed_at of None \<Rightarrow> now | Some t \<Rightarrow> t) in
     bindP (storeP (position_update (closed_position p exit_price stamp))) (\<lambda>_.
     bindP (generate_id env ''papertrade'') (\<lambda>tid.
     let trade = trade_of tid p exit_price outcome stamp in
     bindP (tryStoreP (\<lambda>st. with_unit (trade_create_row trade st))) (\<lambda>_.
     bindP (logP env ''paper_position_closed'' [(''position_id'', PStr (pp_id p)), (''symbol'', PStr (pp_symbol p)),
       (''outcome'', PStr outcome), (''realized_pnl_usd'', PFloat (pt_realized_pnl_usd trade))]) (\<lambda>_.
     returnP trade)))))"

text \<open>One position of the refresh: mark to market, then close if an exit applies; 1 if closed.\<close>

definition marked :: "paper_position \<Rightarrow> pyfloat \<Rightarrow> time \<Rightarrow> paper_position" where
  "marked p price now = p\<lparr>pp_current_price := price, pp_updated_at := now,
     pp_unrealized_pnl_usd := py_round 2 (pnl_usd p price)\<rparr>"

definition refresh_position :: "env \<Rightarrow> paper_position \<Rightarrow> int prog" where
  "refresh_position env p =
     bindP (extP (Get_quote (pp_symbol p) (pp_timeframe p) None) (e_quote env)) (\<lambda>qt.
     bindP (utc_now env) (\<lambda>now.
     let price = quote_price_or qt (pp_current_price p); p' = marked p price now;
         outcome = (if is_broker_backed p' then None else close_outcome (e_settings env) now p' price) in
     case outcome of
       None \<Rightarrow> bindP (storeP (position_update p')) (\<lambda>_. returnP 0)
     | Some x \<Rightarrow> bindP (close_position env p' price x None) (\<lambda>_. returnP 1)))"

fun refresh_positions :: "env \<Rightarrow> paper_position list \<Rightarrow> int prog" where
  "refresh_positions env [] = returnP 0"
| "refresh_positions env (p # ps) =
     bindP (refresh_position env p) (\<lambda>n. bindP (refresh_positions env ps) (\<lambda>m. returnP (n + m)))"

text \<open>The result: checked, closed, opened and closed by the broker mirror.\<close>

definition refresh_open_positions :: "env \<Rightarrow> (int \<times> int) prog \<Rightarrow> (int \<times> int \<times> int \<times> int) prog" where
  "refresh_open_positions env sync =
     bindP (catchP sync (\<lambda>e. bindP (logP env ''paper_broker_ledger_sync_failed'' [(''error'', PStr (exn_str e))])
       (\<lambda>_. returnP (0, 0)))) (\<lambda>(opened, broker_closed).
     bindP (readP (position_list (Some ''open'') 500)) (\<lambda>open_positions.
     bindP (refresh_positions env open_positions) (\<lambda>closed.
     returnP (int (length open_positions), closed, opened, broker_closed))))"

subsection \<open>Lemmas\<close>

context repository_invariant
begin

lemma keeps_open: "keeps I (open_from_approved_proposal env p qt snap)"
  unfolding open_from_approved_proposal_def Let_def by (intro keeps_intros keeps_ops)

lemma keeps_close: "keeps I (close_position env p x o1 t)"
  unfolding close_position_def Let_def by (intro keeps_intros keeps_ops)

lemma keeps_refresh_position: "keeps I (refresh_position env p)"
  unfolding refresh_position_def Let_def by (intro keeps_intros keeps_ops keeps_close)

lemma keeps_refresh_positions: "keeps I (refresh_positions env ps)"
  by (induction ps) (auto intro!: keeps_intros keeps_refresh_position)

end

lemma calls_open [calls_intros]: "(\<And>x. \<not> P (Gen_id x)) \<Longrightarrow> at_most P n (open_from_approved_proposal env p qt snap)"
  unfolding open_from_approved_proposal_def Let_def by (intro calls_intros)

subsection \<open>The ledger invariant\<close>

text \<open>
  Every closed trade belongs to one closed position with the same result and closing time, and
  no position has two trades.
\<close>

definition trade_matches :: "paper_trade \<Rightarrow> paper_position \<Rightarrow> bool" where
  "trade_matches t p \<longleftrightarrow> pp_id p = pt_position_id t \<and> pp_status p = ''closed'' \<and>
     pp_realized_pnl_usd p = pt_realized_pnl_usd t \<and> pp_closed_at p = Some (pt_closed_at t)"

definition ledger_ok :: "store \<Rightarrow> bool" where
  "ledger_ok st \<longleftrightarrow> distinct (map pp_id (st_positions st)) \<and> distinct (map pt_position_id (st_trades st)) \<and>
     (\<forall>t \<in> set (st_trades st). \<exists>p \<in> set (st_positions st). trade_matches t p)"

definition is_open :: "string \<Rightarrow> store \<Rightarrow> bool" where
  "is_open pid st \<longleftrightarrow> (\<exists>p. position_get pid st = Some p \<and> pp_status p = ''open'')"

lemma ledger_ok_frame: "st_positions st' = st_positions st \<Longrightarrow> st_trades st' = st_trades st \<Longrightarrow> ledger_ok st' = ledger_ok st"
  by (simp add: ledger_ok_def)

lemma ledger_ok_log [simp]: "ledger_ok (log_run t e d st) = ledger_ok st"
  by (simp add: ledger_ok_def)

lemma position_get_log [simp]: "position_get pid (log_run t e d st) = position_get pid st"
  by (simp add: position_get_def)

lemma position_get_update:
  "position_get pid (position_update p st) =
     (if pid = pp_id p then map_option (position_merge p) (position_get pid st) else position_get pid st)"
  by (simp add: position_get_def position_update_def positions.get_update)

lemma position_get_in: "position_get pid st = Some p \<Longrightarrow> p \<in> set (st_positions st) \<and> pp_id p = pid"
  by (simp add: position_get_def positions.get_in positions.get_key)

lemma ledger_open_untraded:
  assumes "ledger_ok st" "is_open pid st" "t \<in> set (st_trades st)"
  shows "pt_position_id t \<noteq> pid"
proof
  assume "pt_position_id t = pid"
  with assms obtain p q where "p \<in> set (st_positions st)" "pp_id p = pid" "pp_status p = ''closed''"
    "q \<in> set (st_positions st)" "pp_id q = pid" "pp_status q = ''open''"
    by (fastforce simp: ledger_ok_def trade_matches_def is_open_def dest: position_get_in)
  with assms(1) show False by (auto simp: ledger_ok_def distinct_map inj_on_def)
qed

lemma ledger_update:
  assumes "ledger_ok st" "is_open (pp_id p) st"
  shows "ledger_ok (position_update p st)"
proof -
  have "\<exists>q \<in> set (st_positions (position_update p st)). trade_matches t q" if t: "t \<in> set (st_trades st)" for t
  proof -
    from assms(1) t obtain q where q: "q \<in> set (st_positions st)" "trade_matches t q" by (auto simp: ledger_ok_def)
    with ledger_open_untraded [OF assms t] have "pp_id q \<noteq> pp_id p" by (simp add: trade_matches_def)
    with q show ?thesis by (force simp: position_update_def row_update_def)
  qed
  with assms(1) show ?thesis by (simp add: ledger_ok_def position_update_def positions.keys_update)
qed

lemma ledger_close:
  assumes "ledger_ok st" "position_get (pp_id p) st = Some p0" "pp_status p0 = ''open''"
    and "trade_create_row (trade_of tid p x outcome t) (position_update (closed_position p x t) st) = Inr st'"
  shows "ledger_ok st'"
proof -
  let ?c = "closed_position p x t" and ?tr = "trade_of tid p x outcome t"
  have id: "pp_id ?c = pp_id p" by (simp add: closed_position_def)
  have op: "is_open (pp_id ?c) st" using assms(2,3) id by (auto simp: is_open_def)
  have ok: "ledger_ok (position_update ?c st)" by (rule ledger_update [OF assms(1) op])
  have "position_get (pp_id p) (position_update ?c st) = Some (position_merge ?c p0)"
    using assms(2) id by (simp add: position_get_update)
  then have "position_merge ?c p0 \<in> set (st_positions (position_update ?c st))" by (auto dest: position_get_in)
  moreover have "trade_matches ?tr (position_merge ?c p0)"
    using position_get_in [OF assms(2)]
    by (simp add: trade_matches_def trade_of_def closed_position_def position_merge_def Let_def)
  moreover have "pt_position_id ?tr \<notin> pt_position_id ` set (st_trades st)"
    using ledger_open_untraded [OF assms(1) op] id by (simp add: trade_of_def Let_def image_iff) metis
  moreover have "st' = (position_update ?c st)\<lparr>st_trades := st_trades st @ [?tr]\<rparr>"
    using assms(4) by (auto simp: trade_create_row_def position_update_def split: if_splits)
  ultimately show ?thesis using ok by (auto simp: ledger_ok_def position_update_def)
qed

lemma ledger_open_new:
  assumes "ledger_ok st" "position_create_row p st = Inr st'"
  shows "ledger_ok st'"
  using assms by (auto simp: ledger_ok_def position_create_row_def split: if_splits)

lemma position_get_trade_create:
  "trade_create_row t st = Inr st' \<Longrightarrow> position_get pid st' = position_get pid st"
  by (auto simp: trade_create_row_def position_get_def split: if_splits)

text \<open>One position of the refresh keeps the ledger and touches no other position.\<close>

lemma close_position_ledger:
  assumes "ledger_ok (w_store w)" "position_get (pp_id p) (w_store w) = Some p0" "pp_status p0 = ''open''"
  shows "after (close_position env p x outcome None) w (\<lambda>r w'. ledger_ok (w_store w') \<and>
    (\<forall>j. j \<noteq> pp_id p \<longrightarrow> position_get j (w_store w') = position_get j (w_store w)))"
proof -
  have op: "is_open (pp_id (closed_position p x t)) (w_store w)" for t
    using assms(2,3) by (auto simp: is_open_def closed_position_def)
  have "pp_id (closed_position p x t) = pp_id p" for t by (simp add: closed_position_def)
  with ledger_close [OF assms] ledger_update [OF assms(1) op] show ?thesis
    by (auto simp: close_position_def Let_def generate_id_def after_def tryStoreP_def with_unit_def position_get_update
        position_get_trade_create bindP_def utc_now_def storeP_def extP_def logP_def returnP_def split: sum.splits)
qed

lemma refresh_position_ledger:
  assumes "ledger_ok (w_store w)" "position_get (pp_id p) (w_store w) = Some p0" "pp_status p0 = ''open''"
  shows "after (refresh_position env p) w (\<lambda>r w'. ledger_ok (w_store w') \<and>
    (\<forall>j. j \<noteq> pp_id p \<longrightarrow> position_get j (w_store w') = position_get j (w_store w)))"
proof -
  have id: "pp_id (marked p x t) = pp_id p" for x t by (simp add: marked_def)
  have op: "is_open (pp_id (marked p x t)) (w_store w)" for x t using assms(2,3) id by (auto simp: is_open_def)
  have close: "after (close_position env (marked p x t) x o1 None) (w\<lparr>w_calls := cs\<rparr>)
      (\<lambda>r w'. ledger_ok (w_store w') \<and> (\<forall>j. j \<noteq> pp_id p \<longrightarrow> position_get j (w_store w') = position_get j (w_store w)))" for x t o1 cs
    using close_position_ledger [of "w\<lparr>w_calls := cs\<rparr>" "marked p x t" p0] assms by (simp add: id)
  show ?thesis
    using ledger_update [OF assms(1) op] assms(1)
    by (auto simp: refresh_position_def Let_def position_get_update id split: sum.splits option.splits
        intro!: after_mono [OF close])
qed

lemma refresh_positions_ledger:
  assumes "ledger_ok (w_store w)" "distinct (map pp_id ps)" "\<forall>p \<in> set ps. is_open (pp_id p) (w_store w)"
  shows "after (refresh_positions env ps) w (\<lambda>r w'. ledger_ok (w_store w'))"
  using assms
proof (induction ps arbitrary: w)
  case (Cons p ps)
  from Cons.prems obtain p0 where p0: "position_get (pp_id p) (w_store w) = Some p0" "pp_status p0 = ''open''"
    by (auto simp: is_open_def)
  have rest: "after (refresh_positions env ps) w1 (\<lambda>r w'. ledger_ok (w_store w'))"
    if "ledger_ok (w_store w1)" "\<forall>j. j \<noteq> pp_id p \<longrightarrow> position_get j (w_store w1) = position_get j (w_store w)" for w1
  proof (rule Cons.IH)
    have "pp_id q \<noteq> pp_id p" if "q \<in> set ps" for q using that Cons.prems(2) by (metis distinct.simps(2) imageI list.set_map list.simps(9))
    with that Cons.prems(3) show "\<forall>q \<in> set ps. is_open (pp_id q) (w_store w1)" by (simp add: is_open_def)
  qed (use Cons.prems that in simp_all)
  show ?case
    unfolding refresh_positions.simps
    by (rule after_bindI [OF refresh_position_ledger [OF Cons.prems(1) p0]], simp,
        rule after_bindI [OF rest]) auto
qed simp

lemma position_list_open:
  assumes "ledger_ok st" "p \<in> set (position_list (Some ''open'') n st)"
  shows "is_open (pp_id p) st"
proof -
  have p: "p \<in> set (st_positions st)" "pp_status p = ''open''"
    using assms(2) by (auto simp: position_list_def dest!: in_set_takeD)
  have "\<exists>q. position_get (pp_id p) st = Some q"
    using p(1) by (metis position_get_def positions.get_None_iff image_eqI option.exhaust)
  then obtain q where q: "position_get (pp_id p) st = Some q" by blast
  with p assms(1) have "q = p" using position_get_in [OF q] by (auto simp: ledger_ok_def distinct_map inj_on_def)
  with q p show ?thesis by (simp add: is_open_def)
qed

lemma position_list_distinct:
  assumes "ledger_ok st"
  shows "distinct (map pp_id (position_list s n st))"
proof -
  have "distinct (map pp_id (newest_first pp_updated_at rows))" if "distinct (map pp_id rows)" for rows
    using that by (simp add: newest_first_def distinct_map inj_on_def)
  moreover have "distinct (map pp_id (filter P (st_positions st)))" for P
    using assms by (simp add: ledger_ok_def distinct_map inj_on_def)
  ultimately show ?thesis
    using assms by (auto simp: position_list_def ledger_ok_def take_map [symmetric] intro: distinct_take split: option.splits)
qed

subsection \<open>Properties\<close>

text \<open>
  A refresh keeps the ledger consistent if the mirror of the broker's fills does; opening a
  position keeps it anyway.
\<close>

lemma refresh_ledger:
  assumes "ledger_ok (w_store w)" "keeps ledger_ok sync" "refresh_open_positions env sync w = (r, w')"
  shows "ledger_ok (w_store w')"
proof -
  have "after (refresh_open_positions env sync) w (\<lambda>r w'. ledger_ok (w_store w'))"
    unfolding refresh_open_positions_def
  proof (rule after_bindI)
    have log: "keeps ledger_ok (logP env x d)" for x d
      unfolding logP_def by (intro keeps_intros keeps_store) simp
    have "keeps ledger_ok (catchP sync (\<lambda>e. bindP (logP env ''paper_broker_ledger_sync_failed'' [(''error'', PStr (exn_str e))])
       (\<lambda>_. returnP (0, 0))))"
      by (intro keeps_intros assms(2) log)
    then show "after (catchP sync (\<lambda>e. bindP (logP env ''paper_broker_ledger_sync_failed'' [(''error'', PStr (exn_str e))])
       (\<lambda>_. returnP (0, 0)))) w (\<lambda>r w'. ledger_ok (w_store w'))"
      using assms(1) by (intro afterI) (rule keepsD)
    fix x :: "int \<times> int" and w1 :: world
    assume ok: "ledger_ok (w_store w1)"
    have "after (refresh_positions env (position_list (Some ''open'') 500 (w_store w1))) w1 (\<lambda>r w'. ledger_ok (w_store w'))"
      using ok by (intro refresh_positions_ledger position_list_distinct ballI position_list_open)
    then show "after (case x of (opened, broker_closed) \<Rightarrow>
        bindP (readP (position_list (Some ''open'') 500)) (\<lambda>open_positions.
        bindP (refresh_positions env open_positions) (\<lambda>closed.
        returnP (int (length open_positions), closed, opened, broker_closed)))) w1 (\<lambda>r w'. ledger_ok (w_store w'))"
      by (cases x, simp only: prod.case after_bind [of "readP _"] after_read sum.case) (erule after_bindI, simp_all)
  qed simp
  from afterD [OF this assms(3)] show ?thesis .
qed

lemma keeps_ledger_open: "keeps ledger_ok (open_from_approved_proposal env p qt snap)"
proof -
  have "keeps ledger_ok (logP env x d)" for x d unfolding logP_def by (intro keeps_intros keeps_store) simp
  moreover have "keeps ledger_ok (tryStoreP (\<lambda>st. with_unit (position_create_row q st)))" for q
    by (rule keeps_tryStore) (auto simp: with_unit_def intro: ledger_open_new split: sum.splits)
  ultimately show ?thesis
    unfolding open_from_approved_proposal_def Let_def by (intro keeps_intros)
qed

text \<open>
  exits are decided as documented. For a long position with its stop below and its target
  above the entry, a stop-loss exit is booked only at or below the stop and never as a gain, a
  target exit only at or above that target and never as a loss, the stop is decided first, and
  a booked result differs from the exact one by at most half a cent.
\<close>

theorem long_exit_outcomes:
  assumes "close_outcome s now p price = Some outcome" "pp_side p = ''buy''" "0 \<le> pp_quantity p"
    and "pp_stop_loss p = Some stop" "stop \<le> pp_entry_price p"
    and "pp_target_1 p = Some t1" "pp_entry_price p \<le> t1" "pp_target_2 p = None" "pp_target_3 p = None"
  shows "(outcome = ''stop_loss'' \<longleftrightarrow> price \<le> stop) \<and>
    (price \<le> stop \<longrightarrow> pt_realized_pnl_usd (trade_of tid p price outcome t) \<le> 0) \<and>
    (outcome = ''target_1'' \<longrightarrow> t1 \<le> price \<and> 0 \<le> pt_realized_pnl_usd (trade_of tid p price outcome t)) \<and>
    (\<bar>pt_realized_pnl_usd (trade_of tid p price outcome t) - pnl_usd p price\<bar> \<le> 1/200)"
proof (rule conj4I)
  have pnl: "pnl_usd p price = (price - pp_entry_price p) * pp_quantity p" by (simp add: pnl_usd_def assms(2))
  show one: "outcome = ''stop_loss'' \<longleftrightarrow> price \<le> stop"
    using assms by (auto simp: close_outcome_def stop_hit_def split: if_splits)
  show "price \<le> stop \<longrightarrow> pt_realized_pnl_usd (trade_of tid p price outcome t) \<le> 0"
  proof
    assume "price \<le> stop"
    with assms have "pnl_usd p price \<le> 0" by (simp add: pnl mult_nonpos_nonneg)
    then show "pt_realized_pnl_usd (trade_of tid p price outcome t) \<le> 0"
      using py_round_mono [of "pnl_usd p price" 0 2] by (simp add: trade_of_def Let_def)
  qed
  show "outcome = ''target_1'' \<longrightarrow> t1 \<le> price \<and> 0 \<le> pt_realized_pnl_usd (trade_of tid p price outcome t)"
  proof
    assume o: "outcome = ''target_1''"
    with assms have "t1 \<le> price" by (auto simp: close_outcome_def target_hit_def split: if_splits)
    with assms have "0 \<le> pnl_usd p price" by (simp add: pnl)
    with \<open>t1 \<le> price\<close> show "t1 \<le> price \<and> 0 \<le> pt_realized_pnl_usd (trade_of tid p price outcome t)"
      by (simp add: trade_of_def Let_def py_round_nonneg)
  qed
  show "\<bar>pt_realized_pnl_usd (trade_of tid p price outcome t) - pnl_usd p price\<bar> \<le> 1/200"
    using py_round_error [of 2 "pnl_usd p price"] by (simp add: trade_of_def Let_def)
qed

definition demo_paper :: paper_position where
  "demo_paper = new_position demo_env ''paperpos_1'' 0 (demo_proposal APPROVED) demo_quote None"

theorem long_exit_outcomes_witness:
  "\<bar>pt_realized_pnl_usd (trade_of ''t'' demo_paper 97 ''stop_loss'' 5) - pnl_usd demo_paper 97\<bar> \<le> 1/200"
proof -
  have c: "close_outcome default_settings 5 demo_paper 97 = Some ''stop_loss''" by code_simp
  have f: "pp_side demo_paper = ''buy'' \<and> 0 \<le> pp_quantity demo_paper \<and> pp_stop_loss demo_paper = Some 98 \<and>
      98 \<le> pp_entry_price demo_paper \<and> pp_target_1 demo_paper = Some 104 \<and> pp_entry_price demo_paper \<le> 104 \<and>
      pp_target_2 demo_paper = None \<and> pp_target_3 demo_paper = None" by code_simp
  show ?thesis by (rule long_exit_outcomes [THEN conjunct2, THEN conjunct2, THEN conjunct2, OF c]) (use f in blast)+
qed

text \<open>
  a position opened without a signal snapshot is always a daily one. The execution
  coordinator passes none, so every simulated position gets the timeframe \<open>1d\<close>, whatever the
  timeframe of its proposal, and the scalp and intraday holding limits never apply to it: it is
  not timed out before the swing limit.
\<close>

theorem simulated_positions_ignore_timeframe:
  assumes "open_from_approved_proposal env p qt None w = (Inr rec, w')"
    and "now < pp_opened_at rec + paper_max_hold_days_swing s * day_us"
  shows "pp_timeframe rec = ''1d'' \<and> close_outcome s now rec price \<noteq> Some ''timed_exit''"
proof -
  have "pp_timeframe rec = ''1d''"
    using assms(1)
    by (auto simp: open_from_approved_proposal_def prog_defs with_unit_def Let_def new_position_def text_or_def
        dict_get_def str_or_empty_def split: sum.splits prod.splits)
  with assms(2) show ?thesis by (auto simp: close_outcome_def timed_out_def)
qed

theorem simulated_positions_ignore_timeframe_witness:
  "pp_timeframe (new_position demo_env ''paperpos_1'' 1001
       ((demo_proposal APPROVED)\<lparr>prop_order := demo_order\<lparr>ord_metadata := [(''timeframe'', PStr ''1m'')]\<rparr>\<rparr>) demo_quote None) = ''1d'' \<and>
   close_outcome default_settings (1001 + 2 * 90 * minute_us) (new_position demo_env ''paperpos_1'' 1001
       ((demo_proposal APPROVED)\<lparr>prop_order := demo_order\<lparr>ord_metadata := [(''timeframe'', PStr ''1m'')]\<rparr>\<rparr>) demo_quote None) 100 \<noteq>
     Some ''timed_exit''"
proof -
  let ?p = "(demo_proposal APPROVED)\<lparr>prop_order := demo_order\<lparr>ord_metadata := [(''timeframe'', PStr ''1m'')]\<rparr>\<rparr>"
  have "fst (open_from_approved_proposal demo_env ?p demo_quote None (demo_world APPROVED)) =
      Inr (new_position demo_env ''paperpos_1'' 1001 ?p demo_quote None)" by code_simp
  then obtain w' where o: "open_from_approved_proposal demo_env ?p demo_quote None (demo_world APPROVED) =
      (Inr (new_position demo_env ''paperpos_1'' 1001 ?p demo_quote None), w')" by (metis prod.collapse)
  show ?thesis
    by (rule simulated_positions_ignore_timeframe [OF o])
      (simp add: new_position_def Let_def default_settings_def day_us_def minute_us_def)
qed

end
