(* ===== verification/Trader.thy ===== *)
theory Trader
  imports Automation Paper
begin

text \<open>
  \<open>TraderService\<close> (src/app/execution/trader.py): turning a buy signal into a proposal, and
  executing an approved proposal directly against the trader's broker.
\<close>

definition new_execution ::
  "string \<Rightarrow> time \<Rightarrow> string \<Rightarrow> string \<Rightarrow> string \<Rightarrow> string option \<Rightarrow> pydict \<Rightarrow> pydict \<Rightarrow> string option \<Rightarrow> execution_record" where
  "new_execution eid now pid status mode broker_order_id request response error = \<lparr>
     ex_id = eid, ex_proposal_id = pid, ex_status = status, ex_mode = mode, ex_broker_order_id = broker_order_id,
     ex_strategy_name = None, ex_request_payload = request, ex_response_payload = response, ex_error_message = error,
     ex_realized_pnl_usd = 0, ex_created_at = now, ex_updated_at = now\<rparr>"

text \<open>\<open>self.learning.record_*_event\<close>, when a learning service is wired in.\<close>

definition learningP :: "env \<Rightarrow> string \<Rightarrow> string \<Rightarrow> unit prog" where
  "learningP env event ident = (if e_learning env then extP (Learning_event event ident) (e_done env) else returnP ())"

text \<open>\<open>ExecutionRecord(\<dots>)\<close> followed by \<open>_create_execution\<close>.\<close>

definition create_execution :: "env \<Rightarrow> (string \<Rightarrow> time \<Rightarrow> execution_record) \<Rightarrow> string \<Rightarrow> execution_record prog" where
  "create_execution env mk event =
     bindP (generate_id env ''exec'') (\<lambda>eid.
     bindP (utc_now env) (\<lambda>now.
     bindP (tryStoreP (execution_create (mk eid now))) (\<lambda>persisted.
     bindP (learningP env event (ex_id persisted)) (\<lambda>_.
     returnP persisted))))"

definition order_request :: "trade_order \<Rightarrow> string option \<Rightarrow> pydict" where
  "order_request o1 client_order_id = order_dump o1 @ [(''client_order_id'', opt_str client_order_id)]"

definition response_dump :: "broker_order_response \<Rightarrow> pydict" where
  "response_dump r = [(''order_id'', PStr (br_order_id r)), (''status'', PStr (br_status r)), (''mode'', PStr (br_mode r)),
     (''message'', PStr (br_message r)), (''raw_response'', PDict (br_raw_response r))]"

definition map_broker_status :: "broker_order_response \<Rightarrow> string" where
  "map_broker_status r =
     (if py_startswith (br_status r) ''simulated'' then ES_SUBMITTED
      else if br_status r \<in> {ES_FAILED, ES_BLOCKED} then br_status r else ES_SUBMITTED)"

text \<open>\<open>float(signal.price or 0)\<close>; the sizing branch runs when price and stop are both truthy.\<close>

definition signal_amount :: "app_settings \<Rightarrow> account_summary \<Rightarrow> trade_signal \<Rightarrow> int \<Rightarrow> exn + pyfloat" where
  "signal_amount s balance sg leverage =
     (case (float_or (sig_price sg) None, float_or (sig_stop_loss sg) None) of
        (Some price, Some stop) \<Rightarrow>
          (case calculate_position_size (max (max (acc_equity balance) (acc_cash_balance balance)) 1)
                  (sizing_risk_pct s (exec_mode s = Mode_live)) price stop leverage of
             Inl e \<Rightarrow> Inl e
           | Inr sz \<Rightarrow> Inr (min (psr_amount_usd sz) (default_trade_amount_usd s)))
      | _ \<Rightarrow> Inr (default_trade_amount_usd s))"

definition signal_request :: "trade_signal \<Rightarrow> pyfloat \<Rightarrow> int \<Rightarrow> string \<Rightarrow> proposal_create" where
  "signal_request sg amount leverage notes = \<lparr>
     tpc_symbol = sig_symbol sg, tpc_side = Buy, tpc_amount_usd = amount, tpc_leverage = leverage,
     tpc_proposed_price = (case sig_price sg of None \<Rightarrow> 0 | Some x \<Rightarrow> x), tpc_stop_loss = sig_stop_loss sg,
     tpc_take_profit = sig_take_profit sg, tpc_strategy_name = Some (sig_strategy_name sg),
     tpc_rationale = sig_rationale sg, tpc_notes = notes, tpc_asset_class = Unknown_class,
     tpc_signal = Some sg, tpc_metadata = []\<rparr>"

definition propose_from_signal :: "env \<Rightarrow> trade_signal \<Rightarrow> pyfloat option \<Rightarrow> int \<Rightarrow> string \<Rightarrow> trade_proposal prog" where
  "propose_from_signal env sg amount_usd leverage notes =
     (if sig_action sg \<noteq> Act_buy then raiseP (ValueError ''Only buy signals can be turned into entry proposals'')
      else bindP (extP (Get_balance (cl_id (e_trader_broker env))) (e_balance env)) (\<lambda>balance.
           bindP (case amount_usd of Some a \<Rightarrow> returnP a
                  | None \<Rightarrow> liftP (signal_amount (e_settings env) balance sg leverage)) (\<lambda>amount.
           bindP (liftP (make_proposal_create (signal_request sg amount leverage notes))) (create_proposal env))))"

text \<open>Everything before the broker call of \<open>execute_proposal\<close>.\<close>

definition trader_mode :: "env \<Rightarrow> string" where
  "trader_mode env = account_mode_value (etoro_account_mode (e_settings env))"

definition trader_check :: "env \<Rightarrow> string \<Rightarrow> string option \<Rightarrow> trade_proposal prog" where
  "trader_check env pid client_order_id =
     bindP (get_proposal env pid) (\<lambda>p.
     if prop_status p \<noteq> APPROVED
     then bindP (create_execution env (\<lambda>eid now. new_execution eid now pid ES_BLOCKED (trader_mode env) None [] []
                   (Some ''Proposal must be approved before execution'')) ''blocked'') (\<lambda>_.
          raiseP (PermissionError ''Proposal must be approved before execution''))
     else bindP (risk_contextP env (e_trader_broker env)) (\<lambda>ctx.
          bindP (liftP (validate_order (e_settings env) (prop_order p) ctx None)) (\<lambda>risk.
          if \<not> rv_passed risk
          then bindP (create_execution env (\<lambda>eid now. new_execution eid now pid ES_BLOCKED (trader_mode env) None
                        (order_request (prop_order p) client_order_id) [] (Some (py_join ''; '' (rv_reasons risk)))) ''blocked'') (\<lambda>_.
               raiseP (ValueError (py_join ''; '' (rv_reasons risk))))
          else returnP p)))"

definition trader_submit :: "env \<Rightarrow> trade_order \<Rightarrow> string option \<Rightarrow> broker_order_response prog" where
  "trader_submit env o1 client_order_id =
     (if ord_side o1 = Sell then extP (Close_position (cl_id (e_trader_broker env)) (ord_symbol o1)) (e_response env)
      else extP (Open_market_order_by_amount (cl_id (e_trader_broker env)) o1 client_order_id) (e_response env))"

definition execute_proposal :: "env \<Rightarrow> string \<Rightarrow> string option \<Rightarrow> execution_record prog" where
  "execute_proposal env pid client_order_id =
     bindP (trader_check env pid client_order_id) (\<lambda>p.
     bindP (learningP env ''pre_submit_validation'' pid) (\<lambda>_.
     bindP (create_execution env (\<lambda>eid now. new_execution eid now pid ES_VALIDATED (trader_mode env) None
              (order_request (prop_order p) client_order_id) [] None) ''submitted'') (\<lambda>ex.
     bindP (trader_submit env (prop_order p) client_order_id) (\<lambda>resp.
     bindP (utc_now env) (\<lambda>now.
     let ex' = ex\<lparr>ex_status := map_broker_status resp, ex_broker_order_id := Some (br_order_id resp),
                  ex_response_payload := response_dump resp, ex_updated_at := now\<rparr> in
     bindP (tryStoreP (\<lambda>st. with_unit (execution_update ex' st))) (\<lambda>_.
     bindP (learningP env ''broker_response'' (ex_id ex)) (\<lambda>_.
     bindP (mark_executed env pid (ex_id ex)) (\<lambda>_.
     bindP (logP env ''order_submitted'' [(''proposal_id'', PStr pid), (''execution_id'', PStr (ex_id ex)),
       (''broker_order_id'', PStr (br_order_id resp)), (''status'', PStr (ex_status ex'))]) (\<lambda>_.
     returnP ex')))))))))"

subsection \<open>Lemmas\<close>

context repository_invariant
begin

lemma keeps_learning: "keeps I (learningP env e i)"
  unfolding learningP_def by (intro keeps_intros)

lemma keeps_create_exec: "keeps I (create_execution env mk e)"
  unfolding create_execution_def by (intro keeps_intros keeps_ops keeps_learning)

lemma keeps_trader_check: "keeps I (trader_check env pid c)"
  unfolding trader_check_def by (intro keeps_intros keeps_approvals keeps_create_exec)

lemma keeps_trader_submit: "keeps I (trader_submit env o1 c)"
  unfolding trader_submit_def by (intro keeps_intros)

lemma keeps_execute_proposal: "keeps I (execute_proposal env pid c)"
  unfolding execute_proposal_def Let_def
  by (intro keeps_intros keeps_ops keeps_approvals keeps_trader_check keeps_trader_submit keeps_create_exec keeps_learning)

end

lemma calls_learning [calls_intros]: "(\<And>a b. \<not> P (Learning_event a b)) \<Longrightarrow> at_most P n (learningP env e i)"
  unfolding learningP_def by (intro calls_intros)

lemma calls_create_exec [calls_intros]:
  "(\<And>a b. \<not> P (Learning_event a b)) \<Longrightarrow> (\<And>a. \<not> P (Gen_id a)) \<Longrightarrow> at_most P n (create_execution env mk e)"
  unfolding create_execution_def by (intro calls_intros)

lemma calls_trader_check: "at_most is_submission 0 (trader_check env pid c)"
  unfolding trader_check_def by (intro calls_intros) simp_all

lemma calls_trader_submit: "at_most P (Suc 0) (trader_submit env o1 c)"
  unfolding trader_submit_def by (intro calls_intros at_most_ext_1)

lemma calls_execute_proposal: "at_most is_submission (Suc 0) (execute_proposal env pid c)"
  unfolding execute_proposal_def Let_def
  apply (rule at_most_bind [OF calls_trader_check])
  apply (rule at_most_bind, (intro calls_intros; simp))
  apply (rule at_most_bind, (intro calls_intros; simp))
  apply (rule at_most_bind_1 [OF calls_trader_submit])
  apply (intro calls_intros; simp)
  done

lemma risk_contextP_calls: "risk_contextP env b w = (r, w') \<Longrightarrow> w_store w' = w_store w"
proof -
  assume a: "risk_contextP env b w = (r, w')"
  have "after (risk_contextP env b) w (\<lambda>r w1. w_store w1 = w_store w)"
    by (auto simp: risk_contextP_def Let_def split: sum.splits)
  from afterD [OF this a] show ?thesis .
qed

lemma get_approved:
  assumes "get_proposal env pid w = (Inr p, w1)" "prop_status p = APPROVED"
  shows "w1 = w" "proposal_get pid (w_store w) = Some p" "e_clock env (w_calls w) < prop_expires_at p"
proof -
  have "after (get_proposal env pid) w (\<lambda>r w1. \<forall>p. r = Inr p \<longrightarrow> prop_status p = APPROVED \<longrightarrow>
      w1 = w \<and> proposal_get pid (w_store w) = Some p \<and> e_clock env (w_calls w) < prop_expires_at p)"
    by (auto simp: after_get_proposal effective_def Let_def split: option.splits if_splits simp: expiry_changes)
  from afterD [OF this assms(1)] assms(2) show "w1 = w" "proposal_get pid (w_store w) = Some p"
    "e_clock env (w_calls w) < prop_expires_at p" by auto
qed

lemma trader_check_passed:
  assumes "trader_check env pid coid w = (Inr p, w1)"
  shows "proposal_get pid (w_store w) = Some p \<and> prop_status p = APPROVED \<and> e_clock env (w_calls w) < prop_expires_at p \<and>
    (\<exists>pf ctx. build_risk_context (e_settings env) (e_clock env (w_calls w)) pf (w_store w) = Inr ctx \<and>
       order_admissible (e_settings env) (prop_order p) ctx None)"
  using assms unfolding trader_check_def
proof (cases rule: bindP_cases)
  case (cont q w2)
  from cont(2) have app: "prop_status q = APPROVED"
    by (rule contrapos_pp) (auto simp: bindP_def raiseP_def split: sum.splits prod.splits)
  note g = get_approved [OF cont(1) app]
  from cont(2) app have "bindP (risk_contextP env (e_trader_broker env)) (\<lambda>ctx.
      bindP (liftP (validate_order (e_settings env) (prop_order q) ctx None)) (\<lambda>risk.
      if \<not> rv_passed risk
      then bindP (create_execution env (\<lambda>eid now. new_execution eid now pid ES_BLOCKED (trader_mode env) None
                    (order_request (prop_order q) coid) [] (Some (py_join ''; '' (rv_reasons risk)))) ''blocked'') (\<lambda>_.
           raiseP (ValueError (py_join ''; '' (rv_reasons risk))))
      else returnP q)) w2 = (Inr p, w1)" by simp
  then show ?thesis
  proof (cases rule: bindP_cases)
    case c: (cont ctx w3)
    obtain risk where risk: "validate_order (e_settings env) (prop_order q) ctx None = Inr risk" "rv_passed risk" "q = p"
      using c(2) by (cases "validate_order (e_settings env) (prop_order q) ctx None")
        (auto simp: bindP_def liftP_def raiseP_def returnP_def split: if_splits sum.splits prod.splits)
    have "order_admissible (e_settings env) (prop_order q) ctx None" using risk(1,2) by (rule validate_passedD)
    with risk(3) app g show ?thesis using risk_contextP_built [OF c(1)] by blast
  qed simp
qed simp

subsection \<open>Properties\<close>

text \<open>
  C15: the trader submits at most one order, and only for an approved, unexpired proposal whose
  order is admissible in a context built from the current store. The order submitted is the
  stored one: the broker is asked to open it, or to close the symbol when it is a sell.
\<close>

theorem trader_submits_only_approved_and_admissible:
  assumes "execute_proposal env pid coid w = (r, w')"
  shows "(length (filter is_submission (new_calls w w')) \<le> 1) \<and>
    (c \<in> set (new_calls w w') \<longrightarrow> is_submission c \<longrightarrow>
      (\<exists>p pf ctx. proposal_get pid (w_store w) = Some p \<and> prop_status p = APPROVED \<and>
        e_clock env (w_calls w) < prop_expires_at p \<and>
        build_risk_context (e_settings env) (e_clock env (w_calls w)) pf (w_store w) = Inr ctx \<and>
        order_admissible (e_settings env) (prop_order p) ctx None))"
proof (rule conjI; (intro impI)?)
  show "length (filter is_submission (new_calls w w')) \<le> 1"
    using at_most_new(2) [OF calls_execute_proposal assms] by simp
  assume c: "c \<in> set (new_calls w w')" "is_submission c"
  have "\<exists>p w1. trader_check env pid coid w = (Inr p, w1)"
  proof (rule ccontr)
    assume no: "\<nexists>p w1. trader_check env pid coid w = (Inr p, w1)"
    then obtain e w1 where e: "trader_check env pid coid w = (Inl e, w1)"
      by (metis old.sum.exhaust prod.exhaust)
    then have "w' = w1" using assms by (simp add: execute_proposal_def bindP_def)
    with e at_most_0_new [OF calls_trader_check e] c show False by blast
  qed
  then obtain p w1 where "trader_check env pid coid w = (Inr p, w1)" by blast
  from trader_check_passed [OF this] show "\<exists>p pf ctx. proposal_get pid (w_store w) = Some p \<and> prop_status p = APPROVED \<and>
        e_clock env (w_calls w) < prop_expires_at p \<and>
        build_risk_context (e_settings env) (e_clock env (w_calls w)) pf (w_store w) = Inr ctx \<and>
        order_admissible (e_settings env) (prop_order p) ctx None" by blast
qed

definition demo_trader_calls :: "ext_call list" where
  "demo_trader_calls = new_calls (demo_world APPROVED) (snd (execute_proposal demo_env ''prop_1'' None (demo_world APPROVED)))"

theorem trader_submits_only_approved_and_admissible_witness:
  "\<exists>p pf ctx. proposal_get ''prop_1'' (w_store (demo_world APPROVED)) = Some p \<and> prop_status p = APPROVED \<and>
     e_clock demo_env (w_calls (demo_world APPROVED)) < prop_expires_at p \<and>
     build_risk_context (e_settings demo_env) (e_clock demo_env (w_calls (demo_world APPROVED))) pf (w_store (demo_world APPROVED)) = Inr ctx \<and>
     order_admissible (e_settings demo_env) (prop_order p) ctx None"
proof (rule trader_submits_only_approved_and_admissible [THEN conjunct2, THEN mp, THEN mp, OF prod.collapse [symmetric]])
  have "demo_trader_calls = [Get_portfolio ''etoro'', Gen_id ''exec'', Open_market_order_by_amount ''etoro'' demo_order None]"
    by code_simp
  then show "Open_market_order_by_amount ''etoro'' demo_order None \<in>
      set (new_calls (demo_world APPROVED) (snd (execute_proposal demo_env ''prop_1'' None (demo_world APPROVED))))"
    by (simp add: demo_trader_calls_def)
qed simp

text \<open>
  the direct execution route is not gated by the runtime automation flags. With the runtime
  kill switch on and the circuit breaker tripped, \<open>POST /proposals/{id}/execute\<close> still sends the
  order of an approved proposal to the broker; only the configured kill switch is checked there.
\<close>

theorem direct_execution_ignores_runtime_kill_switch:
  "\<exists>env w. killed (w_store w) \<and> execution_blockers env 0 (w_store w) \<noteq> [] \<and>
     Open_market_order_by_amount (cl_id (e_trader_broker env)) demo_order None \<in>
       set (new_calls w (snd (execute_proposal env ''prop_1'' None w)))"
proof -
  let ?w = "(demo_world APPROVED)\<lparr>w_store := runtime_set KILL_SWITCH_KEY ''true''
      (runtime_set CIRCUIT_REASON_KEY ''drill'' (w_store (demo_world APPROVED)))\<rparr>"
  have "Open_market_order_by_amount (cl_id (e_trader_broker demo_env)) demo_order None \<in>
      set (new_calls ?w (snd (execute_proposal demo_env ''prop_1'' None ?w)))" by code_simp
  moreover have "killed (w_store ?w)" by (simp add: killed_def)
  moreover have "execution_blockers demo_env 0 (w_store ?w) \<noteq> []"
    by (simp add: execution_blockers_def or_empty_def Let_def)
  ultimately show ?thesis by blast
qed

end
