(* ===== verification/MarketDirection.thy ===== *)
theory MarketDirection
  imports Approvals
begin

text \<open>
  The market-direction filter (src/app/risk/market_direction.py): no new intraday longs while
  the benchmark is below its session VWAP and down on the day. The history frame is a list of
  bars; the New York calendar date of an instant is a parameter of the environment.
\<close>

definition INTRADAY_TIMEFRAMES :: "string list" where
  "INTRADAY_TIMEFRAMES = [''1m'', ''2m'', ''3m'', ''5m'', ''10m'', ''15m'', ''30m'', ''1h'']"

record bench_state =
  bs_last :: pyfloat
  bs_vwap :: pyfloat
  bs_change_pct :: pyfloat

definition typical_price :: "bar \<Rightarrow> pyfloat" where
  "typical_price b = (bar_high b + bar_low b + bar_close b) / 3"

definition session_vwap :: "bar list \<Rightarrow> pyfloat" where
  "session_vwap rows = (let volume = sum_list (map bar_volume rows) in
     if 0 < volume then sum_list (map (\<lambda>b. typical_price b * bar_volume b) rows) / volume
     else sum_list (map typical_price rows) / of_nat (length rows))"

definition benchmark_state :: "(time \<Rightarrow> int) \<Rightarrow> bar list \<Rightarrow> time \<Rightarrow> bench_state option" where
  "benchmark_state ny_date history now =
     (let frame = sort_key bar_timestamp history;
          today = ny_date now;
          today_rows = filter (\<lambda>b. ny_date (bar_timestamp b) = today) frame;
          prior_rows = filter (\<lambda>b. ny_date (bar_timestamp b) < today) frame
      in if today_rows = [] \<or> prior_rows = [] then None
         else let final = bar_close (last today_rows); prior_close = bar_close (last prior_rows) in
              if prior_close \<le> 0 then None
              else Some \<lparr>bs_last = final, bs_vwap = session_vwap today_rows,
                         bs_change_pct = (final / prior_close - 1) * 100\<rparr>)"

definition benchmarks_for :: "string \<Rightarrow> string list" where
  "benchmarks_for symbol = ''SPY'' # (if correlation_bucket_for_symbol symbol = ''tech_complex'' then [''QQQ''] else [])"

definition filter_applies :: "app_settings \<Rightarrow> string option \<Rightarrow> order_side \<Rightarrow> bool" where
  "filter_applies s timeframe side = (0 < market_direction_min_drop_pct s \<and> side = Buy \<and>
     py_lower (case timeframe of None \<Rightarrow> [] | Some t \<Rightarrow> t) \<in> set INTRADAY_TIMEFRAMES)"

definition falling :: "app_settings \<Rightarrow> bench_state \<Rightarrow> bool" where
  "falling s st = (bs_last st < bs_vwap st \<and> bs_change_pct st \<le> - market_direction_min_drop_pct s)"

text \<open>One benchmark: its state, or why there is none. The data outage is caught.\<close>

definition read_benchmark :: "env \<Rightarrow> string \<Rightarrow> (string + bench_state) prog" where
  "read_benchmark env b =
     catchP (bindP (extP (Get_history b ''5m'' 200) (e_history env)) (\<lambda>bars.
             bindP (utc_now env) (\<lambda>now.
             returnP (case benchmark_state (e_ny_date env) bars now of
                None \<Rightarrow> Inl ''no bars for today's session'' | Some st \<Rightarrow> Inr st))))
            (\<lambda>e. returnP (Inl (exn_str e)))"

fun check_benchmarks :: "env \<Rightarrow> string \<Rightarrow> string list \<Rightarrow> string list prog" where
  "check_benchmarks env symbol [] = returnP []"
| "check_benchmarks env symbol (b # bs) =
     bindP (read_benchmark env b) (\<lambda>state.
     bindP (case state of
         Inl error \<Rightarrow> bindP (logP env ''market_direction_check_unavailable''
             [(''symbol'', PStr symbol), (''benchmark'', PStr b), (''error'', PStr error)]) (\<lambda>_. returnP [])
       | Inr st \<Rightarrow> returnP (if falling (e_settings env) st
             then [''market_direction_down:'' @ b @ '':'' @ fmt_fixed 2 (bs_change_pct st) @ ''%''] else [])) (\<lambda>rs.
     bindP (check_benchmarks env symbol bs) (\<lambda>rest. returnP (rs @ rest))))"

definition market_direction_reasons :: "env \<Rightarrow> string \<Rightarrow> string option \<Rightarrow> order_side \<Rightarrow> string list prog" where
  "market_direction_reasons env symbol timeframe side =
     (if \<not> filter_applies (e_settings env) timeframe side then returnP []
      else check_benchmarks env symbol (benchmarks_for symbol))"

subsection \<open>Lemmas\<close>

context quiet_invariant
begin

lemma keeps_read_benchmark: "keeps I (read_benchmark env b)"
  unfolding read_benchmark_def by (intro keeps_intros)

lemma keeps_check_benchmarks: "keeps I (check_benchmarks env symbol bs)"
  by (induction bs) (auto intro!: keeps_intros keeps_read_benchmark keeps_log)

lemma keeps_market_direction: "keeps I (market_direction_reasons env symbol tf side)"
  unfolding market_direction_reasons_def by (intro keeps_intros keeps_check_benchmarks)

end

lemma calls_read_benchmark: "(\<And>x. \<not> P (Get_history b ''5m'' 200)) \<Longrightarrow> at_most P 0 (read_benchmark env b)"
  unfolding read_benchmark_def by (intro calls_intros at_most_catch)

lemma calls_check_benchmarks: "(\<And>b. \<not> P (Get_history b ''5m'' 200)) \<Longrightarrow> at_most P 0 (check_benchmarks env symbol bs)"
  by (induction bs) (auto intro!: calls_intros calls_read_benchmark)

lemma calls_market_direction [calls_intros]:
  "(\<And>b. \<not> P (Get_history b ''5m'' 200)) \<Longrightarrow> at_most P 0 (market_direction_reasons env symbol tf side)"
  unfolding market_direction_reasons_def by (intro calls_intros calls_check_benchmarks)

text \<open>A volume-weighted average of values in a range is in the range.\<close>

lemma weighted_sum_bounds:
  fixes lo hi :: rat
  assumes "\<forall>b \<in> set rows. 0 \<le> v b \<and> lo \<le> f b \<and> f b \<le> hi"
  shows "lo * sum_list (map v rows) \<le> sum_list (map (\<lambda>b. f b * v b) rows) \<and>
    sum_list (map (\<lambda>b. f b * v b) rows) \<le> hi * sum_list (map v rows)"
  using assms
proof (induction rows)
  case (Cons b rows)
  from Cons.prems have "lo * v b \<le> f b * v b" "f b * v b \<le> hi * v b" by (auto intro: mult_right_mono)
  with Cons show ?case by (simp add: distrib_left)
qed simp

subsection \<open>Properties\<close>

text \<open>
  the session VWAP is a price of the session. When the bars have non-negative volume and
  their lows and highs lie between two prices with the close in between, the VWAP does too,
  also when no volume was traded.
\<close>

theorem session_vwap_within_range:
  assumes "rows \<noteq> []"
    and "\<forall>b \<in> set rows. 0 \<le> bar_volume b \<and> lo \<le> bar_low b \<and> bar_low b \<le> bar_close b \<and>
           bar_close b \<le> bar_high b \<and> bar_high b \<le> hi"
  shows "lo \<le> session_vwap rows \<and> session_vwap rows \<le> hi"
proof -
  have t: "\<forall>b \<in> set rows. lo \<le> typical_price b \<and> typical_price b \<le> hi"
    using assms(2) by (fastforce simp: typical_price_def)
  have one: "\<forall>b \<in> set rows. (0 :: rat) \<le> 1 \<and> lo \<le> typical_price b \<and> typical_price b \<le> hi" using t by simp
  have vol: "\<forall>b \<in> set rows. 0 \<le> bar_volume b \<and> lo \<le> typical_price b \<and> typical_price b \<le> hi"
    using t assms(2) by blast
  have n: "(0 :: rat) < of_nat (length rows)" using assms(1) by simp
  have "sum_list (map (\<lambda>b. 1 :: rat) rows) = of_nat (length rows)" by (induction rows) simp_all
  with weighted_sum_bounds [OF one] weighted_sum_bounds [OF vol] n show ?thesis
    by (auto simp: session_vwap_def Let_def field_simps)
qed

theorem session_vwap_within_range_witness:
  "99 \<le> session_vwap [\<lparr>bar_timestamp = 0, bar_high = 101, bar_low = 99, bar_close = 100, bar_volume = 5\<rparr>] \<and>
   session_vwap [\<lparr>bar_timestamp = 0, bar_high = 101, bar_low = 99, bar_close = 100, bar_volume = 5\<rparr>] \<le> 101"
  by (rule session_vwap_within_range) simp_all

text \<open>
  the filter blocks a falling market and nothing else. It never raises, whatever the data
  source does; it asks for no data and gives no reason for sells, swing timeframes or a
  switched-off filter; each reason names a benchmark of the symbol; and an intraday buy while
  SPY is below its VWAP and down by the configured drop is always given a reason.
\<close>

theorem market_direction_blocks_falling_market:
  assumes "market_direction_reasons env symbol tf side w = (r, w')"
  shows "(\<exists>rs. r = Inr rs \<and> (\<forall>x \<in> set rs. \<exists>b \<in> set (benchmarks_for symbol). \<exists>y. x = ''market_direction_down:'' @ b @ '':'' @ y)) \<and>
    (\<not> filter_applies (e_settings env) tf side \<longrightarrow> r = Inr [] \<and> w' = w) \<and>
    (filter_applies (e_settings env) tf side \<longrightarrow>
      e_history env (w_calls w @ [Get_history ''SPY'' ''5m'' 200]) = Inr bars \<longrightarrow>
      benchmark_state (e_ny_date env) bars (e_clock env (w_calls w @ [Get_history ''SPY'' ''5m'' 200])) = Some st \<longrightarrow>
      falling (e_settings env) st \<longrightarrow> (\<exists>rs x. r = Inr ((''market_direction_down:SPY:'' @ x) # rs)))"
proof (rule conj3I; (intro impI)?)
  have one: "after (read_benchmark env b) w (\<lambda>r w'. \<exists>x. r = Inr x)" for b w
    by (auto simp: read_benchmark_def split: sum.splits)
  have total: "after (check_benchmarks env symbol bs) w (\<lambda>r w'. \<exists>rs. r = Inr rs \<and>
      (\<forall>r \<in> set rs. \<exists>b \<in> set bs. \<exists>x. r = ''market_direction_down:'' @ b @ '':'' @ x))" for bs w
  proof (induction bs arbitrary: w)
    case (Cons b bs)
    show ?case
      by (simp, rule after_mono [OF one])
        (auto split: sum.splits intro!: after_mono [OF Cons])
  qed simp
  from assms afterD [OF total, of "benchmarks_for symbol" w r w']
  show "\<exists>rs. r = Inr rs \<and> (\<forall>x \<in> set rs. \<exists>b \<in> set (benchmarks_for symbol). \<exists>y. x = ''market_direction_down:'' @ b @ '':'' @ y)"
    by (cases "filter_applies (e_settings env) tf side") (auto simp: market_direction_reasons_def returnP_def)
  show "\<not> filter_applies (e_settings env) tf side \<Longrightarrow> r = Inr [] \<and> w' = w"
    using assms by (auto simp: market_direction_reasons_def returnP_def)
  assume f: "filter_applies (e_settings env) tf side" and h: "e_history env (w_calls w @ [Get_history ''SPY'' ''5m'' 200]) = Inr bars"
    "benchmark_state (e_ny_date env) bars (e_clock env (w_calls w @ [Get_history ''SPY'' ''5m'' 200])) = Some st"
    "falling (e_settings env) st"
  have "after (check_benchmarks env symbol (''SPY'' # bs)) w (\<lambda>r w'. \<exists>rs x. r = Inr ((''market_direction_down:SPY:'' @ x) # rs))" for bs
    using h by (auto simp: read_benchmark_def intro!: after_mono [OF total] split: sum.splits)
  from afterD [OF this, of _ r w'] show "\<exists>rs x. r = Inr ((''market_direction_down:SPY:'' @ x) # rs)"
    using assms f by (simp add: market_direction_reasons_def benchmarks_for_def)
qed

definition demo_bar :: "time \<Rightarrow> pyfloat \<Rightarrow> bar" where
  "demo_bar t p = \<lparr>bar_timestamp = t, bar_high = p + 1, bar_low = p - 1, bar_close = p, bar_volume = 10\<rparr>"

theorem market_direction_blocks_falling_market_witness:
  "\<exists>rs x. fst (market_direction_reasons
      (demo_env\<lparr>e_history := (\<lambda>t. Inr [demo_bar (- 5) 100, demo_bar 500 99, demo_bar 600 98])\<rparr>)
      ''NVDA'' (Some ''5m'') Buy (demo_world APPROVED)) = Inr ((''market_direction_down:SPY:'' @ x) # rs)"
proof -
  let ?env = "demo_env\<lparr>e_history := (\<lambda>t. Inr [demo_bar (- 5) 100, demo_bar 500 99, demo_bar 600 98])\<rparr>"
  have f: "filter_applies (e_settings ?env) (Some ''5m'') Buy" by code_simp
  have b: "benchmark_state (e_ny_date ?env) [demo_bar (- 5) 100, demo_bar 500 99, demo_bar 600 98]
      (e_clock ?env (w_calls (demo_world APPROVED) @ [Get_history ''SPY'' ''5m'' 200])) =
      Some \<lparr>bs_last = 98, bs_vwap = 197/2, bs_change_pct = - 2\<rparr>" by code_simp
  have d: "falling (e_settings ?env) \<lparr>bs_last = 98, bs_vwap = 197/2, bs_change_pct = - 2\<rparr>" by code_simp
  show ?thesis
    by (rule market_direction_blocks_falling_market [THEN conjunct2, THEN conjunct2, THEN mp, THEN mp, THEN mp, THEN mp, OF prod.collapse [symmetric] f _ b d]) simp
qed

end
