(* ===== verification/Comparison.thy ===== *)
theory Comparison
  imports Automation
begin

text \<open>
  The parallel paper-broker comparison (src/app/broker/comparison.py): after an Alpaca paper
  entry the same order may be mirrored to the eToro demo account, and the pair recorded. A
  failure of the mirror itself trips the circuit breaker with an emergency stop. The demo
  client and the comparison table are outside calls.
\<close>

definition comparison_dump :: "broker_comparison \<Rightarrow> pydict" where
  "comparison_dump c = [(''id'', PStr (bc_id c)), (''signal_id'', opt_str (bc_signal_id c)), (''symbol'', PStr (bc_symbol c)),
     (''strategy_name'', PStr (bc_strategy_name c)), (''primary_broker'', PStr (bc_primary_broker c)),
     (''comparison_broker'', PStr (bc_comparison_broker c)), (''primary_order_id'', PStr (bc_primary_order_id c)),
     (''comparison_order_id'', PStr (bc_comparison_order_id c)), (''status'', PStr (bc_status c)),
     (''primary_fill_price'', PNone), (''comparison_fill_price'', PNone), (''primary_cost_usd'', PFloat 0),
     (''comparison_cost_usd'', PFloat 0), (''primary_slippage_bps'', PNone), (''comparison_slippage_bps'', PNone),
     (''details'', PDict (bc_details c)), (''created_at'', PTime (bc_created_at c))]"

definition new_comparison ::
  "string \<Rightarrow> time \<Rightarrow> trade_proposal \<Rightarrow> execution_record \<Rightarrow> string \<Rightarrow> string \<Rightarrow> string \<Rightarrow> pydict \<Rightarrow> broker_comparison" where
  "new_comparison cid now p ex primary_broker order_id status details = \<lparr>bc_id = cid,
     bc_signal_id = map_option sig_id (prop_signal p), bc_symbol = ord_symbol (prop_order p),
     bc_strategy_name = or_empty (ord_strategy_name (prop_order p)), bc_primary_broker = primary_broker,
     bc_comparison_broker = ''etoro'', bc_primary_order_id = or_empty (ex_broker_order_id ex),
     bc_comparison_order_id = order_id, bc_status = status, bc_details = details, bc_created_at = now\<rparr>"

definition record_comparison :: "env \<Rightarrow> broker_comparison \<Rightarrow> unit prog" where
  "record_comparison env c = extP (Record_comparison c) (e_done env)"

definition comparison_fail ::
  "env \<Rightarrow> trade_proposal \<Rightarrow> execution_record \<Rightarrow> string \<Rightarrow> string \<Rightarrow> bool \<Rightarrow> broker_comparison option prog" where
  "comparison_fail env p ex primary_broker reason trip =
     bindP (generate_id env ''broker_cmp'') (\<lambda>cid.
     bindP (utc_now env) (\<lambda>now.
     let c = new_comparison cid now p ex primary_broker [] ''blocked''
               [(''proposal_id'', PStr (prop_id p)), (''primary_order_id'', opt_str (ex_broker_order_id ex)), (''reason'', PStr reason)] in
     bindP (record_comparison env c) (\<lambda>_.
     bindP (logP env ''parallel_broker_signal_blocked'' (comparison_dump c)) (\<lambda>_.
     bindP (if trip then bindP (trip_circuit_breaker env (''parallel_broker_comparison_failed:'' @ reason) True) (\<lambda>_. returnP ())
            else returnP ()) (\<lambda>_.
     returnP (Some c))))))"

definition comparison_blockers :: "app_settings \<Rightarrow> trade_order \<Rightarrow> string \<Rightarrow> string list" where
  "comparison_blockers s o1 primary_broker =
     (if exec_mode s \<noteq> Mode_paper \<or> enable_real_trading s then [''comparison_requires_paper_mode''] else []) @
     (if primary_broker \<noteq> ''alpaca'' then [''comparison_requires_alpaca_primary''] else []) @
     (if ord_side o1 \<noteq> Buy then [''comparison_long_only''] else []) @
     (if ord_asset_class o1 \<notin> {Equity, Unknown_class} then [''comparison_equities_only''] else []) @
     (if py_lower (or_empty (ord_strategy_name o1)) = ''manual_smoke'' then [''comparison_excludes_manual_smoke''] else [])"

definition mirror_order ::
  "env \<Rightarrow> client \<Rightarrow> trade_proposal \<Rightarrow> execution_record \<Rightarrow> string \<Rightarrow> broker_comparison option prog" where
  "mirror_order env demo p ex primary_broker =
     bindP (extP (Open_demo_order (cl_id demo) (prop_order p) (''mirror:'' @ prop_id p)) (e_response env)) (\<lambda>resp.
     bindP (generate_id env ''broker_cmp'') (\<lambda>cid.
     bindP (utc_now env) (\<lambda>now.
     let c = new_comparison cid now p ex primary_broker (br_order_id resp) ''submitted''
               [(''proposal_id'', PStr (prop_id p)), (''primary_order_id'', opt_str (ex_broker_order_id ex)),
                (''comparison_order_id'', PStr (br_order_id resp))] in
     bindP (logP env ''parallel_broker_signal_mirrored'' (comparison_dump c)) (\<lambda>_.
     bindP (record_comparison env c) (\<lambda>_.
     returnP (Some c))))))"

definition mirror :: "env \<Rightarrow> trade_proposal \<Rightarrow> execution_record \<Rightarrow> string \<Rightarrow> broker_comparison option prog" where
  "mirror env p ex primary_broker =
     (let s = e_settings env; fail = comparison_fail env p ex primary_broker;
          blockers = comparison_blockers s (prop_order p) primary_broker in
      if \<not> etoro_parallel_comparison_enabled s then returnP None
      else if is_paper_only (ord_metadata (prop_order p)) then returnP None
      else case e_demo_client env of
          None \<Rightarrow> fail ''etoro_demo_v2_not_configured'' True
        | Some demo \<Rightarrow>
            if \<not> etoro_demo_v2_enabled s then fail ''etoro_demo_v2_not_configured'' True
            else if blockers \<noteq> [] then fail (py_join '','' blockers) False
            else bindP (extP (Get_account_identity (cl_id demo)) (e_identity env)) (\<lambda>identity.
                 if \<not> truthy (dict_get identity ''verified'') then fail ''etoro_demo_account_not_verified'' True
                 else catchP (mirror_order env demo p ex primary_broker) (\<lambda>e. fail (exn_str e) True)))"

context automation_quiet
begin

lemma keeps_record_comparison: "keeps I (record_comparison env c)"
  unfolding record_comparison_def by (intro keeps_intros)

lemma keeps_comparison_fail: "keeps I (comparison_fail env p ex n reason trip)"
  unfolding comparison_fail_def Let_def by (intro keeps_intros keeps_log keeps_automation keeps_record_comparison)

lemma keeps_comparison_mirror: "keeps I (mirror env p ex n)"
  unfolding mirror_def mirror_order_def Let_def
  by (intro keeps_intros keeps_log keeps_comparison_fail keeps_record_comparison)

end

subsection \<open>Calls\<close>

text \<open>An order of the queue, or a demo order.\<close>

fun opens_order :: "ext_call \<Rightarrow> bool" where
  "opens_order (Open_demo_order _ _ _) = True"
| "opens_order c = is_submission c"

lemma submission_opens: "is_submission c \<Longrightarrow> opens_order c"
  by (cases c) simp_all

lemma calls_stop_clients: "at_most opens_order 0 (stop_clients env ok cls)"
proof (induction cls)
  case (Cons cl cls)
  have "at_most opens_order 0 (stop_client env ok cl)"
    unfolding stop_client_def attempt_def by (intro calls_intros at_most_catch) simp_all
  with Cons show ?case by (auto intro!: calls_intros)
qed (auto intro: calls_intros)

lemma calls_trip: "at_most opens_order 0 (trip_circuit_breaker env reason stop)"
  unfolding trip_circuit_breaker_def enable_kill_switch_def emergency_stop_def mark_paper_safety_flatten_def Let_def
  by (intro calls_intros calls_stop_clients) simp_all

lemma calls_comparison_fail: "at_most opens_order 0 (comparison_fail env p ex n reason trip)"
  unfolding comparison_fail_def record_comparison_def Let_def
  by (intro calls_intros calls_trip) simp_all

lemma calls_mirror_order: "at_most opens_order (Suc 0) (mirror_order env demo p ex n)"
  unfolding mirror_order_def record_comparison_def Let_def
  by (rule at_most_bind_1 [OF at_most_ext_1], intro calls_intros) simp_all

text \<open>When may the mirror open an order.\<close>

definition comparable :: "env \<Rightarrow> trade_proposal \<Rightarrow> string \<Rightarrow> bool" where
  "comparable env p n \<longleftrightarrow> etoro_parallel_comparison_enabled (e_settings env) \<and> etoro_demo_v2_enabled (e_settings env) \<and>
     e_demo_client env \<noteq> None \<and> \<not> is_paper_only (ord_metadata (prop_order p)) \<and> comparison_blockers (e_settings env) (prop_order p) n = []"

lemma calls_mirror: "at_most opens_order (if comparable env p n then Suc 0 else 0) (mirror env p ex n)"
proof (cases "comparable env p n")
  case True
  have id: "at_most opens_order 0 (extP (Get_account_identity x) a)" for x and a :: "ext_call list \<Rightarrow> exn + pydict"
    by (intro calls_intros) simp
  from True show ?thesis
    unfolding mirror_def Let_def
    by (auto simp: comparable_def intro!: at_most_bind [OF id] at_most_if at_most_mono [OF calls_comparison_fail]
        at_most_catch [OF calls_mirror_order] calls_comparison_fail)
next
  case False
  then show ?thesis
    by (auto simp: mirror_def Let_def comparable_def intro!: at_most_return calls_comparison_fail split: option.splits)
qed

lemma calls_mirror_submission: "at_most is_submission 0 (mirror env p ex n)"
proof -
  have id: "at_most is_submission 0 (extP (Get_account_identity x) a)" for x and a :: "ext_call list \<Rightarrow> exn + pydict"
    by (intro calls_intros) simp
  have fl: "at_most is_submission 0 (comparison_fail env p ex n reason trip)" for reason trip
    by (rule at_most_weaken [OF calls_comparison_fail submission_opens])
  have "at_most is_submission 0 (mirror_order env demo p ex n)" for demo
    unfolding mirror_order_def record_comparison_def Let_def by (intro calls_intros) simp_all
  then show ?thesis
    unfolding mirror_def Let_def by (intro at_most_if at_most_return at_most_option fl at_most_bind [OF id] at_most_catch)
qed

subsection \<open>Properties\<close>

text \<open>
  the comparison mirror only copies eligible paper entries. Mirroring an execution opens at
  most one order, on the demo client; it opens one only in paper mode with real trading off,
  for a buy of an equity (or unclassified) order executed at Alpaca that is neither tagged
  paper-only nor a manual smoke test.
\<close>

theorem mirror_copies_only_paper_entries:
  assumes "mirror env p ex n w = (r, w')"
  shows "length (filter opens_order (new_calls w w')) \<le> 1 \<and>
    (filter opens_order (new_calls w w') \<noteq> [] \<longrightarrow>
      n = ''alpaca'' \<and> exec_mode (e_settings env) = Mode_paper \<and> \<not> enable_real_trading (e_settings env) \<and>
      ord_side (prop_order p) = Buy \<and> ord_asset_class (prop_order p) \<in> {Equity, Unknown_class} \<and>
      \<not> is_paper_only (ord_metadata (prop_order p)) \<and>
      py_lower (or_empty (ord_strategy_name (prop_order p))) \<noteq> ''manual_smoke'')"
proof -
  note le = at_most_new(2) [OF calls_mirror assms]
  show ?thesis
  proof (cases "comparable env p n")
    case True
    with le show ?thesis by (auto simp: comparable_def comparison_blockers_def split: if_splits)
  next
    case False
    with le show ?thesis by simp
  qed
qed

definition comparing_env :: env where
  "comparing_env = demo_env\<lparr>e_demo_client := Some (demo_client ''etoro_demo''),
     e_settings := default_settings\<lparr>etoro_demo_v2_enabled := True, etoro_parallel_comparison_enabled := True\<rparr>,
     e_identity := (\<lambda>t. Inr [(''verified'', PBool True)])\<rparr>"

theorem mirror_copies_only_paper_entries_witness:
  "filter opens_order (new_calls (demo_world APPROVED)
     (snd (mirror comparing_env (demo_proposal APPROVED) (demo_exit ''exec_1'' 0 0) ''alpaca'' (demo_world APPROVED)))) \<noteq> [] \<and>
   \<not> is_paper_only (ord_metadata (prop_order (demo_proposal APPROVED)))"
proof -
  have m: "mirror comparing_env (demo_proposal APPROVED) (demo_exit ''exec_1'' 0 0) ''alpaca'' (demo_world APPROVED) =
      (fst (mirror comparing_env (demo_proposal APPROVED) (demo_exit ''exec_1'' 0 0) ''alpaca'' (demo_world APPROVED)),
       snd (mirror comparing_env (demo_proposal APPROVED) (demo_exit ''exec_1'' 0 0) ''alpaca'' (demo_world APPROVED)))" by simp
  have "filter opens_order (new_calls (demo_world APPROVED)
     (snd (mirror comparing_env (demo_proposal APPROVED) (demo_exit ''exec_1'' 0 0) ''alpaca'' (demo_world APPROVED)))) \<noteq> []"
    by code_simp
  with mirror_copies_only_paper_entries [OF m] show ?thesis by blast
qed

end
