(* ===== verification/Coordinator.thy ===== *)
theory Coordinator
  imports Trader MarketDirection Comparison
begin

text \<open>
  The approval-gated execution queue (src/app/execution/coordinator.py): enqueueing an approved
  proposal, and processing a queue item through claim, approval, broker selection, automation,
  account, quote and market checks, the risk gate, the drawdown governor and the bracket check,
  to the order submission and its bookkeeping. The entry lock makes one run at a time, so a run
  is one program. An early \<open>return record\<close> of the code is the left value of a stage.
\<close>

subsection \<open>Helpers\<close>

definition text_opt :: "pyval \<Rightarrow> string option" where
  "text_opt v = (if str_or_empty v = [] then None else Some (str_or_empty v))"

definition proposal_timeframe :: "trade_proposal \<Rightarrow> string option" where
  "proposal_timeframe p =
     (case text_opt (dict_get (ord_metadata (prop_order p)) ''timeframe'') of Some t \<Rightarrow> Some t
      | None \<Rightarrow> (case prop_signal p of None \<Rightarrow> None | Some sg \<Rightarrow> text_opt (dict_get (sig_metadata sg) ''timeframe'')))"

definition client_order_id_for :: "env \<Rightarrow> string \<Rightarrow> string \<Rightarrow> string" where
  "client_order_id_for env pid qid = take 32 (e_sha256_hex env (pid @ '':'' @ qid @ '':v1''))"

definition can_bypass_entry_drift_for_smoke :: "app_settings \<Rightarrow> trade_proposal \<Rightarrow> bool" where
  "can_bypass_entry_drift_for_smoke s p = (exec_mode s = Mode_paper \<and> \<not> enable_real_trading s \<and>
     py_lower (or_empty (ord_strategy_name (prop_order p))) = ''manual_smoke'')"

definition map_broker_execution_status :: "string \<Rightarrow> string" where
  "map_broker_execution_status status =
     (let n = py_lower status in
      if n \<in> {ES_FAILED, ''rejected'', ''canceled'', ''cancelled''} then ES_FAILED
      else if n = ES_BLOCKED then ES_BLOCKED else ES_SUBMITTED)"

definition select_broker :: "env \<Rightarrow> trade_proposal \<Rightarrow> exn + client \<times> string" where
  "select_broker env p = (case e_router env of None \<Rightarrow> Inr (e_trader_broker env, ''etoro'')
     | Some r \<Rightarrow> (case select_broker_for r p of Inl e \<Rightarrow> Inl e | Inr c \<Rightarrow> Inr (c, selected_broker_name_for r p)))"

subsection \<open>Enqueueing\<close>

definition new_queue_record :: "env \<Rightarrow> string \<Rightarrow> time \<Rightarrow> trade_proposal \<Rightarrow> queue_record" where
  "new_queue_record env qid now p = \<lparr>q_id = qid, q_proposal_id = prop_id p, q_signal_id = map_option sig_id (prop_signal p),
     q_symbol = py_upper (ord_symbol (prop_order p)), q_strategy_name = ord_strategy_name (prop_order p),
     q_timeframe = proposal_timeframe p, q_mode = execution_mode_value (exec_mode (e_settings env)),
     q_client_order_id = Some (client_order_id_for env (prop_id p) qid), q_status = QUEUED,
     q_approval_required = True, q_ready_for_execution = False,
     q_requested_entry_price = Some (ord_proposed_price (prop_order p)), q_latest_quote_price = None,
     q_latest_quote_timestamp = None, q_validation_reason = None,
     q_payload = [(''order'', PDict (order_dump (prop_order p))),
                  (''signal'', case prop_signal p of None \<Rightarrow> PNone | Some sg \<Rightarrow> PDict (signal_dump sg))],
     q_created_at = now, q_updated_at = now, q_executed_at = None\<rparr>"

definition duplicate_item :: "trade_proposal \<Rightarrow> exn" where
  "duplicate_item p = ValueError (''Duplicate execution queue item already exists for '' @ ord_symbol (prop_order p))"

definition enqueue_approved_proposal :: "env \<Rightarrow> string \<Rightarrow> queue_record prog" where
  "enqueue_approved_proposal env pid =
     bindP (get_proposal env pid) (\<lambda>p.
     if prop_status p \<noteq> APPROVED then raiseP (PermissionError ''Proposal must be approved before it can be queued'')
     else bindP (readP (latest_open_for_symbol (ord_symbol (prop_order p)))) (\<lambda>existing.
       if existing \<noteq> None then raiseP (duplicate_item p)
       else bindP (generate_id env ''queue'') (\<lambda>qid.
            bindP (utc_now env) (\<lambda>now.
            let record = new_queue_record env qid now p in
            bindP (catchP (tryStoreP (\<lambda>st. with_unit (queue_create record st))) (\<lambda>_. raiseP (duplicate_item p))) (\<lambda>_.
            bindP (logP env ''execution_queue_enqueued'' [(''queue_id'', PStr qid), (''proposal_id'', PStr (prop_id p)),
              (''symbol'', PStr (q_symbol record))]) (\<lambda>_.
            returnP record))))))"

subsection \<open>Stages of processing\<close>

text \<open>\<open>queue.update(record)\<close> and the block-and-return steps.\<close>

definition save_queue :: "queue_record \<Rightarrow> unit prog" where
  "save_queue q = tryStoreP (\<lambda>st. with_unit (queue_update q st))"

definition block_item :: "env \<Rightarrow> queue_record \<Rightarrow> string \<Rightarrow> string \<Rightarrow> pydict \<Rightarrow> (queue_record + 'a) prog" where
  "block_item env q reason event details =
     bindP (utc_now env) (\<lambda>now.
     let q' = q\<lparr>q_status := BLOCKED, q_validation_reason := Some reason, q_updated_at := now\<rparr> in
     bindP (save_queue q') (\<lambda>_.
     bindP (logP env event ([(''queue_id'', PStr (q_id q)), (''proposal_id'', PStr (q_proposal_id q))] @ details)) (\<lambda>_.
     returnP (Inl q'))))"

definition reason_list :: "string list \<Rightarrow> pyval" where
  "reason_list rs = PList (map PStr rs)"

text \<open>Stage 1: an item that is done, or whose proposal was already executed, is returned as it is.\<close>

definition execution_done :: "pydict \<Rightarrow> store \<Rightarrow> bool" where
  "execution_done payload st = (truthy (dict_get payload ''execution_id'') \<and>
     execution_get (str_or_empty (dict_get payload ''execution_id'')) st \<noteq> None)"

definition already_processed :: "env \<Rightarrow> string \<Rightarrow> (queue_record + queue_record) prog" where
  "already_processed env qid =
     bindP (readP (queue_get qid)) (\<lambda>found.
     case found of None \<Rightarrow> raiseP (LookupError (''Execution queue item '' @ qid @ '' was not found''))
     | Some q \<Rightarrow>
         bindP (readP (execution_done (q_payload q))) (\<lambda>done.
         if done then returnP (Inl q)
         else bindP (readP (execution_get_latest_by_proposal_id (q_proposal_id q))) (\<lambda>existing.
              case existing of
                Some ex \<Rightarrow>
                  if ex_status ex \<notin> {ES_FAILED, ES_BLOCKED}
                  then bindP (utc_now env) (\<lambda>now.
                       let q' = q\<lparr>q_status := Q_EXECUTED,
                            q_executed_at := (case q_executed_at q of None \<Rightarrow> Some (ex_updated_at ex) | Some t \<Rightarrow> Some t),
                            q_updated_at := now,
                            q_payload := AList.update ''execution_id'' (PStr (ex_id ex)) (q_payload q)\<rparr> in
                       bindP (save_queue q') (\<lambda>_. returnP (Inl q')))
                  else if q_status q \<in> {Q_EXECUTED, CANCELLED, FAILED} then returnP (Inl q) else returnP (Inr q)
              | None \<Rightarrow> if q_status q \<in> {Q_EXECUTED, CANCELLED, FAILED} then returnP (Inl q) else returnP (Inr q))))"

text \<open>Stage 2: the atomic claim.\<close>

definition claim_item :: "env \<Rightarrow> queue_record \<Rightarrow> (queue_record + queue_record) prog" where
  "claim_item env q =
     bindP (utc_now env) (\<lambda>now.
     let stale_before = now - max (workflow_lock_timeout_minutes (e_settings env)) 1 * minute_us in
     bindP (tryStoreP (claim_for_processing now (q_id q) stale_before)) (\<lambda>claimed.
     bindP (readP (queue_get (q_id q))) (\<lambda>again.
     let current = (case again of None \<Rightarrow> q | Some x \<Rightarrow> x) in
     returnP (if claimed then Inr current else Inl current))))"

text \<open>Stage 3: the proposal must be approved now, and a broker must be configured for it.\<close>

definition approved_proposal :: "env \<Rightarrow> queue_record \<Rightarrow> (queue_record + trade_proposal) prog" where
  "approved_proposal env q =
     bindP (get_proposal env (q_proposal_id q)) (\<lambda>p.
     if prop_status p \<noteq> APPROVED
     then block_item env q (''proposal_status_'' @ approval_status_value (prop_status p))
            ''execution_queue_proposal_not_approved'' [(''status'', PStr (approval_status_value (prop_status p)))]
     else returnP (Inr p))"

definition choose_broker :: "env \<Rightarrow> queue_record \<Rightarrow> trade_proposal \<Rightarrow> (queue_record + client \<times> string) prog" where
  "choose_broker env q p =
     (case select_broker env p of
        Inr b \<Rightarrow> returnP (Inr b)
      | Inl (NoBrokerForAssetClass m) \<Rightarrow> block_item env (q\<lparr>q_ready_for_execution := False\<rparr>) m
          ''execution_queue_no_broker'' [(''symbol'', PStr (ord_symbol (prop_order p))), (''reason'', PStr m)]
      | Inl e \<Rightarrow> raiseP e)"

text \<open>Stage 4: automation, account, quote, market, paper-only, trade count and drift checks.\<close>

definition automation_blockers :: "env \<Rightarrow> string list prog" where
  "automation_blockers env =
     bindP (utc_now env) (\<lambda>now. readP (\<lambda>st.
       if e_automation env
       then let bs = execution_blockers env now st in
            if kill_switch_enabled (e_settings env) then filter (\<lambda>b. b \<noteq> ''automation_kill_switch_enabled'') bs else bs
       else if exec_mode (e_settings env) = Mode_live then live_mode_blockers (e_settings env) else []))"

definition quote_validation_reasons :: "app_settings \<Rightarrow> market_quote \<Rightarrow> string \<Rightarrow> string list" where
  "quote_validation_reasons s qt expected_broker =
     (let source = py_lower (case mq_source qt of None \<Rightarrow> ''None'' | Some x \<Rightarrow> x) in
      (if expected_broker = ''alpaca'' then (if \<not> py_startswith source ''alpaca'' then [''quote_provider_not_alpaca''] else [])
       else if expected_broker = ''etoro'' \<and> \<not> py_startswith source ''etoro'' then [''quote_provider_not_etoro''] else []) @
      (if mq_derived_from_history qt then [''quote_not_direct''] else []) @
      (case mq_data_age_seconds qt of None \<Rightarrow> []
       | Some age \<Rightarrow> if of_int (max_market_data_age_seconds s) < age then [''quote_too_old''] else []) @
      (if mq_last_execution qt = None \<and> mq_ask qt = None then [''quote_missing''] else []))"

definition account_mismatch :: "env \<Rightarrow> string \<Rightarrow> string \<Rightarrow> string list prog" where
  "account_mismatch env expected actual =
     (if actual = expected then returnP []
      else if e_automation env
      then bindP (set_account_verified env False) (\<lambda>_.
           bindP (trip_circuit_breaker env (''account_mismatch:expected='' @ expected @ '':actual='' @ actual) False) (\<lambda>_.
           returnP [''alpaca_account_mismatch'']))
      else returnP [''alpaca_account_mismatch''])"

definition account_validation_reasons :: "env \<Rightarrow> client \<Rightarrow> string \<Rightarrow> string \<Rightarrow> string list prog" where
  "account_validation_reasons env broker broker_name symbol =
     (if broker_name \<noteq> ''alpaca'' then returnP []
      else let expected = py_strip (alpaca_effective_expected_account_number (e_settings env)) in
           bindP (if expected \<noteq> [] \<and> cl_get_account_identity broker
                  then bindP (extP (Get_account_identity (cl_id broker)) (e_identity env)) (\<lambda>identity.
                       bindP (account_mismatch env expected (str_or_empty (dict_get identity ''account_number''))) (\<lambda>rs.
                       returnP (rs @ (if truthy (dict_get identity ''trading_blocked'') then [''alpaca_trading_blocked''] else []))))
                  else returnP []) (\<lambda>reasons.
           if cl_is_supported_equity broker
           then catchP (bindP (extP (Is_supported_equity (cl_id broker) symbol) (e_supported env)) (\<lambda>ok.
                        returnP (reasons @ (if ok then [] else [''symbol_not_supported_by_alpaca'']))))
                       (\<lambda>_. returnP (reasons @ [''alpaca_asset_check_failed'']))
           else returnP reasons))"

definition paper_only_held_reasons :: "env \<Rightarrow> trade_order \<Rightarrow> string list prog" where
  "paper_only_held_reasons env o1 =
     (if e_live_mirror env \<and> is_paper_only (ord_metadata o1)
      then extP (Paper_only_held o1) (\<lambda>t. Inr (e_held env t)) else returnP [])"

definition quote_drift_bps :: "trade_order \<Rightarrow> pyfloat \<Rightarrow> pyfloat" where
  "quote_drift_bps o1 quote_price =
     \<bar>(quote_price - ord_proposed_price o1) / max (ord_proposed_price o1) (1/100)\<bar> * 10000"

definition drift_reasons :: "env \<Rightarrow> queue_record \<Rightarrow> trade_proposal \<Rightarrow> pyfloat \<Rightarrow> string list prog" where
  "drift_reasons env q p quote_price =
     (let drift = quote_drift_bps (prop_order p) quote_price in
      if drift \<le> execution_max_entry_drift_bps (e_settings env) then returnP []
      else if can_bypass_entry_drift_for_smoke (e_settings env) p
      then bindP (logP env ''execution_queue_entry_drift_bypassed'' [(''queue_id'', PStr (q_id q)),
             (''proposal_id'', PStr (prop_id p)), (''symbol'', PStr (ord_symbol (prop_order p))),
             (''strategy_name'', opt_str (ord_strategy_name (prop_order p))), (''quote_drift_bps'', PFloat drift)])
             (\<lambda>_. returnP [])
      else returnP [''entry_drift_too_large''])"

definition item_timeframe :: "queue_record \<Rightarrow> trade_proposal \<Rightarrow> string" where
  "item_timeframe q p = opt_or (q_timeframe q) (opt_or (proposal_timeframe p) ''1d'')"

definition validation_reasons ::
  "env \<Rightarrow> queue_record \<Rightarrow> trade_proposal \<Rightarrow> client \<Rightarrow> string \<Rightarrow> (string list \<times> market_quote \<times> pyfloat) prog" where
  "validation_reasons env q p broker broker_name =
     (let o1 = prop_order p; tf = item_timeframe q p;
          provider = (if broker_name \<in> {''alpaca'', ''etoro''} then Some broker_name else None) in
      bindP (automation_blockers env) (\<lambda>automation.
      bindP (extP (Get_quote (ord_symbol o1) tf provider) (e_quote env)) (\<lambda>qt.
      let price = quote_price_or qt (ord_proposed_price o1) in
      bindP (account_validation_reasons env broker broker_name (ord_symbol o1)) (\<lambda>account.
      bindP (market_direction_reasons env (ord_symbol o1) (Some tf) (ord_side o1)) (\<lambda>market.
      bindP (paper_only_held_reasons env o1) (\<lambda>held.
      bindP (utc_now env) (\<lambda>now.
      bindP (readP (count_since (start_of_day now))) (\<lambda>trades.
      bindP (drift_reasons env q p price) (\<lambda>drift.
      returnP (automation @ account @ quote_validation_reasons (e_settings env) qt broker_name @ market @ held @
        (if max_trades_per_day (e_settings env) \<le> trades then [''max_trades_per_day_reached''] else []) @ drift,
        qt, price))))))))))"

definition quote_checked ::
  "env \<Rightarrow> queue_record \<Rightarrow> trade_proposal \<Rightarrow> client \<Rightarrow> string \<Rightarrow> (queue_record + queue_record \<times> market_quote \<times> pyfloat) prog" where
  "quote_checked env q p broker broker_name =
     bindP (validation_reasons env q p broker broker_name) (\<lambda>(reasons, qt, price).
     let q' = q\<lparr>q_latest_quote_price := Some price, q_latest_quote_timestamp := mq_timestamp qt,
                q_ready_for_execution := (reasons = []),
                q_validation_reason := Some (if reasons = [] then ''ready'' else py_join '','' reasons)\<rparr> in
     if reasons \<noteq> []
     then block_item env q' (py_join '','' reasons) ''execution_queue_blocked''
            [(''symbol'', PStr (ord_symbol (prop_order p))), (''reason'', PStr (py_join '','' reasons))]
     else returnP (Inr (q', qt, price)))"

text \<open>Stage 5: the risk gate against a fresh context; the authority over portfolio room is passed on.\<close>

definition risk_checked ::
  "env \<Rightarrow> queue_record \<Rightarrow> trade_proposal \<Rightarrow> client \<Rightarrow> string \<Rightarrow> (queue_record + risk_context \<times> risk_validation_result) prog" where
  "risk_checked env q p broker broker_name =
     bindP (risk_contextP env broker) (\<lambda>ctx.
     bindP (room_verdictP env (prop_order p) broker_name) (\<lambda>room.
     bindP (liftP (validate_order (e_settings env) (prop_order p) ctx room)) (\<lambda>risk.
     if \<not> rv_passed risk
     then block_item env (q\<lparr>q_ready_for_execution := False\<rparr>) (''risk_failed:'' @ py_join '','' (rv_reasons risk))
            ''execution_queue_risk_blocked''
            [(''symbol'', PStr (ord_symbol (prop_order p))), (''reasons'', reason_list (rv_reasons risk))]
     else returnP (Inr (ctx, risk)))))"

text \<open>Stage 6: the drawdown governor scales the order of the proposal in hand.\<close>

definition governor_multiplier :: "app_settings \<Rightarrow> risk_context \<Rightarrow> pyfloat" where
  "governor_multiplier s ctx = drawdown_governor_multiplier
     (daily_drawdown_pct (rc_daily_realized_pnl_usd ctx) (rc_account_balance ctx))
     (drawdown_governor_soft_pct s) (drawdown_governor_hard_pct s) (drawdown_governor_floor s)"

definition governed_order :: "app_settings \<Rightarrow> risk_context \<Rightarrow> trade_order \<Rightarrow> trade_order" where
  "governed_order s ctx o1 =
     (if \<not> drawdown_governor_enabled s \<or> 1 \<le> governor_multiplier s ctx then o1
      else o1\<lparr>ord_amount_usd := py_round 2 (ord_amount_usd o1 * governor_multiplier s ctx)\<rparr>)"

definition apply_drawdown_governor :: "env \<Rightarrow> trade_proposal \<Rightarrow> risk_context \<Rightarrow> trade_proposal prog" where
  "apply_drawdown_governor env p ctx =
     (let s = e_settings env; m = governor_multiplier s ctx; o1 = prop_order p; o2 = governed_order s ctx o1 in
      if \<not> drawdown_governor_enabled s \<or> 1 \<le> m then returnP p
      else bindP (logP env ''drawdown_governor_applied'' [(''proposal_id'', PStr (prop_id p)), (''symbol'', PStr (ord_symbol o1)),
             (''daily_drawdown_pct'', PFloat (py_round 3 (daily_drawdown_pct (rc_daily_realized_pnl_usd ctx) (rc_account_balance ctx)))),
             (''multiplier'', PFloat (py_round 3 m)), (''amount_before'', PFloat (ord_amount_usd o1)),
             (''amount_after'', PFloat (ord_amount_usd o2))]) (\<lambda>_.
           returnP (p\<lparr>prop_order := o2\<rparr>)))"

text \<open>Stage 7: bracket orders need a long with stop below and target above the quote, and enough reward.\<close>

definition alpaca_bracket_reasons :: "trade_order \<Rightarrow> pyfloat \<Rightarrow> pyfloat \<Rightarrow> string list" where
  "alpaca_bracket_reasons o1 quote_price min_rr =
     (let base =
        (if ord_side o1 \<noteq> Buy then [''long_entries_only''] else []) @
        (if ord_stop_loss o1 = None then [''stop_loss_missing''] else []) @
        (if ord_take_profit o1 = None then [''take_profit_missing''] else []) @
        (case ord_stop_loss o1 of None \<Rightarrow> [] | Some stop \<Rightarrow> if quote_price \<le> stop then [''stop_loss_not_below_entry''] else []) @
        (case ord_take_profit o1 of None \<Rightarrow> [] | Some t \<Rightarrow> if t \<le> quote_price then [''take_profit_not_above_entry''] else [])
      in if base \<noteq> [] \<or> min_rr \<le> 0 then base
         else case (ord_stop_loss o1, ord_take_profit o1) of
                (Some stop, Some t) \<Rightarrow> if (t - quote_price) / (quote_price - stop) < min_rr
                  then [''reward_to_risk_below_min_at_quote''] else []
              | _ \<Rightarrow> [])"

definition bracket_checked :: "env \<Rightarrow> queue_record \<Rightarrow> trade_proposal \<Rightarrow> string \<Rightarrow> pyfloat \<Rightarrow> (queue_record + unit) prog" where
  "bracket_checked env q p broker_name quote_price =
     (let s = e_settings env;
          min_rr = (if can_bypass_entry_drift_for_smoke s p then 0 else execution_min_reward_to_risk_at_quote s);
          reasons = alpaca_bracket_reasons (prop_order p) quote_price min_rr in
      if broker_name = ''alpaca'' \<and> alpaca_require_bracket_orders s \<and> reasons \<noteq> []
      then block_item env (q\<lparr>q_ready_for_execution := False\<rparr>) (''bracket_failed:'' @ py_join '','' reasons)
             ''execution_queue_bracket_blocked''
             [(''symbol'', PStr (ord_symbol (prop_order p))), (''reasons'', reason_list reasons)]
      else returnP (Inr ()))"

subsection \<open>Submission\<close>

definition is_crypto_order :: "trade_order \<Rightarrow> bool" where
  "is_crypto_order o1 = (ord_asset_class o1 = Crypto \<or> is_crypto_symbol (ord_symbol o1))"

definition capped_amount :: "app_settings \<Rightarrow> trade_order \<Rightarrow> pyfloat" where
  "capped_amount s o1 = min (ord_amount_usd o1) (max_trade_amount_usd s)"

text \<open>The quantity: whole shares for Alpaca equities, fractional otherwise.\<close>

definition order_quantity :: "app_settings \<Rightarrow> trade_order \<Rightarrow> string \<Rightarrow> pyfloat \<Rightarrow> exn + pyfloat" where
  "order_quantity s o1 broker_name quote_price =
     (let raw = capped_amount s o1 / max quote_price (1/100) in
      if broker_name = ''alpaca'' \<and> \<not> is_crypto_order o1
      then if \<lfloor>raw\<rfloor> < 1 then Inl (ValueError ''one_share_exceeds_max_trade_amount'') else Inr (of_int \<lfloor>raw\<rfloor>)
      else Inr raw)"

definition required_price :: "pyfloat option \<Rightarrow> exn + pyfloat" where
  "required_price v = (case v of None \<Rightarrow> Inl (TypeError ''float() argument must be a string or a real number, not NoneType'')
     | Some x \<Rightarrow> Inr x)"

text \<open>Which \<open>submit_*\<close> method is called.\<close>

definition submit_protected ::
  "env \<Rightarrow> client \<Rightarrow> string \<Rightarrow> trade_order \<Rightarrow> pyfloat \<Rightarrow> string option \<Rightarrow> broker_execution prog" where
  "submit_protected env broker broker_name o1 qty coid =
     (if is_crypto_order o1 \<and> broker_name = ''alpaca'' \<and> cl_submit_crypto_protected_order broker
      then if qty \<le> 0 then raiseP (ValueError ''crypto_notional_below_min_order'')
           else bindP (liftP (required_price (ord_stop_loss o1))) (\<lambda>stop.
                extP (Submit_crypto_protected_order (cl_id broker) (ord_symbol o1) qty stop
                        (float_or (ord_take_profit o1) None) coid) (e_execution env))
      else if broker_name = ''alpaca'' \<and> alpaca_require_bracket_orders (e_settings env) \<and> cl_submit_bracket_order broker
      then bindP (liftP (required_price (ord_take_profit o1))) (\<lambda>tp.
           bindP (liftP (required_price (ord_stop_loss o1))) (\<lambda>stop.
           extP (Submit_bracket_order (cl_id broker) (ord_symbol o1) (ord_side o1) \<lfloor>qty\<rfloor> tp stop coid) (e_execution env)))
      else extP (Submit_order (cl_id broker) (ord_symbol o1) (ord_side o1) qty coid) (e_execution env))"

definition mirror_parallel :: "env \<Rightarrow> trade_proposal \<Rightarrow> execution_record \<Rightarrow> string \<Rightarrow> unit prog" where
  "mirror_parallel env p ex broker_name =
     bindP (if e_live_mirror env \<and> ex_status ex \<notin> {ES_FAILED, ES_BLOCKED}
            then extP (Live_mirror (prop_id p) (ex_id ex) broker_name) (e_done env) else returnP ()) (\<lambda>_.
     if e_parallel_broker env then bindP (mirror env p ex broker_name) (\<lambda>_. returnP ()) else returnP ())"

text \<open>Recording a submitted order: execution, proposal, log line, mirrors.\<close>

definition record_submission ::
  "env \<Rightarrow> trade_proposal \<Rightarrow> string \<Rightarrow> (string \<Rightarrow> time \<Rightarrow> execution_record) \<Rightarrow> execution_record prog" where
  "record_submission env p broker_name mk =
     bindP (create_execution env mk ''submitted'') (\<lambda>ex.
     bindP (mark_executed env (prop_id p) (ex_id ex)) (\<lambda>_.
     bindP (logP env ''order_submitted'' [(''proposal_id'', PStr (prop_id p)), (''execution_id'', PStr (ex_id ex)),
       (''broker_order_id'', opt_str (ex_broker_order_id ex)), (''broker'', PStr broker_name), (''status'', PStr (ex_status ex))]) (\<lambda>_.
     bindP (mirror_parallel env p ex broker_name) (\<lambda>_.
     returnP ex))))"

definition broker_request :: "trade_order \<Rightarrow> string option \<Rightarrow> string \<Rightarrow> pydict" where
  "broker_request o1 coid broker_name = order_request o1 coid @ [(''broker'', PStr broker_name)]"

definition record_broker_execution ::
  "env \<Rightarrow> trade_proposal \<Rightarrow> string \<Rightarrow> string option \<Rightarrow> broker_execution \<Rightarrow> execution_record prog" where
  "record_broker_execution env p broker_name coid be =
     bindP (readP (\<lambda>st. case be_broker_order_id be of None \<Rightarrow> None
        | Some b \<Rightarrow> if b = [] then None else execution_get_by_broker_order_id b st)) (\<lambda>existing.
     case existing of
       Some ex \<Rightarrow> bindP (mark_executed env (prop_id p) (ex_id ex)) (\<lambda>_. returnP ex)
     | None \<Rightarrow> record_submission env p broker_name (\<lambda>eid now. new_execution eid now (prop_id p)
         (map_broker_execution_status (be_status be)) (be_mode be) (be_broker_order_id be)
         (broker_request (prop_order p) coid broker_name)
         [(''broker'', PStr broker_name), (''broker_execution'', PDict (be_dump be))] None))"

definition response_status :: "broker_order_response \<Rightarrow> string" where
  "response_status r = (if br_status r \<notin> {ES_FAILED, ES_BLOCKED} then ES_SUBMITTED else br_status r)"

definition execute_with_broker ::
  "env \<Rightarrow> trade_proposal \<Rightarrow> client \<Rightarrow> string \<Rightarrow> pyfloat \<Rightarrow> string option \<Rightarrow> execution_record prog" where
  "execute_with_broker env p broker broker_name quote_price coid =
     (if broker_name = ''etoro'' \<and> cl_id broker = cl_id (e_trader_broker env)
      then execute_proposal env (prop_id p) coid
      else bindP (learningP env ''pre_submit_validation'' (prop_id p)) (\<lambda>_.
           if cl_submit_order broker
           then bindP (liftP (order_quantity (e_settings env) (prop_order p) broker_name quote_price)) (\<lambda>qty.
                bindP (submit_protected env broker broker_name (prop_order p) qty coid) (\<lambda>be.
                record_broker_execution env p broker_name coid be))
           else if cl_open_market_order_by_amount broker
           then bindP (extP (Open_market_order_by_amount (cl_id broker) (prop_order p) coid) (e_response env)) (\<lambda>resp.
                record_submission env p broker_name (\<lambda>eid now. new_execution eid now (prop_id p) (response_status resp)
                  (br_mode resp) (Some (br_order_id resp)) (broker_request (prop_order p) coid broker_name)
                  [(''broker'', PStr broker_name), (''broker_response'', PDict (response_dump resp))] None))
           else raiseP (TypeError (''Selected broker '' @ [CHR 0x27] @ broker_name @ [CHR 0x27] @
             '' does not expose a supported order submission method''))))"

text \<open>The simulated fill, alone or as the fallback after a broker error.\<close>

definition simulate_fill :: "env \<Rightarrow> queue_record \<Rightarrow> trade_proposal \<Rightarrow> market_quote \<Rightarrow> string \<Rightarrow> pydict \<Rightarrow> execution_record prog" where
  "simulate_fill env q p qt label extra =
     bindP (open_from_approved_proposal env p qt None) (\<lambda>pos.
     bindP (create_execution env (\<lambda>eid now. new_execution eid now (prop_id p) ES_SUBMITTED ''paper'' None
              (order_request (prop_order p) (q_client_order_id q))
              ([(''broker'', PStr label), (''paper_position_id'', PStr (pp_id pos)), (''fill_price'', PFloat (pp_entry_price pos))] @ extra)
              None) ''submitted'') (\<lambda>ex.
     bindP (mark_executed env (prop_id p) (ex_id ex)) (\<lambda>_.
     returnP ex)))"

definition submission_failed ::
  "env \<Rightarrow> queue_record \<Rightarrow> trade_proposal \<Rightarrow> string \<Rightarrow> exn \<Rightarrow> (queue_record + execution_record) prog" where
  "submission_failed env q p broker_name e =
     bindP (create_execution env (\<lambda>eid now. new_execution eid now (prop_id p) ES_FAILED
              (execution_mode_value (exec_mode (e_settings env))) None (order_request (prop_order p) (q_client_order_id q))
              [(''broker'', PStr broker_name)] (Some (exn_str e))) ''submitted'') (\<lambda>ex.
     block_item env (q\<lparr>q_ready_for_execution := False,
         q_payload := AList.update ''execution_id'' (PStr (ex_id ex)) (q_payload q)\<rparr>)
       ''broker_submission_failed'' ''execution_queue_broker_failed''
       [(''symbol'', PStr (ord_symbol (prop_order p))), (''broker'', PStr broker_name), (''error'', PStr (exn_str e))])"

definition fallback_allowed :: "app_settings \<Rightarrow> risk_validation_result \<Rightarrow> bool" where
  "fallback_allowed s risk = (exec_mode s = Mode_paper \<and> paper_simulated_fallback_enabled s \<and> rv_room_authority risk = ''paper'')"

definition route ::
  "env \<Rightarrow> queue_record \<Rightarrow> trade_proposal \<Rightarrow> client \<Rightarrow> string \<Rightarrow> market_quote \<Rightarrow> pyfloat \<Rightarrow> risk_validation_result \<Rightarrow>
   (queue_record + execution_record) prog" where
  "route env q p broker broker_name qt quote_price risk =
     (let s = e_settings env in
      if exec_mode s = Mode_paper \<and> paper_broker_choice s = PB_self_simulated
      then bindP (simulate_fill env q p qt ''self_simulated'' []) (\<lambda>ex. returnP (Inr ex))
      else bindP (readP (execution_done (q_payload q))) (\<lambda>done.
           if done then returnP (Inl q)
           else catchP (bindP (execute_with_broker env p broker broker_name quote_price (q_client_order_id q)) (\<lambda>ex. returnP (Inr ex)))
                (\<lambda>e. if fallback_allowed s risk
                     then bindP (simulate_fill env q p qt ''self_simulated_fallback'' [(''broker_error'', PStr (exn_str e))])
                            (\<lambda>ex. returnP (Inr ex))
                     else submission_failed env q p broker_name e)))"

definition finish_item :: "env \<Rightarrow> queue_record \<Rightarrow> trade_proposal \<Rightarrow> execution_record \<Rightarrow> queue_record prog" where
  "finish_item env q p ex =
     bindP (utc_now env) (\<lambda>now.
     let q' = q\<lparr>q_status := Q_EXECUTED, q_executed_at := Some now, q_updated_at := now,
                q_payload := AList.update ''execution_id'' (PStr (ex_id ex)) (q_payload q)\<rparr> in
     bindP (save_queue q') (\<lambda>_.
     bindP (logP env ''execution_queue_executed'' [(''queue_id'', PStr (q_id q)), (''proposal_id'', PStr (prop_id p)),
       (''symbol'', PStr (ord_symbol (prop_order p))), (''execution_id'', PStr (ex_id ex))]) (\<lambda>_.
     returnP q')))"

subsection \<open>process_queue_item\<close>

text \<open>Continue with the right value of a stage, or return the record.\<close>

definition stageP :: "(queue_record + 'a) prog \<Rightarrow> ('a \<Rightarrow> (queue_record + 'b) prog) \<Rightarrow> (queue_record + 'b) prog" where
  "stageP m f = bindP m (\<lambda>r. case r of Inl q \<Rightarrow> returnP (Inl q) | Inr x \<Rightarrow> f x)"

record clearance =
  ok_record :: queue_record
  ok_proposal :: trade_proposal
  ok_broker :: client
  ok_broker_name :: string
  ok_quote :: market_quote
  ok_quote_price :: pyfloat
  ok_context :: risk_context
  ok_risk :: risk_validation_result

text \<open>Every check up to the submission: a cleared item, or the record to return.\<close>

definition risk_and_bracket ::
  "env \<Rightarrow> queue_record \<Rightarrow> trade_proposal \<Rightarrow> client \<Rightarrow> string \<Rightarrow> market_quote \<Rightarrow> pyfloat \<Rightarrow> (queue_record + clearance) prog" where
  "risk_and_bracket env q p broker broker_name qt price =
     stageP (risk_checked env q p broker broker_name) (\<lambda>(ctx, risk).
     bindP (apply_drawdown_governor env p ctx) (\<lambda>p'.
     stageP (bracket_checked env q p' broker_name price) (\<lambda>_.
     returnP (Inr \<lparr>ok_record = q, ok_proposal = p', ok_broker = broker, ok_broker_name = broker_name,
       ok_quote = qt, ok_quote_price = price, ok_context = ctx, ok_risk = risk\<rparr>))))"

definition clear_item :: "env \<Rightarrow> string \<Rightarrow> (queue_record + clearance) prog" where
  "clear_item env qid =
     stageP (already_processed env qid) (\<lambda>q0.
     stageP (claim_item env q0) (\<lambda>q.
     stageP (approved_proposal env q) (\<lambda>p.
     stageP (choose_broker env q p) (\<lambda>(broker, broker_name).
     stageP (quote_checked env q p broker broker_name) (\<lambda>(q', qt, price).
     risk_and_bracket env q' p broker broker_name qt price)))))"

definition submit_cleared :: "env \<Rightarrow> clearance \<Rightarrow> queue_record prog" where
  "submit_cleared env c =
     bindP (route env (ok_record c) (ok_proposal c) (ok_broker c) (ok_broker_name c) (ok_quote c) (ok_quote_price c) (ok_risk c)) (\<lambda>r.
     case r of Inl q \<Rightarrow> returnP q | Inr ex \<Rightarrow> finish_item env (ok_record c) (ok_proposal c) ex)"

definition process_queue_item :: "env \<Rightarrow> string \<Rightarrow> queue_record prog" where
  "process_queue_item env qid =
     bindP (clear_item env qid) (\<lambda>r. case r of Inl q \<Rightarrow> returnP q | Inr c \<Rightarrow> submit_cleared env c)"

fun process_items :: "env \<Rightarrow> queue_record list \<Rightarrow> queue_record list prog" where
  "process_items env [] = returnP []"
| "process_items env (q # qs) =
     bindP (process_queue_item env (q_id q)) (\<lambda>r. bindP (process_items env qs) (\<lambda>rs. returnP (r # rs)))"

definition process_ready_queue :: "env \<Rightarrow> int \<Rightarrow> queue_record list prog" where
  "process_ready_queue env limit = bindP (readP (queue_list (Some QUEUED) limit)) (process_items env)"

end
