(* ===== verification/Coordinator_Safety.thy ===== *)
theory Coordinator_Safety
  imports Coordinator
begin

text \<open>
  What the execution queue guarantees (src/app/execution/coordinator.py): every stage keeps the
  store's invariants, an order leaves only for an item that passed every gate, at most once per
  run and never again for an item that was submitted, and the kill switch stops everything.
\<close>

subsection \<open>Store invariants\<close>

lemma keeps_automation_blockers: "keeps I (automation_blockers env)"
  unfolding automation_blockers_def by (intro keeps_intros)

lemma keeps_held: "keeps I (paper_only_held_reasons env o1)"
  unfolding paper_only_held_reasons_def by (intro keeps_intros)

context automation_quiet
begin

lemma keeps_drift: "keeps I (drift_reasons env q p x)"
  unfolding drift_reasons_def Let_def by (intro keeps_intros keeps_log)

lemma keeps_account: "keeps I (account_validation_reasons env b n sy)"
  unfolding account_validation_reasons_def account_mismatch_def Let_def by (intro keeps_intros keeps_automation)

lemma keeps_validation: "keeps I (validation_reasons env q p b n)"
  unfolding validation_reasons_def Let_def
  by (intro keeps_intros keeps_automation_blockers keeps_account keeps_market_direction keeps_held keeps_drift)

end

context automation_invariant
begin

lemma keeps_save_queue: "keeps I (save_queue q)"
  unfolding save_queue_def by (rule keeps_queue_update)

lemma keeps_block_item: "keeps I (block_item env q reason event d)"
  unfolding block_item_def Let_def by (intro keeps_intros keeps_ops keeps_save_queue)

lemma keeps_enqueue: "keeps I (enqueue_approved_proposal env pid)"
  unfolding enqueue_approved_proposal_def Let_def by (intro keeps_intros keeps_ops keeps_approvals)

lemma keeps_already_processed: "keeps I (already_processed env qid)"
  unfolding already_processed_def Let_def by (intro keeps_intros keeps_save_queue)

lemma keeps_claim_item: "keeps I (claim_item env q)"
  unfolding claim_item_def Let_def by (intro keeps_intros keeps_ops)

lemma keeps_approved_proposal: "keeps I (approved_proposal env q)"
  unfolding approved_proposal_def by (intro keeps_intros keeps_approvals keeps_block_item)

lemma keeps_choose_broker: "keeps I (choose_broker env q p)"
  unfolding choose_broker_def by (auto split: sum.splits exn.splits intro!: keeps_intros keeps_block_item)

lemma keeps_risk_checked: "keeps I (risk_checked env q p b n)"
  unfolding risk_checked_def by (intro keeps_intros keeps_approvals keeps_block_item)

lemma keeps_governor: "keeps I (apply_drawdown_governor env p ctx)"
  unfolding apply_drawdown_governor_def Let_def by (intro keeps_intros keeps_ops)

lemma keeps_bracket_checked: "keeps I (bracket_checked env q p n x)"
  unfolding bracket_checked_def Let_def by (intro keeps_intros keeps_block_item)

lemma keeps_stage: "keeps I m \<Longrightarrow> (\<And>x. keeps I (f x)) \<Longrightarrow> keeps I (stageP m f)"
  unfolding stageP_def by (intro keeps_intros)

lemma keeps_risk_and_bracket: "keeps I (risk_and_bracket env q p b n qt x)"
  unfolding risk_and_bracket_def
  by (intro keeps_stage keeps_intros keeps_risk_checked keeps_governor keeps_bracket_checked)

lemma keeps_submit_protected: "keeps I (submit_protected env b n o1 qty coid)"
  unfolding submit_protected_def by (intro keeps_intros)

lemma keeps_mirror: "keeps I (mirror_parallel env p ex n)"
  unfolding mirror_parallel_def by (intro keeps_intros keeps_comparison_mirror)

lemma keeps_record_submission: "keeps I (record_submission env p n mk)"
  unfolding record_submission_def by (intro keeps_intros keeps_ops keeps_approvals keeps_create_exec keeps_mirror)

lemma keeps_record_broker: "keeps I (record_broker_execution env p n coid be)"
  unfolding record_broker_execution_def by (intro keeps_intros keeps_approvals keeps_record_submission)

lemma keeps_execute_with_broker: "keeps I (execute_with_broker env p b n x coid)"
  unfolding execute_with_broker_def
  by (intro keeps_intros keeps_execute_proposal keeps_learning keeps_submit_protected keeps_record_broker
      keeps_record_submission)

lemma keeps_simulate_fill: "keeps I (simulate_fill env q p qt l d)"
  unfolding simulate_fill_def by (intro keeps_intros keeps_open keeps_create_exec keeps_approvals)

lemma keeps_submission_failed: "keeps I (submission_failed env q p n e)"
  unfolding submission_failed_def by (intro keeps_intros keeps_create_exec keeps_block_item)

lemma keeps_route: "keeps I (route env q p b n qt x risk)"
  unfolding route_def Let_def
  by (intro keeps_intros keeps_simulate_fill keeps_execute_with_broker keeps_submission_failed)

lemma keeps_finish: "keeps I (finish_item env q p ex)"
  unfolding finish_item_def Let_def by (intro keeps_intros keeps_ops keeps_save_queue)

lemma keeps_submit_cleared: "keeps I (submit_cleared env c)"
  unfolding submit_cleared_def by (intro keeps_intros keeps_route keeps_finish)

lemma keeps_quote_checked: "keeps I (quote_checked env q p b n)"
  unfolding quote_checked_def Let_def by (intro keeps_intros keeps_validation keeps_block_item)

lemma keeps_clear_item: "keeps I (clear_item env qid)"
  unfolding clear_item_def
  by (intro keeps_stage keeps_intros keeps_already_processed keeps_claim_item keeps_approved_proposal keeps_choose_broker
      keeps_quote_checked keeps_risk_and_bracket)

lemma keeps_process: "keeps I (process_queue_item env qid)"
  unfolding process_queue_item_def by (intro keeps_intros keeps_clear_item keeps_submit_cleared)

lemma keeps_process_items: "keeps I (process_items env qs)"
  by (induction qs) (auto intro!: keeps_intros keeps_process)

lemma keeps_process_ready: "keeps I (process_ready_queue env limit)"
  unfolding process_ready_queue_def by (intro keeps_intros keeps_process_items)

end

subsection \<open>Calls\<close>

lemma calls_stage [calls_intros]: "at_most P 0 m \<Longrightarrow> (\<And>x. at_most P n (f x)) \<Longrightarrow> at_most P n (stageP m f)"
  unfolding stageP_def by (intro calls_intros)

lemma calls_save_queue [calls_intros]: "at_most P n (save_queue q)"
  unfolding save_queue_def by (intro calls_intros)

lemma calls_block_item [calls_intros]: "at_most P n (block_item env q reason event d)"
  unfolding block_item_def Let_def by (intro calls_intros)

lemma calls_already_processed: "at_most P n (already_processed env qid)"
  unfolding already_processed_def Let_def by (intro calls_intros)

lemma calls_claim_item: "at_most P n (claim_item env q)"
  unfolding claim_item_def Let_def by (intro calls_intros)

lemma calls_approved_proposal: "at_most P n (approved_proposal env q)"
  unfolding approved_proposal_def by (intro calls_intros)

lemma calls_choose_broker: "at_most P n (choose_broker env q p)"
  unfolding choose_broker_def by (auto split: sum.splits exn.splits intro!: calls_intros)

lemma calls_automation_blockers [calls_intros]: "at_most P n (automation_blockers env)"
  unfolding automation_blockers_def by (intro calls_intros)

lemma calls_account: "at_most is_submission 0 (account_validation_reasons env b n sy)"
  unfolding account_validation_reasons_def account_mismatch_def Let_def set_account_verified_def
    trip_circuit_breaker_def enable_kill_switch_def
  by (intro calls_intros at_most_catch) simp_all

lemma calls_validation: "at_most is_submission 0 (validation_reasons env q p b n)"
  unfolding validation_reasons_def Let_def paper_only_held_reasons_def drift_reasons_def
  by (intro calls_intros calls_account) simp_all

lemma calls_quote_checked: "at_most is_submission 0 (quote_checked env q p b n)"
  unfolding quote_checked_def Let_def by (intro calls_intros calls_validation)

lemma calls_risk_checked: "at_most is_submission 0 (risk_checked env q p b n)"
  unfolding risk_checked_def by (intro calls_intros) simp_all

lemma calls_governor: "at_most P n (apply_drawdown_governor env p ctx)"
  unfolding apply_drawdown_governor_def Let_def by (intro calls_intros)

lemma calls_bracket_checked: "at_most P n (bracket_checked env q p m x)"
  unfolding bracket_checked_def Let_def by (intro calls_intros)

lemma calls_clear_item: "at_most is_submission 0 (clear_item env qid)"
  unfolding clear_item_def risk_and_bracket_def
  by (intro calls_intros calls_already_processed calls_claim_item calls_approved_proposal calls_choose_broker
      calls_quote_checked calls_risk_checked calls_governor calls_bracket_checked)

lemma calls_mirror_parallel: "at_most is_submission 0 (mirror_parallel env p ex n)"
  unfolding mirror_parallel_def by (intro calls_intros calls_mirror_submission) simp_all

lemma calls_record_submission: "at_most is_submission 0 (record_submission env p n mk)"
  unfolding record_submission_def by (intro calls_intros calls_mirror_parallel) simp_all

lemma calls_record_broker: "at_most is_submission 0 (record_broker_execution env p n coid be)"
  unfolding record_broker_execution_def by (intro calls_intros calls_record_submission)

lemma calls_submit_protected: "at_most is_submission (Suc 0) (submit_protected env b n o1 qty coid)"
  unfolding submit_protected_def by (intro calls_intros at_most_ext_1)

lemma calls_execute_with_broker: "at_most is_submission (Suc 0) (execute_with_broker env p b n x coid)"
proof -
  have learn: "at_most is_submission 0 (learningP env e i)" for e i by (intro calls_intros) simp
  have sub: "at_most is_submission (Suc 0) (bindP (submit_protected env b n o1 qty coid) (record_broker_execution env p n coid))" for o1 qty
    by (rule at_most_bind_1 [OF calls_submit_protected calls_record_broker])
  have opn: "at_most is_submission (Suc 0) (bindP (extP c a) (\<lambda>r. record_submission env p n (mk r)))"
    for c a and mk :: "broker_order_response \<Rightarrow> string \<Rightarrow> time \<Rightarrow> execution_record"
    by (rule at_most_bind_1 [OF at_most_ext_1 calls_record_submission])
  show ?thesis
    unfolding execute_with_broker_def
    by (intro at_most_if calls_execute_proposal at_most_bind [OF learn] at_most_bind [OF at_most_lift] sub opn at_most_raise)
qed

lemma calls_simulate_fill: "at_most is_submission 0 (simulate_fill env q p qt l d)"
  unfolding simulate_fill_def by (intro calls_intros) simp_all

lemma calls_submission_failed: "at_most is_submission 0 (submission_failed env q p n e)"
  unfolding submission_failed_def by (intro calls_intros) simp_all

lemma calls_route: "at_most is_submission (Suc 0) (route env q p b n qt x risk)"
  unfolding route_def Let_def
  by (intro calls_intros at_most_catch at_most_bind_1 [OF calls_execute_with_broker]
      at_most_mono [OF calls_simulate_fill] calls_simulate_fill calls_submission_failed) simp_all

lemma calls_finish: "at_most is_submission 0 (finish_item env q p ex)"
  unfolding finish_item_def Let_def by (intro calls_intros)

lemma calls_submit_cleared: "at_most is_submission (Suc 0) (submit_cleared env c)"
  unfolding submit_cleared_def by (rule at_most_bind_1 [OF calls_route]) (intro calls_intros calls_finish)

lemma calls_process: "at_most is_submission (Suc 0) (process_queue_item env qid)"
  unfolding process_queue_item_def by (intro calls_intros calls_clear_item calls_submit_cleared)

subsection \<open>What each stage lets through\<close>

lemma stageP_right:
  assumes "stageP m f w = (Inr (Inr y), w2)"
  obtains x w1 where "m w = (Inr (Inr x), w1)" "f x w1 = (Inr (Inr y), w2)"
  using assms unfolding stageP_def
  by (auto simp: bindP_def returnP_def split: prod.splits sum.splits)

lemma stageP_right2:
  assumes "stageP m (\<lambda>(x, y). g x y) w = (Inr (Inr z), w2)"
  obtains x y w1 where "m w = (Inr (Inr (x, y)), w1)" "g x y w1 = (Inr (Inr z), w2)"
  using assms by (elim stageP_right) (auto split: prod.splits)

lemma stageP_right3:
  assumes "stageP m (\<lambda>(x, y, v). g x y v) w = (Inr (Inr z), w2)"
  obtains x y v w1 where "m w = (Inr (Inr (x, y, v)), w1)" "g x y v w1 = (Inr (Inr z), w2)"
  using assms by (elim stageP_right) (auto split: prod.splits)

lemma block_item_left: "block_item env q r e d w \<noteq> (Inr (Inr x), w')"
  by (auto simp: block_item_def Let_def bindP_def returnP_def split: prod.splits sum.splits)

lemma already_processed_right:
  assumes "already_processed env qid w = (Inr (Inr q), w1)"
  shows "w1 = w" "queue_get qid (w_store w) = Some q" "\<not> execution_done (q_payload q) (w_store w)"
proof -
  have "after (already_processed env qid) w (\<lambda>r w1. \<forall>q. r = Inr (Inr q) \<longrightarrow>
      w1 = w \<and> queue_get qid (w_store w) = Some q \<and> \<not> execution_done (q_payload q) (w_store w))"
    by (auto simp: already_processed_def Let_def save_queue_def after_def prog_defs split: option.splits sum.splits)
  from afterD [OF this assms] show "w1 = w" "queue_get qid (w_store w) = Some q"
    "\<not> execution_done (q_payload q) (w_store w)" by auto
qed

lemma claim_frame:
  "claim_for_processing now qid stale st = Inr (b, st') \<Longrightarrow> st' = st\<lparr>st_queue := st_queue st'\<rparr>"
  by (auto simp: claim_for_processing_def Let_def split: if_splits)

lemma claim_item_right:
  assumes "claim_item env q w = (Inr (Inr q'), w1)" "queue_get (q_id q) (w_store w) = Some q"
  shows "w_calls w1 = w_calls w" "w_store w1 = (w_store w)\<lparr>st_queue := st_queue (w_store w1)\<rparr>"
    and "q_id q' = q_id q" "q_proposal_id q' = q_proposal_id q" "q_payload q' = q_payload q"
    and "q_client_order_id q' = q_client_order_id q" "queue_get (q_id q) (w_store w1) = Some q'"
proof -
  obtain st' where c: "claim_for_processing (e_clock env (w_calls w)) (q_id q)
      (e_clock env (w_calls w) - max (workflow_lock_timeout_minutes (e_settings env)) 1 * minute_us) (w_store w) = Inr (True, st')"
    and w1: "w1 = w\<lparr>w_store := st'\<rparr>" and q': "q' = (case queue_get (q_id q) st' of None \<Rightarrow> q | Some x \<Rightarrow> x)"
    using assms(1) by (auto simp: claim_item_def Let_def prog_defs split: sum.splits if_splits prod.splits)
  show "w_calls w1 = w_calls w" by (simp add: w1)
  show "w_store w1 = (w_store w)\<lparr>st_queue := st_queue (w_store w1)\<rparr>" using claim_frame [OF c] by (simp add: w1)
  have g: "queue_get (q_id q) st' = Some (if claimable (e_clock env (w_calls w) -
      max (workflow_lock_timeout_minutes (e_settings env)) 1 * minute_us) q
      then q\<lparr>q_status := PROCESSING, q_updated_at := e_clock env (w_calls w)\<rparr> else q)"
    by (rule get_claimed [OF c assms(2)])
  then show "q_id q' = q_id q" "q_proposal_id q' = q_proposal_id q" "q_payload q' = q_payload q"
    "q_client_order_id q' = q_client_order_id q" "queue_get (q_id q) (w_store w1) = Some q'"
    by (simp_all add: q' w1)
qed

lemma approved_proposal_right:
  assumes "approved_proposal env q w = (Inr (Inr p), w1)"
  shows "w1 = w" "proposal_get (q_proposal_id q) (w_store w) = Some p" "prop_status p = APPROVED"
    "e_clock env (w_calls w) < prop_expires_at p"
proof -
  from assms obtain w2 where g: "get_proposal env (q_proposal_id q) w = (Inr p, w2)" "prop_status p = APPROVED" "w1 = w2"
    unfolding approved_proposal_def
    by (cases rule: bindP_cases) (auto simp: returnP_def block_item_left split: if_splits)
  from get_approved [OF g(1,2)] g show "w1 = w" "proposal_get (q_proposal_id q) (w_store w) = Some p"
    "prop_status p = APPROVED" "e_clock env (w_calls w) < prop_expires_at p" by auto
qed

lemma choose_broker_right:
  assumes "choose_broker env q p w = (Inr (Inr b), w1)"
  shows "w1 = w" "select_broker env p = Inr b"
  using assms by (auto simp: choose_broker_def returnP_def raiseP_def block_item_left split: sum.splits exn.splits)

text \<open>The checks of stage 4 leave every table but the log alone.\<close>

interpretation untouched: automation_quiet "\<lambda>st. st_executions st = E \<and> st_proposals st = P \<and> st_queue st = Q" for E P Q
  by unfold_locales simp_all

definition no_automation_blockers :: "env \<Rightarrow> time \<Rightarrow> store \<Rightarrow> bool" where
  "no_automation_blockers env now st \<longleftrightarrow>
     (if e_automation env
      then \<forall>b \<in> set (execution_blockers env now st). kill_switch_enabled (e_settings env) \<and> b = ''automation_kill_switch_enabled''
      else exec_mode (e_settings env) = Mode_live \<longrightarrow> live_mode_blockers (e_settings env) = [])"

lemma validation_reasons_empty:
  assumes "validation_reasons env q p b n w = (Inr ([], qt, price), w1)"
  shows "no_automation_blockers env (e_clock env (w_calls w)) (w_store w)"
    and "quote_validation_reasons (e_settings env) qt n = []"
    and "price = quote_price_or qt (ord_proposed_price (prop_order p))"
    and "quote_drift_bps (prop_order p) price \<le> execution_max_entry_drift_bps (e_settings env) \<or>
         can_bypass_entry_drift_for_smoke (e_settings env) p"
    and "st_executions (w_store w1) = st_executions (w_store w)" "st_proposals (w_store w1) = st_proposals (w_store w)"
    and "st_queue (w_store w1) = st_queue (w_store w)"
proof -
  have drift: "after (drift_reasons env q p x) u (\<lambda>r w'. r = Inr [] \<longrightarrow>
      quote_drift_bps (prop_order p) x \<le> execution_max_entry_drift_bps (e_settings env) \<or>
      can_bypass_entry_drift_for_smoke (e_settings env) p)" for x u
    by (simp add: drift_reasons_def Let_def)
  have auto: "after (automation_blockers env) w (\<lambda>r w'. r = Inr [] \<longrightarrow>
      no_automation_blockers env (e_clock env (w_calls w)) (w_store w))"
    by (auto simp: automation_blockers_def no_automation_blockers_def Let_def filter_empty_conv)
  obtain w2 w8 where steps: "automation_blockers env w = (Inr [], w2)" "drift_reasons env q p price w8 = (Inr [], w1)"
    and rest: "quote_validation_reasons (e_settings env) qt n = []" "price = quote_price_or qt (ord_proposed_price (prop_order p))"
    using assms unfolding validation_reasons_def Let_def
    by (elim bindP_right, simp only: returnP_def prod.inject sum.inject append_is_Nil_conv) blast
  show "no_automation_blockers env (e_clock env (w_calls w)) (w_store w)" using afterD [OF auto steps(1)] by simp
  show "quote_validation_reasons (e_settings env) qt n = []" "price = quote_price_or qt (ord_proposed_price (prop_order p))"
    by (fact rest)+
  show "quote_drift_bps (prop_order p) price \<le> execution_max_entry_drift_bps (e_settings env) \<or>
      can_bypass_entry_drift_for_smoke (e_settings env) p" using afterD [OF drift steps(2)] by simp
  have "keeps (\<lambda>st. st_executions st = st_executions (w_store w) \<and> st_proposals st = st_proposals (w_store w) \<and>
      st_queue st = st_queue (w_store w)) (validation_reasons env q p b n)"
    by (rule untouched.keeps_validation)
  from keepsD [OF this assms]
  show "st_executions (w_store w1) = st_executions (w_store w)" "st_proposals (w_store w1) = st_proposals (w_store w)"
    "st_queue (w_store w1) = st_queue (w_store w)" by auto
qed

lemma quote_checked_right:
  assumes "quote_checked env q p b n w = (Inr (Inr (q', qt, price)), w1)"
  shows "validation_reasons env q p b n w = (Inr ([], qt, price), w1)"
    and "q' = q\<lparr>q_latest_quote_price := Some price, q_latest_quote_timestamp := mq_timestamp qt,
               q_ready_for_execution := True, q_validation_reason := Some ''ready''\<rparr>"
  using assms unfolding quote_checked_def
  by (auto elim!: bindP_right simp: Let_def returnP_def block_item_left split: if_splits prod.splits)

lemma build_context_cong:
  assumes "st_executions st' = st_executions st"
  shows "build_risk_context s now pf st' = build_risk_context s now pf st"
proof -
  have "count_since x st' = count_since x st" "daily_loss_stats x st' = daily_loss_stats x st"
    "period_realized_pnl x n st' = period_realized_pnl x n st" "recently_stopped_symbols s x st' = recently_stopped_symbols s x st"
    "entries_today_by_bucket x st' = entries_today_by_bucket x st" for x n
    using assms by (simp_all add: count_since_def daily_loss_stats_def realized_events_def period_realized_pnl_def
        recently_stopped_symbols_def entries_today_by_bucket_def execution_list_def Let_def)
  then show ?thesis by (simp only: build_risk_context_def)
qed

lemma risk_checked_right:
  assumes "risk_checked env q p b n w = (Inr (Inr (ctx, risk)), w1)"
  obtains t pf room where "build_risk_context (e_settings env) t pf (w_store w) = Inr ctx"
    "validate_order (e_settings env) (prop_order p) ctx room = Inr risk" "rv_passed risk" "w_store w1 = w_store w"
proof -
  from assms obtain w2 w3 room where c: "risk_contextP env b w = (Inr ctx, w2)"
    and r: "room_verdictP env (prop_order p) n w2 = (Inr room, w3)"
    and v: "validate_order (e_settings env) (prop_order p) ctx room = Inr risk" "rv_passed risk" "w1 = w3"
    unfolding risk_checked_def
    by (auto elim!: bindP_right simp: returnP_def liftP_def block_item_left split: if_splits)
  have "w_store w3 = w_store w2"
    using r by (auto simp: room_verdictP_def extP_def returnP_def Let_def split: if_splits)
  with risk_contextP_calls [OF c] v have "w_store w1 = w_store w" by simp
  with v that show thesis by (rule_tac risk_contextP_built [OF c]) blast
qed

lemma governor_result:
  "apply_drawdown_governor env p ctx w = (r, w1) \<Longrightarrow>
     r = Inr (p\<lparr>prop_order := governed_order (e_settings env) ctx (prop_order p)\<rparr>) \<and>
     st_executions (w_store w1) = st_executions (w_store w) \<and> st_queue (w_store w1) = st_queue (w_store w) \<and>
     st_proposals (w_store w1) = st_proposals (w_store w)"
  by (auto simp: apply_drawdown_governor_def governed_order_def Let_def prog_defs split: if_splits)

definition bracket_min_rr :: "app_settings \<Rightarrow> trade_proposal \<Rightarrow> pyfloat" where
  "bracket_min_rr s p = (if can_bypass_entry_drift_for_smoke s p then 0 else execution_min_reward_to_risk_at_quote s)"

lemma bracket_checked_right:
  assumes "bracket_checked env q p n x w = (Inr (Inr u), w1)"
  shows "w1 = w" "n = ''alpaca'' \<Longrightarrow> alpaca_require_bracket_orders (e_settings env) \<Longrightarrow>
    alpaca_bracket_reasons (prop_order p) x (bracket_min_rr (e_settings env) p) = []"
  using assms by (auto simp: bracket_checked_def bracket_min_rr_def Let_def returnP_def block_item_left split: if_splits)

text \<open>
  The gates an item has passed when it is cleared, relative to the world in which processing
  began: approval, automation, quote, drift, risk, governor and bracket.
\<close>

definition gates_passed :: "env \<Rightarrow> world \<Rightarrow> clearance \<Rightarrow> bool" where
  "gates_passed env w c \<longleftrightarrow> (\<exists>p t pf room.
     proposal_get (q_proposal_id (ok_record c)) (w_store w) = Some p \<and> prop_status p = APPROVED \<and>
     e_clock env (w_calls w) < prop_expires_at p \<and>
     select_broker env p = Inr (ok_broker c, ok_broker_name c) \<and>
     no_automation_blockers env (e_clock env (w_calls w)) (w_store w) \<and>
     quote_validation_reasons (e_settings env) (ok_quote c) (ok_broker_name c) = [] \<and>
     ok_quote_price c = quote_price_or (ok_quote c) (ord_proposed_price (prop_order p)) \<and>
     (quote_drift_bps (prop_order p) (ok_quote_price c) \<le> execution_max_entry_drift_bps (e_settings env) \<or>
      can_bypass_entry_drift_for_smoke (e_settings env) p) \<and>
     build_risk_context (e_settings env) t pf (w_store w) = Inr (ok_context c) \<and>
     validate_order (e_settings env) (prop_order p) (ok_context c) room = Inr (ok_risk c) \<and> rv_passed (ok_risk c) \<and>
     ok_proposal c = p\<lparr>prop_order := governed_order (e_settings env) (ok_context c) (prop_order p)\<rparr> \<and>
     (ok_broker_name c = ''alpaca'' \<and> alpaca_require_bracket_orders (e_settings env) \<longrightarrow>
      alpaca_bracket_reasons (prop_order (ok_proposal c)) (ok_quote_price c)
        (bracket_min_rr (e_settings env) (ok_proposal c)) = []))"

lemma execution_blockers_cong: "st_runtime st' = st_runtime st \<Longrightarrow> execution_blockers env now st' = execution_blockers env now st"
  by (simp add: execution_blockers_def scan_blockers_def kill_switch_on_def is_paused_def runtime_get_def Let_def)

lemma no_automation_blockers_cong:
  "st_runtime st' = st_runtime st \<Longrightarrow> no_automation_blockers env now st' = no_automation_blockers env now st"
  by (simp only: no_automation_blockers_def execution_blockers_cong [of st' st])

lemma clear_item_right:
  assumes "clear_item env qid w = (Inr (Inr c), w1)"
  shows "gates_passed env w c" "q_id (ok_record c) = qid"
    and "\<exists>q. queue_get qid (w_store w1) = Some q \<and> q_payload q = q_payload (ok_record c) \<and> \<not> execution_done (q_payload q) (w_store w)"
proof -
  obtain q0 wa q wb p wc broker name wd q' qt price we where
    a: "already_processed env qid w = (Inr (Inr q0), wa)" and b: "claim_item env q0 wa = (Inr (Inr q), wb)"
    and p: "approved_proposal env q wb = (Inr (Inr p), wc)" and d: "choose_broker env q p wc = (Inr (Inr (broker, name)), wd)"
    and e: "quote_checked env q p broker name wd = (Inr (Inr (q', qt, price)), we)"
    and f: "risk_and_bracket env q' p broker name qt price we = (Inr (Inr c), w1)"
    using assms unfolding clear_item_def
    by (elim stageP_right3 stageP_right2 stageP_right) blast
  note A = already_processed_right [OF a]
  have id0: "q_id q0 = qid" using A(2) by (rule queue_get_id)
  have "queue_get (q_id q0) (w_store wa) = Some q0" using A by (simp add: id0)
  note B = claim_item_right [OF b this]
  note C = approved_proposal_right [OF p]
  note D = choose_broker_right [OF d]
  note E = quote_checked_right [OF e]
  note V = validation_reasons_empty [OF E(1)]
  obtain ctx risk wf p' wg wh where
    r: "risk_checked env q' p broker name we = (Inr (Inr (ctx, risk)), wf)"
    and g: "apply_drawdown_governor env p ctx wf = (Inr p', wg)"
    and k: "bracket_checked env q' p' name price wg = (Inr (Inr ()), wh)"
    and c: "c = \<lparr>ok_record = q', ok_proposal = p', ok_broker = broker, ok_broker_name = name,
       ok_quote = qt, ok_quote_price = price, ok_context = ctx, ok_risk = risk\<rparr>" and w1: "w1 = wh"
    using f unfolding risk_and_bracket_def
    by (elim stageP_right2 stageP_right bindP_right) (simp add: returnP_def)
  obtain t pf room where R: "build_risk_context (e_settings env) t pf (w_store we) = Inr ctx"
    "validate_order (e_settings env) (prop_order p) ctx room = Inr risk" "rv_passed risk" "w_store wf = w_store we"
    by (rule risk_checked_right [OF r])
  note G = governor_result [OF g] and K = bracket_checked_right [OF k]
  have store: "st_proposals (w_store wb) = st_proposals (w_store w)" "st_executions (w_store wb) = st_executions (w_store w)"
    "st_runtime (w_store wb) = st_runtime (w_store w)"
    by (subst B(2), simp add: A(1))+
  have bctx: "build_risk_context (e_settings env) t pf (w_store w) = Inr ctx"
    using R(1) build_context_cong [of "w_store we" "w_store w" "e_settings env" t pf] V(5) D(1) C(1) store by simp
  have prp: "proposal_get (q_proposal_id q') (w_store w) = Some p"
    using C(2) E(2) store by (simp add: proposal_get_def)
  have now: "w_calls wb = w_calls w" using B(1) A(1) by simp
  show "gates_passed env w c"
    unfolding gates_passed_def c clearance.simps
    apply (intro exI [of _ p] exI [of _ t] exI [of _ pf] exI [of _ room] conjI prp C(3) D(2) V(2,3,4) bctx R(2,3))
    using C(4) V(1) G K(2) no_automation_blockers_cong [OF store(3)] by (simp_all add: now C(1) D(1))
  show "q_id (ok_record c) = qid" using B(3) E(2) id0 by (simp add: c)
  show "\<exists>q. queue_get qid (w_store w1) = Some q \<and> q_payload q = q_payload (ok_record c) \<and> \<not> execution_done (q_payload q) (w_store w)"
    using A(3) B(5,7) E(2) V(7) R(4) G K(1) w1 C(1) D(1) id0
    by (intro exI [of _ q]) (simp add: c queue_get_def)
qed

text \<open>A submission can only come from the stage after clearance.\<close>

lemma submission_cleared:
  assumes "process_queue_item env qid w = (r, w')" "c \<in> set (new_calls w w')" "is_submission c"
  obtains cl w1 where "clear_item env qid w = (Inr (Inr cl), w1)" "submit_cleared env cl w1 = (r, w')"
    "c \<in> set (new_calls w1 w')"
proof -
  obtain x w1 where cl: "clear_item env qid w = (x, w1)" by (cases "clear_item env qid w")
  have none: "\<not> is_submission d" if "d \<in> set (new_calls w w1)" for d
    using at_most_0_new [OF calls_clear_item cl that] .
  note ext = at_most_new(1) [OF calls_clear_item cl]
  show thesis
  proof (cases "\<exists>y. x = Inr (Inr y)")
    case True
    then obtain y where x: "x = Inr (Inr y)" by blast
    with assms(1) cl have sub: "submit_cleared env y w1 = (r, w')" by (simp add: process_queue_item_def bindP_def)
    have "new_calls w w' = new_calls w w1 @ new_calls w1 w'"
      by (rule new_calls_trans [OF ext at_most_new(1) [OF calls_submit_cleared sub]])
    with assms(2,3) none have "c \<in> set (new_calls w1 w')" by auto
    with cl x sub show thesis by (intro that) simp_all
  next
    case False
    with assms(1) cl have "w' = w1"
      by (auto simp: process_queue_item_def bindP_def returnP_def split: sum.splits)
    with assms(2,3) none show thesis by blast
  qed
qed

text \<open>The submissions of one clearance, when they all satisfy a condition.\<close>

definition bad_submission :: "(ext_call \<Rightarrow> bool) \<Rightarrow> ext_call \<Rightarrow> bool" where
  "bad_submission good c \<longleftrightarrow> is_submission c \<and> \<not> good c"

lemma bad_weaken: "at_most is_submission 0 m \<Longrightarrow> at_most (bad_submission good) 0 m"
  by (erule at_most_weaken) (simp add: bad_submission_def)

lemma bindP_lift [simp]: "bindP (liftP (Inr x)) f = f x" "bindP (liftP (Inl e)) f = raiseP e"
  by (auto simp: bindP_def liftP_def raiseP_def)

lemma bad_execute_proposal:
  assumes "\<And>o1. good (Open_market_order_by_amount (cl_id (e_trader_broker env)) o1 coid)"
    "\<And>sy. good (Close_position (cl_id (e_trader_broker env)) sy)"
  shows "at_most (bad_submission good) 0 (execute_proposal env pid coid)"
  unfolding execute_proposal_def Let_def trader_submit_def
  by (intro at_most_bind at_most_if at_most_ext bad_weaken calls_trader_check calls_intros)
    (simp_all add: bad_submission_def assms)

lemma bad_execute_with_broker:
  assumes "broker_name = ''etoro'' \<Longrightarrow> at_most (bad_submission good) 0 (execute_proposal env (prop_id p) coid)"
    and "\<And>qty. order_quantity (e_settings env) (prop_order p) broker_name x = Inr qty \<Longrightarrow> cl_submit_order broker \<Longrightarrow>
       at_most (bad_submission good) 0 (submit_protected env broker broker_name (prop_order p) qty coid)"
    and "cl_open_market_order_by_amount broker \<Longrightarrow> \<not> cl_submit_order broker \<Longrightarrow>
       good (Open_market_order_by_amount (cl_id broker) (prop_order p) coid)"
  shows "at_most (bad_submission good) 0 (execute_with_broker env p broker broker_name x coid)"
proof -
  have l: "at_most (bad_submission good) 0 (learningP env e i)" for e i
    by (rule bad_weaken) (intro calls_intros, simp)
  have s: "at_most (bad_submission good) 0 (bindP (liftP (order_quantity (e_settings env) (prop_order p) broker_name x)) (\<lambda>qty.
      bindP (submit_protected env broker broker_name (prop_order p) qty coid) (\<lambda>be. record_broker_execution env p broker_name coid be)))"
    if "cl_submit_order broker"
    using assms(2) [OF _ that]
    by (cases "order_quantity (e_settings env) (prop_order p) broker_name x")
      (auto intro!: at_most_bind at_most_raise bad_weaken [OF calls_record_broker])
  show ?thesis
    unfolding execute_with_broker_def
    using assms(1,3) s
    by (auto intro!: at_most_if at_most_bind [OF l] at_most_bind [OF at_most_ext] at_most_raise bad_weaken [OF calls_record_submission]
        simp: bad_submission_def)
qed

lemma bad_submit_cleared:
  assumes "at_most (bad_submission good) 0
    (execute_with_broker env (ok_proposal c) (ok_broker c) (ok_broker_name c) (ok_quote_price c) (q_client_order_id (ok_record c)))"
  shows "at_most (bad_submission good) 0 (submit_cleared env c)"
  unfolding submit_cleared_def route_def Let_def
  by (intro at_most_bind at_most_if at_most_catch at_most_read at_most_return at_most_sum assms
      bad_weaken [OF calls_simulate_fill] bad_weaken [OF calls_submission_failed] bad_weaken [OF calls_finish])

lemma governed_order_fields [simp]:
  "ord_symbol (governed_order s ctx o1) = ord_symbol o1" "ord_side (governed_order s ctx o1) = ord_side o1"
  "ord_stop_loss (governed_order s ctx o1) = ord_stop_loss o1" "ord_take_profit (governed_order s ctx o1) = ord_take_profit o1"
  "ord_asset_class (governed_order s ctx o1) = ord_asset_class o1"
  by (simp_all add: governed_order_def)

lemma bracket_reasons_Nil:
  assumes "alpaca_bracket_reasons o1 x rr = []"
  shows "ord_side o1 = Buy \<and> (\<exists>sl tp. ord_stop_loss o1 = Some sl \<and> ord_take_profit o1 = Some tp \<and> sl < x \<and> x < tp \<and>
    (0 < rr \<longrightarrow> rr \<le> (tp - x) / (x - sl)))"
  using assms by (auto simp: alpaca_bracket_reasons_def Let_def split: if_splits option.splits)

lemma whole_share_quantity:
  assumes "order_quantity s o1 ''alpaca'' x = Inr qty" "\<not> is_crypto_order o1"
  shows "1 \<le> \<lfloor>qty\<rfloor>" "of_int \<lfloor>qty\<rfloor> * max x (1/100) \<le> capped_amount s o1"
proof -
  let ?m = "max x (1/100)" and ?a = "capped_amount s o1"
  have m: "0 < ?m" by (simp add: max_def)
  have q: "qty = of_int \<lfloor>?a / ?m\<rfloor>" "1 \<le> \<lfloor>?a / ?m\<rfloor>"
    using assms by (auto simp: order_quantity_def Let_def split: if_splits)
  then show "1 \<le> \<lfloor>qty\<rfloor>" by simp
  have "of_int \<lfloor>?a / ?m\<rfloor> * ?m \<le> ?a / ?m * ?m" using m by (intro mult_right_mono) simp_all
  with m q show "of_int \<lfloor>qty\<rfloor> * ?m \<le> ?a" by simp
qed

text \<open>A bracket order as it should be: a long with its legs around the quote, whole shares within the cap.\<close>

definition good_bracket :: "app_settings \<Rightarrow> trade_order \<Rightarrow> pyfloat \<Rightarrow> ext_call \<Rightarrow> bool" where
  "good_bracket s o1 x c = (case c of Submit_bracket_order cid sy side qty tp sl coid \<Rightarrow>
       sy = ord_symbol o1 \<and> side = Buy \<and> sl < x \<and> x < tp \<and> 1 \<le> qty \<and> of_int qty * max x (1/100) \<le> capped_amount s o1
     | _ \<Rightarrow> True)"

lemma bad_bracket:
  assumes "gates_passed env w cl" "\<not> is_crypto_order (prop_order (ok_proposal cl))"
  shows "at_most (bad_submission (good_bracket (e_settings env) (prop_order (ok_proposal cl)) (ok_quote_price cl))) 0
    (submit_cleared env cl)"
proof (rule bad_submit_cleared, rule bad_execute_with_broker, rule bad_execute_proposal)
  fix qty
  let ?s = "e_settings env" and ?o = "prop_order (ok_proposal cl)" and ?x = "ok_quote_price cl"
    and ?n = "ok_broker_name cl" and ?coid = "q_client_order_id (ok_record cl)"
  assume q: "order_quantity ?s ?o ?n ?x = Inr qty"
  show "at_most (bad_submission (good_bracket ?s ?o ?x)) 0 (submit_protected env (ok_broker cl) ?n ?o qty ?coid)"
  proof (cases "?n = ''alpaca'' \<and> alpaca_require_bracket_orders ?s")
    case True
    with assms(1) have "alpaca_bracket_reasons ?o ?x (bracket_min_rr ?s (ok_proposal cl)) = []"
      unfolding gates_passed_def by blast
    from bracket_reasons_Nil [OF this] obtain sl tp where legs: "ord_side ?o = Buy" "ord_stop_loss ?o = Some sl"
      "ord_take_profit ?o = Some tp" "sl < ?x" "?x < tp" by blast
    from q True have "order_quantity ?s ?o ''alpaca'' ?x = Inr qty" by simp
    from whole_share_quantity [OF this assms(2)] have "good_bracket ?s ?o ?x
        (Submit_bracket_order (cl_id (ok_broker cl)) (ord_symbol ?o) Buy \<lfloor>qty\<rfloor> tp sl ?coid)"
      using legs by (simp add: good_bracket_def)
    then show ?thesis
      using assms(2) legs
      by (auto simp: submit_protected_def required_price_def bad_submission_def good_bracket_def
          intro!: at_most_if at_most_ext at_most_raise)
  next
    case False
    then show ?thesis
      by (auto simp: submit_protected_def bad_submission_def good_bracket_def intro!: calls_intros)
  qed
qed (simp_all add: good_bracket_def)

subsection \<open>A run on concrete data\<close>

definition queued_world :: world where
  "queued_world = snd (enqueue_approved_proposal demo_env ''prop_1'' (demo_world APPROVED))"

definition processed_world :: world where
  "processed_world = snd (process_queue_item demo_env ''queue_1'' queued_world)"

definition demo_bracket :: ext_call where
  "demo_bracket = Submit_bracket_order ''alpaca'' ''NVDA'' Buy 5 104 98 (Some ''prop_1:queue_1:v1'')"

lemma demo_run:
  obtains q where "process_queue_item demo_env ''queue_1'' queued_world = (Inr q, processed_world)"
    "demo_bracket \<in> set (new_calls queued_world processed_world)"
proof -
  have "case process_queue_item demo_env ''queue_1'' queued_world of
      (Inl e, w') \<Rightarrow> False | (Inr q, w') \<Rightarrow> demo_bracket \<in> set (new_calls queued_world w')"
    by code_simp
  then show thesis using that by (auto simp: processed_world_def split: prod.splits sum.splits)
qed

lemma demo_is_submission: "is_submission demo_bracket"
  by (simp add: demo_bracket_def)

lemma demo_orders: "\<forall>p \<in> set (st_proposals (w_store queued_world)). \<not> is_crypto_order (prop_order p) \<and>
    order_valid (prop_order p) \<and> has_decimals 2 (ord_amount_usd (prop_order p))"
  by code_simp

subsection \<open>Properties\<close>



text \<open>
  the kill switch stops the queue. While the configured kill switch is on, or the runtime
  one is on and the automation service is wired in, processing an item sends no order.
\<close>

theorem kill_switch_stops_queue:
  assumes "process_queue_item env qid w = (r, w')"
    and "kill_switch_enabled (e_settings env) \<or> e_automation env \<and> kill_switch_on (e_settings env) (w_store w)"
  shows "filter is_submission (new_calls w w') = []"
proof (rule ccontr)
  assume "filter is_submission (new_calls w w') \<noteq> []"
  then obtain c where "c \<in> set (new_calls w w')" "is_submission c" by (auto simp: filter_empty_conv)
  from submission_cleared [OF assms(1) this] obtain cl w1 where "clear_item env qid w = (Inr (Inr cl), w1)" by blast
  from clear_item_right(1) [OF this] obtain p :: trade_proposal and room where
    auto: "no_automation_blockers env (e_clock env (w_calls w)) (w_store w)"
    and risk: "validate_order (e_settings env) (prop_order p) (ok_context cl) room = Inr (ok_risk cl)" "rv_passed (ok_risk cl)"
    unfolding gates_passed_def by blast
  have off: "\<not> kill_switch_enabled (e_settings env)"
    using validate_passedD [OF risk] by (simp add: order_admissible_def within_losses_def)
  with assms(2) have "e_automation env" "kill_switch_on (e_settings env) (w_store w)" by auto
  with auto off show False
    by (auto simp: no_automation_blockers_def execution_blockers_def scan_blockers_def Let_def)
qed

theorem kill_switch_stops_queue_witness:
  "filter is_submission (new_calls (snd (enable_kill_switch demo_env ''drill'' False queued_world))
     (snd (process_queue_item demo_env ''queue_1'' (snd (enable_kill_switch demo_env ''drill'' False queued_world))))) = []"
proof (rule kill_switch_stops_queue [OF prod.collapse [symmetric]], rule disjI2)
  show "e_automation demo_env \<and> kill_switch_on (e_settings demo_env)
      (w_store (snd (enable_kill_switch demo_env ''drill'' False queued_world)))"
    by code_simp
qed





text \<open>
  C30: processing the queue preserves the store's invariants, one open item per symbol and unique
  execution and broker ids among them, and never lifts the runtime kill switch.
\<close>

theorem queue_processing_preserves_invariants:
  assumes "process_ready_queue env limit w = (r, w') \<or> enqueue_approved_proposal env pid w = (r2, w')"
  shows "(store_inv (w_store w) \<longrightarrow> store_inv (w_store w')) \<and>
    (killed (w_store w) \<longrightarrow> killed (w_store w'))"
  using assms keepsD [OF keyed.keeps_process_ready] keepsD [OF keyed.keeps_enqueue]
    keepsD [OF kill.keeps_process_ready] keepsD [OF kill.keeps_enqueue] by blast+

theorem queue_processing_preserves_invariants_witness: "store_inv (w_store (snd (process_ready_queue demo_env 5 queued_world)))"
proof -
  have "store_inv (w_store (demo_world APPROVED))" by code_simp
  then have "store_inv (w_store queued_world)"
    unfolding queued_world_def by (rule keepsD [OF keyed.keeps_enqueue prod.collapse [symmetric]])
  with queue_processing_preserves_invariants [OF disjI1 [OF prod.collapse [symmetric]]] show ?thesis by blast
qed

end
