(* ===== verification/Settlement.thy ===== *)
theory Settlement
  imports Coordinator_Safety
begin

text \<open>
  Settled queue items (src/app/execution/coordinator.py): once a run of
  \<open>process_queue_item\<close> has sent an order and returned, the item carries the id of a stored
  execution, and every later run returns at its first check without calling anything.
\<close>

subsection \<open>Rows are never deleted\<close>

definition exec_ids :: "store \<Rightarrow> string set" where
  "exec_ids st = set (map ex_id (st_executions st))"

definition queue_ids :: "store \<Rightarrow> string set" where
  "queue_ids st = set (map q_id (st_queue st))"

lemma claim_row_ids:
  assumes "claim_for_processing now qid stale st = Inr (b, st')"
  shows "queue_ids st' = queue_ids st \<and> exec_ids st' = exec_ids st"
proof -
  have ids: "map q_id (map (\<lambda>q. if h q then q\<lparr>q_status := PROCESSING, q_updated_at := now\<rparr> else q) rows) = map q_id rows" for h rows
    by simp
  from assms show ?thesis
    by (auto simp: claim_for_processing_def Let_def queue_ids_def exec_ids_def ids simp del: set_map map_map split: if_splits)
qed

lemma create_ids:
  "execution_create e st = Inr (e', st') \<Longrightarrow> exec_ids st' = insert (ex_id e) (exec_ids st) \<and> queue_ids st' = queue_ids st \<and> ex_id e' = ex_id e"
  by (auto simp: execution_create_def exec_ids_def queue_ids_def Let_def split: if_splits)

lemma update_ids:
  "execution_update e st = Inr st' \<Longrightarrow> exec_ids st' = exec_ids st \<and> queue_ids st' = queue_ids st"
  "queue_update q st = Inr st' \<Longrightarrow> exec_ids st' = exec_ids st \<and> queue_ids st' = queue_ids st"
  by (auto simp: execution_update_def queue_update_def exec_ids_def queue_ids_def Let_def executions.keys_update queue.keys_update
      simp del: set_map split: if_splits)

interpretation rows: automation_invariant "\<lambda>st. E \<subseteq> exec_ids st \<and> Q \<subseteq> queue_ids st" for E Q
  by unfold_locales
    (auto dest!: claim_row_ids create_ids update_ids,
     auto simp: exec_ids_def queue_ids_def log_run_def runtime_set_def proposal_update_def proposal_create_row_def signal_create_row_def
       queue_create_def position_update_def position_create_row_def trade_create_row_def snapshot_upsert_def replace_active_def
       record_reconciliation_def Let_def split: if_splits)

subsection \<open>Where executions come from\<close>

definition stores :: "execution_record prog \<Rightarrow> bool" where
  "stores m \<longleftrightarrow> (\<forall>w ex w'. m w = (Inr ex, w') \<longrightarrow> ex_id ex \<in> exec_ids (w_store w'))"

lemma keeps_exec: "keeps (\<lambda>st. {eid} \<subseteq> exec_ids st \<and> {} \<subseteq> queue_ids st) m \<Longrightarrow> m w = (r, w') \<Longrightarrow>
    eid \<in> exec_ids (w_store w) \<Longrightarrow> eid \<in> exec_ids (w_store w')"
  by (drule (1) keepsD) simp_all

lemma stores_bind: "(\<And>x. stores (f x)) \<Longrightarrow> stores (bindP m f)"
  unfolding stores_def by (blast elim: bindP_right)

lemma stores_raise: "stores (raiseP e)"
  by (simp add: stores_def raiseP_def)

lemma stores_if: "(b \<Longrightarrow> stores m) \<Longrightarrow> (\<not> b \<Longrightarrow> stores m') \<Longrightarrow> stores (if b then m else m')"
  by simp

text \<open>Steps after the execution was stored keep it, and the result may be any record of its id.\<close>

lemma stores_then:
  assumes "stores m" "\<And>ex. keeps (\<lambda>st. {ex_id ex} \<subseteq> exec_ids st \<and> {} \<subseteq> queue_ids st) (f ex)"
    and "\<And>ex w ex' w'. f ex w = (Inr ex', w') \<Longrightarrow> ex_id ex' = ex_id ex"
  shows "stores (bindP m f)"
  unfolding stores_def
proof (intro allI impI)
  fix w ex' w'
  assume "bindP m f w = (Inr ex', w')"
  then obtain ex w1 where m: "m w = (Inr ex, w1)" and f: "f ex w1 = (Inr ex', w')" by (rule bindP_right)
  from assms(1) m have "ex_id ex \<in> exec_ids (w_store w1)" unfolding stores_def by blast
  with keeps_exec [OF assms(2) f] assms(3) [OF f] show "ex_id ex' \<in> exec_ids (w_store w')" by simp
qed

lemma stores_create: "stores (create_execution env mk event)"
proof -
  have "after (tryStoreP (execution_create e)) w (\<lambda>r w'. \<forall>ex. r = Inr ex \<longrightarrow> ex_id ex \<in> exec_ids (w_store w'))" for e w
    by (auto simp: after_def tryStoreP_def split: sum.splits dest!: create_ids)
  then have made: "stores (tryStoreP (execution_create e))" for e
    by (auto simp: stores_def dest: afterD)
  show ?thesis
    unfolding create_execution_def
    by (rule stores_bind, rule stores_bind, rule stores_then [OF made], intro keeps_intros rows.keeps_learning)
      (auto elim: bindP_right simp: returnP_def)
qed

lemma stores_record_submission: "stores (record_submission env p n mk)"
  unfolding record_submission_def
  by (rule stores_then [OF stores_create], intro keeps_intros rows.keeps_ops rows.keeps_approvals rows.keeps_mirror)
    (auto elim!: bindP_right simp: returnP_def)

lemma stores_record_broker: "stores (record_broker_execution env p n coid be)"
  unfolding stores_def
proof (intro allI impI)
  fix w :: world and ex w'
  let ?old = "case be_broker_order_id be of None \<Rightarrow> None
    | Some b \<Rightarrow> if b = [] then None else execution_get_by_broker_order_id b (w_store w)"
  assume r: "record_broker_execution env p n coid be w = (Inr ex, w')"
  show "ex_id ex \<in> exec_ids (w_store w')"
  proof (cases ?old)
    case None
    with r stores_record_submission show ?thesis
      by (auto simp: record_broker_execution_def bindP_def readP_def stores_def)
  next
    case (Some old)
    then have old: "ex_id old \<in> exec_ids (w_store w)"
      by (auto simp: execution_get_by_broker_order_id_def exec_ids_def find_Some_iff split: option.splits if_splits)
    from r Some have "bindP (mark_executed env (prop_id p) (ex_id old)) (\<lambda>_. returnP old) w = (Inr ex, w')"
      by (simp add: record_broker_execution_def bindP_def readP_def)
    then obtain x where "mark_executed env (prop_id p) (ex_id old) w = (Inr x, w')" "ex = old"
      by (auto elim!: bindP_right simp: returnP_def)
    with keeps_exec [OF rows.keeps_mark_executed _ old] show ?thesis by blast
  qed
qed

lemma stores_execute_proposal: "stores (execute_proposal env pid coid)"
  unfolding execute_proposal_def Let_def
  by (rule stores_bind, rule stores_bind, rule stores_then [OF stores_create],
      intro keeps_intros rows.keeps_ops rows.keeps_approvals rows.keeps_learning rows.keeps_trader_submit)
    (auto elim!: bindP_right simp: returnP_def)

lemma stores_execute_with_broker: "stores (execute_with_broker env p b n x coid)"
  unfolding execute_with_broker_def
  by (intro stores_if stores_bind stores_raise stores_execute_proposal stores_record_broker stores_record_submission)

lemma stores_simulate_fill: "stores (simulate_fill env q p qt l d)"
  unfolding simulate_fill_def
  by (rule stores_bind, rule stores_then [OF stores_create], intro keeps_intros rows.keeps_approvals)
    (auto elim!: bindP_right simp: returnP_def)

subsection \<open>Settled items\<close>

definition settled :: "string \<Rightarrow> store \<Rightarrow> bool" where
  "settled qid st \<longleftrightarrow> (\<exists>q. queue_get qid st = Some q \<and> execution_done (q_payload q) st)"

lemma settled_log [simp]: "settled qid (log_run t ev d st) = settled qid st"
  by (simp add: settled_def queue_get_def execution_done_def execution_get_def)

text \<open>An update that writes the id of a stored execution into the payload settles the item.\<close>

lemma save_settles:
  assumes "save_queue q w = (Inr u, w')" "q_id q \<in> queue_ids (w_store w)"
    and "dict_get (q_payload q) ''execution_id'' = PStr eid" "eid \<in> exec_ids (w_store w)" "eid \<noteq> []"
  shows "settled (q_id q) (w_store w')"
proof -
  from assms(1) have st: "w_store w' = (w_store w)\<lparr>st_queue := row_update q_id queue_merge q (st_queue (w_store w))\<rparr>"
    by (auto simp: save_queue_def tryStoreP_def with_unit_def queue_update_def Let_def split: sum.splits if_splits)
  have "row_get q_id (q_id q) (st_queue (w_store w)) \<noteq> None"
    using assms(2) by (simp add: queue.get_None_iff queue_ids_def)
  then obtain old where "row_get q_id (q_id q) (st_queue (w_store w)) = Some old" by blast
  then have "queue_get (q_id q) (w_store w') = Some (queue_merge q old)"
    by (simp add: st queue_get_def queue.get_update)
  moreover have "row_get ex_id eid (st_executions (w_store w)) \<noteq> None"
    using assms(4) by (simp add: executions.get_None_iff exec_ids_def)
  ultimately show ?thesis
    using assms(3,5) by (auto simp: settled_def execution_done_def queue_merge_def execution_get_def st str_or_empty_def)
qed

lemma block_item_settles:
  assumes "block_item env q reason ev d w = (Inr r, w')" "q_id q \<in> queue_ids (w_store w)"
    and "dict_get (q_payload q) ''execution_id'' = PStr eid" "eid \<in> exec_ids (w_store w)" "eid \<noteq> []"
  shows "settled (q_id q) (w_store w')"
proof -
  let ?now = "e_clock env (w_calls w)"
  from assms(1) obtain u w1 where s: "save_queue (q\<lparr>q_status := BLOCKED, q_validation_reason := Some reason, q_updated_at := ?now\<rparr>) w = (Inr u, w1)"
    and "w_store w' = log_run (e_clock env (w_calls w1)) ev ([(''queue_id'', PStr (q_id q)), (''proposal_id'', PStr (q_proposal_id q))] @ d) (w_store w1)"
    unfolding block_item_def Let_def by (elim bindP_right) (auto simp: utc_now_def logP_def storeP_def returnP_def bindP_def)
  with save_settles [OF s, of eid] assms show ?thesis by simp
qed

lemma finish_item_settles:
  assumes "finish_item env q p ex w = (Inr r, w')" "q_id q \<in> queue_ids (w_store w)"
    and "ex_id ex \<in> exec_ids (w_store w)" "ex_id ex \<noteq> []"
  shows "settled (q_id q) (w_store w')"
proof -
  let ?now = "e_clock env (w_calls w)"
  from assms(1) obtain u w1 l where s: "save_queue (q\<lparr>q_status := Q_EXECUTED, q_executed_at := Some ?now, q_updated_at := ?now,
      q_payload := AList.update ''execution_id'' (PStr (ex_id ex)) (q_payload q)\<rparr>) w = (Inr u, w1)"
    and "w_store w' = log_run (e_clock env (w_calls w1)) ''execution_queue_executed'' l (w_store w1)"
    unfolding finish_item_def Let_def by (elim bindP_right) (auto simp: utc_now_def logP_def storeP_def returnP_def bindP_def)
  with save_settles [OF s, of "ex_id ex"] assms show ?thesis by simp
qed

lemma submission_failed_settles:
  assumes "submission_failed env q p n e w = (Inr r, w')" "q_id q \<in> queue_ids (w_store w)" "[] \<notin> exec_ids (w_store w')"
  shows "settled (q_id q) (w_store w')"
proof -
  obtain ex w1 where c: "create_execution env (\<lambda>eid now. new_execution eid now (prop_id p) ES_FAILED
        (execution_mode_value (exec_mode (e_settings env))) None (order_request (prop_order p) (q_client_order_id q))
        [(''broker'', PStr n)] (Some (exn_str e))) ''submitted'' w = (Inr ex, w1)"
    and b: "block_item env (q\<lparr>q_ready_for_execution := False,
        q_payload := AList.update ''execution_id'' (PStr (ex_id ex)) (q_payload q)\<rparr>) ''broker_submission_failed''
        ''execution_queue_broker_failed'' [(''symbol'', PStr (ord_symbol (prop_order p))), (''broker'', PStr n),
        (''error'', PStr (exn_str e))] w1 = (Inr r, w')"
    using assms(1) unfolding submission_failed_def by (rule bindP_right)
  have ex: "ex_id ex \<in> exec_ids (w_store w1)" using stores_create c unfolding stores_def by blast
  have "{} \<subseteq> exec_ids (w_store w1) \<and> {q_id q} \<subseteq> queue_ids (w_store w1)"
    by (rule keepsD [OF rows.keeps_create_exec c]) (simp add: assms(2))
  moreover have "ex_id ex \<noteq> []"
    using keeps_exec [OF rows.keeps_block_item b ex] assms(3) by auto
  ultimately show ?thesis using block_item_settles [OF b _ _ ex] by simp
qed

lemma bindP_read: "bindP (readP f) g w = g (f (w_store w)) w"
  by (simp add: bindP_def readP_def)

text \<open>The two ways a routed order can end: stored as an execution, or failed and booked.\<close>

definition broker_attempt ::
  "env \<Rightarrow> queue_record \<Rightarrow> trade_proposal \<Rightarrow> client \<Rightarrow> string \<Rightarrow> pyfloat \<Rightarrow> (queue_record + execution_record) prog" where
  "broker_attempt env q p b n x = bindP (execute_with_broker env p b n x (q_client_order_id q)) (\<lambda>ex. returnP (Inr ex))"

definition simulated_attempt ::
  "env \<Rightarrow> queue_record \<Rightarrow> trade_proposal \<Rightarrow> market_quote \<Rightarrow> string \<Rightarrow> pydict \<Rightarrow> (queue_record + execution_record) prog" where
  "simulated_attempt env q p qt l d = bindP (simulate_fill env q p qt l d) (\<lambda>ex. returnP (Inr ex))"

lemma route_unfold:
  "route env q p b n qt x risk w =
    (if exec_mode (e_settings env) = Mode_paper \<and> paper_broker_choice (e_settings env) = PB_self_simulated
     then simulated_attempt env q p qt ''self_simulated'' [] w
     else if execution_done (q_payload q) (w_store w) then (Inr (Inl q), w)
     else catchP (broker_attempt env q p b n x)
       (\<lambda>e. if fallback_allowed (e_settings env) risk
            then simulated_attempt env q p qt ''self_simulated_fallback'' [(''broker_error'', PStr (exn_str e))]
            else submission_failed env q p n e) w)"
  unfolding route_def Let_def broker_attempt_def simulated_attempt_def
  by (simp only: bindP_read returnP_def split: if_split) blast

lemma attempt_stored:
  "broker_attempt env q p b n x w = (Inr r, w') \<Longrightarrow> \<exists>ex. r = Inr ex \<and> ex_id ex \<in> exec_ids (w_store w')"
  "simulated_attempt env q p qt l d w = (Inr r, w') \<Longrightarrow> \<exists>ex. r = Inr ex \<and> ex_id ex \<in> exec_ids (w_store w')"
  using stores_execute_with_broker stores_simulate_fill
  unfolding broker_attempt_def simulated_attempt_def stores_def
  by (auto elim!: bindP_right simp: returnP_def)

lemma submission_failed_left: "submission_failed env q p n e w = (Inr r, w') \<Longrightarrow> \<exists>q'. r = Inl q'"
  by (auto simp: submission_failed_def block_item_def Let_def returnP_def elim!: bindP_right)

lemma route_settles:
  assumes "route env q p b n qt x risk w = (Inr r, w')" "q_id q \<in> queue_ids (w_store w)" "[] \<notin> exec_ids (w_store w')"
  shows "case r of Inl q' \<Rightarrow> w' = w \<or> settled (q_id q) (w_store w') | Inr ex \<Rightarrow> ex_id ex \<in> exec_ids (w_store w')"
proof -
  have sim: ?thesis if "simulated_attempt env q p qt l d u = (Inr r, w')" for l d u
    using attempt_stored(2) [OF that] by auto
  have caught: ?thesis if "catchP (broker_attempt env q p b n x)
       (\<lambda>e. if fallback_allowed (e_settings env) risk
            then simulated_attempt env q p qt ''self_simulated_fallback'' [(''broker_error'', PStr (exn_str e))]
            else submission_failed env q p n e) w = (Inr r, w')"
    using that
  proof (cases rule: catchP_cases)
    case fine
    with attempt_stored(1) [OF fine(1)] show ?thesis by auto
  next
    case (err e w1)
    have "keeps (\<lambda>st. {} \<subseteq> exec_ids st \<and> {q_id q} \<subseteq> queue_ids st) (broker_attempt env q p b n x)"
      unfolding broker_attempt_def by (intro keeps_intros rows.keeps_execute_with_broker)
    from keepsD [OF this err(1)] assms(2) have row: "q_id q \<in> queue_ids (w_store w1)" by simp
    show ?thesis
    proof (cases "fallback_allowed (e_settings env) risk")
      case True
      with err(2) sim show ?thesis by simp
    next
      case False
      with err(2) have f: "submission_failed env q p n e w1 = (Inr r, w')" by simp
      from submission_failed_left [OF f] submission_failed_settles [OF f row assms(3)] show ?thesis by auto
    qed
  qed
  from assms(1) sim caught show ?thesis unfolding route_unfold by (auto split: if_splits)
qed

lemma settled_returns:
  assumes "settled qid (w_store w)"
  shows "\<exists>q. process_queue_item env qid w = (Inr q, w)"
  using assms unfolding settled_def
  by (auto simp: process_queue_item_def clear_item_def stageP_def already_processed_def bindP_def readP_def returnP_def)

subsection \<open>Properties\<close>

text \<open>
  C2: no order is ever sent twice for a queue item. When a run has sent an order and returned,
  then from every later state in which the item's row is unchanged and the executions are still
  stored, whatever else has happened, processing the item again returns at once: no call to a
  broker or to anything else, and no change to the store.
\<close>

theorem processed_items_are_never_resubmitted:
  assumes "process_queue_item env qid w = (Inr q, w1)" "c \<in> set (new_calls w w1)" "is_submission c"
    and "[] \<notin> exec_ids (w_store w1)"
    and "queue_get qid (w_store w2) = queue_get qid (w_store w1)" "exec_ids (w_store w1) \<subseteq> exec_ids (w_store w2)"
  shows "\<exists>q'. process_queue_item env2 qid w2 = (Inr q', w2)"
proof -
  obtain cl v where cl: "clear_item env qid w = (Inr (Inr cl), v)" and sub: "submit_cleared env cl v = (Inr q, w1)"
    and c: "c \<in> set (new_calls v w1)" by (rule submission_cleared [OF assms(1-3)])
  have id: "q_id (ok_record cl) = qid" by (rule clear_item_right(2) [OF cl])
  have row: "qid \<in> queue_ids (w_store v)"
    using clear_item_right(3) [OF cl] by (auto simp: queue_ids_def queue_get_def dest: queue.get_in queue.get_key)
  have "settled qid (w_store w1)"
    using sub unfolding submit_cleared_def
  proof (rule bindP_right)
    fix r v1
    assume r: "route env (ok_record cl) (ok_proposal cl) (ok_broker cl) (ok_broker_name cl) (ok_quote cl) (ok_quote_price cl)
        (ok_risk cl) v = (Inr r, v1)" (is "?route v = _")
      and f: "(case r of Inl q' \<Rightarrow> returnP q' | Inr ex \<Rightarrow> finish_item env (ok_record cl) (ok_proposal cl) ex) v1 = (Inr q, w1)"
    have kept: "exec_ids (w_store v1) \<subseteq> exec_ids (w_store w1)" "qid \<in> queue_ids (w_store v1)"
      using keepsD [OF rows.keeps_finish, of env "ok_record cl" "ok_proposal cl" _ v1 "Inr q" w1 "exec_ids (w_store v1)" "{}"]
        keepsD [OF rows.keeps_route r, of "{}" "{qid}"] f row by (auto simp: returnP_def split: sum.splits)
    then have ne: "[] \<notin> exec_ids (w_store v1)" using assms(4) by blast
    note s = route_settles [OF r _ ne, unfolded id, OF row]
    show "settled qid (w_store w1)"
    proof (cases r)
      case (Inl q')
      with f have "w1 = v1" by (simp add: returnP_def)
      moreover have "v1 \<noteq> v" using c \<open>w1 = v1\<close> by (auto simp: new_calls_def)
      ultimately show ?thesis using s Inl by simp
    next
      case (Inr ex)
      with s ne have "ex_id ex \<noteq> []" by auto
      with Inr f s kept finish_item_settles [of env "ok_record cl" "ok_proposal cl" ex v1 q w1] id show ?thesis by auto
    qed
  qed
  then have "settled qid (w_store w2)"
    using assms(5,6) by (fastforce simp: settled_def execution_done_def execution_get_def executions.get_None_iff exec_ids_def
        simp flip: not_None_eq)
  then show ?thesis by (rule settled_returns)
qed

lemma demo_id_list: "map ex_id (st_executions (w_store processed_world)) = [''exec_6'']"
  by code_simp

lemma demo_ids: "exec_ids (w_store processed_world) = {''exec_6''}"
  unfolding exec_ids_def by (simp only: demo_id_list) simp

theorem processed_items_are_never_resubmitted_witness:
  "\<exists>q. process_queue_item demo_env ''queue_1'' processed_world = (Inr q, processed_world)"
  by (rule demo_run) (rule processed_items_are_never_resubmitted [OF _ _ demo_is_submission], assumption+, simp_all add: demo_ids)

end
