(* ===== verification/Queue_Cases.thy ===== *)
theory Queue_Cases
  imports Settlement
begin

text \<open>
  More about the execution queue (src/app/execution/coordinator.py): what enqueueing admits, and
  two runs in which the coordinator does not do what it means to.
\<close>

lemma no_open_item:
  assumes "latest_open_for_symbol sy st = None" "q \<in> set (st_queue st)" "queue_open q"
  shows "q_symbol q \<noteq> py_upper sy"
proof
  assume "q_symbol q = py_upper sy"
  with assms(2,3) have "filter (\<lambda>q. q_symbol q = py_upper sy \<and> queue_open q) (st_queue st) \<noteq> []"
    by (auto simp: filter_empty_conv)
  with hd_newest_first(1) [OF this, of q_created_at] assms(1) show False
    by (auto simp: latest_open_for_symbol_def split: list.splits)
      (metis empty_iff list.set(1) set_newest_first set_empty)
qed

lemma queue_create_cases:
  obtains e where "queue_create q st = Inl e"
  | "queue_create q st = Inr (st\<lparr>st_queue := st_queue st @ [q]\<rparr>)" "q_id q \<notin> q_id ` set (st_queue st)"
  by (cases "queue_create q st") (auto simp: queue_create_def Let_def split: if_splits)

text \<open>The part after the proposal was read.\<close>

definition enqueue_read :: "env \<Rightarrow> trade_proposal \<Rightarrow> queue_record prog" where
  "enqueue_read env p = bindP (readP (latest_open_for_symbol (ord_symbol (prop_order p)))) (\<lambda>existing.
       if existing \<noteq> None then raiseP (duplicate_item p)
       else bindP (generate_id env ''queue'') (\<lambda>qid.
            bindP (utc_now env) (\<lambda>now.
            let record = new_queue_record env qid now p in
            bindP (catchP (tryStoreP (\<lambda>st. with_unit (queue_create record st))) (\<lambda>_. raiseP (duplicate_item p))) (\<lambda>_.
            bindP (logP env ''execution_queue_enqueued'' [(''queue_id'', PStr qid), (''proposal_id'', PStr (prop_id p)),
              (''symbol'', PStr (q_symbol record))]) (\<lambda>_.
            returnP record)))))"

lemma enqueue_unfold:
  "enqueue_approved_proposal env pid = bindP (get_proposal env pid) (\<lambda>p.
     if prop_status p \<noteq> APPROVED then raiseP (PermissionError ''Proposal must be approved before it can be queued'')
     else enqueue_read env p)"
  unfolding enqueue_approved_proposal_def enqueue_read_def ..

definition enqueued :: "env \<Rightarrow> trade_proposal \<Rightarrow> store \<Rightarrow> (exn + queue_record) \<Rightarrow> world \<Rightarrow> bool" where
  "enqueued env p st r w' \<longleftrightarrow> (case r of Inl e \<Rightarrow> st_queue (w_store w') = st_queue st
     | Inr q \<Rightarrow> latest_open_for_symbol (ord_symbol (prop_order p)) st = None \<and>
         (\<exists>qid now. q = new_queue_record env qid now p) \<and> q_id q \<notin> q_id ` set (st_queue st) \<and>
         st_queue (w_store w') = st_queue st @ [q])"

lemma enqueue_read_spec: "after (enqueue_read env p) w (enqueued env p (w_store w))"
proof -
  have stored: "after (bindP (catchP (tryStoreP (\<lambda>st. with_unit (queue_create q st))) (\<lambda>_. raiseP (duplicate_item p))) (\<lambda>_.
      bindP (logP env ev d) (\<lambda>_. returnP q))) v (enqueued env p (w_store w))"
    if "latest_open_for_symbol (ord_symbol (prop_order p)) (w_store w) = None" "\<exists>qid now. q = new_queue_record env qid now p"
      "w_store v = w_store w" for q ev d v
    using that by (cases rule: queue_create_cases [of q "w_store v"])
      (simp_all add: after_tryStore with_unit_def enqueued_def)
  show ?thesis
    unfolding enqueue_read_def
    by (cases "latest_open_for_symbol (ord_symbol (prop_order p)) (w_store w)")
      (auto simp: enqueued_def Let_def generate_id_def simp del: after_bind after_log
        simp add: after_bind [of "readP f" for f] after_bind [of "extP c a" for c a] after_bind [of "utc_now e" for e] intro!: stored)
qed

subsection \<open>Properties\<close>

text \<open>
  enqueueing admits one open item per symbol, for approved proposals only. An item that is
  created is queued, not yet ready, for a proposal that is approved and unexpired at that
  moment, carries the client order id derived from proposal and item, is the last row of the
  queue, and no row before it is open for its symbol. When enqueueing raises, the queue is as
  it was.
\<close>

theorem enqueue_admits_one_approved_item_per_symbol:
  assumes "enqueue_approved_proposal env pid w = (r, w')"
  shows "(\<forall>q. r = Inr q \<longrightarrow> (\<exists>p. proposal_get pid (w_store w) = Some p \<and> prop_status p = APPROVED \<and>
      e_clock env (w_calls w) < prop_expires_at p \<and> q_proposal_id q = pid \<and> q_status q = QUEUED \<and> \<not> q_ready_for_execution q \<and>
      q_client_order_id q = Some (take 32 (e_sha256_hex env (pid @ '':'' @ q_id q @ '':v1''))) \<and>
      st_queue (w_store w') = st_queue (w_store w) @ [q] \<and>
      (\<forall>q' \<in> set (st_queue (w_store w)). q_id q' \<noteq> q_id q \<and> (queue_open q' \<longrightarrow> q_symbol q' \<noteq> q_symbol q)))) \<and>
    (\<forall>e. r = Inl e \<longrightarrow> st_queue (w_store w') = st_queue (w_store w))"
proof -
  let ?good = "\<lambda>p r w'. proposal_get pid (w_store w) = Some p \<and> prop_status p = APPROVED \<and>
      e_clock env (w_calls w) < prop_expires_at p \<and> enqueued env p (w_store w) r w'"
  have "after (enqueue_approved_proposal env pid) w (\<lambda>r w'. (\<exists>p. ?good p r w') \<or>
      ((\<exists>e. r = Inl e) \<and> st_queue (w_store w') = st_queue (w_store w)))"
  proof (cases "proposal_get pid (w_store w)")
    case None
    then show ?thesis by (simp add: enqueue_unfold after_get_proposal)
  next
    case (Some p)
    let ?p = "effective (e_clock env (w_calls w)) p"
    have fresh: "?p = p \<and> e_clock env (w_calls w) < prop_expires_at p" if "prop_status ?p = APPROVED"
      using that by (auto simp: effective_def split: if_splits)
    show ?thesis
    proof (cases "prop_status ?p = APPROVED")
      case True
      with fresh Some show ?thesis
        unfolding enqueue_unfold after_bind after_get_proposal
        by (auto simp: Let_def intro: after_mono [OF enqueue_read_spec])
    next
      case False
      with Some show ?thesis by (auto simp: enqueue_unfold after_get_proposal Let_def)
    qed
  qed
  from afterD [OF this assms] show ?thesis
  proof
    assume "\<exists>p. ?good p r w'"
    then obtain p where p: "?good p r w'" ..
    then have "prop_id p = pid" by (auto dest: proposal_get_id)
    with p no_open_item show ?thesis
      by (cases r) (force simp: enqueued_def new_queue_record_def client_order_id_for_def)+
  qed auto
qed

theorem enqueue_admits_one_approved_item_per_symbol_witness:
  "\<exists>q. st_queue (w_store queued_world) = st_queue (w_store (demo_world APPROVED)) @ [q] \<and> q_status q = QUEUED"
proof -
  have "case enqueue_approved_proposal demo_env ''prop_1'' (demo_world APPROVED) of (Inl e, w') \<Rightarrow> False | (Inr q, w') \<Rightarrow> True"
    by code_simp
  then obtain q where "enqueue_approved_proposal demo_env ''prop_1'' (demo_world APPROVED) = (Inr q, queued_world)"
    by (auto simp: queued_world_def split: prod.splits sum.splits)
  from enqueue_admits_one_approved_item_per_symbol [OF this] show ?thesis by blast
qed

definition mirrored_env :: env where
  "mirrored_env = comparing_env\<lparr>e_parallel_broker := True, e_identity := (\<lambda>t. Inl (BrokerError ''demo api down''))\<rparr>"

text \<open>
  an order that was sent can be booked as a failed submission. When the demo account of the
  comparison mirror cannot be read after the primary order was sent, the exception leaves
  \<open>_execute_with_broker\<close>: the queue item ends blocked with \<open>broker_submission_failed\<close>, and beside
  the submitted execution a second, failed one is stored for the same proposal.
\<close>

theorem sent_order_booked_as_failed:
  "case process_queue_item mirrored_env ''queue_1'' queued_world of
     (Inl e, w') \<Rightarrow> False
   | (Inr q, w') \<Rightarrow> demo_bracket \<in> set (new_calls queued_world w') \<and> q_status q = BLOCKED \<and>
       q_validation_reason q = Some ''broker_submission_failed'' \<and>
       map ex_status (st_executions (w_store w')) = [ES_SUBMITTED, ES_FAILED]"
  by code_simp

definition governed_env :: env where
  "governed_env = demo_env\<lparr>e_settings := default_settings\<lparr>drawdown_governor_enabled := True, broker_for_equities := Use_etoro,
       max_daily_loss_usd := 10000, max_weekly_loss_usd := 10000\<rparr>,
     e_router := Some \<lparr>rt_alpaca = Some (demo_client ''alpaca''), rt_etoro = Some (demo_client ''etoro''),
       rt_equities_choice = Use_etoro, rt_non_equities_choice = Use_etoro, rt_crypto_choice = Use_alpaca,
       rt_emergency_clients = []\<rparr>,
     e_quote := (\<lambda>t. Inr (demo_quote\<lparr>mq_source := Some ''etoro''\<rparr>))\<rparr>"

definition losing_world :: world where
  "losing_world = queued_world\<lparr>w_store := (w_store queued_world)\<lparr>st_executions :=
     [(demo_exit ''e1'' 900 (-4000))\<lparr>ex_proposal_id := ''old''\<rparr>]\<rparr>\<rparr>"

text \<open>
  the drawdown governor has no effect on the eToro path. The governor logs the reduced
  amount, but the trader reads the stored proposal again and opens the full one.
\<close>

theorem governor_has_no_effect_at_etoro:
  "case process_queue_item governed_env ''queue_1'' losing_world of
     (Inl e, w') \<Rightarrow> False
   | (Inr q, w') \<Rightarrow> ''drawdown_governor_applied'' \<in> set (map log_event (st_logs (w_store w'))) \<and>
       Open_market_order_by_amount ''etoro'' demo_order (Some ''prop_1:queue_1:v1'') \<in> set (new_calls losing_world w') \<and>
       ord_amount_usd demo_order = 500"
  by code_simp

end
