(* ===== verification/Alpaca.thy ===== *)
theory Alpaca
  imports Trader
begin

text \<open>
  What \<open>AlpacaClient\<close> (src/app/broker/alpaca_client.py) makes of the orders the Alpaca SDK
  returns: the payload that reconciliation and the paper ledger read. The SDK's own order
  object, which is outside the repository, is a record of the attributes the code reads;
  numbers arrive as the SDK sends them (numbers, numeric text or nothing).
\<close>

record alpaca_leg =
  al_id :: string
  al_client_order_id :: string
  al_symbol :: string
  al_side :: string
  al_type :: string
  al_status :: string
  al_qty :: pyval
  al_filled_qty :: pyval
  al_filled_avg_price :: pyval
  al_limit_price :: pyval
  al_stop_price :: pyval
  al_created_at :: "time option"
  al_updated_at :: "time option"
  al_filled_at :: "time option"
  al_canceled_at :: "time option"

text \<open>An order is a leg with a class, a submission time and legs of its own.\<close>

record alpaca_order = alpaca_leg +
  ao_submitted_at :: "time option"
  ao_order_class :: string
  ao_legs :: "alpaca_leg list"

definition optional_float :: "pyval \<Rightarrow> pyfloat option" where
  "optional_float v = (if v = PNone \<or> v = PStr [] then None
     else case to_float v of Inl e \<Rightarrow> None | Inr x \<Rightarrow> Some x)"

definition float_or_zero :: "pyval \<Rightarrow> pyfloat" where
  "float_or_zero v = (case optional_float v of None \<Rightarrow> 0 | Some x \<Rightarrow> x)"

definition iso_timestamp :: "time option \<Rightarrow> pyval" where
  "iso_timestamp t = (case t of None \<Rightarrow> PNone | Some x \<Rightarrow> PTime x)"

definition leg_payload :: "alpaca_leg \<Rightarrow> pydict" where
  "leg_payload l = [
     (''broker_order_id'', PStr (al_id l)), (''client_order_id'', PStr (al_client_order_id l)),
     (''symbol'', PStr (py_upper (al_symbol l))), (''side'', PStr (al_side l)), (''type'', PStr (al_type l)),
     (''status'', PStr (al_status l)), (''qty'', PFloat (float_or_zero (al_qty l))),
     (''filled_qty'', PFloat (float_or_zero (al_filled_qty l))),
     (''filled_avg_price'', opt_float (optional_float (al_filled_avg_price l))),
     (''limit_price'', opt_float (optional_float (al_limit_price l))),
     (''stop_price'', opt_float (optional_float (al_stop_price l))),
     (''created_at'', iso_timestamp (al_created_at l)), (''updated_at'', iso_timestamp (al_updated_at l)),
     (''filled_at'', iso_timestamp (al_filled_at l)), (''canceled_at'', iso_timestamp (al_canceled_at l))]"

definition order_payload :: "alpaca_order \<Rightarrow> pydict" where
  "order_payload o1 = [
     (''broker_order_id'', PStr (al_id o1)), (''client_order_id'', PStr (al_client_order_id o1)),
     (''symbol'', PStr (py_upper (al_symbol o1))), (''side'', PStr (al_side o1)),
     (''qty'', PFloat (float_or_zero (al_qty o1))), (''status'', PStr (al_status o1)),
     (''submitted_at'', iso_timestamp (ao_submitted_at o1)),
     (''filled_qty'', PFloat (float_or_zero (al_filled_qty o1))),
     (''filled_avg_price'', opt_float (optional_float (al_filled_avg_price o1))),
     (''order_class'', PStr (ao_order_class o1)),
     (''legs'', PList (map (\<lambda>l. PDict (leg_payload l)) (ao_legs o1))),
     (''created_at'', iso_timestamp (al_created_at o1)), (''updated_at'', iso_timestamp (al_updated_at o1)),
     (''filled_at'', iso_timestamp (al_filled_at o1)), (''canceled_at'', iso_timestamp (al_canceled_at o1))]"

text \<open>The broker's order as reconciliation sees it: \<open>broker_order_id\<close> and \<open>response_payload\<close>.\<close>

record order_view =
  ov_broker_order_id :: string
  ov_payload :: pydict

definition order_view_of :: "alpaca_order \<Rightarrow> order_view" where
  "order_view_of o1 = \<lparr>ov_broker_order_id = al_id o1, ov_payload = order_payload o1\<rparr>"

definition get_capabilities :: "bool \<Rightarrow> pydict" where
  "get_capabilities paper = [(''supports_equities'', PBool True), (''supports_native_protection'', PBool True),
     (''supports_client_idempotency'', PBool True), (''supports_shorting'', PBool True),
     (''supports_borrow_checks'', PBool True), (''supports_financing_costs'', PBool False),
     (''verified'', PBool False), (''paper'', PBool paper)]"

subsection \<open>Reading a payload\<close>

text \<open>\<open>str(d.get(k) or "")\<close>, its lower case, and \<open>float(d.get(k) or 0.0)\<close>.\<close>

definition text_of :: "pydict \<Rightarrow> string \<Rightarrow> string" where
  "text_of d k = str_or_empty (dict_get d k)"

definition lower_of :: "pydict \<Rightarrow> string \<Rightarrow> string" where
  "lower_of d k = py_lower (text_of d k)"

definition float_of :: "pydict \<Rightarrow> string \<Rightarrow> exn + pyfloat" where
  "float_of d k = to_float (py_or (dict_get d k) (PFloat 0))"

definition legs_of :: "pydict \<Rightarrow> pydict list" where
  "legs_of d = map as_dict (as_list (dict_get d ''legs''))"

lemma str_or_empty_text [simp]: "str_or_empty (PStr s) = s" "str_or_empty PNone = []"
  by (simp_all add: str_or_empty_def)

lemma float_of_opt [simp]: "to_float (py_or (opt_float v) (PFloat 0)) = Inr (case v of None \<Rightarrow> 0 | Some x \<Rightarrow> x)"
  by (auto simp: opt_float_def py_or_def split: option.splits)

lemma float_of_float [simp]: "to_float (py_or (PFloat x) (PFloat 0)) = Inr x"
  by (simp add: py_or_def)

text \<open>The fields of a payload the client builds.\<close>

lemma order_payload_fields [simp]:
  "text_of (order_payload o1) ''broker_order_id'' = al_id o1"
  "text_of (order_payload o1) ''symbol'' = py_upper (al_symbol o1)"
  "text_of (order_payload o1) ''side'' = al_side o1"
  "text_of (order_payload o1) ''status'' = al_status o1"
  "text_of (order_payload o1) ''order_class'' = ao_order_class o1"
  "text_of (order_payload o1) ''order_type'' = []"
  "text_of (order_payload o1) ''type'' = []"
  "legs_of (order_payload o1) = map leg_payload (ao_legs o1)"
  "float_of (order_payload o1) ''filled_qty'' = Inr (float_or_zero (al_filled_qty o1))"
  "float_of (order_payload o1) ''filled_avg_price'' = Inr (float_or_zero (al_filled_avg_price o1))"
  by (simp_all add: order_payload_def text_of_def legs_of_def float_of_def dict_get_def float_or_zero_def comp_def)

lemma leg_payload_fields [simp]:
  "text_of (leg_payload l) ''status'' = al_status l" "text_of (leg_payload l) ''side'' = al_side l"
  "text_of (leg_payload l) ''type'' = al_type l" "text_of (leg_payload l) ''broker_order_id'' = al_id l"
  "float_of (leg_payload l) ''filled_qty'' = Inr (float_or_zero (al_filled_qty l))"
  "float_of (leg_payload l) ''filled_avg_price'' = Inr (float_or_zero (al_filled_avg_price l))"
  by (simp_all add: leg_payload_def text_of_def float_of_def dict_get_def float_or_zero_def)

end
