(* ===== verification/Reconciliation.thy ===== *)
theory Reconciliation
  imports Alpaca "HOL-Library.Word" "HOL-Library.Char_ord" "HOL-Library.List_Lexorder"
begin

text \<open>
  \<open>AlpacaReconciliationService\<close> (src/app/automation/reconciliation.py): the sweep that reads
  every order and position of the Alpaca account, updates executions and order snapshots,
  closes owned positions left without a stop, and trips the circuit breaker on unsafe drift.

  A fingerprint is the JSON text of its parts with sorted keys; the model keeps the value
  itself with its dictionaries sorted, of which that text is a faithful rendering. The
  governance tables, the learning service and the notifier are calls to the outside.
\<close>

unbundle bit_operations_syntax

subsection \<open>Text and checksums\<close>

fun py_contains :: "string \<Rightarrow> string \<Rightarrow> bool" where
  "py_contains p [] = (p = [])"
| "py_contains p (c # s) = (py_startswith (c # s) p \<or> py_contains p s)"

text \<open>\<open>int(s)\<close> on text: an optional sign and decimal digits.\<close>

definition parse_int :: "string \<Rightarrow> exn + int" where
  "parse_int s =
     (let (neg, u) = split_sign (py_strip s) in
      if u = [] \<or> \<not> list_all is_digit u then Inl (ValueError (''invalid literal for int() with base 10: '' @ s))
      else Inr (if neg then - digits_val u else digits_val u))"

text \<open>\<open>zlib.crc32\<close>, bit by bit with the reflected polynomial.\<close>

definition crc_bit :: "32 word \<Rightarrow> 32 word" where
  "crc_bit c = drop_bit 1 c XOR (if bit c 0 then 0xEDB88320 else 0)"

fun crc_feed :: "32 word \<Rightarrow> string \<Rightarrow> 32 word" where
  "crc_feed c [] = c"
| "crc_feed c (b # bs) = crc_feed ((crc_bit ^^ 8) (c XOR of_nat (of_char b))) bs"

definition crc32 :: "string \<Rightarrow> 32 word" where
  "crc32 s = NOT (crc_feed (- 1) s)"

primrec canon :: "pyval \<Rightarrow> pyval" where
  "canon PNone = PNone"
| "canon (PBool b) = PBool b"
| "canon (PInt i) = PInt i"
| "canon (PFloat x) = PFloat x"
| "canon (PStr s) = PStr s"
| "canon (PTime t) = PTime t"
| "canon (PList vs) = PList (map canon vs)"
| "canon (PDict d) = PDict (sort_key fst (map (map_prod (\<lambda>k. k) canon) d))"

definition fingerprint :: "pyval list \<Rightarrow> pyval" where
  "fingerprint parts = canon (PList parts)"

definition REFRESH_SLICES :: int where "REFRESH_SLICES = 12"
definition UNKNOWN_WRITE_BUDGET :: int where "UNKNOWN_WRITE_BUDGET = 150"

definition LIVE_LEG_STATUSES :: "string set" where
  "LIVE_LEG_STATUSES = {''new'', ''accepted'', ''held'', ''pending_new'', ''partially_filled'', ''accepted_for_bidding'',
     ''calculated''}"

definition QTY_HELD_MARKERS :: "string list" where
  "QTY_HELD_MARKERS = [''insufficient qty available'', ''40310000'', ''held_for_orders'']"

definition ALREADY_FLAT_MARKERS :: "string list" where
  "ALREADY_FLAT_MARKERS = [''position not found'', ''40410000'']"

definition PROTECTIVE_TYPES :: "string set" where
  "PROTECTIVE_TYPES = {''stop'', ''stop_limit'', ''stop-limit'', ''limit'', ''trailing_stop''}"

definition leg_is_live :: "pydict \<Rightarrow> bool" where
  "leg_is_live leg = (lower_of leg ''status'' \<in> LIVE_LEG_STATUSES)"

definition closing_side :: "portfolio_position \<Rightarrow> string" where
  "closing_side p = (if pos_quantity p < 0 then ''buy'' else ''sell'')"

definition FAILURE_COUNT_KEY :: string where "FAILURE_COUNT_KEY = ''reconciliation:consecutive_failures''"
definition LAST_RUN_KEY :: string where "LAST_RUN_KEY = ''reconciliation:last_run_at''"
definition LAST_STATUS_KEY :: string where "LAST_STATUS_KEY = ''reconciliation:last_status''"
definition LAST_ISSUES_KEY :: string where "LAST_ISSUES_KEY = ''reconciliation:last_issues''"
definition LAST_ALERT_SIGNATURE_KEY :: string where "LAST_ALERT_SIGNATURE_KEY = ''reconciliation:last_alert_signature''"
definition STREAM_KEY :: string where "STREAM_KEY = ''trade_stream:last_update_at''"

lemmas rec_key_defs = FAILURE_COUNT_KEY_def LAST_RUN_KEY_def LAST_STATUS_KEY_def LAST_ISSUES_KEY_def
  LAST_ALERT_SIGNATURE_KEY_def STREAM_KEY_def

subsection \<open>The service and its memory\<close>

record reconciler =
  rc_env :: env
  rc_alpaca :: "client option"
  rc_paper :: bool
  rc_governance :: bool
  rc_notifier :: bool
  rc_orders :: "ext_call list \<Rightarrow> exn + alpaca_order list"
  rc_order :: "ext_call list \<Rightarrow> exn + alpaca_order"

text \<open>A step on the service's memory; \<open>try: \<dots> finally: \<dots>\<close>; and a run whose exception is kept as a value.\<close>

definition sweepP :: "(sweep_state \<Rightarrow> 'a \<times> sweep_state) \<Rightarrow> 'a prog" where
  "sweepP f w = (let (x, s) = f (w_sweep w) in (Inr x, w\<lparr>w_sweep := s\<rparr>))"

definition finallyP :: "'a prog \<Rightarrow> unit prog \<Rightarrow> 'a prog" where
  "finallyP m n = bindP (catchP m (\<lambda>e. bindP n (\<lambda>_. raiseP e))) (\<lambda>x. bindP n (\<lambda>_. returnP x))"

definition tryP :: "'a prog \<Rightarrow> (exn + 'a) prog" where
  "tryP m = catchP (bindP m (\<lambda>x. returnP (Inr x))) (\<lambda>e. returnP (Inl e))"

definition acquire_lock :: "bool prog" where
  "acquire_lock = sweepP (\<lambda>s. (\<not> ss_locked s, s\<lparr>ss_locked := True\<rparr>))"

definition release_lock :: "unit prog" where
  "release_lock = sweepP (\<lambda>s. ((), s\<lparr>ss_locked := False\<rparr>))"

text \<open>The rolling refresh at the start of a sweep.\<close>

definition begin_sweep :: "unit prog" where
  "begin_sweep = sweepP (\<lambda>s.
     (let n = ss_sweep_no s + 1; slot = n mod REFRESH_SLICES in
      ((), s\<lparr>ss_sweep_no := n, ss_unknown_budget := UNKNOWN_WRITE_BUDGET,
            ss_written := filter (\<lambda>(k, f). uint (crc32 k) mod REFRESH_SLICES \<noteq> slot) (ss_written s)\<rparr>)))"

definition changed :: "string \<Rightarrow> pyval \<Rightarrow> bool prog" where
  "changed key fp = sweepP (\<lambda>s.
     (case map_of (ss_written s) key of
        Some prev \<Rightarrow> (prev \<noteq> fp, s)
      | None \<Rightarrow> if ss_unknown_budget s \<le> 0 then (False, s)
                else (True, s\<lparr>ss_unknown_budget := ss_unknown_budget s - 1\<rparr>)))"

definition note_written :: "string \<Rightarrow> pyval \<Rightarrow> unit prog" where
  "note_written key fp = sweepP (\<lambda>s. ((), s\<lparr>ss_written := AList.update key fp (ss_written s)\<rparr>))"

definition forget_written :: "string list \<Rightarrow> unit prog" where
  "forget_written keys = sweepP (\<lambda>s. ((), s\<lparr>ss_written := filter (\<lambda>(k, f). k \<notin> set keys) (ss_written s)\<rparr>))"

subsection \<open>Executions\<close>

text \<open>The instant a payload was filled at.\<close>

definition fill_time :: "pydict \<Rightarrow> time option" where
  "fill_time d = (case dict_get d ''filled_at'' of PTime t \<Rightarrow> Some t | _ \<Rightarrow> None)"

fun first_filled_leg_pnl :: "pyfloat \<Rightarrow> pyfloat \<Rightarrow> pydict list \<Rightarrow> exn + pyfloat" where
  "first_filled_leg_pnl entry_price entry_qty [] = Inr 0"
| "first_filled_leg_pnl entry_price entry_qty (leg # legs) =
     (if lower_of leg ''status'' \<noteq> ''filled'' then first_filled_leg_pnl entry_price entry_qty legs
      else case float_of leg ''filled_avg_price'' of Inl e \<Rightarrow> Inl e | Inr exit_price \<Rightarrow>
        (case float_of leg ''filled_qty'' of Inl e \<Rightarrow> Inl e | Inr exit_qty \<Rightarrow>
           if 0 < exit_price \<and> 0 < exit_qty
           then Inr (py_round 2 ((exit_price - entry_price) * min entry_qty exit_qty))
           else first_filled_leg_pnl entry_price entry_qty legs))"

definition realized_pnl :: "pydict \<Rightarrow> exn + pyfloat" where
  "realized_pnl payload =
     (case float_of payload ''filled_avg_price'' of Inl e \<Rightarrow> Inl e | Inr entry_price \<Rightarrow>
        (case float_of payload ''filled_qty'' of Inl e \<Rightarrow> Inl e | Inr entry_qty \<Rightarrow>
           if entry_price \<le> 0 \<or> entry_qty \<le> 0 then Inr 0
           else first_filled_leg_pnl entry_price entry_qty (legs_of payload)))"

fun exit_candidates :: "time \<Rightarrow> pydict list \<Rightarrow> exn + pydict list" where
  "exit_candidates entry_at [] = Inr []"
| "exit_candidates entry_at (item # items) =
     (case (case fill_time item of None \<Rightarrow> Inr False
            | Some t \<Rightarrow> if t \<le> entry_at then Inr False
                        else map_sum (\<lambda>e. e) (\<lambda>x. 0 < x) (float_of item ''filled_avg_price'')) of
        Inl e \<Rightarrow> Inl e
      | Inr keep \<Rightarrow> (case exit_candidates entry_at items of Inl e \<Rightarrow> Inl e
                    | Inr rest \<Rightarrow> Inr (if keep then item # rest else rest)))"

text \<open>\<open>min(candidates, key=filled_at)\<close>: the first of the earliest.\<close>

definition earliest :: "pydict list \<Rightarrow> pydict" where
  "earliest items = arg_min_list (\<lambda>d. case fill_time d of None \<Rightarrow> 0 | Some t \<Rightarrow> t) items"

definition standalone_exit :: "pydict \<Rightarrow> pydict list option \<Rightarrow> exn + pydict option" where
  "standalone_exit payload exit_orders =
     (case (exit_orders, fill_time payload) of
        (Some (x # xs), Some entry_at) \<Rightarrow>
          (case float_of payload ''filled_qty'' of Inl e \<Rightarrow> Inl e | Inr qty \<Rightarrow>
           if qty \<le> 0 \<or> lower_of payload ''side'' \<noteq> ''buy'' then Inr None
           else case float_of payload ''filled_avg_price'' of Inl e \<Rightarrow> Inl e | Inr price \<Rightarrow>
             if price \<le> 0 then Inr None
             else case exit_candidates entry_at (x # xs) of Inl e \<Rightarrow> Inl e
               | Inr cs \<Rightarrow> Inr (if cs = [] then None else Some (earliest cs)))
      | _ \<Rightarrow> Inr None)"

definition learning_event_type :: "pydict \<Rightarrow> string" where
  "learning_event_type payload =
     (if list_ex (\<lambda>leg. lower_of leg ''status'' = ''filled'' \<and> lower_of leg ''side'' = ''sell'') (legs_of payload) then ''closure''
      else if lower_of payload ''status'' = ''filled'' then ''fill''
      else if legs_of payload \<noteq> [] then ''protective_order_change'' else ''reconciled'')"

text \<open>The status the broker's status leads to; any other status leaves it alone.\<close>

definition reconciled_status :: "string \<Rightarrow> string \<Rightarrow> string" where
  "reconciled_status status old =
     (if status = ''filled'' then ES_FILLED
      else if status \<in> {''canceled'', ''cancelled'', ''expired'', ''rejected''}
      then (if py_startswith status ''cancel'' then ES_CANCELED else ES_FAILED)
      else old)"

definition signed_slippage_bps :: "pyfloat option \<Rightarrow> pyfloat \<Rightarrow> pyfloat option" where
  "signed_slippage_bps fill proposed =
     (case fill of None \<Rightarrow> None
      | Some f \<Rightarrow> if 0 < proposed then Some (py_round 3 ((f - proposed) / proposed * 10000)) else None)"

definition optional_entry :: "string \<Rightarrow> pyfloat option \<Rightarrow> pydict \<Rightarrow> pydict" where
  "optional_entry k v d = (case v of None \<Rightarrow> d | Some x \<Rightarrow> AList.update k (PFloat x) d)"

definition reconciled_response :: "pydict \<Rightarrow> pydict \<Rightarrow> pyfloat option \<Rightarrow> pyfloat option \<Rightarrow> pydict" where
  "reconciled_response old payload fill slippage =
     optional_entry ''slippage_bps'' slippage (optional_entry ''fill_price'' fill
       (AList.update ''broker_execution'' (PDict payload) (AList.update ''broker'' (PStr ''alpaca'') old)))"

text \<open>The profit and the response once a standalone exit has been found.\<close>

definition book_exit :: "pydict \<Rightarrow> pydict option \<Rightarrow> pyfloat \<Rightarrow> pydict \<Rightarrow> exn + pyfloat \<times> pydict" where
  "book_exit payload exit_fill pnl response =
     (case exit_fill of None \<Rightarrow> Inr (pnl, response)
      | Some x \<Rightarrow>
        (case (float_of payload ''filled_qty'', float_of x ''filled_qty'', float_of payload ''filled_avg_price'',
               to_float (dict_get x ''filled_avg_price'')) of
           (Inr entry_qty, Inr exit_qty, Inr entry_price, Inr exit_price) \<Rightarrow>
             Inr (py_round 2 ((exit_price - entry_price) * min entry_qty exit_qty),
                  AList.update ''exit_fill'' (PDict (AList.update ''status'' (PStr ''filled'') (AList.update ''legs'' (PList []) x)))
                    response)
         | (Inl e, _, _, _) \<Rightarrow> Inl e | (_, Inl e, _, _) \<Rightarrow> Inl e | (_, _, Inl e, _) \<Rightarrow> Inl e | (_, _, _, Inl e) \<Rightarrow> Inl e))"

definition reconciled_execution :: "time \<Rightarrow> execution_record \<Rightarrow> pydict \<Rightarrow> pydict list option \<Rightarrow>
    exn + execution_record \<times> pyfloat option \<times> pyfloat option" where
  "reconciled_execution now e payload exit_orders =
     (case float_of payload ''filled_avg_price'' of Inl x \<Rightarrow> Inl x | Inr price \<Rightarrow>
      case float_of (ex_request_payload e) ''proposed_price'' of Inl x \<Rightarrow> Inl x | Inr proposed \<Rightarrow>
      case realized_pnl payload of Inl x \<Rightarrow> Inl x | Inr pnl \<Rightarrow>
      case (if pnl \<noteq> 0 then Inr None else standalone_exit payload exit_orders) of Inl x \<Rightarrow> Inl x | Inr exit_fill \<Rightarrow>
      (let fill = (if price = 0 then None else Some price); slippage = signed_slippage_bps fill proposed in
       case book_exit payload exit_fill pnl (reconciled_response (ex_response_payload e) payload fill slippage) of Inl x \<Rightarrow> Inl x
       | Inr (booked, response) \<Rightarrow>
           Inr (e\<lparr>ex_response_payload := response, ex_status := reconciled_status (lower_of payload ''status'') (ex_status e),
                 ex_realized_pnl_usd := booked, ex_updated_at := now\<rparr>, fill, slippage)))"

definition update_execution :: "reconciler \<Rightarrow> execution_record \<Rightarrow> pydict \<Rightarrow> pydict list option \<Rightarrow> execution_record prog" where
  "update_execution rc e payload exit_orders =
     bindP (utc_now (rc_env rc)) (\<lambda>now.
     bindP (liftP (reconciled_execution now e payload exit_orders)) (\<lambda>(e', fill, slippage).
     bindP (tryStoreP (\<lambda>st. with_unit (execution_update e' st))) (\<lambda>_.
     bindP (learningP (rc_env rc) (learning_event_type payload) (ex_id e')) (\<lambda>_.
     bindP (if rc_governance rc
            then extP (Comparison_fill (if text_of payload ''broker_order_id'' \<noteq> [] then text_of payload ''broker_order_id''
                                        else or_empty (ex_broker_order_id e')) fill (map_option abs slippage)) (e_done (rc_env rc))
            else returnP ()) (\<lambda>_.
     returnP e')))))"

definition upsert_order :: "reconciler \<Rightarrow> pydict \<Rightarrow> string option \<Rightarrow> string option \<Rightarrow> unit prog" where
  "upsert_order rc payload execution_id parent_order_id =
     (if text_of payload ''broker_order_id'' = [] then returnP ()
      else bindP (liftP (float_of payload ''filled_qty'')) (\<lambda>qty.
        bindP (liftP (if dict_get payload ''filled_avg_price'' \<in> {PNone, PStr []} then Inr None
                      else map_sum (\<lambda>e. e) Some (to_float (dict_get payload ''filled_avg_price'')))) (\<lambda>price.
        bindP (utc_now (rc_env rc)) (\<lambda>now.
        storeP (snapshot_upsert \<lparr>
          os_broker_order_id = text_of payload ''broker_order_id'', os_execution_id = execution_id,
          os_client_order_id = (if text_of payload ''client_order_id'' = [] then None else Some (text_of payload ''client_order_id'')),
          os_symbol = text_of payload ''symbol'', os_side = text_of payload ''side'',
          os_order_class = (if text_of payload ''order_class'' \<noteq> [] then text_of payload ''order_class''
                            else if parent_order_id \<notin> {None, Some []} then ''bracket_leg'' else []),
          os_status = text_of payload ''status'', os_filled_qty = qty, os_filled_avg_price = price,
          os_parent_order_id = parent_order_id, os_payload = payload, os_created_at = now, os_updated_at = now\<rparr>)))))"

subsection \<open>The sweep\<close>

definition by_order_id :: "execution_record list \<Rightarrow> (string \<times> execution_record) list" where
  "by_order_id es = fold (\<lambda>e d. case ex_broker_order_id e of None \<Rightarrow> d
     | Some b \<Rightarrow> if b = [] then d else AList.update b e d) es []"

definition is_standalone_exit :: "(string \<times> execution_record) list \<Rightarrow> order_view \<Rightarrow> bool" where
  "is_standalone_exit by_order v =
     (map_of by_order (ov_broker_order_id v) = None \<and> lower_of (ov_payload v) ''side'' = ''sell'' \<and>
      lower_of (ov_payload v) ''status'' = ''filled'' \<and> \<not> truthy (dict_get (ov_payload v) ''legs'') \<and>
      truthy (dict_get (ov_payload v) ''filled_at''))"

definition order_symbol :: "order_view \<Rightarrow> string" where
  "order_symbol v = py_upper (text_of (ov_payload v) ''symbol'')"

definition standalone_exits :: "(string \<times> execution_record) list \<Rightarrow> order_view list \<Rightarrow> (string \<times> pydict list) list" where
  "standalone_exits by_order vs = fold (\<lambda>v d. if is_standalone_exit by_order v
     then AList.update (order_symbol v) (get_default d (order_symbol v) [] @ [ov_payload v]) d else d) vs []"

text \<open>What the sweep has learnt of the account; the dictionaries of sides as sets of pairs.\<close>

record sweep_view =
  sv_by_order :: "(string \<times> execution_record) list"
  sv_owned :: "string set"
  sv_protected :: "string set"
  sv_close_sides :: "(string \<times> string) set"
  sv_protective_sides :: "(string \<times> string) set"

definition live_stop_leg :: "pydict \<Rightarrow> bool" where
  "live_stop_leg leg = (leg_is_live leg \<and> py_contains ''stop'' (lower_of leg ''type''))"

definition order_type :: "pydict \<Rightarrow> string" where
  "order_type payload = (if text_of payload ''order_type'' \<noteq> [] then lower_of payload ''order_type'' else lower_of payload ''type'')"

text \<open>What one order adds to the view.\<close>

definition note_order :: "order_view \<Rightarrow> sweep_view \<Rightarrow> sweep_view" where
  "note_order v sv =
     (let payload = ov_payload v; symbol = order_symbol v; execution = map_of (sv_by_order sv) (ov_broker_order_id v);
          side = lower_of payload ''side'';
          sv1 = (if execution \<noteq> None then sv\<lparr>sv_owned := insert symbol (sv_owned sv)\<rparr> else sv);
          sv2 = (if execution \<noteq> None \<and> dict_get payload ''order_class'' = PStr ''bracket'' \<and> list_ex live_stop_leg (legs_of payload)
                 then sv1\<lparr>sv_protected := insert symbol (sv_protected sv1)\<rparr> else sv1)
      in if symbol \<noteq> [] \<and> leg_is_live payload
         then (if order_type payload \<in> PROTECTIVE_TYPES
               then sv2\<lparr>sv_protective_sides := insert (symbol, side) (sv_protective_sides sv2)\<rparr>
               else sv2\<lparr>sv_close_sides := insert (symbol, side) (sv_close_sides sv2)\<rparr>)
         else sv2)"

definition exits_value :: "pydict list option \<Rightarrow> pyval" where
  "exits_value exits = (case exits of None \<Rightarrow> PNone | Some ds \<Rightarrow> PList (map PDict ds))"

fun write_legs :: "reconciler \<Rightarrow> string option \<Rightarrow> string \<Rightarrow> pydict list \<Rightarrow> unit prog" where
  "write_legs rc execution_id order_id [] = returnP ()"
| "write_legs rc execution_id order_id (leg # legs) =
     (let key = ''order:'' @ text_of leg ''broker_order_id'';
          fp = fingerprint [PDict leg, opt_str execution_id, PStr order_id] in
      bindP (changed key fp) (\<lambda>c.
      bindP (if c then bindP (upsert_order rc leg execution_id (Some order_id)) (\<lambda>_. note_written key fp) else returnP ()) (\<lambda>_.
      write_legs rc execution_id order_id legs)))"

text \<open>The writes for one order: its execution, its snapshot and those of its legs.\<close>

definition write_execution :: "reconciler \<Rightarrow> (string \<times> pydict list) list \<Rightarrow> order_view \<Rightarrow>
    (string \<times> execution_record) list \<Rightarrow> (string \<times> execution_record) list prog" where
  "write_execution rc exits_by v by_order =
     (case map_of by_order (ov_broker_order_id v) of None \<Rightarrow> returnP by_order
      | Some e \<Rightarrow>
          (let exits = map_of exits_by (order_symbol v); key = ''execution:'' @ ex_id e;
               fp = fingerprint [PDict (ov_payload v), exits_value exits] in
           bindP (changed key fp) (\<lambda>c.
           if c then bindP (update_execution rc e (ov_payload v) exits) (\<lambda>e'.
                     bindP (note_written key fp) (\<lambda>_. returnP (AList.update (ov_broker_order_id v) e' by_order)))
           else returnP by_order)))"

definition write_order :: "reconciler \<Rightarrow> string option \<Rightarrow> order_view \<Rightarrow> unit prog" where
  "write_order rc execution_id v =
     (let order_id = ov_broker_order_id v; key = ''order:'' @ order_id; fp = fingerprint [PDict (ov_payload v), opt_str execution_id] in
      bindP (if order_id = [] then returnP False else changed key fp) (\<lambda>c.
      bindP (if c then bindP (upsert_order rc (ov_payload v) execution_id None) (\<lambda>_. note_written key fp) else returnP ()) (\<lambda>_.
      write_legs rc execution_id order_id (legs_of (ov_payload v)))))"

fun scan_orders :: "reconciler \<Rightarrow> (string \<times> pydict list) list \<Rightarrow> order_view list \<Rightarrow> sweep_view \<Rightarrow> sweep_view prog" where
  "scan_orders rc exits_by [] sv = returnP sv"
| "scan_orders rc exits_by (v # vs) sv =
     bindP (write_execution rc exits_by v (sv_by_order sv)) (\<lambda>by_order.
     bindP (write_order rc (map_option ex_id (map_of by_order (ov_broker_order_id v))) v) (\<lambda>_.
     scan_orders rc exits_by vs (note_order v (sv\<lparr>sv_by_order := by_order\<rparr>))))"

text \<open>\<open>mark_paper_safety_flatten\<close> for one symbol.\<close>

definition mark_symbol_flatten :: "env \<Rightarrow> string \<Rightarrow> string \<Rightarrow> unit prog" where
  "mark_symbol_flatten env symbol reason =
     bindP (extP (Symbol_flatten_mark symbol reason) (\<lambda>t. Inr (e_safety_json env t))) (\<lambda>j.
     case j of None \<Rightarrow> returnP () | Some v \<Rightarrow> storeP (runtime_set SAFETY_KEY v))"

definition flatten_allowed :: "app_settings \<Rightarrow> client \<Rightarrow> bool" where
  "flatten_allowed s cl = (reconciliation_flatten_unprotected_positions s \<and> exec_mode s = Mode_paper \<and>
     \<not> enable_real_trading s \<and> cl_close_position cl)"

definition has_marker :: "string list \<Rightarrow> string \<Rightarrow> bool" where
  "has_marker markers message = list_ex (\<lambda>m. py_contains m (py_lower message)) markers"

definition flatten_unprotected :: "reconciler \<Rightarrow> client \<Rightarrow> string \<Rightarrow> portfolio_position \<Rightarrow> bool prog" where
  "flatten_unprotected rc cl symbol p =
     (let env = rc_env rc in
      if \<not> flatten_allowed (e_settings env) cl then returnP False
      else bindP (mark_symbol_flatten env symbol ''unprotected_position'') (\<lambda>_.
        bindP (tryP (extP (Close_position (cl_id cl) symbol) (e_response env))) (\<lambda>r.
        case r of
          Inl e \<Rightarrow>
            (let message = exn_str e; info = [(''symbol'', PStr symbol), (''error'', PStr message)] in
             if has_marker ALREADY_FLAT_MARKERS message
             then bindP (logP env ''unprotected_position_already_flat'' info) (\<lambda>_. returnP True)
             else if has_marker QTY_HELD_MARKERS message
             then bindP (logP env ''unprotected_position_flatten_deferred''
                    [(''symbol'', PStr symbol), (''reason'', PStr ''qty_held_by_working_order''), (''error'', PStr message)])
                    (\<lambda>_. returnP True)
             else bindP (logP env ''unprotected_position_flatten_failed'' info) (\<lambda>_. returnP False))
        | Inr response \<Rightarrow>
            bindP (logP env ''unprotected_position_flattened'' [(''symbol'', PStr symbol), (''quantity'', PFloat (pos_quantity p)),
              (''broker_order_id'', PStr (br_order_id response)), (''status'', PStr (br_status response)),
              (''reason'', PStr ''bracket_legs_no_longer_live'')]) (\<lambda>_. returnP True))))"

definition check_position :: "reconciler \<Rightarrow> client \<Rightarrow> sweep_view \<Rightarrow> portfolio_position \<Rightarrow> string list prog" where
  "check_position rc cl sv p =
     (let symbol = py_upper (pos_symbol p); side = closing_side p;
          unknown = (if symbol \<in> sv_owned sv then [] else [''unknown_position:'' @ symbol]) in
      if symbol \<in> sv_protected sv \<or> (symbol, side) \<in> sv_protective_sides sv then returnP unknown
      else if (symbol, side) \<in> sv_close_sides sv
      then bindP (logP (rc_env rc) ''unprotected_position_closing_in_flight''
             [(''symbol'', PStr symbol), (''quantity'', PFloat (pos_quantity p))]) (\<lambda>_. returnP unknown)
      else bindP (if symbol \<in> sv_owned sv then flatten_unprotected rc cl symbol p else returnP False) (\<lambda>done.
        returnP (if done then unknown else unknown @ [''missing_bracket_protection:'' @ symbol])))"

fun check_positions :: "reconciler \<Rightarrow> client \<Rightarrow> sweep_view \<Rightarrow> portfolio_position list \<Rightarrow> string list prog" where
  "check_positions rc cl sv [] = returnP []"
| "check_positions rc cl sv (p # ps) =
     bindP (check_position rc cl sv p) (\<lambda>here.
     bindP (check_positions rc cl sv ps) (\<lambda>rest. returnP (here @ rest)))"

record sweep_result =
  sr_account :: pydict
  sr_orders_seen :: int
  sr_positions_seen :: int
  sr_issues :: "string list"

definition expected_account :: "app_settings \<Rightarrow> string" where
  "expected_account s = py_strip (alpaca_effective_expected_account_number s)"

definition account_mode_text :: "reconciler \<Rightarrow> string" where
  "account_mode_text rc = (if rc_paper rc then ''paper'' else ''live'')"

text \<open>The identity and capability rows of the governance tables.\<close>

definition govern_account :: "reconciler \<Rightarrow> pydict \<Rightarrow> bool \<Rightarrow> unit prog" where
  "govern_account rc account verified =
     (let env = rc_env rc; caps = get_capabilities (rc_paper rc); flag = (\<lambda>k d. PBool (truthy (get_default caps k (PBool d)))) in
      if \<not> rc_governance rc then returnP ()
      else bindP (liftP (float_of account ''equity'')) (\<lambda>equity.
        bindP (extP (Governance_identity [(''broker'', PStr ''alpaca''), (''account_mode'', PStr (account_mode_text rc)),
          (''account_id'', PStr (text_of account ''id'')), (''account_number'', PStr (text_of account ''account_number'')),
          (''expected_account_number'', PStr (expected_account (e_settings env))), (''verified'', PBool verified),
          (''status'', PStr (if text_of account ''status'' = [] then ''unknown'' else text_of account ''status'')),
          (''details'', PDict [(''trading_blocked'', PBool (truthy (dict_get account ''trading_blocked''))), (''equity'', PFloat equity)])])
          (e_done env)) (\<lambda>_.
        extP (Governance_capability [(''broker'', PStr ''alpaca''), (''account_mode'', PStr (account_mode_text rc)),
          (''supports_equities'', flag ''supports_equities'' True), (''supports_native_protection'', flag ''supports_native_protection'' True),
          (''supports_client_idempotency'', flag ''supports_client_idempotency'' True),
          (''supports_shorting'', flag ''supports_shorting'' False), (''supports_borrow_checks'', flag ''supports_borrow_checks'' False),
          (''supports_financing_costs'', flag ''supports_financing_costs'' False), (''verified'', PBool verified),
          (''details'', PDict caps)]) (e_done env))))"

definition account_issues :: "app_settings \<Rightarrow> pydict \<Rightarrow> string list" where
  "account_issues s account =
     (let expected = expected_account s; actual = text_of account ''account_number'' in
      (if expected = [] \<or> actual = expected then []
       else [''account_mismatch:expected='' @ expected @ '':actual='' @ actual]) @
      (if truthy (dict_get account ''trading_blocked'') then [''alpaca_trading_blocked''] else []))"

definition initial_view :: "execution_record list \<Rightarrow> sweep_view" where
  "initial_view es = \<lparr>sv_by_order = by_order_id es, sv_owned = {}, sv_protected = {}, sv_close_sides = {},
     sv_protective_sides = {}\<rparr>"

definition sweep :: "reconciler \<Rightarrow> client \<Rightarrow> sweep_result prog" where
  "sweep rc cl =
     (let env = rc_env rc; s = e_settings env in
      bindP begin_sweep (\<lambda>_.
      bindP (extP (Get_account_identity (cl_id cl)) (e_identity env)) (\<lambda>account.
      (let verified = (expected_account s = [] \<or> text_of account ''account_number'' = expected_account s) in
      bindP (set_account_verified env verified) (\<lambda>_.
      bindP (govern_account rc account verified) (\<lambda>_.
      bindP (extP (Get_all_orders (cl_id cl)) (\<lambda>t. map_sum (\<lambda>e. e) (map order_view_of) (rc_orders rc t))) (\<lambda>orders.
      bindP (extP (Get_portfolio (cl_id cl)) (e_portfolio env)) (\<lambda>pf.
      bindP (utc_now env) (\<lambda>now.
      bindP (storeP (replace_active now (text_of account ''account_number'') (pf_positions pf))) (\<lambda>_.
      bindP (readP (\<lambda>st. initial_view (execution_list 2000 st))) (\<lambda>sv.
      bindP (scan_orders rc (standalone_exits (sv_by_order sv) orders) orders sv) (\<lambda>sv'.
      bindP (check_positions rc cl sv' (pf_positions pf)) (\<lambda>issues.
      returnP \<lparr>sr_account = account, sr_orders_seen = int (length orders), sr_positions_seen = int (length (pf_positions pf)),
        sr_issues = sort (remdups (account_issues s account @ issues))\<rparr>)))))))))))))"

subsection \<open>Outcomes\<close>

definition result_or_empty :: "sweep_result option \<Rightarrow> sweep_result" where
  "result_or_empty r = (case r of None \<Rightarrow> \<lparr>sr_account = [], sr_orders_seen = 0, sr_positions_seen = 0, sr_issues = []\<rparr> | Some x \<Rightarrow> x)"

definition count_prefixed :: "string \<Rightarrow> string list \<Rightarrow> int" where
  "count_prefixed prefix issues = int (length (filter (\<lambda>i. py_startswith i prefix) issues))"

definition record_governance_reconciliation :: "reconciler \<Rightarrow> string \<Rightarrow> string list \<Rightarrow> sweep_result option \<Rightarrow> unit prog" where
  "record_governance_reconciliation rc status issues r =
     (let res = result_or_empty r; account = sr_account res in
      if \<not> rc_governance rc then returnP ()
      else extP (Governance_reconciliation [(''broker'', PStr ''alpaca''),
        (''account_id'', PStr (if text_of account ''id'' \<noteq> [] then text_of account ''id'' else text_of account ''account_number'')),
        (''status'', PStr status), (''orders_seen'', PInt (sr_orders_seen res)), (''positions_seen'', PInt (sr_positions_seen res)),
        (''unknown_positions'', PInt (count_prefixed ''unknown_position:'' issues)),
        (''unprotected_positions'', PInt (count_prefixed ''missing_bracket_protection:'' issues)),
        (''issues'', PList (map PStr issues)),
        (''details'', PDict [(''account_number'', PStr (text_of account ''account_number''))])]) (e_done (rc_env rc)))"

definition send_failure_alert :: "reconciler \<Rightarrow> string list \<Rightarrow> int \<Rightarrow> bool \<Rightarrow> unit prog" where
  "send_failure_alert rc issues consecutive_failures stop =
     (let env = rc_env rc; signature = py_join ''|'' (sort issues) in
      if \<not> rc_notifier rc then returnP ()
      else bindP (readP (runtime_get LAST_ALERT_SIGNATURE_KEY)) (\<lambda>prev.
        if prev = Some signature then returnP ()
        else bindP (storeP (runtime_set LAST_ALERT_SIGNATURE_KEY signature)) (\<lambda>_.
          catchP (extP (Send_text (py_join [char_of (10::nat)]
              [''Paper automation safety alert'', ''Reconciliation failure tripped safety controls.'',
               ''Issues: '' @ py_join '', '' issues, ''Consecutive failures: '' @ show_int consecutive_failures,
               ''Emergency stop: '' @ (if stop then ''yes'' else ''no'')])) (e_done env))
            (\<lambda>e. logP env ''alpaca_reconciliation_alert_failed''
               [(''issues'', PList (map PStr issues)), (''consecutive_failures'', PInt consecutive_failures)]))))"

definition immediate_issue :: "string \<Rightarrow> bool" where
  "immediate_issue i = (py_startswith i ''account_mismatch:'' \<or> py_startswith i ''unknown_position:'' \<or>
     py_startswith i ''missing_bracket_protection:'')"

definition account_mismatch_issue :: "string \<Rightarrow> bool" where
  "account_mismatch_issue i = py_startswith i ''account_mismatch:''"

text \<open>\<open>int(self.state.get(FAILURE_COUNT_KEY) or 0)\<close>.\<close>

definition failure_count :: "store \<Rightarrow> exn + int" where
  "failure_count st = (case runtime_get FAILURE_COUNT_KEY st of None \<Rightarrow> Inr 0 | Some v \<Rightarrow> if v = [] then Inr 0 else parse_int v)"

datatype reconcile_outcome =
    Rec_disabled
  | Rec_skipped
  | Rec_ok sweep_result
  | Rec_error "string list" int "sweep_result option"

definition record_run :: "reconciler \<Rightarrow> string \<Rightarrow> string list \<Rightarrow> sweep_result option \<Rightarrow> unit prog" where
  "record_run rc status issues r =
     (let res = result_or_empty r in
      bindP (utc_now (rc_env rc)) (\<lambda>now.
      storeP (record_reconciliation \<lparr>rr_status = status, rr_account_number = text_of (sr_account res) ''account_number'',
        rr_orders_seen = sr_orders_seen res, rr_positions_seen = sr_positions_seen res, rr_issues = issues,
        rr_account = sr_account res, rr_created_at = now\<rparr>)))"

definition set_run_state :: "reconciler \<Rightarrow> int \<Rightarrow> string \<Rightarrow> string list \<Rightarrow> unit prog" where
  "set_run_state rc count status issues =
     bindP (storeP (runtime_set FAILURE_COUNT_KEY (show_int count))) (\<lambda>_.
     bindP (utc_now (rc_env rc)) (\<lambda>now.
     bindP (storeP (runtime_set LAST_RUN_KEY (e_isoformat (rc_env rc) now))) (\<lambda>_.
     bindP (storeP (runtime_set LAST_STATUS_KEY status)) (\<lambda>_.
     storeP (runtime_set LAST_ISSUES_KEY (py_join '','' issues))))))"

definition failure_threshold :: "app_settings \<Rightarrow> int" where
  "failure_threshold s = max (reconciliation_failures_before_kill_switch s) 1"

definition trips :: "app_settings \<Rightarrow> string list \<Rightarrow> int \<Rightarrow> bool" where
  "trips s issues count = (list_ex immediate_issue issues \<or> failure_threshold s \<le> count)"

definition record_failure :: "reconciler \<Rightarrow> string list \<Rightarrow> sweep_result option \<Rightarrow> reconcile_outcome prog" where
  "record_failure rc issues r =
     (let env = rc_env rc; stop = (\<not> list_ex account_mismatch_issue issues) in
      bindP (readP failure_count) (\<lambda>p.
      bindP (liftP p) (\<lambda>previous.
      bindP (set_run_state rc (previous + 1) ''error'' issues) (\<lambda>_.
      bindP (record_run rc ''error'' issues r) (\<lambda>_.
      bindP (record_governance_reconciliation rc ''error'' issues r) (\<lambda>_.
      bindP (logP env ''alpaca_reconciliation_failed'' [(''issues'', PList (map PStr issues)),
        (''consecutive_failures'', PInt (previous + 1))]) (\<lambda>_.
      bindP (if trips (e_settings env) issues (previous + 1)
             then bindP (trip_circuit_breaker env (py_join '';'' issues) stop) (\<lambda>_.
                  send_failure_alert rc issues (previous + 1) stop)
             else returnP ()) (\<lambda>_.
      returnP (Rec_error issues (previous + 1) r)))))))))"

definition attempt_count :: "app_settings \<Rightarrow> int" where
  "attempt_count s = max (if alpaca_reconciliation_max_attempts s = 0 then 3 else alpaca_reconciliation_max_attempts s) 1"

definition retry_backoff :: "app_settings \<Rightarrow> pyfloat" where
  "retry_backoff s = max (alpaca_reconciliation_retry_backoff_seconds s) 0"

text \<open>The attempts still to make, by their numbers, and the error of the last one made.\<close>

fun sweep_attempts :: "reconciler \<Rightarrow> client \<Rightarrow> int list \<Rightarrow> exn option \<Rightarrow> (exn option + sweep_result) prog" where
  "sweep_attempts rc cl [] last_error = returnP (Inl last_error)"
| "sweep_attempts rc cl (n # ns) last_error =
     (let env = rc_env rc; s = e_settings env in
      bindP (tryP (sweep rc cl)) (\<lambda>r.
      case r of Inr res \<Rightarrow> returnP (Inr res)
      | Inl e \<Rightarrow>
          bindP (logP env ''alpaca_reconciliation_attempt_failed'' [(''attempt'', PInt n), (''max_attempts'', PInt (attempt_count s)),
            (''error'', PStr (exn_str e))]) (\<lambda>_.
          bindP (if n < attempt_count s \<and> 0 < retry_backoff s then extP (Sleep (retry_backoff s)) (\<lambda>t. Inr ()) else returnP ()) (\<lambda>_.
          sweep_attempts rc cl ns (Some e)))))"

text \<open>\<open>d[k]\<close> where only its absence matters.\<close>

definition required_key :: "pydict \<Rightarrow> string \<Rightarrow> exn + unit" where
  "required_key d k = (if map_of d k = None then Inl (KeyError k) else Inr ())"

definition reconcile_once :: "reconciler \<Rightarrow> client \<Rightarrow> reconcile_outcome prog" where
  "reconcile_once rc cl =
     (let env = rc_env rc in
      bindP (sweep_attempts rc cl [1..attempt_count (e_settings env)] None) (\<lambda>r.
      case r of
        Inl err \<Rightarrow> record_failure rc [''reconciliation_error:'' @ (case err of None \<Rightarrow> ''None'' | Some e \<Rightarrow> exn_str e)] None
      | Inr res \<Rightarrow>
          if sr_issues res \<noteq> [] then record_failure rc (sr_issues res) (Some res)
          else
            bindP (set_run_state rc 0 ''ok'' []) (\<lambda>_.
            bindP (liftP (required_key (sr_account res) ''account_number'')) (\<lambda>_.
            bindP (record_run rc ''ok'' [] (Some res)) (\<lambda>_.
            bindP (record_governance_reconciliation rc ''ok'' [] (Some res)) (\<lambda>_.
            bindP (logP env ''alpaca_reconciliation_ok'' [(''account'', PDict (sr_account res)),
              (''orders_seen'', PInt (sr_orders_seen res)), (''positions_seen'', PInt (sr_positions_seen res)),
              (''issues'', PList [])]) (\<lambda>_.
            returnP (Rec_ok res))))))))"

definition reconcile :: "reconciler \<Rightarrow> reconcile_outcome prog" where
  "reconcile rc =
     (case rc_alpaca rc of None \<Rightarrow> returnP Rec_disabled
      | Some cl \<Rightarrow>
          if \<not> alpaca_reconciliation_enabled (e_settings (rc_env rc)) then returnP Rec_disabled
          else bindP acquire_lock (\<lambda>got. if \<not> got then returnP Rec_skipped
                 else finallyP (reconcile_once rc cl) release_lock))"

subsection \<open>The trade-update stream and the account check\<close>

datatype ingest_outcome = Ing_disabled | Ing_no_order_id | Ing_unknown_order string | Ing_updated string string

fun upsert_legs :: "reconciler \<Rightarrow> string \<Rightarrow> string \<Rightarrow> pydict list \<Rightarrow> unit prog" where
  "upsert_legs rc execution_id order_id [] = returnP ()"
| "upsert_legs rc execution_id order_id (leg # legs) =
     bindP (upsert_order rc leg (Some execution_id) (Some order_id)) (\<lambda>_. upsert_legs rc execution_id order_id legs)"

definition ingest_order_update :: "reconciler \<Rightarrow> string \<Rightarrow> ingest_outcome prog" where
  "ingest_order_update rc broker_order_id =
     (let env = rc_env rc; order_id = py_strip broker_order_id in
      case rc_alpaca rc of None \<Rightarrow> returnP Ing_disabled
      | Some cl \<Rightarrow>
          if order_id = [] then returnP Ing_no_order_id
          else bindP (readP (execution_get_by_broker_order_id order_id)) (\<lambda>found.
            case found of None \<Rightarrow> returnP (Ing_unknown_order order_id)
            | Some e \<Rightarrow>
                bindP (extP (Get_order (cl_id cl) order_id) (\<lambda>t. map_sum (\<lambda>x. x) order_payload (rc_order rc t))) (\<lambda>payload.
                bindP (update_execution rc e payload None) (\<lambda>e'.
                bindP (upsert_order rc payload (Some (ex_id e')) None) (\<lambda>_.
                bindP (upsert_legs rc (ex_id e') order_id (legs_of payload)) (\<lambda>_.
                bindP (forget_written ((''execution:'' @ ex_id e') # (''order:'' @ order_id) #
                  map (\<lambda>leg. ''order:'' @ text_of leg ''broker_order_id'') (legs_of payload))) (\<lambda>_.
                bindP (utc_now env) (\<lambda>now.
                bindP (storeP (runtime_set STREAM_KEY (e_isoformat env now))) (\<lambda>_.
                bindP (logP env ''alpaca_trade_stream_ingested'' [(''broker_order_id'', PStr order_id),
                  (''status'', dict_get payload ''status'')]) (\<lambda>_.
                returnP (Ing_updated order_id (ex_id e')))))))))))) "

definition account_verified :: "app_settings \<Rightarrow> store \<Rightarrow> bool" where
  "account_verified s st = (expected_account s = [] \<or> as_account_verified (automation_status_of s st) = Some True)"

end
