(* ===== verification/Reconciliation_Safety.thy ===== *)
theory Reconciliation_Safety
  imports Reconciliation
begin

text \<open>
  Properties of the reconciliation sweep: what a clean sweep says about every position of the
  account, what a failing one does to the safety controls, what is booked for an execution,
  and that neither the sweep nor the trade stream breaks the store's invariants.
\<close>

subsection \<open>Rules for the service's own combinators\<close>

lemma keeps_sweep [keeps_intros]: "keeps I (sweepP f)"
  by (simp add: keeps_def sweepP_def split: prod.splits)

lemma keeps_finally [keeps_intros]: "keeps I m \<Longrightarrow> keeps I n \<Longrightarrow> keeps I (finallyP m n)"
  unfolding finallyP_def by (intro keeps_intros)

lemma keeps_try [keeps_intros]: "keeps I m \<Longrightarrow> keeps I (tryP m)"
  unfolding tryP_def by (intro keeps_intros)

lemma after_sweep [simp]:
  "after (sweepP f) w Q = Q (Inr (fst (f (w_sweep w)))) (w\<lparr>w_sweep := snd (f (w_sweep w))\<rparr>)"
  by (simp add: after_def sweepP_def split: prod.splits)

lemma after_try [simp]: "after (tryP m) w Q = after m w (\<lambda>r. Q (Inr r))"
  by (auto simp: tryP_def after_def bindP_def catchP_def returnP_def split: prod.splits sum.splits)

lemma after_finally [simp]:
  "after (finallyP m n) w Q = after m w (\<lambda>r w'. after n w' (\<lambda>u w''. case u of Inl e \<Rightarrow> Q (Inl e) w'' | Inr _ \<Rightarrow> Q r w''))"
  unfolding finallyP_def by (auto simp: after_def bindP_def catchP_def raiseP_def returnP_def split: prod.splits sum.splits)

lemma at_most_sweep [calls_intros]: "at_most P n (sweepP f)"
  by (rule at_most_same) (simp add: sweepP_def split: prod.splits)

lemmas sweep_step_defs = changed_def note_written_def forget_written_def begin_sweep_def acquire_lock_def release_lock_def

subsection \<open>Store invariants\<close>

lemma kill_ok_rec [simp]: "kill_ok FAILURE_COUNT_KEY v" "kill_ok LAST_RUN_KEY v" "kill_ok LAST_STATUS_KEY v"
  "kill_ok LAST_ISSUES_KEY v" "kill_ok LAST_ALERT_SIGNATURE_KEY v" "kill_ok STREAM_KEY v"
  by (simp_all add: kill_ok_def rec_key_defs key_defs)

text \<open>
  What the sweep itself, before its outcome is recorded, may rely on: a store property that
  repository calls keep and that does not depend on the two runtime flags it writes.
\<close>

locale sweep_invariant = repository_invariant I rt_ok for I rt_ok +
  assumes verified_ok: "rt_ok ACCOUNT_VERIFIED_KEY v" and safety_ok: "rt_ok SAFETY_KEY v"
begin

lemma keeps_learn: "keeps I (learningP env e i)"
  unfolding learningP_def by (intro keeps_intros)

lemma keeps_update_execution: "keeps I (update_execution rc e payload exits)"
  unfolding update_execution_def by (intro keeps_intros keeps_ops keeps_learn)

lemma keeps_upsert_order: "keeps I (upsert_order rc payload eid parent)"
  unfolding upsert_order_def by (intro keeps_intros keeps_ops)

lemma keeps_write_legs: "keeps I (write_legs rc eid oid legs)"
  by (induction legs) (auto simp: Let_def sweep_step_defs intro!: keeps_intros keeps_upsert_order)

lemma keeps_write_execution: "keeps I (write_execution rc exits v by)"
  unfolding write_execution_def Let_def sweep_step_defs by (intro keeps_intros keeps_update_execution)

lemma keeps_write_order: "keeps I (write_order rc eid v)"
  unfolding write_order_def Let_def sweep_step_defs by (intro keeps_intros keeps_upsert_order keeps_write_legs)

lemma keeps_scan_orders: "keeps I (scan_orders rc exits vs sv)"
  by (induction vs arbitrary: sv) (auto intro!: keeps_intros keeps_write_execution keeps_write_order)

lemma keeps_check_position: "keeps I (check_position rc cl sv p)"
  unfolding check_position_def flatten_unprotected_def mark_symbol_flatten_def Let_def
  by (intro keeps_intros keeps_log keeps_runtime safety_ok)

lemma keeps_check_positions: "keeps I (check_positions rc cl sv ps)"
  by (induction ps) (auto intro!: keeps_intros keeps_check_position)

lemma keeps_sweep_run: "keeps I (sweep rc cl)"
  unfolding sweep_def Let_def govern_account_def begin_sweep_def set_account_verified_def
  by (intro keeps_intros keeps_ops keeps_runtime verified_ok keeps_scan_orders keeps_check_positions)

lemma keeps_sweep_attempts: "keeps I (sweep_attempts rc cl ns err)"
  by (induction ns arbitrary: err) (auto simp: Let_def intro!: keeps_intros keeps_log keeps_sweep_run)

lemma keeps_upsert_legs: "keeps I (upsert_legs rc eid oid legs)"
  by (induction legs) (auto intro!: keeps_intros keeps_upsert_order)

end

sublocale automation_invariant \<subseteq> sweep_invariant I kill_ok
  by unfold_locales simp_all

context automation_invariant
begin

lemma keeps_record: "keeps I (record_run rc status issues r)" "keeps I (set_run_state rc n status issues)"
  "keeps I (record_governance_reconciliation rc status issues r)" "keeps I (send_failure_alert rc issues n stop)"
  unfolding record_run_def set_run_state_def record_governance_reconciliation_def send_failure_alert_def Let_def
  by (intro keeps_intros keeps_ops keeps_runtime; simp)+

lemma keeps_record_failure: "keeps I (record_failure rc issues r)"
  unfolding record_failure_def Let_def by (intro keeps_intros keeps_ops keeps_trip keeps_record)

lemma keeps_reconcile: "keeps I (reconcile rc)"
  unfolding reconcile_def reconcile_once_def acquire_lock_def release_lock_def Let_def
  by (intro keeps_intros keeps_sweep_attempts keeps_record_failure keeps_record keeps_log)

lemma keeps_ingest: "keeps I (ingest_order_update rc oid)"
  unfolding ingest_order_update_def forget_written_def Let_def
  by (intro keeps_intros keeps_update_execution keeps_upsert_order keeps_upsert_legs keeps_log keeps_runtime) simp

end

text \<open>The runtime state under a key, when only other keys are written.\<close>

lemma runtime_get_cong: "st_runtime st' = st_runtime st \<Longrightarrow> runtime_get k st' = runtime_get k st"
  by (simp add: runtime_get_def)

interpretation counter: sweep_invariant "\<lambda>st. runtime_get FAILURE_COUNT_KEY st = v" "\<lambda>k x. k \<noteq> FAILURE_COUNT_KEY" for v
  by unfold_locales
    (auto simp: runtime_get_def proposal_create_row_def signal_create_row_def execution_create_def
      execution_update_def queue_create_def queue_update_def claim_for_processing_def position_create_row_def
      position_update_def trade_create_row_def snapshot_upsert_def replace_active_def record_reconciliation_def
      Let_def runtime_set_def update_conv' rec_key_defs key_defs split: if_splits)

subsection \<open>What the sweep knows of the orders\<close>

text \<open>The abstract reading of the broker's orders, given the order ids of the stored executions.\<close>

definition known_orders :: "store \<Rightarrow> string set" where
  "known_orders st = {b. b \<noteq> [] \<and> Some b \<in> ex_broker_order_id ` set (execution_list 2000 st)}"

definition owned :: "string set \<Rightarrow> alpaca_order list \<Rightarrow> string \<Rightarrow> bool" where
  "owned known os s \<longleftrightarrow> (\<exists>o1 \<in> set os. al_id o1 \<in> known \<and> py_upper (al_symbol o1) = s)"

definition stop_working :: "alpaca_leg \<Rightarrow> bool" where
  "stop_working l \<longleftrightarrow> py_lower (al_status l) \<in> LIVE_LEG_STATUSES \<and> py_contains ''stop'' (py_lower (al_type l))"

definition bracketed :: "string set \<Rightarrow> alpaca_order list \<Rightarrow> string \<Rightarrow> bool" where
  "bracketed known os s \<longleftrightarrow> (\<exists>o1 \<in> set os. al_id o1 \<in> known \<and> py_upper (al_symbol o1) = s \<and>
     ao_order_class o1 = ''bracket'' \<and> (\<exists>l \<in> set (ao_legs o1). stop_working l))"

definition reducing :: "alpaca_order list \<Rightarrow> string \<Rightarrow> string \<Rightarrow> bool" where
  "reducing os s side \<longleftrightarrow> (\<exists>o1 \<in> set os. s \<noteq> [] \<and> py_upper (al_symbol o1) = s \<and> py_lower (al_side o1) = side \<and>
     py_lower (al_status o1) \<in> LIVE_LEG_STATUSES)"

lemma dom_by_order:
  "fst ` set (fold (\<lambda>e d. case ex_broker_order_id e of None \<Rightarrow> d | Some b \<Rightarrow> if b = [] then d else AList.update b e d) es d0) =
     fst ` set d0 \<union> {b. b \<noteq> [] \<and> Some b \<in> ex_broker_order_id ` set es}"
proof (induction es arbitrary: d0)
  case (Cons e es)
  then show ?case by (cases "ex_broker_order_id e") (auto simp: dom_update split: if_splits)
qed simp

lemma known_by_order: "fst ` set (by_order_id (execution_list 2000 st)) = known_orders st"
  by (simp add: by_order_id_def known_orders_def dom_by_order)

text \<open>What a program returns, whatever it does on the way.\<close>

definition yields :: "('a \<Rightarrow> bool) \<Rightarrow> 'a prog \<Rightarrow> bool" where
  "yields P m \<longleftrightarrow> (\<forall>w x w'. m w = (Inr x, w') \<longrightarrow> P x)"

lemma yields_return: "P x \<Longrightarrow> yields P (returnP x)"
  by (simp add: yields_def returnP_def)

lemma yields_bind: "(\<And>x. yields P (f x)) \<Longrightarrow> yields P (bindP m f)"
  unfolding yields_def by (metis bindP_cases sum.simps(4))

lemma yields_if: "(b \<Longrightarrow> yields P m) \<Longrightarrow> (\<not> b \<Longrightarrow> yields P n) \<Longrightarrow> yields P (if b then m else n)"
  by simp

lemma yieldsD: "yields P m \<Longrightarrow> m w = (Inr x, w') \<Longrightarrow> P x"
  by (auto simp: yields_def)

lemma yields_write_execution: "yields (\<lambda>d. fst ` set d = fst ` set by) (write_execution rc exits v by)"
proof (cases "map_of by (ov_broker_order_id v)")
  case None
  then show ?thesis by (simp add: write_execution_def yields_return)
next
  case (Some e)
  then have "ov_broker_order_id v \<in> fst ` set by" by (metis domI dom_map_of_conv_image_fst)
  then show ?thesis
    unfolding write_execution_def Some option.case Let_def
    by (intro yields_bind yields_if yields_return) (auto simp: dom_update)
qed

text \<open>The client never passes an order's type on, so every working order counts as a close in flight.\<close>

definition view_ok :: "string set \<Rightarrow> alpaca_order list \<Rightarrow> sweep_view \<Rightarrow> bool" where
  "view_ok known os sv \<longleftrightarrow> fst ` set (sv_by_order sv) = known \<and> sv_owned sv = Collect (owned known os) \<and>
     sv_protected sv = Collect (bracketed known os) \<and> sv_close_sides sv = {(s, side). reducing os s side} \<and>
     sv_protective_sides sv = {}"

lemma view_ok_note:
  assumes "view_ok known os sv"
  shows "view_ok known (os @ [o1]) (note_order (order_view_of o1) sv)"
proof -
  have known: "map_of (sv_by_order sv) b \<noteq> None \<longleftrightarrow> b \<in> known" for b
    using assms by (auto simp: view_ok_def map_of_eq_None_iff)
  have oc: "dict_get (order_payload o1) ''order_class'' = PStr (ao_order_class o1)" by (simp add: order_payload_def dict_get_def)
  have leg: "live_stop_leg (leg_payload l) = stop_working l" for l
    by (simp add: live_stop_leg_def stop_working_def leg_is_live_def lower_of_def)
  have brk: "list_ex live_stop_leg (map leg_payload (ao_legs o1)) \<longleftrightarrow> (\<exists>l \<in> set (ao_legs o1). stop_working l)"
    by (simp add: list_ex_iff leg)
  have ty: "order_type (order_payload o1) \<notin> PROTECTIVE_TYPES"
    by (simp add: order_type_def lower_of_def PROTECTIVE_TYPES_def py_lower_def)
  let ?sv = "note_order (order_view_of o1) sv" and ?s = "py_upper (al_symbol o1)" and ?live = "py_lower (al_status o1) \<in> LIVE_LEG_STATUSES"
  have step: "sv_by_order ?sv = sv_by_order sv"
    "sv_owned ?sv = (if al_id o1 \<in> known then insert ?s (sv_owned sv) else sv_owned sv)"
    "sv_protected ?sv = (if al_id o1 \<in> known \<and> ao_order_class o1 = ''bracket'' \<and> (\<exists>l \<in> set (ao_legs o1). stop_working l)
       then insert ?s (sv_protected sv) else sv_protected sv)"
    "sv_close_sides ?sv = (if ?s \<noteq> [] \<and> ?live then insert (?s, py_lower (al_side o1)) (sv_close_sides sv) else sv_close_sides sv)"
    "sv_protective_sides ?sv = sv_protective_sides sv"
    by (simp_all add: note_order_def Let_def order_view_of_def order_symbol_def known oc ty leg_is_live_def lower_of_def brk
        del: not_None_eq) blast
  have "Collect (owned known (os @ [o1])) = (if al_id o1 \<in> known then insert ?s (Collect (owned known os)) else Collect (owned known os))"
    by (auto simp: owned_def)
  moreover have "Collect (bracketed known (os @ [o1])) =
      (if al_id o1 \<in> known \<and> ao_order_class o1 = ''bracket'' \<and> (\<exists>l \<in> set (ao_legs o1). stop_working l)
       then insert ?s (Collect (bracketed known os)) else Collect (bracketed known os))"
    by (auto simp: bracketed_def)
  moreover have "{(s, side). reducing (os @ [o1]) s side} = (if ?s \<noteq> [] \<and> ?live
      then insert (?s, py_lower (al_side o1)) {(s, side). reducing os s side} else {(s, side). reducing os s side})"
    by (auto simp: reducing_def)
  ultimately show ?thesis using assms by (simp only: view_ok_def step simp_thms)
qed

lemma view_ok_scan:
  assumes "scan_orders rc exits (map order_view_of os) sv w = (Inr sv', w')" "view_ok known os0 sv"
  shows "view_ok known (os0 @ os) sv'"
  using assms
proof (induction os arbitrary: os0 sv w)
  case Nil
  then show ?case by (simp add: returnP_def)
next
  case (Cons o1 os)
  from Cons.prems(1) obtain by_order w1 w2 where
    b: "write_execution rc exits (order_view_of o1) (sv_by_order sv) w = (Inr by_order, w1)" and
    r: "scan_orders rc exits (map order_view_of os) (note_order (order_view_of o1) (sv\<lparr>sv_by_order := by_order\<rparr>)) w2 = (Inr sv', w')"
    by (auto elim!: bindP_right)
  from yieldsD [OF yields_write_execution b] Cons.prems(2) have "view_ok known os0 (sv\<lparr>sv_by_order := by_order\<rparr>)"
    by (simp add: view_ok_def)
  from Cons.IH [OF r view_ok_note [OF this]] show ?case by simp
qed

lemma view_ok_initial: "view_ok (known_orders st) [] (initial_view (execution_list 2000 st))"
  by (simp add: view_ok_def initial_view_def known_by_order owned_def bracketed_def reducing_def)

subsection \<open>What the sweep says of the positions\<close>

definition issue_unknown :: "portfolio_position \<Rightarrow> string" where
  "issue_unknown p = ''unknown_position:'' @ py_upper (pos_symbol p)"

definition issue_bare :: "portfolio_position \<Rightarrow> string" where
  "issue_bare p = ''missing_bracket_protection:'' @ py_upper (pos_symbol p)"

text \<open>A position has an owner and its loss is capped, it is being closed, or a close was sent.\<close>

definition safe_position :: "string set \<Rightarrow> alpaca_order list \<Rightarrow> client \<Rightarrow> ext_call list \<Rightarrow> portfolio_position \<Rightarrow> bool" where
  "safe_position known os cl calls p \<longleftrightarrow>
     (let s = py_upper (pos_symbol p) in owned known os s \<and>
       (bracketed known os s \<or> reducing os s (closing_side p) \<or> Close_position (cl_id cl) s \<in> set calls))"

lemma after_flatten:
  "after (flatten_unprotected rc cl s p) w (\<lambda>r w'. \<exists>cs. w_calls w' = w_calls w @ cs \<and>
     (r = Inr True \<longrightarrow> Close_position (cl_id cl) s \<in> set cs))"
  by (auto simp: flatten_unprotected_def mark_symbol_flatten_def Let_def split: option.splits sum.splits)

lemma after_check_position:
  assumes "view_ok known os sv"
  shows "after (check_position rc cl sv p) w (\<lambda>r w'. \<exists>cs. w_calls w' = w_calls w @ cs \<and> (\<forall>is. r = Inr is \<longrightarrow>
     set is \<subseteq> {issue_unknown p, issue_bare p} \<and>
     (issue_unknown p \<in> set is \<longleftrightarrow> \<not> owned known os (py_upper (pos_symbol p))) \<and>
     (issue_bare p \<in> set is \<or> bracketed known os (py_upper (pos_symbol p)) \<or>
      reducing os (py_upper (pos_symbol p)) (closing_side p) \<or> Close_position (cl_id cl) (py_upper (pos_symbol p)) \<in> set cs)))"
proof -
  let ?s = "py_upper (pos_symbol p)"
  have ne: "issue_unknown p \<noteq> issue_bare p" by (simp add: issue_unknown_def issue_bare_def)
  note view = assms [unfolded view_ok_def]
  show ?thesis
  proof (cases "bracketed known os ?s \<or> reducing os ?s (closing_side p)")
    case True
    with view ne show ?thesis by (auto simp: check_position_def Let_def issue_unknown_def)
  next
    case False
    show ?thesis
    proof (cases "owned known os ?s")
      case True
      with False view show ?thesis
        by (auto simp: check_position_def Let_def issue_bare_def issue_unknown_def split: sum.splits intro!: after_mono [OF after_flatten])
    next
      case False
      with \<open>\<not> (bracketed known os ?s \<or> reducing os ?s (closing_side p))\<close> view show ?thesis
        by (auto simp: check_position_def Let_def issue_bare_def issue_unknown_def)
    qed
  qed
qed

lemma after_check_positions:
  assumes "view_ok known os sv"
  shows "after (check_positions rc cl sv ps) w (\<lambda>r w'. \<exists>cs. w_calls w' = w_calls w @ cs \<and> (\<forall>is. r = Inr is \<longrightarrow>
     (\<forall>i \<in> set is. immediate_issue i) \<and>
     (\<forall>p \<in> set ps. (issue_unknown p \<in> set is \<or> owned known os (py_upper (pos_symbol p))) \<and>
       (issue_bare p \<in> set is \<or> bracketed known os (py_upper (pos_symbol p)) \<or>
        reducing os (py_upper (pos_symbol p)) (closing_side p) \<or> Close_position (cl_id cl) (py_upper (pos_symbol p)) \<in> set cs))))"
proof (induction ps arbitrary: w)
  case (Cons p ps)
  have imm: "immediate_issue (issue_unknown p)" "immediate_issue (issue_bare p)"
    by (simp_all add: immediate_issue_def issue_unknown_def issue_bare_def py_startswith_def)
  show ?case
    unfolding check_positions.simps
  proof (rule after_bindI [OF after_check_position [OF assms]], goal_cases)
    case (1 e w')
    then show ?case by auto
  next
    case (2 x w1)
    then obtain cs where cs: "w_calls w1 = w_calls w @ cs" and x: "set x \<subseteq> {issue_unknown p, issue_bare p}"
      "issue_unknown p \<in> set x \<longleftrightarrow> \<not> owned known os (py_upper (pos_symbol p))"
      "issue_bare p \<in> set x \<or> bracketed known os (py_upper (pos_symbol p)) \<or>
       reducing os (py_upper (pos_symbol p)) (closing_side p) \<or> Close_position (cl_id cl) (py_upper (pos_symbol p)) \<in> set cs"
      by blast
    show ?case
    proof (rule after_bindI [OF Cons.IH], goal_cases)
      case (1 e w')
      with cs show ?case by auto
    next
      case (2 y w2)
      then obtain ds where ds: "w_calls w2 = w_calls w1 @ ds" and y: "\<forall>i \<in> set y. immediate_issue i"
        "\<forall>p \<in> set ps. (issue_unknown p \<in> set y \<or> owned known os (py_upper (pos_symbol p))) \<and>
           (issue_bare p \<in> set y \<or> bracketed known os (py_upper (pos_symbol p)) \<or>
            reducing os (py_upper (pos_symbol p)) (closing_side p) \<or> Close_position (cl_id cl) (py_upper (pos_symbol p)) \<in> set ds)"
        by blast
      show ?case unfolding after_return
        by (rule exI [of _ "cs @ ds"]) (use cs ds x y imm in auto)
    qed
  qed
qed simp

lemma after_govern:
  "after (govern_account rc account b) w (\<lambda>r w'. \<exists>cs. w_calls w' = w_calls w @ cs \<and> w_store w' = w_store w)"
  by (auto simp: govern_account_def Let_def split: sum.splits)

lemma known_orders_cong: "st_executions st = st_executions st' \<Longrightarrow> known_orders st = known_orders st'"
  by (simp add: known_orders_def execution_list_def)

lemma calls_upsert_order [calls_intros]: "at_most P n (upsert_order rc payload eid parent)"
  unfolding upsert_order_def by (intro calls_intros)

lemma calls_update_execution [calls_intros]:
  "(\<And>a b. \<not> P (Learning_event a b)) \<Longrightarrow> (\<And>a b c. \<not> P (Comparison_fill a b c)) \<Longrightarrow> at_most P n (update_execution rc e payload exits)"
  unfolding update_execution_def by (intro calls_intros) simp_all

lemma calls_write_legs [calls_intros]: "at_most P n (write_legs rc eid oid legs)"
  by (induction legs) (auto simp: Let_def changed_def note_written_def intro!: calls_intros)

lemma calls_scan_orders:
  "(\<And>a b. \<not> P (Learning_event a b)) \<Longrightarrow> (\<And>a b c. \<not> P (Comparison_fill a b c)) \<Longrightarrow> at_most P n (scan_orders rc exits vs sv)"
  by (induction vs arbitrary: sv)
    (auto simp: write_execution_def write_order_def Let_def changed_def note_written_def intro!: calls_intros)

lemma map_sum_Inr: "map_sum f g x = Inr y \<longleftrightarrow> (\<exists>z. x = Inr z \<and> y = g z)"
  by (cases x) auto

text \<open>
  The sweep after its account has been read: what it does with the orders and the positions
  the broker reports, from a state with the executions of the start.
\<close>

lemma extP_eq: "extP c a w = (Inr x, w') \<longleftrightarrow> a (w_calls w @ [c]) = Inr x \<and> w' = w\<lparr>w_calls := w_calls w @ [c]\<rparr>"
  by (auto simp: extP_def Let_def)

lemma sweep_parts:
  assumes "sweep rc cl w = (Inr res, w')"
  obtains account cs os pf w1 sv issues w2 where
    "rc_orders rc (w_calls w @ cs @ [Get_all_orders (cl_id cl)]) = Inr os"
    "e_portfolio (rc_env rc) (w_calls w @ cs @ [Get_all_orders (cl_id cl), Get_portfolio (cl_id cl)]) = Inr pf"
    "st_executions (w_store w1) = st_executions (w_store w)"
    "w_calls w1 = w_calls w @ cs @ [Get_all_orders (cl_id cl), Get_portfolio (cl_id cl)]"
    "scan_orders rc (standalone_exits (sv_by_order (initial_view (execution_list 2000 (w_store w1)))) (map order_view_of os))
       (map order_view_of os) (initial_view (execution_list 2000 (w_store w1))) w1 = (Inr sv, w2)"
    "check_positions rc cl sv (pf_positions pf) w2 = (Inr issues, w')"
    "sr_issues res = sort (remdups (account_issues (e_settings (rc_env rc)) account @ issues))"
proof -
  let ?env = "rc_env rc"
  obtain u1 u2 u3 u4 w1 account b orders pf now u sv w2 issues where
    u1: "begin_sweep w = (Inr (), u1)" and
    acc: "extP (Get_account_identity (cl_id cl)) (e_identity ?env) u1 = (Inr account, u2)" and
    gov: "govern_account rc account b (u2\<lparr>w_store := runtime_set ACCOUNT_VERIFIED_KEY (bool_text b) (w_store u2)\<rparr>) = (Inr (), u3)" and
    ord: "extP (Get_all_orders (cl_id cl)) (\<lambda>t. map_sum (\<lambda>e. e) (map order_view_of) (rc_orders rc t)) u3 = (Inr orders, u4)" and
    pf: "extP (Get_portfolio (cl_id cl)) (e_portfolio ?env) u4 = (Inr pf, u)" and
    w1: "w1 = u\<lparr>w_store := replace_active now (text_of account ''account_number'') (pf_positions pf) (w_store u)\<rparr>" and
    scan: "scan_orders rc (standalone_exits (sv_by_order (initial_view (execution_list 2000 (w_store w1)))) orders) orders
       (initial_view (execution_list 2000 (w_store w1))) w1 = (Inr sv, w2)" and
    pos: "check_positions rc cl sv (pf_positions pf) w2 = (Inr issues, w')" and
    res: "sr_issues res = sort (remdups (account_issues (e_settings ?env) account @ issues))"
    using assms unfolding sweep_def Let_def
    by (elim bindP_right) (auto simp: set_account_verified_def storeP_def utc_now_def readP_def returnP_def)
  from u1 have start: "w_calls u1 = w_calls w" "w_store u1 = w_store w" by (auto simp: begin_sweep_def sweepP_def Let_def)
  from afterD [OF after_govern gov] obtain cs where cs: "w_calls u3 = w_calls u2 @ cs" "st_executions (w_store u3) = st_executions (w_store u2)"
    by auto
  from ord obtain os where os: "rc_orders rc (w_calls u3 @ [Get_all_orders (cl_id cl)]) = Inr os" "orders = map order_view_of os"
    by (auto simp: extP_eq map_sum_Inr)
  show thesis
    by (rule that [of "Get_account_identity (cl_id cl) # cs" os pf w1 sv w2 issues account])
      (use start acc cs ord os pf w1 scan pos res in \<open>simp_all add: extP_eq replace_active_def\<close>)
qed

text \<open>Every position the broker reports is safe, or is reported as unknown or bare.\<close>

lemma sweep_positions:
  assumes "sweep rc cl w = (Inr res, w')"
  shows "\<exists>cs os pf. rc_orders rc (w_calls w @ cs @ [Get_all_orders (cl_id cl)]) = Inr os \<and>
    e_portfolio (rc_env rc) (w_calls w @ cs @ [Get_all_orders (cl_id cl), Get_portfolio (cl_id cl)]) = Inr pf \<and>
    (\<forall>p \<in> set (pf_positions pf). safe_position (known_orders (w_store w)) os cl (new_calls w w') p \<or>
       issue_unknown p \<in> set (sr_issues res) \<or> issue_bare p \<in> set (sr_issues res))"
proof -
  obtain account cs os pf w1 sv issues w2 where
    os: "rc_orders rc (w_calls w @ cs @ [Get_all_orders (cl_id cl)]) = Inr os" and
    pf: "e_portfolio (rc_env rc) (w_calls w @ cs @ [Get_all_orders (cl_id cl), Get_portfolio (cl_id cl)]) = Inr pf" and
    st: "st_executions (w_store w1) = st_executions (w_store w)" and
    calls: "w_calls w1 = w_calls w @ cs @ [Get_all_orders (cl_id cl), Get_portfolio (cl_id cl)]" and
    scan: "scan_orders rc (standalone_exits (sv_by_order (initial_view (execution_list 2000 (w_store w1)))) (map order_view_of os))
       (map order_view_of os) (initial_view (execution_list 2000 (w_store w1))) w1 = (Inr sv, w2)" and
    pos: "check_positions rc cl sv (pf_positions pf) w2 = (Inr issues, w')" and
    res: "sr_issues res = sort (remdups (account_issues (e_settings (rc_env rc)) account @ issues))"
    by (rule sweep_parts [OF assms])
  have view: "view_ok (known_orders (w_store w)) os sv"
    using view_ok_scan [OF scan view_ok_initial] by (simp add: known_orders_cong [OF st])
  have "at_most (\<lambda>_. False) 0 (scan_orders rc exits vs sv0)" for exits vs sv0 by (rule calls_scan_orders) simp_all
  from at_most_new(1) [OF this scan] calls
  obtain ds where ds: "w_calls w2 = w_calls w @ ds" by auto
  from afterD [OF after_check_positions [OF view] pos] ds res os pf show ?thesis
    by (intro exI [of _ cs] exI [of _ os] exI [of _ pf]) (auto simp: safe_position_def Let_def new_calls_def)
qed

subsection \<open>What a failing run does\<close>

lemma after_emergency_stop:
  "after (emergency_stop env reason) w (\<lambda>r w'. r = Inr () \<and> (\<forall>k. k \<noteq> SAFETY_KEY \<longrightarrow> runtime_get k (w_store w') = runtime_get k (w_store w)))"
  unfolding emergency_stop_def mark_paper_safety_flatten_def Let_def
  by (cases "e_router env"; cases "close_allowed (e_settings env)")
    (auto split: option.splits prod.splits intro!: after_mono [OF after_stop_clients])

lemma after_trip:
  "after (trip_circuit_breaker env reason stop) w (\<lambda>r w'. (\<exists>x. r = Inr x) \<and> killed (w_store w') \<and>
     runtime_get CIRCUIT_REASON_KEY (w_store w') = Some reason \<and>
     runtime_get FAILURE_COUNT_KEY (w_store w') = runtime_get FAILURE_COUNT_KEY (w_store w))"
  by (cases stop)
    (auto simp: trip_circuit_breaker_def enable_kill_switch_def set_state_def Let_def killed_def key_defs rec_key_defs bool_text_def
      intro!: after_mono [OF after_emergency_stop])

lemma after_alert:
  "after (send_failure_alert rc issues n stop) w (\<lambda>r w'. r = Inr () \<and>
     (\<forall>k. k \<noteq> LAST_ALERT_SIGNATURE_KEY \<longrightarrow> runtime_get k (w_store w') = runtime_get k (w_store w)))"
  by (auto simp: send_failure_alert_def Let_def split: sum.splits)

text \<open>The safety controls after a failing run: the count, and the breaker when it trips.\<close>

definition failure_recorded :: "reconciler \<Rightarrow> string list \<Rightarrow> int \<Rightarrow> store \<Rightarrow> bool" where
  "failure_recorded rc issues n st \<longleftrightarrow> runtime_get FAILURE_COUNT_KEY st = Some (show_int n) \<and>
     (trips (e_settings (rc_env rc)) issues n \<longrightarrow> killed st \<and> runtime_get CIRCUIT_REASON_KEY st = Some (py_join '';'' issues))"

lemma runtime_record [simp]: "runtime_get k (record_reconciliation r st) = runtime_get k st"
  by (simp add: runtime_get_def record_reconciliation_def)

lemma record_failure_counted:
  assumes n: "failure_count (w_store w) = Inr n"
  shows "after (record_failure rc issues r) w (\<lambda>res w'.
     (\<exists>x. res = Inr x) \<or> \<not> rc_governance rc \<longrightarrow> res = Inr (Rec_error issues (n + 1) r) \<and> failure_recorded rc issues (n + 1) (w_store w'))"
proof -
  let ?s = "e_settings (rc_env rc)" and ?stop = "\<not> list_ex account_mismatch_issue issues"
  define T where "T p = bindP (if trips ?s issues (p + 1)
      then bindP (trip_circuit_breaker (rc_env rc) (py_join '';'' issues) ?stop) (\<lambda>_. send_failure_alert rc issues (p + 1) ?stop)
      else returnP ()) (\<lambda>_. returnP (Rec_error issues (p + 1) r))" for p
  have tail: "after (T n) u (\<lambda>res w'. res = Inr (Rec_error issues (n + 1) r) \<and> failure_recorded rc issues (n + 1) (w_store w'))"
    if "runtime_get FAILURE_COUNT_KEY (w_store u) = Some (show_int (n + 1))" for u
  proof (cases "trips ?s issues (n + 1)")
    case True
    have "after (bindP (trip_circuit_breaker (rc_env rc) (py_join '';'' issues) ?stop) (\<lambda>_. send_failure_alert rc issues (n + 1) ?stop)) u
        (\<lambda>res w'. res = Inr () \<and> failure_recorded rc issues (n + 1) (w_store w'))"
      by (rule after_bindI [OF after_trip])
        (use that in \<open>auto intro!: after_mono [OF after_alert] simp: failure_recorded_def killed_def key_defs rec_key_defs\<close>)
    then show ?thesis unfolding T_def using True by (simp add: after_def bindP_def returnP_def split: prod.splits sum.splits)
  next
    case False
    with that show ?thesis by (simp add: T_def failure_recorded_def)
  qed
  define Q where "Q = (\<lambda>(res :: exn + reconcile_outcome) (w' :: world). (\<exists>x. res = Inr x) \<or> \<not> rc_governance rc \<longrightarrow>
      res = Inr (Rec_error issues (n + 1) r) \<and> failure_recorded rc issues (n + 1) (w_store w'))"
  have good: "after (T n) u Q" if "runtime_get FAILURE_COUNT_KEY (w_store u) = Some (show_int (n + 1))" for u
    by (rule after_mono [OF tail [OF that]]) (simp add: Q_def)
  have bad: "Q (Inl e) u" if "rc_governance rc" for e u using that by (simp add: Q_def)
  have "after (record_failure rc issues r) w Q"
    unfolding record_failure_def set_run_state_def record_run_def record_governance_reconciliation_def Let_def T_def [symmetric]
    using n by (auto split: sum.splits intro!: good bad simp: rec_key_defs)
  then show ?thesis by (simp add: Q_def)
qed

lemma after_record_failure:
  "after (record_failure rc issues r) w (\<lambda>res w'. \<forall>x. res = Inr x \<longrightarrow> (\<exists>n. failure_count (w_store w) = Inr n \<and>
     x = Rec_error issues (n + 1) r \<and> failure_recorded rc issues (n + 1) (w_store w')))"
proof (cases "failure_count (w_store w)")
  case (Inr n)
  show ?thesis by (rule after_mono [OF record_failure_counted [OF Inr]]) (auto simp: Inr)
qed (simp add: record_failure_def Let_def)

lemma sweep_attempts_result:
  "sweep_attempts rc cl ns err w = (Inr (Inr res), w') \<Longrightarrow> \<exists>w1. sweep rc cl w1 = (Inr res, w')"
proof (induction ns arbitrary: err w)
  case (Cons n ns)
  obtain r w1 where r: "sweep rc cl w = (r, w1)" by (cases "sweep rc cl w")
  then have "tryP (sweep rc cl) w = (Inr r, w1)"
    by (cases r) (simp_all add: tryP_def catchP_def bindP_def returnP_def)
  with Cons.prems r Cons.IH show ?case
    by (cases r) (auto simp: Let_def bindP_def returnP_def split: prod.splits sum.splits)
qed (simp add: returnP_def)

lemma locked_run:
  assumes "reconcile rc w = (Inr out, w')" "out \<noteq> Rec_disabled" "out \<noteq> Rec_skipped"
  obtains cl w1 w2 where "rc_alpaca rc = Some cl" "reconcile_once rc cl w1 = (Inr out, w2)" "w_store w1 = w_store w"
    "w_store w' = w_store w2" "w_calls w1 = w_calls w" "w_calls w' = w_calls w2"
proof (cases "rc_alpaca rc")
  case None
  with assms show thesis by (simp add: reconcile_def returnP_def)
next
  case (Some cl)
  from assms obtain w1 where l: "acquire_lock w = (Inr True, w1)"
    and f: "finallyP (reconcile_once rc cl) release_lock w1 = (Inr out, w')"
    unfolding reconcile_def Some option.case
    by (auto simp: returnP_def split: if_splits elim!: bindP_right)
  from l have w1: "w_store w1 = w_store w" "w_calls w1 = w_calls w" by (auto simp: acquire_lock_def sweepP_def)
  obtain r w2 where r: "reconcile_once rc cl w1 = (r, w2)" by (cases "reconcile_once rc cl w1")
  from f r have "r = Inr out" "w_store w' = w_store w2" "w_calls w' = w_calls w2"
    by (auto simp: finallyP_def release_lock_def sweepP_def bindP_def catchP_def raiseP_def returnP_def split: sum.splits)
  with r w1 Some that show thesis by blast
qed

lemma reconcile_once_result:
  assumes "reconcile_once rc cl w = (Inr out, w')"
  shows "(case out of Rec_ok res \<Rightarrow> sr_issues res = [] \<and> (\<exists>w1 w2. sweep rc cl w1 = (Inr res, w2))
     | Rec_error issues n r \<Rightarrow> failure_count (w_store w) = Inr (n - 1) \<and> failure_recorded rc issues n (w_store w') \<and>
         (\<forall>res. r = Some res \<longrightarrow> issues = sr_issues res \<and> issues \<noteq> [] \<and> (\<exists>w1 w2. sweep rc cl w1 = (Inr res, w2)))
     | _ \<Rightarrow> False)"
proof -
  from assms obtain r w1 where at: "sweep_attempts rc cl [1..attempt_count (e_settings (rc_env rc))] None w = (Inr r, w1)"
    and rest: "(case r of
        Inl err \<Rightarrow> record_failure rc [''reconciliation_error:'' @ (case err of None \<Rightarrow> ''None'' | Some e \<Rightarrow> exn_str e)] None
      | Inr res \<Rightarrow>
          if sr_issues res \<noteq> [] then record_failure rc (sr_issues res) (Some res)
          else
            bindP (set_run_state rc 0 ''ok'' []) (\<lambda>_.
            bindP (liftP (required_key (sr_account res) ''account_number'')) (\<lambda>_.
            bindP (record_run rc ''ok'' [] (Some res)) (\<lambda>_.
            bindP (record_governance_reconciliation rc ''ok'' [] (Some res)) (\<lambda>_.
            bindP (logP (rc_env rc) ''alpaca_reconciliation_ok'' [(''account'', PDict (sr_account res)),
              (''orders_seen'', PInt (sr_orders_seen res)), (''positions_seen'', PInt (sr_positions_seen res)),
              (''issues'', PList [])]) (\<lambda>_.
            returnP (Rec_ok res))))))) w1 = (Inr out, w')"
    unfolding reconcile_once_def Let_def by (rule bindP_right)
  have failed: "\<exists>n. failure_count (w_store w) = Inr n \<and> out = Rec_error issues (n + 1) q \<and> failure_recorded rc issues (n + 1) (w_store w')"
    if "record_failure rc issues q w1 = (Inr out, w')" for issues q
  proof -
    from afterD [OF after_record_failure that] obtain n where "failure_count (w_store w1) = Inr n"
      "out = Rec_error issues (n + 1) q" "failure_recorded rc issues (n + 1) (w_store w')" by auto
    moreover have "runtime_get FAILURE_COUNT_KEY (w_store w1) = runtime_get FAILURE_COUNT_KEY (w_store w)"
      by (rule keepsD [OF counter.keeps_sweep_attempts at]) simp
    ultimately show ?thesis by (intro exI [of _ n]) (simp add: failure_count_def)
  qed
  show ?thesis
  proof (cases r)
    case (Inl err)
    with rest have "record_failure rc [''reconciliation_error:'' @ (case err of None \<Rightarrow> ''None'' | Some e \<Rightarrow> exn_str e)] None w1 = (Inr out, w')"
      by simp
    from failed [OF this] show ?thesis by auto
  next
    case (Inr res)
    with at have sw: "\<exists>w1 w2. sweep rc cl w1 = (Inr res, w2)" by (blast dest: sweep_attempts_result)
    show ?thesis
    proof (cases "sr_issues res = []")
      case True
      with rest Inr have "out = Rec_ok res" by (auto elim!: bindP_right simp: returnP_def)
      with True sw show ?thesis by simp
    next
      case False
      with rest Inr have "record_failure rc (sr_issues res) (Some res) w1 = (Inr out, w')" by simp
      from failed [OF this] False show ?thesis by (auto simp: sw)
    qed
  qed
qed

subsection \<open>Runs that report\<close>

lemma record_failure_returns:
  assumes "failure_count (w_store w) = Inr n" "\<not> rc_governance rc"
  shows "\<exists>w'. record_failure rc issues r w = (Inr (Rec_error issues (n + 1) r), w')"
  using record_failure_counted [OF assms(1), of rc issues r] assms(2)
  by (cases "record_failure rc issues r w") (simp add: after_def)

lemma first_sweep: "sweep rc cl w = (Inr res, w') \<Longrightarrow> sweep_attempts rc cl (n # ns) err w = (Inr (Inr res), w')"
  by (simp add: Let_def tryP_def bindP_def catchP_def returnP_def)

definition locked :: "world \<Rightarrow> world" where
  "locked w = w\<lparr>w_sweep := (w_sweep w)\<lparr>ss_locked := True\<rparr>\<rparr>"

text \<open>An unlocked, enabled service runs, and a run that records a failure returns it.\<close>

lemma reconcile_unlocked:
  assumes "rc_alpaca rc = Some cl" "alpaca_reconciliation_enabled (e_settings (rc_env rc))" "\<not> ss_locked (w_sweep w)"
    and "reconcile_once rc cl (locked w) = (Inr out, w1)"
  shows "\<exists>w'. reconcile rc w = (Inr out, w') \<and> w_store w' = w_store w1"
  using assms
  by (simp add: reconcile_def bindP_def acquire_lock_def sweepP_def finallyP_def catchP_def release_lock_def returnP_def locked_def
      split: sum.splits)

lemma reconcile_reports:
  assumes "rc_alpaca rc = Some cl" "alpaca_reconciliation_enabled (e_settings (rc_env rc))" "\<not> ss_locked (w_sweep w)"
    and "sweep rc cl (locked w) = (Inr res, w1)" "sr_issues res \<noteq> []" "\<not> rc_governance rc"
    and "runtime_get FAILURE_COUNT_KEY (w_store w) = None"
  shows "\<exists>w'. reconcile rc w = (Inr (Rec_error (sr_issues res) 1 (Some res)), w')"
proof -
  have "\<exists>n ns. [1..attempt_count (e_settings (rc_env rc))] = n # ns"
    by (subst upto_rec1) (auto simp: attempt_count_def)
  then obtain n ns where "[1..attempt_count (e_settings (rc_env rc))] = n # ns" by blast
  with first_sweep [OF assms(4)]
  have at: "sweep_attempts rc cl [1..attempt_count (e_settings (rc_env rc))] None (locked w) = (Inr (Inr res), w1)" by simp
  have "runtime_get FAILURE_COUNT_KEY (w_store w1) = None"
    by (rule keepsD [OF counter.keeps_sweep_run assms(4)]) (simp add: locked_def assms(7))
  then have "failure_count (w_store w1) = Inr 0" by (simp add: failure_count_def)
  from record_failure_returns [OF this assms(6)] at assms(5)
  have "\<exists>w2. reconcile_once rc cl (locked w) = (Inr (Rec_error (sr_issues res) 1 (Some res)), w2)"
    by (simp add: reconcile_once_def bindP_def Let_def)
  with reconcile_unlocked [OF assms(1-3)] show ?thesis by blast
qed

lemma failing_run_counts:
  assumes "reconcile rc w = (Inr (Rec_error issues n r), w')"
  shows "failure_count (w_store w) = Inr (n - 1)" "failure_recorded rc issues n (w_store w')"
proof -
  obtain cl w1 w2 where "reconcile_once rc cl w1 = (Inr (Rec_error issues n r), w2)" "w_store w1 = w_store w" "w_store w' = w_store w2"
    by (rule locked_run [OF assms]) simp_all
  with reconcile_once_result show "failure_count (w_store w) = Inr (n - 1)" "failure_recorded rc issues n (w_store w')" by fastforce+
qed

text \<open>A sweep whose calls are answered, up to the loop over the orders (no governance tables).\<close>

definition before_scan :: "reconciler \<Rightarrow> client \<Rightarrow> pydict \<Rightarrow> portfolio_position list \<Rightarrow> world \<Rightarrow> world" where
  "before_scan rc cl account ps w =
     (let env = rc_env rc; s = e_settings env; actual = text_of account ''account_number'';
          t = w_calls w @ [Get_account_identity (cl_id cl), Get_all_orders (cl_id cl), Get_portfolio (cl_id cl)] in
      (snd (begin_sweep w))\<lparr>w_calls := t, w_store := replace_active (e_clock env t) actual ps
        (runtime_set ACCOUNT_VERIFIED_KEY (bool_text (expected_account s = [] \<or> actual = expected_account s)) (w_store w))\<rparr>)"

lemma sweep_returns:
  assumes "\<not> rc_governance rc" "\<And>t. e_identity (rc_env rc) t = Inr account" "\<And>t. rc_orders rc t = Inr os"
    and "\<And>t. e_portfolio (rc_env rc) t = Inr pf"
    and "w1 = before_scan rc cl account (pf_positions pf) w" "iv = initial_view (execution_list 2000 (w_store w1))"
    and "scan_orders rc (standalone_exits (sv_by_order iv) (map order_view_of os)) (map order_view_of os) iv w1 = (Inr sv, w2)"
    and "check_positions rc cl sv (pf_positions pf) w2 = (Inr issues, w3)"
  shows "sweep rc cl w = (Inr \<lparr>sr_account = account, sr_orders_seen = int (length os), sr_positions_seen = int (length (pf_positions pf)),
    sr_issues = sort (remdups (account_issues (e_settings (rc_env rc)) account @ issues))\<rparr>, w3)"
  using assms
  by (simp add: sweep_def Let_def bindP_def begin_sweep_def sweepP_def extP_def set_account_verified_def storeP_def govern_account_def
      returnP_def utc_now_def readP_def before_scan_def)

subsection \<open>Counting failures\<close>

lemma digit_char: "d < 10 \<Longrightarrow> of_char (char_of (48 + d) :: char) = 48 + d" for d :: nat
  by (simp add: of_char_of)

lemma show_nat_digits: "list_all is_digit (show_nat n)"
proof (induction n rule: show_nat.induct)
  case (1 n)
  have "is_digit (char_of (48 + d))" if "d < 10" for d :: nat using that by (simp add: is_digit_def digit_char Let_def)
  with 1 show ?case by (subst show_nat.simps) simp
qed

lemma show_nat_not_Nil [simp]: "show_nat n \<noteq> []"
  by (subst show_nat.simps) simp

lemma digits_val_snoc: "digits_val (s @ [c]) = digits_val s * 10 + (of_char c - 48)"
  by (simp add: digits_val_def)

lemma digits_val_show: "digits_val (show_nat n) = int n"
proof (induction n rule: show_nat.induct)
  case (1 n)
  have d: "(of_char (char_of (48 + d) :: char) :: int) = 48 + int d" if "d < 10" for d :: nat
  proof -
    have "(of_char (char_of (48 + d) :: char) :: int) = int (of_char (char_of (48 + d) :: char))" by (rule of_nat_of_char [symmetric])
    then show ?thesis using digit_char [OF that] by simp
  qed
  show ?case
  proof (cases "n < 10")
    case True
    then show ?thesis by (subst show_nat.simps) (simp add: digits_val_def d)
  next
    case False
    with 1 have "digits_val (show_nat n) = int (n div 10) * 10 + int (n mod 10)"
      by (subst show_nat.simps) (simp add: digits_val_snoc d)
    also have "\<dots> = int n" by (metis div_mod_decomp of_nat_add of_nat_mult of_nat_numeral)
    finally show ?thesis .
  qed
qed

lemma digits_strip: "list_all is_digit s \<Longrightarrow> py_strip s = s"
proof -
  have sp: "dropWhile is_space u = u" if "list_all is_digit u" for u
    using that by (cases u) (auto simp: is_digit_def is_space_def Let_def)
  assume "list_all is_digit s"
  then show ?thesis by (simp add: py_strip_def sp list_all_rev)
qed

lemma parse_show_int: "0 \<le> n \<Longrightarrow> parse_int (show_int n) = Inr n"
proof -
  assume "0 \<le> n"
  have "split_sign (show_nat k) = (False, show_nat k)" for k
    using show_nat_digits [of k] by (cases "show_nat k") (auto simp: is_digit_def Let_def)
  with \<open>0 \<le> n\<close> show ?thesis
    by (simp add: parse_int_def show_int_def digits_strip show_nat_digits digits_val_show)
qed

subsection \<open>Properties\<close>


text \<open>The example: a crypto position under the broker's own spelling of the pair it was ordered as.\<close>

definition crypto_order :: alpaca_order where
  "crypto_order = \<lparr>al_id = ''o-1'', al_client_order_id = ''c-1'', al_symbol = ''BTC/USD'', al_side = ''buy'', al_type = ''market'',
     al_status = ''filled'', al_qty = PInt 1, al_filled_qty = PInt 1, al_filled_avg_price = PInt 100, al_limit_price = PNone,
     al_stop_price = PNone, al_created_at = Some 1, al_updated_at = Some 2, al_filled_at = Some 2, al_canceled_at = None,
     ao_submitted_at = Some 1, ao_order_class = [], ao_legs = []\<rparr>"

definition crypto_stop :: alpaca_order where
  "crypto_stop = crypto_order\<lparr>al_id := ''o-2'', al_side := ''sell'', al_type := ''stop_limit'', al_status := ''new'',
     al_filled_qty := PInt 0, al_filled_avg_price := PNone, al_stop_price := PInt 90, al_filled_at := None\<rparr>"

definition crypto_position :: portfolio_position where
  "crypto_position = \<lparr>pos_symbol = ''BTCUSD'', pos_quantity = 1, pos_average_price = 100, pos_market_value = 100, pos_unrealized_pnl = 0\<rparr>"

definition crypto_reconciler :: reconciler where
  "crypto_reconciler = \<lparr>rc_env = demo_env\<lparr>e_portfolio := (\<lambda>t. Inr \<lparr>pf_mode = ''alpaca_paper'',
       pf_account = \<lparr>acc_cash_balance = 900, acc_equity = 1000, acc_daily_pnl = 0, acc_currency = ''USD''\<rparr>,
       pf_positions = [crypto_position]\<rparr>)\<rparr>,
     rc_alpaca = Some (demo_client ''alpaca''), rc_paper = True, rc_governance = False, rc_notifier = False,
     rc_orders = (\<lambda>t. Inr [crypto_order, crypto_stop]), rc_order = (\<lambda>t. Inr crypto_order)\<rparr>"

text \<open>The limit of a query counted down along the rows, for evaluation.\<close>

fun take_int :: "int \<Rightarrow> 'a list \<Rightarrow> 'a list" where
  "take_int n [] = []"
| "take_int n (x # xs) = (if n \<le> 0 then [] else x # take_int (n - 1) xs)"

lemma take_int: "take_int n xs = take (nat n) xs"
proof (induction xs arbitrary: n)
  case (Cons x xs)
  have "nat n = Suc (nat (n - 1))" if "0 < n" using that by linarith
  with Cons show ?case by (cases "0 < n") auto
qed simp

lemma execution_list_code [code]: "execution_list limit st = take_int (max 1 limit) (newest_first ex_created_at (st_executions st))"
  by (simp add: execution_list_def take_int)

text \<open>\<open>str(v or "")\<close> by the form of \<open>v\<close>.\<close>

lemma str_or_empty_code [code]:
  "str_or_empty PNone = []" "str_or_empty (PBool b) = (if b then ''True'' else [])"
  "str_or_empty (PInt i) = (if i = 0 then [] else show_int i)" "str_or_empty (PFloat x) = (if x = 0 then [] else show_float x)"
  "str_or_empty (PStr s) = s" "str_or_empty (PTime t) = []" "str_or_empty (PList vs) = []" "str_or_empty (PDict d) = []"
  by (simp_all add: str_or_empty_def)

definition crypto_world :: world where
  "crypto_world = start_world (empty_store\<lparr>st_executions := [new_execution ''exec_1'' 0 ''prop_1'' ES_SUBMITTED ''alpaca_paper''
     (Some ''o-1'') [] [] None]\<rparr>)"

definition crypto_issues :: "string list" where
  "crypto_issues = [''missing_bracket_protection:BTCUSD'', ''unknown_position:BTCUSD'']"

definition crypto_result :: sweep_result where
  "crypto_result = \<lparr>sr_account = [(''account_number'', PStr ''PA1'')], sr_orders_seen = 2, sr_positions_seen = 1, sr_issues = crypto_issues\<rparr>"

definition crypto_start :: world where
  "crypto_start = before_scan crypto_reconciler (demo_client ''alpaca'') [(''account_number'', PStr ''PA1'')] [crypto_position] (locked crypto_world)"

definition crypto_scan :: "(exn + sweep_view) \<times> world" where
  "crypto_scan = (let iv = initial_view (execution_list 2000 (w_store crypto_start)); vs = map order_view_of [crypto_order, crypto_stop] in
     scan_orders crypto_reconciler (standalone_exits (sv_by_order iv) vs) vs iv crypto_start)"

lemma crypto_scanned: "fst crypto_scan = Inr (projr (fst crypto_scan))"
  by code_simp

lemma crypto_checked: "fst (check_positions crypto_reconciler (demo_client ''alpaca'') (projr (fst crypto_scan)) [crypto_position] (snd crypto_scan)) =
    Inr [''unknown_position:BTCUSD'', ''missing_bracket_protection:BTCUSD'']"
  by code_simp

lemma crypto_sorted: "sort (remdups (account_issues default_settings [(''account_number'', PStr ''PA1'')] @
    [''unknown_position:BTCUSD'', ''missing_bracket_protection:BTCUSD''])) = crypto_issues"
  by code_simp

lemma crypto_fields:
  "rc_alpaca crypto_reconciler = Some (demo_client ''alpaca'')" "\<not> rc_governance crypto_reconciler"
  "e_settings (rc_env crypto_reconciler) = default_settings" "rc_orders crypto_reconciler t = Inr [crypto_order, crypto_stop]"
  "e_identity (rc_env crypto_reconciler) t = Inr [(''account_number'', PStr ''PA1'')]"
  "e_portfolio (rc_env crypto_reconciler) t = Inr \<lparr>pf_mode = ''alpaca_paper'',
     pf_account = \<lparr>acc_cash_balance = 900, acc_equity = 1000, acc_daily_pnl = 0, acc_currency = ''USD''\<rparr>, pf_positions = [crypto_position]\<rparr>"
  by (simp_all add: crypto_reconciler_def demo_env_def)

lemma crypto_swept: "\<exists>w'. sweep crypto_reconciler (demo_client ''alpaca'') (locked crypto_world) = (Inr crypto_result, w')"
proof -
  have scan: "scan_orders crypto_reconciler
      (standalone_exits (sv_by_order (initial_view (execution_list 2000 (w_store crypto_start)))) (map order_view_of [crypto_order, crypto_stop]))
      (map order_view_of [crypto_order, crypto_stop]) (initial_view (execution_list 2000 (w_store crypto_start))) crypto_start =
      (Inr (projr (fst crypto_scan)), snd crypto_scan)"
    using crypto_scanned unfolding crypto_scan_def Let_def by (metis prod.collapse)
  obtain w' where check: "check_positions crypto_reconciler (demo_client ''alpaca'') (projr (fst crypto_scan)) [crypto_position] (snd crypto_scan) =
      (Inr [''unknown_position:BTCUSD'', ''missing_bracket_protection:BTCUSD''], w')"
    using crypto_checked by (metis prod.collapse)
  have start: "crypto_start = before_scan crypto_reconciler (demo_client ''alpaca'') [(''account_number'', PStr ''PA1'')]
      (pf_positions (projr (e_portfolio (rc_env crypto_reconciler) []))) (locked crypto_world)"
    by (simp add: crypto_start_def crypto_fields)
  have pf: "e_portfolio (rc_env crypto_reconciler) t = Inr (projr (e_portfolio (rc_env crypto_reconciler) []))" for t
    by (simp add: crypto_fields)
  have "check_positions crypto_reconciler (demo_client ''alpaca'') (projr (fst crypto_scan))
      (pf_positions (projr (e_portfolio (rc_env crypto_reconciler) []))) (snd crypto_scan) =
      (Inr [''unknown_position:BTCUSD'', ''missing_bracket_protection:BTCUSD''], w')"
    using check by (simp only: crypto_fields sum.sel portfolio_summary.simps)
  from sweep_returns [OF crypto_fields(2,5,4) pf start refl scan this] show ?thesis
    by (simp add: crypto_sorted crypto_result_def crypto_fields)
qed

lemma crypto_run: "\<exists>w'. reconcile crypto_reconciler crypto_world = (Inr (Rec_error crypto_issues 1 (Some crypto_result)), w')"
proof -
  obtain w' where sw: "sweep crypto_reconciler (demo_client ''alpaca'') (locked crypto_world) = (Inr crypto_result, w')"
    using crypto_swept by blast
  have "alpaca_reconciliation_enabled (e_settings (rc_env crypto_reconciler))" by (simp add: crypto_fields default_settings_def)
  moreover have "\<not> ss_locked (w_sweep crypto_world)" by (simp add: crypto_world_def fresh_sweep_def)
  moreover have "sr_issues crypto_result \<noteq> []" by (simp add: crypto_result_def crypto_issues_def)
  moreover have "runtime_get FAILURE_COUNT_KEY (w_store crypto_world) = None" by (simp add: crypto_world_def empty_store_def runtime_get_def)
  ultimately show ?thesis
    using reconcile_reports [OF crypto_fields(1) _ _ sw _ crypto_fields(2)] by (simp add: crypto_result_def)
qed


text \<open>
  a held crypto pair trips the breaker. Orders name the pair \<open>BTC/USD\<close> and the broker's
  positions \<open>BTCUSD\<close>; the sweep compares the two texts. With the pair bought through an
  execution of this program and its stop order working at the broker, the run reports an unknown
  and unprotected position and ends with the kill switch on.
\<close>

theorem crypto_position_trips_the_breaker:
  "to_alpaca_symbol (pos_symbol crypto_position) = Inr (al_symbol crypto_order) \<and>
   (\<exists>w'. reconcile crypto_reconciler crypto_world = (Inr (Rec_error crypto_issues 1 (Some crypto_result)), w') \<and> killed (w_store w'))"
proof (rule conjI)
  show "to_alpaca_symbol (pos_symbol crypto_position) = Inr (al_symbol crypto_order)" by code_simp
  obtain w' where run: "reconcile crypto_reconciler crypto_world = (Inr (Rec_error crypto_issues 1 (Some crypto_result)), w')"
    using crypto_run by blast
  have "trips (e_settings (rc_env crypto_reconciler)) crypto_issues 1" by code_simp
  with run show "\<exists>w'. reconcile crypto_reconciler crypto_world = (Inr (Rec_error crypto_issues 1 (Some crypto_result)), w') \<and>
      killed (w_store w')"
    using failing_run_counts(2) [OF run] by (auto simp: failure_recorded_def)
qed

text \<open>
  Runs of the reconciliation that fail one after the other. In between anything may happen that
  does not write the failure counter.
\<close>

inductive failing_runs :: "reconciler \<Rightarrow> nat \<Rightarrow> world \<Rightarrow> world \<Rightarrow> bool" for rc where
  none: "failing_runs rc 0 w w"
| run: "failing_runs rc k w w1 \<Longrightarrow> runtime_get FAILURE_COUNT_KEY (w_store w2) = runtime_get FAILURE_COUNT_KEY (w_store w1) \<Longrightarrow>
    reconcile rc w2 = (Inr (Rec_error issues n r), w3) \<Longrightarrow> failing_runs rc (Suc k) w w3"

lemma failing_runs_count:
  assumes "failing_runs rc k w w'" "failure_count (w_store w) = Inr c" "0 \<le> c"
  shows "failure_count (w_store w') = Inr (c + int k) \<and> (0 < k \<longrightarrow> (\<exists>issues. failure_recorded rc issues (c + int k) (w_store w')))"
  using assms
proof (induction rule: failing_runs.induct)
  case (run k w w1 w2 issues n r w3)
  from run have "failure_count (w_store w2) = Inr (c + int k)" by (simp add: failure_count_def)
  with failing_run_counts [OF run.hyps(3)] have "n = c + int (Suc k)" and rec: "failure_recorded rc issues n (w_store w3)" by auto
  moreover have "show_int n \<noteq> []" by (simp add: show_int_def)
  ultimately show ?case using run.prems(2) by (auto simp: failure_recorded_def failure_count_def parse_show_int)
qed simp

text \<open>
  C20: repeated failure stops the program. However the runs fail (a broker that does not answer, a
  blocked account), when \<open>reconciliation_failures_before_kill_switch\<close> of them fail in a row the
  last one ends with the kill switch on.
\<close>

theorem repeated_failures_trip_the_breaker:
  assumes "failing_runs rc k w w'" "failure_count (w_store w) = Inr c" "0 \<le> c"
    and "failure_threshold (e_settings (rc_env rc)) \<le> int k"
  shows "killed (w_store w')"
proof -
  have "0 < k" using assms(4) by (simp add: failure_threshold_def)
  with failing_runs_count [OF assms(1-3)] obtain issues where "failure_recorded rc issues (c + int k) (w_store w')" by blast
  with assms(3,4) show ?thesis by (simp add: failure_recorded_def trips_def)
qed

definition silent_reconciler :: reconciler where
  "silent_reconciler = crypto_reconciler\<lparr>rc_env := demo_env\<lparr>e_identity := (\<lambda>t. Inl (BrokerError ''timeout'')),
     e_settings := default_settings\<lparr>reconciliation_failures_before_kill_switch := 1\<rparr>\<rparr>\<rparr>"

lemma silent_sweeps:
  assumes "\<And>t. e_identity (rc_env rc) t = Inl e"
  shows "after (sweep_attempts rc cl ns err) w (\<lambda>r w'. r = Inr (Inl (if ns = [] then err else Some e)) \<and>
     st_runtime (w_store w') = st_runtime (w_store w))"
proof (induction ns arbitrary: err w)
  case (Cons n ns)
  have "after (sweep rc cl) u (\<lambda>r w'. r = Inl e \<and> w_store w' = w_store u)" for u
    by (simp add: sweep_def Let_def begin_sweep_def assms)
  then show ?case unfolding sweep_attempts.simps Let_def after_bind after_try
    by (rule after_mono) (auto intro!: after_mono [OF Cons.IH])
qed simp

lemma silent_run:
  assumes "rc_alpaca rc = Some cl" "alpaca_reconciliation_enabled (e_settings (rc_env rc))" "\<not> ss_locked (w_sweep w)"
    and "\<And>t. e_identity (rc_env rc) t = Inl e" "\<not> rc_governance rc" "failure_count (w_store w) = Inr n"
  shows "\<exists>w'. reconcile rc w = (Inr (Rec_error [''reconciliation_error:'' @ exn_str e] (n + 1) None), w')"
proof -
  have "[1..attempt_count (e_settings (rc_env rc))] \<noteq> []" by (simp add: attempt_count_def)
  with silent_sweeps [where w = "locked w", OF assms(4), of cl "[1..attempt_count (e_settings (rc_env rc))]" None] obtain w1 where
    at: "sweep_attempts rc cl [1..attempt_count (e_settings (rc_env rc))] None (locked w) = (Inr (Inl (Some e)), w1)"
    and "st_runtime (w_store w1) = st_runtime (w_store (locked w))"
    by (cases "sweep_attempts rc cl [1..attempt_count (e_settings (rc_env rc))] None (locked w)") (auto simp: after_def)
  then have "failure_count (w_store w1) = Inr n" using assms(6) by (simp add: failure_count_def runtime_get_def locked_def)
  from record_failure_returns [OF this assms(5)] at
  have "\<exists>w2. reconcile_once rc cl (locked w) = (Inr (Rec_error [''reconciliation_error:'' @ exn_str e] (n + 1) None), w2)"
    by (simp add: reconcile_once_def bindP_def Let_def)
  with reconcile_unlocked [OF assms(1-3)] show ?thesis by blast
qed

theorem repeated_failures_trip_the_breaker_witness:
  "\<exists>w'. failing_runs silent_reconciler 1 (start_world empty_store) w' \<and> killed (w_store w')"
proof -
  let ?w = "start_world empty_store"
  have f0: "failure_count (w_store ?w) = Inr 0" by (simp add: failure_count_def runtime_get_def empty_store_def)
  obtain w' where "reconcile silent_reconciler ?w = (Inr (Rec_error [''reconciliation_error:'' @ exn_str (BrokerError ''timeout'')] (0 + 1) None), w')"
    using silent_run [of silent_reconciler "demo_client ''alpaca''" ?w "BrokerError ''timeout''" 0] f0
    by (auto simp: silent_reconciler_def crypto_reconciler_def default_settings_def fresh_sweep_def)
  then have runs: "failing_runs silent_reconciler 1 ?w w'" unfolding One_nat_def by (rule run [OF none refl])
  moreover have "killed (w_store w')"
    by (rule repeated_failures_trip_the_breaker [OF runs f0])
      (simp_all add: failure_threshold_def silent_reconciler_def crypto_reconciler_def)
  ultimately show ?thesis by blast
qed

subsection \<open>Booking\<close>

lemma payload_fill_time [simp]: "fill_time (order_payload o1) = al_filled_at o1"
  by (cases "al_filled_at o1") (simp_all add: fill_time_def order_payload_def dict_get_def iso_timestamp_def)

lemma no_filled_leg:
  assumes "\<forall>l \<in> set (ao_legs o1). py_lower (al_status l) \<noteq> ''filled''"
  shows "realized_pnl (order_payload o1) = Inr 0"
proof -
  have "first_filled_leg_pnl p q (map leg_payload ls) = Inr 0" if "\<forall>l \<in> set ls. py_lower (al_status l) \<noteq> ''filled''" for p q ls
    using that by (induction ls) (simp_all add: lower_of_def)
  with assms show ?thesis by (simp add: realized_pnl_def)
qed

text \<open>The fills that can close an entry filled at \<open>t0\<close>.\<close>

definition closes_after :: "time \<Rightarrow> alpaca_order \<Rightarrow> bool" where
  "closes_after t0 x \<longleftrightarrow> (\<exists>t. al_filled_at x = Some t \<and> t0 < t) \<and> 0 < float_or_zero (al_filled_avg_price x)"

lemma exit_candidates_payloads: "exit_candidates t0 (map order_payload xs) = Inr (map order_payload (filter (closes_after t0) xs))"
  by (induction xs) (auto simp: closes_after_def split: option.splits)

lemma arg_min_list_map: "xs \<noteq> [] \<Longrightarrow> arg_min_list f (map g xs) = g (arg_min_list (\<lambda>x. f (g x)) xs)"
  by (induction xs rule: induct_list012) (auto simp: Let_def)

lemma standalone_exit_payloads:
  assumes "al_filled_at entry = Some t0" "py_lower (al_side entry) = ''buy''" "0 < float_or_zero (al_filled_qty entry)"
    "0 < float_or_zero (al_filled_avg_price entry)" "x \<in> set xs" "closes_after t0 x" "al_filled_at x = Some t"
    and first: "\<forall>y \<in> set xs. closes_after t0 y \<and> y \<noteq> x \<longrightarrow> (\<exists>u. al_filled_at y = Some u \<and> t < u)"
  shows "standalone_exit (order_payload entry) (Some (map order_payload xs)) = Inr (Some (order_payload x))"
proof -
  let ?cs = "filter (closes_after t0) xs" and ?f = "\<lambda>y. case al_filled_at y of None \<Rightarrow> 0 | Some u \<Rightarrow> u"
  have x: "x \<in> set ?cs" using assms(5,6) by simp
  then have ne: "?cs \<noteq> []" by (metis empty_iff empty_set)
  have "arg_min_list ?f ?cs = x"
  proof (rule ccontr)
    assume "arg_min_list ?f ?cs \<noteq> x"
    with first arg_min_list_in [OF ne, of ?f] obtain u where "al_filled_at (arg_min_list ?f ?cs) = Some u" "t < u" by auto
    moreover have "?f (arg_min_list ?f ?cs) \<le> ?f x"
      by (rule ord_eq_le_trans [OF f_arg_min_list_f [OF ne] Min_le]) (use x in simp_all)
    ultimately show False using assms(7) by simp
  qed
  then have "earliest (map order_payload ?cs) = order_payload x" by (simp add: earliest_def arg_min_list_map [OF ne])
  moreover obtain z zs where "xs = z # zs" using assms(5) by (cases xs) auto
  ultimately show ?thesis
    using assms(1-4) ne exit_candidates_payloads [of t0 xs] by (simp add: standalone_exit_def lower_of_def)
qed

lemma response_dict_get:
  "dict_get (reconciled_response old payload fill slippage) ''broker_execution'' = PDict payload"
  by (simp add: reconciled_response_def optional_entry_def split: option.splits)

lemma booked_fill_time:
  assumes "\<forall>l \<in> set (ao_legs entry). py_lower (al_status l) \<noteq> ''filled''" "fill_time x = Some t"
    and "dict_get (ex_response_payload e) ''broker_execution'' = PDict (order_payload entry)"
    and "dict_get (ex_response_payload e) ''exit_fill'' =
      PDict (AList.update ''status'' (PStr ''filled'') (AList.update ''legs'' (PList []) x))"
  shows "realized_at e = Inr t"
proof -
  have legs: "filter leg_filled (map leg_payload ls) = []" if "\<forall>l \<in> set ls. py_lower (al_status l) \<noteq> ''filled''" for ls
    using that by (induction ls) (simp_all add: leg_filled_def flip: text_of_def)
  have at: "dict_get x ''filled_at'' = PTime t" using assms(2) by (simp add: fill_time_def split: pyval.splits)
  have "py_lower ''filled'' = ''filled''" by code_simp
  with at have exit: "leg_filled (AList.update ''status'' (PStr ''filled'') (AList.update ''legs'' (PList []) x))"
    by (simp add: leg_filled_def)
  have "exit_legs (ex_response_payload e) = map leg_payload (ao_legs entry) @
      [AList.update ''status'' (PStr ''filled'') (AList.update ''legs'' (PList []) x)]"
    using assms(3,4) by (simp add: exit_legs_def flip: legs_of_def)
  with legs [OF assms(1)] exit at show ?thesis by (simp add: realized_at_def parse_time_def)
qed

text \<open>
  a loss closed outside its bracket is booked. For a filled long entry none of whose legs
  filled, the sweep takes the earliest later filled sell of the symbol as its exit, books the
  profit of the shares both fills cover, and dates it at that fill, which is the date the
  daily-loss and cooldown statistics use.
\<close>

theorem standalone_exit_is_booked:
  assumes "al_filled_at entry = Some t0" "py_lower (al_side entry) = ''buy''" "0 < float_or_zero (al_filled_qty entry)"
    "0 < float_or_zero (al_filled_avg_price entry)" "\<forall>l \<in> set (ao_legs entry). py_lower (al_status l) \<noteq> ''filled''"
    "x \<in> set xs" "closes_after t0 x" "al_filled_at x = Some t"
    and "\<forall>y \<in> set xs. closes_after t0 y \<and> y \<noteq> x \<longrightarrow> (\<exists>u. al_filled_at y = Some u \<and> t < u)"
    and "float_of (ex_request_payload e) ''proposed_price'' = Inr proposed"
  shows "\<exists>e' fill slippage. reconciled_execution now e (order_payload entry) (Some (map order_payload xs)) = Inr (e', fill, slippage) \<and>
    ex_realized_pnl_usd e' = py_round 2 ((float_or_zero (al_filled_avg_price x) - float_or_zero (al_filled_avg_price entry)) *
      min (float_or_zero (al_filled_qty entry)) (float_or_zero (al_filled_qty x))) \<and>
    realized_at e' = Inr t"
proof -
  note exit = standalone_exit_payloads [OF assms(1-4,6-9)]
  have price: "to_float (dict_get (order_payload x) ''filled_avg_price'') = Inr (float_or_zero (al_filled_avg_price x))"
    using assms(7) by (cases "optional_float (al_filled_avg_price x)")
      (auto simp: closes_after_def float_or_zero_def order_payload_def dict_get_def opt_float_def)
  let ?fill = "if float_or_zero (al_filled_avg_price entry) = 0 then None else Some (float_or_zero (al_filled_avg_price entry))"
  let ?response = "reconciled_response (ex_response_payload e) (order_payload entry) ?fill (signed_slippage_bps ?fill proposed)"
  let ?pnl = "py_round 2 ((float_or_zero (al_filled_avg_price x) - float_or_zero (al_filled_avg_price entry)) *
      min (float_or_zero (al_filled_qty entry)) (float_or_zero (al_filled_qty x)))"
  let ?e = "e\<lparr>ex_response_payload := AList.update ''exit_fill'' (PDict (AList.update ''status'' (PStr ''filled'')
        (AList.update ''legs'' (PList []) (order_payload x)))) ?response,
      ex_status := reconciled_status (lower_of (order_payload entry) ''status'') (ex_status e), ex_realized_pnl_usd := ?pnl,
      ex_updated_at := now\<rparr>"
  have "reconciled_execution now e (order_payload entry) (Some (map order_payload xs)) = Inr (?e, ?fill, signed_slippage_bps ?fill proposed)"
    by (simp add: reconciled_execution_def assms(10) no_filled_leg [OF assms(5)] exit book_exit_def price Let_def)
  moreover have "realized_at ?e = Inr t"
    by (rule booked_fill_time [OF assms(5), of "order_payload x"]) (simp_all add: assms(8) response_dict_get)
  moreover have "ex_realized_pnl_usd ?e = ?pnl" by simp
  ultimately show ?thesis by blast
qed

text \<open>
  the trade-update stream books without standalone exits. Ingesting an order none of whose legs
  filled sets the execution's profit to zero, whatever a sweep had booked for it, although the
  stream is said to be unable to diverge from the sweep.
\<close>

theorem stream_resets_booked_exit:
  assumes "\<forall>l \<in> set (ao_legs entry). py_lower (al_status l) \<noteq> ''filled''"
    and "reconciled_execution now e (order_payload entry) None = Inr (e', fill, slippage)"
  shows "ex_realized_pnl_usd e' = 0"
  using assms by (auto simp: reconciled_execution_def no_filled_leg standalone_exit_def book_exit_def Let_def split: sum.splits)

definition flattened_entry :: alpaca_order where
  "flattened_entry = crypto_order\<lparr>al_symbol := ''NVDA'', ao_order_class := ''bracket''\<rparr>"

definition flatten_fill :: alpaca_order where
  "flatten_fill = flattened_entry\<lparr>al_id := ''o-9'', al_side := ''sell'', al_filled_avg_price := PStr ''95.5'', al_filled_at := Some 9\<rparr>"

definition flattened_execution :: execution_record where
  "flattened_execution = new_execution ''exec_1'' 0 ''prop_1'' ES_SUBMITTED ''alpaca_paper'' (Some ''o-1'') [(''proposed_price'', PInt 100)] [] None"

lemma flatten_facts:
  "al_filled_at flattened_entry = Some 2" "py_lower (al_side flattened_entry) = ''buy''" "float_or_zero (al_filled_qty flattened_entry) = 1"
  "float_or_zero (al_filled_avg_price flattened_entry) = 100" "ao_legs flattened_entry = []" "al_filled_at flatten_fill = Some 9"
  "float_or_zero (al_filled_avg_price flatten_fill) = 191/2" "float_or_zero (al_filled_qty flatten_fill) = 1"
  "float_of (ex_request_payload flattened_execution) ''proposed_price'' = Inr 100" "py_round 2 ((191/2 - 100) * min 1 1) = - 9/2"
  by code_simp+

theorem standalone_exit_is_booked_witness:
  "\<exists>e' fill slippage. reconciled_execution 10 flattened_execution (order_payload flattened_entry) (Some (map order_payload [flatten_fill])) =
     Inr (e', fill, slippage) \<and> ex_realized_pnl_usd e' = - 9/2 \<and> realized_at e' = Inr 9"
proof -
  have "closes_after 2 flatten_fill" by (simp add: closes_after_def flatten_facts)
  from standalone_exit_is_booked [of flattened_entry 2 flatten_fill "[flatten_fill]" 9 flattened_execution 100 10] this show ?thesis
    using flatten_facts(10) by (simp add: flatten_facts)
qed

theorem stream_resets_booked_exit_witness:
  "\<exists>e' fill slippage. reconciled_execution 10 (flattened_execution\<lparr>ex_realized_pnl_usd := - 9/2\<rparr>) (order_payload flattened_entry) None =
     Inr (e', fill, slippage) \<and> ex_realized_pnl_usd e' = 0"
proof -
  let ?r = "reconciled_execution 10 (flattened_execution\<lparr>ex_realized_pnl_usd := - 9/2\<rparr>) (order_payload flattened_entry) None"
  have "?r = Inr (projr ?r)" by code_simp
  then obtain e' fill slippage where r: "?r = Inr (e', fill, slippage)" by (cases "projr ?r") auto
  have "ex_realized_pnl_usd e' = 0" by (rule stream_resets_booked_exit [OF _ r]) (simp add: flatten_facts)
  with r show ?thesis by blast
qed

text \<open>
  neither a reconciliation run nor the ingestion of an order update, however it ends, breaks
  the uniqueness of ids and the queue index, or lifts the kill switch.
\<close>

theorem reconciliation_keeps_invariants:
  assumes "reconcile rc w = (r, w') \<or> ingest_order_update rc oid w = (r2, w')"
  shows "(store_inv (w_store w) \<longrightarrow> store_inv (w_store w')) \<and> (killed (w_store w) \<longrightarrow> killed (w_store w'))"
  using assms keepsD [OF keyed.keeps_reconcile] keepsD [OF keyed.keeps_ingest] keepsD [OF kill.keeps_reconcile]
    keepsD [OF kill.keeps_ingest] by blast

theorem reconciliation_keeps_invariants_witness:
  "store_inv (w_store (snd (reconcile crypto_reconciler (start_world empty_store))))"
  by (rule reconciliation_keeps_invariants [THEN conjunct1, THEN mp, OF disjI1 [OF prod.collapse [symmetric]]])
    (simp add: store_inv_empty)

end
