(* ===== verification/Broker_Ledger.thy ===== *)
theory Broker_Ledger
  imports Alpaca
begin

text \<open>
  Broker-backed paper trades. \<open>PaperTradingService.broker_executions\<close> (src/app/paper/service.py)
  joins executions, queue items and order snapshots into one record per Alpaca paper execution;
  src/app/paper/broker_ledger.py mirrors these records into the paper ledger: a filled entry
  opens a position, a filled protective leg or a matching separate close order closes it.

  Timestamps in payloads are instants, as everywhere in the model; text that is no timestamp is
  no instant.
\<close>

subsection \<open>Records\<close>

record broker_leg =
  bl_broker_order_id :: "string option"
  bl_client_order_id :: "string option"
  bl_side :: "string option"
  bl_order_type :: "string option"
  bl_status :: "string option"
  bl_quantity :: pyfloat
  bl_filled_qty :: pyfloat
  bl_filled_avg_price :: "pyfloat option"
  bl_limit_price :: "pyfloat option"
  bl_stop_price :: "pyfloat option"
  bl_created_at :: "time option"
  bl_filled_at :: "time option"
  bl_canceled_at :: "time option"

record paper_broker_execution =
  bx_execution_id :: string
  bx_proposal_id :: string
  bx_queue_id :: "string option"
  bx_symbol :: string
  bx_strategy_name :: "string option"
  bx_source :: string
  bx_mode :: string
  bx_status :: string
  bx_broker_order_id :: "string option"
  bx_client_order_id :: "string option"
  bx_side :: "string option"
  bx_order_class :: "string option"
  bx_quantity :: pyfloat
  bx_filled_qty :: pyfloat
  bx_entry_fill_price :: "pyfloat option"
  bx_exit_order_id :: "string option"
  bx_exit_fill_price :: "pyfloat option"
  bx_realized_pnl_usd :: pyfloat
  bx_created_at :: time
  bx_updated_at :: time
  bx_submitted_at :: "time option"
  bx_filled_at :: "time option"
  bx_canceled_at :: "time option"
  bx_legs :: "broker_leg list"
  bx_payload :: pydict

text \<open>The service and the repositories it may have been given.\<close>

record paper_service =
  ps_env :: env
  ps_executions :: bool
  ps_broker_orders :: bool
  ps_execution_queue :: bool
  ps_learning :: bool
  ps_safety_state :: bool

subsection \<open>Reading payloads\<close>

text \<open>\<open>str(v or "") or None\<close> and \<open>str(leg.status or "").lower()\<close>.\<close>

definition str_or_none :: "string \<Rightarrow> string option" where
  "str_or_none s = (if s = [] then None else Some s)"

definition lower_opt :: "string option \<Rightarrow> string" where
  "lower_opt v = py_lower (or_empty v)"

fun parse_timestamp :: "pyval \<Rightarrow> time option" where
  "parse_timestamp (PTime t) = Some t"
| "parse_timestamp _ = None"

text \<open>\<open>{**base, **{key: value for key, value in extra.items() if value not in (None, "")}}\<close>.\<close>

definition overlay :: "pydict \<Rightarrow> pydict \<Rightarrow> pydict" where
  "overlay base extra = fold (\<lambda>(k, v) d. if v = PNone \<or> v = PStr [] then d else AList.update k v d) extra base"

text \<open>A list comprehension whose elements may raise.\<close>

fun collect :: "('a \<Rightarrow> exn + 'b) \<Rightarrow> 'a list \<Rightarrow> exn + 'b list" where
  "collect f [] = Inr []"
| "collect f (x # xs) = (case f x of Inl e \<Rightarrow> Inl e
     | Inr y \<Rightarrow> (case collect f xs of Inl e \<Rightarrow> Inl e | Inr ys \<Rightarrow> Inr (y # ys)))"

definition payload_strategy_name :: "queue_record option \<Rightarrow> string" where
  "payload_strategy_name queue = (case queue of None \<Rightarrow> []
     | Some q \<Rightarrow> text_of (as_dict (dict_get (q_payload q) ''order'')) ''strategy_name'')"

definition execution_source :: "string \<Rightarrow> pydict \<Rightarrow> string" where
  "execution_source strategy_name request =
     (if strategy_name = ''manual_smoke'' then ''manual_smoke''
      else let metadata = as_dict (dict_get request ''metadata'') in
        if truthy (dict_get metadata ''strategy_lab_generated'') \<or> py_startswith strategy_name ''generated_''
        then ''generated_strategy''
        else if dict_get metadata ''source'' = PStr ''rl_policy'' then ''rl_policy''
        else if strategy_name \<noteq> [] then ''scanner_strategy'' else ''unknown'')"

definition is_broker_paper_execution :: "execution_record \<Rightarrow> bool" where
  "is_broker_paper_execution e =
     (lower_of (ex_response_payload e) ''broker'' = ''alpaca'' \<or> py_startswith (ex_mode e) ''alpaca_'')"

subsection \<open>Legs\<close>

definition leg_from_snapshot :: "order_snapshot \<Rightarrow> exn + broker_leg" where
  "leg_from_snapshot s =
     (let d = os_payload s in
      case to_float (py_or (dict_get d ''qty'') (PFloat 0)) of Inl e \<Rightarrow> Inl e | Inr qty \<Rightarrow>
      case to_float (py_or (PFloat (os_filled_qty s)) (py_or (dict_get d ''filled_qty'') (PFloat 0))) of Inl e \<Rightarrow> Inl e
      | Inr filled \<Rightarrow> Inr \<lparr>
         bl_broker_order_id = str_or_none (os_broker_order_id s),
         bl_client_order_id = str_or_none (if or_empty (os_client_order_id s) \<noteq> [] then or_empty (os_client_order_id s)
           else text_of d ''client_order_id''),
         bl_side = str_or_none (if os_side s \<noteq> [] then os_side s else text_of d ''side''),
         bl_order_type = str_or_none (text_of d ''type''),
         bl_status = str_or_none (if os_status s \<noteq> [] then os_status s else text_of d ''status''),
         bl_quantity = qty, bl_filled_qty = filled,
         bl_filled_avg_price = optional_float (py_or (opt_float (os_filled_avg_price s)) (dict_get d ''filled_avg_price'')),
         bl_limit_price = optional_float (dict_get d ''limit_price''),
         bl_stop_price = optional_float (dict_get d ''stop_price''),
         bl_created_at = parse_timestamp (py_or (dict_get d ''created_at'') (PTime (os_created_at s))),
         bl_filled_at = parse_timestamp (dict_get d ''filled_at''),
         bl_canceled_at = parse_timestamp (dict_get d ''canceled_at'')\<rparr>)"

definition leg_from_payload :: "pydict \<Rightarrow> exn + broker_leg" where
  "leg_from_payload d =
     (case float_of d ''qty'' of Inl e \<Rightarrow> Inl e | Inr qty \<Rightarrow>
      case float_of d ''filled_qty'' of Inl e \<Rightarrow> Inl e | Inr filled \<Rightarrow> Inr \<lparr>
        bl_broker_order_id = str_or_none (text_of d ''broker_order_id''),
        bl_client_order_id = str_or_none (text_of d ''client_order_id''),
        bl_side = str_or_none (text_of d ''side''), bl_order_type = str_or_none (text_of d ''type''),
        bl_status = str_or_none (text_of d ''status''), bl_quantity = qty, bl_filled_qty = filled,
        bl_filled_avg_price = optional_float (dict_get d ''filled_avg_price''),
        bl_limit_price = optional_float (dict_get d ''limit_price''),
        bl_stop_price = optional_float (dict_get d ''stop_price''),
        bl_created_at = parse_timestamp (dict_get d ''created_at''),
        bl_filled_at = parse_timestamp (dict_get d ''filled_at''),
        bl_canceled_at = parse_timestamp (dict_get d ''canceled_at'')\<rparr>)"

definition broker_legs :: "pydict \<Rightarrow> order_snapshot list \<Rightarrow> string option \<Rightarrow> exn + broker_leg list" where
  "broker_legs payload snapshots parent_order_id =
     (let mine = filter (\<lambda>s. or_empty parent_order_id \<noteq> [] \<and> or_empty (os_parent_order_id s) = or_empty parent_order_id) snapshots
      in if mine \<noteq> [] then collect leg_from_snapshot (sort_key os_created_at mine)
         else collect leg_from_payload (legs_of payload))"

text \<open>A filled sell leg with a price, as the exit of the execution.\<close>

definition sold :: "broker_leg \<Rightarrow> bool" where
  "sold l \<longleftrightarrow> lower_opt (bl_status l) = ''filled'' \<and> lower_opt (bl_side l) = ''sell''"

definition find_exit_leg :: "broker_leg list \<Rightarrow> broker_leg option" where
  "find_exit_leg legs = find (\<lambda>l. sold l \<and> bl_filled_avg_price l \<noteq> None) legs"

subsection \<open>Separate close orders\<close>

definition snapshot_timestamp :: "order_snapshot \<Rightarrow> time option" where
  "snapshot_timestamp s = parse_timestamp (py_or (dict_get (os_payload s) ''filled_at'')
     (py_or (dict_get (os_payload s) ''created_at'') (PTime (os_created_at s))))"

definition is_matching_separate_exit_snapshot :: "order_snapshot \<Rightarrow> pyfloat \<Rightarrow> time \<Rightarrow> time \<Rightarrow> bool" where
  "is_matching_separate_exit_snapshot s filled_qty parent_time latest_exit_time =
     (or_empty (os_execution_id s) = [] \<and> py_lower (os_side s) = ''sell'' \<and> py_lower (os_status s) = ''filled'' \<and>
      (case snapshot_timestamp s of None \<Rightarrow> False | Some t \<Rightarrow> parent_time \<le> t \<and> t \<le> latest_exit_time) \<and>
      (case optional_float (py_or (PFloat (os_filled_qty s)) (dict_get (os_payload s) ''filled_qty'')) of
         None \<Rightarrow> False | Some q \<Rightarrow> \<bar>q - filled_qty\<bar> \<le> 1 / 1000000))"

definition nearest_exit_snapshot :: "pydict \<Rightarrow> order_snapshot list \<Rightarrow> pyfloat \<Rightarrow> order_snapshot option" where
  "nearest_exit_snapshot parent_payload same_symbol filled_qty =
     (case parse_timestamp (py_or (dict_get parent_payload ''filled_at'') (dict_get parent_payload ''created_at'')) of
        None \<Rightarrow> None
      | Some parent_time \<Rightarrow>
          (let latest = parent_time + 7 * day_us;
               candidates = filter (\<lambda>s. is_matching_separate_exit_snapshot s filled_qty parent_time latest) same_symbol
           in if candidates = [] then None
              else Some (arg_min_list (\<lambda>s. case snapshot_timestamp s of None \<Rightarrow> latest | Some t \<Rightarrow> t) candidates)))"

subsection \<open>One record per execution\<close>

definition parent_snapshot :: "execution_record \<Rightarrow> order_snapshot list \<Rightarrow> order_snapshot option" where
  "parent_snapshot e snapshots =
     (case find (\<lambda>s. os_broker_order_id s = or_empty (ex_broker_order_id e)) snapshots of
        Some s \<Rightarrow> Some s
      | None \<Rightarrow> find (\<lambda>s. or_empty (os_parent_order_id s) = []) snapshots)"

text \<open>\<open>parent.get(column)\<close>, where \<open>parent\<close> may be the empty dictionary.\<close>

definition parent_get :: "order_snapshot option \<Rightarrow> (order_snapshot \<Rightarrow> pyval) \<Rightarrow> pyval" where
  "parent_get parent f = (case parent of None \<Rightarrow> PNone | Some s \<Rightarrow> f s)"

definition merged_payload :: "execution_record \<Rightarrow> order_snapshot option \<Rightarrow> pydict" where
  "merged_payload e parent = overlay (as_dict (dict_get (ex_response_payload e) ''broker_execution''))
     (case parent of None \<Rightarrow> [] | Some s \<Rightarrow> os_payload s)"

definition record_strategy :: "queue_record option \<Rightarrow> pydict \<Rightarrow> string" where
  "record_strategy queue request =
     (let own = (case queue of None \<Rightarrow> [] | Some q \<Rightarrow> or_empty (q_strategy_name q)) in
      if own \<noteq> [] then own
      else if text_of request ''strategy_name'' \<noteq> [] then text_of request ''strategy_name''
      else payload_strategy_name queue)"

definition broker_execution_record ::
  "execution_record \<Rightarrow> queue_record option \<Rightarrow> order_snapshot list \<Rightarrow> (string \<Rightarrow> order_snapshot list) \<Rightarrow>
    exn + paper_broker_execution" where
  "broker_execution_record e queue snapshots symbol_snapshots =
     (let parent = parent_snapshot e snapshots; payload = merged_payload e parent; request = ex_request_payload e;
          symbol = py_upper (if text_of payload ''symbol'' \<noteq> [] then text_of payload ''symbol''
            else if text_of request ''symbol'' \<noteq> [] then text_of request ''symbol''
            else case queue of None \<Rightarrow> [] | Some q \<Rightarrow> q_symbol q);
          strategy_name = record_strategy queue request;
          side = (if text_of payload ''side'' \<noteq> [] then text_of payload ''side'' else text_of request ''side'');
          entry_price = optional_float (py_or (dict_get payload ''filled_avg_price'')
            (parent_get parent (\<lambda>s. opt_float (os_filled_avg_price s))))
      in case to_float (py_or (dict_get payload ''filled_qty'')
                (py_or (parent_get parent (\<lambda>s. PFloat (os_filled_qty s))) (PFloat 0))) of Inl x \<Rightarrow> Inl x | Inr filled_qty \<Rightarrow>
         case broker_legs payload snapshots (ex_broker_order_id e) of Inl x \<Rightarrow> Inl x | Inr legs \<Rightarrow>
         (let exit_leg = find_exit_leg legs;
              exit_snapshot = (if exit_leg = None \<and> py_lower side = ''buy'' \<and> 0 < filled_qty \<and> entry_price \<noteq> None
                then nearest_exit_snapshot payload (symbol_snapshots symbol) filled_qty else None);
              exit_price = (case exit_leg of Some l \<Rightarrow> bl_filled_avg_price l
                | None \<Rightarrow> (case exit_snapshot of None \<Rightarrow> None | Some s \<Rightarrow> os_filled_avg_price s));
              realized = (if ex_realized_pnl_usd e = 0 \<and> entry_price \<noteq> None \<and> exit_price \<noteq> None \<and> 0 < filled_qty
                then py_round 2 ((the exit_price - the entry_price) * filled_qty) else ex_realized_pnl_usd e)
          in case to_float (py_or (dict_get payload ''qty'') (PFloat filled_qty)) of Inl x \<Rightarrow> Inl x
             | Inr quantity \<Rightarrow> Inr \<lparr>
               bx_execution_id = ex_id e, bx_proposal_id = ex_proposal_id e, bx_queue_id = map_option q_id queue,
               bx_symbol = symbol, bx_strategy_name = str_or_none strategy_name,
               bx_source = execution_source strategy_name request, bx_mode = ex_mode e, bx_status = ex_status e,
               bx_broker_order_id = ex_broker_order_id e,
               bx_client_order_id = str_or_none (if text_of payload ''client_order_id'' \<noteq> [] then text_of payload ''client_order_id''
                 else text_of request ''client_order_id''),
               bx_side = str_or_none side,
               bx_order_class = str_or_none (if text_of payload ''order_class'' \<noteq> [] then text_of payload ''order_class''
                 else case parent of None \<Rightarrow> [] | Some s \<Rightarrow> os_order_class s),
               bx_quantity = quantity, bx_filled_qty = filled_qty, bx_entry_fill_price = entry_price,
               bx_exit_order_id = (case exit_leg of Some l \<Rightarrow> bl_broker_order_id l
                 | None \<Rightarrow> (case exit_snapshot of None \<Rightarrow> None | Some s \<Rightarrow> str_or_none (os_broker_order_id s))),
               bx_exit_fill_price = exit_price, bx_realized_pnl_usd = realized,
               bx_created_at = ex_created_at e, bx_updated_at = ex_updated_at e,
               bx_submitted_at = parse_timestamp (dict_get payload ''submitted_at''),
               bx_filled_at = parse_timestamp (dict_get payload ''filled_at''),
               bx_canceled_at = parse_timestamp (dict_get payload ''canceled_at''), bx_legs = legs,
               bx_payload = [(''broker'', dict_get (ex_response_payload e) ''broker''), (''request'', PDict request),
                 (''exit_source'', if exit_leg \<noteq> None then PStr ''bracket_leg''
                    else if exit_snapshot \<noteq> None then PStr ''separate_close_order'' else PNone)]\<rparr>))"

text \<open>The queue item of a proposal: of several, the last one listed.\<close>

definition queue_by_proposal :: "paper_service \<Rightarrow> store \<Rightarrow> string \<Rightarrow> queue_record option" where
  "queue_by_proposal ps st pid = (if \<not> ps_execution_queue ps \<or> pid = [] then None
     else find (\<lambda>q. q_proposal_id q = pid) (rev (queue_list None 1000 st)))"

definition broker_order_snapshots :: "paper_service \<Rightarrow> int \<Rightarrow> store \<Rightarrow> order_snapshot list" where
  "broker_order_snapshots ps limit st = (if ps_broker_orders ps then snapshot_list limit st else [])"

definition broker_executions :: "paper_service \<Rightarrow> int \<Rightarrow> store \<Rightarrow> exn + paper_broker_execution list" where
  "broker_executions ps limit st =
     (if \<not> ps_executions ps then Inr []
      else let snapshots = broker_order_snapshots ps (max 1000 (limit * 20)) st;
               by_execution = (\<lambda>eid. filter (\<lambda>s. or_empty (os_execution_id s) \<noteq> [] \<and> or_empty (os_execution_id s) = eid) snapshots);
               by_symbol = (\<lambda>sym. filter (\<lambda>s. os_symbol s \<noteq> [] \<and> py_upper (os_symbol s) = sym) snapshots)
           in map_sum (\<lambda>x. x) (take (nat (max limit 1)))
                (collect (\<lambda>e. broker_execution_record e (queue_by_proposal ps st (ex_proposal_id e)) (by_execution (ex_id e)) by_symbol)
                  (filter is_broker_paper_execution (execution_list (max limit 1) st))))"

subsection \<open>The mirror\<close>

definition LEDGER_SOURCE :: string where "LEDGER_SOURCE = ''alpaca_paper''"

definition exit_outcome :: "paper_broker_execution \<Rightarrow> string" where
  "exit_outcome x = (case find_exit_leg (bx_legs x) of None \<Rightarrow> ''broker_close''
     | Some l \<Rightarrow> if bl_stop_price l \<noteq> None \<or> lower_opt (bl_order_type l) = ''stop'' then ''stop_loss''
         else if bl_limit_price l \<noteq> None \<or> lower_opt (bl_order_type l) = ''limit'' then ''target_1''
         else ''broker_close'')"

definition exit_filled_at :: "paper_broker_execution \<Rightarrow> time option" where
  "exit_filled_at x = (case find (\<lambda>l. sold l \<and> bl_filled_at l \<noteq> None) (bx_legs x) of None \<Rightarrow> None | Some l \<Rightarrow> bl_filled_at l)"

text \<open>The position a filled execution opens.\<close>

definition mirrored_position :: "string \<Rightarrow> time \<Rightarrow> paper_broker_execution \<Rightarrow> paper_position" where
  "mirrored_position pid now x =
     (let request = as_dict (dict_get (bx_payload x) ''request''); metadata = as_dict (dict_get request ''metadata'');
          trade_plan = as_dict (dict_get metadata ''trade_plan'');
          stop = (case find (\<lambda>l. bl_stop_price l \<noteq> None) (bx_legs x) of Some l \<Rightarrow> bl_stop_price l
            | None \<Rightarrow> optional_float (dict_get request ''stop_loss''));
          target = (case find (\<lambda>l. bl_limit_price l \<noteq> None) (bx_legs x) of Some l \<Rightarrow> bl_limit_price l
            | None \<Rightarrow> optional_float (dict_get request ''take_profit''));
          opened_at = (case bx_filled_at x of Some t \<Rightarrow> t | None \<Rightarrow>
            (case bx_submitted_at x of Some t \<Rightarrow> t | None \<Rightarrow> bx_created_at x));
          entry = (case bx_entry_fill_price x of None \<Rightarrow> 0 | Some e \<Rightarrow> e)
      in \<lparr>pp_id = pid, pp_proposal_id = Some (bx_proposal_id x), pp_signal_id = str_or_none (text_of metadata ''signal_id''),
          pp_symbol = py_upper (bx_symbol x),
          pp_strategy_name = opt_or (bx_strategy_name x) (text_or (dict_get request ''strategy_name'') ''unknown''),
          pp_timeframe = text_or (dict_get metadata ''timeframe'') ''1d'',
          pp_side = py_lower (opt_or (bx_side x) (text_or (dict_get request ''side'') ''buy'')),
          pp_regime_label = str_or_none (text_of metadata ''market_regime_label''),
          pp_hold_style = str_or_none (text_of trade_plan ''hold_style''),
          pp_status = ''open'', pp_quantity = bx_filled_qty x, pp_entry_price = entry, pp_current_price = entry,
          pp_stop_loss = stop, pp_target_1 = target, pp_target_2 = None, pp_target_3 = None,
          pp_opened_at = opened_at, pp_updated_at = now, pp_closed_at = None,
          pp_realized_pnl_usd = 0, pp_unrealized_pnl_usd = 0,
          pp_payload = [(''ledger_source'', PStr LEDGER_SOURCE), (''execution_id'', PStr (bx_execution_id x)),
            (''broker_order_id'', opt_str (bx_broker_order_id x)), (''client_order_id'', opt_str (bx_client_order_id x)),
            (''source'', PStr (bx_source x)),
            (''risk_reward_ratio'', py_or (dict_get metadata ''risk_reward_ratio'') (dict_get metadata ''estimated_reward_to_risk'')),
            (''proposed_price'', opt_float (optional_float (dict_get request ''proposed_price''))),
            (''slippage_bps'', PNone)] @ paper_only_tags metadata\<rparr>)"

definition open_position :: "env \<Rightarrow> paper_broker_execution \<Rightarrow> paper_position prog" where
  "open_position env x =
     bindP (utc_now env) (\<lambda>now.
     bindP (generate_id env ''paperpos'') (\<lambda>pid.
     let record = mirrored_position pid now x in
     bindP (tryStoreP (\<lambda>st. with_unit (position_create_row record st))) (\<lambda>_.
     bindP (logP env ''paper_position_opened'' [(''proposal_id'', PStr (bx_proposal_id x)),
       (''execution_id'', PStr (bx_execution_id x)), (''symbol'', PStr (pp_symbol record)),
       (''entry_price'', PFloat (pp_entry_price record)), (''quantity'', PFloat (pp_quantity record)),
       (''timeframe'', PStr (pp_timeframe record)), (''ledger_source'', PStr LEDGER_SOURCE)]) (\<lambda>_.
     returnP record))))"

text \<open>The broker-backed positions by execution: of several, the last one listed.\<close>

definition position_execution :: "paper_position \<Rightarrow> string" where
  "position_execution p = text_of (pp_payload p) ''execution_id''"

definition positions_by_execution :: "store \<Rightarrow> (string \<times> paper_position) list" where
  "positions_by_execution st = fold (\<lambda>p d. if is_broker_backed p \<and> position_execution p \<noteq> []
     then AList.update (position_execution p) p d else d) (position_list None 2000 st) []"

definition find_or_open :: "env \<Rightarrow> paper_broker_execution \<Rightarrow> (string \<times> paper_position) list \<Rightarrow>
    (paper_position \<times> (string \<times> paper_position) list \<times> int) prog" where
  "find_or_open env x by = (case map_of by (bx_execution_id x) of
       Some p \<Rightarrow> returnP (p, by, 0)
     | None \<Rightarrow> bindP (open_position env x) (\<lambda>p. returnP (p, AList.update (bx_execution_id x) p by, 1)))"

definition close_if_exited :: "env \<Rightarrow> paper_broker_execution \<Rightarrow> paper_position \<Rightarrow> (string \<times> paper_position) list \<Rightarrow> int \<Rightarrow>
    ((string \<times> paper_position) list \<times> int \<times> int) prog" where
  "close_if_exited env x p by opened =
     (if pp_status p \<noteq> ''open'' then returnP (by, opened, 0)
      else case bx_exit_fill_price x of None \<Rightarrow> returnP (by, opened, 0)
      | Some price \<Rightarrow> bindP (close_position env p price (exit_outcome x) (exit_filled_at x)) (\<lambda>t.
          returnP (AList.update (bx_execution_id x) (closed_position p price (pt_closed_at t)) by, opened, 1)))"

definition sync_execution :: "env \<Rightarrow> paper_broker_execution \<Rightarrow> (string \<times> paper_position) list \<Rightarrow>
    ((string \<times> paper_position) list \<times> int \<times> int) prog" where
  "sync_execution env x by =
     (if bx_filled_qty x \<le> 0 \<or> bx_entry_fill_price x = None then returnP (by, 0, 0)
      else bindP (find_or_open env x by) (\<lambda>(p, by', opened). close_if_exited env x p by' opened))"

fun sync_executions :: "env \<Rightarrow> paper_broker_execution list \<Rightarrow> (string \<times> paper_position) list \<Rightarrow> (int \<times> int) prog" where
  "sync_executions env [] by = returnP (0, 0)"
| "sync_executions env (x # xs) by =
     bindP (sync_execution env x by) (\<lambda>(by', o1, c1).
     bindP (sync_executions env xs by') (\<lambda>(o2, c2). returnP (o1 + o2, c1 + c2)))"

text \<open>The result: scanned, opened and closed.\<close>

definition sync_broker_backed_positions :: "paper_service \<Rightarrow> int \<Rightarrow> (int \<times> int \<times> int) prog" where
  "sync_broker_backed_positions ps limit =
     (if \<not> ps_executions ps then returnP (0, 0, 0)
      else bindP (readP positions_by_execution) (\<lambda>by.
        bindP (readP (broker_executions ps limit)) (\<lambda>r.
        bindP (liftP r) (\<lambda>xs.
        bindP (sync_executions (ps_env ps) xs by) (\<lambda>(opened, closed).
        returnP (int (length xs), opened, closed))))))"

text \<open>The refresh with this mirror.\<close>

definition refresh_with_broker :: "paper_service \<Rightarrow> (int \<times> int \<times> int \<times> int) prog" where
  "refresh_with_broker ps = refresh_open_positions (ps_env ps)
     (bindP (sync_broker_backed_positions ps 500) (\<lambda>(scanned, opened, closed). returnP (opened, closed)))"

end
