(* ===== verification/Lifecycles.thy ===== *)
theory Lifecycles
  imports Broker_Ledger "HOL-Library.Char_ord" "HOL-Library.List_Lexorder"
begin

text \<open>
  The evidence the paper account collects about each broker-backed trade, and what auto-approval
  makes of it: \<open>PaperTradingService.lifecycles\<close> (src/app/paper/service.py) and the reliability
  gates (src/app/automation/reliability.py). The table of trade reviews belongs to the learning
  service and answers as a part of the outside world.
\<close>

subsection \<open>Flags\<close>

record lifecycle_flags =
  lf_entry_submitted :: bool
  lf_entry_filled :: bool
  lf_bracket_legs_verified :: bool
  lf_exit_filled_or_position_flat :: bool
  lf_reconciled :: bool
  lf_review_created :: bool
  lf_duplicate_order_absent :: bool

text \<open>\<open>flags.model_dump().items()\<close>, in the order of the fields.\<close>

definition flag_items :: "lifecycle_flags \<Rightarrow> (string \<times> bool) list" where
  "flag_items f = [(''entry_submitted'', lf_entry_submitted f), (''entry_filled'', lf_entry_filled f),
     (''bracket_legs_verified'', lf_bracket_legs_verified f),
     (''exit_filled_or_position_flat'', lf_exit_filled_or_position_flat f), (''reconciled'', lf_reconciled f),
     (''review_created'', lf_review_created f), (''duplicate_order_absent'', lf_duplicate_order_absent f)]"

text \<open>One lifecycle; its other fields are copies of those of its execution.\<close>

record lifecycle_record =
  lc_id :: string
  lc_source :: string
  lc_strategy_name :: "string option"
  lc_autonomous :: bool
  lc_realized_pnl_usd :: pyfloat
  lc_flags :: lifecycle_flags
  lc_blockers :: "string list"
  lc_execution :: paper_broker_execution

definition bracket_legs_verified :: "paper_broker_execution \<Rightarrow> bool" where
  "bracket_legs_verified x =
     (lower_opt (bx_order_class x) = ''bracket'' \<and>
      (let sell_legs = filter (\<lambda>l. lower_opt (bl_side l) = ''sell'') (bx_legs x) in
       list_ex (\<lambda>l. bl_stop_price l \<noteq> None \<or> lower_opt (bl_order_type l) = ''stop'') sell_legs \<and>
       list_ex (\<lambda>l. bl_limit_price l \<noteq> None \<or> lower_opt (bl_order_type l) = ''limit'') sell_legs))"

subsection \<open>Evidence\<close>

definition service_reconciliation :: "paper_service \<Rightarrow> store \<Rightarrow> reconciliation_run option" where
  "service_reconciliation ps st = (if ps_safety_state ps then latest_reconciliation st else None)"

definition reconciliation_ok :: "reconciliation_run option \<Rightarrow> bool" where
  "reconciliation_ok latest = (case latest of None \<Rightarrow> False | Some r \<Rightarrow> rr_status r = ''ok'' \<and> rr_issues r = [])"

definition reconciliation_positions_seen :: "reconciliation_run option \<Rightarrow> int" where
  "reconciliation_positions_seen latest = (case latest of None \<Rightarrow> 0 | Some r \<Rightarrow> rr_positions_seen r)"

text \<open>The client order ids a row mentions, and how many rows mention one.\<close>

definition execution_order_ids :: "execution_record \<Rightarrow> string set" where
  "execution_order_ids e = {text_of (ex_request_payload e) ''client_order_id'',
     text_of (as_dict (dict_get (ex_response_payload e) ''broker_execution'')) ''client_order_id''} - {[]}"

definition snapshot_order_ids :: "order_snapshot \<Rightarrow> string set" where
  "snapshot_order_ids s = {or_empty (os_client_order_id s), text_of (os_payload s) ''client_order_id''} - {[]}"

definition client_order_count :: "paper_service \<Rightarrow> store \<Rightarrow> string \<Rightarrow> int" where
  "client_order_count ps st cid =
     int (length (filter (\<lambda>e. cid \<in> execution_order_ids e) (if ps_executions ps then execution_list 1000 st else []))) +
     int (length (filter (\<lambda>s. cid \<in> snapshot_order_ids s) (if ps_broker_orders ps then snapshot_list 1000 st else [])))"

text \<open>
  The batch read of the reviews, \<open>None\<close> when there is none or it failed; then each execution's
  review is read on its own.
\<close>

record review_table =
  rv_batch :: "ext_call list \<Rightarrow> exn + string list"
  rv_single :: "ext_call list \<Rightarrow> exn + bool"

definition read_reviewed :: "paper_service \<Rightarrow> review_table \<Rightarrow> string list \<Rightarrow> string list option prog" where
  "read_reviewed ps rv ids =
     (if \<not> ps_learning ps then returnP None
      else catchP (bindP (extP (Reviewed_executions ids) (rv_batch rv)) (\<lambda>r. returnP (Some r))) (\<lambda>e. returnP None))"

definition review_created :: "paper_service \<Rightarrow> review_table \<Rightarrow> string list option \<Rightarrow> string \<Rightarrow> bool prog" where
  "review_created ps rv reviewed eid =
     (case reviewed of Some ids \<Rightarrow> returnP (eid \<in> set ids)
      | None \<Rightarrow> if \<not> ps_learning ps then returnP False else extP (Trade_review eid) (rv_single rv))"

definition AUTONOMOUS_SOURCES :: "string set" where
  "AUTONOMOUS_SOURCES = {''scanner_strategy'', ''generated_strategy'', ''rl_policy''}"

definition lifecycle_flags_of :: "reconciliation_run option \<Rightarrow> (string \<Rightarrow> int) \<Rightarrow> bool \<Rightarrow> paper_broker_execution \<Rightarrow> lifecycle_flags" where
  "lifecycle_flags_of latest counts reviewed x =
     (let filled = 0 < bx_filled_qty x \<and> bx_entry_fill_price x \<noteq> None in
      \<lparr>lf_entry_submitted = or_empty (bx_broker_order_id x) \<noteq> [], lf_entry_filled = filled,
       lf_bracket_legs_verified = bracket_legs_verified x,
       lf_exit_filled_or_position_flat = (bx_exit_fill_price x \<noteq> None \<or>
         filled \<and> reconciliation_positions_seen latest = 0),
       lf_reconciled = reconciliation_ok latest, lf_review_created = reviewed,
       lf_duplicate_order_absent = (or_empty (bx_client_order_id x) = [] \<or> counts (or_empty (bx_client_order_id x)) \<le> 2)\<rparr>)"

definition lifecycle_of :: "reconciliation_run option \<Rightarrow> (string \<Rightarrow> int) \<Rightarrow> bool \<Rightarrow> paper_broker_execution \<Rightarrow> lifecycle_record" where
  "lifecycle_of latest counts reviewed x =
     (let flags = lifecycle_flags_of latest counts reviewed x; autonomous = bx_source x \<in> AUTONOMOUS_SOURCES in
      \<lparr>lc_id = bx_execution_id x, lc_source = bx_source x, lc_strategy_name = bx_strategy_name x,
       lc_autonomous = autonomous, lc_realized_pnl_usd = bx_realized_pnl_usd x, lc_flags = flags,
       lc_blockers = map fst (filter (\<lambda>(n, passed). \<not> passed) (flag_items flags)) @
         (if autonomous then [] else [''manual_or_unknown_source'']), lc_execution = x\<rparr>)"

fun lifecycle_records :: "paper_service \<Rightarrow> review_table \<Rightarrow> reconciliation_run option \<Rightarrow> (string \<Rightarrow> int) \<Rightarrow>
    string list option \<Rightarrow> paper_broker_execution list \<Rightarrow> lifecycle_record list prog" where
  "lifecycle_records ps rv latest counts reviewed [] = returnP []"
| "lifecycle_records ps rv latest counts reviewed (x # xs) =
     bindP (review_created ps rv reviewed (bx_execution_id x)) (\<lambda>b.
     bindP (lifecycle_records ps rv latest counts reviewed xs) (\<lambda>rest.
     returnP (lifecycle_of latest counts b x # rest)))"

definition lifecycle_complete :: "bool \<Rightarrow> lifecycle_record \<Rightarrow> bool" where
  "lifecycle_complete require_autonomous r =
     ((require_autonomous \<longrightarrow> lc_autonomous r) \<and> list_all snd (flag_items (lc_flags r)))"

definition lifecycles :: "paper_service \<Rightarrow> review_table \<Rightarrow> int \<Rightarrow> string option \<Rightarrow> bool \<Rightarrow> bool \<Rightarrow> lifecycle_record list prog" where
  "lifecycles ps rv limit source autonomous_only complete_only =
     bindP (readP (broker_executions ps (max limit 1))) (\<lambda>r.
     bindP (liftP r) (\<lambda>xs.
     bindP (read_reviewed ps rv (map bx_execution_id xs)) (\<lambda>reviewed.
     bindP (readP (service_reconciliation ps)) (\<lambda>latest.
     bindP (readP (client_order_count ps)) (\<lambda>counts.
     bindP (lifecycle_records ps rv latest counts reviewed xs) (\<lambda>records.
     returnP (take (nat (max limit 1))
       (filter (\<lambda>r. (or_empty source \<noteq> [] \<longrightarrow> lc_source r = or_empty source) \<and> (autonomous_only \<longrightarrow> lc_autonomous r) \<and>
          (complete_only \<longrightarrow> lifecycle_complete autonomous_only r)) records))))))))"

definition lifecycle_by_id :: "paper_service \<Rightarrow> review_table \<Rightarrow> string \<Rightarrow> lifecycle_record option prog" where
  "lifecycle_by_id ps rv eid = bindP (lifecycles ps rv 1000 None False False) (\<lambda>records.
     returnP (find (\<lambda>r. bx_execution_id (lc_execution r) = eid \<or> lc_id r = eid) records))"

subsection \<open>Proposal quality\<close>

definition STRICT_VALID :: string where "STRICT_VALID = ''strict_valid''"
definition SUPERVISED_WEAK_VALID :: string where "SUPERVISED_WEAK_VALID = ''supervised_weak_valid''"
definition PAPER_NEAR_MISS :: string where "PAPER_NEAR_MISS = ''paper_near_miss''"
definition NOT_TRADEABLE :: string where "NOT_TRADEABLE = ''not_tradeable''"

lemmas quality_defs = STRICT_VALID_def SUPERVISED_WEAK_VALID_def PAPER_NEAR_MISS_def NOT_TRADEABLE_def

text \<open>A scan candidate, as far as the automatic path reads it.\<close>

record candidate =
  cd_symbol :: string
  cd_strategy_name :: string
  cd_timeframe :: string
  cd_score :: pyfloat
  cd_execution_ready :: bool
  cd_signal_role :: string
  cd_stop_loss :: "pyfloat option"
  cd_take_profit :: "pyfloat option"
  cd_metadata :: pydict

definition proposal_quality_label :: "candidate \<Rightarrow> string" where
  "proposal_quality_label c =
     (let classification = py_lower (str_or_empty (py_or (dict_get (cd_metadata c) ''signal_classification'')
            (dict_get (cd_metadata c) ''source''))) in
      if \<not> cd_execution_ready c \<or> \<not> truthy (dict_get (cd_metadata c) ''alert_eligible'') \<or>
         py_lower (cd_signal_role c) = ''entry_short'' \<or> cd_stop_loss c = None \<or> cd_take_profit c = None then NOT_TRADEABLE
      else if classification = SUPERVISED_WEAK_VALID then SUPERVISED_WEAK_VALID
      else if classification = PAPER_NEAR_MISS then PAPER_NEAR_MISS else STRICT_VALID)"

definition candidate_propose_drop_reason :: "candidate \<Rightarrow> string option" where
  "candidate_propose_drop_reason c =
     (if \<not> cd_execution_ready c then Some ''not_execution_ready''
      else if \<not> truthy (dict_get (cd_metadata c) ''alert_eligible'') then Some ''not_alert_eligible''
      else if py_lower (cd_signal_role c) = ''entry_short'' then Some ''entry_short''
      else if cd_stop_loss c = None then Some ''missing_stop'' else None)"

subsection \<open>Gates\<close>

definition sorted_set :: "string list \<Rightarrow> string list" where
  "sorted_set xs = sort (remdups xs)"

lemma set_sorted_set [simp]: "set (sorted_set xs) = set xs"
  by (simp add: sorted_set_def)

lemma sorted_set_Nil [simp]: "sorted_set xs = [] \<longleftrightarrow> xs = []"
  by (metis set_empty set_sorted_set)

definition lifecycle_blockers :: "lifecycle_record \<Rightarrow> string list" where
  "lifecycle_blockers r =
     (let f = lc_flags r in
      (if \<not> lf_duplicate_order_absent f then [''duplicate_broker_orders_present''] else []) @
      (if lf_entry_filled f \<and> \<not> lf_bracket_legs_verified f then [''missing_bracket_protection''] else []) @
      (if lf_entry_filled f \<and> \<not> lf_reconciled f then [''unreconciled_lifecycles_present''] else []) @
      (if list_ex (\<lambda>b. py_startswith b ''unknown_position'') (lc_blockers r) then [''unknown_broker_position''] else []))"

definition lifecycle_safety_blockers :: "lifecycle_record list \<Rightarrow> string list" where
  "lifecycle_safety_blockers rs = sorted_set (concat (map lifecycle_blockers rs))"

definition lifecycle_is_paper_only :: "lifecycle_record \<Rightarrow> bool" where
  "lifecycle_is_paper_only r =
     is_paper_only (as_dict (dict_get (as_dict (dict_get (bx_payload (lc_execution r)) ''request'')) ''metadata''))"

definition profit_factor_of :: "pyfloat list \<Rightarrow> pyfloat" where
  "profit_factor_of pnls =
     (let gains = sum_list (filter (\<lambda>x. 0 < x) pnls); losses = \<bar>sum_list (filter (\<lambda>x. x < 0) pnls)\<bar> in
      if losses = 0 then gains else gains / losses)"

definition strategy_evidence_blockers :: "app_settings \<Rightarrow> candidate \<Rightarrow> lifecycle_record list \<Rightarrow> string list" where
  "strategy_evidence_blockers s c rs =
     (let closed_rs = filter (\<lambda>r. or_empty (lc_strategy_name r) = cd_strategy_name c \<and> lifecycle_complete True r \<and>
            \<not> lifecycle_is_paper_only r) rs;
          minimum = max (paper_auto_min_strategy_closed_trades s) 0; pnls = map lc_realized_pnl_usd closed_rs;
          gate = (if paper_auto_min_strategy_profit_factor s = 0 then 6/5 else paper_auto_min_strategy_profit_factor s)
      in (if int (length closed_rs) < minimum then [''insufficient_strategy_closed_trade_evidence''] else []) @
         (if pnls = [] then [] else
           (if sum_list pnls / of_nat (length pnls) \<le> 0 then [''strategy_expectancy_not_positive''] else []) @
           (if profit_factor_of pnls < gate then [''strategy_profit_factor_below_auto_gate''] else [])))"

definition unattended_near_miss :: "app_settings \<Rightarrow> candidate \<Rightarrow> bool" where
  "unattended_near_miss s c =
     (proposal_quality_label c = PAPER_NEAR_MISS \<and> paper_unattended_near_miss_auto_exec_enabled s \<and>
      exec_mode s = Mode_paper \<and> \<not> enable_real_trading s \<and> paper_auto_operation_mode s = Op_unattended)"

definition tier_policy_blockers :: "app_settings \<Rightarrow> candidate \<Rightarrow> lifecycle_record list option \<Rightarrow> string list" where
  "tier_policy_blockers s c rs =
     (let tier = paper_auto_approval_tier s; quality = proposal_quality_label c;
          minimum = max (paper_auto_min_clean_supervised_lifecycles s) 0 in
      (if tier = Tier0_pending_only then [''paper_auto_tier_pending_only''] else []) @
      (if tier = Tier1_supervised_only then [''paper_auto_tier_supervised_only''] else []) @
      (if quality = SUPERVISED_WEAK_VALID then [''weak_valid_requires_human_approval''] else []) @
      (if quality = PAPER_NEAR_MISS then [''near_miss_requires_human_approval''] else []) @
      (if tier \<in> {Tier2_strict_valid, Tier3_strategy_qualified} \<and> quality \<noteq> STRICT_VALID
       then [''paper_auto_requires_strict_valid_quality''] else []) @
      (if tier = Tier3_strategy_qualified
       then strategy_evidence_blockers s c (case rs of None \<Rightarrow> [] | Some xs \<Rightarrow> xs) else []) @
      (if minimum \<noteq> 0 then (case rs of None \<Rightarrow> [''paper_lifecycle_evidence_unavailable'']
         | Some xs \<Rightarrow> if int (length (filter (\<lambda>r. lifecycle_complete True r \<and> \<not> lifecycle_is_paper_only r) xs)) < minimum
             then [''insufficient_clean_supervised_lifecycles''] else []) else []))"

definition auto_approval_tier_blockers :: "app_settings \<Rightarrow> candidate \<Rightarrow> lifecycle_record list option \<Rightarrow> string list" where
  "auto_approval_tier_blockers s c rs = sorted_set
     ((if unattended_near_miss s c then [] else tier_policy_blockers s c rs) @
      (if rs = None then [''paper_lifecycle_evidence_unavailable''] else []) @
      lifecycle_safety_blockers (case rs of None \<Rightarrow> [] | Some xs \<Rightarrow> xs))"

end
