(* ===== verification/Universe.thy ===== *)
theory Universe
  imports Instruments
begin

text \<open>
  The symbols that may be scanned and executed (src/app/universe/us_stocks.py): a configured
  list or a named tier, cleaned, without repetitions and cut to the limit, and then the crypto
  pairs, which the limit does not apply to.
\<close>

definition DEFAULT_TOP_100_US :: "string list" where
  "DEFAULT_TOP_100_US =
    [''AAPL'', ''MSFT'', ''NVDA'', ''AMZN'', ''GOOGL'', ''GOOG'', ''META'', ''BRK.B'', ''AVGO'', ''TSLA'',
     ''LLY'', ''JPM'', ''WMT'', ''V'', ''MA'', ''XOM'', ''UNH'', ''ORCL'', ''NFLX'', ''COST'', ''JNJ'', ''PG'',
     ''HD'', ''BAC'', ''ABBV'', ''KO'', ''MRK'', ''CVX'', ''AMD'', ''PEP'', ''ADBE'', ''CRM'', ''TMO'', ''CSCO'',
     ''LIN'', ''MCD'', ''ACN'', ''ABT'', ''WFC'', ''IBM'', ''GE'', ''PM'', ''DIS'', ''QCOM'', ''DHR'', ''NOW'',
     ''INTU'', ''CAT'', ''TXN'', ''GS'', ''RTX'', ''AMGN'', ''UBER'', ''SPGI'', ''ISRG'', ''PFE'', ''BLK'', ''T'',
     ''AMAT'', ''BX'', ''PLTR'', ''INTC'', ''MU'', ''BKNG'', ''CMCSA'', ''MS'', ''AXP'', ''SCHW'', ''LOW'',
     ''SYK'', ''UNP'', ''TJX'', ''MDT'', ''GILD'', ''PANW'', ''DE'', ''ADI'', ''LRCX'', ''MMC'', ''C'', ''VRTX'',
     ''ANET'', ''KLAC'', ''COP'', ''CRWD'', ''MDLZ'', ''SBUX'', ''BA'', ''SHOP'', ''ADP'', ''SNOW'', ''MELI'',
     ''REGN'', ''PYPL'', ''ETN'', ''HON'', ''APH'', ''CB'', ''SO'', ''NKE'']"

definition ADDITIONAL_LIQUID_US_100 :: "string list" where
  "ADDITIONAL_LIQUID_US_100 =
    [''ELV'', ''VZ'', ''TMUS'', ''CI'', ''CVS'', ''MCK'', ''ZTS'', ''BSX'', ''PGR'', ''CME'', ''ICE'', ''MMM'',
     ''EQIX'', ''AON'', ''ITW'', ''GD'', ''NOC'', ''LMT'', ''WM'', ''SHW'', ''CL'', ''EOG'', ''SLB'', ''APD'',
     ''FCX'', ''EMR'', ''PSX'', ''MPC'', ''VLO'', ''F'', ''GM'', ''PSA'', ''O'', ''CCI'', ''AMT'', ''SPG'',
     ''DLR'', ''WELL'', ''PLD'', ''NEM'', ''KMB'', ''GIS'', ''KHC'', ''HSY'', ''STZ'', ''MNST'', ''KDP'', ''DOW'',
     ''DD'', ''NUE'', ''CTAS'', ''PH'', ''ROK'', ''CARR'', ''OTIS'', ''JCI'', ''CMI'', ''PCAR'', ''FDX'', ''NSC'',
     ''CSX'', ''ODFL'', ''URI'', ''PWR'', ''FTNT'', ''ADSK'', ''WDAY'', ''TEAM'', ''DDOG'', ''NET'', ''ZS'',
     ''ABNB'', ''DASH'', ''RBLX'', ''COIN'', ''HOOD'', ''MRVL'', ''ON'', ''MCHP'', ''NXPI'', ''TER'', ''ENPH'',
     ''FSLR'', ''CEG'', ''VST'', ''D'', ''EXC'', ''AEP'', ''PEG'', ''XEL'', ''SRE'', ''PCG'', ''DUK'', ''MO'',
     ''HCA'', ''GEHC'', ''TGT'', ''DELL'', ''HPQ'', ''GLW'']"

definition DEFAULT_TOP_200_US :: "string list" where
  "DEFAULT_TOP_200_US = DEFAULT_TOP_100_US @ ADDITIONAL_LIQUID_US_100"

definition UNIVERSE_TIERS :: "(string \<times> string list) list" where
  "UNIVERSE_TIERS = [
     (''broad_top200'', DEFAULT_TOP_200_US),
     (''broad_top100'', DEFAULT_TOP_100_US),
     (''large_cap_leaders'', [''AAPL'', ''MSFT'', ''NVDA'', ''AMZN'', ''GOOGL'', ''META'', ''AVGO'', ''TSLA'', ''LLY'', ''JPM'', ''WMT'',
       ''V'', ''MA'', ''XOM'', ''UNH'', ''ORCL'', ''NFLX'', ''COST'', ''AMD'', ''CRM'', ''CSCO'', ''LIN'', ''PM'',
       ''QCOM'', ''GE'', ''INTU'', ''UBER'', ''AMAT'', ''PLTR'', ''MU'']),
     (''momentum_leaders'', [''NVDA'', ''AVGO'', ''PLTR'', ''ANET'', ''CRWD'', ''PANW'', ''NFLX'', ''META'', ''UBER'', ''SHOP'',
       ''MELI'', ''AMD'', ''TSLA'', ''AMAT'', ''LRCX'', ''KLAC'', ''SMCI'', ''ARM'', ''QCOM'', ''ASML'']),
     (''institutional_quality'', [''AAPL'', ''MSFT'', ''NVDA'', ''GOOGL'', ''AMZN'', ''META'', ''JPM'', ''V'', ''MA'', ''LLY'', ''UNH'',
       ''COST'', ''ORCL'', ''AMD'', ''CRM'', ''LIN'', ''ADBE'', ''INTU'', ''QCOM'', ''AMAT'', ''UBER'', ''SPGI'',
       ''ISRG'', ''BLK'', ''DE'', ''ANET'', ''LRCX'', ''VRTX'', ''MELI'', ''ETN''])]"

definition universe_symbols :: "app_settings \<Rightarrow> string list" where
  "universe_symbols s = (if market_universe_symbols s \<noteq> [] then market_universe_symbols s
     else get_default UNIVERSE_TIERS (py_lower (market_universe_tier s)) DEFAULT_TOP_100_US)"

text \<open>The loop with its \<open>seen\<close> set: the first occurrence of every non-empty cleaned symbol.\<close>

fun clean_symbols :: "string list \<Rightarrow> string list \<Rightarrow> string list" where
  "clean_symbols seen [] = []"
| "clean_symbols seen (x # xs) =
     (let cleaned = py_upper (py_strip x) in
      if cleaned = [] \<or> cleaned \<in> set seen then clean_symbols seen xs
      else cleaned # clean_symbols (cleaned # seen) xs)"

fun crypto_additions :: "string list \<Rightarrow> string list \<Rightarrow> string list" where
  "crypto_additions seen [] = []"
| "crypto_additions seen (x # xs) =
     (case to_alpaca_symbol x of
        Inl e \<Rightarrow> crypto_additions seen xs
      | Inr canonical \<Rightarrow> if canonical \<in> set seen then crypto_additions seen xs
          else canonical # crypto_additions (canonical # seen) xs)"

definition resolve_universe :: "app_settings \<Rightarrow> int option \<Rightarrow> string list" where
  "resolve_universe s limit =
     (let normalized = clean_symbols [] (universe_symbols s);
          cap = (case limit of None \<Rightarrow> market_universe_limit s | Some n \<Rightarrow> if n = 0 then market_universe_limit s else n);
          max_items = max 1 (min cap (int (length normalized)))
      in take (nat max_items) normalized @
         (if crypto_trading_enabled s then crypto_additions normalized (crypto_symbols s) else []))"

subsection \<open>Lemmas\<close>

lemma clean_symbols_fresh:
  "distinct (clean_symbols seen xs) \<and> set (clean_symbols seen xs) \<inter> set seen = {} \<and>
   (\<forall>y \<in> set (clean_symbols seen xs). y \<noteq> [] \<and> (\<exists>x \<in> set xs. y = py_upper (py_strip x)))"
proof (induction xs arbitrary: seen)
  case (Cons x xs)
  from Cons.IH [of seen] Cons.IH [of "py_upper (py_strip x) # seen"] show ?case by (auto simp: Let_def)
qed simp

lemma crypto_additions_fresh:
  "distinct (crypto_additions seen xs) \<and> set (crypto_additions seen xs) \<inter> set seen = {} \<and>
   (\<forall>y \<in> set (crypto_additions seen xs). \<exists>x \<in> set xs. to_alpaca_symbol x = Inr y)"
proof (induction xs arbitrary: seen)
  case (Cons x xs)
  show ?case
  proof (cases "to_alpaca_symbol x")
    case (Inr c)
    with Cons.IH [of seen] Cons.IH [of "c # seen"] show ?thesis by auto
  qed (use Cons.IH [of seen] in auto)
qed simp

text \<open>
  C37: the universe is well formed. It lists no symbol twice: first cleaned, non-empty, upper-case
  symbols of the configured list or tier, no more than the limit (and at least one is allowed),
  then canonical crypto pairs, these only when crypto trading is on.
\<close>

theorem universe_well_formed:
  "\<exists>equities pairs. resolve_universe s limit = equities @ pairs \<and> distinct (equities @ pairs) \<and>
     int (length equities) \<le> max 1 (case limit of None \<Rightarrow> market_universe_limit s | Some n \<Rightarrow> if n = 0 then market_universe_limit s else n) \<and>
     (\<forall>y \<in> set equities. y \<noteq> [] \<and> (\<exists>x \<in> set (universe_symbols s). y = py_upper (py_strip x))) \<and>
     (\<forall>y \<in> set pairs. crypto_trading_enabled s \<and> (\<exists>x \<in> set (crypto_symbols s). to_alpaca_symbol x = Inr y))"
proof -
  define cap where "cap = (case limit of None \<Rightarrow> market_universe_limit s | Some n \<Rightarrow> if n = 0 then market_universe_limit s else n)"
  define cleaned where "cleaned = clean_symbols [] (universe_symbols s)"
  define equities where "equities = take (nat (max 1 (min cap (int (length cleaned))))) cleaned"
  define pairs where "pairs = (if crypto_trading_enabled s then crypto_additions cleaned (crypto_symbols s) else [])"
  have eq: "resolve_universe s limit = equities @ pairs"
    by (simp add: resolve_universe_def Let_def equities_def pairs_def cleaned_def cap_def)
  have sub: "set equities \<subseteq> set cleaned" unfolding equities_def by (rule set_take_subset)
  have fresh: "distinct cleaned \<and> (\<forall>y \<in> set cleaned. y \<noteq> [] \<and> (\<exists>x \<in> set (universe_symbols s). y = py_upper (py_strip x)))"
    using clean_symbols_fresh [of "[]" "universe_symbols s"] by (simp add: cleaned_def)
  have add: "distinct pairs \<and> set pairs \<inter> set cleaned = {} \<and>
      (\<forall>y \<in> set pairs. crypto_trading_enabled s \<and> (\<exists>x \<in> set (crypto_symbols s). to_alpaca_symbol x = Inr y))"
    using crypto_additions_fresh [of cleaned "crypto_symbols s"] by (simp add: pairs_def)
  have "distinct equities" using fresh by (simp add: equities_def)
  moreover have "int (length equities) \<le> max 1 cap" by (simp add: equities_def)
  ultimately show ?thesis
    using eq sub fresh add unfolding cap_def [symmetric] by (intro exI [of _ equities] exI [of _ pairs]) auto
qed

theorem universe_well_formed_witness:
  "\<exists>equities pairs. equities @ pairs = [''NVDA'', ''BTC/USD''] \<and> distinct (equities @ pairs) \<and> int (length equities) \<le> 1"
proof -
  let ?s = "default_settings\<lparr>market_universe_symbols := ['' nvda'', ''NVDA '', ''AMD''], crypto_trading_enabled := True,
    crypto_symbols := [''btc-usd'']\<rparr>"
  have "resolve_universe ?s (Some 1) = [''NVDA'', ''BTC/USD'']" by code_simp
  moreover have "max 1 (case Some 1 of None \<Rightarrow> market_universe_limit ?s | Some n \<Rightarrow> if n = 0 then market_universe_limit ?s else n) = 1" by simp
  ultimately show ?thesis using universe_well_formed [of ?s "Some 1"] by metis
qed

end
