(* ===== verification/Unattended.thy ===== *)
theory Unattended
  imports Lifecycles Universe Reconciliation Coordinator_Safety
begin

text \<open>
  \<open>PaperAutoTradingService\<close> (src/app/automation/unattended.py): the checks that a scan candidate
  must pass to be approved, queued and executed with no person in the loop, the switch on the
  ready queue, and the deactivation of losing strategies. The market clock, the governance
  tables and the notifier are calls to the outside.
\<close>

record auto_trader =
  at_env :: env
  at_alpaca :: "client option"
  at_governance :: bool
  at_institutional :: bool
  at_runtime_state :: bool
  at_paper :: "paper_service option"
  at_reviews :: review_table
  at_market_open :: "ext_call list \<Rightarrow> exn + bool"
  at_ready :: "ext_call list \<Rightarrow> exn + bool"
  at_production :: "ext_call list \<Rightarrow> exn + bool"
  at_exploration :: "ext_call list \<Rightarrow> exn + bool"

fun operation_mode_value :: "auto_operation_mode \<Rightarrow> string" where
  "operation_mode_value Op_shadow = ''shadow''"
| "operation_mode_value Op_supervised = ''supervised''"
| "operation_mode_value Op_unattended = ''unattended''"

fun queue_status_value :: "queue_status \<Rightarrow> string" where
  "queue_status_value QUEUED = ''queued''"
| "queue_status_value PROCESSING = ''processing''"
| "queue_status_value Q_EXECUTED = ''executed''"
| "queue_status_value CANCELLED = ''cancelled''"
| "queue_status_value BLOCKED = ''blocked''"
| "queue_status_value FAILED = ''failed''"

subsection \<open>Score floor\<close>

definition paper_exploration_profile_enabled :: "app_settings \<Rightarrow> bool" where
  "paper_exploration_profile_enabled s = (paper_scanner_exploration_enabled s \<and> exec_mode s = Mode_paper \<and>
     \<not> enable_real_trading s \<and> paper_exploration_signal_profile s = ''balanced_loose'')"

definition effective_auto_execution_min_score :: "app_settings \<Rightarrow> pyfloat" where
  "effective_auto_execution_min_score s = (if paper_exploration_profile_enabled s
     then paper_exploration_auto_execution_min_score s else auto_execution_min_score s)"

subsection \<open>Exploration strategies\<close>

definition exploration_allowed :: "app_settings \<Rightarrow> string \<Rightarrow> bool" where
  "exploration_allowed s strategy =
     (let allowed = filter (\<lambda>x. x \<noteq> []) (map (\<lambda>x. py_lower (py_strip x)) (paper_scanner_allowed_strategies s)) in
      ''all'' \<in> set allowed \<or> py_lower (py_strip strategy) \<in> set allowed)"

definition exploration_approved :: "auto_trader \<Rightarrow> string \<Rightarrow> bool prog" where
  "exploration_approved a strategy =
     (let s = e_settings (at_env a) in
      if strategy = [] \<or> \<not> at_governance a \<or> \<not> paper_scanner_exploration_enabled s \<or>
         \<not> paper_scanner_bypass_production_approval s \<or> exec_mode s \<noteq> Mode_paper \<or> enable_real_trading s \<or>
         \<not> exploration_allowed s strategy then returnP False
      else extP (Exploration_approved strategy) (at_exploration a))"

subsection \<open>The checks on a candidate\<close>

definition policy_blockers :: "app_settings \<Rightarrow> string list" where
  "policy_blockers s =
     (if exec_mode s \<noteq> Mode_paper \<or> enable_real_trading s then [''paper_only_policy''] else []) @
     (if py_strip (alpaca_expected_account_number s) = [] then [''alpaca_expected_account_not_configured''] else []) @
     (if \<not> paper_auto_approve_proposals s then [''paper_auto_approve_disabled''] else []) @
     (if \<not> auto_execution_worker_enabled s then [''auto_execution_worker_disabled''] else []) @
     (if paper_auto_operation_mode s \<noteq> Op_unattended
      then [''paper_auto_operation_mode_'' @ operation_mode_value (paper_auto_operation_mode s)] else [])"

definition institutional_blockers :: "auto_trader \<Rightarrow> bool \<Rightarrow> string list prog" where
  "institutional_blockers a exploration =
     (if paper_auto_operation_mode (e_settings (at_env a)) \<noteq> Op_unattended \<or> \<not> at_institutional a then returnP []
      else bindP (extP Institutional_readiness (at_ready a)) (\<lambda>ready.
        returnP (if \<not> ready \<and> \<not> exploration then [''institutional_rollout_not_ready''] else [])))"

definition market_hours_blockers :: "auto_trader \<Rightarrow> candidate \<Rightarrow> bool \<Rightarrow> string list prog" where
  "market_hours_blockers a c exploration =
     (let s = e_settings (at_env a);
          required = (if exploration then paper_exploration_require_regular_hours s else auto_execution_regular_hours_only s);
          is_crypto = (crypto_trading_enabled s \<and> crypto_regular_hours_exempt s \<and> is_crypto_symbol (py_upper (cd_symbol c)))
      in if \<not> required \<or> is_crypto then returnP []
         else case at_alpaca a of None \<Rightarrow> returnP [''outside_regular_market_hours'']
           | Some cl \<Rightarrow> bindP (extP (Regular_market_open (cl_id cl)) (at_market_open a)) (\<lambda>is_open.
               returnP (if is_open then [] else [''outside_regular_market_hours''])))"

definition paper_near_miss :: "app_settings \<Rightarrow> candidate \<Rightarrow> bool \<Rightarrow> bool" where
  "paper_near_miss s c exploration = (exploration \<and> paper_near_miss_promotion_enabled s \<and>
     lower_of (cd_metadata c) ''signal_classification'' = ''paper_near_miss'' \<and>
     lower_of (cd_metadata c) ''source'' = ''paper_near_miss'')"

definition minimum_score :: "app_settings \<Rightarrow> candidate \<Rightarrow> bool \<Rightarrow> pyfloat" where
  "minimum_score s c exploration = effective_auto_execution_min_score s -
     (if paper_near_miss s c exploration then paper_near_miss_max_score_gap s else 0)"

definition evidence_blockers :: "app_settings \<Rightarrow> candidate \<Rightarrow> bool \<Rightarrow> string list" where
  "evidence_blockers s c exploration =
     (if \<not> cd_execution_ready c then [''candidate_not_execution_ready''] else []) @
     (if \<not> truthy (dict_get (cd_metadata c) ''alert_eligible'') then [''candidate_not_alert_eligible''] else []) @
     (if (if exploration then paper_exploration_require_backtest_validated s else True) \<and>
         \<not> truthy (dict_get (cd_metadata c) ''backtest_validated'') then [''candidate_not_backtest_validated''] else []) @
     (if cd_score c < minimum_score s c exploration then [''candidate_score_below_auto_threshold''] else []) @
     (if py_upper (cd_symbol c) \<notin> set (resolve_universe s None) then [''symbol_not_in_execution_universe''] else [])"

definition asset_blockers :: "auto_trader \<Rightarrow> candidate \<Rightarrow> string list prog" where
  "asset_blockers a c =
     (case at_alpaca a of
        None \<Rightarrow> returnP [''alpaca_asset_check_unavailable'']
      | Some cl \<Rightarrow> if \<not> cl_is_supported_equity cl then returnP [''alpaca_asset_check_unavailable'']
          else catchP (bindP (extP (Is_supported_equity (cl_id cl) (py_upper (cd_symbol c))) (e_supported (at_env a))) (\<lambda>ok.
                 returnP (if ok then [] else [''symbol_not_supported_by_alpaca''])))
               (\<lambda>e. returnP [''alpaca_asset_check_failed'']))"

definition safety_blockers :: "candidate \<Rightarrow> store \<Rightarrow> string list" where
  "safety_blockers c st =
     (if is_blacklisted (py_upper (cd_symbol c)) st then [''symbol_blacklisted''] else []) @
     (if cd_strategy_name c \<noteq> [] \<and> \<not> strategy_active (cd_strategy_name c) st then [''strategy_inactive''] else [])"

text \<open>\<open>strategy and governance is not None and not production_approved(strategy)\<close>, then the rest of the condition.\<close>

definition production_blocked :: "auto_trader \<Rightarrow> string \<Rightarrow> bool prog" where
  "production_blocked a strategy =
     (if strategy = [] \<or> \<not> at_governance a then returnP False
      else bindP (extP (Production_approved strategy) (at_production a)) (\<lambda>ok. returnP (\<not> ok)))"

definition shape_blockers :: "candidate \<Rightarrow> string list" where
  "shape_blockers c =
     (if py_lower (cd_signal_role c) = ''entry_short'' then [''short_entries_disabled''] else []) @
     (if cd_stop_loss c = None \<or> cd_take_profit c = None then [''bracket_prices_missing''] else [])"

definition paper_lifecycles :: "auto_trader \<Rightarrow> lifecycle_record list option prog" where
  "paper_lifecycles a = (case at_paper a of None \<Rightarrow> returnP None
     | Some ps \<Rightarrow> catchP (bindP (lifecycles ps (at_reviews a) 1000 None False False) (\<lambda>rs. returnP (Some rs)))
         (\<lambda>e. bindP (logP (at_env a) ''paper_lifecycle_evidence_unavailable'' [(''error'', PStr (take 300 (exn_str e)))])
            (\<lambda>_. returnP None)))"

definition tier3_blockers :: "auto_trader \<Rightarrow> candidate \<Rightarrow> string list prog" where
  "tier3_blockers a c =
     (if paper_auto_approval_tier (e_settings (at_env a)) \<noteq> Tier3_strategy_qualified then returnP []
      else bindP (production_blocked a (cd_strategy_name c)) (\<lambda>b.
        returnP (if b then [''strategy_not_qualified_for_tier3_auto''] else [])))"

definition candidate_blockers :: "auto_trader \<Rightarrow> candidate \<Rightarrow> string list prog" where
  "candidate_blockers a c =
     (let env = at_env a; s = e_settings env in
      bindP (utc_now env) (\<lambda>now.
      bindP (readP (execution_blockers env now)) (\<lambda>locks.
      bindP (exploration_approved a (cd_strategy_name c)) (\<lambda>exploration.
      bindP (institutional_blockers a exploration) (\<lambda>institutional.
      bindP (readP (account_verified s)) (\<lambda>verified.
      bindP (market_hours_blockers a c exploration) (\<lambda>hours.
      bindP (asset_blockers a c) (\<lambda>asset.
      bindP (readP (safety_blockers c)) (\<lambda>safety.
      bindP (production_blocked a (cd_strategy_name c)) (\<lambda>unproven.
      bindP (paper_lifecycles a) (\<lambda>rs.
      bindP (tier3_blockers a c) (\<lambda>tier3.
      returnP (sorted_set (locks @ policy_blockers s @ institutional @
        (if \<not> verified then [''alpaca_account_not_verified''] else []) @ hours @
        evidence_blockers s c exploration @ asset @ safety @
        (if unproven \<and> \<not> exploration then [''strategy_not_production_approved''] else []) @ shape_blockers c @
        auto_approval_tier_blockers s c rs @ tier3 @
        (if proposal_quality_label c = NOT_TRADEABLE then [''proposal_quality_not_tradeable''] else [])))))))))))))))"

subsection \<open>Approval and execution\<close>

definition AUTO_TRADING_ANNOUNCED_KEY :: string where "AUTO_TRADING_ANNOUNCED_KEY = ''paper_auto:auto_trading_started_at''"

definition text_lines :: "string list \<Rightarrow> string" where
  "text_lines ls = py_join [char_of (10::nat)] ls"

text \<open>The announcement; the sign drawn before its first line is left out.\<close>

definition announce_auto_trading_started :: "auto_trader \<Rightarrow> queue_record \<Rightarrow> bool prog" where
  "announce_auto_trading_started a q =
     (let env = at_env a in
      if \<not> at_runtime_state a \<or> paper_auto_operation_mode (e_settings env) \<noteq> Op_unattended then returnP False
      else bindP (readP (runtime_get AUTO_TRADING_ANNOUNCED_KEY)) (\<lambda>mark.
        if or_empty mark \<noteq> [] then returnP False
        else bindP (utc_now env) (\<lambda>now.
          bindP (storeP (runtime_set AUTO_TRADING_ANNOUNCED_KEY (e_isoformat env now))) (\<lambda>_.
          bindP (logP env ''paper_auto_trading_started'' [(''symbol'', PStr (q_symbol q)), (''queue_id'', PStr (q_id q))]) (\<lambda>_.
          bindP (extP (Send_text (text_lines [''Unattended auto-trading is now ACTIVE'',
            ''The bot just placed its first automatic order on Alpaca paper.'', ''Symbol: '' @ q_symbol q,
            ''Queue: '' @ q_id q, ''Status: '' @ queue_status_value (q_status q)])) (e_done env)) (\<lambda>_.
          returnP True))))))"

type_synonym funnel = "(string \<times> int) list"

definition count_all :: "string list \<Rightarrow> funnel \<Rightarrow> funnel" where
  "count_all keys f = fold (\<lambda>k d. dict_add k 1 d) keys f"

definition execution_notice :: "trade_proposal \<Rightarrow> queue_record \<Rightarrow> string" where
  "execution_notice p q = text_lines ([''Paper auto execution''] @
     (if is_paper_only (ord_metadata (prop_order p)) then [''Paper-only (not copied to eToro)''] else []) @
     [''Symbol: '' @ q_symbol q, ''Proposal: '' @ prop_id p, ''Queue: '' @ q_id q,
      ''Status: '' @ queue_status_value (q_status q), ''Reason: '' @ opt_or (q_validation_reason q) ''ready''])"

definition approve_and_run :: "auto_trader \<Rightarrow> trade_proposal \<Rightarrow> queue_record prog" where
  "approve_and_run a p =
     (let env = at_env a in
      bindP (approve_proposal env (prop_id p) \<lparr>dec_reviewer = AUTO_REVIEWER, dec_notes = ''Paper-only auto-approved by safety policy''\<rparr>) (\<lambda>approved.
      bindP (enqueue_approved_proposal env (prop_id approved)) (\<lambda>queued.
      bindP (process_queue_item env (q_id queued)) (\<lambda>processed.
      bindP (logP env ''paper_auto_execution_processed'' [(''proposal_id'', PStr (prop_id approved)),
        (''queue_id'', PStr (q_id processed)), (''symbol'', PStr (q_symbol processed)),
        (''status'', PStr (queue_status_value (q_status processed))), (''reason'', opt_str (q_validation_reason processed))]) (\<lambda>_.
      bindP (announce_auto_trading_started a processed) (\<lambda>_.
      bindP (extP (Send_text (execution_notice approved processed)) (e_done env)) (\<lambda>_.
      returnP processed)))))))"

text \<open>The funnel is the caller's counter, updated before the approval.\<close>

definition approve_enqueue_execute :: "auto_trader \<Rightarrow> trade_proposal \<Rightarrow> candidate \<Rightarrow> funnel \<Rightarrow> (queue_record option \<times> funnel) prog" where
  "approve_enqueue_execute a p c f =
     bindP (candidate_blockers a c) (\<lambda>blockers.
     if blockers \<noteq> [] then
       bindP (logP (at_env a) ''paper_auto_candidate_blocked'' [(''proposal_id'', PStr (prop_id p)),
         (''symbol'', PStr (ord_symbol (prop_order p))), (''blockers'', PList (map PStr blockers))]) (\<lambda>_.
       returnP (None, count_all (''exec_blocked_candidates'' # map (\<lambda>b. ''exec_blocked:'' @ b) blockers) f))
     else bindP (approve_and_run a p) (\<lambda>q. returnP (Some q, dict_add ''executed'' 1 f)))"

definition process_ready :: "auto_trader \<Rightarrow> queue_record list prog" where
  "process_ready a =
     (let env = at_env a in
      if \<not> auto_execution_worker_enabled (e_settings env) then returnP []
      else bindP (utc_now env) (\<lambda>now.
        bindP (readP (execution_blockers env now)) (\<lambda>blockers.
        if blockers \<noteq> [] then returnP [] else process_ready_queue env 20)))"

subsection \<open>Strategy health\<close>

definition is_reconciled_closed_execution :: "execution_record \<Rightarrow> bool" where
  "is_reconciled_closed_execution e =
     (ex_status e \<in> {ES_FILLED, ES_CANCELED} \<and>
      list_ex (\<lambda>leg. lower_of leg ''status'' = ''filled'') (legs_of (as_dict (dict_get (ex_response_payload e) ''broker_execution''))))"

definition counts_for_health :: "execution_record \<Rightarrow> bool" where
  "counts_for_health e =
     (text_of (ex_request_payload e) ''strategy_name'' \<notin> {[], ''manual_smoke''} \<and>
      \<not> is_paper_only (as_dict (dict_get (ex_request_payload e) ''metadata'')) \<and> is_reconciled_closed_execution e)"

definition health_groups :: "execution_record list \<Rightarrow> (string \<times> pyfloat list) list" where
  "health_groups es = fold (\<lambda>e d. if counts_for_health e
       then let k = text_of (ex_request_payload e) ''strategy_name'' in AList.update k (get_default d k [] @ [ex_realized_pnl_usd e]) d
       else d) es []"

definition health_of :: "app_settings \<Rightarrow> time \<Rightarrow> string \<Rightarrow> pyfloat list \<Rightarrow> strategy_health" where
  "health_of s now strategy all_pnls =
     (let minimum = max (strategy_health_min_closed_trades s) 1;
          rolling = max (strategy_health_rolling_trades s) minimum;
          pnls = take (nat rolling) all_pnls;
          wins = sum_list (filter (\<lambda>x. 0 < x) pnls); losses = \<bar>sum_list (filter (\<lambda>x. x < 0) pnls)\<bar>;
          expectancy = (if pnls = [] then 0 else sum_list pnls / of_nat (length pnls));
          profit_factor = (if 0 < losses then wins / losses else wins);
          active = (int (length pnls) < minimum \<or> \<not> (expectancy < 0 \<and> profit_factor < 1))
      in \<lparr>sh_strategy_name = strategy, sh_active = active, sh_closed_trades = int (length pnls),
          sh_expectancy_usd = expectancy, sh_profit_factor = profit_factor,
          sh_reason = (if active then [] else ''negative rolling expectancy and profit factor''), sh_updated_at = now\<rparr>)"

fun write_health :: "auto_trader \<Rightarrow> (string \<times> pyfloat list) list \<Rightarrow> strategy_health list prog" where
  "write_health a [] = returnP []"
| "write_health a ((strategy, pnls) # gs) =
     bindP (utc_now (at_env a)) (\<lambda>now.
     let h = health_of (e_settings (at_env a)) now strategy pnls in
     bindP (storeP (upsert_strategy_health h)) (\<lambda>_.
     bindP (write_health a gs) (\<lambda>hs. returnP (h # hs))))"

definition refresh_strategy_health :: "auto_trader \<Rightarrow> strategy_health list prog" where
  "refresh_strategy_health a =
     (if \<not> strategy_health_enabled (e_settings (at_env a)) then returnP []
      else bindP (readP (execution_list 2000)) (\<lambda>es. write_health a (health_groups es)))"

end
