(* ===== verification/Broker_Ledger_Safety.thy ===== *)
theory Broker_Ledger_Safety
  imports Broker_Ledger
begin

text \<open>
  Correctness of the mirror of broker fills: it keeps the paper ledger consistent whatever
  happens, gives every execution at most one position, has nothing left to do once it has run,
  and books the result of the two fills; and what a separate close order must satisfy to be
  taken for an exit. \<open>tracks\<close> relates the dictionary of the loop to the rows of the ledger.
\<close>

subsection \<open>What a step does to the store\<close>

lemma close_position_cases:
  assumes "close_position env p price outcome closed_at w = (r, w')"
  obtains (refused) e stamp where "r = Inl e" "w_store w' = position_update (closed_position p price stamp) (w_store w)"
  | (booked) tid stamp st t d where "r = Inr (trade_of tid p price outcome stamp)"
      "trade_create_row (trade_of tid p price outcome stamp) (position_update (closed_position p price stamp) (w_store w)) = Inr st"
      "w_store w' = log_run t ''paper_position_closed'' d st" "\<And>s. closed_at = Some s \<Longrightarrow> stamp = s"
  using assms
  by (auto simp: close_position_def prog_defs with_unit_def Let_def split: sum.splits prod.splits option.splits)

lemma open_position_cases:
  assumes "open_position env x w = (r, w')"
  obtains (refused) e where "r = Inl e" "w_store w' = w_store w"
  | (opened) pid now st t d where "r = Inr (mirrored_position pid now x)"
      "position_create_row (mirrored_position pid now x) (w_store w) = Inr st"
      "w_store w' = log_run t ''paper_position_opened'' d st"
  using assms
  by (auto simp: open_position_def prog_defs with_unit_def Let_def split: sum.splits prod.splits)

lemma mirrored_position_fields [simp]:
  "pp_id (mirrored_position pid now x) = pid" "pp_status (mirrored_position pid now x) = ''open''"
  "pp_quantity (mirrored_position pid now x) = bx_filled_qty x"
  "is_broker_backed (mirrored_position pid now x)"
  "position_execution (mirrored_position pid now x) = bx_execution_id x"
  by (simp_all add: mirrored_position_def Let_def is_broker_backed_def position_execution_def text_of_def dict_get_def LEDGER_SOURCE_def)

lemma closed_position_fields [simp]:
  "pp_id (closed_position p x t) = pp_id p" "pp_status (closed_position p x t) = ''closed''"
  "pp_payload (closed_position p x t) = pp_payload p"
  "is_broker_backed (closed_position p x t) = is_broker_backed p"
  "position_execution (closed_position p x t) = position_execution p"
  by (simp_all add: closed_position_def is_broker_backed_def position_execution_def)

text \<open>Closing a stored position replaces exactly that row.\<close>

lemma positions_close:
  assumes "distinct (map pp_id (st_positions st))" "p \<in> set (st_positions st)"
  shows "set (st_positions (position_update (closed_position p x t) st)) =
    insert (closed_position p x t) (set (st_positions st) - {p})"
proof -
  have merge: "position_merge (closed_position p x t) p = closed_position p x t"
    by (simp add: position_merge_def closed_position_def)
  have "(if pp_id q = pp_id p then position_merge (closed_position p x t) q else q) =
      (if q = p then closed_position p x t else q)" if "q \<in> set (st_positions st)" for q
    using that assms merge by (auto simp: distinct_map inj_on_def)
  then show ?thesis
    using assms(2) by (auto simp: position_update_def row_update_def image_iff)
qed

subsection \<open>The mirror index\<close>

definition mirrors :: "paper_position \<Rightarrow> string \<Rightarrow> bool" where
  "mirrors p eid \<longleftrightarrow> is_broker_backed p \<and> position_execution p = eid \<and> eid \<noteq> []"

text \<open>No execution has two broker-backed positions.\<close>

definition mirror_ok :: "store \<Rightarrow> bool" where
  "mirror_ok st \<longleftrightarrow> (\<forall>p \<in> set (st_positions st). \<forall>q \<in> set (st_positions st). \<forall>eid. mirrors p eid \<and> mirrors q eid \<longrightarrow> p = q)"

text \<open>The dictionary of the loop holds exactly the broker-backed positions of the store.\<close>

definition tracks :: "(string \<times> paper_position) list \<Rightarrow> store \<Rightarrow> bool" where
  "tracks by st \<longleftrightarrow> (\<forall>eid p. map_of by eid = Some p \<longleftrightarrow> p \<in> set (st_positions st) \<and> mirrors p eid)"

lemma tracks_mirror_ok: "tracks by st \<Longrightarrow> mirror_ok st"
  unfolding tracks_def mirror_ok_def by (metis option.inject)

lemma map_of_fold_update:
  "map_of (fold (\<lambda>p d. if P p then AList.update (k p) p d else d) ps d) =
   map_of (rev (map (\<lambda>p. (k p, p)) (filter P ps)) @ d)"
  by (induction ps arbitrary: d) (auto simp: update_conv' map_add_def fun_eq_iff split: option.splits)

lemma map_of_functional:
  "(\<And>k p q. (k, p) \<in> set rows \<Longrightarrow> (k, q) \<in> set rows \<Longrightarrow> p = q) \<Longrightarrow> map_of rows k = Some p \<longleftrightarrow> (k, p) \<in> set rows"
  by (metis map_of_SomeD weak_map_of_SomeI)

lemma positions_by_execution_tracks:
  assumes "mirror_ok st" "length (st_positions st) \<le> 2000"
  shows "tracks (positions_by_execution st) st"
proof -
  let ?P = "\<lambda>p. is_broker_backed p \<and> position_execution p \<noteq> []"
  let ?rows = "rev (map (\<lambda>p. (position_execution p, p)) (filter ?P (newest_first pp_updated_at (st_positions st))))"
  have len: "length (newest_first pp_updated_at (st_positions st)) \<le> 2000" using assms(2) by (simp add: newest_first_def)
  have m: "map_of (positions_by_execution st) = map_of ?rows"
    using len by (simp add: positions_by_execution_def position_list_def map_of_fold_update)
  have rows: "(eid, p) \<in> set ?rows \<longleftrightarrow> p \<in> set (st_positions st) \<and> mirrors p eid" for eid p
    by (auto simp: mirrors_def)
  have "map_of ?rows eid = Some p \<longleftrightarrow> (eid, p) \<in> set ?rows" for eid p
    by (rule map_of_functional) (use assms(1) rows in \<open>unfold mirror_ok_def, blast\<close>)
  then show ?thesis unfolding tracks_def m rows by blast
qed

lemma tracks_open:
  assumes "tracks by st" "position_create_row p st = Inr st'" "mirrors p eid" "map_of by eid = None"
  shows "tracks (AList.update eid p by) st'"
proof -
  have "set (st_positions st') = insert p (set (st_positions st))"
    using assms(2) by (auto simp: position_create_row_def split: if_splits)
  moreover have "mirrors p e \<longleftrightarrow> e = eid" for e using assms(3) by (auto simp: mirrors_def)
  moreover have "\<not> mirrors q eid" if "q \<in> set (st_positions st)" for q
    using assms(1,4) that unfolding tracks_def by (metis option.distinct(1))
  ultimately show ?thesis
    using assms(1) unfolding tracks_def by (auto simp: update_conv')
qed

lemma tracks_close:
  assumes "tracks by st" "distinct (map pp_id (st_positions st))" "map_of by eid = Some p"
  shows "tracks (AList.update eid (closed_position p x t) by) (position_update (closed_position p x t) st)"
proof -
  have p: "p \<in> set (st_positions st)" "mirrors p eid" using assms(1,3) by (auto simp: tracks_def)
  have c: "mirrors (closed_position p x t) e \<longleftrightarrow> e = eid" for e using p(2) by (auto simp: mirrors_def)
  have "mirrors q eid \<longleftrightarrow> q = p" if "q \<in> set (st_positions st)" for q
    using assms(1,3) p(2) that unfolding tracks_def by (metis option.inject)
  moreover have "\<not> mirrors p e" if "e \<noteq> eid" for e using p(2) that by (auto simp: mirrors_def)
  ultimately show ?thesis
    using assms(1) positions_close [OF assms(2) p(1)] c unfolding tracks_def by (auto simp: update_conv')
qed

subsection \<open>The loop\<close>

text \<open>An execution with a filled entry; nothing is left to do for it; a trade that reports it.\<close>

definition entry_filled :: "paper_broker_execution \<Rightarrow> bool" where
  "entry_filled x \<longleftrightarrow> 0 < bx_filled_qty x \<and> bx_entry_fill_price x \<noteq> None"

definition mirror_settled :: "paper_broker_execution \<Rightarrow> (string \<times> paper_position) list \<Rightarrow> bool" where
  "mirror_settled x by \<longleftrightarrow> (entry_filled x \<longrightarrow>
     (\<exists>p. map_of by (bx_execution_id x) = Some p \<and> (pp_status p = ''open'' \<longrightarrow> bx_exit_fill_price x = None)))"

definition reports :: "paper_broker_execution \<Rightarrow> paper_trade \<Rightarrow> bool" where
  "reports x t \<longleftrightarrow> text_of (pt_payload t) ''execution_id'' = bx_execution_id x \<and>
     Some (pt_entry_price t) = bx_entry_fill_price x \<and> Some (pt_exit_price t) = bx_exit_fill_price x \<and>
     pt_quantity t = bx_filled_qty x \<and> pt_outcome t = exit_outcome x \<and>
     (bx_side x = Some ''buy'' \<longrightarrow>
        pt_realized_pnl_usd t = py_round 2 ((pt_exit_price t - pt_entry_price t) * pt_quantity t))"

text \<open>What every run may change of the store, and how it changes the dictionary.\<close>

definition ledger_change :: "store \<Rightarrow> store \<Rightarrow> bool" where
  "ledger_change st st' \<longleftrightarrow> ledger_ok st' \<and> mirror_ok st' \<and> st_executions st' = st_executions st \<and>
     st_queue st' = st_queue st \<and> st_orders st' = st_orders st \<and> set (st_trades st) \<subseteq> set (st_trades st')"

definition advances :: "(string \<times> paper_position) list \<Rightarrow> (string \<times> paper_position) list \<Rightarrow> bool" where
  "advances by by' \<longleftrightarrow> (\<forall>k p. map_of by k = Some p \<longrightarrow>
     (\<exists>p'. map_of by' k = Some p' \<and> (pp_status p' = ''open'' \<longrightarrow> pp_status p = ''open'')))"

lemma settled_advances: "mirror_settled x by \<Longrightarrow> advances by by' \<Longrightarrow> mirror_settled x by'"
  unfolding mirror_settled_def advances_def by meson

lemma advances_refl: "advances by by"
  by (simp add: advances_def)

lemma advances_trans: "advances a b \<Longrightarrow> advances b c \<Longrightarrow> advances a c"
  unfolding advances_def by meson

lemma ledger_change_trans: "ledger_change a b \<Longrightarrow> ledger_change b c \<Longrightarrow> ledger_change a c"
  unfolding ledger_change_def by auto

lemma ledger_change_refl: "ledger_ok st \<Longrightarrow> tracks by st \<Longrightarrow> ledger_change st st"
  by (auto simp: ledger_change_def intro: tracks_mirror_ok)

lemma tracks_log [simp]: "tracks by (log_run t e d st) = tracks by st"
  by (simp add: tracks_def)

lemma mirror_ok_log [simp]: "mirror_ok (log_run t e d st) = mirror_ok st"
  by (simp add: mirror_ok_def)

lemma open_position_step:
  assumes "ledger_ok (w_store w)" "tracks by (w_store w)" "map_of by (bx_execution_id x) = None" "bx_execution_id x \<noteq> []"
  shows "after (open_position env x) w (\<lambda>r w'. ledger_change (w_store w) (w_store w') \<and>
    (\<forall>p. r = Inr p \<longrightarrow> tracks (AList.update (bx_execution_id x) p by) (w_store w') \<and> (\<exists>pid now. p = mirrored_position pid now x)))"
proof (rule afterI)
  fix r w'
  assume "open_position env x w = (r, w')"
  then show "ledger_change (w_store w) (w_store w') \<and>
    (\<forall>p. r = Inr p \<longrightarrow> tracks (AList.update (bx_execution_id x) p by) (w_store w') \<and> (\<exists>pid now. p = mirrored_position pid now x))"
  proof (cases rule: open_position_cases)
    case refused
    with assms show ?thesis by (auto intro: ledger_change_refl)
  next
    case (opened pid now st t d)
    have t: "tracks (AList.update (bx_execution_id x) (mirrored_position pid now x) by) st"
      by (rule tracks_open [OF assms(2) opened(2) _ assms(3)]) (simp add: mirrors_def assms(4))
    moreover have "st_executions st = st_executions (w_store w) \<and> st_queue st = st_queue (w_store w) \<and>
        st_orders st = st_orders (w_store w) \<and> st_trades st = st_trades (w_store w)"
      using opened(2) by (auto simp: position_create_row_def split: if_splits)
    ultimately show ?thesis
      using opened ledger_open_new [OF assms(1) opened(2)] tracks_mirror_ok [OF t] by (auto simp: ledger_change_def)
  qed
qed

lemma close_position_step:
  assumes "ledger_ok (w_store w)" "tracks by (w_store w)" "map_of by eid = Some p" "pp_status p = ''open''"
  shows "after (close_position env p price outcome ca) w (\<lambda>r w'. ledger_change (w_store w) (w_store w') \<and>
    (\<forall>t. r = Inr t \<longrightarrow> tracks (AList.update eid (closed_position p price (pt_closed_at t)) by) (w_store w') \<and>
       t \<in> set (st_trades (w_store w')) \<and> (\<exists>tid stamp. t = trade_of tid p price outcome stamp)))"
proof (rule afterI)
  fix r w'
  assume run: "close_position env p price outcome ca w = (r, w')"
  have dist: "distinct (map pp_id (st_positions (w_store w)))" using assms(1) by (simp add: ledger_ok_def)
  have p: "p \<in> set (st_positions (w_store w))" using assms(2,3) by (auto simp: tracks_def)
  have get: "position_get (pp_id p) (w_store w) = Some p"
  proof -
    obtain q where q: "position_get (pp_id p) (w_store w) = Some q"
      using p by (metis position_get_def positions.get_None_iff image_eqI option.exhaust)
    with p dist have "q = p" using position_get_in [OF q] by (auto simp: distinct_map inj_on_def)
    with q show ?thesis by simp
  qed
  have op: "is_open (pp_id (closed_position p price t)) (w_store w)" for t
    using get assms(4) by (simp add: is_open_def)
  note tr = tracks_close [OF assms(2) dist assms(3)]
  from run show "ledger_change (w_store w) (w_store w') \<and>
    (\<forall>t. r = Inr t \<longrightarrow> tracks (AList.update eid (closed_position p price (pt_closed_at t)) by) (w_store w') \<and>
       t \<in> set (st_trades (w_store w')) \<and> (\<exists>tid stamp. t = trade_of tid p price outcome stamp))"
  proof (cases rule: close_position_cases)
    case (refused e stamp)
    then show ?thesis
      using ledger_update [OF assms(1) op [of stamp]] tracks_mirror_ok [OF tr]
      by (auto simp: ledger_change_def position_update_def)
  next
    case (booked tid stamp st t d)
    let ?tr = "trade_of tid p price outcome stamp"
    have st: "st_positions st = st_positions (position_update (closed_position p price stamp) (w_store w))"
        "st_trades st = st_trades (w_store w) @ [?tr]" "st_executions st = st_executions (w_store w)"
        "st_queue st = st_queue (w_store w)" "st_orders st = st_orders (w_store w)"
      using booked(2) by (auto simp: trade_create_row_def position_update_def split: if_splits)
    have "tracks (AList.update eid (closed_position p price stamp) by) st"
      using tr [of price stamp] by (simp add: tracks_def st(1))
    moreover have "pt_closed_at ?tr = stamp" by (simp add: trade_of_def Let_def)
    ultimately show ?thesis
      using booked st(2-) ledger_close [OF assms(1) get assms(4) booked(2)] tracks_mirror_ok [of _ st]
      by (auto simp: ledger_change_def)
  qed
qed

lemma advances_update:
  "map_of by k = None \<or> pp_status q \<noteq> ''open'' \<Longrightarrow> advances by (AList.update k q by)"
  by (auto simp: advances_def update_conv')

lemma trade_of_mirrored:
  assumes "bx_entry_fill_price x \<noteq> None" "bx_exit_fill_price x = Some price" "p = mirrored_position pid now x"
  shows "reports x (trade_of tid p price (exit_outcome x) stamp)"
proof -
  have "text_of (pt_payload (trade_of tid p price (exit_outcome x) stamp)) ''execution_id'' = bx_execution_id x"
    by (simp add: trade_of_def Let_def text_of_def assms(3) mirrored_position_def dict_get_def update_conv')
  moreover have "Some (pp_entry_price p) = bx_entry_fill_price x" "pp_quantity p = bx_filled_qty x"
    using assms(1,3) by (auto simp: mirrored_position_def Let_def)
  moreover have "pp_side p = ''buy''" if "bx_side x = Some ''buy''"
    using that by (simp add: assms(3) mirrored_position_def Let_def opt_or_def py_lower_def lower_char_def)
  ultimately show ?thesis
    using assms(2) by (simp add: reports_def trade_of_def Let_def pnl_usd_def)
qed

lemma after_bind3I:
  assumes "after m w R" "\<And>e w'. R (Inl e) w' \<Longrightarrow> Q (Inl e) w'" "\<And>a b c w'. R (Inr (a, b, c)) w' \<Longrightarrow> after (f a b c) w' Q"
  shows "after (bindP m (\<lambda>(a, b, c). f a b c)) w Q"
  by (rule after_bindI [OF assms(1)]) (auto intro: assms(2,3))

text \<open>The conclusion of a step for \<open>x\<close> from the store \<open>st\<close> and the dictionary \<open>by\<close>.\<close>

definition step_result :: "paper_broker_execution \<Rightarrow> store \<Rightarrow> (string \<times> paper_position) list \<Rightarrow>
    exn + (string \<times> paper_position) list \<times> int \<times> int \<Rightarrow> store \<Rightarrow> bool" where
  "step_result x st by r st' \<longleftrightarrow> ledger_change st st' \<and>
    (\<forall>by' o1 c1. r = Inr (by', o1, c1) \<longrightarrow> tracks by' st' \<and> advances by by' \<and> mirror_settled x by' \<and>
       (\<forall>k. k \<noteq> bx_execution_id x \<longrightarrow> map_of by' k = map_of by k) \<and>
       (map_of by (bx_execution_id x) = None \<and> entry_filled x \<and> bx_exit_fill_price x \<noteq> None \<longrightarrow>
          (\<exists>t \<in> set (st_trades st'). reports x t)))"

text \<open>The position of \<open>x\<close> has been found or opened.\<close>

definition at_hand :: "paper_broker_execution \<Rightarrow> store \<Rightarrow> (string \<times> paper_position) list \<Rightarrow> paper_position \<Rightarrow>
    (string \<times> paper_position) list \<Rightarrow> store \<Rightarrow> bool" where
  "at_hand x st by p by1 st1 \<longleftrightarrow> ledger_change st st1 \<and> tracks by1 st1 \<and> advances by by1 \<and>
     map_of by1 (bx_execution_id x) = Some p \<and> (\<forall>k. k \<noteq> bx_execution_id x \<longrightarrow> map_of by1 k = map_of by k) \<and>
     (map_of by (bx_execution_id x) = None \<longrightarrow> pp_status p = ''open'' \<and> (\<exists>pid now. p = mirrored_position pid now x))"

lemma find_or_open_step:
  assumes "ledger_ok (w_store w)" "tracks by (w_store w)" "bx_execution_id x \<noteq> []"
  shows "after (find_or_open env x by) w (\<lambda>r w1. ledger_change (w_store w) (w_store w1) \<and>
    (\<forall>p by1 o1. r = Inr (p, by1, o1) \<longrightarrow> at_hand x (w_store w) by p by1 (w_store w1)))"
proof (cases "map_of by (bx_execution_id x)")
  case (Some p)
  with assms show ?thesis
    by (simp add: find_or_open_def at_hand_def ledger_change_refl advances_refl)
next
  case None
  show ?thesis
    unfolding find_or_open_def None option.case
    by (intro after_bindI [OF open_position_step [OF assms(1,2) None assms(3)]])
      (auto simp: at_hand_def update_conv' None intro!: advances_update)
qed

lemma close_if_exited_step:
  assumes h: "at_hand x (w_store w) by p by1 (w_store w1)" and filled: "entry_filled x"
  shows "after (close_if_exited env x p by1 o1) w1 (\<lambda>r w2. step_result x (w_store w) by r (w_store w2))"
proof (cases "pp_status p = ''open'' \<and> bx_exit_fill_price x \<noteq> None")
  case False
  with h show ?thesis
    by (cases "bx_exit_fill_price x") (auto simp: close_if_exited_def at_hand_def step_result_def mirror_settled_def)
next
  case True
  then obtain price where price: "bx_exit_fill_price x = Some price" and op: "pp_status p = ''open''" by blast
  have ch: "ledger_change (w_store w) (w_store w1)" and tr: "tracks by1 (w_store w1)" and adv: "advances by by1"
    and key: "map_of by1 (bx_execution_id x) = Some p" and ok: "ledger_ok (w_store w1)"
    using h by (auto simp: at_hand_def ledger_change_def)
  have rep: "reports x (trade_of tid p price (exit_outcome x) stamp)" if "map_of by (bx_execution_id x) = None" for tid stamp
    using h that price filled trade_of_mirrored unfolding entry_filled_def at_hand_def by blast
  let ?c = "\<lambda>t. AList.update (bx_execution_id x) (closed_position p price (pt_closed_at t)) by1"
  have "advances by (?c t) \<and> mirror_settled x (?c t)" for t
    by (auto simp: mirror_settled_def update_conv' intro: advances_trans [OF adv advances_update])
  then have "step_result x (w_store w) by (Inr (?c t, o1, 1)) st'"
    if "ledger_change (w_store w1) st'" "tracks (?c t) st'" "t \<in> set (st_trades st')"
      "t = trade_of tid p price (exit_outcome x) stamp" for t st' tid stamp
    using that rep h ledger_change_trans [OF ch that(1)] by (auto simp: step_result_def at_hand_def update_conv')
  moreover have "step_result x (w_store w) by (Inl e) st'" if "ledger_change (w_store w1) st'" for e st'
    using ledger_change_trans [OF ch that] by (simp add: step_result_def)
  ultimately show ?thesis
    using op by (auto simp del: after_bind simp: close_if_exited_def price intro!: after_bindI [OF close_position_step [OF ok tr key op]])
qed

lemma sync_execution_step:
  assumes "ledger_ok (w_store w)" "tracks by (w_store w)" "bx_execution_id x \<noteq> []"
  shows "after (sync_execution env x by) w (\<lambda>r w'. step_result x (w_store w) by r (w_store w'))"
proof (cases "entry_filled x")
  case False
  with assms show ?thesis
    by (auto simp: sync_execution_def step_result_def entry_filled_def mirror_settled_def advances_refl intro: ledger_change_refl)
next
  case True
  then have "sync_execution env x by = bindP (find_or_open env x by) (\<lambda>(p, by', opened). close_if_exited env x p by' opened)"
    by (auto simp: sync_execution_def entry_filled_def)
  moreover have "after (bindP (find_or_open env x by) (\<lambda>(p, by', opened). close_if_exited env x p by' opened)) w
      (\<lambda>r w'. step_result x (w_store w) by r (w_store w'))"
    by (rule after_bind3I [OF find_or_open_step [OF assms]])
      (auto simp: step_result_def [of _ _ _ "Inl _"] intro: close_if_exited_step [OF _ True])
  ultimately show ?thesis by simp
qed

lemma sync_executions_step:
  assumes "ledger_ok (w_store w)" "tracks by (w_store w)" "\<forall>x \<in> set xs. bx_execution_id x \<noteq> []"
  shows "after (sync_executions env xs by) w (\<lambda>r w'. ledger_change (w_store w) (w_store w') \<and>
    (\<forall>n. r = Inr n \<longrightarrow> (\<exists>by'. tracks by' (w_store w') \<and> advances by by' \<and> (\<forall>x \<in> set xs. mirror_settled x by'))))"
  using assms
proof (induction xs arbitrary: "by" w)
  case Nil
  then show ?case by (auto intro: ledger_change_refl advances_refl)
next
  case (Cons x xs)
  have x: "bx_execution_id x \<noteq> []" and xs: "\<forall>y \<in> set xs. bx_execution_id y \<noteq> []" using Cons.prems(3) by auto
  have rest: "after (bindP (sync_executions env xs by1) (\<lambda>(o2, c2). returnP (o1 + o2, c1 + c2))) w1
      (\<lambda>r w'. ledger_change (w_store w) (w_store w') \<and>
        (\<forall>n. r = Inr n \<longrightarrow> (\<exists>by'. tracks by' (w_store w') \<and> advances by by' \<and> (\<forall>y \<in> set (x # xs). mirror_settled y by'))))"
    if "ledger_change (w_store w) (w_store w1)" "tracks by1 (w_store w1)" "advances by by1" "mirror_settled x by1" for by1 o1 c1 w1
  proof (rule after_bindI [OF Cons.IH])
    show "ledger_ok (w_store w1)" using that(1) by (simp add: ledger_change_def)
    show "tracks by1 (w_store w1)" by (fact that)
  qed (use that xs in \<open>auto intro: ledger_change_trans advances_trans settled_advances split: prod.splits\<close>)
  show ?case
    unfolding sync_executions.simps
    by (rule after_bind3I [OF sync_execution_step [OF Cons.prems(1,2) x, unfolded step_result_def]], simp, rule rest) blast+
qed

text \<open>An execution not mirrored yet, with both fills known, is booked.\<close>

lemma sync_executions_reports:
  assumes "ledger_ok (w_store w)" "tracks by (w_store w)" "\<forall>y \<in> set xs. bx_execution_id y \<noteq> []"
    and "distinct (map bx_execution_id xs)" "x \<in> set xs" "map_of by (bx_execution_id x) = None"
    and "entry_filled x" "bx_exit_fill_price x \<noteq> None"
  shows "after (sync_executions env xs by) w (\<lambda>r w'. \<forall>n. r = Inr n \<longrightarrow> (\<exists>t \<in> set (st_trades (w_store w')). reports x t))"
  using assms
proof (induction xs arbitrary: "by" w)
  case (Cons y ys)
  have y: "bx_execution_id y \<noteq> []" and ys: "\<forall>z \<in> set ys. bx_execution_id z \<noteq> []" using Cons.prems(3) by auto
  show ?case
  proof (cases "x = y")
    case True
    have cont: "after (bindP (sync_executions env ys by1) (\<lambda>(o2, c2). returnP (o1 + o2, c1 + c2))) w1
        (\<lambda>r w'. \<forall>n. r = Inr n \<longrightarrow> (\<exists>t \<in> set (st_trades (w_store w')). reports x t))"
      if "ledger_change (w_store w) (w_store w1)" "tracks by1 (w_store w1)" "\<exists>t \<in> set (st_trades (w_store w1)). reports x t"
      for by1 o1 c1 w1
    proof (rule after_bindI [OF sync_executions_step])
      show "ledger_ok (w_store w1)" using that(1) by (simp add: ledger_change_def)
      show "tracks by1 (w_store w1)" by (fact that)
    qed (use that ys in \<open>auto simp: ledger_change_def split: prod.splits\<close>)
    show ?thesis
      unfolding sync_executions.simps
      by (rule after_bind3I [OF sync_execution_step [OF Cons.prems(1,2) y, unfolded step_result_def]], simp, rule cont)
        (use Cons.prems(6-8) True in simp_all)
  next
    case False
    then have x: "x \<in> set ys" using Cons.prems(5) by simp
    then have ne: "bx_execution_id x \<noteq> bx_execution_id y" using Cons.prems(4) by (metis distinct.simps(2) image_eqI list.set_map list.simps(9))
    have cont: "after (bindP (sync_executions env ys by1) (\<lambda>(o2, c2). returnP (o1 + o2, c1 + c2))) w1
        (\<lambda>r w'. \<forall>n. r = Inr n \<longrightarrow> (\<exists>t \<in> set (st_trades (w_store w')). reports x t))"
      if "ledger_change (w_store w) (w_store w1)" "tracks by1 (w_store w1)" "map_of by1 (bx_execution_id x) = None" for by1 o1 c1 w1
    proof (rule after_bindI [OF Cons.IH])
      show "ledger_ok (w_store w1)" using that(1) by (simp add: ledger_change_def)
      show "tracks by1 (w_store w1)" by (fact that)
    qed (use that ys x Cons.prems(4,7,8) in \<open>auto split: prod.splits\<close>)
    show ?thesis
      unfolding sync_executions.simps
      by (rule after_bind3I [OF sync_execution_step [OF Cons.prems(1,2) y, unfolded step_result_def]], simp, rule cont)
        (use Cons.prems(6) ne in simp_all)
  qed
qed simp

lemma sync_settled: "\<forall>x \<in> set xs. mirror_settled x by \<Longrightarrow> sync_executions env xs by w = (Inr (0, 0), w)"
proof (induction xs)
  case (Cons x xs)
  have "sync_execution env x by w = (Inr (by, 0, 0), w)"
    using Cons.prems
    by (auto simp: sync_execution_def find_or_open_def close_if_exited_def mirror_settled_def entry_filled_def bindP_def returnP_def split: option.splits)
  with Cons show ?case by (simp add: bindP_def returnP_def)
qed (simp add: returnP_def)

subsection \<open>The ledger invariant alone\<close>

text \<open>
  Whatever the mirror has missed (rows beyond the two thousand it reads, executions mirrored
  twice), it keeps the ledger consistent: its dictionary only holds rows of the ledger.
\<close>

definition indexed :: "(string \<times> paper_position) list \<Rightarrow> store \<Rightarrow> bool" where
  "indexed by st \<longleftrightarrow> (\<forall>k p. map_of by k = Some p \<longrightarrow> p \<in> set (st_positions st) \<and> position_execution p = k)"

lemma indexed_log [simp]: "indexed by (log_run t e d st) = indexed by st"
  by (simp add: indexed_def)

lemma stored_position_get:
  assumes "ledger_ok st" "p \<in> set (st_positions st)"
  shows "position_get (pp_id p) st = Some p"
proof -
  obtain q where q: "position_get (pp_id p) st = Some q"
    using assms(2) by (metis position_get_def positions.get_None_iff image_eqI option.exhaust)
  with assms have "q = p" using position_get_in [OF q] by (auto simp: ledger_ok_def distinct_map inj_on_def)
  with q show ?thesis by simp
qed

lemma find_or_open_indexed:
  assumes "ledger_ok (w_store w)" "indexed by (w_store w)"
  shows "after (find_or_open env x by) w (\<lambda>r w'. ledger_ok (w_store w') \<and>
    (\<forall>p by' o1. r = Inr (p, by', o1) \<longrightarrow> indexed by' (w_store w') \<and> map_of by' (bx_execution_id x) = Some p))"
proof (cases "map_of by (bx_execution_id x)")
  case (Some p)
  with assms show ?thesis by (simp add: find_or_open_def)
next
  case None
  have open_ok: "ledger_ok (w_store w') \<and>
      (\<forall>p. r = Inr p \<longrightarrow> indexed (AList.update (bx_execution_id x) p by) (w_store w'))"
    if "open_position env x w = (r, w')" for r w'
    using that
  proof (cases rule: open_position_cases)
    case (opened pid now st t d)
    then have "st_positions st = st_positions (w_store w) @ [mirrored_position pid now x]"
      by (auto simp: position_create_row_def split: if_splits)
    with opened assms(2) ledger_open_new [OF assms(1) opened(2)] show ?thesis
      by (auto simp: indexed_def update_conv')
  qed (use assms in simp)
  show ?thesis
    unfolding find_or_open_def None option.case
    by (rule after_bindI [OF afterI [OF open_ok]]) (auto simp: update_conv')
qed

lemma close_if_exited_indexed:
  assumes "ledger_ok (w_store w)" "indexed by (w_store w)" "map_of by (bx_execution_id x) = Some p"
  shows "after (close_if_exited env x p by o1) w (\<lambda>r w'. ledger_ok (w_store w') \<and>
    (\<forall>by' a b. r = Inr (by', a, b) \<longrightarrow> indexed by' (w_store w')))"
proof (cases "pp_status p = ''open'' \<and> bx_exit_fill_price x \<noteq> None")
  case False
  with assms show ?thesis by (cases "bx_exit_fill_price x") (auto simp: close_if_exited_def)
next
  case True
  then obtain price where price: "bx_exit_fill_price x = Some price" by blast
  have p: "p \<in> set (st_positions (w_store w))" "position_execution p = bx_execution_id x"
    using assms(2,3) by (auto simp: indexed_def)
  have get: "position_get (pp_id p) (w_store w) = Some p" by (rule stored_position_get [OF assms(1) p(1)])
  have dist: "distinct (map pp_id (st_positions (w_store w)))" using assms(1) by (simp add: ledger_ok_def)
  have closed: "ledger_ok (w_store w') \<and>
      (\<forall>t. r = Inr t \<longrightarrow> indexed (AList.update (bx_execution_id x) (closed_position p price (pt_closed_at t)) by) (w_store w'))"
    if "close_position env p price outcome ca w = (r, w')" for r w' outcome ca
    using that
  proof (cases rule: close_position_cases)
    case (refused e stamp)
    then show ?thesis
      using ledger_update [OF assms(1), of "closed_position p price stamp"] get True by (auto simp: is_open_def)
  next
    case (booked tid stamp st t d)
    then have "st_positions st = st_positions (position_update (closed_position p price stamp) (w_store w))"
      by (auto simp: trade_create_row_def split: if_splits)
    moreover have "pt_closed_at (trade_of tid p price outcome stamp) = stamp" by (simp add: trade_of_def Let_def)
    ultimately show ?thesis
      using booked ledger_close [OF assms(1) get _ booked(2)] True positions_close [OF dist p(1)] assms(2) p(2)
      by (auto simp: indexed_def update_conv')
  qed
  have "close_if_exited env x p by o1 = bindP (close_position env p price (exit_outcome x) (exit_filled_at x)) (\<lambda>t.
      returnP (AList.update (bx_execution_id x) (closed_position p price (pt_closed_at t)) by, o1, 1))"
    using True by (simp add: close_if_exited_def price)
  then show ?thesis
    by (simp only:) (rule after_bindI [OF afterI [OF closed]], assumption, simp_all)
qed

lemma sync_executions_ledger:
  "ledger_ok (w_store w) \<Longrightarrow> indexed by (w_store w) \<Longrightarrow>
    after (sync_executions env xs by) w (\<lambda>r w'. ledger_ok (w_store w'))"
proof (induction xs arbitrary: "by" w)
  case (Cons x xs)
  have one: "after (sync_execution env x by) w (\<lambda>r w'. ledger_ok (w_store w') \<and>
      (\<forall>by' a b. r = Inr (by', a, b) \<longrightarrow> indexed by' (w_store w')))"
  proof (cases "bx_filled_qty x \<le> 0 \<or> bx_entry_fill_price x = None")
    case False
    then show ?thesis
      unfolding sync_execution_def if_not_P [OF False]
      by (intro after_bind3I [OF find_or_open_indexed [OF Cons.prems]], simp) (rule close_if_exited_indexed; simp)
  qed (use Cons.prems in \<open>simp add: sync_execution_def\<close>)
  show ?case
    unfolding sync_executions.simps
    by (rule after_bind3I [OF one], simp, rule after_bindI [OF Cons.IH]) auto
qed simp

lemma position_list_stored: "p \<in> set (position_list status n st) \<Longrightarrow> p \<in> set (st_positions st)"
  by (auto simp: position_list_def dest!: in_set_takeD split: option.splits)

lemma positions_by_execution_indexed: "indexed (positions_by_execution st) st"
proof -
  have "p \<in> set (position_list None 2000 st) \<and> position_execution p = k" if "map_of (positions_by_execution st) k = Some p" for k p
    using map_of_SomeD [OF that [unfolded positions_by_execution_def map_of_fold_update]] by auto
  then show ?thesis by (auto simp: indexed_def dest: position_list_stored)
qed

lemma sync_run:
  "ps_executions ps \<Longrightarrow> broker_executions ps limit (w_store w) = Inr xs \<Longrightarrow>
   sync_broker_backed_positions ps limit w =
     bindP (sync_executions (ps_env ps) xs (positions_by_execution (w_store w)))
       (\<lambda>(opened, closed). returnP (int (length xs), opened, closed)) w"
  by (simp add: sync_broker_backed_positions_def bindP_def readP_def liftP_def)

lemma sync_keeps_ledger: "keeps ledger_ok (sync_broker_backed_positions ps limit)"
proof -
  have "after (sync_broker_backed_positions ps limit) w (\<lambda>r w'. ledger_ok (w_store w'))" if ok: "ledger_ok (w_store w)" for w
  proof (cases "broker_executions ps limit (w_store w)")
    case (Inr xs)
    have "after (bindP (sync_executions (ps_env ps) xs (positions_by_execution (w_store w)))
        (\<lambda>(opened, closed). returnP (int (length xs), opened, closed))) w (\<lambda>r w'. ledger_ok (w_store w'))"
      by (rule after_bindI [OF sync_executions_ledger [OF ok positions_by_execution_indexed]]) (auto split: prod.splits)
    then have "after (sync_broker_backed_positions ps limit) w (\<lambda>r w'. ledger_ok (w_store w'))" if "ps_executions ps"
      by (simp del: after_bind add: after_def sync_run [OF that Inr])
    then show ?thesis
      using ok by (cases "ps_executions ps") (simp_all add: sync_broker_backed_positions_def)
  qed (use ok in \<open>simp add: sync_broker_backed_positions_def\<close>)
  then show ?thesis by (simp add: keeps_def after_def split_beta)
qed

subsection \<open>Records and executions\<close>

lemma broker_execution_record_fields:
  assumes "broker_execution_record e queue snapshots syms = Inr x"
  shows "bx_execution_id x = ex_id e"
    and "ex_realized_pnl_usd e = 0 \<Longrightarrow> entry_filled x \<Longrightarrow> bx_exit_fill_price x \<noteq> None \<Longrightarrow>
      bx_realized_pnl_usd x = py_round 2 ((the (bx_exit_fill_price x) - the (bx_entry_fill_price x)) * bx_filled_qty x)"
  using assms by (auto simp: broker_execution_record_def Let_def entry_filled_def split: sum.splits)

lemma collect_member:
  "collect f xs = Inr ys \<Longrightarrow> y \<in> set ys \<Longrightarrow> \<exists>x \<in> set xs. f x = Inr y"
  by (induction xs arbitrary: ys) (auto split: sum.splits)

lemma collect_map: "collect f xs = Inr ys \<Longrightarrow> (\<And>x y. f x = Inr y \<Longrightarrow> g y = h x) \<Longrightarrow> map g ys = map h xs"
  by (induction xs arbitrary: ys) (auto split: sum.splits)

lemma broker_executions_collect:
  assumes "ps_executions ps" "broker_executions ps limit st = Inr xs"
  obtains f ys where "collect f (filter is_broker_paper_execution (execution_list (max limit 1) st)) = Inr ys"
    "xs = take (nat (max limit 1)) ys" "\<And>e. \<exists>q sn sy. f e = broker_execution_record e q sn sy"
proof -
  obtain f where f: "map_sum (\<lambda>x. x) (take (nat (max limit 1)))
        (collect f (filter is_broker_paper_execution (execution_list (max limit 1) st))) = Inr xs"
      "\<And>e. \<exists>q sn sy. f e = broker_execution_record e q sn sy"
    by (rule that [OF assms(2) [unfolded broker_executions_def Let_def if_not_P [OF not_not [THEN iffD2, OF assms(1)]]]]) blast
  then show thesis
    by (cases "collect f (filter is_broker_paper_execution (execution_list (max limit 1) st))") (auto intro: that)
qed

lemma broker_executions_source:
  assumes "broker_executions ps limit st = Inr xs"
  shows "x \<in> set xs \<Longrightarrow> \<exists>e \<in> set (st_executions st). ex_id e = bx_execution_id x \<and>
      (ex_realized_pnl_usd e = 0 \<and> entry_filled x \<and> bx_exit_fill_price x \<noteq> None \<longrightarrow>
        bx_realized_pnl_usd x = py_round 2 ((the (bx_exit_fill_price x) - the (bx_entry_fill_price x)) * bx_filled_qty x))"
    and "distinct (map ex_id (st_executions st)) \<Longrightarrow> distinct (map bx_execution_id xs)"
proof -
  let ?es = "filter is_broker_paper_execution (execution_list (max limit 1) st)"
  have in_es: "e \<in> set (st_executions st)" if "e \<in> set ?es" for e
    using that by (auto simp: execution_list_def dest!: in_set_takeD)
  show "\<exists>e \<in> set (st_executions st). ex_id e = bx_execution_id x \<and>
      (ex_realized_pnl_usd e = 0 \<and> entry_filled x \<and> bx_exit_fill_price x \<noteq> None \<longrightarrow>
        bx_realized_pnl_usd x = py_round 2 ((the (bx_exit_fill_price x) - the (bx_entry_fill_price x)) * bx_filled_qty x))"
    if "x \<in> set xs"
  proof (cases "ps_executions ps")
    case True
    then obtain f ys where ys: "collect f ?es = Inr ys" "xs = take (nat (max limit 1)) ys"
        "\<And>e. \<exists>q sn sy. f e = broker_execution_record e q sn sy" using broker_executions_collect [OF _ assms] by blast
    with that obtain e where "e \<in> set ?es" "f e = Inr x" by (meson collect_member in_set_takeD)
    moreover from ys(3) obtain q sn sy where "f e = broker_execution_record e q sn sy" by blast
    ultimately have "e \<in> set ?es" "broker_execution_record e q sn sy = Inr x" by simp_all
    with in_es broker_execution_record_fields show ?thesis by metis
  qed (use assms that in \<open>simp add: broker_executions_def\<close>)
  show "distinct (map bx_execution_id xs)" if "distinct (map ex_id (st_executions st))"
  proof (cases "ps_executions ps")
    case True
    then obtain f ys where ys: "collect f ?es = Inr ys" "xs = take (nat (max limit 1)) ys"
        "\<And>e. \<exists>q sn sy. f e = broker_execution_record e q sn sy" using broker_executions_collect [OF _ assms] by blast
    have "map bx_execution_id ys = map ex_id ?es"
      using collect_map [OF ys(1)] ys(3) broker_execution_record_fields(1) by metis
    moreover have "distinct (map ex_id (newest_first ex_created_at (st_executions st)))"
      using that by (simp add: newest_first_def distinct_map inj_on_def)
    then have "distinct (map ex_id (execution_list (max limit 1) st))"
      by (simp add: execution_list_def take_map [symmetric])
    then have "distinct (map ex_id ?es)" by (rule distinct_map_filter)
    ultimately show ?thesis using ys(2) by (simp add: take_map [symmetric])
  qed (use assms in \<open>simp add: broker_executions_def\<close>)
qed

lemma broker_executions_frame:
  assumes "ledger_change st st'"
  shows "broker_executions ps limit st' = broker_executions ps limit st"
proof -
  have "queue_list s n st' = queue_list s n st" for s n using assms by (cases s) (simp_all add: ledger_change_def queue_list_def)
  moreover have "snapshot_list n st' = snapshot_list n st" "execution_list n st' = execution_list n st" for n
    using assms by (simp_all add: ledger_change_def snapshot_list_def execution_list_def)
  ultimately show ?thesis
    by (simp add: broker_executions_def broker_order_snapshots_def queue_by_proposal_def cong: if_cong)
qed

text \<open>A run of the mirror over a ledger it can read in full.\<close>

lemma sync_after:
  assumes "ledger_ok (w_store w)" "mirror_ok (w_store w)" "length (st_positions (w_store w)) \<le> 2000"
    and "\<forall>e \<in> set (st_executions (w_store w)). ex_id e \<noteq> []"
    and "sync_broker_backed_positions ps limit w = (r, w')"
  shows "ledger_change (w_store w) (w_store w')"
    and "r = Inr n \<Longrightarrow> ps_executions ps \<Longrightarrow> \<exists>xs by'. broker_executions ps limit (w_store w) = Inr xs \<and> fst n = int (length xs) \<and>
      tracks by' (w_store w') \<and> (\<forall>x \<in> set xs. mirror_settled x by')"
proof -
  let ?by = "positions_by_execution (w_store w)"
  have tr: "tracks ?by (w_store w)" by (rule positions_by_execution_tracks [OF assms(2,3)])
  have refl: "ledger_change (w_store w) (w_store w)" by (rule ledger_change_refl [OF assms(1) tr])
  have run: "after (bindP (sync_executions (ps_env ps) xs ?by) (\<lambda>(opened, closed). returnP (int (length xs), opened, closed))) w
      (\<lambda>r w'. ledger_change (w_store w) (w_store w') \<and> (\<forall>n. r = Inr n \<longrightarrow> fst n = int (length xs) \<and>
        (\<exists>by'. tracks by' (w_store w') \<and> (\<forall>x \<in> set xs. mirror_settled x by'))))"
    if "broker_executions ps limit (w_store w) = Inr xs" for xs
  proof -
    have "\<forall>x \<in> set xs. bx_execution_id x \<noteq> []" using broker_executions_source(1) [OF that] assms(4) by metis
    from sync_executions_step [OF assms(1) tr this] show ?thesis
      by (rule after_bindI) (auto split: prod.splits)
  qed
  have "ledger_change (w_store w) (w_store w') \<and> (\<forall>n. r = Inr n \<and> ps_executions ps \<longrightarrow>
      (\<exists>xs by'. broker_executions ps limit (w_store w) = Inr xs \<and> fst n = int (length xs) \<and>
        tracks by' (w_store w') \<and> (\<forall>x \<in> set xs. mirror_settled x by')))"
  proof (cases "ps_executions ps")
    case True
    show ?thesis
    proof (cases "broker_executions ps limit (w_store w)")
      case (Inr xs)
      from afterD [OF run [OF Inr]] assms(5) Inr show ?thesis unfolding sync_run [OF True Inr] by blast
    next
      case (Inl e)
      with assms(5) True have "r = Inl e" "w' = w"
        by (auto simp: sync_broker_backed_positions_def bindP_def readP_def liftP_def)
      with refl show ?thesis by simp
    qed
  qed (use assms(5) refl in \<open>auto simp: sync_broker_backed_positions_def returnP_def\<close>)
  then show "ledger_change (w_store w) (w_store w')"
    and "r = Inr n \<Longrightarrow> ps_executions ps \<Longrightarrow> \<exists>xs by'. broker_executions ps limit (w_store w) = Inr xs \<and> fst n = int (length xs) \<and>
      tracks by' (w_store w') \<and> (\<forall>x \<in> set xs. mirror_settled x by')" by blast+
qed

subsection \<open>Properties\<close>

definition demo_service :: paper_service where
  "demo_service = \<lparr>ps_env = demo_env, ps_executions = True, ps_broker_orders = True, ps_execution_queue = True,
     ps_learning = False, ps_safety_state = False\<rparr>"

text \<open>A bracket whose entry filled at 100 and whose target leg sold at 104, and its execution.\<close>

definition bracket_fill :: pydict where
  "bracket_fill = [(''symbol'', PStr ''NVDA''), (''side'', PStr ''buy''), (''order_class'', PStr ''bracket''),
     (''filled_qty'', PFloat 5), (''filled_avg_price'', PFloat 100), (''filled_at'', PTime 10),
     (''legs'', PList [PDict [(''side'', PStr ''sell''), (''status'', PStr ''filled''), (''filled_avg_price'', PFloat 104),
        (''limit_price'', PFloat 104), (''filled_at'', PTime 20)]])]"

definition filled_execution :: "string \<Rightarrow> pydict \<Rightarrow> execution_record" where
  "filled_execution eid fill = \<lparr>ex_id = eid, ex_proposal_id = ''prop_1'', ex_status = ''filled'', ex_mode = ''alpaca_paper'',
     ex_broker_order_id = Some (''order_'' @ eid), ex_strategy_name = Some ''swing'',
     ex_request_payload = [(''strategy_name'', PStr ''swing'')],
     ex_response_payload = [(''broker'', PStr ''alpaca''), (''broker_execution'', PDict fill)],
     ex_error_message = None, ex_realized_pnl_usd = 0, ex_created_at = 5, ex_updated_at = 20\<rparr>"

definition bracket_world :: world where
  "bracket_world = start_world (empty_store\<lparr>st_executions := [filled_execution ''exec_1'' bracket_fill]\<rparr>)"

lemma bracket_world_facts:
  "ledger_ok (w_store bracket_world)" "mirror_ok (w_store bracket_world)" "st_positions (w_store bracket_world) = []"
  "st_executions (w_store bracket_world) = [filled_execution ''exec_1'' bracket_fill]"
  "ex_id (filled_execution eid fill) = eid" "ex_realized_pnl_usd (filled_execution eid fill) = 0"
  by (simp_all add: bracket_world_def empty_store_def ledger_ok_def mirror_ok_def filled_execution_def)

definition bracket_record :: paper_broker_execution where
  "bracket_record = (case broker_execution_record (filled_execution ''exec_1'' bracket_fill) None [] (\<lambda>s. []) of Inr x \<Rightarrow> x)"

lemma bracket_record_facts:
  "broker_executions demo_service 500 (w_store bracket_world) = Inr [bracket_record]"
  "bx_execution_id bracket_record = ''exec_1''" "bx_filled_qty bracket_record = 5"
  "bx_entry_fill_price bracket_record = Some 100" "bx_exit_fill_price bracket_record = Some 104"
  "bx_side bracket_record = Some ''buy''"
  by code_simp+

lemma bracket_sync:
  "\<exists>w'. sync_broker_backed_positions demo_service 500 bracket_world = (Inr (1, 1, 1), w') \<and>
     length (st_positions (w_store w')) = 1"
proof -
  have "positions_by_execution (w_store bracket_world) = []"
    by (simp add: positions_by_execution_def position_list_def bracket_world_facts newest_first_def)
  moreover have "ps_executions demo_service" by (simp add: demo_service_def)
  moreover have "st_trades (w_store bracket_world) = []" by (simp add: bracket_world_def empty_store_def)
  ultimately show ?thesis
    by (simp add: sync_run [OF _ bracket_record_facts(1)] sync_execution_def find_or_open_def close_if_exited_def
        open_position_def close_position_def prog_defs with_unit_def position_create_row_def trade_create_row_def
        position_update_def row_update_def bracket_record_facts(2-) Let_def bracket_world_facts(3))
qed

text \<open>
  C36: the ledger stays consistent. Opening positions and refreshing the open ones, with the
  mirror of the broker's fills, preserve that every closed trade matches exactly one closed
  position, with equal realised result and closing time, and that no position is closed into
  two trades; also when the mirror, a quote or an insert fails midway.
\<close>

theorem paper_ledger_stays_consistent:
  assumes "ledger_ok (w_store w)"
    and "refresh_with_broker ps w = (r, w') \<or> open_from_approved_proposal env p qt snap w = (r2, w')"
  shows "ledger_ok (w_store w')"
  using assms(2)
proof
  assume "refresh_with_broker ps w = (r, w')"
  then show ?thesis
    unfolding refresh_with_broker_def
    by (rule refresh_ledger [OF assms(1) keeps_bind [OF sync_keeps_ledger], rotated]) (auto intro: keeps_return split: prod.splits)
next
  assume "open_from_approved_proposal env p qt snap w = (r2, w')"
  from keepsD [OF keeps_ledger_open this assms(1)] show ?thesis .
qed

theorem paper_ledger_stays_consistent_witness:
  "ledger_ok (w_store (snd (refresh_with_broker demo_service bracket_world)))"
  by (rule paper_ledger_stays_consistent [OF bracket_world_facts(1) disjI1 [OF prod.collapse [symmetric]]])

text \<open>
  one position per execution. The mirror of the broker's fills never gives an execution a
  second broker-backed position, however often it runs and wherever it fails, and it leaves the
  executions, the queue and the order snapshots alone; as long as it can read the whole ledger
  (at most two thousand positions).
\<close>

theorem broker_fill_mirrored_once:
  assumes "ledger_ok (w_store w)" "mirror_ok (w_store w)" "length (st_positions (w_store w)) \<le> 2000"
    and "\<forall>e \<in> set (st_executions (w_store w)). ex_id e \<noteq> []"
    and "sync_broker_backed_positions ps limit w = (r, w')"
  shows "ledger_change (w_store w) (w_store w')"
  by (rule sync_after(1) [OF assms])

theorem broker_fill_mirrored_once_witness:
  "ledger_change (w_store bracket_world) (w_store (snd (sync_broker_backed_positions demo_service 500 bracket_world)))"
  by (rule broker_fill_mirrored_once [OF _ _ _ _ prod.collapse [symmetric]]) (simp_all add: bracket_world_facts)

text \<open>
  C28: the mirror is idempotent. Once it has run to its end, running it again opens and closes
  nothing and leaves the whole world as it is.
\<close>

theorem broker_mirror_idempotent:
  assumes "ledger_ok (w_store w)" "mirror_ok (w_store w)" "length (st_positions (w_store w)) \<le> 2000"
    and "\<forall>e \<in> set (st_executions (w_store w)). ex_id e \<noteq> []"
    and "sync_broker_backed_positions ps limit w = (Inr (scanned, o1, c1), w')"
    and "length (st_positions (w_store w')) \<le> 2000"
  shows "sync_broker_backed_positions ps limit w' = (Inr (scanned, 0, 0), w')"
proof (cases "ps_executions ps")
  case True
  note ch = sync_after(1) [OF assms(1-5)]
  from sync_after(2) [OF assms(1-5) refl True] obtain xs by' where
      xs: "broker_executions ps limit (w_store w) = Inr xs" "scanned = int (length xs)"
      "tracks by' (w_store w')" "\<forall>x \<in> set xs. mirror_settled x by'" by auto
  have xs': "broker_executions ps limit (w_store w') = Inr xs" using xs(1) broker_executions_frame [OF ch] by simp
  have "tracks (positions_by_execution (w_store w')) (w_store w')"
    using ch by (intro positions_by_execution_tracks assms(6)) (simp add: ledger_change_def)
  then have "map_of (positions_by_execution (w_store w')) = map_of by'"
    using xs(3) unfolding tracks_def fun_eq_iff by (metis not_None_eq)
  then have "\<forall>x \<in> set xs. mirror_settled x (positions_by_execution (w_store w'))" using xs(4) by (simp add: mirror_settled_def)
  from sync_settled [OF this] show ?thesis
    by (simp add: sync_run [OF True xs'] xs(2) bindP_def returnP_def)
qed (use assms(5) in \<open>simp add: sync_broker_backed_positions_def returnP_def\<close>)

theorem broker_mirror_idempotent_witness:
  "\<exists>w'. sync_broker_backed_positions demo_service 500 bracket_world = (Inr (1, 1, 1), w') \<and>
     sync_broker_backed_positions demo_service 500 w' = (Inr (1, 0, 0), w')"
proof -
  from bracket_sync obtain w' where w': "sync_broker_backed_positions demo_service 500 bracket_world = (Inr (1, 1, 1), w')"
      "length (st_positions (w_store w')) = 1" by blast
  have "sync_broker_backed_positions demo_service 500 w' = (Inr (1, 0, 0), w')"
    by (rule broker_mirror_idempotent [OF _ _ _ _ w'(1)]) (simp_all add: bracket_world_facts w'(2))
  with w' show ?thesis by blast
qed



text \<open>
  what may count as a separate exit. A separate close order taken for the exit of an entry
  belongs to no execution, is a filled sell of the entry's quantity (up to a millionth), not
  earlier than the entry's fill and not later than seven days after it, and is the earliest such
  order.
\<close>

theorem separate_exit_is_sound:
  assumes "nearest_exit_snapshot payload snapshots qty = Some s"
  shows "\<exists>entered t. parse_timestamp (py_or (dict_get payload ''filled_at'') (dict_get payload ''created_at'')) = Some entered \<and>
    s \<in> set snapshots \<and> or_empty (os_execution_id s) = [] \<and> py_lower (os_side s) = ''sell'' \<and> py_lower (os_status s) = ''filled'' \<and>
    snapshot_timestamp s = Some t \<and> entered \<le> t \<and> t \<le> entered + 7 * day_us \<and>
    (\<forall>s' \<in> set snapshots. is_matching_separate_exit_snapshot s' qty entered (entered + 7 * day_us) \<longrightarrow>
       t \<le> the (snapshot_timestamp s'))"
proof -
  obtain entered where entered: "parse_timestamp (py_or (dict_get payload ''filled_at'') (dict_get payload ''created_at'')) = Some entered"
    using assms by (auto simp: nearest_exit_snapshot_def split: option.splits)
  let ?late = "entered + 7 * day_us"
  let ?f = "\<lambda>s. case snapshot_timestamp s of None \<Rightarrow> ?late | Some t \<Rightarrow> t"
  let ?cs = "filter (\<lambda>s. is_matching_separate_exit_snapshot s qty entered ?late) snapshots"
  have s: "?cs \<noteq> []" "s = arg_min_list ?f ?cs"
    using assms entered by (auto simp: nearest_exit_snapshot_def Let_def split: if_splits)
  have "s \<in> set ?cs" using arg_min_list_in [OF s(1)] s(2) by simp
  then have m: "s \<in> set snapshots" "is_matching_separate_exit_snapshot s qty entered ?late" by auto
  then obtain t where t: "snapshot_timestamp s = Some t" "entered \<le> t" "t \<le> ?late"
    by (auto simp: is_matching_separate_exit_snapshot_def split: option.splits)
  have "?f s = Min (?f ` set ?cs)" using f_arg_min_list_f [OF s(1), of ?f] s(2) by simp
  then have least: "?f s \<le> ?f s'" if "s' \<in> set ?cs" for s' using that by simp
  have "t \<le> the (snapshot_timestamp s')"
    if "s' \<in> set snapshots" "is_matching_separate_exit_snapshot s' qty entered ?late" for s'
    using least [of s'] that t(1) by (auto simp: is_matching_separate_exit_snapshot_def split: option.splits)
  with entered m t show ?thesis by (auto simp: is_matching_separate_exit_snapshot_def)
qed

definition close_snapshot :: order_snapshot where
  "close_snapshot = \<lparr>os_broker_order_id = ''close_1'', os_execution_id = None, os_client_order_id = None, os_symbol = ''NVDA'',
     os_side = ''sell'', os_order_class = ''simple'', os_status = ''filled'', os_filled_qty = 5, os_filled_avg_price = Some 103,
     os_parent_order_id = None, os_payload = [(''filled_at'', PTime 30)], os_created_at = 30, os_updated_at = 30\<rparr>"

theorem separate_exit_is_sound_witness:
  "\<exists>entered t. parse_timestamp (py_or (dict_get bracket_fill ''filled_at'') (dict_get bracket_fill ''created_at'')) = Some entered \<and>
    close_snapshot \<in> set [close_snapshot] \<and> snapshot_timestamp close_snapshot = Some t \<and> entered \<le> t"
proof -
  have "nearest_exit_snapshot bracket_fill [close_snapshot] 5 = Some close_snapshot" by code_simp
  from separate_exit_is_sound [OF this] show ?thesis by blast
qed

text \<open>
  A separate close is not used up: two entries of the same symbol and quantity, of which only
  one has been closed, both get its price as their exit, and the mirror closes both.
\<close>

definition plain_fill :: pydict where
  "plain_fill = [(''symbol'', PStr ''NVDA''), (''side'', PStr ''buy''), (''filled_qty'', PFloat 5),
     (''filled_avg_price'', PFloat 100), (''filled_at'', PTime 10)]"

definition two_entries :: store where
  "two_entries = empty_store\<lparr>st_executions := [filled_execution ''exec_1'' plain_fill, filled_execution ''exec_2'' plain_fill],
     st_orders := [close_snapshot]\<rparr>"

theorem one_close_exits_two_entries:
  "map_sum (\<lambda>e. ()) (map (\<lambda>x. (bx_execution_id x, bx_exit_order_id x, bx_exit_fill_price x)))
     (broker_executions demo_service 500 two_entries) =
   Inr [(''exec_1'', Some ''close_1'', Some 103), (''exec_2'', Some ''close_1'', Some 103)]"
  by code_simp

text \<open>
  The quantity of a mirrored position is the one of the first fill seen: an entry mirrored while
  partially filled keeps the smaller quantity, since closing or re-reading it never changes it.
\<close>

theorem partial_fill_is_frozen:
  assumes "map_of by (bx_execution_id x) = Some p" "sync_execution env x by w = (Inr (by', o1, c1), w')"
  shows "\<exists>p'. map_of by' (bx_execution_id x) = Some p' \<and> pp_quantity p' = pp_quantity p"
  using assms
  by (auto simp: sync_execution_def find_or_open_def close_if_exited_def prog_defs update_conv' closed_position_def
      split: if_splits option.splits sum.splits prod.splits)

text \<open>A sale that closes an earlier entry is mirrored as a new short position that nothing closes.\<close>

definition sale_fill :: pydict where
  "sale_fill = [(''symbol'', PStr ''NVDA''), (''side'', PStr ''sell''), (''filled_qty'', PFloat 5),
     (''filled_avg_price'', PFloat 103), (''filled_at'', PTime 30)]"

theorem closing_sale_opens_short:
  "map_sum (\<lambda>e. ()) (map (\<lambda>x. (pp_side (mirrored_position ''p'' 40 x), pp_status (mirrored_position ''p'' 40 x),
       bx_exit_fill_price x)))
     (broker_executions demo_service 500 (empty_store\<lparr>st_executions := [filled_execution ''exec_2'' sale_fill]\<rparr>)) =
   Inr [(''sell'', ''open'', None)]"
  by code_simp

end
