(* ===== verification/Unattended_Safety.thy ===== *)
theory Unattended_Safety
  imports Unattended Broker_Ledger_Safety
begin

text \<open>
  What the automatic path guarantees: an order leaves it only after every gate, at most one per
  candidate; what counts as complete evidence; when a strategy is switched off; and the gates
  that can never fire or never pass.
\<close>

subsection \<open>The automatic path makes no submission outside the queue\<close>

lemma calls_utc [calls_intros]: "at_most P n (utc_now env)"
  by (rule calls_intros)

lemma calls_lifecycle_records: "at_most is_submission 0 (lifecycle_records ps rv latest counts reviewed xs)"
  by (induction xs) (auto simp: review_created_def intro!: calls_intros)

lemma calls_candidate_blockers: "at_most is_submission 0 (candidate_blockers a c)"
  unfolding candidate_blockers_def Let_def exploration_approved_def institutional_blockers_def market_hours_blockers_def
    asset_blockers_def production_blocked_def paper_lifecycles_def tier3_blockers_def lifecycles_def read_reviewed_def
  by (intro calls_intros at_most_catch calls_lifecycle_records) simp_all

lemma calls_announce: "at_most is_submission 0 (announce_auto_trading_started a q)"
  unfolding announce_auto_trading_started_def Let_def by (intro calls_intros) simp

lemma calls_approve: "at_most is_submission 0 (approve_proposal env pid d)"
  unfolding approve_proposal_def by (intro calls_intros)

lemma calls_enqueue: "at_most is_submission 0 (enqueue_approved_proposal env pid)"
  unfolding enqueue_approved_proposal_def Let_def by (intro calls_intros at_most_catch) simp_all

lemma calls_approve_and_run: "at_most is_submission (Suc 0) (approve_and_run a p)"
  unfolding approve_and_run_def Let_def
  by (rule at_most_bind [OF calls_approve], rule at_most_bind [OF calls_enqueue], rule at_most_bind_1 [OF calls_process])
    (intro calls_intros calls_announce, simp)

subsection \<open>What an empty list of blockers means\<close>

lemma if_blocker_Nil [simp]: "(if b then [x] else []) = [] \<longleftrightarrow> \<not> b" "(if b then [] else [x]) = [] \<longleftrightarrow> b"
  by simp_all

lemma same_exploration: "keeps (\<lambda>st. st = st0) (exploration_approved a x)"
  unfolding exploration_approved_def Let_def by (intro keeps_intros)

lemma same_institutional: "keeps (\<lambda>st. st = st0) (institutional_blockers a x)"
  unfolding institutional_blockers_def by (intro keeps_intros)

lemma same_hours: "keeps (\<lambda>st. st = st0) (market_hours_blockers a c x)"
  unfolding market_hours_blockers_def Let_def by (intro keeps_intros)

lemma same_asset: "keeps (\<lambda>st. st = st0) (asset_blockers a c)"
  unfolding asset_blockers_def by (intro keeps_intros)

lemma asset_blockers_empty:
  assumes "asset_blockers a c w = (Inr [], w')"
  shows "\<exists>cl. at_alpaca a = Some cl \<and> e_supported (at_env a) (w_calls w @ [Is_supported_equity (cl_id cl) (py_upper (cd_symbol c))]) = Inr True"
  using assms by (auto simp: asset_blockers_def prog_defs Let_def split: option.splits if_splits sum.splits prod.splits)

text \<open>Everything an empty list of blockers says, about the settings, the store and the candidate.\<close>

definition cleared :: "auto_trader \<Rightarrow> candidate \<Rightarrow> time \<Rightarrow> store \<Rightarrow> bool" where
  "cleared a c now st \<longleftrightarrow> (let s = e_settings (at_env a) in
     execution_blockers (at_env a) now st = [] \<and> account_verified s st \<and> policy_blockers s = [] \<and>
     safety_blockers c st = [] \<and> shape_blockers c = [] \<and> (\<exists>exploration. evidence_blockers s c exploration = []) \<and>
     (\<exists>rs. auto_approval_tier_blockers s c rs = []) \<and> proposal_quality_label c \<noteq> NOT_TRADEABLE)"

lemma candidate_blockers_run:
  assumes "candidate_blockers a c w = (Inr bs, w')"
  obtains exploration w1 inst w2 hours w3 asset w4 unproven w5 rs w6 tier3 w7 where
    "exploration_approved a (cd_strategy_name c) w = (Inr exploration, w1)"
    "institutional_blockers a exploration w1 = (Inr inst, w2)"
    "market_hours_blockers a c exploration w2 = (Inr hours, w3)"
    "asset_blockers a c w3 = (Inr asset, w4)"
    "production_blocked a (cd_strategy_name c) w4 = (Inr unproven, w5)"
    "paper_lifecycles a w5 = (Inr rs, w6)" "tier3_blockers a c w6 = (Inr tier3, w7)"
    "bs = sorted_set (execution_blockers (at_env a) (e_clock (at_env a) (w_calls w)) (w_store w) @
      policy_blockers (e_settings (at_env a)) @ inst @
      (if \<not> account_verified (e_settings (at_env a)) (w_store w2) then [''alpaca_account_not_verified''] else []) @ hours @
      evidence_blockers (e_settings (at_env a)) c exploration @ asset @ safety_blockers c (w_store w4) @
      (if unproven \<and> \<not> exploration then [''strategy_not_production_approved''] else []) @ shape_blockers c @
      auto_approval_tier_blockers (e_settings (at_env a)) c rs @ tier3 @
      (if proposal_quality_label c = NOT_TRADEABLE then [''proposal_quality_not_tradeable''] else []))"
  using assms
  by (auto simp: candidate_blockers_def Let_def readP_def utc_now_def returnP_def bindP_def [of "readP _"]
      bindP_def [of "utc_now _"] elim!: bindP_right)

lemma candidate_blockers_empty:
  assumes "candidate_blockers a c w = (Inr [], w')"
  shows "cleared a c (e_clock (at_env a) (w_calls w)) (w_store w) \<and> (\<exists>w0 w1. asset_blockers a c w0 = (Inr [], w1))"
  using assms
proof (cases rule: candidate_blockers_run)
  case (1 exploration w1 inst w2 hours w3 asset w4 unproven w5 rs w6 tier3 w7)
  have "w_store w1 = w_store w" using keepsD [OF same_exploration 1(1), of "w_store w"] by simp
  moreover have "w_store w2 = w_store w1" using keepsD [OF same_institutional 1(2), of "w_store w1"] by simp
  moreover have "w_store w3 = w_store w2" using keepsD [OF same_hours 1(3), of "w_store w2"] by simp
  moreover have "w_store w4 = w_store w3" using keepsD [OF same_asset 1(4), of "w_store w3"] by simp
  moreover have none: "\<forall>xs \<in> {execution_blockers (at_env a) (e_clock (at_env a) (w_calls w)) (w_store w),
      policy_blockers (e_settings (at_env a)), evidence_blockers (e_settings (at_env a)) c exploration, asset,
      safety_blockers c (w_store w4), shape_blockers c, auto_approval_tier_blockers (e_settings (at_env a)) c rs}. xs = []"
    "account_verified (e_settings (at_env a)) (w_store w2)" "proposal_quality_label c \<noteq> NOT_TRADEABLE"
    using 1(8) by (auto simp: sorted_set_Nil [THEN iffD1, OF sym] split: if_splits dest!: sym [of "[]"])
  ultimately show ?thesis
    using 1(4) unfolding cleared_def Let_def by auto
qed

lemma auto_submission_cleared:
  assumes "approve_enqueue_execute a p c f w = (r, w')" "k \<in> set (new_calls w w')" "is_submission k"
  shows "\<exists>w1. candidate_blockers a c w = (Inr [], w1)"
  using assms(1) unfolding approve_enqueue_execute_def
proof (cases rule: bindP_cases)
  case (failed e)
  with at_most_0_new [OF calls_candidate_blockers failed(1) assms(2)] assms(3) show ?thesis by simp
next
  case (cont bs w1)
  show ?thesis
  proof (cases "bs = []")
    case True
    with cont show ?thesis by blast
  next
    case False
    let ?m = "bindP (candidate_blockers a c) (\<lambda>b. if b \<noteq> [] then
       bindP (logP (at_env a) ''paper_auto_candidate_blocked'' [(''proposal_id'', PStr (prop_id p)),
         (''symbol'', PStr (ord_symbol (prop_order p))), (''blockers'', PList (map PStr b))]) (\<lambda>_.
       returnP (None, count_all (''exec_blocked_candidates'' # map (\<lambda>b. ''exec_blocked:'' @ b) b) f)) else raiseP (ValueError []))"
    have run: "?m w = (r, w')" using cont False by (simp add: bindP_def)
    have "at_most is_submission 0 ?m" by (intro calls_intros calls_candidate_blockers)
    from at_most_0_new [OF this run assms(2)] assms(3) show ?thesis by simp
  qed
qed

lemma calls_approve_enqueue_execute: "at_most is_submission (Suc 0) (approve_enqueue_execute a p c f)"
  unfolding approve_enqueue_execute_def
  by (rule at_most_bind [OF calls_candidate_blockers], rule at_most_if, intro calls_intros,
      rule at_most_bind_1 [OF calls_approve_and_run], intro calls_intros)

subsection \<open>A run on concrete data\<close>

text \<open>Unattended paper trading of one symbol, fully approved; a candidate; a pending proposal for it.\<close>

definition auto_settings :: app_settings where
  "auto_settings = default_settings\<lparr>paper_auto_approve_proposals := True, auto_execution_worker_enabled := True,
     paper_auto_operation_mode := Op_unattended, paper_auto_approval_tier := Tier2_strict_valid,
     paper_auto_min_clean_supervised_lifecycles := 0, alpaca_expected_account_number := ''PA1'',
     market_universe_symbols := [''NVDA'']\<rparr>"

definition demo_trader :: auto_trader where
  "demo_trader = \<lparr>at_env = demo_env\<lparr>e_settings := auto_settings\<rparr>, at_alpaca = Some (demo_client ''alpaca''), at_governance = True,
     at_institutional = True, at_runtime_state = True, at_paper = Some (demo_service\<lparr>ps_env := demo_env\<lparr>e_settings := auto_settings\<rparr>\<rparr>),
     at_reviews = \<lparr>rv_batch = (\<lambda>t. Inr []), rv_single = (\<lambda>t. Inr False)\<rparr>,
     at_market_open = (\<lambda>t. Inr True), at_ready = (\<lambda>t. Inr True), at_production = (\<lambda>t. Inr True), at_exploration = (\<lambda>t. Inr False)\<rparr>"

definition demo_candidate :: candidate where
  "demo_candidate = \<lparr>cd_symbol = ''NVDA'', cd_strategy_name = ''swing'', cd_timeframe = ''1d'', cd_score = 80,
     cd_execution_ready = True, cd_signal_role = ''entry_long'', cd_stop_loss = Some 98, cd_take_profit = Some 104,
     cd_metadata = [(''alert_eligible'', PBool True), (''backtest_validated'', PBool True)]\<rparr>"

definition auto_world :: world where
  "auto_world = start_world (empty_store\<lparr>st_proposals := [demo_proposal PENDING],
     st_runtime := [(ACCOUNT_VERIFIED_KEY, ''true'')]\<rparr>)"


lemma paper_lifecycles_none:
  assumes "at_paper a = Some ps" "\<not> ps_learning ps" "st_executions (w_store w) = []"
  shows "paper_lifecycles a w = (Inr (Some []), w)"
proof -
  have "execution_list n (w_store w) = []" for n using assms(3) by (simp add: execution_list_def newest_first_def)
  then have "broker_executions ps n (w_store w) = Inr []" for n by (simp add: broker_executions_def)
  then show ?thesis
    using assms(1,2) by (simp add: paper_lifecycles_def lifecycles_def read_reviewed_def prog_defs)
qed

definition auto_checked_world :: world where
  "auto_checked_world = auto_world\<lparr>w_calls := [Institutional_readiness, Regular_market_open ''alpaca'',
     Is_supported_equity ''alpaca'' ''NVDA'', Production_approved ''swing'']\<rparr>"

lemma demo_pure:
  "policy_blockers auto_settings = []" "evidence_blockers auto_settings demo_candidate False = []"
  "safety_blockers demo_candidate (w_store auto_world) = []" "shape_blockers demo_candidate = []"
  "auto_approval_tier_blockers auto_settings demo_candidate (Some []) = []"
  "proposal_quality_label demo_candidate = STRICT_VALID" "account_verified auto_settings (w_store auto_world)"
  "execution_blockers (demo_env\<lparr>e_settings := auto_settings\<rparr>) 1000 (w_store auto_world) = []"
  by code_simp+

lemma demo_fields:
  "cd_strategy_name demo_candidate = ''swing''" "cd_symbol demo_candidate = ''NVDA''" "w_calls auto_world = []"
  "e_settings (at_env demo_trader) = auto_settings" "e_clock (at_env demo_trader) [] = 1000"
  "paper_auto_operation_mode auto_settings = Op_unattended" "paper_auto_approval_tier auto_settings = Tier2_strict_valid"
  "auto_execution_regular_hours_only auto_settings" "\<not> crypto_trading_enabled auto_settings"
  "paper_scanner_bypass_production_approval auto_settings = False"
  by (simp_all add: demo_candidate_def auto_world_def demo_trader_def auto_settings_def default_settings_def demo_env_def)

lemma demo_cleared: "candidate_blockers demo_trader demo_candidate auto_world = (Inr [], auto_checked_world)"
proof -
  let ?w = "\<lambda>cs. auto_world\<lparr>w_calls := cs\<rparr>"
  have w0: "?w [] = auto_world" by (simp add: demo_fields(3) [symmetric])
  have 1: "exploration_approved demo_trader (cd_strategy_name demo_candidate) auto_world = (Inr False, auto_world)"
    by (simp add: exploration_approved_def Let_def demo_fields returnP_def)
  have 2: "institutional_blockers demo_trader False auto_world = (Inr [], ?w [Institutional_readiness])"
    by (simp add: institutional_blockers_def demo_fields prog_defs) (simp add: demo_trader_def returnP_def)
  have 3: "market_hours_blockers demo_trader demo_candidate False (?w [Institutional_readiness]) =
      (Inr [], ?w [Institutional_readiness, Regular_market_open ''alpaca''])"
    by (simp add: market_hours_blockers_def Let_def demo_fields prog_defs) (simp add: demo_trader_def demo_client_def prog_defs)
  have 4: "asset_blockers demo_trader demo_candidate (?w [Institutional_readiness, Regular_market_open ''alpaca'']) =
      (Inr [], ?w [Institutional_readiness, Regular_market_open ''alpaca'', Is_supported_equity ''alpaca'' ''NVDA''])"
    by (simp add: asset_blockers_def demo_fields demo_trader_def demo_client_def demo_env_def prog_defs py_upper_def upper_char_def)
  have 5: "production_blocked demo_trader (cd_strategy_name demo_candidate)
        (?w [Institutional_readiness, Regular_market_open ''alpaca'', Is_supported_equity ''alpaca'' ''NVDA'']) =
      (Inr False, auto_checked_world)"
    by (simp add: production_blocked_def demo_fields auto_checked_world_def prog_defs) (simp add: demo_trader_def returnP_def)
  have 6: "paper_lifecycles demo_trader auto_checked_world = (Inr (Some []), auto_checked_world)"
    by (rule paper_lifecycles_none) (auto simp: demo_trader_def demo_service_def auto_checked_world_def auto_world_def empty_store_def)
  have 7: "tier3_blockers demo_trader demo_candidate auto_checked_world = (Inr [], auto_checked_world)"
    by (simp add: tier3_blockers_def demo_fields returnP_def)
  have env: "at_env demo_trader = demo_env\<lparr>e_settings := auto_settings\<rparr>" by (simp add: demo_trader_def)
  show ?thesis
    unfolding candidate_blockers_def Let_def
    by (simp add: bindP_def readP_def utc_now_def returnP_def demo_fields(3-5) 1 2 3 4 5 6 7 demo_pure STRICT_VALID_def NOT_TRADEABLE_def)
      (simp add: env demo_pure)
qed

lemma demo_auto_run:
  obtains r w' k where "approve_enqueue_execute demo_trader (demo_proposal PENDING) demo_candidate [] auto_world = (r, w')"
    "k \<in> set (new_calls auto_world w')" "is_submission k"
proof -
  have "case approve_and_run demo_trader (demo_proposal PENDING) auto_checked_world of
      (Inl e, w') \<Rightarrow> False | (Inr q, w') \<Rightarrow> list_ex is_submission (w_calls w')"
    by code_simp
  then obtain q w' where q: "approve_and_run demo_trader (demo_proposal PENDING) auto_checked_world = (Inr q, w')"
      "list_ex is_submission (w_calls w')" by (auto split: prod.splits sum.splits)
  have "approve_enqueue_execute demo_trader (demo_proposal PENDING) demo_candidate [] auto_world =
      (Inr (Some q, dict_add ''executed'' 1 []), w')"
    by (simp add: approve_enqueue_execute_def bindP_def demo_cleared q(1) returnP_def)
  moreover have "new_calls auto_world w' = w_calls w'" by (simp add: new_calls_def demo_fields)
  ultimately show thesis using q(2) that by (auto simp: list_ex_iff)
qed

subsection \<open>Properties\<close>



text \<open>
  C18: automatic approval needs evidence. The approval tier lets a candidate through only when the
  lifecycles of earlier trades could be read and show no duplicate order, no filled entry without
  verified bracket legs and none that is not reconciled; and, except for near misses under the
  paper-only opt-in, only for a strictly valid candidate at tier 2 or 3 with the configured
  number of complete autonomous lifecycles, paper-only ones not counted.
\<close>

theorem auto_approval_needs_evidence:
  assumes "auto_approval_tier_blockers s c rs = []"
  shows "\<exists>xs. rs = Some xs \<and>
    (\<forall>r \<in> set xs. lf_duplicate_order_absent (lc_flags r) \<and>
       (lf_entry_filled (lc_flags r) \<longrightarrow> lf_bracket_legs_verified (lc_flags r) \<and> lf_reconciled (lc_flags r))) \<and>
    (unattended_near_miss s c \<or>
     proposal_quality_label c = STRICT_VALID \<and> paper_auto_approval_tier s \<in> {Tier2_strict_valid, Tier3_strategy_qualified} \<and>
     paper_auto_min_clean_supervised_lifecycles s \<le>
       int (length (filter (\<lambda>r. lifecycle_complete True r \<and> \<not> lifecycle_is_paper_only r) xs)))"
proof -
  obtain xs where xs: "rs = Some xs"
    using assms by (cases rs) (auto simp: auto_approval_tier_blockers_def)
  have safe: "lifecycle_blockers r = []" if "r \<in> set xs" for r
    using assms that xs by (auto simp: auto_approval_tier_blockers_def lifecycle_safety_blockers_def)
  have policy: "unattended_near_miss s c \<or> tier_policy_blockers s c rs = []"
    using assms by (auto simp: auto_approval_tier_blockers_def split: if_splits)
  have "proposal_quality_label c = STRICT_VALID \<and> paper_auto_approval_tier s \<in> {Tier2_strict_valid, Tier3_strategy_qualified} \<and>
     paper_auto_min_clean_supervised_lifecycles s \<le>
       int (length (filter (\<lambda>r. lifecycle_complete True r \<and> \<not> lifecycle_is_paper_only r) xs))"
    if "tier_policy_blockers s c rs = []"
    using that xs by (cases "paper_auto_approval_tier s") (auto simp: tier_policy_blockers_def Let_def split: if_splits)
  moreover have "lf_duplicate_order_absent (lc_flags r) \<and>
       (lf_entry_filled (lc_flags r) \<longrightarrow> lf_bracket_legs_verified (lc_flags r) \<and> lf_reconciled (lc_flags r))" if "r \<in> set xs" for r
    using safe [OF that] by (simp add: lifecycle_blockers_def Let_def)
  ultimately show ?thesis using policy xs by blast
qed

theorem auto_approval_needs_evidence_witness:
  "proposal_quality_label demo_candidate = STRICT_VALID \<or> unattended_near_miss auto_settings demo_candidate"
  using auto_approval_needs_evidence [OF demo_pure(5)] by blast

text \<open>
  missing evidence blocks and never raises. Reading the lifecycles for the automatic path
  always returns, whatever fails underneath, and when there is no evidence no tier and no setting
  lets the candidate through.
\<close>

theorem missing_evidence_blocks:
  "\<exists>rs w'. paper_lifecycles a w = (Inr rs, w') \<and> (rs \<noteq> None \<or> auto_approval_tier_blockers s c rs \<noteq> [])"
proof -
  have "auto_approval_tier_blockers s c None \<noteq> []" by (simp add: auto_approval_tier_blockers_def)
  moreover have "\<exists>rs w'. paper_lifecycles a w = (Inr rs, w')"
  proof (cases "at_paper a")
    case (Some ps)
    show ?thesis
      by (cases "lifecycles ps (at_reviews a) 1000 None False False w"; cases "fst (lifecycles ps (at_reviews a) 1000 None False False w)")
        (auto simp: paper_lifecycles_def Some catchP_def bindP_def returnP_def logP_def utc_now_def storeP_def)
  qed (simp add: paper_lifecycles_def returnP_def)
  ultimately show ?thesis by (metis (full_types))
qed


theorem missing_evidence_blocks_witness:
  "\<exists>w'. paper_lifecycles (demo_trader\<lparr>at_paper := None\<rparr>) auto_world = (Inr None, w') \<and>
     auto_approval_tier_blockers auto_settings demo_candidate None \<noteq> []"
proof -
  have "paper_lifecycles (demo_trader\<lparr>at_paper := None\<rparr>) auto_world = (Inr None, auto_world)"
    by (simp add: paper_lifecycles_def returnP_def)
  with missing_evidence_blocks [of "demo_trader\<lparr>at_paper := None\<rparr>" auto_world auto_settings demo_candidate] show ?thesis by auto
qed
subsection \<open>Strategy health\<close>

definition recent_pnls :: "app_settings \<Rightarrow> pyfloat list \<Rightarrow> pyfloat list" where
  "recent_pnls s pnls = take (nat (max (strategy_health_rolling_trades s) (max (strategy_health_min_closed_trades s) 1))) pnls"

lemma sum_split_sign:
  "sum_list pnls = sum_list (filter (\<lambda>x. 0 < x) pnls) - \<bar>sum_list (filter (\<lambda>x. x < (0 :: pyfloat)) pnls)\<bar>"
proof -
  have "sum_list (filter (\<lambda>x. x < (0 :: pyfloat)) pnls) \<le> 0" by (rule sum_list_nonpos) auto
  moreover have "sum_list pnls = sum_list (filter (\<lambda>x. 0 < x) pnls) + sum_list (filter (\<lambda>x. x < 0) pnls)"
    by (induction pnls) auto
  ultimately show ?thesis by simp
qed

text \<open>The profit factor adds nothing to a negative expectancy: losses outweigh the wins already.\<close>

lemma health_active:
  "sh_active (health_of s now strategy pnls) \<longleftrightarrow>
     int (length (recent_pnls s pnls)) < max (strategy_health_min_closed_trades s) 1 \<or> 0 \<le> sum_list (recent_pnls s pnls)"
proof -
  define p where "p = recent_pnls s pnls"
  define wins losses where "wins = sum_list (filter (\<lambda>x. 0 < x) p)" and "losses = \<bar>sum_list (filter (\<lambda>x. x < 0) p)\<bar>"
  have expectancy: "(if p = [] then 0 else sum_list p / of_nat (length p)) < 0 \<longleftrightarrow> sum_list p < 0"
    by (cases p) (simp_all add: divide_less_0_iff)
  have "0 \<le> wins" unfolding wins_def by (rule sum_list_nonneg) auto
  then have factor: "(if 0 < losses then wins / losses else wins) < 1" if "sum_list p < 0"
    using that sum_split_sign [of p] by (auto simp: wins_def [symmetric] losses_def [symmetric] divide_less_eq)
  have "sh_active (health_of s now strategy pnls) \<longleftrightarrow> int (length p) < max (strategy_health_min_closed_trades s) 1 \<or>
      \<not> ((if p = [] then 0 else sum_list p / of_nat (length p)) < 0 \<and> (if 0 < losses then wins / losses else wins) < 1)"
    unfolding health_of_def Let_def wins_def losses_def p_def recent_pnls_def by (simp only: strategy_health.simps)
  with expectancy factor show ?thesis unfolding p_def [symmetric] by (metis not_less)
qed

lemma strategy_active_upsert [simp]:
  "strategy_active k (upsert_strategy_health h st) = (if k = sh_strategy_name h then sh_active h else strategy_active k st)"
  by (auto simp: strategy_active_def upsert_strategy_health_def health.get_upsert health_merge_def split: option.splits)

lemma write_health_result:
  assumes "distinct (map fst gs)"
  shows "\<exists>hs w'. write_health a gs w = (Inr hs, w') \<and> (\<forall>k. strategy_active k (w_store w') =
    (case map_of gs k of None \<Rightarrow> strategy_active k (w_store w)
     | Some pnls \<Rightarrow> sh_active (health_of (e_settings (at_env a)) 0 k pnls)))"
  using assms
proof (induction gs arbitrary: w)
  case (Cons g gs)
  obtain k pnls where g: "g = (k, pnls)" by (cases g)
  let ?h = "health_of (e_settings (at_env a)) (e_clock (at_env a) (w_calls w)) k pnls"
  have name: "sh_strategy_name ?h = k" by (simp add: health_of_def Let_def)
  let ?w1 = "w\<lparr>w_store := upsert_strategy_health ?h (w_store w)\<rparr>"
  from Cons.IH [of ?w1] Cons.prems obtain hs w' where ih: "write_health a gs ?w1 = (Inr hs, w')"
    "\<forall>j. strategy_active j (w_store w') = (case map_of gs j of None \<Rightarrow> strategy_active j (w_store ?w1)
      | Some pnls \<Rightarrow> sh_active (health_of (e_settings (at_env a)) 0 j pnls))" by auto
  have k: "map_of gs k = None" using Cons.prems g by (simp add: map_of_eq_None_iff)
  have "write_health a (g # gs) w = (Inr (?h # hs), w')"
    by (simp add: g Let_def bindP_def utc_now_def storeP_def ih(1) returnP_def)
  moreover have "strategy_active j (w_store w') =
    (case map_of (g # gs) j of None \<Rightarrow> strategy_active j (w_store w)
     | Some pnls \<Rightarrow> sh_active (health_of (e_settings (at_env a)) 0 j pnls))" for j
    using ih(2) k by (auto simp: g name health_active split: option.splits)
  ultimately show ?case by blast
qed (simp add: returnP_def)

lemma health_groups_distinct: "distinct (map fst (health_groups es))"
proof -
  have "distinct (map fst (fold (\<lambda>e d. if counts_for_health e
       then let k = text_of (ex_request_payload e) ''strategy_name'' in AList.update k (get_default d k [] @ [ex_realized_pnl_usd e]) d
       else d) es d))" if "distinct (map fst d)" for d :: "(string \<times> pyfloat list) list"
    using that by (induction es arbitrary: d) (auto simp: Let_def distinct_update)
  then show ?thesis by (simp add: health_groups_def)
qed

text \<open>
  losing strategies, and only these, are switched off. Refreshing the strategy health always
  succeeds; a strategy with closed trades stays active exactly when it has fewer than the
  minimum or its most recent ones did not lose money on balance, and every other strategy keeps
  its state. The profit factor, which the code also compares, decides nothing.
\<close>

theorem losing_strategies_are_switched_off:
  assumes "strategy_health_enabled (e_settings (at_env a))"
  shows "\<exists>hs w'. refresh_strategy_health a w = (Inr hs, w') \<and> (\<forall>k. strategy_active k (w_store w') =
    (case map_of (health_groups (execution_list 2000 (w_store w))) k of None \<Rightarrow> strategy_active k (w_store w)
     | Some pnls \<Rightarrow> (let recent = recent_pnls (e_settings (at_env a)) pnls in
         int (length recent) < max (strategy_health_min_closed_trades (e_settings (at_env a))) 1 \<or> 0 \<le> sum_list recent)))"
  using write_health_result [OF health_groups_distinct, of a "execution_list 2000 (w_store w)" w] assms
  by (simp add: refresh_strategy_health_def bindP_def readP_def health_active Let_def cong: option.case_cong)

theorem losing_strategies_are_switched_off_witness:
  "\<exists>hs w'. refresh_strategy_health demo_trader bracket_world = (Inr hs, w') \<and> strategy_active ''swing'' (w_store w')"
proof -
  have "map_of (health_groups (execution_list 2000 (w_store bracket_world))) ''swing'' = Some [0]" by code_simp
  moreover have "strategy_health_enabled (e_settings (at_env demo_trader))"
    by (simp add: demo_fields auto_settings_def default_settings_def)
  ultimately show ?thesis
    using losing_strategies_are_switched_off [of demo_trader bracket_world] by (fastforce simp: recent_pnls_def Let_def)
qed

subsection \<open>Lifecycles\<close>

lemma flag_items_all: "list_all snd (flag_items f) \<longleftrightarrow> lf_entry_submitted f \<and> lf_entry_filled f \<and> lf_bracket_legs_verified f \<and>
    lf_exit_filled_or_position_flat f \<and> lf_reconciled f \<and> lf_review_created f \<and> lf_duplicate_order_absent f"
  by (simp add: flag_items_def)

text \<open>Evidence and blockers are two views of the same flags.\<close>

lemma complete_iff_unblocked:
  "lifecycle_complete True (lifecycle_of latest counts reviewed x) \<longleftrightarrow> lc_blockers (lifecycle_of latest counts reviewed x) = []"
proof -
  have "map fst (filter (\<lambda>(n, passed). \<not> passed) items) = [] \<longleftrightarrow> list_all snd items" for items :: "(string \<times> bool) list"
    by (induction items) auto
  then show ?thesis by (auto simp: lifecycle_of_def lifecycle_complete_def Let_def)
qed

lemma lifecycle_records_run:
  "lifecycle_records ps rv latest counts reviewed xs w = (Inr rs, w') \<Longrightarrow>
   w_store w' = w_store w \<and> (\<forall>r \<in> set rs. \<exists>x \<in> set xs. \<exists>b. r = lifecycle_of latest counts b x)"
proof (induction xs arbitrary: rs w w')
  case (Cons x xs)
  have same: "keeps (\<lambda>st. st = st0) (review_created ps rv reviewed eid)" for st0 eid
    unfolding review_created_def by (intro keeps_intros)
  from Cons.prems obtain b w1 rest w2 where run: "review_created ps rv reviewed (bx_execution_id x) w = (Inr b, w1)"
      "lifecycle_records ps rv latest counts reviewed xs w1 = (Inr rest, w2)"
      "rs = lifecycle_of latest counts b x # rest" "w' = w2"
    by (auto simp: returnP_def elim!: bindP_right)
  from Cons.IH [OF run(2)] keepsD [OF same run(1), of "w_store w"] run(3,4) show ?case by auto
qed (simp add: returnP_def)

lemma lifecycles_run:
  assumes "lifecycles ps rv limit source auto_only complete_only w = (Inr rs, w')" "r \<in> set rs"
  shows "\<exists>xs x b. broker_executions ps (max limit 1) (w_store w) = Inr xs \<and> x \<in> set xs \<and>
    r = lifecycle_of (service_reconciliation ps (w_store w)) (client_order_count ps (w_store w)) b x \<and>
    (auto_only \<longrightarrow> lc_autonomous r) \<and> (complete_only \<longrightarrow> lifecycle_complete auto_only r)"
proof -
  have same: "keeps (\<lambda>st. st = st0) (read_reviewed ps rv ids)" for st0 ids
    unfolding read_reviewed_def by (intro keeps_intros)
  obtain xs reviewed w1 records w2 where run: "broker_executions ps (max limit 1) (w_store w) = Inr xs"
      "read_reviewed ps rv (map bx_execution_id xs) w = (Inr reviewed, w1)"
      "lifecycle_records ps rv (service_reconciliation ps (w_store w1)) (client_order_count ps (w_store w1)) reviewed xs w1 = (Inr records, w2)"
      "rs = take (nat (max limit 1)) (filter (\<lambda>r. (or_empty source \<noteq> [] \<longrightarrow> lc_source r = or_empty source) \<and>
         (auto_only \<longrightarrow> lc_autonomous r) \<and> (complete_only \<longrightarrow> lifecycle_complete auto_only r)) records)"
    using assms(1) by (auto simp: lifecycles_def readP_def liftP_def returnP_def elim!: bindP_right)
  have "w_store w1 = w_store w" using keepsD [OF same run(2), of "w_store w"] by simp
  moreover have r: "r \<in> set records" "auto_only \<longrightarrow> lc_autonomous r" "complete_only \<longrightarrow> lifecycle_complete auto_only r"
    using assms(2) run(4) by (auto dest!: in_set_takeD)
  ultimately show ?thesis using lifecycle_records_run [OF run(3)] run(1) by (metis (no_types, lifting))
qed

text \<open>
  complete means evidenced. Every lifecycle the service lists as complete and autonomous
  belongs to an Alpaca paper execution with a broker order id and a filled entry, opened by a
  strategy, whose sell legs include a stop and a target, that has exited or left the account
  flat, and whose client order id appears in at most two rows; the latest reconciliation run
  exists and is clean; and nothing blocks the lifecycle.
\<close>

theorem complete_lifecycles_have_evidence:
  assumes "lifecycles ps rv limit source True True w = (Inr rs, w')" "r \<in> set rs"
  shows "\<exists>xs run. broker_executions ps (max limit 1) (w_store w) = Inr xs \<and> lc_execution r \<in> set xs \<and>
    or_empty (bx_broker_order_id (lc_execution r)) \<noteq> [] \<and> entry_filled (lc_execution r) \<and>
    bx_source (lc_execution r) \<in> {''scanner_strategy'', ''generated_strategy'', ''rl_policy''} \<and>
    (\<exists>l \<in> set (bx_legs (lc_execution r)). lower_opt (bl_side l) = ''sell'' \<and> (bl_stop_price l \<noteq> None \<or> lower_opt (bl_order_type l) = ''stop'')) \<and>
    (\<exists>l \<in> set (bx_legs (lc_execution r)). lower_opt (bl_side l) = ''sell'' \<and> (bl_limit_price l \<noteq> None \<or> lower_opt (bl_order_type l) = ''limit'')) \<and>
    service_reconciliation ps (w_store w) = Some run \<and> rr_status run = ''ok'' \<and> rr_issues run = [] \<and>
    (bx_exit_fill_price (lc_execution r) \<noteq> None \<or> rr_positions_seen run = 0) \<and>
    (or_empty (bx_client_order_id (lc_execution r)) = [] \<or>
       client_order_count ps (w_store w) (or_empty (bx_client_order_id (lc_execution r))) \<le> 2) \<and> lc_blockers r = []"
proof -
  from lifecycles_run [OF assms] obtain xs x b where x: "broker_executions ps (max limit 1) (w_store w) = Inr xs" "x \<in> set xs"
      "r = lifecycle_of (service_reconciliation ps (w_store w)) (client_order_count ps (w_store w)) b x"
      "lifecycle_complete True r" by blast
  have ex: "lc_execution r = x" by (simp add: x(3) lifecycle_of_def Let_def)
  have none: "lc_blockers r = []" using x(4) complete_iff_unblocked by (simp add: x(3))
  from x(4) have f: "lc_autonomous r" "list_all snd (flag_items (lc_flags r))" by (simp_all add: lifecycle_complete_def)
  then obtain run where run: "service_reconciliation ps (w_store w) = Some run" "rr_status run = ''ok''" "rr_issues run = []"
    by (auto simp: flag_items_all x(3) lifecycle_of_def lifecycle_flags_of_def Let_def reconciliation_ok_def split: option.splits)
  from f x(1,2) ex none run show ?thesis
    by (auto simp: flag_items_all x(3) lifecycle_of_def lifecycle_flags_of_def Let_def AUTONOMOUS_SOURCES_def entry_filled_def
        bracket_legs_verified_def list_ex_iff reconciliation_positions_seen_def)
qed

text \<open>A full record of a bracket trade: the reconciliation run was clean and the review exists.\<close>

definition evidenced_fill :: pydict where
  "evidenced_fill = AList.update ''legs'' (PList [PDict [(''side'', PStr ''sell''), (''status'', PStr ''filled''),
       (''filled_avg_price'', PFloat 104), (''limit_price'', PFloat 104)],
     PDict [(''side'', PStr ''sell''), (''status'', PStr ''canceled''), (''stop_price'', PFloat 98)]]) bracket_fill"

definition evidenced_world :: world where
  "evidenced_world = start_world (empty_store\<lparr>st_executions := [filled_execution ''exec_1'' evidenced_fill],
     st_reconciliations := [\<lparr>rr_status = ''ok'', rr_account_number = ''PA1'', rr_orders_seen = 1, rr_positions_seen = 0,
       rr_issues = [], rr_account = [], rr_created_at = 30\<rparr>]\<rparr>)"

definition evidence_service :: paper_service where
  "evidence_service = demo_service\<lparr>ps_learning := True, ps_safety_state := True\<rparr>"

definition reviewed_table :: review_table where
  "reviewed_table = \<lparr>rv_batch = (\<lambda>t. Inl (ValueError [])), rv_single = (\<lambda>t. Inr True)\<rparr>"

theorem complete_lifecycles_have_evidence_witness:
  "\<exists>r w'. lifecycles evidence_service reviewed_table 100 None True True evidenced_world = (Inr [r], w') \<and> lc_blockers r = []"
proof -
  have "case lifecycles evidence_service reviewed_table 100 None True True evidenced_world of
      (Inl e, w') \<Rightarrow> False | (Inr rs, w') \<Rightarrow> length rs = 1"
    by code_simp
  then obtain r w' where run: "lifecycles evidence_service reviewed_table 100 None True True evidenced_world = (Inr [r], w')"
    by (auto simp: length_Suc_conv split: prod.splits sum.splits)
  from complete_lifecycles_have_evidence [OF run] have "lc_blockers r = []" by auto
  with run show ?thesis by blast
qed

text \<open>
  crypto is never executed unattended. If Alpaca calls no crypto pair a US equity, the
  automatic path sends no order for a crypto candidate, whatever the settings: its asset check asks
  only whether the symbol is a supported equity.
\<close>

theorem crypto_never_executed_unattended:
  assumes "is_crypto_symbol (py_upper (cd_symbol c))"
    and "\<And>t name symbol. is_crypto_symbol symbol \<Longrightarrow> e_supported (at_env a) (t @ [Is_supported_equity name symbol]) \<noteq> Inr True"
    and "approve_enqueue_execute a p c f w = (r, w')"
  shows "filter is_submission (new_calls w w') = []"
proof (rule ccontr)
  assume "filter is_submission (new_calls w w') \<noteq> []"
  then obtain k where "k \<in> set (new_calls w w')" "is_submission k" by (auto simp: filter_empty_conv)
  from auto_submission_cleared [OF assms(3) this] obtain w1 where "candidate_blockers a c w = (Inr [], w1)" by blast
  from candidate_blockers_empty [OF this] obtain w2 w3 where "asset_blockers a c w2 = (Inr [], w3)" by blast
  from asset_blockers_empty [OF this] assms(2) [OF assms(1)] show False by blast
qed

definition crypto_answers :: "ext_call list \<Rightarrow> exn + bool" where
  "crypto_answers t = (case last t of Is_supported_equity name symbol \<Rightarrow> Inr (\<not> is_crypto_symbol symbol) | _ \<Rightarrow> Inr True)"

definition crypto_trader :: auto_trader where
  "crypto_trader = demo_trader\<lparr>at_env := (at_env demo_trader)\<lparr>e_settings := auto_settings\<lparr>crypto_trading_enabled := True\<rparr>,
     e_supported := crypto_answers\<rparr>\<rparr>"

theorem crypto_never_executed_unattended_witness:
  "filter is_submission (new_calls auto_world (snd (approve_enqueue_execute crypto_trader (demo_proposal PENDING)
     (demo_candidate\<lparr>cd_symbol := ''BTC/USD''\<rparr>) [] auto_world))) = []"
proof (rule crypto_never_executed_unattended [OF _ _ prod.collapse [symmetric]])
  show "is_crypto_symbol (py_upper (cd_symbol (demo_candidate\<lparr>cd_symbol := ''BTC/USD''\<rparr>)))" by code_simp
qed (simp add: crypto_trader_def crypto_answers_def)

text \<open>
  Two checks of the lifecycle circuit breaker never fire on the lifecycles the service builds:
  their blockers are names of flags, so no unknown broker position ever shows in them.
\<close>

lemma flag_names_known: "n \<in> set (map fst (flag_items f)) \<Longrightarrow> \<not> py_startswith n ''unknown_position''"
  by (auto simp: flag_items_def py_startswith_def)

theorem unknown_position_never_blocks:
  assumes "lifecycles ps rv limit source auto_only complete_only w = (Inr rs, w')"
  shows "''unknown_broker_position'' \<notin> set (lifecycle_safety_blockers rs)"
proof
  assume "''unknown_broker_position'' \<in> set (lifecycle_safety_blockers rs)"
  then obtain r where r: "r \<in> set rs" "''unknown_broker_position'' \<in> set (lifecycle_blockers r)"
    by (auto simp: lifecycle_safety_blockers_def)
  then obtain n where n: "n \<in> set (lc_blockers r)" "py_startswith n ''unknown_position''"
    by (auto simp: lifecycle_blockers_def Let_def list_ex_iff split: if_splits)
  from lifecycles_run [OF assms r(1)] obtain latest counts b x where "r = lifecycle_of latest counts b x" by blast
  with n(1) have "n \<in> set (map fst (flag_items (lc_flags r))) \<or> n = ''manual_or_unknown_source''"
    by (auto simp: lifecycle_of_def Let_def split: if_splits)
  with n(2) flag_names_known show False by (auto simp: py_startswith_def)
qed

end
