(* ===== verification/Costs.thy ===== *)
theory Costs
  imports Storage
begin

text \<open>
  The cost model of the backtests (src/app/backtesting/cost_model.py) and the venue profiles
  built from it (src/app/backtesting/venue_costs.py): the fill prices after the half-spread,
  financing with its weekend charge, commissions, fees, slippage, and the totals of a run.

  Timestamps are UTC microseconds and therefore always carry a time zone, so the refusals of
  naive datetimes have no counterpart. The conversion to New York wall time is pandas' and
  enters as the argument \<open>ny_clock\<close> (hour and minute). The square-root impact cost, which no
  backtest calls, is not modelled. The side of a position is the two-valued \<open>order_side\<close>.
\<close>

record cost_model =
  cm_spread_bps :: pyfloat
  cm_extended_hours_spread_bps :: pyfloat
  cm_overnight_fee_daily_pct :: pyfloat
  cm_weekend_multiplier :: pyfloat
  cm_fx_spread_bps :: pyfloat
  cm_min_position_usd :: pyfloat
  cm_include_weekend_financing :: bool
  cm_commission_per_share :: pyfloat
  cm_commission_min_usd :: pyfloat
  cm_commission_flat_usd_per_leg :: pyfloat
  cm_commission_pct_per_leg :: pyfloat
  cm_slippage_bps :: pyfloat
  cm_sec_fee_per_dollar :: pyfloat
  cm_finra_taf_per_share :: pyfloat
  cm_finra_taf_max_usd :: pyfloat
  cm_impact_coefficient :: pyfloat
  cm_short_borrow_fee_daily_pct :: pyfloat

definition BPS :: pyfloat where "BPS = 1 / 10000"

text \<open>\<open>CostModel()\<close>, \<open>CostModel.alpaca_equities()\<close> and \<open>zero_cost_model()\<close>.\<close>

definition default_cost_model :: cost_model where
  "default_cost_model = \<lparr>cm_spread_bps = 10, cm_extended_hours_spread_bps = 30,
     cm_overnight_fee_daily_pct = 15 / 100000, cm_weekend_multiplier = 3, cm_fx_spread_bps = 0,
     cm_min_position_usd = 50, cm_include_weekend_financing = True, cm_commission_per_share = 0,
     cm_commission_min_usd = 0, cm_commission_flat_usd_per_leg = 0, cm_commission_pct_per_leg = 0,
     cm_slippage_bps = 0, cm_sec_fee_per_dollar = 0, cm_finra_taf_per_share = 0,
     cm_finra_taf_max_usd = 0, cm_impact_coefficient = 0, cm_short_borrow_fee_daily_pct = 0\<rparr>"

definition alpaca_equities :: cost_model where
  "alpaca_equities = default_cost_model\<lparr>cm_spread_bps := 2, cm_extended_hours_spread_bps := 10,
     cm_overnight_fee_daily_pct := 0, cm_weekend_multiplier := 1, cm_fx_spread_bps := 0,
     cm_min_position_usd := 1, cm_include_weekend_financing := False, cm_commission_per_share := 0,
     cm_commission_min_usd := 0, cm_slippage_bps := 1, cm_sec_fee_per_dollar := 278 / 10000000,
     cm_finra_taf_per_share := 166 / 1000000, cm_finra_taf_max_usd := 830 / 100,
     cm_impact_coefficient := 1 / 10, cm_short_borrow_fee_daily_pct := 30 / 100 / 100 / 360\<rparr>"

definition zero_cost_model :: cost_model where
  "zero_cost_model = default_cost_model\<lparr>cm_spread_bps := 0, cm_extended_hours_spread_bps := 0,
     cm_overnight_fee_daily_pct := 0, cm_weekend_multiplier := 1, cm_fx_spread_bps := 0,
     cm_min_position_usd := 0, cm_include_weekend_financing := False\<rparr>"

text \<open>eToro's own trade fees, and the venue profiles \<open>alpaca\<close> and \<open>stress\<close>.\<close>

definition ETORO_STOCK_FEE_USD_PER_LEG :: pyfloat where "ETORO_STOCK_FEE_USD_PER_LEG = 1"
definition ETORO_CRYPTO_FEE_PER_LEG :: pyfloat where "ETORO_CRYPTO_FEE_PER_LEG = 1 / 100"

definition with_etoro_trade_fees :: "cost_model \<Rightarrow> bool \<Rightarrow> cost_model" where
  "with_etoro_trade_fees model crypto =
     (if crypto then model\<lparr>cm_commission_pct_per_leg := ETORO_CRYPTO_FEE_PER_LEG\<rparr>
      else model\<lparr>cm_commission_flat_usd_per_leg := ETORO_STOCK_FEE_USD_PER_LEG\<rparr>)"

definition STRESS_SPREAD_ADD_BPS :: pyfloat where "STRESS_SPREAD_ADD_BPS = 4"
definition STRESS_SLIPPAGE_ADD_BPS_PER_LEG :: pyfloat where "STRESS_SLIPPAGE_ADD_BPS_PER_LEG = 2"

definition venue_cost_models :: "(string \<times> cost_model) list" where
  "venue_cost_models =
     (let alpaca = alpaca_equities;
          stress = alpaca\<lparr>cm_spread_bps := cm_spread_bps alpaca + STRESS_SPREAD_ADD_BPS,
            cm_extended_hours_spread_bps := cm_extended_hours_spread_bps alpaca + STRESS_SPREAD_ADD_BPS,
            cm_slippage_bps := cm_slippage_bps alpaca + STRESS_SLIPPAGE_ADD_BPS_PER_LEG\<rparr>
      in [(''alpaca'', alpaca), (''stress'', stress)])"

lemmas cost_profile_defs = default_cost_model_def alpaca_equities_def zero_cost_model_def
  with_etoro_trade_fees_def venue_cost_models_def ETORO_STOCK_FEE_USD_PER_LEG_def
  ETORO_CRYPTO_FEE_PER_LEG_def STRESS_SPREAD_ADD_BPS_def STRESS_SLIPPAGE_ADD_BPS_PER_LEG_def

subsection \<open>Fill prices\<close>

definition half_spread_fraction :: "cost_model \<Rightarrow> bool \<Rightarrow> pyfloat" where
  "half_spread_fraction cm extended_hours =
     ((if extended_hours then cm_extended_hours_spread_bps cm else cm_spread_bps cm) / 2) * BPS"

definition entry_fill_price :: "cost_model \<Rightarrow> pyfloat \<Rightarrow> order_side \<Rightarrow> bool \<Rightarrow> exn + pyfloat" where
  "entry_fill_price cm reference_price side extended_hours =
     (if reference_price \<le> 0 then Inl (ValueError ''reference_price must be positive'')
      else let drag = half_spread_fraction cm extended_hours in
        case side of Buy \<Rightarrow> Inr (reference_price * (1 + drag)) | Sell \<Rightarrow> Inr (reference_price * (1 - drag)))"

definition exit_fill_price :: "cost_model \<Rightarrow> pyfloat \<Rightarrow> order_side \<Rightarrow> bool \<Rightarrow> exn + pyfloat" where
  "exit_fill_price cm reference_price side extended_hours =
     (if reference_price \<le> 0 then Inl (ValueError ''reference_price must be positive'')
      else let drag = half_spread_fraction cm extended_hours in
        case side of Buy \<Rightarrow> Inr (reference_price * (1 - drag)) | Sell \<Rightarrow> Inr (reference_price * (1 + drag)))"

subsection \<open>Financing\<close>

text \<open>\<open>t.date()\<close> as a day number and \<open>t.weekday()\<close> (Monday is 0; day 0, 1970-01-01, was a Thursday).\<close>

definition day_of :: "time \<Rightarrow> int" where "day_of t = t div day_us"
definition weekday :: "time \<Rightarrow> int" where "weekday t = (day_of t + 3) mod 7"

text \<open>The loop of \<open>_count_friday_closes_crossed\<close>: from the entry's midnight, a day at a time.\<close>

function friday_loop :: "time \<Rightarrow> time \<Rightarrow> time \<Rightarrow> nat \<Rightarrow> nat" where
  "friday_loop entry exit_time day count =
     (if day \<le> exit_time
      then friday_loop entry exit_time (day + day_us)
             (if weekday day = 4 \<and> entry < day then Suc count else count)
      else count)"
  by pat_completeness auto
termination
  by (relation "measure (\<lambda>(entry, exit_time, day, count). nat (exit_time + 1 - day))")
     (auto simp: day_us_def)

declare friday_loop.simps [simp del]

definition count_friday_closes_crossed :: "time \<Rightarrow> time \<Rightarrow> nat" where
  "count_friday_closes_crossed entry exit_time =
     (if exit_time \<le> entry then 0 else friday_loop entry exit_time (day_of entry * day_us) 0)"

definition holding_cost_usd :: "cost_model \<Rightarrow> pyfloat \<Rightarrow> time \<Rightarrow> time \<Rightarrow> pyfloat" where
  "holding_cost_usd cm notional_usd entry_time exit_time =
     (if notional_usd \<le> 0 then 0
      else if exit_time \<le> entry_time then 0
      else let holding_days = day_of exit_time - day_of entry_time in
        if holding_days \<le> 0 then 0
        else let weekend_crossings = (if cm_include_weekend_financing cm
                   then count_friday_closes_crossed entry_time exit_time else 0);
                 effective_days = of_int holding_days + of_nat weekend_crossings * (cm_weekend_multiplier cm - 1)
             in notional_usd * cm_overnight_fee_daily_pct cm * effective_days)"

definition short_holding_cost_usd :: "cost_model \<Rightarrow> pyfloat \<Rightarrow> time \<Rightarrow> time \<Rightarrow> pyfloat" where
  "short_holding_cost_usd cm notional_usd entry_time exit_time =
     (let overnight = holding_cost_usd cm notional_usd entry_time exit_time in
      if notional_usd \<le> 0 \<or> cm_short_borrow_fee_daily_pct cm \<le> 0 \<or> exit_time \<le> entry_time then overnight
      else let days = day_of exit_time - day_of entry_time in
        overnight + notional_usd * cm_short_borrow_fee_daily_pct cm * of_int (max days 0))"

subsection \<open>Fees\<close>

definition fx_round_trip_cost_usd :: "cost_model \<Rightarrow> pyfloat \<Rightarrow> pyfloat" where
  "fx_round_trip_cost_usd cm notional_usd =
     (if notional_usd \<le> 0 \<or> cm_fx_spread_bps cm \<le> 0 then 0 else notional_usd * cm_fx_spread_bps cm * BPS)"

definition commission_usd :: "cost_model \<Rightarrow> pyfloat \<Rightarrow> pyfloat" where
  "commission_usd cm quantity =
     (if quantity \<le> 0 \<or> (cm_commission_per_share cm \<le> 0 \<and> cm_commission_min_usd cm \<le> 0) then 0
      else let raw = \<bar>quantity\<bar> * cm_commission_per_share cm in
        if 0 < cm_commission_min_usd cm \<and> raw < cm_commission_min_usd cm then cm_commission_min_usd cm else raw)"

definition leg_fee_usd :: "cost_model \<Rightarrow> pyfloat \<Rightarrow> pyfloat" where
  "leg_fee_usd cm notional_usd =
     (if notional_usd \<le> 0 \<or> (cm_commission_flat_usd_per_leg cm \<le> 0 \<and> cm_commission_pct_per_leg cm \<le> 0) then 0
      else cm_commission_flat_usd_per_leg cm + \<bar>notional_usd\<bar> * cm_commission_pct_per_leg cm)"

definition slippage_usd :: "cost_model \<Rightarrow> pyfloat \<Rightarrow> pyfloat" where
  "slippage_usd cm notional_usd =
     (if notional_usd \<le> 0 \<or> cm_slippage_bps cm \<le> 0 then 0 else \<bar>notional_usd\<bar> * cm_slippage_bps cm * BPS)"

definition regulatory_sell_fee_usd :: "cost_model \<Rightarrow> pyfloat \<Rightarrow> pyfloat \<Rightarrow> pyfloat" where
  "regulatory_sell_fee_usd cm notional_usd quantity =
     (if notional_usd \<le> 0 then 0
      else let sec = (if 0 < cm_sec_fee_per_dollar cm then \<bar>notional_usd\<bar> * cm_sec_fee_per_dollar cm else 0);
               taf = (if 0 < cm_finra_taf_per_share cm \<and> 0 < quantity
                      then let t = \<bar>quantity\<bar> * cm_finra_taf_per_share cm
                           in if 0 < cm_finra_taf_max_usd cm then min t (cm_finra_taf_max_usd cm) else t
                      else 0)
           in sec + taf)"

definition accepts_position :: "cost_model \<Rightarrow> pyfloat \<Rightarrow> bool" where
  "accepts_position cm notional_usd = (cm_min_position_usd cm \<le> notional_usd)"

subsection \<open>Calibration, session and totals\<close>

text \<open>\<open>statistics.median\<close> of a non-empty list.\<close>

definition median :: "pyfloat list \<Rightarrow> pyfloat" where
  "median xs = (let s = sort xs; n = length s in
     if odd n then s ! (n div 2) else (s ! (n div 2 - 1) + s ! (n div 2)) / 2)"

definition measured_slippage_bps :: "pyfloat option list \<Rightarrow> int \<Rightarrow> pyfloat \<Rightarrow> pyfloat option" where
  "measured_slippage_bps samples min_samples cap_bps =
     (let values = [v. Some v \<leftarrow> samples] in
      if int (length values) < max 1 min_samples then None
      else Some (min (max (median values) 0) cap_bps))"

definition is_extended_hours :: "(time \<Rightarrow> int \<times> int) \<Rightarrow> time \<Rightarrow> bool" where
  "is_extended_hours ny_clock t = (let (hour, minute) = ny_clock t in
     if hour < 9 \<or> (hour = 9 \<and> minute < 30) then True else if 16 \<le> hour then True else False)"

record cost_event =
  ce_spread_usd :: pyfloat
  ce_financing_usd :: pyfloat
  ce_fx_usd :: pyfloat
  ce_commission_usd :: pyfloat
  ce_slippage_usd :: pyfloat
  ce_regulatory_usd :: pyfloat

record cost_breakdown =
  cb_total_cost_usd :: pyfloat
  cb_spread_cost_usd :: pyfloat
  cb_financing_cost_usd :: pyfloat
  cb_fx_cost_usd :: pyfloat
  cb_commission_cost_usd :: pyfloat
  cb_slippage_cost_usd :: pyfloat
  cb_regulatory_cost_usd :: pyfloat
  cb_trades_costed :: nat

text \<open>\<open>summarize_costs\<close>; the engine's events carry no \<open>impact_usd\<close>, whose total stays 0.\<close>

definition summarize_costs :: "cost_event list \<Rightarrow> cost_breakdown" where
  "summarize_costs events =
     (let total_spread = sum_list (map ce_spread_usd events);
          total_financing = sum_list (map ce_financing_usd events);
          total_fx = sum_list (map ce_fx_usd events);
          total_commission = sum_list (map ce_commission_usd events);
          total_slippage = sum_list (map ce_slippage_usd events);
          total_regulatory = sum_list (map ce_regulatory_usd events);
          total = total_spread + total_financing + total_fx + total_commission + total_slippage + total_regulatory
      in \<lparr>cb_total_cost_usd = py_round 4 total, cb_spread_cost_usd = py_round 4 total_spread,
          cb_financing_cost_usd = py_round 4 total_financing, cb_fx_cost_usd = py_round 4 total_fx,
          cb_commission_cost_usd = py_round 4 total_commission, cb_slippage_cost_usd = py_round 4 total_slippage,
          cb_regulatory_cost_usd = py_round 4 total_regulatory, cb_trades_costed = length events\<rparr>)"

subsection \<open>Fills are adverse, charges are not negative\<close>

text \<open>A model whose parameters charge: nothing negative, a half-spread below the price itself.\<close>

definition charging :: "cost_model \<Rightarrow> bool" where
  "charging cm = (0 \<le> cm_spread_bps cm \<and> cm_spread_bps cm < 20000 \<and>
     0 \<le> cm_extended_hours_spread_bps cm \<and> cm_extended_hours_spread_bps cm < 20000 \<and>
     0 \<le> cm_overnight_fee_daily_pct cm \<and> 1 \<le> cm_weekend_multiplier cm \<and>
     0 \<le> cm_commission_per_share cm \<and> 0 \<le> cm_commission_flat_usd_per_leg cm \<and>
     0 \<le> cm_commission_pct_per_leg cm)"

lemma charging_profiles [simp]:
  "charging default_cost_model" "charging alpaca_equities" "charging zero_cost_model"
  "charging cm \<Longrightarrow> charging (with_etoro_trade_fees cm crypto)"
  by (auto simp: charging_def cost_profile_defs)

lemma charging_venues: "(name, cm) \<in> set venue_cost_models \<Longrightarrow> charging cm"
  by (auto simp: charging_def cost_profile_defs Let_def)

lemma half_spread_bounds:
  "charging cm \<Longrightarrow> 0 \<le> half_spread_fraction cm ext"
  "charging cm \<Longrightarrow> half_spread_fraction cm ext < 1"
  by (auto simp: charging_def half_spread_fraction_def BPS_def)

lemma entry_fill_Inr:
  "entry_fill_price cm p side ext = Inr f \<longleftrightarrow>
     0 < p \<and> f = p * (case side of Buy \<Rightarrow> 1 + half_spread_fraction cm ext | Sell \<Rightarrow> 1 - half_spread_fraction cm ext)"
  by (auto simp: entry_fill_price_def Let_def split: order_side.splits)

lemma exit_fill_Inr:
  "exit_fill_price cm p side ext = Inr f \<longleftrightarrow>
     0 < p \<and> f = p * (case side of Buy \<Rightarrow> 1 - half_spread_fraction cm ext | Sell \<Rightarrow> 1 + half_spread_fraction cm ext)"
  by (auto simp: exit_fill_price_def Let_def split: order_side.splits)

text \<open>A long pays at least the reference price and sells for at most it; a short the reverse.\<close>

lemma entry_fill_adverse:
  assumes "charging cm" "entry_fill_price cm p side ext = Inr f"
  shows "0 < f" "side = Buy \<Longrightarrow> p \<le> f" "side = Sell \<Longrightarrow> f \<le> p"
  using assms half_spread_bounds [OF assms(1), of ext]
  by (auto simp: entry_fill_Inr intro!: mult_pos_pos split: order_side.splits
      simp: mult_le_cancel_left1 mult_le_cancel_left2)

lemma exit_fill_adverse:
  assumes "charging cm" "exit_fill_price cm p side ext = Inr f"
  shows "0 < f" "side = Buy \<Longrightarrow> f \<le> p" "side = Sell \<Longrightarrow> p \<le> f"
  using assms half_spread_bounds [OF assms(1), of ext]
  by (auto simp: exit_fill_Inr intro!: mult_pos_pos split: order_side.splits
      simp: mult_le_cancel_left1 mult_le_cancel_left2)

lemma holding_cost_nonneg: "charging cm \<Longrightarrow> 0 \<le> holding_cost_usd cm n t1 t2"
  by (auto simp: holding_cost_usd_def charging_def Let_def intro!: mult_nonneg_nonneg add_nonneg_nonneg)

lemma short_holding_cost_nonneg: "charging cm \<Longrightarrow> 0 \<le> short_holding_cost_usd cm n t1 t2"
  using holding_cost_nonneg [of cm n t1 t2]
  by (auto simp: short_holding_cost_usd_def Let_def intro!: add_nonneg_nonneg mult_nonneg_nonneg)

lemma fx_cost_nonneg: "0 \<le> fx_round_trip_cost_usd cm n"
  by (auto simp: fx_round_trip_cost_usd_def BPS_def)

lemma commission_nonneg: "charging cm \<Longrightarrow> 0 \<le> commission_usd cm q"
  by (auto simp: commission_usd_def charging_def Let_def)

lemma leg_fee_nonneg: "charging cm \<Longrightarrow> 0 \<le> leg_fee_usd cm n"
  by (auto simp: leg_fee_usd_def charging_def)

lemma slippage_nonneg: "0 \<le> slippage_usd cm n"
  by (auto simp: slippage_usd_def BPS_def)

lemma regulatory_nonneg: "0 \<le> regulatory_sell_fee_usd cm n q"
  by (auto simp: regulatory_sell_fee_usd_def Let_def min_def)

lemmas charges_nonneg = holding_cost_nonneg short_holding_cost_nonneg fx_cost_nonneg
  commission_nonneg leg_fee_nonneg slippage_nonneg regulatory_nonneg

subsection \<open>The Friday count\<close>

definition fridays_between :: "int \<Rightarrow> int \<Rightarrow> int set" where
  "fridays_between a b = {d. a < d \<and> d \<le> b \<and> (d + 3) mod 7 = 4}"

lemma finite_fridays [simp]: "finite (fridays_between a b)"
  by (rule finite_subset [of _ "{a..b}"]) (auto simp: fridays_between_def)

lemma midnight_le: "d * day_us \<le> t \<longleftrightarrow> d \<le> day_of t"
  by (simp add: day_of_def day_us_def) linarith

lemma midnight_gt: "t < d * day_us \<longleftrightarrow> day_of t < d"
  using midnight_le [of d t] by linarith

lemma weekday_midnight: "weekday (d * day_us) = (d + 3) mod 7"
  by (simp add: weekday_def day_of_def day_us_def)

lemma fridays_step:
  "a < d \<Longrightarrow> d \<le> b \<Longrightarrow> fridays_between (d - 1) b =
     (if (d + 3) mod 7 = 4 then insert d (fridays_between d b) else fridays_between d b)"
  by (auto simp: fridays_between_def) (metis add1_zle_eq diff_add_cancel zle_diff1_eq order_le_imp_less_or_eq)+

lemma friday_loop_counts:
  "day_of entry < d \<Longrightarrow>
   friday_loop entry exit_time (d * day_us) count = count + card (fridays_between (d - 1) (day_of exit_time))"
proof (induction "nat (day_of exit_time + 1 - d)" arbitrary: d count)
  case 0
  then have "day_of exit_time < d" by simp
  moreover from this have "fridays_between (d - 1) (day_of exit_time) = {}"
    by (auto simp: fridays_between_def)
  ultimately show ?case
    by (simp add: friday_loop.simps [of _ _ "d * day_us"] midnight_le)
next
  case (Suc n)
  then have d: "d \<le> day_of exit_time" by linarith
  have notin: "d \<notin> fridays_between d (day_of exit_time)" by (simp add: fridays_between_def)
  have step: "d * day_us + day_us = (d + 1) * day_us" by (simp add: algebra_simps)
  have IH: "friday_loop entry exit_time ((d + 1) * day_us) c
      = c + card (fridays_between d (day_of exit_time))" for c
    using Suc.hyps(1) [of "d + 1" c] Suc.hyps(2) Suc.prems d by simp
  show ?case
    using d Suc.prems notin
    by (subst friday_loop.simps)
       (simp add: midnight_le midnight_gt weekday_midnight step IH fridays_step [OF Suc.prems d])
qed

lemma count_friday_closes_crossed_eq:
  "count_friday_closes_crossed entry exit_time = card (fridays_between (day_of entry) (day_of exit_time))"
proof (cases "exit_time \<le> entry")
  case True
  then have "day_of exit_time \<le> day_of entry" by (simp add: day_of_def day_us_def zdiv_mono1)
  then have "fridays_between (day_of entry) (day_of exit_time) = {}"
    by (auto simp: fridays_between_def)
  then show ?thesis using True by (simp add: count_friday_closes_crossed_def)
next
  case False
  have "day_of entry * day_us \<le> exit_time"
    using False midnight_le [of "day_of entry" entry] by linarith
  moreover have "\<not> entry < day_of entry * day_us" using midnight_gt [of entry "day_of entry"] by simp
  ultimately have "friday_loop entry exit_time (day_of entry * day_us) 0
      = friday_loop entry exit_time ((day_of entry + 1) * day_us) 0"
    by (subst friday_loop.simps) (simp add: algebra_simps)
  then show ?thesis
    using False friday_loop_counts [of entry "day_of entry + 1" exit_time 0]
    by (simp add: count_friday_closes_crossed_def)
qed


text \<open>
  The weekend charge misses its aim on both sides: a position entered on a Friday (at whatever
  hour) and closed within the next six days crosses no Friday, so the weekend it is held
  through costs nothing extra, while one entered on a Thursday and closed on the Friday pays
  for the weekend it does not hold.
\<close>

lemma friday_entry_escapes_weekend_charge:
  assumes "weekday entry = 4" "day_of exit_time \<le> day_of entry + 6"
  shows "count_friday_closes_crossed entry exit_time = 0"
proof -
  have "(d + 3) mod 7 \<noteq> 4" if "day_of entry < d" "d \<le> day_of exit_time" for d
    using assms that unfolding weekday_def by presburger
  then have "fridays_between (day_of entry) (day_of exit_time) = {}"
    by (auto simp: fridays_between_def)
  then show ?thesis by (simp add: count_friday_closes_crossed_eq)
qed

lemma thursday_to_friday_pays_weekend:
  assumes "weekday entry = 3" "day_of exit_time = day_of entry + 1"
  shows "count_friday_closes_crossed entry exit_time = 1"
proof -
  have "fridays_between (day_of entry) (day_of exit_time) = {day_of exit_time}"
    using assms unfolding weekday_def fridays_between_def by (auto; presburger)
  then show ?thesis by (simp add: count_friday_closes_crossed_eq)
qed

subsection \<open>Calibration stays in its range\<close>

lemma measured_slippage_in_range:
  assumes "measured_slippage_bps samples k cap = Some v" "0 \<le> cap"
  shows "0 \<le> v \<and> v \<le> cap"
  using assms by (auto simp: measured_slippage_bps_def Let_def split: if_splits)

end
