(* ===== verification/Metrics.thy ===== *)
theory Metrics
  imports Costs
begin

text \<open>
  The backtest metrics (src/app/backtesting/metrics.py): annualization factors, drawdown,
  Sharpe, Sortino and Calmar figures, trade summaries, expectancy and the leakage tripwire.

  A trade is the record the engine writes (\<open>bt_trade\<close>), so the branches for frames without a
  \<open>pnl_usd\<close> or \<open>pnl_pct\<close> column have no counterpart. The profit factor of a run without a
  losing trade is infinite, a value of \<open>ratio\<close> of its own. \<open>math.sqrt\<close> and pandas' \<open>std\<close> use
  the argument \<open>sqrt_fn\<close>, the square sqrt_fn of the platform. An equity of exactly zero inside a curve
  makes \<open>pct_change\<close> infinite in pandas; the Sharpe figure of such a curve is outside the model.
  The deflated Sharpe ratio (scipy's normal distribution) is not modelled.
\<close>

record bt_trade =
  bt_entry_time :: time
  bt_exit_time :: time
  bt_entry_price :: pyfloat
  bt_exit_price :: pyfloat
  bt_quantity :: pyfloat
  bt_notional_usd :: pyfloat
  bt_pnl_usd :: pyfloat
  bt_pnl_pct :: pyfloat
  bt_reason :: string
  bt_spread_usd :: pyfloat
  bt_financing_usd :: pyfloat
  bt_fx_usd :: pyfloat
  bt_commission_usd :: pyfloat
  bt_slippage_usd :: pyfloat
  bt_regulatory_usd :: pyfloat
  bt_short :: bool

subsection \<open>Cadence\<close>

definition DAILY_BARS_PER_YEAR :: int where "DAILY_BARS_PER_YEAR = 252"
definition WEEKLY_BARS_PER_YEAR :: int where "WEEKLY_BARS_PER_YEAR = 52"
definition HOURLY_BARS_PER_YEAR :: int where "HOURLY_BARS_PER_YEAR = 1638"
definition FIFTEEN_MIN_BARS_PER_YEAR :: int where "FIFTEEN_MIN_BARS_PER_YEAR = 6552"
definition TEN_MIN_BARS_PER_YEAR :: int where "TEN_MIN_BARS_PER_YEAR = 9828"
definition FIVE_MIN_BARS_PER_YEAR :: int where "FIVE_MIN_BARS_PER_YEAR = 19656"
definition ONE_MIN_BARS_PER_YEAR :: int where "ONE_MIN_BARS_PER_YEAR = 98280"
definition MIN_TRADES_FOR_LEAKAGE_TRIPWIRE :: nat where "MIN_TRADES_FOR_LEAKAGE_TRIPWIRE = 30"

lemmas cadence_defs = DAILY_BARS_PER_YEAR_def WEEKLY_BARS_PER_YEAR_def HOURLY_BARS_PER_YEAR_def
  FIFTEEN_MIN_BARS_PER_YEAR_def TEN_MIN_BARS_PER_YEAR_def FIVE_MIN_BARS_PER_YEAR_def ONE_MIN_BARS_PER_YEAR_def

definition bars_per_year_for :: "string option \<Rightarrow> int" where
  "bars_per_year_for timeframe =
     (let normalized = py_lower (py_strip (case timeframe of None \<Rightarrow> [] | Some t \<Rightarrow> t));
          mapping = [(''1m'', ONE_MIN_BARS_PER_YEAR), (''5m'', FIVE_MIN_BARS_PER_YEAR),
            (''10m'', TEN_MIN_BARS_PER_YEAR), (''15m'', FIFTEEN_MIN_BARS_PER_YEAR),
            (''1h'', HOURLY_BARS_PER_YEAR), (''60m'', HOURLY_BARS_PER_YEAR),
            (''1d'', DAILY_BARS_PER_YEAR), (''d'', DAILY_BARS_PER_YEAR), (''daily'', DAILY_BARS_PER_YEAR),
            (''1w'', WEEKLY_BARS_PER_YEAR), (''1wk'', WEEKLY_BARS_PER_YEAR),
            (''week'', WEEKLY_BARS_PER_YEAR), (''weekly'', WEEKLY_BARS_PER_YEAR)]
      in get_default mapping normalized DAILY_BARS_PER_YEAR)"

subsection \<open>Curves\<close>

text \<open>\<open>series.cummax()\<close> and the worst relative distance below it.\<close>

fun cummax_from :: "pyfloat \<Rightarrow> pyfloat list \<Rightarrow> pyfloat list" where
  "cummax_from m [] = []"
| "cummax_from m (x # xs) = max m x # cummax_from (max m x) xs"

definition cummax :: "pyfloat list \<Rightarrow> pyfloat list" where
  "cummax xs = (case xs of [] \<Rightarrow> [] | x # r \<Rightarrow> x # cummax_from x r)"

definition drawdowns :: "pyfloat list \<Rightarrow> pyfloat list" where
  "drawdowns xs = map2 (\<lambda>x m. (x - m) / (if m = 0 then 1 else m)) xs (cummax xs)"

definition compute_max_drawdown :: "pyfloat list \<Rightarrow> pyfloat" where
  "compute_max_drawdown equity_curve =
     (if equity_curve = [] then 0 else \<bar>min_list (drawdowns equity_curve) * 100\<bar>)"

definition mean :: "pyfloat list \<Rightarrow> pyfloat" where
  "mean xs = sum_list xs / of_nat (length xs)"

text \<open>pandas' \<open>std\<close> (with the \<open>n - 1\<close> denominator) and \<open>pct_change().dropna()\<close>.\<close>

definition std :: "(pyfloat \<Rightarrow> pyfloat) \<Rightarrow> pyfloat list \<Rightarrow> pyfloat" where
  "std sqrt_fn xs = sqrt_fn (sum_list (map (\<lambda>x. (x - mean xs) ^ 2) xs) / of_nat (length xs - 1))"

definition pct_changes :: "pyfloat list \<Rightarrow> pyfloat list" where
  "pct_changes xs = map2 (\<lambda>a b. b / a - 1) xs (drop 1 xs)"

definition compute_sharpe_like :: "(pyfloat \<Rightarrow> pyfloat) \<Rightarrow> pyfloat list \<Rightarrow> int \<Rightarrow> pyfloat" where
  "compute_sharpe_like sqrt_fn equity_curve bars_per_year =
     (if length equity_curve < 3 then 0
      else let returns = pct_changes equity_curve in
        if returns = [] \<or> std sqrt_fn returns = 0 then 0
        else (mean returns / std sqrt_fn returns) * sqrt_fn (of_int (max bars_per_year 1)))"

text \<open>The \<open>std\<close> of a single value is NaN, which equals nothing: a single losing bar gives NaN
(\<open>None\<close>).\<close>

definition sortino :: "(pyfloat \<Rightarrow> pyfloat) \<Rightarrow> pyfloat list \<Rightarrow> int \<Rightarrow> pyfloat option" where
  "sortino sqrt_fn returns bars_per_year =
     (if length returns < 3 then Some 0
      else let downside = filter (\<lambda>r. r < 0) returns in
        if downside = [] then Some 0
        else if length downside = 1 then None
        else if std sqrt_fn downside = 0 then Some 0
        else Some ((mean returns / std sqrt_fn downside) * sqrt_fn (of_int (max bars_per_year 1))))"

definition calmar :: "pyfloat list \<Rightarrow> pyfloat list \<Rightarrow> int \<Rightarrow> pyfloat" where
  "calmar returns equity_curve bars_per_year =
     (if returns = [] \<or> equity_curve = [] then 0
      else let ann_return = mean returns * of_int bars_per_year;
               max_dd_pct = compute_max_drawdown equity_curve
           in if max_dd_pct = 0 then 0 else ann_return / (max_dd_pct / 100))"

subsection \<open>Trades\<close>

datatype ratio = Fin pyfloat | Infinite

record trade_summary =
  ts_number_of_trades :: nat
  ts_win_rate :: pyfloat
  ts_average_win :: pyfloat
  ts_average_loss :: pyfloat
  ts_profit_factor :: ratio

definition summarize_trades :: "bt_trade list \<Rightarrow> trade_summary" where
  "summarize_trades trades =
     (if trades = [] then \<lparr>ts_number_of_trades = 0, ts_win_rate = 0, ts_average_win = 0,
        ts_average_loss = 0, ts_profit_factor = Fin 0\<rparr>
      else let pnls = map bt_pnl_usd trades;
               winners = filter (\<lambda>p. 0 < p) pnls;
               losers = filter (\<lambda>p. p < 0) pnls;
               gross_profit = (if winners \<noteq> [] then sum_list winners else 0);
               gross_loss = (if losers \<noteq> [] then \<bar>sum_list losers\<bar> else 0);
               profit_factor = (if 0 < gross_loss then Fin (gross_profit / gross_loss)
                 else if 0 < gross_profit then Infinite else Fin 0)
           in \<lparr>ts_number_of_trades = length trades,
               ts_win_rate = (of_nat (length winners) / of_nat (length trades)) * 100,
               ts_average_win = (if winners \<noteq> [] then mean winners else 0),
               ts_average_loss = (if losers \<noteq> [] then mean losers else 0),
               ts_profit_factor = profit_factor\<rparr>)"

record expectancy =
  xp_expectancy_usd :: pyfloat
  xp_expectancy_pct :: pyfloat
  xp_average_return_pct :: pyfloat

definition compute_expectancy :: "bt_trade list \<Rightarrow> expectancy" where
  "compute_expectancy trades =
     (if trades = [] then \<lparr>xp_expectancy_usd = 0, xp_expectancy_pct = 0, xp_average_return_pct = 0\<rparr>
      else let average_return_pct = mean (map bt_pnl_pct trades)
           in \<lparr>xp_expectancy_usd = mean (map bt_pnl_usd trades),
               xp_expectancy_pct = average_return_pct, xp_average_return_pct = average_return_pct\<rparr>)"

record recent_summary =
  rs_trade_count :: nat
  rs_win_rate :: pyfloat
  rs_average_return_pct :: pyfloat
  rs_profit_factor :: pyfloat

definition summarize_recent_trades :: "bt_trade list \<Rightarrow> int \<Rightarrow> recent_summary" where
  "summarize_recent_trades trades window =
     (if trades = [] then \<lparr>rs_trade_count = 0, rs_win_rate = 0, rs_average_return_pct = 0, rs_profit_factor = 0\<rparr>
      else let recent = drop (length trades - nat (max window 1)) trades;
               summary = summarize_trades recent
           in \<lparr>rs_trade_count = ts_number_of_trades summary, rs_win_rate = ts_win_rate summary,
               rs_average_return_pct = xp_average_return_pct (compute_expectancy recent),
               rs_profit_factor = (case ts_profit_factor summary of Infinite \<Rightarrow> 99 | Fin x \<Rightarrow> x)\<rparr>)"

definition show_ratio :: "ratio \<Rightarrow> string" where
  "show_ratio r = (case r of Infinite \<Rightarrow> ''inf'' | Fin x \<Rightarrow> fmt_fixed 2 x)"

definition leakage_tripwire_triggered :: "trade_summary \<Rightarrow> bool \<times> string option" where
  "leakage_tripwire_triggered metrics =
     (let n = ts_number_of_trades metrics; pf = ts_profit_factor metrics; wr = ts_win_rate metrics in
      if n < MIN_TRADES_FOR_LEAKAGE_TRIPWIRE then (False, None)
      else if (case pf of Infinite \<Rightarrow> True | Fin x \<Rightarrow> 3 < x)
      then (True, Some (''profit_factor='' @ show_ratio pf @ '' exceeds tripwire (n='' @ show_nat n @ '')''))
      else if 70 < wr
      then (True, Some (''win_rate='' @ fmt_fixed 2 wr @ ''% exceeds tripwire (n='' @ show_nat n @ '')''))
      else (False, None))"

definition expectancy_R :: "bt_trade list \<Rightarrow> pyfloat \<Rightarrow> pyfloat" where
  "expectancy_R trades risk_per_trade_amount =
     (if trades = [] \<or> risk_per_trade_amount \<le> 0 then 0
      else sum_list (map bt_pnl_usd trades) / (of_nat (length trades) * risk_per_trade_amount))"

subsection \<open>Drawdown is the worst fall from an earlier point\<close>

lemma length_cummax_from [simp]: "length (cummax_from m xs) = length xs"
  by (induction xs arbitrary: m) auto

lemma length_cummax [simp]: "length (cummax xs) = length xs"
  by (auto simp: cummax_def split: list.splits)

lemma length_drawdowns [simp]: "length (drawdowns xs) = length xs"
  by (simp add: drawdowns_def)

lemma Max_insert_max: "finite A \<Longrightarrow> Max (insert (max a b) A) = Max (insert a (insert b A))"
  by (cases "A = {}") (auto simp: max.assoc)

lemma cummax_from_nth: "j < length xs \<Longrightarrow> cummax_from m xs ! j = Max (set (m # take (Suc j) xs))"
proof (induction xs arbitrary: m j)
  case (Cons x xs)
  then show ?case
    by (cases j) (auto simp: Max_insert_max)
qed simp

lemma cummax_nth: "j < length xs \<Longrightarrow> cummax xs ! j = Max (set (take (Suc j) xs))"
proof (cases xs)
  case (Cons x r)
  assume "j < length xs"
  then show ?thesis
    using Cons by (cases j) (auto simp: cummax_def cummax_from_nth)
qed simp

lemma cummax_le: "i \<le> j \<Longrightarrow> j < length xs \<Longrightarrow> xs ! i \<le> cummax xs ! j"
  by (auto simp: cummax_nth in_set_conv_nth intro!: Max_ge exI [of _ i])

lemma cummax_attained: "j < length xs \<Longrightarrow> \<exists>i \<le> j. cummax xs ! j = xs ! i"
proof -
  assume j: "j < length xs"
  have "Max (set (take (Suc j) xs)) \<in> set (take (Suc j) xs)"
    by (rule Max_in) (use j in auto)
  then show ?thesis using j by (auto simp: cummax_nth in_set_conv_nth less_Suc_eq_le)
qed

lemma min_list_in: "xs \<noteq> [] \<Longrightarrow> min_list xs \<in> set (xs :: pyfloat list)"
  by (simp add: min_list_Min)

lemma min_list_le: "x \<in> set xs \<Longrightarrow> min_list xs \<le> (x :: pyfloat)"
  by (cases "xs = []") (auto simp: min_list_Min)

lemma drawdown_nth:
  "j < length xs \<Longrightarrow> drawdowns xs ! j = (xs ! j - cummax xs ! j) / (if cummax xs ! j = 0 then 1 else cummax xs ! j)"
  by (simp add: drawdowns_def)

lemma fall_below_cummax:
  fixes x p m :: pyfloat
  assumes "0 \<le> x" "x \<le> m" "0 \<le> p" "p \<le> m" "0 < m"
  shows "(p - x) / p \<le> (m - x) / m"
proof (cases "p = 0")
  case True
  then show ?thesis using assms by simp
next
  case False
  then have "0 < p" using assms by simp
  then have "x / m \<le> x / p" using assms by (simp add: frac_le)
  then show ?thesis using \<open>0 < p\<close> assms by (simp add: diff_divide_distrib)
qed

definition worst_fall :: "pyfloat list \<Rightarrow> pyfloat set" where
  "worst_fall xs = {(xs ! i - xs ! j) / xs ! i * 100 | i j. i \<le> j \<and> j < length xs}"

lemma drawdown_attained:
  assumes "xs \<noteq> []" "0 < hd xs"
  shows "compute_max_drawdown xs \<in> worst_fall xs"
proof -
  have pos: "0 < cummax xs ! j" if "j < length xs" for j
    using cummax_le [of 0 j xs] that assms by (cases xs) auto
  have sign: "drawdowns xs ! j \<le> 0" if "j < length xs" for j
    using that pos [OF that] cummax_le [of j j xs] by (simp add: drawdown_nth divide_le_0_iff)
  have "min_list (drawdowns xs) \<in> set (drawdowns xs)"
    using assms min_list_in [of "drawdowns xs"] by (metis length_0_conv length_drawdowns)
  then obtain j where j: "j < length xs" "min_list (drawdowns xs) = drawdowns xs ! j"
    by (metis in_set_conv_nth length_drawdowns)
  obtain i where i: "i \<le> j" "cummax xs ! j = xs ! i" using cummax_attained [OF j(1)] by blast
  have "compute_max_drawdown xs = - (drawdowns xs ! j) * 100"
    using j sign [OF j(1)] assms by (simp add: compute_max_drawdown_def abs_if)
  also have "\<dots> = (xs ! i - xs ! j) / xs ! i * 100"
    using i j pos [OF j(1)] by (simp add: drawdown_nth field_simps)
  finally show ?thesis using i j by (auto simp: worst_fall_def)
qed

lemma drawdown_bounds_falls:
  assumes "0 < hd xs" "\<forall>x \<in> set xs. 0 \<le> x" "d \<in> worst_fall xs"
  shows "d \<le> compute_max_drawdown xs"
proof -
  obtain i j where d: "d = (xs ! i - xs ! j) / xs ! i * 100" and ij: "i \<le> j" "j < length xs"
    using assms(3) by (auto simp: worst_fall_def)
  have ne: "xs \<noteq> []" using ij by auto
  have pos: "0 < cummax xs ! j"
    using cummax_le [of 0 j xs] ij ne assms by (cases xs) auto
  have "(xs ! i - xs ! j) / xs ! i \<le> (cummax xs ! j - xs ! j) / cummax xs ! j"
    using fall_below_cummax [of "xs ! j" "cummax xs ! j" "xs ! i"] assms ij pos
      cummax_le [of i j xs] cummax_le [of j j xs] by simp
  also have "\<dots> = - (drawdowns xs ! j)" using ij pos by (simp add: drawdown_nth field_simps)
  also have "\<dots> \<le> - min_list (drawdowns xs)"
    using min_list_le [of "drawdowns xs ! j" "drawdowns xs"] ij by simp
  finally have "d \<le> - min_list (drawdowns xs) * 100" unfolding d by (rule mult_right_mono) simp
  then show ?thesis using ne abs_ge_minus_self [of "min_list (drawdowns xs) * 100"]
    by (simp add: compute_max_drawdown_def)
qed

text \<open>C26: On a curve that starts above zero and never falls below it, the vectorised drawdown is
the largest percentage by which any point lies below any earlier one: it is such a fall, no fall
is larger, and it lies between 0 and 100.\<close>

theorem drawdown_is_worst_fall:
  assumes "xs \<noteq> []" "0 < hd xs" "\<forall>x \<in> set xs. 0 \<le> x"
  shows "compute_max_drawdown xs \<in> {(xs ! i - xs ! j) / xs ! i * 100 | i j. i \<le> j \<and> j < length xs} \<and>
    (\<forall>i j. i \<le> j \<and> j < length xs \<longrightarrow> (xs ! i - xs ! j) / xs ! i * 100 \<le> compute_max_drawdown xs) \<and>
    0 \<le> compute_max_drawdown xs \<and> compute_max_drawdown xs \<le> 100"
proof -
  have "d \<le> 100" if d: "d \<in> worst_fall xs" for d
  proof -
    obtain i j where "d = (xs ! i - xs ! j) / xs ! i * 100" "i \<le> j" "j < length xs"
      using d by (auto simp: worst_fall_def)
    moreover have "0 \<le> xs ! i" "0 \<le> xs ! j" using assms \<open>i \<le> j\<close> \<open>j < length xs\<close> by auto
    moreover from this have "(xs ! i - xs ! j) / xs ! i \<le> 1" by (auto simp: divide_le_eq_1)
    then have "(xs ! i - xs ! j) / xs ! i * 100 \<le> 1 * 100" by (rule mult_right_mono) simp
    ultimately show ?thesis by (metis mult_1)
  qed
  then have "compute_max_drawdown xs \<le> 100" using drawdown_attained assms by blast
  moreover have "0 \<le> compute_max_drawdown xs" by (simp add: compute_max_drawdown_def)
  moreover have "\<forall>i j. i \<le> j \<and> j < length xs \<longrightarrow> (xs ! i - xs ! j) / xs ! i * 100 \<le> compute_max_drawdown xs"
    using drawdown_bounds_falls [OF assms(2,3)] by (auto simp: worst_fall_def)
  ultimately show ?thesis
    using drawdown_attained [OF assms(1,2)] by (simp add: worst_fall_def)
qed

lemma drawdown_is_worst_fall_witness:
  "compute_max_drawdown [100, 120, 90, 130] = 25 \<and> (120 - 90) / 120 * 100 \<le> compute_max_drawdown [100, 120, 90, 130] \<and>
   (100 - 90) / 100 * 100 \<le> compute_max_drawdown [100, 120, 90, 130]"
proof -
  let ?xs = "[100, 120, 90, 130] :: pyfloat list"
  have falls: "i \<le> j \<Longrightarrow> j < 4 \<Longrightarrow> (?xs ! i - ?xs ! j) / ?xs ! i * 100 \<le> compute_max_drawdown ?xs" for i j
    using drawdown_is_worst_fall [of ?xs] by simp
  have "compute_max_drawdown ?xs = 25"
    by (simp add: compute_max_drawdown_def drawdowns_def cummax_def)
  then show ?thesis using falls [of 1 2] falls [of 0 2] by simp
qed

subsection \<open>Profit factor and expectancy agree\<close>

lemma sum_winners_losers:
  "sum_list ps = sum_list (filter (\<lambda>p. 0 < p) ps) + sum_list (filter (\<lambda>p. p < 0) ps)"
  for ps :: "pyfloat list"
  by (induction ps) (auto simp: not_less)

lemma sum_winners_pos: "filter (\<lambda>p. 0 < p) ps \<noteq> [] \<Longrightarrow> 0 < sum_list (filter (\<lambda>p. 0 < p) ps)"
  for ps :: "pyfloat list"
proof (induction ps)
  case (Cons p ps)
  have "0 \<le> sum_list (filter (\<lambda>p. 0 < p) ps)" by (rule sum_list_nonneg) auto
  then show ?case using Cons by (auto simp: add_pos_nonneg)
qed simp

lemma sum_losers_neg: "filter (\<lambda>p. p < 0) ps \<noteq> [] \<Longrightarrow> sum_list (filter (\<lambda>p. p < 0) ps) < 0"
  for ps :: "pyfloat list"
proof (induction ps)
  case (Cons p ps)
  have "sum_list (filter (\<lambda>p. p < 0) ps) \<le> 0" by (rule sum_list_nonpos) auto
  then show ?case using Cons by (auto simp: add_neg_nonpos)
qed simp

text \<open>The two summaries of a run never disagree on whether it made money: the profit factor
exceeds one (or is infinite) exactly when the expectancy per trade is positive. The win rate is a
percentage, and the profit factor is infinite exactly when some trade won and none lost.\<close>

theorem profit_factor_agrees_with_expectancy:
  "((case ts_profit_factor (summarize_trades trades) of Infinite \<Rightarrow> True | Fin x \<Rightarrow> 1 < x) =
     (0 < xp_expectancy_usd (compute_expectancy trades))) \<and>
   0 \<le> ts_win_rate (summarize_trades trades) \<and> ts_win_rate (summarize_trades trades) \<le> 100 \<and>
   (ts_profit_factor (summarize_trades trades) = Infinite) =
     ((\<exists>t \<in> set trades. 0 < bt_pnl_usd t) \<and> \<not> (\<exists>t \<in> set trades. bt_pnl_usd t < 0))"
proof (cases "trades = []")
  case False
  let ?ps = "map bt_pnl_usd trades"
  let ?w = "filter (\<lambda>p. 0 < p) ?ps" let ?l = "filter (\<lambda>p. p < 0) ?ps"
  have n: "0 < (of_nat (length trades) :: pyfloat)" using False by simp
  have split: "sum_list ?ps = sum_list ?w + sum_list ?l" by (rule sum_winners_losers)
  have w: "?w \<noteq> [] \<longleftrightarrow> (\<exists>t \<in> set trades. 0 < bt_pnl_usd t)"
    and l: "?l \<noteq> [] \<longleftrightarrow> (\<exists>t \<in> set trades. bt_pnl_usd t < 0)"
    by (auto simp: filter_empty_conv)
  have exp: "0 < xp_expectancy_usd (compute_expectancy trades) \<longleftrightarrow> 0 < sum_list ?ps"
    using False n by (simp add: compute_expectancy_def Let_def mean_def zero_less_divide_iff)
  have "length ?w \<le> length trades" by (metis length_filter_le length_map)
  then have "of_nat (length ?w) \<le> (of_nat (length trades) :: pyfloat)" by (simp only: of_nat_le_iff)
  then have rate: "0 \<le> ts_win_rate (summarize_trades trades) \<and> ts_win_rate (summarize_trades trades) \<le> 100"
    using False n by (simp add: summarize_trades_def Let_def divide_le_eq)
  show ?thesis
  proof (cases "?l = []")
    case True
    show ?thesis
      using False True split exp rate w l sum_winners_pos [of ?ps]
      by (cases "?w = []") (simp_all add: summarize_trades_def Let_def)
  next
    case l_ne: False
    have neg: "sum_list ?l < 0" by (rule sum_losers_neg [OF l_ne])
    then have "1 < sum_list ?w / \<bar>sum_list ?l\<bar> \<longleftrightarrow> \<bar>sum_list ?l\<bar> < sum_list ?w"
      by (subst pos_less_divide_eq) auto
    then have "1 < sum_list ?w / \<bar>sum_list ?l\<bar> \<longleftrightarrow> 0 < sum_list ?ps"
      using split neg by linarith
    then show ?thesis
      using False l_ne neg split exp rate w l
      by (cases "?w = []") (simp_all add: summarize_trades_def Let_def)
  qed
qed (simp add: summarize_trades_def compute_expectancy_def)

end
