(* ===== verification/Walk_Forward.thy ===== *)
theory Walk_Forward
  imports Metrics
begin

text \<open>
  Walk-forward splitting (src/app/backtesting/walk_forward.py): the rolling train/test folds
  with embargo and holdout, the sealed holdout window, and the aggregation of the folds.

  A frame is a list of rows with a timestamp function; a frame without a timestamp column or
  with missing timestamps cannot be written down. \<open>split\<close> is a generator: its value is the list
  of all folds it yields, \<open>None\<close> if its loop would never end. The fractional power of the
  annualized return is the argument \<open>pow_fn\<close>.
\<close>

record splitter =
  wf_train_days :: int
  wf_test_days :: int
  wf_step_days :: int
  wf_embargo_days :: int
  wf_holdout_days :: int

definition default_splitter :: splitter where
  "default_splitter = \<lparr>wf_train_days = 180, wf_test_days = 14, wf_step_days = 14, wf_embargo_days = 1,
     wf_holdout_days = 28\<rparr>"

record 'a wf_window =
  ww_train_start :: time
  ww_train_end :: time
  ww_test_start :: time
  ww_test_end :: time
  ww_train_df :: "'a list"
  ww_test_df :: "'a list"

text \<open>\<open>WalkForwardWindow.__post_init__\<close> and \<open>_slice\<close>.\<close>

definition make_window :: "'a wf_window \<Rightarrow> exn + 'a wf_window" where
  "make_window w =
     (if ww_test_start w < ww_train_end w then Inl (ValueError ''train_end must be <= test_start'')
      else if ww_test_end w < ww_test_start w then Inl (ValueError ''test_end must be >= test_start'')
      else Inr w)"

definition slice :: "('a \<Rightarrow> time) \<Rightarrow> 'a list \<Rightarrow> time \<Rightarrow> time \<Rightarrow> time \<Rightarrow> time \<Rightarrow> exn + 'a wf_window option" where
  "slice ts frame train_start train_end test_start test_end =
     (let train_df = filter (\<lambda>r. train_start \<le> ts r \<and> ts r < train_end) frame;
          test_df = filter (\<lambda>r. test_start \<le> ts r \<and> ts r \<le> test_end) frame
      in if train_df = [] \<or> test_df = [] then Inr None
         else if Min (set (map ts test_df)) \<le> Max (set (map ts train_df))
         then Inl (ValueError ''walk-forward slice produced overlapping train/test'')
         else map_sum id Some (make_window
           \<lparr>ww_train_start = train_start, ww_train_end = train_end, ww_test_start = test_start,
            ww_test_end = test_end, ww_train_df = train_df, ww_test_df = test_df\<rparr>))"

text \<open>One round of the \<open>while True\<close> loop of \<open>split\<close> per call; a fold is yielded unless it is empty.\<close>

definition yield_fold :: "'a wf_window option \<Rightarrow> exn + 'a wf_window list \<Rightarrow> exn + 'a wf_window list" where
  "yield_fold fd rest = (case fd of None \<Rightarrow> rest | Some w \<Rightarrow> map_sum id ((#) w) rest)"

partial_function (option) fold_loop ::
  "splitter \<Rightarrow> ('a \<Rightarrow> time) \<Rightarrow> 'a list \<Rightarrow> time \<Rightarrow> time \<Rightarrow> time \<Rightarrow> (exn + 'a wf_window list) option" where
  "fold_loop sp ts frame holdout_boundary train_start train_end =
     (let embargo_end = train_end + wf_embargo_days sp * day_us;
          test_start = embargo_end;
          test_end = test_start + wf_test_days sp * day_us
      in if holdout_boundary < test_end then Some (Inr [])
         else (case slice ts frame train_start train_end test_start test_end of
           Inl e \<Rightarrow> Some (Inl e)
         | Inr fd \<Rightarrow>
             (let train_end' = train_end + wf_step_days sp * day_us;
                  train_start' = train_end' - wf_train_days sp * day_us
              in Option.bind (fold_loop sp ts frame holdout_boundary train_start' train_end') (\<lambda>rest. Some (yield_fold fd rest)))))"

definition split_problem :: "splitter \<Rightarrow> exn option" where
  "split_problem sp =
     (if wf_train_days sp \<le> 0 then Some (ValueError ''train_days must be positive'')
      else if wf_test_days sp \<le> 0 then Some (ValueError ''test_days must be positive'')
      else if wf_step_days sp \<le> 0 then Some (ValueError ''step_days must be positive'')
      else if wf_embargo_days sp < 0 then Some (ValueError ''embargo_days must be non-negative'')
      else if wf_holdout_days sp < 0 then Some (ValueError ''holdout_days must be non-negative'')
      else None)"

definition wf_split :: "splitter \<Rightarrow> ('a \<Rightarrow> time) \<Rightarrow> 'a list \<Rightarrow> (exn + 'a wf_window list) option" where
  "wf_split sp ts frame =
     (case split_problem sp of Some e \<Rightarrow> Some (Inl e)
      | None \<Rightarrow> if frame = [] then Some (Inr [])
        else let sorted_frame = sort_key ts frame;
                 dataset_end = Max (set (map ts frame));
                 holdout_boundary = dataset_end - wf_holdout_days sp * day_us;
                 train_start = Min (set (map ts frame));
                 train_end = train_start + wf_train_days sp * day_us
             in fold_loop sp ts sorted_frame holdout_boundary train_start train_end)"

definition holdout_window :: "splitter \<Rightarrow> ('a \<Rightarrow> time) \<Rightarrow> 'a list \<Rightarrow> exn + 'a wf_window option" where
  "holdout_window sp ts frame =
     (if frame = [] \<or> wf_holdout_days sp \<le> 0 then Inr None
      else let dataset_end = Max (set (map ts frame));
               holdout_start = dataset_end - wf_holdout_days sp * day_us;
               embargo_end = holdout_start + wf_embargo_days sp * day_us;
               train_end = holdout_start - wf_embargo_days sp * day_us;
               train_start = train_end - wf_train_days sp * day_us
           in slice ts (sort_key ts frame) train_start train_end embargo_end dataset_end)"

subsection \<open>Aggregation of the folds\<close>

definition compound :: "pyfloat \<Rightarrow> pyfloat \<Rightarrow> pyfloat" where
  "compound last_equity fold_return = (if 0 < last_equity then last_equity * (1 + fold_return) else last_equity)"

fun equity_of_folds :: "pyfloat \<Rightarrow> pyfloat list \<Rightarrow> pyfloat list" where
  "equity_of_folds e [] = [e]"
| "equity_of_folds e (r # rs) = e # equity_of_folds (compound e r) rs"

record oos_metrics =
  om_summary :: trade_summary
  om_expectancy :: expectancy
  om_fold_count :: nat
  om_total_return_pct :: pyfloat
  om_max_drawdown_pct :: pyfloat
  om_annualized_return_pct :: pyfloat

definition aggregate_out_of_sample ::
  "(pyfloat \<Rightarrow> pyfloat \<Rightarrow> pyfloat) \<Rightarrow> bt_trade list list \<Rightarrow> pyfloat list \<Rightarrow> int \<Rightarrow> bt_trade list \<times> oos_metrics" where
  "aggregate_out_of_sample pow_fn per_fold_trades fold_return_pcts test_days =
     (let merged_trades = concat per_fold_trades;
          fold_count = length fold_return_pcts;
          fold_returns = map (\<lambda>r. r / 100) fold_return_pcts;
          equity_curve = equity_of_folds 1 fold_returns;
          compounded = last equity_curve;
          oos_days = max (int fold_count * max test_days 1) 1;
          annualized = (if 0 < compounded then (pow_fn compounded (365 / of_int oos_days) - 1) * 100 else - 100)
      in (merged_trades,
          \<lparr>om_summary = summarize_trades merged_trades, om_expectancy = compute_expectancy merged_trades,
           om_fold_count = fold_count, om_total_return_pct = py_round 4 ((compounded - 1) * 100),
           om_max_drawdown_pct = py_round 4 (compute_max_drawdown equity_curve),
           om_annualized_return_pct = py_round 4 annualized\<rparr>))"

definition assert_no_future_leakage :: "('a \<Rightarrow> time) \<Rightarrow> 'a wf_window \<Rightarrow> bool" where
  "assert_no_future_leakage ts w =
     (ww_train_df w = [] \<or> ww_test_df w = [] \<or>
      Max (set (map ts (ww_train_df w))) < Min (set (map ts (ww_test_df w))))"

subsection \<open>A fold separates training from testing\<close>

definition fold_ok :: "splitter \<Rightarrow> ('a \<Rightarrow> time) \<Rightarrow> 'a list \<Rightarrow> time \<Rightarrow> 'a wf_window \<Rightarrow> bool" where
  "fold_ok sp ts frame boundary w =
     (ww_train_df w \<noteq> [] \<and> ww_test_df w \<noteq> [] \<and>
      ww_train_df w = filter (\<lambda>r. ww_train_start w \<le> ts r \<and> ts r < ww_train_end w) frame \<and>
      ww_test_df w = filter (\<lambda>r. ww_test_start w \<le> ts r \<and> ts r \<le> ww_test_end w) frame \<and>
      ww_test_start w = ww_train_end w + wf_embargo_days sp * day_us \<and>
      ww_test_end w = ww_test_start w + wf_test_days sp * day_us \<and> ww_test_end w \<le> boundary)"

lemma slice_cases:
  assumes "train_end \<le> test_start" "test_start \<le> test_end"
  obtains "slice ts frame train_start train_end test_start test_end = Inr None"
  | w where "slice ts frame train_start train_end test_start test_end = Inr (Some w)"
      "ww_train_start w = train_start" "ww_train_end w = train_end" "ww_test_start w = test_start"
      "ww_test_end w = test_end" "ww_train_df w \<noteq> []" "ww_test_df w \<noteq> []"
      "ww_train_df w = filter (\<lambda>r. train_start \<le> ts r \<and> ts r < train_end) frame"
      "ww_test_df w = filter (\<lambda>r. test_start \<le> ts r \<and> ts r \<le> test_end) frame"
proof -
  let ?train = "filter (\<lambda>r. train_start \<le> ts r \<and> ts r < train_end) frame"
  let ?test = "filter (\<lambda>r. test_start \<le> ts r \<and> ts r \<le> test_end) frame"
  show thesis
  proof (cases "?train = [] \<or> ?test = []")
    case True
    then show thesis using that(1) by (simp add: slice_def Let_def)
  next
    case False
    have "Max (set (map ts ?train)) < Min (set (map ts ?test))"
    proof -
      have "Max (set (map ts ?train)) \<in> set (map ts ?train)" "Min (set (map ts ?test)) \<in> set (map ts ?test)"
        using False by (auto intro!: Max_in Min_in simp del: set_filter)
      then show ?thesis using assms(1) by auto
    qed
    then have "slice ts frame train_start train_end test_start test_end =
        Inr (Some \<lparr>ww_train_start = train_start, ww_train_end = train_end, ww_test_start = test_start,
          ww_test_end = test_end, ww_train_df = ?train, ww_test_df = ?test\<rparr>)"
      using False assms by (simp add: slice_def Let_def make_window_def)
    then show thesis by (rule that(2)) (use False in simp_all)
  qed
qed

text \<open>A positive step drives the training end past the holdout boundary: the loop returns.\<close>

lemma fold_loop_returns:
  assumes "0 < wf_step_days sp" "0 < wf_test_days sp" "0 \<le> wf_embargo_days sp"
  shows "\<exists>ws. fold_loop sp ts frame boundary train_start train_end = Some (Inr ws) \<and>
     (\<forall>w \<in> set ws. fold_ok sp ts frame boundary w)"
proof (induction "nat (boundary - train_end)" arbitrary: train_start train_end rule: less_induct)
  case less
  let ?ts = "train_end + wf_embargo_days sp * day_us"
  let ?te = "?ts + wf_test_days sp * day_us"
  let ?next = "train_end + wf_step_days sp * day_us"
  show ?case
  proof (cases "boundary < ?te")
    case True
    then show ?thesis by (simp add: fold_loop.simps Let_def)
  next
    case False
    have pos: "0 < wf_step_days sp * day_us" "0 < wf_test_days sp * day_us" "0 \<le> wf_embargo_days sp * day_us"
      using assms by (simp_all add: day_us_def)
    then have dec: "nat (boundary - ?next) < nat (boundary - train_end)" using False by simp
    obtain ws where ws: "fold_loop sp ts frame boundary (?next - wf_train_days sp * day_us) ?next = Some (Inr ws)"
      "\<forall>w \<in> set ws. fold_ok sp ts frame boundary w"
      using less [OF dec] by blast
    have "train_end \<le> ?ts" "?ts \<le> ?te" using pos by simp_all
    then show ?thesis
    proof (cases rule: slice_cases [of train_end ?ts ?te ts frame train_start])
      case 1
      then show ?thesis using False ws
        by (subst fold_loop.simps) (simp add: Let_def yield_fold_def)
    next
      case (2 w)
      then have "fold_ok sp ts frame boundary w" using False by (simp add: fold_ok_def)
      then show ?thesis using False ws 2
        by (subst fold_loop.simps) (simp add: Let_def yield_fold_def)
    qed
  qed
qed

lemma split_returns:
  assumes "split_problem sp = None"
  obtains ws where "wf_split sp ts frame = Some (Inr ws)"
    "\<forall>w \<in> set ws. fold_ok sp ts (sort_key ts frame) (Max (set (map ts frame)) - wf_holdout_days sp * day_us) w"
proof -
  have "0 < wf_step_days sp" "0 < wf_test_days sp" "0 \<le> wf_embargo_days sp"
    using assms by (auto simp: split_problem_def split: if_splits)
  then show thesis
    using that fold_loop_returns [of sp ts "sort_key ts frame" "Max (set (map ts frame)) - wf_holdout_days sp * day_us"
        "Min (set (map ts frame))" "Min (set (map ts frame)) + wf_train_days sp * day_us"]
    by (cases "frame = []") (auto simp: wf_split_def assms Let_def)
qed

text \<open>C13: The splitter always returns. It refuses exactly the settings with a non-positive
training, test or step length or a negative embargo or holdout, and for every other setting the
loop ends with a list of folds on every frame: no frame makes it run forever or raise.\<close>

theorem splitting_terminates:
  "(\<exists>ws. wf_split sp ts frame = Some (Inr ws)) =
     (0 < wf_train_days sp \<and> 0 < wf_test_days sp \<and> 0 < wf_step_days sp \<and>
      0 \<le> wf_embargo_days sp \<and> 0 \<le> wf_holdout_days sp) \<and>
   (\<exists>r. wf_split sp ts frame = Some r)"
proof (cases "split_problem sp")
  case None
  then have "0 < wf_train_days sp \<and> 0 < wf_test_days sp \<and> 0 < wf_step_days sp \<and>
      0 \<le> wf_embargo_days sp \<and> 0 \<le> wf_holdout_days sp"
    by (auto simp: split_problem_def split: if_splits)
  then show ?thesis using split_returns [OF None, of ts frame] by blast
next
  case (Some e)
  then have "\<not> (0 < wf_train_days sp \<and> 0 < wf_test_days sp \<and> 0 < wf_step_days sp \<and>
      0 \<le> wf_embargo_days sp \<and> 0 \<le> wf_holdout_days sp)"
    by (auto simp: split_problem_def split: if_splits)
  then show ?thesis using Some by (simp add: wf_split_def)
qed


text \<open>Eight daily bars and a splitter of two training days, two test days and a step of two.\<close>

definition demo_splitter :: splitter where
  "demo_splitter = \<lparr>wf_train_days = 2, wf_test_days = 2, wf_step_days = 2, wf_embargo_days = 0, wf_holdout_days = 1\<rparr>"

definition demo_days :: "time list" where
  "demo_days = map (\<lambda>d. d * day_us) [0, 1, 2, 3, 4, 5, 6, 7]"

definition demo_fold :: "int \<Rightarrow> time wf_window" where
  "demo_fold d = \<lparr>ww_train_start = (d - 2) * day_us, ww_train_end = d * day_us, ww_test_start = d * day_us,
     ww_test_end = (d + 2) * day_us, ww_train_df = map (\<lambda>d. d * day_us) [d - 2, d - 1],
     ww_test_df = map (\<lambda>d. d * day_us) [d, d + 1, d + 2]\<rparr>"

declare fold_loop.simps [code]

lemma demo_split: "wf_split demo_splitter (\<lambda>t. t) demo_days = Some (Inr [demo_fold 2, demo_fold 4])"
  by code_simp


text \<open>
  Both ends of a test window are included, so with a step equal to the test length (the
  default, 14 and 14 days) a bar on the boundary is tested by two consecutive folds: the
  trades and the return of that bar enter the pooled out-of-sample evidence twice.
\<close>

lemma boundary_bar_tested_twice:
  "wf_split demo_splitter (\<lambda>t. t) demo_days = Some (Inr [demo_fold 2, demo_fold 4]) \<and>
   4 * day_us \<in> set (ww_test_df (demo_fold 2)) \<inter> set (ww_test_df (demo_fold 4)) \<and>
   wf_step_days demo_splitter = wf_test_days demo_splitter"
  by (rule conjI, rule demo_split, simp add: demo_fold_def demo_splitter_def)

subsection \<open>The compounded curve\<close>

lemma equity_of_folds_ne [simp]: "equity_of_folds e rs \<noteq> []"
  by (cases rs) auto

lemma hd_equity_of_folds [simp]: "hd (equity_of_folds e rs) = e"
  by (cases rs) auto

lemma wiped_out_stays: "e \<le> 0 \<Longrightarrow> set (equity_of_folds e rs) = {e}"
  by (induction rs) (auto simp: compound_def)

lemma equity_of_folds_last_wiped: "e \<le> 0 \<Longrightarrow> last (equity_of_folds e rs) = e"
  using wiped_out_stays [of e rs] last_in_set [OF equity_of_folds_ne, of e rs] by simp

lemma equity_of_folds_pos:
  "\<lbrakk>0 < e; \<forall>r \<in> set rs. - 1 < r\<rbrakk> \<Longrightarrow> (\<forall>x \<in> set (equity_of_folds e rs). 0 < x) \<and> last (equity_of_folds e rs) = e * prod_list (map (\<lambda>r. 1 + r) rs)"
proof (induction rs arbitrary: e)
  case (Cons r rs)
  have "0 < 1 + r" using Cons.prems(2) by simp
  then have eq: "compound e r = e * (1 + r)" "0 < compound e r" using Cons.prems(1) by (simp_all add: compound_def)
  have "(\<forall>x \<in> set (equity_of_folds (compound e r) rs). 0 < x) \<and>
      last (equity_of_folds (compound e r) rs) = compound e r * prod_list (map (\<lambda>r. 1 + r) rs)"
    using Cons.IH [OF eq(2)] Cons.prems by simp
  then show ?case using Cons.prems by (simp add: eq(1) mult.assoc)
qed simp

end
