(* ===== verification/Engine.thy ===== *)
theory Engine
  imports Walk_Forward
begin

text \<open>
  The backtest engine (src/app/backtesting/engine.py) with its session helpers
  (src/app/backtesting/intraday.py) and the plan check of the strategies
  (\<open>valid_trade_plan\<close>, src/app/strategies/base.py): a run over the bars with signals at a bar's
  close, fills at the next open, exits by time, stop, target, signal, session end or end of data.

  The strategy is an argument: a function from the bars seen so far to a signal. That it has no
  other input is the documented contract of \<open>generate_signal\<close>; the indicator cache only speeds it
  up. The New York clock and calendar (\<open>market_clock\<close>) and the platform's square root and power
  (\<open>libm\<close>) are arguments too. Saving the result row is left out.
\<close>

record ohlc =
  oh_timestamp :: time
  oh_open :: pyfloat
  oh_high :: pyfloat
  oh_low :: pyfloat
  oh_close :: pyfloat

record market_clock =
  mc_time :: "time \<Rightarrow> int \<times> int"
  mc_date :: "time \<Rightarrow> int"

record libm =
  lm_sqrt :: "pyfloat \<Rightarrow> pyfloat"
  lm_pow :: "pyfloat \<Rightarrow> pyfloat \<Rightarrow> pyfloat"

type_synonym strategy = "ohlc list \<Rightarrow> exn + trade_signal option"

definition bindE :: "exn + 'a \<Rightarrow> ('a \<Rightarrow> exn + 'b) \<Rightarrow> exn + 'b" where
  "bindE r f = (case r of Inl e \<Rightarrow> Inl e | Inr x \<Rightarrow> f x)"

lemma bindE_simps [simp]: "bindE (Inl e) f = Inl e" "bindE (Inr x) f = f x"
  by (simp_all add: bindE_def)

lemma bindE_Inr: "bindE r f = Inr y \<longleftrightarrow> (\<exists>x. r = Inr x \<and> f x = Inr y)"
  by (cases r) auto

subsection \<open>Trades and configuration\<close>

record open_trade =
  ot_entry_time :: time
  ot_entry_price :: pyfloat
  ot_quantity :: pyfloat
  ot_side :: order_side
  ot_stop_loss :: "pyfloat option"
  ot_take_profit :: "pyfloat option"
  ot_entry_notional :: pyfloat
  ot_entry_spread_usd :: pyfloat
  ot_entry_bar_index :: int
  ot_max_hold_bars :: "int option"

record engine_config =
  ec_initial_cash :: pyfloat
  ec_risk_per_trade_pct :: "pyfloat option"
  ec_leverage :: int
  ec_bars_per_year :: int
  ec_cost_model :: cost_model
  ec_allow_extended_hours :: bool
  ec_flatten_at_session_end :: bool
  ec_min_stop_session_atr_multiple :: pyfloat
  ec_short_entries :: bool
  ec_entry_delay_bars :: int

definition default_engine_config :: engine_config where
  "default_engine_config = \<lparr>ec_initial_cash = 10000, ec_risk_per_trade_pct = Some 1, ec_leverage = 1,
     ec_bars_per_year = DAILY_BARS_PER_YEAR, ec_cost_model = default_cost_model,
     ec_allow_extended_hours = False, ec_flatten_at_session_end = False,
     ec_min_stop_session_atr_multiple = 0, ec_short_entries = False, ec_entry_delay_bars = 0\<rparr>"

definition override_cash :: "engine_config \<Rightarrow> pyfloat \<Rightarrow> engine_config" where
  "override_cash cfg initial_cash = cfg\<lparr>ec_initial_cash := initial_cash\<rparr>"

subsection \<open>Sessions\<close>

definition last_bar_of_session :: "market_clock \<Rightarrow> time list \<Rightarrow> bool list" where
  "last_bar_of_session mc timestamps =
     (let session = map (mc_date mc) timestamps in
      map (\<lambda>i. if Suc i < length session then session ! i \<noteq> session ! Suc i else True) [0..<length session])"

definition SESSION_ATR_PERIOD :: nat where "SESSION_ATR_PERIOD = 14"

text \<open>The true ranges of the whole sessions in date order, and their shifted rolling mean.\<close>

definition session_dates :: "market_clock \<Rightarrow> ohlc list \<Rightarrow> int list" where
  "session_dates mc bars = sort (remdups (map (\<lambda>b. mc_date mc (oh_timestamp b)) bars))"

definition session_bars :: "market_clock \<Rightarrow> ohlc list \<Rightarrow> int \<Rightarrow> ohlc list" where
  "session_bars mc bars d = filter (\<lambda>b. mc_date mc (oh_timestamp b) = d) bars"

definition true_range :: "market_clock \<Rightarrow> ohlc list \<Rightarrow> int list \<Rightarrow> nat \<Rightarrow> pyfloat" where
  "true_range mc bars dates i =
     (let day = session_bars mc bars (dates ! i);
          high = Max (set (map oh_high day)); low = Min (set (map oh_low day))
      in if i = 0 then high - low
         else let prev_close = oh_close (last (session_bars mc bars (dates ! (i - 1))))
              in max (high - low) (max \<bar>high - prev_close\<bar> \<bar>low - prev_close\<bar>))"

definition session_atr :: "market_clock \<Rightarrow> nat \<Rightarrow> ohlc list \<Rightarrow> int \<Rightarrow> pyfloat option" where
  "session_atr mc atr_period bars d =
     (let dates = filter (\<lambda>e. e < d) (session_dates mc bars); n = min (length dates) atr_period
      in if n < max 3 (atr_period div 3) then None
         else Some (mean (map (true_range mc bars dates) [length dates - n..<length dates])))"

definition session_atr_by_bar :: "market_clock \<Rightarrow> nat \<Rightarrow> ohlc list \<Rightarrow> pyfloat option list" where
  "session_atr_by_bar mc atr_period bars =
     map (\<lambda>b. session_atr mc atr_period bars (mc_date mc (oh_timestamp b))) bars"

definition floored_stop_and_target ::
  "pyfloat \<Rightarrow> pyfloat \<Rightarrow> pyfloat \<Rightarrow> pyfloat option \<Rightarrow> pyfloat \<Rightarrow> pyfloat \<times> pyfloat option" where
  "floored_stop_and_target fill_price signal_price stop target min_distance =
     (let distance = fill_price - stop in
      if min_distance \<le> 0 \<or> min_distance \<le> distance then (stop, target)
      else let signal_risk = signal_price - stop;
               reward_to_risk = (case target of None \<Rightarrow> None
                 | Some t \<Rightarrow> if 0 < signal_risk then Some ((t - signal_price) / signal_risk) else None);
               new_stop = fill_price - min_distance;
               new_target = (case reward_to_risk of None \<Rightarrow> target | Some rr \<Rightarrow> Some (fill_price + rr * min_distance))
           in (new_stop, new_target))"

subsection \<open>Signals\<close>

definition valid_trade_plan ::
  "signal_action \<Rightarrow> pyfloat option \<Rightarrow> pyfloat option \<Rightarrow> pyfloat option \<Rightarrow> bool" where
  "valid_trade_plan action price stop_loss take_profit =
     (if \<not> (pos_opt price \<and> pos_opt stop_loss \<and> pos_opt take_profit) then False
      else case (price, stop_loss, take_profit) of
        (Some entry, Some stop, Some target) \<Rightarrow>
          (case action of Act_buy \<Rightarrow> stop < entry \<and> entry < target | Act_sell \<Rightarrow> target < entry \<and> entry < stop)
      | _ \<Rightarrow> True)"

definition opens_position :: "trade_signal \<Rightarrow> bool \<Rightarrow> bool" where
  "opens_position sig short =
     (if \<not> short then sig_action sig = Act_buy
      else sig_action sig = Act_sell \<and> dict_get (sig_metadata sig) ''signal_role'' = PStr ''entry_short'' \<and>
        sig_stop_loss sig \<noteq> None \<and> sig_take_profit sig \<noteq> None)"

text \<open>\<open>int(raw)\<close>, \<open>None\<close> where it raises a \<open>TypeError\<close> or \<open>ValueError\<close>.\<close>

definition int_of_text :: "string \<Rightarrow> int option" where
  "int_of_text s = (let (neg, u) = split_sign (py_strip s) in
     if u = [] \<or> \<not> list_all is_digit u then None else Some (if neg then - digits_val u else digits_val u))"

fun to_int :: "pyval \<Rightarrow> int option" where
  "to_int (PBool b) = Some (if b then 1 else 0)"
| "to_int (PInt i) = Some i"
| "to_int (PFloat x) = Some (if x < 0 then - \<lfloor>- x\<rfloor> else \<lfloor>x\<rfloor>)"
| "to_int (PStr s) = int_of_text s"
| "to_int _ = None"

definition max_hold_bars :: "trade_signal \<Rightarrow> int option" where
  "max_hold_bars sig =
     (let raw = dict_get (sig_metadata sig) ''max_hold_bars'' in
      if raw = PNone \<or> raw = PStr [] then None
      else case to_int raw of None \<Rightarrow> None | Some value \<Rightarrow> if 0 < value then Some value else None)"

text \<open>The signal of \<open>delay\<close> bars ago: \<open>recent\<close> holds the last evaluated bars.\<close>

type_synonym recent_signals = "(nat \<times> trade_signal option) list"

definition push_recent :: "nat \<Rightarrow> nat \<times> trade_signal option \<Rightarrow> recent_signals \<Rightarrow> recent_signals" where
  "push_recent delay x recent = drop (length recent - delay) recent @ [x]"

definition entry_signal :: "recent_signals \<Rightarrow> nat \<Rightarrow> nat \<Rightarrow> bool list \<Rightarrow> trade_signal option" where
  "entry_signal recent index delay session_ends =
     (let (signal_index, signal) = hd recent in
      if int signal_index \<noteq> int index - int delay then None
      else if delay \<noteq> 0 \<and> session_ends \<noteq> [] \<and> (\<exists>e \<in> set (take (index - signal_index) (drop signal_index session_ends)). e)
      then None
      else signal)"

subsection \<open>Exits\<close>

definition is_extended :: "market_clock \<Rightarrow> time \<Rightarrow> int \<Rightarrow> bool" where
  "is_extended mc bar_time bars_per_year =
     (if bars_per_year \<le> DAILY_BARS_PER_YEAR then False else is_extended_hours (mc_time mc) bar_time)"

record exit_action =
  xa_fill_price :: pyfloat
  xa_fill_time :: time
  xa_reason :: string

definition maybe_next_bar :: "ohlc list \<Rightarrow> nat \<Rightarrow> ohlc option" where
  "maybe_next_bar bars index = (if Suc index < length bars then Some (bars ! Suc index) else None)"

definition fill_at :: "cost_model \<Rightarrow> pyfloat \<Rightarrow> order_side \<Rightarrow> bool \<Rightarrow> time \<Rightarrow> string \<Rightarrow> exn + exit_action option" where
  "fill_at cm raw_fill side extended fill_time reason =
     bindE (exit_fill_price cm raw_fill side extended)
       (\<lambda>fill. Inr (Some \<lparr>xa_fill_price = fill, xa_fill_time = fill_time, xa_reason = reason\<rparr>))"

definition hold_elapsed :: "open_trade \<Rightarrow> nat \<Rightarrow> bool" where
  "hold_elapsed t bar_index = (case ot_max_hold_bars t of None \<Rightarrow> False
     | Some m \<Rightarrow> 0 \<le> ot_entry_bar_index t \<and> m \<le> int bar_index - ot_entry_bar_index t)"

definition bar_stop_hit :: "open_trade \<Rightarrow> ohlc \<Rightarrow> pyfloat option" where
  "bar_stop_hit t b = (case ot_stop_loss t of None \<Rightarrow> None | Some stop \<Rightarrow>
     (case ot_side t of Buy \<Rightarrow> if oh_low b \<le> stop then Some (min stop (oh_open b)) else None
      | Sell \<Rightarrow> if stop \<le> oh_high b then Some (max stop (oh_open b)) else None))"

definition bar_target_hit :: "open_trade \<Rightarrow> ohlc \<Rightarrow> pyfloat option" where
  "bar_target_hit t b = (case ot_take_profit t of None \<Rightarrow> None | Some target \<Rightarrow>
     (case ot_side t of Buy \<Rightarrow> if target \<le> oh_high b then Some (min target (oh_high b)) else None
      | Sell \<Rightarrow> if oh_low b \<le> target then Some (max target (oh_low b)) else None))"

definition opposite_signal :: "open_trade \<Rightarrow> trade_signal option \<Rightarrow> bool" where
  "opposite_signal t signal = (case signal of None \<Rightarrow> False
     | Some sig \<Rightarrow> sig_action sig = (case ot_side t of Sell \<Rightarrow> Act_buy | Buy \<Rightarrow> Act_sell))"

definition evaluate_exit ::
  "market_clock \<Rightarrow> cost_model \<Rightarrow> int \<Rightarrow> open_trade \<Rightarrow> ohlc \<Rightarrow> trade_signal option \<Rightarrow> nat \<Rightarrow> ohlc option
     \<Rightarrow> exn + exit_action option" where
  "evaluate_exit mc cm bars_per_year t b signal bar_index next_bar =
     (let bar_time = oh_timestamp b; extended = is_extended mc bar_time bars_per_year in
      if hold_elapsed t bar_index then fill_at cm (oh_open b) (ot_side t) extended bar_time ''time_stop''
      else case bar_stop_hit t b of
        Some raw_fill \<Rightarrow> fill_at cm raw_fill (ot_side t) extended bar_time ''stop_loss''
      | None \<Rightarrow> (case bar_target_hit t b of
          Some raw_fill \<Rightarrow> fill_at cm raw_fill (ot_side t) extended bar_time ''take_profit''
        | None \<Rightarrow> (if opposite_signal t signal then
            (case next_bar of None \<Rightarrow> Inr None
             | Some nb \<Rightarrow> fill_at cm (oh_open nb) (ot_side t) (is_extended mc (oh_timestamp nb) bars_per_year)
                 (oh_timestamp nb) ''strategy_exit'')
            else Inr None)))"

definition unadjusted_exit_price :: "cost_model \<Rightarrow> open_trade \<Rightarrow> pyfloat \<Rightarrow> pyfloat" where
  "unadjusted_exit_price cm t exit_price =
     (let drag = half_spread_fraction cm False in
      case ot_side t of Buy \<Rightarrow> exit_price / max (1 - drag) (1 / 10 ^ 9) | Sell \<Rightarrow> exit_price / max (1 + drag) (1 / 10 ^ 9))"

record closing =
  cl_realized :: pyfloat
  cl_cost_event :: cost_event
  cl_trade_record :: bt_trade
  cl_warning :: bool

definition close_trade :: "cost_model \<Rightarrow> open_trade \<Rightarrow> pyfloat \<Rightarrow> time \<Rightarrow> string \<Rightarrow> closing" where
  "close_trade cm t exit_price exit_time exit_reason =
     (let short = (ot_side t = Sell);
          exit_notional = ot_quantity t * exit_price;
          exit_spread_usd = \<bar>exit_notional - ot_quantity t * unadjusted_exit_price cm t exit_price\<bar>;
          holding_cost = (if short then short_holding_cost_usd cm else holding_cost_usd cm);
          financing_usd = holding_cost (ot_entry_notional t) (ot_entry_time t) exit_time;
          fx_usd = fx_round_trip_cost_usd cm (ot_entry_notional t);
          commission = 2 * commission_usd cm (ot_quantity t) + leg_fee_usd cm (ot_entry_notional t) + leg_fee_usd cm exit_notional;
          slippage = slippage_usd cm (ot_entry_notional t) + slippage_usd cm exit_notional;
          regulatory = regulatory_sell_fee_usd cm (if short then ot_entry_notional t else exit_notional) (ot_quantity t);
          proceeds = (if short then 2 * ot_entry_notional t - exit_notional else exit_notional);
          realized = proceeds - financing_usd - fx_usd - commission - slippage - regulatory;
          invested = ot_entry_notional t;
          pnl_usd = realized - invested;
          pnl_pct = (if invested \<noteq> 0 then (pnl_usd / invested) * 100 else 0);
          spread_usd = ot_entry_spread_usd t + exit_spread_usd
      in \<lparr>cl_realized = realized,
          cl_cost_event = \<lparr>ce_spread_usd = spread_usd, ce_financing_usd = financing_usd, ce_fx_usd = fx_usd,
            ce_commission_usd = commission, ce_slippage_usd = slippage, ce_regulatory_usd = regulatory\<rparr>,
          cl_trade_record = \<lparr>bt_entry_time = ot_entry_time t, bt_exit_time = exit_time,
            bt_entry_price = ot_entry_price t, bt_exit_price = exit_price, bt_quantity = ot_quantity t,
            bt_notional_usd = ot_entry_notional t, bt_pnl_usd = pnl_usd, bt_pnl_pct = pnl_pct,
            bt_reason = exit_reason, bt_spread_usd = py_round 6 spread_usd,
            bt_financing_usd = py_round 6 financing_usd, bt_fx_usd = py_round 6 fx_usd,
            bt_commission_usd = py_round 6 commission, bt_slippage_usd = py_round 6 slippage,
            bt_regulatory_usd = py_round 6 regulatory, bt_short = short\<rparr>,
          cl_warning = (75 < pnl_pct \<and> exit_reason \<noteq> ''take_profit'')\<rparr>)"

subsection \<open>Entries\<close>

definition size_position :: "pyfloat option \<Rightarrow> pyfloat \<Rightarrow> pyfloat \<Rightarrow> engine_config \<Rightarrow> pyfloat" where
  "size_position stop fill_price cash cfg =
     (case (ec_risk_per_trade_pct cfg, stop) of
        (Some risk_pct, Some s) \<Rightarrow>
          (if s \<le> 0 then if fill_price \<le> 0 then 0 else cash / fill_price
           else let stop_distance = \<bar>fill_price - s\<bar> in
             if stop_distance \<le> 0 then 0
             else let risk_budget = cash * (risk_pct / 100);
                      notional_cap = cash * of_int (max (ec_leverage cfg) 1);
                      raw_quantity = risk_budget / stop_distance;
                      notional = raw_quantity * fill_price
                  in if notional_cap < notional then notional_cap / fill_price else raw_quantity)
      | _ \<Rightarrow> (if fill_price \<le> 0 then 0 else cash / fill_price))"

definition entry_side :: "engine_config \<Rightarrow> order_side" where
  "entry_side cfg = (if ec_short_entries cfg then Sell else Buy)"

definition stop_and_target :: "engine_config \<Rightarrow> trade_signal \<Rightarrow> pyfloat \<Rightarrow> pyfloat \<Rightarrow> pyfloat option \<times> pyfloat option" where
  "stop_and_target cfg sig fill_price min_stop_distance =
     (case sig_stop_loss sig of
        Some s \<Rightarrow> if 0 < min_stop_distance \<and> entry_side cfg = Buy
          then let (ns, nt) = floored_stop_and_target fill_price
                 (case sig_price sig of None \<Rightarrow> fill_price | Some p \<Rightarrow> if p = 0 then fill_price else p)
                 s (sig_take_profit sig) min_stop_distance in (Some ns, nt)
          else (Some s, sig_take_profit sig)
      | None \<Rightarrow> (None, sig_take_profit sig))"

text \<open>A short fills below the reference price, so its spread cost is the negative gap.\<close>

definition entry_spread_cost :: "order_side \<Rightarrow> pyfloat \<Rightarrow> pyfloat" where
  "entry_spread_cost side entry_spread = (if side = Buy then max entry_spread 0 else \<bar>entry_spread\<bar>)"

definition attempt_entry ::
  "market_clock \<Rightarrow> engine_config \<Rightarrow> trade_signal \<Rightarrow> ohlc \<Rightarrow> pyfloat \<Rightarrow> nat \<Rightarrow> pyfloat
     \<Rightarrow> exn + (open_trade \<times> pyfloat) option" where
  "attempt_entry mc cfg sig next_bar cash fill_bar_index min_stop_distance =
     (if \<not> valid_trade_plan (sig_action sig) (sig_price sig) (sig_stop_loss sig) (sig_take_profit sig) then Inr None
      else let next_open = oh_open next_bar in
      if next_open \<le> 0 then Inr None
      else let next_time = oh_timestamp next_bar; extended = is_extended mc next_time (ec_bars_per_year cfg) in
      if extended \<and> \<not> ec_allow_extended_hours cfg then Inr None
      else let side = entry_side cfg in
      bindE (entry_fill_price (ec_cost_model cfg) next_open side extended) (\<lambda>fill_price.
        let (stop, target) = stop_and_target cfg sig fill_price min_stop_distance;
            quantity = size_position stop fill_price cash cfg
        in if quantity \<le> 0 then Inr None
           else let notional = quantity * fill_price in
             if \<not> accepts_position (ec_cost_model cfg) notional then Inr None
             else let entry_spread = notional - quantity * next_open in
               Inr (Some (\<lparr>ot_entry_time = next_time, ot_entry_price = fill_price, ot_quantity = quantity,
                   ot_side = side, ot_stop_loss = stop, ot_take_profit = target, ot_entry_notional = notional,
                   ot_entry_spread_usd = entry_spread_cost side entry_spread,
                   ot_entry_bar_index = int fill_bar_index, ot_max_hold_bars = max_hold_bars sig\<rparr>,
                 cash - notional))))"

definition mark_to_market :: "pyfloat \<Rightarrow> open_trade option \<Rightarrow> ohlc \<Rightarrow> pyfloat" where
  "mark_to_market cash pos b = (case pos of None \<Rightarrow> cash
     | Some t \<Rightarrow> (case ot_side t of
         Sell \<Rightarrow> cash + ot_entry_notional t + ot_quantity t * (ot_entry_price t - oh_close b)
       | Buy \<Rightarrow> cash + ot_quantity t * oh_close b))"

subsection \<open>The run\<close>

record engine_state =
  es_cash :: pyfloat
  es_open :: "open_trade option"
  es_equity_curve :: "pyfloat list"
  es_trades :: "bt_trade list"
  es_cost_events :: "cost_event list"
  es_warnings :: "string list"
  es_recent :: recent_signals

definition start_state :: "engine_config \<Rightarrow> engine_state" where
  "start_state cfg = \<lparr>es_cash = ec_initial_cash cfg, es_open = None, es_equity_curve = [], es_trades = [],
     es_cost_events = [], es_warnings = [], es_recent = []\<rparr>"

definition book_close :: "cost_model \<Rightarrow> open_trade \<Rightarrow> pyfloat \<Rightarrow> time \<Rightarrow> string \<Rightarrow> engine_state \<Rightarrow> engine_state" where
  "book_close cm t exit_price exit_time exit_reason st =
     (let c = close_trade cm t exit_price exit_time exit_reason in
      st\<lparr>es_cash := es_cash st + cl_realized c, es_trades := es_trades st @ [cl_trade_record c],
         es_cost_events := es_cost_events st @ [cl_cost_event c],
         es_warnings := es_warnings st @ (if cl_warning c then [''suspicious-trade-return''] else []),
         es_open := None\<rparr>)"

text \<open>What a run is made of: the configuration, the strategy, the sorted bars and the window start.\<close>

record backtest =
  bk_clock :: market_clock
  bk_config :: engine_config
  bk_strategy :: strategy
  bk_bars :: "ohlc list"
  bk_window_start :: "time option"

definition intraday :: "engine_config \<Rightarrow> bool" where
  "intraday cfg = (DAILY_BARS_PER_YEAR < ec_bars_per_year cfg)"

definition session_ends_of :: "backtest \<Rightarrow> bool list" where
  "session_ends_of bk = (if intraday (bk_config bk) \<and> ec_flatten_at_session_end (bk_config bk)
     then last_bar_of_session (bk_clock bk) (map oh_timestamp (bk_bars bk)) else [])"

definition session_atr_of :: "backtest \<Rightarrow> pyfloat option list" where
  "session_atr_of bk = (if intraday (bk_config bk) \<and> 0 < ec_min_stop_session_atr_multiple (bk_config bk)
     then session_atr_by_bar (bk_clock bk) SESSION_ATR_PERIOD (bk_bars bk) else [])"

definition delay_of :: "engine_config \<Rightarrow> nat" where
  "delay_of cfg = nat (ec_entry_delay_bars cfg)"

text \<open>Exit handling on a bar: the exit rules, then the flattening at the session end.\<close>

definition exit_step :: "backtest \<Rightarrow> nat \<Rightarrow> trade_signal option \<Rightarrow> engine_state \<Rightarrow> exn + engine_state" where
  "exit_step bk index signal st =
     (case es_open st of None \<Rightarrow> Inr st
      | Some t \<Rightarrow>
          bindE (evaluate_exit (bk_clock bk) (ec_cost_model (bk_config bk)) (ec_bars_per_year (bk_config bk)) t
                   (bk_bars bk ! index) signal index (maybe_next_bar (bk_bars bk) index))
            (\<lambda>action. case action of None \<Rightarrow> Inr st
             | Some x \<Rightarrow> Inr (book_close (ec_cost_model (bk_config bk)) t (xa_fill_price x) (xa_fill_time x) (xa_reason x) st)))"

definition at_session_end :: "backtest \<Rightarrow> nat \<Rightarrow> bool" where
  "at_session_end bk index = (session_ends_of bk \<noteq> [] \<and> session_ends_of bk ! index)"

definition flatten_step :: "backtest \<Rightarrow> nat \<Rightarrow> engine_state \<Rightarrow> exn + engine_state" where
  "flatten_step bk index st =
     (case es_open st of None \<Rightarrow> Inr st
      | Some t \<Rightarrow> if \<not> at_session_end bk index then Inr st
        else let b = bk_bars bk ! index in
          bindE (exit_fill_price (ec_cost_model (bk_config bk)) (oh_close b) (ot_side t) False)
            (\<lambda>fill. Inr (book_close (ec_cost_model (bk_config bk)) t fill (oh_timestamp b) ''session_close'' st)))"

text \<open>
  Entry handling. The flag of the result is false where the code leaves the bar with
  \<open>continue\<close>, before the equity point is recorded.
\<close>

definition min_stop_distance :: "backtest \<Rightarrow> nat \<Rightarrow> pyfloat" where
  "min_stop_distance bk index =
     (let atr = (if session_atr_of bk = [] then None else session_atr_of bk ! index) in
      case atr of None \<Rightarrow> 0 | Some a \<Rightarrow> if a = 0 then 0 else a * ec_min_stop_session_atr_multiple (bk_config bk))"

definition try_entry :: "backtest \<Rightarrow> nat \<Rightarrow> trade_signal \<Rightarrow> engine_state \<Rightarrow> exn + engine_state \<times> bool" where
  "try_entry bk index sg st =
     (case maybe_next_bar (bk_bars bk) index of
        None \<Rightarrow> Inr (st, False)
      | Some next_bar \<Rightarrow>
          bindE (attempt_entry (bk_clock bk) (bk_config bk) sg next_bar (es_cash st) (Suc index) (min_stop_distance bk index))
            (\<lambda>attempt. case attempt of None \<Rightarrow> Inr (st, False)
             | Some (t, cash_after) \<Rightarrow> Inr (st\<lparr>es_open := Some t, es_cash := cash_after, es_recent := []\<rparr>, True)))"

definition entry_step :: "backtest \<Rightarrow> nat \<Rightarrow> trade_signal option \<Rightarrow> engine_state \<Rightarrow> exn + engine_state \<times> bool" where
  "entry_step bk index signal st =
     (let delay = delay_of (bk_config bk);
          st1 = st\<lparr>es_recent := push_recent delay (index, if es_open st = None then signal else None) (es_recent st)\<rparr>
      in case entry_signal (es_recent st1) index delay (session_ends_of bk) of
           None \<Rightarrow> Inr (st1, True)
         | Some sg \<Rightarrow>
             if es_open st1 = None \<and> \<not> at_session_end bk index \<and> opens_position sg (ec_short_entries (bk_config bk))
             then try_entry bk index sg st1
             else Inr (st1, True))"

definition equity_step :: "backtest \<Rightarrow> nat \<Rightarrow> engine_state \<times> bool \<Rightarrow> engine_state" where
  "equity_step bk index r = (let (st, mark) = r in
     if mark then st\<lparr>es_equity_curve := es_equity_curve st @ [mark_to_market (es_cash st) (es_open st) (bk_bars bk ! index)]\<rparr>
     else st)"

definition evaluated :: "backtest \<Rightarrow> nat \<Rightarrow> bool" where
  "evaluated bk index = (case bk_window_start bk of None \<Rightarrow> True | Some t \<Rightarrow> t \<le> oh_timestamp (bk_bars bk ! index))"

definition bar_step :: "backtest \<Rightarrow> nat \<Rightarrow> engine_state \<Rightarrow> exn + engine_state" where
  "bar_step bk index st =
     (if \<not> evaluated bk index then Inr st
      else bindE (bk_strategy bk (take (Suc index) (bk_bars bk))) (\<lambda>signal.
           bindE (exit_step bk index signal st) (\<lambda>st1.
           bindE (flatten_step bk index st1) (\<lambda>st2.
           bindE (entry_step bk index signal st2) (\<lambda>r. Inr (equity_step bk index r))))))"

fun engine_loop :: "backtest \<Rightarrow> nat list \<Rightarrow> engine_state \<Rightarrow> exn + engine_state" where
  "engine_loop bk [] st = Inr st"
| "engine_loop bk (index # rest) st = bindE (bar_step bk index st) (engine_loop bk rest)"

text \<open>The end of the data: an open trade is closed at the final close and the last point corrected.\<close>

definition finish_run :: "backtest \<Rightarrow> engine_state \<Rightarrow> exn + engine_state" where
  "finish_run bk st =
     (case es_open st of None \<Rightarrow> Inr st
      | Some t \<Rightarrow> if bk_bars bk = [] then Inr st
        else let b = last (bk_bars bk) in
          bindE (exit_fill_price (ec_cost_model (bk_config bk)) (oh_close b) (ot_side t) False)
            (\<lambda>fill. let st1 = book_close (ec_cost_model (bk_config bk)) t fill (oh_timestamp b) ''end_of_data'' st
              in Inr (st1\<lparr>es_equity_curve :=
                (if es_equity_curve st1 = [] then [] else butlast (es_equity_curve st1) @ [es_cash st1])\<rparr>)))"

record engine_metrics =
  em_total_return_pct :: pyfloat
  em_annualized_return_pct :: pyfloat
  em_max_drawdown_pct :: pyfloat
  em_sharpe_like :: pyfloat
  em_bars_evaluated :: nat
  em_bars_per_year :: int
  em_summary :: trade_summary
  em_expectancy :: expectancy
  em_total_cost_usd :: pyfloat
  em_cost_drag_pct :: pyfloat

record backtest_result =
  br_initial_cash :: pyfloat
  br_ending_cash :: pyfloat
  br_metrics :: engine_metrics
  br_trades :: "bt_trade list"
  br_cost_breakdown :: cost_breakdown
  br_warnings :: "string list"

definition compile_metrics ::
  "libm \<Rightarrow> pyfloat list \<Rightarrow> bt_trade list \<Rightarrow> pyfloat \<Rightarrow> pyfloat \<Rightarrow> int \<Rightarrow> engine_metrics" where
  "compile_metrics lm equity_curve trades initial_cash ending_cash bars_per_year =
     (let periods = max (length equity_curve) 1 in
      \<lparr>em_total_return_pct = (if initial_cash \<noteq> 0 then ((ending_cash - initial_cash) / initial_cash) * 100 else 0),
       em_annualized_return_pct =
         (if initial_cash \<le> 0 then 0 else if ending_cash \<le> 0 then - 100
          else (lm_pow lm (ending_cash / initial_cash) (of_int bars_per_year / of_nat periods) - 1) * 100),
       em_max_drawdown_pct = compute_max_drawdown equity_curve,
       em_sharpe_like = compute_sharpe_like (lm_sqrt lm) equity_curve bars_per_year,
       em_bars_evaluated = periods, em_bars_per_year = bars_per_year,
       em_summary = summarize_trades trades, em_expectancy = compute_expectancy trades,
       em_total_cost_usd = 0, em_cost_drag_pct = 0\<rparr>)"

text \<open>\<open>_normalize_data\<close> on well-typed bars, and \<open>BacktestEngine.run\<close>.\<close>

definition normalize_data :: "ohlc list \<Rightarrow> ohlc list" where
  "normalize_data data = sort_key oh_timestamp data"

definition final_state :: "backtest \<Rightarrow> exn + engine_state" where
  "final_state bk =
     bindE (engine_loop bk [0..<length (bk_bars bk)] (start_state (bk_config bk))) (finish_run bk)"

definition result_of :: "libm \<Rightarrow> engine_config \<Rightarrow> engine_state \<Rightarrow> backtest_result" where
  "result_of lm cfg st =
     (let ending_cash = (if es_equity_curve st = [] then ec_initial_cash cfg else last (es_equity_curve st));
          metrics = compile_metrics lm (es_equity_curve st) (es_trades st) (ec_initial_cash cfg) ending_cash (ec_bars_per_year cfg);
          cost_breakdown = summarize_costs (es_cost_events st);
          total_cost_usd = cb_total_cost_usd cost_breakdown
      in \<lparr>br_initial_cash = ec_initial_cash cfg, br_ending_cash = ending_cash,
          br_metrics = metrics\<lparr>em_total_cost_usd := py_round 4 total_cost_usd,
            em_cost_drag_pct := (if 0 < ec_initial_cash cfg
              then py_round 6 ((total_cost_usd / ec_initial_cash cfg) * 100) else 0)\<rparr>,
          br_trades = es_trades st, br_cost_breakdown = cost_breakdown, br_warnings = es_warnings st\<rparr>)"

definition run :: "libm \<Rightarrow> market_clock \<Rightarrow> engine_config \<Rightarrow> strategy \<Rightarrow> ohlc list \<Rightarrow> time option \<Rightarrow> exn + backtest_result" where
  "run lm mc cfg strat data trade_window_start =
     bindE (final_state \<lparr>bk_clock = mc, bk_config = cfg, bk_strategy = strat, bk_bars = normalize_data data,
              bk_window_start = trade_window_start\<rparr>)
       (\<lambda>st. Inr (result_of lm cfg st))"

end
