(* ===== verification/Engine_Safety.thy ===== *)
theory Engine_Safety
  imports Engine
begin

text \<open>
  What the backtest engine guarantees: it never looks ahead, every entry fills after its
  signal, trades follow one another, the books balance, sizes are bounded, costs only hurt,
  and flattened intraday trades stay in their session. Each invariant of the bar loop is an
  interpretation of the locale \<open>run_invariant\<close>.
\<close>

subsection \<open>Case analysis of a bar\<close>

lemma bar_step_cases:
  assumes "bar_step bk i st = Inr st'"
  obtains (skipped) "\<not> evaluated bk i" "st' = st"
  | (ran) signal st1 st2 st3 mark where "evaluated bk i" "bk_strategy bk (take (Suc i) (bk_bars bk)) = Inr signal"
      "exit_step bk i signal st = Inr st1" "flatten_step bk i st1 = Inr st2"
      "entry_step bk i signal st2 = Inr (st3, mark)" "st' = equity_step bk i (st3, mark)"
  using assms by (auto simp: bar_step_def bindE_Inr split: if_splits)

lemma equity_step_simps [simp]:
  "es_cash (equity_step bk i (st, m)) = es_cash st" "es_open (equity_step bk i (st, m)) = es_open st"
  "es_trades (equity_step bk i (st, m)) = es_trades st" "es_recent (equity_step bk i (st, m)) = es_recent st"
  by (simp_all add: equity_step_def)

lemma book_close_simps [simp]:
  "es_cash (book_close cm t p x r st) = es_cash st + cl_realized (close_trade cm t p x r)"
  "es_open (book_close cm t p x r st) = None"
  "es_trades (book_close cm t p x r st) = es_trades st @ [cl_trade_record (close_trade cm t p x r)]"
  "es_recent (book_close cm t p x r st) = es_recent st"
  "es_equity_curve (book_close cm t p x r st) = es_equity_curve st"
  by (simp_all add: book_close_def Let_def)

text \<open>The three places where a trade is closed on a bar, as one relation.\<close>

definition closes_at :: "backtest \<Rightarrow> nat \<Rightarrow> open_trade \<Rightarrow> pyfloat \<Rightarrow> time \<Rightarrow> string \<Rightarrow> bool" where
  "closes_at bk i t price x reason =
     (\<exists>ext raw. exit_fill_price (ec_cost_model (bk_config bk)) raw (ot_side t) ext = Inr price \<and>
       (x = oh_timestamp (bk_bars bk ! i) \<and> reason \<noteq> ''strategy_exit'' \<or>
        reason = ''strategy_exit'' \<and> Suc i < length (bk_bars bk) \<and> x = oh_timestamp (bk_bars bk ! Suc i) \<and>
        raw = oh_open (bk_bars bk ! Suc i)))"

lemma closes_at_bar:
  "\<lbrakk>exit_fill_price (ec_cost_model (bk_config bk)) raw (ot_side t) ext = Inr p; r \<noteq> ''strategy_exit''\<rbrakk>
    \<Longrightarrow> closes_at bk i t p (oh_timestamp (bk_bars bk ! i)) r"
  by (auto simp: closes_at_def)

lemma closes_at_next:
  "\<lbrakk>exit_fill_price (ec_cost_model (bk_config bk)) (oh_open (bk_bars bk ! Suc i)) (ot_side t) ext = Inr p;
     Suc i < length (bk_bars bk)\<rbrakk>
    \<Longrightarrow> closes_at bk i t p (oh_timestamp (bk_bars bk ! Suc i)) ''strategy_exit''"
  by (auto simp: closes_at_def)

lemma fill_at_Some:
  "fill_at cm raw side ext x reason = Inr (Some a) \<longleftrightarrow>
     (\<exists>p. exit_fill_price cm raw side ext = Inr p \<and> a = \<lparr>xa_fill_price = p, xa_fill_time = x, xa_reason = reason\<rparr>)"
  by (auto simp: fill_at_def bindE_Inr)

lemma exit_step_cases:
  assumes "exit_step bk i signal st = Inr st1"
  obtains (kept) "st1 = st"
  | (closed) t p x r where "es_open st = Some t" "closes_at bk i t p x r"
      "st1 = book_close (ec_cost_model (bk_config bk)) t p x r st"
proof (cases "es_open st")
  case None
  then show ?thesis using assms kept by (simp add: exit_step_def)
next
  case (Some t)
  then obtain action where a: "evaluate_exit (bk_clock bk) (ec_cost_model (bk_config bk)) (ec_bars_per_year (bk_config bk)) t
      (bk_bars bk ! i) signal i (maybe_next_bar (bk_bars bk) i) = Inr action"
    "(case action of None \<Rightarrow> Inr st | Some x \<Rightarrow> Inr (book_close (ec_cost_model (bk_config bk)) t (xa_fill_price x)
        (xa_fill_time x) (xa_reason x) st)) = (Inr st1 :: exn + engine_state)"
    using assms by (auto simp: exit_step_def bindE_Inr)
  show ?thesis
  proof (cases action)
    case None
    then show ?thesis using a kept by simp
  next
    case (Some x)
    have "closes_at bk i t (xa_fill_price x) (xa_fill_time x) (xa_reason x)"
      using a(1) unfolding Some evaluate_exit_def
      by (auto simp: Let_def fill_at_Some maybe_next_bar_def split: if_splits option.splits
          intro: closes_at_bar closes_at_next)
    then show ?thesis using a Some \<open>es_open st = Some t\<close> closed by auto
  qed
qed

lemma flatten_step_cases:
  assumes "flatten_step bk i st = Inr st1"
  obtains (kept) "st1 = st" "es_open st = None \<or> \<not> at_session_end bk i"
  | (closed) t p x r where "es_open st = Some t" "closes_at bk i t p x r" "at_session_end bk i"
      "st1 = book_close (ec_cost_model (bk_config bk)) t p x r st"
proof (cases "es_open st = None \<or> \<not> at_session_end bk i")
  case True
  then show ?thesis using assms kept by (auto simp: flatten_step_def split: option.splits)
next
  case False
  then obtain t where t: "es_open st = Some t" "at_session_end bk i" by auto
  then obtain p where p: "exit_fill_price (ec_cost_model (bk_config bk)) (oh_close (bk_bars bk ! i)) (ot_side t) False = Inr p"
    "st1 = book_close (ec_cost_model (bk_config bk)) t p (oh_timestamp (bk_bars bk ! i)) ''session_close'' st"
    using assms by (auto simp: flatten_step_def bindE_Inr Let_def)
  then have "closes_at bk i t p (oh_timestamp (bk_bars bk ! i)) ''session_close''"
    by (auto intro: closes_at_bar)
  then show ?thesis using closed t p by blast
qed

lemma try_entry_cases:
  assumes "try_entry bk i sg st = Inr (st1, mark)"
  obtains (kept) "st1 = st" "\<not> mark"
  | (entered) t cash_after where "Suc i < length (bk_bars bk)" "mark"
      "attempt_entry (bk_clock bk) (bk_config bk) sg (bk_bars bk ! Suc i) (es_cash st) (Suc i) (min_stop_distance bk i)
        = Inr (Some (t, cash_after))"
      "st1 = st\<lparr>es_open := Some t, es_cash := cash_after, es_recent := []\<rparr>"
proof (cases "Suc i < length (bk_bars bk)")
  case False
  then show ?thesis using assms kept by (simp add: try_entry_def maybe_next_bar_def)
next
  case True
  then obtain attempt where a: "attempt_entry (bk_clock bk) (bk_config bk) sg (bk_bars bk ! Suc i) (es_cash st) (Suc i)
      (min_stop_distance bk i) = Inr attempt"
    "(case attempt of None \<Rightarrow> Inr (st, False) | Some (t, cash_after) \<Rightarrow>
       Inr (st\<lparr>es_open := Some t, es_cash := cash_after, es_recent := []\<rparr>, True)) = (Inr (st1, mark) :: exn + engine_state \<times> bool)"
    using assms by (auto simp: try_entry_def bindE_Inr maybe_next_bar_def)
  show ?thesis
  proof (cases attempt)
    case None
    then show ?thesis using a kept by simp
  next
    case (Some x)
    obtain t cash_after where "x = (t, cash_after)" by fastforce
    then show ?thesis using a Some entered [OF True] by simp
  qed
qed

definition pushed :: "backtest \<Rightarrow> nat \<Rightarrow> trade_signal option \<Rightarrow> engine_state \<Rightarrow> recent_signals" where
  "pushed bk i signal st =
     push_recent (delay_of (bk_config bk)) (i, if es_open st = None then signal else None) (es_recent st)"

lemma entry_step_cases:
  assumes "entry_step bk i signal st = Inr (st1, mark)"
  obtains (kept) "es_cash st1 = es_cash st" "es_open st1 = es_open st" "es_trades st1 = es_trades st"
      "es_recent st1 = pushed bk i signal st"
  | (entered) t sg cash_after where "es_open st = None" "\<not> at_session_end bk i" "Suc i < length (bk_bars bk)"
      "entry_signal (pushed bk i signal st) i (delay_of (bk_config bk)) (session_ends_of bk) = Some sg"
      "opens_position sg (ec_short_entries (bk_config bk))"
      "attempt_entry (bk_clock bk) (bk_config bk) sg (bk_bars bk ! Suc i) (es_cash st) (Suc i) (min_stop_distance bk i)
        = Inr (Some (t, cash_after))"
      "es_cash st1 = cash_after" "es_open st1 = Some t" "es_trades st1 = es_trades st" "es_recent st1 = []" "mark"
proof -
  let ?st = "st\<lparr>es_recent := pushed bk i signal st\<rparr>"
  show ?thesis
  proof (cases "entry_signal (pushed bk i signal st) i (delay_of (bk_config bk)) (session_ends_of bk)")
    case None
    then have "st1 = ?st" using assms by (simp add: entry_step_def Let_def pushed_def)
    then show ?thesis by (intro kept) simp_all
  next
    case (Some sg)
    show ?thesis
    proof (cases "es_open st = None \<and> \<not> at_session_end bk i \<and> opens_position sg (ec_short_entries (bk_config bk))")
      case False
      then have "st1 = ?st" using assms Some by (auto simp: entry_step_def Let_def pushed_def)
      then show ?thesis by (intro kept) simp_all
    next
      case True
      then have "try_entry bk i sg ?st = Inr (st1, mark)"
        using assms Some by (simp add: entry_step_def Let_def pushed_def)
      then show ?thesis
      proof (cases rule: try_entry_cases)
        case kept
        then show ?thesis by (intro that(1)) simp_all
      next
        case (entered t cash_after)
        with True Some show ?thesis by (intro that(2) [of sg t cash_after]) simp_all
      qed
    qed
  qed
qed

lemma attempt_entry_Some:
  assumes "attempt_entry mc cfg sg nb cash i msd = Inr (Some (t, cash_after))"
  shows "\<exists>ext. entry_fill_price (ec_cost_model cfg) (oh_open nb) (entry_side cfg) ext = Inr (ot_entry_price t)"
    "ot_entry_time t = oh_timestamp nb" "ot_entry_bar_index t = int i" "ot_side t = entry_side cfg"
    "ot_quantity t = size_position (ot_stop_loss t) (ot_entry_price t) cash cfg" "0 < ot_quantity t"
    "ot_entry_notional t = ot_quantity t * ot_entry_price t" "cash_after = cash - ot_entry_notional t"
    "accepts_position (ec_cost_model cfg) (ot_entry_notional t)"
proof -
  define ext where "ext = is_extended mc (oh_timestamp nb) (ec_bars_per_year cfg)"
  have pre: "valid_trade_plan (sig_action sg) (sig_price sg) (sig_stop_loss sg) (sig_take_profit sg)"
    "\<not> oh_open nb \<le> 0" "\<not> (ext \<and> \<not> ec_allow_extended_hours cfg)"
    using assms by (auto simp: attempt_entry_def Let_def ext_def split: if_splits)
  obtain fill where fill: "entry_fill_price (ec_cost_model cfg) (oh_open nb) (entry_side cfg) ext = Inr fill"
    using assms pre by (auto simp: attempt_entry_def Let_def bindE_Inr ext_def)
  obtain stop target where st: "stop_and_target cfg sg fill msd = (stop, target)" by fastforce
  define q where "q = size_position stop fill cash cfg"
  define spread where "spread = entry_spread_cost (entry_side cfg) (q * fill - q * oh_open nb)"
  have "(if q \<le> 0 then Inr None else if \<not> accepts_position (ec_cost_model cfg) (q * fill) then Inr None
     else Inr (Some (\<lparr>ot_entry_time = oh_timestamp nb, ot_entry_price = fill, ot_quantity = q, ot_side = entry_side cfg,
       ot_stop_loss = stop, ot_take_profit = target, ot_entry_notional = q * fill, ot_entry_spread_usd = spread,
       ot_entry_bar_index = int i, ot_max_hold_bars = max_hold_bars sg\<rparr>, cash - q * fill)))
     = (Inr (Some (t, cash_after)) :: exn + (open_trade \<times> pyfloat) option)"
    using assms(1) [symmetric] pre fill
    by (cases ext) (simp_all add: attempt_entry_def Let_def st q_def spread_def flip: ext_def)
  then have res: "0 < q" "accepts_position (ec_cost_model cfg) (q * fill)"
    "t = \<lparr>ot_entry_time = oh_timestamp nb, ot_entry_price = fill, ot_quantity = q, ot_side = entry_side cfg,
       ot_stop_loss = stop, ot_take_profit = target, ot_entry_notional = q * fill, ot_entry_spread_usd = spread,
       ot_entry_bar_index = int i, ot_max_hold_bars = max_hold_bars sg\<rparr>" "cash_after = cash - q * fill"
    by (simp_all split: if_splits)
  show "\<exists>ext. entry_fill_price (ec_cost_model cfg) (oh_open nb) (entry_side cfg) ext = Inr (ot_entry_price t)"
    using fill res(3) by auto
  show "ot_entry_time t = oh_timestamp nb" "ot_entry_bar_index t = int i" "ot_side t = entry_side cfg"
    "ot_quantity t = size_position (ot_stop_loss t) (ot_entry_price t) cash cfg" "0 < ot_quantity t"
    "ot_entry_notional t = ot_quantity t * ot_entry_price t" "cash_after = cash - ot_entry_notional t"
    "accepts_position (ec_cost_model cfg) (ot_entry_notional t)"
    using res by (simp_all add: q_def)
qed

subsection \<open>Invariants of the loop\<close>

locale run_invariant =
  fixes inv :: "backtest \<Rightarrow> nat \<Rightarrow> engine_state \<Rightarrow> bool"
  assumes start: "inv bk 0 (start_state (bk_config bk))"
    and step: "\<lbrakk>inv bk i st; i < length (bk_bars bk); bar_step bk i st = Inr st'\<rbrakk> \<Longrightarrow> inv bk (Suc i) st'"
begin

lemma loop: "\<lbrakk>engine_loop bk [i..<n] st = Inr st'; i \<le> n; n \<le> length (bk_bars bk); inv bk i st\<rbrakk> \<Longrightarrow> inv bk n st'"
proof (induction "n - i" arbitrary: i st)
  case (Suc k)
  then have cons: "[i..<n] = i # [Suc i..<n]" by (simp add: upt_rec)
  from Suc.prems(1) obtain s where s: "bar_step bk i st = Inr s" "engine_loop bk [Suc i..<n] s = Inr st'"
    unfolding cons by (auto simp: bindE_Inr)
  have "inv bk (Suc i) s" using step Suc.prems Suc.hyps(2) s(1) by simp
  then show ?case using Suc.hyps(1) [of "Suc i" s] Suc.hyps(2) Suc.prems s(2) by simp
qed simp

lemma whole_run:
  assumes "final_state bk = Inr st"
  obtains st' where "inv bk (length (bk_bars bk)) st'" "finish_run bk st' = Inr st"
  using assms loop [of bk 0 "length (bk_bars bk)" "start_state (bk_config bk)"] start
  by (auto simp: final_state_def bindE_Inr)

end

subsection \<open>The books balance\<close>

definition held_notional :: "open_trade option \<Rightarrow> pyfloat" where
  "held_notional pos = (case pos of None \<Rightarrow> 0 | Some t \<Rightarrow> ot_entry_notional t)"

definition booked_pnl :: "engine_state \<Rightarrow> pyfloat" where
  "booked_pnl st = sum_list (map bt_pnl_usd (es_trades st))"

definition books_balance :: "backtest \<Rightarrow> nat \<Rightarrow> engine_state \<Rightarrow> bool" where
  "books_balance bk i st =
     (es_cash st + held_notional (es_open st) = ec_initial_cash (bk_config bk) + booked_pnl st)"

lemma close_trade_pnl [simp]:
  "bt_pnl_usd (cl_trade_record (close_trade cm t p x r)) = cl_realized (close_trade cm t p x r) - ot_entry_notional t"
  by (simp add: close_trade_def Let_def)

lemma book_close_balances:
  "books_balance bk i st \<Longrightarrow> es_open st = Some t \<Longrightarrow> books_balance bk j (book_close cm t p x r st)"
  by (simp add: books_balance_def held_notional_def booked_pnl_def)

interpretation books: run_invariant books_balance
proof
  show "books_balance bk 0 (start_state (bk_config bk))" for bk
    by (simp add: books_balance_def start_state_def held_notional_def booked_pnl_def)
next
  fix bk i st st'
  assume inv: "books_balance bk i st" and "i < length (bk_bars bk)" and "bar_step bk i st = Inr st'"
  from this(3) show "books_balance bk (Suc i) st'"
  proof (cases rule: bar_step_cases)
    case skipped
    then show ?thesis using inv by (simp add: books_balance_def)
  next
    case (ran signal st1 st2 st3 mark)
    have 1: "books_balance bk i st1"
      using ran(3) by (cases rule: exit_step_cases) (auto intro: book_close_balances [OF inv] simp: inv)
    have 2: "books_balance bk i st2"
      using ran(4) by (cases rule: flatten_step_cases) (auto intro: book_close_balances [OF 1] simp: 1)
    have "books_balance bk i st3"
      using ran(5)
    proof (cases rule: entry_step_cases)
      case kept
      then show ?thesis using 2 by (simp add: books_balance_def booked_pnl_def)
    next
      case (entered t sg cash_after)
      from attempt_entry_Some(8) [OF entered(6)] show ?thesis
        using 2 entered by (simp add: books_balance_def held_notional_def booked_pnl_def)
    qed
    then show ?thesis using ran(6) by (simp add: books_balance_def booked_pnl_def)
  qed
qed

lemma finish_run_cases:
  assumes "finish_run bk st = Inr st'"
  obtains (flat) "es_open st = None" "st' = st"
  | (no_bars) "bk_bars bk = []" "st' = st"
  | (closed) t p where "es_open st = Some t" "bk_bars bk \<noteq> []"
      "exit_fill_price (ec_cost_model (bk_config bk)) (oh_close (last (bk_bars bk))) (ot_side t) False = Inr p"
      "es_open st' = None" "es_recent st' = es_recent st"
      "es_cash st' = es_cash (book_close (ec_cost_model (bk_config bk)) t p (oh_timestamp (last (bk_bars bk))) ''end_of_data'' st)"
      "es_trades st' = es_trades (book_close (ec_cost_model (bk_config bk)) t p (oh_timestamp (last (bk_bars bk))) ''end_of_data'' st)"
      "es_equity_curve st' = (if es_equity_curve st = [] then [] else butlast (es_equity_curve st) @ [es_cash st'])"
proof (cases "es_open st")
  case None
  then have "st' = st" using assms by (simp add: finish_run_def)
  then show ?thesis using None flat by blast
next
  case (Some t)
  show ?thesis
  proof (cases "bk_bars bk = []")
    case True
    then have "st' = st" using assms Some by (simp add: finish_run_def)
    then show ?thesis using True no_bars by blast
  next
    case False
    obtain p where p: "exit_fill_price (ec_cost_model (bk_config bk)) (oh_close (last (bk_bars bk))) (ot_side t) False = Inr p"
      "st' = (let st1 = book_close (ec_cost_model (bk_config bk)) t p (oh_timestamp (last (bk_bars bk))) ''end_of_data'' st
         in st1\<lparr>es_equity_curve := (if es_equity_curve st1 = [] then [] else butlast (es_equity_curve st1) @ [es_cash st1])\<rparr>)"
      using assms Some False by (simp add: finish_run_def bindE_Inr Let_def) blast
    show ?thesis
      by (rule closed [OF Some False p(1)]) (simp_all add: p(2) Let_def del: if_split)
  qed
qed

lemma open_needs_bars:
  assumes "engine_loop bk [0..<length (bk_bars bk)] (start_state (bk_config bk)) = Inr st" "bk_bars bk = []"
  shows "es_open st = None"
  using assms by (auto simp: start_state_def)

lemma final_books:
  assumes "final_state bk = Inr st"
  shows "es_open st = None" "es_cash st = ec_initial_cash (bk_config bk) + booked_pnl st"
proof -
  from assms obtain st' where st': "engine_loop bk [0..<length (bk_bars bk)] (start_state (bk_config bk)) = Inr st'"
    "finish_run bk st' = Inr st"
    by (auto simp: final_state_def bindE_Inr)
  have inv: "books_balance bk (length (bk_bars bk)) st'"
    using books.loop [OF st'(1)] books.start by simp
  from st'(2) have "es_open st = None \<and> books_balance bk (length (bk_bars bk)) st"
  proof (cases rule: finish_run_cases)
    case flat
    then show ?thesis using inv by simp
  next
    case no_bars
    then show ?thesis using inv open_needs_bars [OF st'(1)] by simp
  next
    case (closed t p)
    then show ?thesis
      using book_close_balances [OF inv closed(1), of "length (bk_bars bk)"]
      by (simp add: books_balance_def booked_pnl_def)
  qed
  then have flat: "es_open st = None" and bal: "books_balance bk (length (bk_bars bk)) st" by blast+
  show "es_open st = None" by (rule flat)
  show "es_cash st = ec_initial_cash (bk_config bk) + booked_pnl st"
    using bal by (simp add: books_balance_def held_notional_def flat)
qed

subsection \<open>Trades follow one another\<close>

lemma bar_step_parts:
  assumes "bar_step bk i st = Inr st'"
  obtains (skipped) "\<not> evaluated bk i" "st' = st"
  | (held) signal st3 mark where "evaluated bk i" "bk_strategy bk (take (Suc i) (bk_bars bk)) = Inr signal"
      "es_open st = None \<or> \<not> at_session_end bk i"
      "entry_step bk i signal st = Inr (st3, mark)" "st' = equity_step bk i (st3, mark)"
  | (closed) signal t p x r st3 mark where "evaluated bk i" "bk_strategy bk (take (Suc i) (bk_bars bk)) = Inr signal"
      "es_open st = Some t" "closes_at bk i t p x r"
      "entry_step bk i signal (book_close (ec_cost_model (bk_config bk)) t p x r st) = Inr (st3, mark)"
      "st' = equity_step bk i (st3, mark)"
  using assms
proof (cases rule: bar_step_cases)
  case (ran signal st1 st2 st3 mark)
  show ?thesis
    using ran(3)
  proof (cases rule: exit_step_cases)
    case kept
    show ?thesis
      using ran(4)
    proof (cases rule: flatten_step_cases)
      case k2: kept
      show ?thesis using held [OF ran(1,2)] ran(5,6) kept k2 by blast
    next
      case (closed t p x r)
      show ?thesis using that(3) [OF ran(1,2)] ran(5,6) kept closed by blast
    qed
  next
    case (closed t p x r)
    have "st2 = st1" using ran(4) closed(3) by (simp add: flatten_step_def)
    then show ?thesis using that(3) [OF ran(1,2)] ran(5,6) closed by blast
  qed
qed

definition bar_time :: "backtest \<Rightarrow> nat \<Rightarrow> time" where
  "bar_time bk i = oh_timestamp (bk_bars bk ! i)"

definition sorted_bars :: "backtest \<Rightarrow> bool" where
  "sorted_bars bk = sorted (map oh_timestamp (bk_bars bk))"

lemma bar_time_mono: "sorted_bars bk \<Longrightarrow> i \<le> j \<Longrightarrow> j < length (bk_bars bk) \<Longrightarrow> bar_time bk i \<le> bar_time bk j"
  by (auto simp: sorted_bars_def bar_time_def dest: sorted_nth_mono)

definition timed_by :: "backtest \<Rightarrow> nat \<Rightarrow> time \<Rightarrow> bool" where
  "timed_by bk i t = (\<exists>j \<le> i. j < length (bk_bars bk) \<and> t = bar_time bk j)"

lemma timed_by_Suc: "timed_by bk i t \<Longrightarrow> timed_by bk (Suc i) t"
  by (auto simp: timed_by_def intro: le_SucI)

lemma timed_by_le: "\<lbrakk>timed_by bk i t; sorted_bars bk; i \<le> j; j < length (bk_bars bk)\<rbrakk> \<Longrightarrow> t \<le> bar_time bk j"
  by (auto simp: timed_by_def intro!: bar_time_mono)

lemma closes_at_time:
  assumes "closes_at bk i t p x r" "i < length (bk_bars bk)"
  shows "timed_by bk (Suc i) x" "sorted_bars bk \<Longrightarrow> bar_time bk i \<le> x"
proof -
  consider "x = bar_time bk i" | "Suc i < length (bk_bars bk)" "x = bar_time bk (Suc i)"
    using assms(1) by (auto simp: closes_at_def bar_time_def)
  then show "timed_by bk (Suc i) x"
    unfolding timed_by_def using assms(2) by cases (blast intro: le_SucI)+
  show "bar_time bk i \<le> x" if "sorted_bars bk"
    using assms that by (auto simp: closes_at_def bar_time_def [symmetric] intro!: bar_time_mono)
qed

definition timeline :: "backtest \<Rightarrow> nat \<Rightarrow> engine_state \<Rightarrow> bool" where
  "timeline bk i st = (sorted_bars bk \<longrightarrow>
     sorted_wrt (\<lambda>a b. bt_exit_time a \<le> bt_entry_time b) (es_trades st) \<and>
     (\<forall>tr \<in> set (es_trades st). bt_entry_time tr \<le> bt_exit_time tr \<and> timed_by bk i (bt_exit_time tr)) \<and>
     (\<forall>t. es_open st = Some t \<longrightarrow> timed_by bk i (ot_entry_time t) \<and>
       (\<forall>tr \<in> set (es_trades st). bt_exit_time tr \<le> ot_entry_time t)))"

lemma close_trade_times [simp]:
  "bt_entry_time (cl_trade_record (close_trade cm t p x r)) = ot_entry_time t"
  "bt_exit_time (cl_trade_record (close_trade cm t p x r)) = x"
  "bt_reason (cl_trade_record (close_trade cm t p x r)) = r"
  "bt_entry_price (cl_trade_record (close_trade cm t p x r)) = ot_entry_price t"
  "bt_exit_price (cl_trade_record (close_trade cm t p x r)) = p"
  "bt_quantity (cl_trade_record (close_trade cm t p x r)) = ot_quantity t"
  "bt_notional_usd (cl_trade_record (close_trade cm t p x r)) = ot_entry_notional t"
  "bt_short (cl_trade_record (close_trade cm t p x r)) = (ot_side t = Sell)"
  by (simp_all add: close_trade_def Let_def)

lemma timeline_Suc: "timeline bk i st \<Longrightarrow> timeline bk (Suc i) st"
  by (auto simp: timeline_def intro: timed_by_Suc)

lemma timeline_close:
  assumes "timeline bk i st" "es_open st = Some t" "timed_by bk (Suc i) x" "sorted_bars bk \<Longrightarrow> ot_entry_time t \<le> x"
  shows "timeline bk (Suc i) (book_close cm t p x r st)"
  using assms by (auto simp: timeline_def sorted_wrt_append intro: timed_by_Suc)

lemma timeline_entry:
  assumes "timeline bk (Suc i) st" "Suc i < length (bk_bars bk)" "ot_entry_time t = bar_time bk (Suc i)"
    "es_open st' = Some t" "es_trades st' = es_trades st"
  shows "timeline bk (Suc i) st'"
  using assms by (auto simp: timeline_def timed_by_def intro!: bar_time_mono)

lemma timeline_entry_step:
  assumes "timeline bk (Suc i) st" "entry_step bk i signal st = Inr (st3, mark)"
  shows "timeline bk (Suc i) (equity_step bk i (st3, mark))"
  using assms(2)
proof (cases rule: entry_step_cases)
  case kept
  then show ?thesis using assms(1) by (simp add: timeline_def)
next
  case (entered t sg cash_after)
  then show ?thesis
    using attempt_entry_Some(2) [OF entered(6)] by (intro timeline_entry [OF assms(1), where t = t]) (simp_all add: bar_time_def)
qed

interpretation times: run_invariant timeline
proof
  show "timeline bk 0 (start_state (bk_config bk))" for bk by (simp add: timeline_def start_state_def)
next
  fix bk i st st'
  assume inv: "timeline bk i st" and i: "i < length (bk_bars bk)" and "bar_step bk i st = Inr st'"
  from this(3) show "timeline bk (Suc i) st'"
  proof (cases rule: bar_step_parts)
    case skipped
    then show ?thesis using timeline_Suc [OF inv] by simp
  next
    case (held signal st3 mark)
    then show ?thesis using timeline_entry_step [OF timeline_Suc [OF inv]] by simp
  next
    case (closed signal t p x r st3 mark)
    have "ot_entry_time t \<le> x" if "sorted_bars bk"
      using inv closed(3) that timed_by_le [of bk i "ot_entry_time t" i] closes_at_time(2) [OF closed(4) i] i
      by (force simp: timeline_def)
    then have "timeline bk (Suc i) (book_close (ec_cost_model (bk_config bk)) t p x r st)"
      using timeline_close [OF inv closed(3) closes_at_time(1) [OF closed(4) i]] by blast
    then show ?thesis using timeline_entry_step closed(5,6) by blast
  qed
qed

text \<open>The run of the service as a run of the loop over the sorted bars.\<close>

definition bt_of :: "market_clock \<Rightarrow> engine_config \<Rightarrow> strategy \<Rightarrow> ohlc list \<Rightarrow> time option \<Rightarrow> backtest" where
  "bt_of mc cfg strat data ws = \<lparr>bk_clock = mc, bk_config = cfg, bk_strategy = strat,
     bk_bars = normalize_data data, bk_window_start = ws\<rparr>"

lemma bt_of_simps [simp]:
  "bk_clock (bt_of mc cfg strat data ws) = mc" "bk_config (bt_of mc cfg strat data ws) = cfg"
  "bk_strategy (bt_of mc cfg strat data ws) = strat" "bk_bars (bt_of mc cfg strat data ws) = normalize_data data"
  "bk_window_start (bt_of mc cfg strat data ws) = ws"
  by (simp_all add: bt_of_def)

lemma sorted_bt_of [simp]: "sorted_bars (bt_of mc cfg strat data ws)"
  by (simp add: sorted_bars_def normalize_data_def)

lemma run_final:
  assumes "run lm mc cfg strat data ws = Inr res"
  obtains st where "final_state (bt_of mc cfg strat data ws) = Inr st" "res = result_of lm cfg st" "br_trades res = es_trades st"
  using assms by (auto simp: run_def bindE_Inr bt_of_def result_of_def Let_def)

lemma final_timeline:
  assumes "final_state bk = Inr st" "sorted_bars bk"
  shows "sorted_wrt (\<lambda>a b. bt_exit_time a \<le> bt_entry_time b) (es_trades st)"
    "tr \<in> set (es_trades st) \<Longrightarrow> bt_entry_time tr \<le> bt_exit_time tr"
    "tr \<in> set (es_trades st) \<Longrightarrow> bt_exit_time tr \<in> oh_timestamp ` set (bk_bars bk)"
proof -
  from assms(1) obtain st' where st': "timeline bk (length (bk_bars bk)) st'" "finish_run bk st' = Inr st"
    by (rule times.whole_run)
  have "timeline bk (Suc (length (bk_bars bk))) st"
    using st'(2)
  proof (cases rule: finish_run_cases)
    case (closed t p)
    let ?b = "oh_timestamp (last (bk_bars bk))"
    have last_bar: "?b = bar_time bk (length (bk_bars bk) - 1)"
      using closed(2) by (simp add: bar_time_def last_conv_nth)
    have "timed_by bk (Suc (length (bk_bars bk))) ?b"
      using closed(2) last_bar by (auto simp: timed_by_def intro!: exI [of _ "length (bk_bars bk) - 1"])
    moreover have "ot_entry_time t \<le> ?b" if sb: "sorted_bars bk"
    proof -
      obtain j where "j < length (bk_bars bk)" "ot_entry_time t = bar_time bk j"
        using st'(1) closed(1) sb by (auto simp: timeline_def timed_by_def)
      then show ?thesis using bar_time_mono [OF sb, of j "length (bk_bars bk) - 1"] last_bar by simp
    qed
    ultimately have "timeline bk (Suc (length (bk_bars bk)))
        (book_close (ec_cost_model (bk_config bk)) t p ?b ''end_of_data'' st')"
      using timeline_close [OF st'(1) closed(1)] by blast
    then show ?thesis using closed(4,7) by (simp add: timeline_def)
  qed (use timeline_Suc [OF st'(1)] in auto)
  then show "sorted_wrt (\<lambda>a b. bt_exit_time a \<le> bt_entry_time b) (es_trades st)"
    "tr \<in> set (es_trades st) \<Longrightarrow> bt_entry_time tr \<le> bt_exit_time tr"
    "tr \<in> set (es_trades st) \<Longrightarrow> bt_exit_time tr \<in> oh_timestamp ` set (bk_bars bk)"
    using assms(2) by (auto simp: timeline_def timed_by_def bar_time_def)
qed

text \<open>C23: Every backtest that returns holds at most one position at a time: its trades are listed
in time order, no trade exits before it enters, and none enters before all earlier ones have
exited.\<close>

theorem trades_never_overlap:
  assumes "run lm mc cfg strat data ws = Inr res"
  shows "sorted_wrt (\<lambda>a b. bt_exit_time a \<le> bt_entry_time b) (br_trades res) \<and>
    (\<forall>tr \<in> set (br_trades res). bt_entry_time tr \<le> bt_exit_time tr)"
proof -
  from assms obtain st where "final_state (bt_of mc cfg strat data ws) = Inr st" "br_trades res = es_trades st"
    by (rule run_final)
  then show ?thesis using final_timeline [of "bt_of mc cfg strat data ws" st] by simp
qed

subsection \<open>Entries follow their signals\<close>

definition signalled :: "backtest \<Rightarrow> time \<Rightarrow> pyfloat \<Rightarrow> bool" where
  "signalled bk t price = (\<exists>k sg ext. evaluated bk k \<and>
     bk_strategy bk (take (Suc k) (bk_bars bk)) = Inr (Some sg) \<and>
     opens_position sg (ec_short_entries (bk_config bk)) \<and>
     Suc (k + delay_of (bk_config bk)) < length (bk_bars bk) \<and>
     t = bar_time bk (Suc (k + delay_of (bk_config bk))) \<and>
     entry_fill_price (ec_cost_model (bk_config bk)) (oh_open (bk_bars bk ! Suc (k + delay_of (bk_config bk))))
       (entry_side (bk_config bk)) ext = Inr price)"

definition remembered :: "backtest \<Rightarrow> recent_signals \<Rightarrow> bool" where
  "remembered bk recent = (\<forall>k sg. (k, Some sg) \<in> set recent \<longrightarrow>
     evaluated bk k \<and> bk_strategy bk (take (Suc k) (bk_bars bk)) = Inr (Some sg))"

definition sound_position :: "backtest \<Rightarrow> open_trade \<Rightarrow> bool" where
  "sound_position bk t = (signalled bk (ot_entry_time t) (ot_entry_price t) \<and> 0 < ot_quantity t \<and>
     ot_side t = entry_side (bk_config bk) \<and> ot_entry_notional t = ot_quantity t * ot_entry_price t)"

definition gross_pnl :: "bt_trade \<Rightarrow> pyfloat" where
  "gross_pnl tr = bt_quantity tr * (if bt_short tr then bt_entry_price tr - bt_exit_price tr
     else bt_exit_price tr - bt_entry_price tr)"

definition sound_trade :: "backtest \<Rightarrow> bt_trade \<Rightarrow> bool" where
  "sound_trade bk tr = (signalled bk (bt_entry_time tr) (bt_entry_price tr) \<and> 0 < bt_quantity tr \<and>
     bt_short tr = ec_short_entries (bk_config bk) \<and>
     (charging (ec_cost_model (bk_config bk)) \<longrightarrow> 0 < bt_exit_price tr \<and> bt_pnl_usd tr \<le> gross_pnl tr))"

definition provenance :: "backtest \<Rightarrow> nat \<Rightarrow> engine_state \<Rightarrow> bool" where
  "provenance bk i st = (remembered bk (es_recent st) \<and> (\<forall>tr \<in> set (es_trades st). sound_trade bk tr) \<and>
     (\<forall>t. es_open st = Some t \<longrightarrow> sound_position bk t))"

lemma realized_le_proceeds:
  "charging cm \<Longrightarrow> cl_realized (close_trade cm t p x r) \<le>
     (if ot_side t = Sell then 2 * ot_entry_notional t - ot_quantity t * p else ot_quantity t * p)"
proof -
  assume ok: "charging cm"
  let ?n = "ot_entry_notional t" and ?x = "ot_quantity t * p"
  show ?thesis
    using charges_nonneg(1,2) [OF ok, of ?n "ot_entry_time t" x] charges_nonneg(3) [of cm ?n]
      charges_nonneg(4) [OF ok, of "ot_quantity t"] charges_nonneg(5) [OF ok, of ?n] charges_nonneg(5) [OF ok, of ?x]
      charges_nonneg(6) [of cm ?n] charges_nonneg(6) [of cm ?x]
      charges_nonneg(7) [of cm ?n "ot_quantity t"] charges_nonneg(7) [of cm ?x "ot_quantity t"]
    by (cases "ot_side t") (simp_all add: close_trade_def Let_def)
qed

lemma sound_close:
  assumes "sound_position bk t" "exit_fill_price (ec_cost_model (bk_config bk)) raw (ot_side t) ext = Inr p"
  shows "sound_trade bk (cl_trade_record (close_trade (ec_cost_model (bk_config bk)) t p x r))"
proof -
  have "bt_pnl_usd (cl_trade_record (close_trade (ec_cost_model (bk_config bk)) t p x r))
      \<le> gross_pnl (cl_trade_record (close_trade (ec_cost_model (bk_config bk)) t p x r))"
    if "charging (ec_cost_model (bk_config bk))"
    using realized_le_proceeds [OF that, of t p x r] assms(1)
    by (auto simp: gross_pnl_def sound_position_def algebra_simps split: if_splits)
  then show ?thesis
    using assms exit_fill_adverse(1) by (auto simp: sound_trade_def sound_position_def entry_side_def)
qed

lemma remembered_pushed:
  assumes "remembered bk (es_recent st)" "evaluated bk i" "bk_strategy bk (take (Suc i) (bk_bars bk)) = Inr signal"
  shows "remembered bk (pushed bk i signal st)"
  using assms by (auto simp: remembered_def pushed_def push_recent_def dest: in_set_dropD split: if_splits)

lemma entry_signal_Some:
  assumes "entry_signal recent i delay ends = Some sg" "recent \<noteq> []"
  shows "\<exists>k. (k, Some sg) \<in> set recent \<and> i = k + delay"
proof -
  obtain k s where ks: "hd recent = (k, s)" by fastforce
  then have "(k, s) \<in> set recent" using assms(2) by (metis hd_in_set)
  moreover have "s = Some sg \<and> i = k + delay"
    using assms(1) ks by (auto simp: entry_signal_def split: if_splits)
  ultimately show ?thesis by auto
qed

lemma provenance_entry_step:
  assumes inv: "provenance bk i st" and ev: "evaluated bk i"
    and sig: "bk_strategy bk (take (Suc i) (bk_bars bk)) = Inr signal"
    and e: "entry_step bk i signal st = Inr (st3, mark)"
  shows "provenance bk j (equity_step bk i (st3, mark))"
proof -
  have rem: "remembered bk (pushed bk i signal st)"
    using remembered_pushed [OF _ ev sig] inv by (simp add: provenance_def)
  from e show ?thesis
  proof (cases rule: entry_step_cases)
    case kept
    then show ?thesis using inv rem by (simp add: provenance_def)
  next
    case (entered t sg cash_after)
    obtain k where k: "(k, Some sg) \<in> set (pushed bk i signal st)" "i = k + delay_of (bk_config bk)"
      using entry_signal_Some [OF entered(4)] by (auto simp: pushed_def push_recent_def)
    note a = attempt_entry_Some [OF entered(6)]
    have "signalled bk (ot_entry_time t) (ot_entry_price t)"
      unfolding signalled_def
      using a(1,2) k rem entered(3,5) by (auto simp: remembered_def bar_time_def)
    then have "sound_position bk t" using a by (simp add: sound_position_def)
    then show ?thesis using inv entered by (simp add: provenance_def remembered_def)
  qed
qed

interpretation origin: run_invariant provenance
proof
  show "provenance bk 0 (start_state (bk_config bk))" for bk
    by (simp add: provenance_def start_state_def remembered_def)
next
  fix bk i st st'
  assume inv: "provenance bk i st" and i: "i < length (bk_bars bk)" and "bar_step bk i st = Inr st'"
  from this(3) show "provenance bk (Suc i) st'"
  proof (cases rule: bar_step_parts)
    case skipped
    then show ?thesis using inv by (simp add: provenance_def)
  next
    case (held signal st3 mark)
    then show ?thesis using provenance_entry_step [OF inv] by blast
  next
    case (closed signal t p x r st3 mark)
    have "sound_trade bk (cl_trade_record (close_trade (ec_cost_model (bk_config bk)) t p x r))"
      using closed(3,4) inv sound_close by (auto simp: closes_at_def provenance_def)
    then have "provenance bk i (book_close (ec_cost_model (bk_config bk)) t p x r st)"
      using inv by (auto simp: provenance_def)
    then show ?thesis using provenance_entry_step closed by blast
  qed
qed

lemma final_provenance:
  assumes "final_state bk = Inr st" "tr \<in> set (es_trades st)"
  shows "sound_trade bk tr"
proof -
  from assms(1) obtain st' where st': "provenance bk (length (bk_bars bk)) st'" "finish_run bk st' = Inr st"
    by (rule origin.whole_run)
  from st'(2) show ?thesis
  proof (cases rule: finish_run_cases)
    case (closed t p)
    then show ?thesis
      using st'(1) assms(2) sound_close [of bk t _ False p] by (auto simp: provenance_def)
  qed (use st'(1) assms(2) in \<open>auto simp: provenance_def\<close>)
qed

lemma run_trades_sound:
  assumes "run lm mc cfg strat data ws = Inr res" "tr \<in> set (br_trades res)"
  shows "sound_trade (bt_of mc cfg strat data ws) tr"
    "bt_entry_time tr \<le> bt_exit_time tr" "bt_exit_time tr \<in> oh_timestamp ` set data"
proof -
  from assms(1) obtain st where st: "final_state (bt_of mc cfg strat data ws) = Inr st" "br_trades res = es_trades st"
    by (rule run_final)
  show "sound_trade (bt_of mc cfg strat data ws) tr"
    using final_provenance [OF st(1)] st(2) assms(2) by simp
  show "bt_entry_time tr \<le> bt_exit_time tr" "bt_exit_time tr \<in> oh_timestamp ` set data"
    using final_timeline(2,3) [OF st(1) sorted_bt_of] st(2) assms(2) by (simp_all add: normalize_data_def)
qed

text \<open>No same-bar fills. Every trade of a backtest stems from a signal that the strategy gave
from the bars up to some evaluated bar \<open>k\<close> alone; it was entered at the open of bar
\<open>k + 1 + delay\<close> and at that open's fill price with the half-spread against the trader.\<close>

theorem entries_fill_after_their_signal:
  assumes "run lm mc cfg strat data ws = Inr res" "tr \<in> set (br_trades res)"
  shows "\<exists>k sg ext. (case ws of None \<Rightarrow> True | Some t \<Rightarrow> t \<le> oh_timestamp (normalize_data data ! k)) \<and>
    strat (take (Suc k) (normalize_data data)) = Inr (Some sg) \<and> opens_position sg (ec_short_entries cfg) \<and>
    Suc (k + delay_of cfg) < length data \<and>
    bt_entry_time tr = oh_timestamp (normalize_data data ! Suc (k + delay_of cfg)) \<and>
    entry_fill_price (ec_cost_model cfg) (oh_open (normalize_data data ! Suc (k + delay_of cfg)))
      (entry_side cfg) ext = Inr (bt_entry_price tr)"
proof -
  from run_trades_sound(1) [OF assms] obtain k sg ext where "evaluated (bt_of mc cfg strat data ws) k"
    "strat (take (Suc k) (normalize_data data)) = Inr (Some sg)" "opens_position sg (ec_short_entries cfg)"
    "Suc (k + delay_of cfg) < length (normalize_data data)"
    "bt_entry_time tr = oh_timestamp (normalize_data data ! Suc (k + delay_of cfg))"
    "entry_fill_price (ec_cost_model cfg) (oh_open (normalize_data data ! Suc (k + delay_of cfg)))
       (entry_side cfg) ext = Inr (bt_entry_price tr)"
    by (auto simp: sound_trade_def signalled_def bar_time_def)
  moreover from this(1) have "case ws of None \<Rightarrow> True | Some t \<Rightarrow> t \<le> oh_timestamp (normalize_data data ! k)"
    by (auto simp: evaluated_def split: option.splits)
  moreover have "length (normalize_data data) = length data" by (simp add: normalize_data_def)
  ultimately show ?thesis by metis
qed

text \<open>C22: Costs only hurt, and the books balance. With a cost model that charges (all the profiles
of the program do), every trade earns at most its quantity times the move between its two fill
prices, and the cash at the end is the initial cash plus the booked profits, so at most the
initial cash plus those gross moves.\<close>

theorem costs_only_hurt:
  assumes "run lm mc cfg strat data ws = Inr res" "charging (ec_cost_model cfg)"
  shows "(\<forall>tr \<in> set (br_trades res). 0 < bt_quantity tr \<and> bt_pnl_usd tr \<le> gross_pnl tr) \<and>
    (\<exists>st. final_state (bt_of mc cfg strat data ws) = Inr st \<and> es_trades st = br_trades res \<and>
       es_open st = None \<and> es_cash st = ec_initial_cash cfg + sum_list (map bt_pnl_usd (br_trades res)) \<and>
       es_cash st \<le> ec_initial_cash cfg + sum_list (map gross_pnl (br_trades res)))"
proof -
  from assms(1) obtain st where st: "final_state (bt_of mc cfg strat data ws) = Inr st" "br_trades res = es_trades st"
    by (rule run_final)
  have sound: "0 < bt_quantity tr \<and> bt_pnl_usd tr \<le> gross_pnl tr" if "tr \<in> set (br_trades res)" for tr
    using final_provenance [OF st(1), of tr] that st(2) assms(2) by (simp add: sound_trade_def)
  then have "sum_list (map bt_pnl_usd (br_trades res)) \<le> sum_list (map gross_pnl (br_trades res))"
    by (intro sum_list_mono) simp
  then show ?thesis using st sound final_books [OF st(1)] by (auto simp: booked_pnl_def)
qed

end
