(* ===== verification/Engine_Causality.thy ===== *)
theory Engine_Causality
  imports Engine_Safety
begin

text \<open>
  The backtest never looks ahead: what the loop has done after \<open>n\<close> bars depends on the first
  \<open>n + 1\<close> bars only. Also here: flattened intraday trades stay in their session, the bounds on
  position sizes, the pessimistic exit rules, and small runs that show where the code departs
  from its documentation.
\<close>

subsection \<open>Nothing depends on later bars\<close>

text \<open>Two backtests that agree on everything but the bars after index \<open>n\<close>.\<close>

definition same_past :: "nat \<Rightarrow> backtest \<Rightarrow> backtest \<Rightarrow> bool" where
  "same_past n b1 b2 = (bk_clock b1 = bk_clock b2 \<and> bk_config b1 = bk_config b2 \<and> bk_strategy b1 = bk_strategy b2 \<and>
     bk_window_start b1 = bk_window_start b2 \<and> take (Suc n) (bk_bars b1) = take (Suc n) (bk_bars b2) \<and>
     n < length (bk_bars b1) \<and> n < length (bk_bars b2) \<and>
     sorted_bars b1 \<and> sorted_bars b2 \<and> mono (mc_date (bk_clock b1)))"

lemma same_past_nth: "same_past n b1 b2 \<Longrightarrow> i \<le> n \<Longrightarrow> bk_bars b1 ! i = bk_bars b2 ! i"
  unfolding same_past_def by (metis le_imp_less_Suc nth_take)

lemma same_past_take: "same_past n b1 b2 \<Longrightarrow> i \<le> Suc n \<Longrightarrow> take i (bk_bars b1) = take i (bk_bars b2)"
  unfolding same_past_def by (metis min.absorb1 take_take)

abbreviation bar_date :: "market_clock \<Rightarrow> ohlc \<Rightarrow> int" where
  "bar_date mc b \<equiv> mc_date mc (oh_timestamp b)"

lemma earlier_sessions:
  assumes "sorted (map oh_timestamp bars)" "mono (mc_date mc)" "i < length bars" "d = bar_date mc (bars ! i)"
  shows "filter (\<lambda>b. bar_date mc b < d) bars = filter (\<lambda>b. bar_date mc b < d) (take (Suc i) bars)"
proof -
  have "filter (\<lambda>b. bar_date mc b < d) (drop (Suc i) bars) = []"
  proof (rule filter_False, rule ballI, rule notI)
    fix b assume "b \<in> set (drop (Suc i) bars)" "bar_date mc b < d"
    then obtain m where m: "m < length bars - Suc i" "b = bars ! (Suc i + m)"
      by (auto simp: in_set_conv_nth)
    then have "Suc i + m < length bars" by simp
    then have "oh_timestamp (bars ! i) \<le> oh_timestamp b"
      using sorted_nth_mono [OF assms(1), of i "Suc i + m"] m(2) by simp
    then have "d \<le> bar_date mc b" unfolding assms(4) by (rule monoD [OF assms(2)])
    then show False using \<open>bar_date mc b < d\<close> by simp
  qed
  then show ?thesis using filter_append [of _ "take (Suc i) bars" "drop (Suc i) bars"] by simp
qed

lemma session_bars_filter:
  "e < d \<Longrightarrow> session_bars mc bars e = filter (\<lambda>b. bar_date mc b = e) (filter (\<lambda>b. bar_date mc b < d) bars)"
  by (auto simp: session_bars_def intro!: filter_cong)

lemma session_dates_filter:
  "filter (\<lambda>e. e < d) (session_dates mc bars) = session_dates mc (filter (\<lambda>b. bar_date mc b < d) bars)"
proof (rule sorted_distinct_set_unique)
  show "sorted (filter (\<lambda>e. e < d) (session_dates mc bars))"
    by (simp add: session_dates_def sorted_filter [where f = "\<lambda>x. x", simplified])
qed (auto simp: session_dates_def)

lemma session_atr_cong:
  assumes "filter (\<lambda>b. bar_date mc b < d) bars1 = filter (\<lambda>b. bar_date mc b < d) bars2"
  shows "session_atr mc k bars1 d = session_atr mc k bars2 d"
proof -
  let ?ds = "\<lambda>bars. filter (\<lambda>e. e < d) (session_dates mc bars)"
  have dates: "?ds bars1 = ?ds bars2" using assms by (simp add: session_dates_filter)
  have below: "?ds bars2 ! i < d" if "i < length (?ds bars2)" for i
    using nth_mem [OF that] by simp
  have same: "session_bars mc bars1 e = session_bars mc bars2 e" if "e < d" for e
    using assms by (simp only: session_bars_filter [OF that])
  have tr: "true_range mc bars1 (?ds bars2) i = true_range mc bars2 (?ds bars2) i" if "i < length (?ds bars2)" for i
  proof -
    have "i - 1 < length (?ds bars2)" using that by simp
    then show ?thesis by (simp only: true_range_def Let_def same [OF below] that)
  qed
  have "map (true_range mc bars1 (?ds bars2)) [j..<length (?ds bars2)] = map (true_range mc bars2 (?ds bars2)) [j..<length (?ds bars2)]" for j
    by (rule map_cong [OF refl]) (simp add: tr)
  then show ?thesis by (simp only: session_atr_def Let_def dates)
qed

lemma session_atr_same:
  assumes "same_past n b1 b2" "i \<le> n"
  shows "min_stop_distance b1 i = min_stop_distance b2 i"
proof -
  have len: "i < length (bk_bars b1)" "i < length (bk_bars b2)" using assms by (auto simp: same_past_def)
  have eq: "bk_clock b1 = bk_clock b2" "bk_config b1 = bk_config b2" using assms by (auto simp: same_past_def)
  have nth: "bk_bars b1 ! i = bk_bars b2 ! i" by (rule same_past_nth [OF assms])
  have "filter (\<lambda>b. bar_date (bk_clock b2) b < bar_date (bk_clock b2) (bk_bars b2 ! i)) (bk_bars b1)
      = filter (\<lambda>b. bar_date (bk_clock b2) b < bar_date (bk_clock b2) (bk_bars b2 ! i)) (bk_bars b2)"
    using earlier_sessions [of "bk_bars b1" "bk_clock b1" i] earlier_sessions [of "bk_bars b2" "bk_clock b2" i]
      same_past_take [OF assms(1), of "Suc i"] assms len eq nth
    by (simp add: same_past_def sorted_bars_def)
  from session_atr_cong [OF this]
  have "session_atr_by_bar (bk_clock b1) SESSION_ATR_PERIOD (bk_bars b1) ! i
      = session_atr_by_bar (bk_clock b2) SESSION_ATR_PERIOD (bk_bars b2) ! i"
    using len nth eq by (simp add: session_atr_by_bar_def)
  then have atr: "session_atr_of b1 ! i = session_atr_of b2 ! i \<or> session_atr_of b1 = [] \<and> session_atr_of b2 = []"
    using eq by (simp add: session_atr_of_def)
  have "session_atr_of b1 = [] \<longleftrightarrow> session_atr_of b2 = []"
    using eq len by (auto simp: session_atr_of_def session_atr_by_bar_def)
  then show ?thesis unfolding min_stop_distance_def Let_def eq using atr by auto
qed

lemma session_end_nth:
  "i < length ts \<Longrightarrow> last_bar_of_session mc ts ! i = (Suc i < length ts \<longrightarrow> mc_date mc (ts ! i) \<noteq> mc_date mc (ts ! Suc i))"
  by (simp add: last_bar_of_session_def Let_def)

lemma length_session_ends [simp]: "length (last_bar_of_session mc ts) = length ts"
  by (simp add: last_bar_of_session_def Let_def)

lemma session_ends_same:
  assumes "same_past n b1 b2" "i < n"
  shows "at_session_end b1 i = at_session_end b2 i"
proof -
  have eq: "bk_clock b1 = bk_clock b2" "bk_config b1 = bk_config b2" and len: "n < length (bk_bars b1)" "n < length (bk_bars b2)"
    using assms(1) by (auto simp: same_past_def)
  have nth: "bk_bars b1 ! i = bk_bars b2 ! i" "bk_bars b1 ! Suc i = bk_bars b2 ! Suc i"
    using same_past_nth [OF assms(1)] assms(2) by simp_all
  have "last_bar_of_session (bk_clock b1) (map oh_timestamp (bk_bars b1)) ! i
      = last_bar_of_session (bk_clock b2) (map oh_timestamp (bk_bars b2)) ! i"
    using len assms(2) nth by (simp add: session_end_nth eq)
  moreover have "last_bar_of_session mc (map oh_timestamp (bk_bars b)) \<noteq> []" if "n < length (bk_bars b)" for b mc
    using that length_session_ends [of mc "map oh_timestamp (bk_bars b)"] by (metis length_0_conv length_map not_less_zero)
  note this [OF len(1), of "bk_clock b2"] this [OF len(2), of "bk_clock b2"]
  ultimately show ?thesis
    by (simp add: at_session_end_def session_ends_of_def eq)
qed

lemma session_ends_prefix:
  assumes "same_past n b1 b2" "i < n"
  shows "take i (session_ends_of b1) = take i (session_ends_of b2)"
    "session_ends_of b1 = [] \<longleftrightarrow> session_ends_of b2 = []"
proof -
  have eq: "bk_clock b1 = bk_clock b2" "bk_config b1 = bk_config b2" and len: "n < length (bk_bars b1)" "n < length (bk_bars b2)"
    using assms(1) by (auto simp: same_past_def)
  let ?e = "\<lambda>b. last_bar_of_session (bk_clock b2) (map oh_timestamp (bk_bars b))"
  have "take i (?e b1) = take i (?e b2)"
  proof (rule nth_equalityI)
    fix j assume "j < length (take i (?e b1))"
    then have j: "j < i" by simp
    show "take i (?e b1) ! j = take i (?e b2) ! j"
      using j len assms(2) same_past_nth [OF assms(1), of j] same_past_nth [OF assms(1), of "Suc j"]
      by (simp add: session_end_nth)
  qed (use len assms(2) in simp)
  then show "take i (session_ends_of b1) = take i (session_ends_of b2)" by (simp add: session_ends_of_def eq)
  have "?e b1 \<noteq> []" "?e b2 \<noteq> []"
    using len length_session_ends by (metis length_0_conv length_map not_less_zero)+
  then show "session_ends_of b1 = [] \<longleftrightarrow> session_ends_of b2 = []" by (simp add: session_ends_of_def eq)
qed

lemma entry_signal_cong:
  "take i e1 = take i e2 \<Longrightarrow> (e1 = [] \<longleftrightarrow> e2 = []) \<Longrightarrow> entry_signal recent i d e1 = entry_signal recent i d e2"
  by (simp add: entry_signal_def case_prod_beta flip: drop_take)

lemma bar_step_same:
  assumes "same_past n b1 b2" "i < n"
  shows "bar_step b1 i st = bar_step b2 i st"
proof -
  have eq: "bk_clock b1 = bk_clock b2" "bk_config b1 = bk_config b2" "bk_strategy b1 = bk_strategy b2"
    "bk_window_start b1 = bk_window_start b2" and len: "n < length (bk_bars b1)" "n < length (bk_bars b2)"
    using assms(1) by (auto simp: same_past_def)
  have bar: "bk_bars b1 ! i = bk_bars b2 ! i" using same_past_nth [OF assms(1)] assms(2) by simp
  have nxt: "maybe_next_bar (bk_bars b1) i = maybe_next_bar (bk_bars b2) i"
    using same_past_nth [OF assms(1), of "Suc i"] assms(2) len by (simp add: maybe_next_bar_def)
  have seen: "take (Suc i) (bk_bars b1) = take (Suc i) (bk_bars b2)"
    using same_past_take [OF assms(1)] assms(2) by simp
  have exit1: "exit_step b1 i sg s = exit_step b2 i sg s" for sg s
    by (simp only: exit_step_def eq bar nxt)
  have flat: "flatten_step b1 i s = flatten_step b2 i s" for s
    by (simp only: flatten_step_def eq bar session_ends_same [OF assms])
  have try1: "try_entry b1 i sg s = try_entry b2 i sg s" for sg s
    using assms(2) by (simp only: try_entry_def eq nxt session_atr_same [OF assms(1) less_imp_le [OF assms(2)]])
  have entry1: "entry_step b1 i sg s = entry_step b2 i sg s" for sg s
    by (simp only: entry_step_def eq try1 session_ends_same [OF assms]
        entry_signal_cong [OF session_ends_prefix [OF assms]])
  have eqty: "equity_step b1 i r = equity_step b2 i r" for r by (simp only: equity_step_def bar)
  have ev: "evaluated b1 i = evaluated b2 i" by (simp only: evaluated_def eq bar)
  show ?thesis by (simp only: bar_step_def ev eq seen exit1 flat entry1 eqty)
qed

lemma engine_loop_same:
  assumes "same_past n b1 b2" "\<forall>i \<in> set is. i < n"
  shows "engine_loop b1 is st = engine_loop b2 is st"
  using assms(2)
proof (induction "is" arbitrary: st)
  case (Cons i rest)
  then have "bar_step b1 i st = bar_step b2 i st" using bar_step_same [OF assms(1)] by simp
  then show ?case using Cons by (cases "bar_step b2 i st") simp_all
qed simp

text \<open>C10: The backtest never looks ahead. Two sorted bar histories that agree on their first
\<open>n + 1\<close> bars lead any strategy, under any configuration, through exactly the same first \<open>n\<close>
bars: the same cash, position, trades, costs and equity points, or the same error. (The one bar
beyond is the bar whose open fills the orders of bar \<open>n - 1\<close>.)\<close>

theorem backtest_is_causal:
  assumes "take (Suc n) bars1 = take (Suc n) bars2" "n < length bars1" "n < length bars2"
    and "sorted (map oh_timestamp bars1)" "sorted (map oh_timestamp bars2)" "mono (mc_date (bk_clock bk))"
  shows "engine_loop (bk\<lparr>bk_bars := bars1\<rparr>) [0..<n] (start_state (bk_config bk)) =
    engine_loop (bk\<lparr>bk_bars := bars2\<rparr>) [0..<n] (start_state (bk_config bk))"
  using assms by (intro engine_loop_same [of n]) (auto simp: same_past_def sorted_bars_def)

text \<open>Five daily bars in two versions that part at the last one, and a strategy that buys at 100.\<close>

definition demo_clock :: market_clock where
  "demo_clock = \<lparr>mc_time = (\<lambda>t. (12, 0)), mc_date = day_of\<rparr>"

definition demo_ohlc :: "int \<Rightarrow> pyfloat \<Rightarrow> pyfloat \<Rightarrow> pyfloat \<Rightarrow> pyfloat \<Rightarrow> ohlc" where
  "demo_ohlc t op hi lo cl = \<lparr>oh_timestamp = t, oh_open = op, oh_high = hi, oh_low = lo, oh_close = cl\<rparr>"

definition demo_signal :: "signal_action \<Rightarrow> pyfloat \<Rightarrow> pyfloat \<Rightarrow> pyfloat \<Rightarrow> trade_signal" where
  "demo_signal action price stop target = \<lparr>sig_id = ''s'', sig_symbol = ''AAPL'', sig_strategy_name = ''demo'',
     sig_action = action, sig_rationale = [], sig_timestamp = 0, sig_confidence = None, sig_price = Some price,
     sig_stop_loss = Some stop, sig_take_profit = Some target, sig_metadata = []\<rparr>"

text \<open>A strategy given by the closes at which it buys and sells.\<close>

definition demo_strategy :: "pyfloat \<Rightarrow> pyfloat \<Rightarrow> strategy" where
  "demo_strategy buy_at sell_at window =
     (if oh_close (last window) = buy_at then Inr (Some (demo_signal Act_buy buy_at (buy_at - 10) (buy_at + 100)))
      else if oh_close (last window) = sell_at then Inr (Some (demo_signal Act_sell sell_at (sell_at + 10) (sell_at - 10)))
      else Inr None)"

definition demo_bars :: "pyfloat \<Rightarrow> ohlc list" where
  "demo_bars c = [demo_ohlc 0 99 101 98 100, demo_ohlc day_us 100 104 99 103, demo_ohlc (2 * day_us) 103 106 102 105,
     demo_ohlc (3 * day_us) 105 108 104 107, demo_ohlc (4 * day_us) 107 110 c c]"

definition demo_backtest :: backtest where
  "demo_backtest = \<lparr>bk_clock = demo_clock, bk_config = default_engine_config, bk_strategy = demo_strategy 100 0,
     bk_bars = [], bk_window_start = None\<rparr>"

lemma backtest_is_causal_witness:
  "demo_bars 20 \<noteq> demo_bars 109 \<and>
   engine_loop (demo_backtest\<lparr>bk_bars := demo_bars 20\<rparr>) [0..<3] (start_state (bk_config demo_backtest)) =
   engine_loop (demo_backtest\<lparr>bk_bars := demo_bars 109\<rparr>) [0..<3] (start_state (bk_config demo_backtest))"
proof (rule conjI)
  show "demo_bars 20 \<noteq> demo_bars 109" by (simp add: demo_bars_def demo_ohlc_def)
  have "mono (mc_date (bk_clock demo_backtest))"
    by (auto simp: demo_backtest_def demo_clock_def day_of_def day_us_def mono_def intro!: zdiv_mono1)
  then show "engine_loop (demo_backtest\<lparr>bk_bars := demo_bars 20\<rparr>) [0..<3] (start_state (bk_config demo_backtest)) =
   engine_loop (demo_backtest\<lparr>bk_bars := demo_bars 109\<rparr>) [0..<3] (start_state (bk_config demo_backtest))"
    by (intro backtest_is_causal) (simp_all add: demo_bars_def demo_ohlc_def day_us_def numeral_nat)
qed

subsection \<open>Flattened trades stay in their session\<close>

definition flattening :: "engine_config \<Rightarrow> bool" where
  "flattening cfg = (intraday cfg \<and> ec_flatten_at_session_end cfg)"

definition session_of :: "backtest \<Rightarrow> time \<Rightarrow> int" where
  "session_of bk t = mc_date (bk_clock bk) t"

definition within_session :: "backtest \<Rightarrow> nat \<Rightarrow> engine_state \<Rightarrow> bool" where
  "within_session bk i st = (flattening (bk_config bk) \<and> sorted_bars bk \<longrightarrow>
     (\<forall>tr \<in> set (es_trades st). bt_reason tr \<noteq> ''strategy_exit'' \<longrightarrow>
        session_of bk (bt_entry_time tr) = session_of bk (bt_exit_time tr)) \<and>
     (\<forall>t. es_open st = Some t \<longrightarrow> i < length (bk_bars bk) \<and> evaluated bk i \<and>
        session_of bk (ot_entry_time t) = session_of bk (bar_time bk i)))"

lemma at_session_end_iff:
  "flattening (bk_config bk) \<Longrightarrow> i < length (bk_bars bk) \<Longrightarrow>
   at_session_end bk i = (Suc i < length (bk_bars bk) \<longrightarrow> session_of bk (bar_time bk i) \<noteq> session_of bk (bar_time bk (Suc i)))"
  using length_session_ends [of "bk_clock bk" "map oh_timestamp (bk_bars bk)"]
  by (auto simp: at_session_end_def session_ends_of_def flattening_def session_end_nth session_of_def bar_time_def
      simp flip: length_0_conv)

lemma evaluated_later: "\<lbrakk>evaluated bk i; sorted_bars bk; i \<le> j; j < length (bk_bars bk)\<rbrakk> \<Longrightarrow> evaluated bk j"
  using bar_time_mono [of bk i j] by (auto simp: evaluated_def bar_time_def split: option.splits)

lemma within_session_entry:
  assumes trades: "\<forall>tr \<in> set (es_trades st). bt_reason tr \<noteq> ''strategy_exit'' \<longrightarrow>
        session_of bk (bt_entry_time tr) = session_of bk (bt_exit_time tr)"
    and pos: "\<And>t. es_open st = Some t \<Longrightarrow> \<not> at_session_end bk i \<and> session_of bk (ot_entry_time t) = session_of bk (bar_time bk i)"
    and flat: "flattening (bk_config bk)" "sorted_bars bk" and i: "i < length (bk_bars bk)" "evaluated bk i"
    and e: "entry_step bk i signal st = Inr (st3, mark)"
  shows "within_session bk (Suc i) (equity_step bk i (st3, mark))"
  using e
proof (cases rule: entry_step_cases)
  case kept
  then show ?thesis
    using trades pos flat i evaluated_later [OF i(2) flat(2), of "Suc i"]
    by (auto simp: within_session_def at_session_end_iff [OF flat(1) i(1)])
next
  case (entered t sg cash_after)
  then have "ot_entry_time t = bar_time bk (Suc i)" using attempt_entry_Some(2) [OF entered(6)] by (simp add: bar_time_def)
  then show ?thesis
    using entered trades evaluated_later [OF i(2) flat(2), of "Suc i"] by (auto simp: within_session_def)
qed

interpretation sessions: run_invariant within_session
proof
  show "within_session bk 0 (start_state (bk_config bk))" for bk by (simp add: within_session_def start_state_def)
next
  fix bk i st st'
  assume inv: "within_session bk i st" and i: "i < length (bk_bars bk)" and step: "bar_step bk i st = Inr st'"
  show "within_session bk (Suc i) st'"
  proof (cases "flattening (bk_config bk) \<and> sorted_bars bk")
    case False
    then show ?thesis by (auto simp: within_session_def)
  next
    case True
    from step show ?thesis
    proof (cases rule: bar_step_parts)
      case skipped
      then show ?thesis using inv True by (auto simp: within_session_def)
    next
      case (held signal st3 mark)
      then show ?thesis
        using within_session_entry [of st bk i signal st3 mark] inv True i by (auto simp: within_session_def)
    next
      case (closed signal t p x r st3 mark)
      let ?st = "book_close (ec_cost_model (bk_config bk)) t p x r st"
      have "\<forall>tr \<in> set (es_trades ?st). bt_reason tr \<noteq> ''strategy_exit'' \<longrightarrow>
          session_of bk (bt_entry_time tr) = session_of bk (bt_exit_time tr)"
        using inv True closed(3,4) by (auto simp: within_session_def closes_at_def bar_time_def)
      then show ?thesis
        using within_session_entry [of ?st bk i signal st3 mark] True i closed by simp
    qed
  qed
qed

text \<open>With the session flattening on, an intraday backtest carries no position overnight,
except through a signal exit: every trade that is not closed by the opposite signal exits in the
New York session in which it was entered, and none is left open at the end of the data.\<close>

theorem flattened_trades_stay_in_session:
  assumes "run lm mc cfg strat data ws = Inr res" "intraday cfg" "ec_flatten_at_session_end cfg"
  shows "\<forall>tr \<in> set (br_trades res). bt_reason tr \<noteq> ''strategy_exit'' \<longrightarrow>
    mc_date mc (bt_entry_time tr) = mc_date mc (bt_exit_time tr)"
proof -
  let ?bk = "bt_of mc cfg strat data ws"
  from assms(1) obtain st where st: "final_state ?bk = Inr st" "br_trades res = es_trades st"
    by (rule run_final)
  from st(1) obtain st' where st': "within_session ?bk (length (bk_bars ?bk)) st'" "finish_run ?bk st' = Inr st"
    by (rule sessions.whole_run)
  have "es_open st' = None"
    using st'(1) assms(2,3) by (cases "es_open st'") (auto simp: within_session_def flattening_def)
  then have "st = st'" using st'(2) by (simp add: finish_run_def)
  then show ?thesis
    using st'(1) st(2) assms(2,3) by (auto simp: within_session_def flattening_def session_of_def)
qed

subsection \<open>Position sizes\<close>

lemma size_position_bounds:
  assumes "0 < fill" "ec_risk_per_trade_pct cfg = Some r" "stop = Some s" "0 < s" "0 < size_position stop fill cash cfg"
  shows "size_position stop fill cash cfg * \<bar>fill - s\<bar> \<le> cash * (r / 100)"
    "size_position stop fill cash cfg * fill \<le> cash * of_int (max (ec_leverage cfg) 1)"
proof -
  let ?d = "\<bar>fill - s\<bar>" and ?cap = "cash * of_int (max (ec_leverage cfg) 1) :: pyfloat"
  let ?raw = "cash * (r / 100) / ?d"
  have d: "0 < ?d" using assms by (auto simp: size_position_def Let_def split: if_splits)
  have q: "size_position stop fill cash cfg = (if ?cap < ?raw * fill then ?cap / fill else ?raw)"
    using assms d by (simp add: size_position_def Let_def)
  have raw: "?raw * ?d = cash * (r / 100)" using d by simp
  have "?cap / fill \<le> ?raw" if "?cap < ?raw * fill" using that assms(1) by (simp add: pos_divide_le_eq)
  then have "size_position stop fill cash cfg \<le> ?raw" using q by simp
  then show "size_position stop fill cash cfg * ?d \<le> cash * (r / 100)"
    using mult_right_mono [of "size_position stop fill cash cfg" ?raw ?d] raw by simp
  show "size_position stop fill cash cfg * fill \<le> ?cap" using q assms(1) by simp
qed

text \<open>Every entry of a backtest is bounded. With a risk percentage and a stop, the loss between
the fill and the stop is at most that percentage of the cash and the notional at most the cash times
the leverage; without leverage an entry never spends more than the cash, and the cash falls by
exactly the notional, which clears the minimum position.\<close>

theorem entry_size_bounded:
  assumes "attempt_entry mc cfg sg nb cash i msd = Inr (Some (t, cash_after))" "charging (ec_cost_model cfg)"
  shows "(\<forall>r s. ec_risk_per_trade_pct cfg = Some r \<and> ot_stop_loss t = Some s \<and> 0 < s \<longrightarrow>
      ot_quantity t * \<bar>ot_entry_price t - s\<bar> \<le> cash * (r / 100) \<and>
      ot_entry_notional t \<le> cash * of_int (max (ec_leverage cfg) 1)) \<and>
    (ec_leverage cfg \<le> 1 \<longrightarrow> 0 \<le> cash_after) \<and> cash_after = cash - ot_entry_notional t \<and>
    cm_min_position_usd (ec_cost_model cfg) \<le> ot_entry_notional t"
proof -
  note a = attempt_entry_Some [OF assms(1)]
  have fill: "0 < ot_entry_price t" using a(1) entry_fill_adverse(1) [OF assms(2)] by blast
  have sized: "ot_quantity t * \<bar>ot_entry_price t - s\<bar> \<le> cash * (r / 100) \<and>
      ot_entry_notional t \<le> cash * of_int (max (ec_leverage cfg) 1)"
    if "ec_risk_per_trade_pct cfg = Some r" "ot_stop_loss t = Some s" "0 < s" for r s
    using size_position_bounds [OF fill that(1) refl that(3), of cash] a(5,6,7) that by simp
  have "ot_entry_notional t \<le> cash" if "ec_leverage cfg \<le> 1"
  proof (cases "\<exists>r s. ec_risk_per_trade_pct cfg = Some r \<and> ot_stop_loss t = Some s \<and> 0 < s")
    case True
    then show ?thesis using sized that by fastforce
  next
    case False
    then have "ot_quantity t = cash / ot_entry_price t"
      using a(5) fill by (auto simp: size_position_def split: option.splits)
    then show ?thesis using a(7) fill by simp
  qed
  then show ?thesis using sized a(8,9) by (auto simp: accepts_position_def)
qed

lemma entry_size_bounded_witness:
  "\<exists>t. attempt_entry demo_clock default_engine_config (demo_signal Act_buy 100 90 200) (demo_ohlc 0 101 102 99 100) 10000 1 0
     = Inr (Some (t, 10000 - ot_entry_notional t)) \<and> 0 \<le> 10000 - ot_entry_notional t"
proof -
  let ?e = "attempt_entry demo_clock default_engine_config (demo_signal Act_buy 100 90 200) (demo_ohlc 0 101 102 99 100) 10000 1 0"
  have "(case ?e of Inr (Some (t, c)) \<Rightarrow> c = 10000 - ot_entry_notional t | _ \<Rightarrow> False)" by code_simp
  then obtain t where t: "?e = Inr (Some (t, 10000 - ot_entry_notional t))"
    by (auto split: sum.splits option.splits prod.splits)
  have "charging (ec_cost_model default_engine_config)" "ec_leverage default_engine_config \<le> 1"
    by (simp_all add: default_engine_config_def)
  then show ?thesis using entry_size_bounded [OF t] t by blast
qed

subsection \<open>Exits are pessimistic\<close>

lemma fill_at_price:
  assumes "fill_at cm raw side ext x reason = Inr (Some a)" "charging cm"
  shows "xa_reason a = reason" "side = Buy \<Longrightarrow> xa_fill_price a \<le> raw" "side = Sell \<Longrightarrow> raw \<le> xa_fill_price a"
  using assms exit_fill_adverse(2,3) by (auto simp: fill_at_Some)


lemma target_fills_at_target: "bar_target_hit t b = Some raw \<Longrightarrow> ot_take_profit t = Some raw"
  by (auto simp: bar_target_hit_def split: option.splits order_side.splits if_splits)

definition demo_open_trade :: open_trade where
  "demo_open_trade = \<lparr>ot_entry_time = 0, ot_entry_price = 100, ot_quantity = 10, ot_side = Buy, ot_stop_loss = Some 90,
     ot_take_profit = Some 105, ot_entry_notional = 1000, ot_entry_spread_usd = 0, ot_entry_bar_index = 1,
     ot_max_hold_bars = None\<rparr>"


subsection \<open>Small runs\<close>

definition free_config :: engine_config where
  "free_config = default_engine_config\<lparr>ec_cost_model := zero_cost_model\<rparr>"

text \<open>
  The last bar stops the position out while the strategy gives a new BUY on it. The code then
  leaves the bar before the equity point is recorded, because no next bar can fill the order:
  the run reports the value of the bar before as its ending cash.
\<close>

definition stale_bars :: "ohlc list" where
  "stale_bars = [demo_ohlc 0 99 101 98 100, demo_ohlc day_us 100 106 99 105, demo_ohlc (2 * day_us) 104 104 80 100]"

definition stale_trade :: bt_trade where
  "stale_trade = \<lparr>bt_entry_time = day_us, bt_exit_time = 2 * day_us, bt_entry_price = 100, bt_exit_price = 90,
     bt_quantity = 10, bt_notional_usd = 1000, bt_pnl_usd = - 100, bt_pnl_pct = - 10, bt_reason = ''stop_loss'',
     bt_spread_usd = 0, bt_financing_usd = 0, bt_fx_usd = 0, bt_commission_usd = 0, bt_slippage_usd = 0,
     bt_regulatory_usd = 0, bt_short = False\<rparr>"

lemma stale_final:
  "map_sum id (\<lambda>st. (es_cash st, es_equity_curve st, es_trades st))
     (final_state (bt_of demo_clock free_config (demo_strategy 100 0) stale_bars None))
   = Inr (9900, [10000, 10050], [stale_trade])"
  by code_simp

lemma stale_run:
  obtains res where "run lm demo_clock free_config (demo_strategy 100 0) stale_bars None = Inr res"
    "br_trades res = [stale_trade]" "br_ending_cash res = 10050" "em_total_return_pct (br_metrics res) = 1 / 2"
proof -
  obtain st where st: "final_state (bt_of demo_clock free_config (demo_strategy 100 0) stale_bars None) = Inr st"
    "es_equity_curve st = [10000, 10050]" "es_trades st = [stale_trade]"
    using stale_final by (cases "final_state (bt_of demo_clock free_config (demo_strategy 100 0) stale_bars None)") auto
  have "ec_initial_cash free_config = 10000" by (simp add: free_config_def default_engine_config_def)
  then show thesis
    using st by (intro that [of "result_of lm free_config st"])
      (simp_all add: run_def bt_of_def result_of_def Let_def compile_metrics_def)
qed

text \<open>The only trade of the run loses 100, and the run reports a gain of half a per cent.\<close>

lemma last_bar_loss_not_reported:
  "\<exists>res. run lm demo_clock free_config (demo_strategy 100 0) stale_bars None = Inr res \<and>
     sum_list (map bt_pnl_usd (br_trades res)) = - 100 \<and> br_initial_cash res = 10000 \<and> br_ending_cash res = 10050 \<and>
     em_total_return_pct (br_metrics res) = 1 / 2"
proof -
  from stale_run [of lm] obtain res where r: "run lm demo_clock free_config (demo_strategy 100 0) stale_bars None = Inr res"
    "br_trades res = [stale_trade]" "br_ending_cash res = 10050" "em_total_return_pct (br_metrics res) = 1 / 2" by blast
  moreover have "br_initial_cash res = 10000"
    using r(1) by (auto simp: run_def bindE_Inr result_of_def Let_def free_config_def default_engine_config_def)
  ultimately show ?thesis by (auto simp: stale_trade_def)
qed

definition demo_libm :: libm where
  "demo_libm = \<lparr>lm_sqrt = (\<lambda>x. x), lm_pow = (\<lambda>x y. x)\<rparr>"

lemma trades_never_overlap_witness:
  "\<exists>res. run demo_libm demo_clock free_config (demo_strategy 100 0) stale_bars None = Inr res \<and> br_trades res = [stale_trade] \<and>
     bt_entry_time stale_trade \<le> bt_exit_time stale_trade"
proof -
  from stale_run [of demo_libm] obtain res where "run demo_libm demo_clock free_config (demo_strategy 100 0) stale_bars None = Inr res"
    "br_trades res = [stale_trade]" by blast
  then show ?thesis using trades_never_overlap [of demo_libm demo_clock free_config "demo_strategy 100 0" stale_bars None res] by auto
qed

lemma entries_fill_after_their_signal_witness:
  "\<exists>k. Suc k < length stale_bars \<and> bt_entry_time stale_trade = oh_timestamp (normalize_data stale_bars ! Suc k)"
proof -
  from stale_run [of demo_libm] obtain res where
    "run demo_libm demo_clock free_config (demo_strategy 100 0) stale_bars None = Inr res" "br_trades res = [stale_trade]" by blast
  moreover have "delay_of free_config = 0" by (simp add: delay_of_def free_config_def default_engine_config_def)
  ultimately show ?thesis
    using entries_fill_after_their_signal [of demo_libm demo_clock free_config "demo_strategy 100 0" stale_bars None res stale_trade]
    by auto
qed

lemma costs_only_hurt_witness:
  "bt_pnl_usd stale_trade \<le> gross_pnl stale_trade"
proof -
  from stale_run [of demo_libm] obtain res where
    "run demo_libm demo_clock free_config (demo_strategy 100 0) stale_bars None = Inr res" "br_trades res = [stale_trade]" by blast
  moreover have "charging (ec_cost_model free_config)" by (simp add: free_config_def)
  ultimately show ?thesis
    using costs_only_hurt [of demo_libm demo_clock free_config "demo_strategy 100 0" stale_bars None res] by auto
qed

text \<open>
  An intraday run with the session flattening on: the strategy buys in the first session and
  gives its SELL on the last bar of that session. The signal exit is booked at the open of the
  next session, 20 points away, although the configuration closes positions before the bell.
\<close>

definition flat_config :: engine_config where
  "flat_config = free_config\<lparr>ec_bars_per_year := TEN_MIN_BARS_PER_YEAR, ec_flatten_at_session_end := True\<rparr>"

definition two_sessions :: "pyfloat \<Rightarrow> ohlc list" where
  "two_sessions c = [demo_ohlc 0 99 101 98 100, demo_ohlc 600 100 102 99 101, demo_ohlc 1200 101 108 100 c,
     demo_ohlc day_us 87 89 86 88, demo_ohlc (day_us + 600) 88 89 86 87]"

lemma flat_final:
  "map_sum id (\<lambda>st. map (\<lambda>tr. (bt_entry_time tr, bt_exit_time tr, bt_exit_price tr, bt_reason tr)) (es_trades st))
     (final_state (bt_of demo_clock flat_config (demo_strategy 100 107) (two_sessions 106) None))
   = Inr [(600, 1200, 106, ''session_close'')]"
  "map_sum id (\<lambda>st. map (\<lambda>tr. (bt_entry_time tr, bt_exit_time tr, bt_exit_price tr, bt_reason tr)) (es_trades st))
     (final_state (bt_of demo_clock flat_config (demo_strategy 100 107) (two_sessions 107) None))
   = Inr [(600, day_us, 87, ''strategy_exit'')]"
  by code_simp+

lemma session_exit_carried_overnight:
  "\<exists>st tr. final_state (bt_of demo_clock flat_config (demo_strategy 100 107) (two_sessions 107) None) = Inr st \<and>
     es_trades st = [tr] \<and> bt_reason tr = ''strategy_exit'' \<and>
     mc_date demo_clock (bt_entry_time tr) < mc_date demo_clock (bt_exit_time tr) \<and> bt_exit_price tr = 87"
proof -
  obtain st where st: "final_state (bt_of demo_clock flat_config (demo_strategy 100 107) (two_sessions 107) None) = Inr st"
    "map (\<lambda>tr. (bt_entry_time tr, bt_exit_time tr, bt_exit_price tr, bt_reason tr)) (es_trades st) = [(600, day_us, 87, ''strategy_exit'')]"
    using flat_final(2)
    by (cases "final_state (bt_of demo_clock flat_config (demo_strategy 100 107) (two_sessions 107) None)") auto
  then obtain tr where "es_trades st = [tr]" "bt_entry_time tr = 600" "bt_exit_time tr = day_us" "bt_exit_price tr = 87"
    "bt_reason tr = ''strategy_exit''" by auto
  then show ?thesis using st(1) by (auto simp: demo_clock_def day_of_def day_us_def)
qed

lemma flattened_trades_stay_in_session_witness:
  "\<exists>res tr. run demo_libm demo_clock flat_config (demo_strategy 100 107) (two_sessions 106) None = Inr res \<and> br_trades res = [tr] \<and>
     bt_reason tr = ''session_close'' \<and> mc_date demo_clock (bt_entry_time tr) = mc_date demo_clock (bt_exit_time tr)"
proof -
  obtain st where st: "final_state (bt_of demo_clock flat_config (demo_strategy 100 107) (two_sessions 106) None) = Inr st"
    "map (\<lambda>tr. (bt_entry_time tr, bt_exit_time tr, bt_exit_price tr, bt_reason tr)) (es_trades st) = [(600, 1200, 106, ''session_close'')]"
    using flat_final(1)
    by (cases "final_state (bt_of demo_clock flat_config (demo_strategy 100 107) (two_sessions 106) None)") auto
  then obtain tr where tr: "es_trades st = [tr]" "bt_reason tr = ''session_close''" by auto
  have r: "run demo_libm demo_clock flat_config (demo_strategy 100 107) (two_sessions 106) None = Inr (result_of demo_libm flat_config st)"
    "br_trades (result_of demo_libm flat_config st) = [tr]"
    using st(1) tr(1) by (simp_all add: run_def bt_of_def result_of_def Let_def)
  have "intraday flat_config" "ec_flatten_at_session_end flat_config"
    by (simp_all add: flat_config_def intraday_def cadence_defs)
  then show ?thesis using flattened_trades_stay_in_session [OF r(1)] r tr(2) by auto
qed

end
