(* ===== verification/Walk_Forward_Runs.thy ===== *)
theory Walk_Forward_Runs
  imports Engine_Causality
begin

text \<open>
  The walk-forward evaluation of one strategy on one symbol (\<open>_run_strategy\<close>,
  \<open>_with_warmup\<close>, \<open>_bars_before\<close>, \<open>_evaluate_holdout\<close> and the promotion hint of
  src/app/backtesting/batch.py; the fold plans of src/app/backtesting/intraday_plan.py):
  splitter, engine and aggregation put together. The re-runs under the venue profiles are the
  same function with another cost model; saving the row and logging are left out.
\<close>

definition MINUTE_BAR_TIMEFRAMES :: "string list" where
  "MINUTE_BAR_TIMEFRAMES = [''1m'', ''5m'', ''10m'', ''15m'']"

definition TIMEFRAME_MINUTES :: "(string \<times> int) list" where
  "TIMEFRAME_MINUTES = [(''1m'', 1), (''2m'', 2), (''3m'', 3), (''5m'', 5), (''10m'', 10), (''15m'', 15), (''30m'', 30), (''1h'', 60)]"

definition is_intraday :: "string \<Rightarrow> bool" where
  "is_intraday timeframe = (py_lower timeframe \<in> fst ` set TIMEFRAME_MINUTES)"

definition is_minute_bar :: "string \<Rightarrow> bool" where
  "is_minute_bar timeframe = (py_lower timeframe \<in> set MINUTE_BAR_TIMEFRAMES)"

text \<open>The two fold plans of the settings: intraday and daily.\<close>

record fold_plans =
  fp_intraday :: splitter
  fp_daily :: splitter

definition default_fold_plans :: fold_plans where
  "default_fold_plans = \<lparr>fp_intraday = \<lparr>wf_train_days = 5, wf_test_days = 7, wf_step_days = 7, wf_embargo_days = 1, wf_holdout_days = 14\<rparr>,
     fp_daily = default_splitter\<rparr>"

definition splitter_for :: "string \<Rightarrow> fold_plans \<Rightarrow> splitter" where
  "splitter_for timeframe fp = (if is_intraday timeframe then fp_intraday fp else fp_daily fp)"

subsection \<open>Warm-up\<close>

definition bars_before :: "ohlc list \<Rightarrow> time \<Rightarrow> ohlc list" where
  "bars_before history end_time = filter (\<lambda>b. oh_timestamp b < end_time) (sort_key oh_timestamp history)"

definition with_warmup :: "ohlc wf_window \<Rightarrow> ohlc list \<Rightarrow> int \<Rightarrow> ohlc list" where
  "with_warmup w history required_bars =
     (let train_df = (if int (length (ww_train_df w)) < required_bars
                      then bars_before history (ww_train_end w) else ww_train_df w)
      in if train_df = [] then ww_test_df w else train_df @ ww_test_df w)"

definition deep_warmup_bars :: "string \<Rightarrow> int \<Rightarrow> int" where
  "deep_warmup_bars timeframe required_bars =
     (if py_lower timeframe \<noteq> ''1d'' then 0 else max required_bars 0)"

subsection \<open>The evaluation\<close>

fun run_folds :: "(ohlc wf_window \<Rightarrow> exn + backtest_result) \<Rightarrow> ohlc wf_window list \<Rightarrow> exn + backtest_result list" where
  "run_folds f [] = Inr []"
| "run_folds f (w # ws) = bindE (f w) (\<lambda>r. bindE (run_folds f ws) (\<lambda>rs. Inr (r # rs)))"

definition run_window ::
  "libm \<Rightarrow> market_clock \<Rightarrow> engine_config \<Rightarrow> strategy \<Rightarrow> ohlc list \<Rightarrow> int \<Rightarrow> ohlc wf_window \<Rightarrow> exn + backtest_result" where
  "run_window lm mc cfg strat history warmup_bars w =
     run lm mc cfg strat (with_warmup w history warmup_bars) (Some (ww_test_start w))"

record holdout_metrics =
  hm_return_pct :: pyfloat
  hm_max_drawdown_pct :: pyfloat
  hm_trades :: nat
  hm_expectancy_usd :: pyfloat

text \<open>\<open>None\<close> is \<open>{"holdout_evaluated": False}\<close>: no window, or a run that raised.\<close>

definition evaluate_holdout ::
  "libm \<Rightarrow> market_clock \<Rightarrow> engine_config \<Rightarrow> strategy \<Rightarrow> ohlc list \<Rightarrow> splitter \<Rightarrow> int \<Rightarrow> holdout_metrics option" where
  "evaluate_holdout lm mc cfg strat history sp warmup_bars =
     (case holdout_window sp oh_timestamp history of
        Inl e \<Rightarrow> None
      | Inr None \<Rightarrow> None
      | Inr (Some w) \<Rightarrow> (case run_window lm mc cfg strat history warmup_bars w of
          Inl e \<Rightarrow> None
        | Inr res \<Rightarrow> (let m = br_metrics res in
            Some \<lparr>hm_return_pct = py_round 4 (em_total_return_pct m), hm_max_drawdown_pct = py_round 4 (em_max_drawdown_pct m),
                  hm_trades = ts_number_of_trades (em_summary m), hm_expectancy_usd = py_round 4 (xp_expectancy_usd (em_expectancy m))\<rparr>)))"

record walk_forward_row =
  wr_trades :: "bt_trade list"
  wr_metrics :: oos_metrics
  wr_cost_drag_pct :: "pyfloat option"
  wr_total_cost_usd :: "pyfloat option"
  wr_holdout :: "holdout_metrics option"

definition run_strategy ::
  "libm \<Rightarrow> market_clock \<Rightarrow> engine_config \<Rightarrow> fold_plans \<Rightarrow> string \<Rightarrow> strategy \<Rightarrow> int \<Rightarrow> ohlc list
     \<Rightarrow> (exn + walk_forward_row) option" where
  "run_strategy lm mc cfg fp timeframe strat required_bars history =
     (let sp = splitter_for timeframe fp; warmup_bars = deep_warmup_bars timeframe required_bars in
      map_option (\<lambda>folds. bindE folds (\<lambda>ws.
        bindE (run_folds (run_window lm mc cfg strat history warmup_bars) ws) (\<lambda>results.
          let (merged, metrics) = aggregate_out_of_sample (lm_pow lm) (map br_trades results)
                 (map (\<lambda>r. em_total_return_pct (br_metrics r)) results) (wf_test_days sp);
              drags = map (\<lambda>r. em_cost_drag_pct (br_metrics r)) results
          in Inr \<lparr>wr_trades = merged, wr_metrics = metrics,
                  wr_cost_drag_pct = (if drags \<noteq> [] then Some (py_round 6 (sum_list drags / of_nat (length drags))) else None),
                  wr_total_cost_usd = (if drags \<noteq> []
                    then Some (py_round 4 (sum_list (map (\<lambda>r. em_total_cost_usd (br_metrics r)) results))) else None),
                  wr_holdout = evaluate_holdout lm mc cfg strat history sp warmup_bars\<rparr>)))
        (wf_split sp oh_timestamp history))"

definition MIN_MINUTE_BAR_FOLDS :: nat where "MIN_MINUTE_BAR_FOLDS = 2"

definition minute_row_skip :: "string \<Rightarrow> bool \<Rightarrow> nat \<Rightarrow> string option" where
  "minute_row_skip timeframe used_fallback folds =
     (if \<not> is_minute_bar timeframe then None
      else if used_fallback then Some ''fallback_provider''
      else if folds < MIN_MINUTE_BAR_FOLDS then Some ''too_few_folds'' else None)"

definition promotion_hint :: "int \<Rightarrow> pyfloat \<Rightarrow> pyfloat \<Rightarrow> pyfloat \<Rightarrow> nat \<Rightarrow> bool \<Rightarrow> pyfloat \<Rightarrow> string" where
  "promotion_hint total_trades expectancy profit_factor drawdown leakage_warning_count holdout_evaluated holdout_return_pct =
     (if leakage_warning_count \<noteq> 0 then ''blocked_leakage_warning''
      else if holdout_evaluated \<and> holdout_return_pct < 0 then ''blocked_holdout_negative''
      else if 100 \<le> total_trades \<and> 0 < expectancy \<and> 115 / 100 \<le> profit_factor \<and> drawdown \<le> 12 then ''paper_candidate''
      else ''research_only'')"

subsection \<open>The evidence is out of sample\<close>

lemma run_folds_trades:
  "run_folds f ws = Inr rs \<Longrightarrow> tr \<in> set (concat (map br_trades rs)) \<Longrightarrow>
     \<exists>w \<in> set ws. \<exists>r. f w = Inr r \<and> tr \<in> set (br_trades r)"
proof (induction ws arbitrary: rs)
  case (Cons w ws)
  then obtain r rs' where r: "f w = Inr r" "run_folds f ws = Inr rs'" "rs = r # rs'" by (auto simp: bindE_Inr)
  show ?case
  proof (cases "tr \<in> set (br_trades r)")
    case False
    then show ?thesis using Cons.IH [OF r(2)] Cons.prems(2) r(3) by auto
  qed (use r in auto)
qed simp

text \<open>A trade of a windowed run is entered at a bar of the data inside the window.\<close>

lemma windowed_trade:
  assumes "run lm mc cfg strat data (Some start) = Inr res" "tr \<in> set (br_trades res)"
  shows "start \<le> bt_entry_time tr" "bt_entry_time tr \<in> oh_timestamp ` set data"
    "bt_entry_time tr \<le> bt_exit_time tr" "bt_exit_time tr \<in> oh_timestamp ` set data"
proof -
  let ?bars = "normalize_data data"
  obtain k where k: "start \<le> oh_timestamp (?bars ! k)" "Suc (k + delay_of cfg) < length ?bars"
    "bt_entry_time tr = oh_timestamp (?bars ! Suc (k + delay_of cfg))"
    using run_trades_sound(1) [OF assms] by (auto simp: sound_trade_def signalled_def evaluated_def bar_time_def)
  have "oh_timestamp (?bars ! k) \<le> oh_timestamp (?bars ! Suc (k + delay_of cfg))"
    using sorted_nth_mono [of "map oh_timestamp ?bars" k "Suc (k + delay_of cfg)"] k(2)
    by (simp add: normalize_data_def)
  then show "start \<le> bt_entry_time tr" using k by simp
  have "?bars ! Suc (k + delay_of cfg) \<in> set data"
    using nth_mem [OF k(2)] by (simp add: normalize_data_def)
  then show "bt_entry_time tr \<in> oh_timestamp ` set data" using k(3) by simp
  show "bt_entry_time tr \<le> bt_exit_time tr" "bt_exit_time tr \<in> oh_timestamp ` set data"
    using run_trades_sound(2,3) [OF assms] by simp_all
qed

lemma warmup_times:
  assumes "b \<in> set (with_warmup w history req)" "\<forall>a \<in> set (ww_train_df w). oh_timestamp a < ww_train_end w"
  shows "oh_timestamp b < ww_train_end w \<or> b \<in> set (ww_test_df w)"
  using assms by (auto simp: with_warmup_def bars_before_def Let_def split: if_splits)

text \<open>C11: Walk-forward evidence is out of sample. Every trade that a strategy's walk-forward row
pools belongs to a fold of the splitter: it is entered and left at bars of that fold's test window,
after every training bar of the fold by more than the embargo, and no later than the start of the
sealed holdout.\<close>

theorem walk_forward_is_out_of_sample:
  assumes "run_strategy lm mc cfg fp timeframe strat required_bars history = Some (Inr row)"
    and "tr \<in> set (wr_trades row)"
  shows "\<exists>ws w. wf_split (splitter_for timeframe fp) oh_timestamp history = Some (Inr ws) \<and> w \<in> set ws \<and>
    bt_entry_time tr \<in> oh_timestamp ` set (ww_test_df w) \<and> bt_exit_time tr \<in> oh_timestamp ` set (ww_test_df w) \<and>
    (\<forall>a \<in> set (ww_train_df w). oh_timestamp a + wf_embargo_days (splitter_for timeframe fp) * day_us < bt_entry_time tr) \<and>
    bt_exit_time tr \<le> Max (set (map oh_timestamp history)) - wf_holdout_days (splitter_for timeframe fp) * day_us"
proof -
  let ?sp = "splitter_for timeframe fp" and ?warm = "deep_warmup_bars timeframe required_bars"
  obtain ws results where ws: "wf_split ?sp oh_timestamp history = Some (Inr ws)"
    "run_folds (run_window lm mc cfg strat history ?warm) ws = Inr results"
    and tr: "tr \<in> set (concat (map br_trades results))"
    using assms by (auto simp: run_strategy_def Let_def bindE_Inr aggregate_out_of_sample_def)
  obtain w r where w: "w \<in> set ws" "run lm mc cfg strat (with_warmup w history ?warm) (Some (ww_test_start w)) = Inr r"
    "tr \<in> set (br_trades r)"
    using run_folds_trades [OF ws(2) tr] by (auto simp: run_window_def)
  have none: "split_problem ?sp = None" using ws(1) by (auto simp: wf_split_def split: option.splits)
  then have emb: "0 \<le> wf_embargo_days ?sp * day_us" by (auto simp: split_problem_def day_us_def split: if_splits)
  let ?edge = "Max (set (map oh_timestamp history)) - wf_holdout_days ?sp * day_us"
  have ok: "fold_ok ?sp oh_timestamp (sort_key oh_timestamp history) ?edge w"
    using split_returns [OF none, of oh_timestamp history] ws(1) w(1) by (metis option.inject sum.inject(2))
  note t = windowed_trade [OF w(2,3)]
  have train: "\<forall>a \<in> set (ww_train_df w). oh_timestamp a < ww_train_end w" using ok by (auto simp: fold_ok_def)
  have in_test: "x \<in> oh_timestamp ` set (ww_test_df w)"
    if "x \<in> oh_timestamp ` set (with_warmup w history ?warm)" "ww_test_start w \<le> x" for x
    using that warmup_times [OF _ train] ok emb by (fastforce simp: fold_ok_def)
  have entry: "bt_entry_time tr \<in> oh_timestamp ` set (ww_test_df w)" by (rule in_test [OF t(2,1)])
  have exit: "bt_exit_time tr \<in> oh_timestamp ` set (ww_test_df w)"
    using t(1,3) by (intro in_test [OF t(4)]) simp
  have "oh_timestamp a + wf_embargo_days ?sp * day_us < bt_entry_time tr" if "a \<in> set (ww_train_df w)" for a
    using that ok t(1) by (auto simp: fold_ok_def)
  moreover have "bt_exit_time tr \<le> ?edge" using exit ok by (auto simp: fold_ok_def)
  ultimately show ?thesis using ws(1) w(1) entry exit by blast
qed

text \<open>A week of daily bars, one fold of two training and two test days, and one trade in it.\<close>

definition small_plans :: fold_plans where
  "small_plans = \<lparr>fp_intraday = demo_splitter, fp_daily = demo_splitter\<rparr>"

definition week :: "ohlc list" where
  "week = [demo_ohlc 0 99 101 98 99, demo_ohlc day_us 100 101 99 101, demo_ohlc (2 * day_us) 101 103 100 100,
     demo_ohlc (3 * day_us) 100 104 99 102, demo_ohlc (4 * day_us) 100 105 100 104, demo_ohlc (5 * day_us) 104 106 103 105]"

definition week_fold :: "ohlc wf_window" where
  "week_fold = \<lparr>ww_train_start = 0, ww_train_end = 2 * day_us, ww_test_start = 2 * day_us, ww_test_end = 4 * day_us,
     ww_train_df = take 2 week, ww_test_df = take 3 (drop 2 week)\<rparr>"

lemma week_split: "wf_split demo_splitter oh_timestamp week = Some (Inr [week_fold])"
  by code_simp

lemma week_final:
  "map_sum id (\<lambda>st. map (\<lambda>tr. (bt_entry_time tr, bt_exit_time tr)) (es_trades st))
     (final_state (bt_of demo_clock free_config (demo_strategy 100 0) (with_warmup week_fold week 0) (Some (2 * day_us))))
   = Inr [(3 * day_us, 4 * day_us)]"
  by code_simp

lemma week_row:
  obtains row tr where "run_strategy lm demo_clock free_config small_plans ''1d'' (demo_strategy 100 0) 0 week = Some (Inr row)"
    "wr_trades row = [tr]" "bt_entry_time tr = 3 * day_us"
proof -
  obtain st where st: "final_state (bt_of demo_clock free_config (demo_strategy 100 0) (with_warmup week_fold week 0) (Some (2 * day_us))) = Inr st"
    "map (\<lambda>tr. (bt_entry_time tr, bt_exit_time tr)) (es_trades st) = [(3 * day_us, 4 * day_us)]"
    using week_final
    by (cases "final_state (bt_of demo_clock free_config (demo_strategy 100 0) (with_warmup week_fold week 0) (Some (2 * day_us)))") auto
  then obtain tr where tr: "es_trades st = [tr]" "bt_entry_time tr = 3 * day_us" by auto
  have "run_window lm demo_clock free_config (demo_strategy 100 0) week 0 week_fold = Inr (result_of lm free_config st)"
    using st(1) by (simp add: run_window_def run_def bt_of_def week_fold_def)
  moreover have "splitter_for ''1d'' small_plans = demo_splitter" by (simp add: splitter_for_def small_plans_def)
  moreover have "deep_warmup_bars ''1d'' 0 = 0" by (simp add: deep_warmup_bars_def)
  moreover have "br_trades (result_of lm free_config st) = [tr]" using tr(1) by (simp add: result_of_def Let_def)
  ultimately have "\<exists>row. run_strategy lm demo_clock free_config small_plans ''1d'' (demo_strategy 100 0) 0 week = Some (Inr row) \<and>
      wr_trades row = [tr]"
    by (simp add: run_strategy_def Let_def week_split aggregate_out_of_sample_def)
  then show thesis using that tr(2) by blast
qed

lemma walk_forward_is_out_of_sample_witness:
  "\<exists>row tr. run_strategy demo_libm demo_clock free_config small_plans ''1d'' (demo_strategy 100 0) 0 week = Some (Inr row) \<and>
     wr_trades row = [tr] \<and> bt_exit_time tr \<le> Max (set (map oh_timestamp week)) - wf_holdout_days (splitter_for ''1d'' small_plans) * day_us"
proof -
  obtain row tr where r: "run_strategy demo_libm demo_clock free_config small_plans ''1d'' (demo_strategy 100 0) 0 week = Some (Inr row)"
    "wr_trades row = [tr]" using week_row by blast
  then show ?thesis using walk_forward_is_out_of_sample [OF r(1), of tr] by auto
qed

end
