(* ===== verification/Evidence.thy ===== *)
theory Evidence
  imports Walk_Forward_Runs Approvals
begin

text \<open>
  The evidence gate (src/app/performance/strategy_evidence.py): the pooled walk-forward verdict
  per strategy and timeframe, its refresh with the pass streaks, and the checks that read the
  cached verdicts; and the paper record a live copy needs
  (src/app/broker/etoro_live_paper_record.py).

  The rows of the \<open>backtests\<close> table are typed records; a row whose JSON cannot be read has no
  numbers. The SQL \<open>LIKE\<close> is the argument \<open>like\<close>. The cached payload is the record written by
  the refresh, with every part optional, because an old or damaged value may lack it; a
  timestamp is missing, unreadable or a time.
\<close>

definition VERDICTS_KEY :: string where "VERDICTS_KEY = ''strategy_evidence:verdicts''"
definition BACKTEST_RISK_USD :: pyfloat where "BACKTEST_RISK_USD = 100"

text \<open>The evidence fields of the settings, after the code's \<open>int(... or default)\<close>.\<close>

record evidence_settings =
  ev_lookback_days :: int
  ev_min_trades :: int
  ev_min_holdout_trades :: int
  ev_min_expectancy_r :: pyfloat
  ev_require_oos :: bool
  ev_paper_oos_bar :: bool

definition default_evidence_settings :: evidence_settings where
  "default_evidence_settings = \<lparr>ev_lookback_days = 7, ev_min_trades = 40, ev_min_holdout_trades = 10,
     ev_min_expectancy_r = 0, ev_require_oos = True, ev_paper_oos_bar = False\<rparr>"

record oos_numbers =
  on_trades :: int
  on_expectancy_usd :: pyfloat
  on_holdout_trades :: int
  on_holdout_expectancy_usd :: pyfloat

record oos_row =
  or_strategy :: string
  or_file_path :: string
  or_completed_at :: time
  or_metrics :: "(oos_numbers \<times> (string \<times> oos_numbers) list) option"

subsection \<open>Pools and verdicts\<close>

fun split_colon :: "string \<Rightarrow> string list" where
  "split_colon [] = [[]]"
| "split_colon (c # s) = (if c = CHR '':'' then [] # split_colon s
     else (c # hd (split_colon s)) # tl (split_colon s))"

definition timeframe_of_path :: "string \<Rightarrow> string" where
  "timeframe_of_path file_path = (let parts = split_colon file_path in
     if 3 \<le> length parts then py_lower (parts ! 1) else [])"

definition timeframe_of_key :: "string \<Rightarrow> string" where
  "timeframe_of_key key = last (split_colon key)"

definition latest_oos_rows :: "(string \<Rightarrow> bool) \<Rightarrow> time \<Rightarrow> oos_row list \<Rightarrow> oos_row list" where
  "latest_oos_rows like cutoff rows =
     (let matching = filter (\<lambda>r. like (or_file_path r) \<and> cutoff \<le> or_completed_at r) rows in
      filter (\<lambda>r. \<forall>r' \<in> set matching. or_strategy r' = or_strategy r \<and> or_file_path r' = or_file_path r \<longrightarrow>
        or_completed_at r' \<le> or_completed_at r) matching)"

record pool =
  pl_symbols :: int
  pl_trades :: int
  pl_pnl :: pyfloat
  pl_holdout_trades :: int
  pl_holdout_pnl :: pyfloat

definition empty_pool :: pool where
  "empty_pool = \<lparr>pl_symbols = 0, pl_trades = 0, pl_pnl = 0, pl_holdout_trades = 0, pl_holdout_pnl = 0\<rparr>"

definition add_to_pool :: "oos_numbers \<Rightarrow> pool \<Rightarrow> pool" where
  "add_to_pool m b = \<lparr>pl_symbols = pl_symbols b + 1, pl_trades = pl_trades b + on_trades m,
     pl_pnl = pl_pnl b + on_expectancy_usd m * of_int (on_trades m),
     pl_holdout_trades = pl_holdout_trades b + on_holdout_trades m,
     pl_holdout_pnl = pl_holdout_pnl b + on_holdout_expectancy_usd m * of_int (on_holdout_trades m)\<rparr>"

type_synonym bucket = "pool \<times> (string \<times> pool) list"

definition row_key :: "oos_row \<Rightarrow> string" where
  "row_key r = or_strategy r @ '':'' @ timeframe_of_path (or_file_path r)"

definition pool_profiles :: "(string \<times> oos_numbers) list \<Rightarrow> (string \<times> pool) list \<Rightarrow> (string \<times> pool) list" where
  "pool_profiles profiles ps = fold (\<lambda>(name, m) acc. AList.update name (add_to_pool m (get_default acc name empty_pool)) acc) profiles ps"

definition pool_row :: "oos_row \<Rightarrow> (string \<times> bucket) list \<Rightarrow> (string \<times> bucket) list" where
  "pool_row r pooled = (case or_metrics r of None \<Rightarrow> pooled
     | Some (m, profiles) \<Rightarrow>
         (let (b, ps) = get_default pooled (row_key r) (empty_pool, []) in
          AList.update (row_key r) (add_to_pool m b, pool_profiles profiles ps) pooled))"

text \<open>\<open>f"{x:g}"\<close> for the short decimals of the settings.\<close>

definition fmt_g :: "pyfloat \<Rightarrow> string" where
  "fmt_g x = (if x = of_int \<lfloor>x\<rfloor> then show_int \<lfloor>x\<rfloor> else show_float x)"

definition judge :: "evidence_settings \<Rightarrow> pool \<Rightarrow> string list \<times> pyfloat \<times> pyfloat" where
  "judge es b =
     (let expectancy = (if pl_trades b \<noteq> 0 then pl_pnl b / of_int (pl_trades b) else 0);
          holdout_expectancy = (if pl_holdout_trades b \<noteq> 0 then pl_holdout_pnl b / of_int (pl_holdout_trades b) else 0);
          reasons = (if pl_trades b < ev_min_trades es then [''too_few_oos_trades''] else []) @
            (if expectancy \<le> 0 then [''oos_expectancy_not_positive'']
             else if 0 < ev_min_expectancy_r es \<and> expectancy < ev_min_expectancy_r es * BACKTEST_RISK_USD
             then [''oos_expectancy_below_'' @ fmt_g (ev_min_expectancy_r es) @ ''R''] else []) @
            (if pl_holdout_trades b < ev_min_holdout_trades es then [''too_few_holdout_trades'']
             else if holdout_expectancy \<le> 0 then [''holdout_expectancy_not_positive''] else [])
      in (reasons, expectancy, holdout_expectancy))"

definition HOLDOUT_REASONS :: "string list" where
  "HOLDOUT_REASONS = [''too_few_holdout_trades'', ''holdout_expectancy_not_positive'']"

definition oos_part_passes :: "string list \<Rightarrow> bool" where
  "oos_part_passes reasons = (set reasons \<subseteq> set HOLDOUT_REASONS)"

definition VENUE_PROFILE_NAMES :: "string list" where
  "VENUE_PROFILE_NAMES = map fst venue_cost_models"

text \<open>The failing reasons of the venue profiles, each with its profile's name.\<close>

definition profile_reasons :: "evidence_settings \<Rightarrow> (string \<times> pool) list \<Rightarrow> string \<Rightarrow> string list" where
  "profile_reasons es profiles name = (case map_of profiles name of None \<Rightarrow> [''no_cost_profile_rows'']
     | Some p \<Rightarrow> fst (judge es p))"

definition paper_reasons :: "evidence_settings \<Rightarrow> (string \<times> pool) list \<Rightarrow> (string \<times> string) list" where
  "paper_reasons es profiles =
     concat (map (\<lambda>name. map (\<lambda>r. (name, r)) (profile_reasons es profiles name)) VENUE_PROFILE_NAMES)"

record verdict =
  vd_passed :: bool
  vd_reasons :: "string list"
  vd_symbols :: int
  vd_oos_trades :: int
  vd_oos_expectancy_usd :: "pyfloat option"
  vd_oos_expectancy_r :: "pyfloat option"
  vd_holdout_trades :: int
  vd_holdout_expectancy_usd :: pyfloat
  vd_paper_oos_passed :: bool
  vd_paper_passed :: "bool option"
  vd_paper_reasons :: "string list"

definition verdict_of :: "evidence_settings \<Rightarrow> string \<times> bucket \<Rightarrow> string \<times> verdict" where
  "verdict_of es kb =
     (let (key, b, profiles) = kb; (reasons, expectancy, holdout_expectancy) = judge es b;
          minute = is_minute_bar (timeframe_of_key key); paper = paper_reasons es profiles
      in (key, \<lparr>vd_passed = (reasons = []), vd_reasons = reasons, vd_symbols = pl_symbols b, vd_oos_trades = pl_trades b,
           vd_oos_expectancy_usd = Some (py_round 4 expectancy),
           vd_oos_expectancy_r = Some (py_round 4 (expectancy / BACKTEST_RISK_USD)),
           vd_holdout_trades = pl_holdout_trades b, vd_holdout_expectancy_usd = py_round 4 holdout_expectancy,
           vd_paper_oos_passed = (oos_part_passes reasons \<and> (minute \<longrightarrow> oos_part_passes (map snd paper))),
           vd_paper_passed = (if minute then Some (paper = []) else None),
           vd_paper_reasons = (if minute then map (\<lambda>(name, r). name @ '':'' @ r) paper else [])\<rparr>))"

definition compute_verdicts :: "(string \<Rightarrow> bool) \<Rightarrow> evidence_settings \<Rightarrow> time \<Rightarrow> oos_row list \<Rightarrow> (string \<times> verdict) list" where
  "compute_verdicts like es now rows =
     (let cutoff = now - ev_lookback_days es * day_us;
          pooled = fold pool_row (latest_oos_rows like cutoff rows) []
      in map (verdict_of es) pooled)"

subsection \<open>The cached payload and the pass streaks\<close>

datatype stamp = No_stamp | Bad_stamp | Stamp time

fun parse_stamp :: "stamp \<Rightarrow> time option" where
  "parse_stamp (Stamp t) = Some t"
| "parse_stamp _ = None"

record payload =
  py_computed_at :: stamp
  py_verdicts :: "(string \<times> verdict) list option"
  py_passing_since :: "(string \<times> stamp) list option"

definition no_payload :: payload where
  "no_payload = \<lparr>py_computed_at = No_stamp, py_verdicts = None, py_passing_since = None\<rparr>"

definition EVIDENCE_STREAK_MAX_GAP :: int where "EVIDENCE_STREAK_MAX_GAP = 120 * minute_us"
definition CLOCK_SKEW :: int where "CLOCK_SKEW = 5 * minute_us"

definition continuous :: "payload \<Rightarrow> time \<Rightarrow> bool" where
  "continuous previous now = (py_passing_since previous \<noteq> None \<and> py_verdicts previous \<noteq> None \<and>
     (case parse_stamp (py_computed_at previous) of None \<Rightarrow> False
      | Some last_at \<Rightarrow> - CLOCK_SKEW \<le> now - last_at \<and> now - last_at \<le> EVIDENCE_STREAK_MAX_GAP))"

definition prior_passed :: "payload \<Rightarrow> string \<Rightarrow> bool" where
  "prior_passed p key = (case py_verdicts p of None \<Rightarrow> False
     | Some vs \<Rightarrow> (case map_of vs key of None \<Rightarrow> False | Some v \<Rightarrow> vd_passed v))"

definition since_of :: "payload \<Rightarrow> string \<Rightarrow> time option" where
  "since_of p key = (case py_passing_since p of None \<Rightarrow> None
     | Some m \<Rightarrow> parse_stamp (get_default m key No_stamp))"

definition streak_start :: "payload \<Rightarrow> time \<Rightarrow> string \<Rightarrow> time" where
  "streak_start previous now key =
     (case (if continuous previous now \<and> prior_passed previous key then since_of previous key else None) of
        Some start \<Rightarrow> if start \<le> now then start else now
      | None \<Rightarrow> now)"

definition passing_since :: "payload \<Rightarrow> (string \<times> verdict) list \<Rightarrow> time \<Rightarrow> (string \<times> stamp) list" where
  "passing_since previous verdicts now =
     map (\<lambda>(key, v). (key, Stamp (streak_start previous now key))) (filter (\<lambda>(key, v). vd_passed v) verdicts)"

text \<open>\<open>refresh_verdicts\<close> on the cached value; an unreadable one (\<open>None\<close>) counts as empty.\<close>

definition refresh_payload :: "payload option \<Rightarrow> (string \<times> verdict) list \<Rightarrow> time \<Rightarrow> payload" where
  "refresh_payload cached verdicts now =
     (let previous = (case cached of None \<Rightarrow> no_payload | Some p \<Rightarrow> p) in
      \<lparr>py_computed_at = Stamp now, py_verdicts = Some verdicts,
       py_passing_since = Some (passing_since previous verdicts now)\<rparr>)"

definition evidence_key :: "string \<Rightarrow> string option \<Rightarrow> string" where
  "evidence_key strategy timeframe = strategy @ '':'' @ py_lower (case timeframe of None \<Rightarrow> [] | Some t \<Rightarrow> t)"

text \<open>\<open>passing_hours\<close>; hours are counted as in the code, from microseconds.\<close>

definition hour_us :: int where "hour_us = 60 * minute_us"

definition passing_hours :: "payload option \<Rightarrow> string \<Rightarrow> time \<Rightarrow> pyfloat option" where
  "passing_hours cached key now =
     (case cached of None \<Rightarrow> None
      | Some p \<Rightarrow> (case parse_stamp (py_computed_at p) of None \<Rightarrow> None
        | Some computed \<Rightarrow>
            if py_passing_since p = None \<or> py_verdicts p = None then None
            else if \<not> (- CLOCK_SKEW \<le> now - computed \<and> now - computed \<le> EVIDENCE_STREAK_MAX_GAP) then None
            else if \<not> prior_passed p key then Some 0
            else (case since_of p key of None \<Rightarrow> None
              | Some since \<Rightarrow> if computed + CLOCK_SKEW < since then None
                else Some (max (of_int (min now computed - since) / of_int hour_us) 0))))"

subsection \<open>The gate\<close>

definition RETIRED_STRATEGY_NAMES :: "string list" where
  "RETIRED_STRATEGY_NAMES = [''etf_mega_cap_relative_strength_rotation'']"

definition is_retired :: "string \<Rightarrow> bool" where
  "is_retired name = (py_lower (py_strip name) \<in> set RETIRED_STRATEGY_NAMES)"

definition EDGE_BELOW_BAR :: string where "EDGE_BELOW_BAR = ''strategy_edge_below_bar''"
definition STRATEGY_RETIRED :: string where "STRATEGY_RETIRED = ''strategy_retired''"
definition EVIDENCE_MAX_AGE :: int where "EVIDENCE_MAX_AGE = 24 * hour_us"

definition stale :: "stamp \<Rightarrow> time \<Rightarrow> bool" where
  "stale computed_at now = (case computed_at of No_stamp \<Rightarrow> False | Bad_stamp \<Rightarrow> True
     | Stamp t \<Rightarrow> EVIDENCE_MAX_AGE < now - t)"

definition edge_r :: "verdict \<Rightarrow> pyfloat option" where
  "edge_r v = (case vd_oos_expectancy_r v of Some x \<Rightarrow> Some x
     | None \<Rightarrow> map_option (\<lambda>x. x / BACKTEST_RISK_USD) (vd_oos_expectancy_usd v))"

definition paper_full :: "verdict \<Rightarrow> string option \<Rightarrow> bool" where
  "paper_full v timeframe = (vd_passed v \<and>
     (\<not> is_minute_bar (case timeframe of None \<Rightarrow> [] | Some t \<Rightarrow> t) \<or> vd_paper_passed v = Some True))"

definition oos_bar :: "evidence_settings \<Rightarrow> verdict \<Rightarrow> bool" where
  "oos_bar es v = (ev_paper_oos_bar es \<and> vd_paper_oos_passed v)"

definition paper_oos_only :: "evidence_settings \<Rightarrow> verdict \<Rightarrow> string option \<Rightarrow> bool" where
  "paper_oos_only es v timeframe = (oos_bar es v \<and> \<not> paper_full v timeframe)"

definition evidence_blocker ::
  "evidence_settings \<Rightarrow> payload option \<Rightarrow> time \<Rightarrow> string \<Rightarrow> string option \<Rightarrow> pyfloat \<Rightarrow> bool \<Rightarrow> string option" where
  "evidence_blocker es cached now strategy timeframe min_expectancy_r paper =
     (if is_retired strategy then Some STRATEGY_RETIRED
      else if \<not> ev_require_oos es then None
      else let p = (case cached of None \<Rightarrow> no_payload | Some p \<Rightarrow> p) in
        case map_of (case py_verdicts p of None \<Rightarrow> [] | Some vs \<Rightarrow> vs) (evidence_key strategy timeframe) of
          None \<Rightarrow> Some ''strategy_lacks_oos_evidence''
        | Some v \<Rightarrow>
            (let admitted = (if paper then paper_full v timeframe \<or> oos_bar es v else vd_passed v) in
             if \<not> admitted then Some ''strategy_lacks_oos_evidence''
             else if stale (py_computed_at p) now then Some ''strategy_evidence_stale''
             else if 0 < min_expectancy_r \<and> \<not> (case edge_r v of None \<Rightarrow> False | Some x \<Rightarrow> min_expectancy_r \<le> x)
             then Some EDGE_BELOW_BAR else None))"

subsection \<open>The paper record\<close>

definition MIN_CLOSED_PAPER_TRADES :: nat where "MIN_CLOSED_PAPER_TRADES = 3"
definition RECORD_ROWS :: nat where "RECORD_ROWS = 2000"

definition record_key :: "string \<Rightarrow> string \<Rightarrow> string" where
  "record_key strategy timeframe = py_lower (py_strip strategy) @ '':'' @ py_lower (py_strip timeframe)"

definition without_paper_only :: "paper_trade list \<Rightarrow> paper_trade list" where
  "without_paper_only trades = filter (\<lambda>t. \<not> is_paper_only (pt_payload t)) trades"

definition count_trade :: "paper_trade \<Rightarrow> (string \<times> nat \<times> pyfloat) list \<Rightarrow> (string \<times> nat \<times> pyfloat) list" where
  "count_trade t records =
     (let key = record_key (pt_strategy_name t) (pt_timeframe t); (count, total) = get_default records key (0, 0)
      in AList.update key (Suc count, total + pt_realized_pnl_usd t) records)"

definition paper_records :: "paper_trade list \<Rightarrow> (string \<times> nat \<times> pyfloat) list" where
  "paper_records trades =
     fold count_trade (filter (\<lambda>t. py_strip (pt_strategy_name t) \<noteq> []) (without_paper_only trades)) []"

definition paper_record_blocker :: "(string \<times> nat \<times> pyfloat) list option \<Rightarrow> string \<Rightarrow> string \<Rightarrow> string option" where
  "paper_record_blocker records strategy timeframe =
     (case records of None \<Rightarrow> Some ''etoro_live_paper_record_unknown''
      | Some rs \<Rightarrow> (let (count, total) = get_default rs (record_key strategy timeframe) (0, 0) in
          if count < MIN_CLOSED_PAPER_TRADES then Some ''etoro_live_paper_record_too_few''
          else if \<not> 0 < total then Some ''etoro_live_paper_record_not_positive'' else None))"

subsection \<open>Verdicts pool the whole universe\<close>

definition pooled_numbers :: "string \<Rightarrow> oos_row list \<Rightarrow> oos_numbers list" where
  "pooled_numbers key rows = concat (map (\<lambda>r. if row_key r = key then (case or_metrics r of None \<Rightarrow> [] | Some (m, _) \<Rightarrow> [m]) else []) rows)"

lemma pool_row_bucket:
  "fst (get_default (pool_row r pooled) key (empty_pool, [])) =
     fold add_to_pool (pooled_numbers key [r]) (fst (get_default pooled key (empty_pool, [])))"
  by (auto simp: pool_row_def pooled_numbers_def Let_def split: option.splits prod.splits)

lemma pool_rows_bucket:
  "fst (get_default (fold pool_row rows pooled) key (empty_pool, [])) =
     fold add_to_pool (pooled_numbers key rows) (fst (get_default pooled key (empty_pool, [])))"
proof (induction rows arbitrary: pooled)
  case (Cons r rows)
  have "pooled_numbers key (r # rows) = pooled_numbers key [r] @ pooled_numbers key rows"
    by (simp add: pooled_numbers_def)
  then show ?case using Cons by (simp add: pool_row_bucket)
qed (simp add: pooled_numbers_def)

lemma pool_row_distinct: "distinct (map fst pooled) \<Longrightarrow> distinct (map fst (pool_row r pooled))"
  by (auto simp: pool_row_def Let_def distinct_update split: option.splits prod.splits)

lemma pool_rows_distinct: "distinct (map fst pooled) \<Longrightarrow> distinct (map fst (fold pool_row rows pooled))"
  by (induction rows arbitrary: pooled) (simp_all add: pool_row_distinct)

lemma fold_add_to_pool:
  "pl_trades (fold add_to_pool ms b) = pl_trades b + sum_list (map on_trades ms)"
  "pl_pnl (fold add_to_pool ms b) = pl_pnl b + sum_list (map (\<lambda>m. on_expectancy_usd m * of_int (on_trades m)) ms)"
  "pl_holdout_trades (fold add_to_pool ms b) = pl_holdout_trades b + sum_list (map on_holdout_trades ms)"
  "pl_holdout_pnl (fold add_to_pool ms b) = pl_holdout_pnl b + sum_list (map (\<lambda>m. on_holdout_expectancy_usd m * of_int (on_holdout_trades m)) ms)"
  by (induction ms arbitrary: b) (simp_all add: add_to_pool_def)

lemma verdict_of_fst [simp]: "fst (verdict_of es kb) = fst kb"
  by (simp add: verdict_of_def Let_def case_prod_beta)

lemma verdicts_distinct: "distinct (map fst (compute_verdicts like es now rows))"
  using pool_rows_distinct [of "[]"] by (simp add: compute_verdicts_def Let_def comp_def)

lemma judge_passes:
  assumes "0 < ev_min_trades es" "0 < ev_min_holdout_trades es"
  shows "fst (judge es b) = [] \<longleftrightarrow>
     ev_min_trades es \<le> pl_trades b \<and> 0 < pl_pnl b \<and>
     (0 < ev_min_expectancy_r es \<longrightarrow> ev_min_expectancy_r es * BACKTEST_RISK_USD * of_int (pl_trades b) \<le> pl_pnl b) \<and>
     ev_min_holdout_trades es \<le> pl_holdout_trades b \<and> 0 < pl_holdout_pnl b"
proof (cases "ev_min_trades es \<le> pl_trades b \<and> ev_min_holdout_trades es \<le> pl_holdout_trades b")
  case True
  then have "0 < pl_trades b" "0 < pl_holdout_trades b" using assms by auto
  then have "pl_pnl b / of_int (pl_trades b) \<le> 0 \<longleftrightarrow> pl_pnl b \<le> 0"
    "pl_holdout_pnl b / of_int (pl_holdout_trades b) \<le> 0 \<longleftrightarrow> pl_holdout_pnl b \<le> 0"
    "\<And>x. pl_pnl b / of_int (pl_trades b) < x \<longleftrightarrow> pl_pnl b < x * of_int (pl_trades b)"
    by (auto simp: divide_le_0_iff pos_divide_less_eq)
  with True assms show ?thesis
    by (auto simp: judge_def Let_def not_less not_le)
next
  case False
  then show ?thesis using assms by (auto simp: judge_def Let_def)
qed

text \<open>C25: A verdict passes on the pooled evidence of the whole universe. For positive trade
thresholds, a strategy and timeframe passes exactly when the newest out-of-sample rows of all its
symbols together have enough trades and a positive total result (and the asked-for expectancy per
trade, if one is set), and enough sealed holdout trades with a positive total result.\<close>

theorem verdict_pools_the_universe:
  assumes "(key, v) \<in> set (compute_verdicts like es now rows)" "0 < ev_min_trades es" "0 < ev_min_holdout_trades es"
  defines "ms \<equiv> pooled_numbers key (latest_oos_rows like (now - ev_lookback_days es * day_us) rows)"
  shows "vd_passed v \<longleftrightarrow>
     ev_min_trades es \<le> sum_list (map on_trades ms) \<and>
     0 < sum_list (map (\<lambda>m. on_expectancy_usd m * of_int (on_trades m)) ms) \<and>
     (0 < ev_min_expectancy_r es \<longrightarrow> ev_min_expectancy_r es * BACKTEST_RISK_USD * of_int (sum_list (map on_trades ms))
        \<le> sum_list (map (\<lambda>m. on_expectancy_usd m * of_int (on_trades m)) ms)) \<and>
     ev_min_holdout_trades es \<le> sum_list (map on_holdout_trades ms) \<and>
     0 < sum_list (map (\<lambda>m. on_holdout_expectancy_usd m * of_int (on_holdout_trades m)) ms)"
proof -
  let ?pooled = "fold pool_row (latest_oos_rows like (now - ev_lookback_days es * day_us) rows) []"
  obtain b profiles where mem: "(key, b, profiles) \<in> set ?pooled" and v: "verdict_of es (key, b, profiles) = (key, v)"
    using assms(1) by (auto simp: compute_verdicts_def Let_def verdict_of_def case_prod_beta)
  have "map_of ?pooled key = Some (b, profiles)"
    using mem pool_rows_distinct [of "[]"] by (intro map_of_is_SomeI) simp_all
  then have "b = fold add_to_pool ms empty_pool"
    using pool_rows_bucket [where pooled = "[]" and key = key]
    by (metis fst_conv get_default_Nil get_default_def ms_def option.case(2))
  moreover have "vd_passed v = (fst (judge es b) = [])"
    using v by (auto simp: verdict_of_def Let_def case_prod_beta)
  ultimately show ?thesis
    using judge_passes [OF assms(2,3), of b] by (simp add: fold_add_to_pool empty_pool_def)
qed

text \<open>Two symbols of one strategy: neither has enough trades alone, together they pass.\<close>

definition demo_evidence_rows :: "oos_row list" where
  "demo_evidence_rows =
     [\<lparr>or_strategy = ''orb'', or_file_path = ''AAPL:5m:walk'', or_completed_at = 10,
        or_metrics = Some (\<lparr>on_trades = 30, on_expectancy_usd = 5, on_holdout_trades = 6, on_holdout_expectancy_usd = 2\<rparr>, [])\<rparr>,
      \<lparr>or_strategy = ''orb'', or_file_path = ''MSFT:5m:walk'', or_completed_at = 20,
        or_metrics = Some (\<lparr>on_trades = 20, on_expectancy_usd = - 3, on_holdout_trades = 8, on_holdout_expectancy_usd = 1\<rparr>, [])\<rparr>]"

lemma verdict_pools_the_universe_witness:
  "\<exists>v. (''orb:5m'', v) \<in> set (compute_verdicts (\<lambda>_. True) default_evidence_settings 20 demo_evidence_rows) \<and> vd_passed v"
proof -
  let ?vs = "compute_verdicts (\<lambda>_. True) default_evidence_settings 20 demo_evidence_rows"
  let ?v = "snd (hd ?vs)"
  have mem: "(''orb:5m'', ?v) \<in> set ?vs" by code_simp
  have "vd_passed ?v"
    by (subst verdict_pools_the_universe [OF mem]) code_simp+
  with mem show ?thesis by blast
qed

subsection \<open>Streaks are unbroken\<close>

definition passes :: "(string \<times> verdict) list \<Rightarrow> string \<Rightarrow> bool" where
  "passes vs key = (case map_of vs key of None \<Rightarrow> False | Some v \<Rightarrow> vd_passed v)"

text \<open>The cached value after a history of refreshes (the latest first), and a run in it.\<close>

fun cached_after :: "(time \<times> (string \<times> verdict) list) list \<Rightarrow> payload option" where
  "cached_after [] = None"
| "cached_after ((now, vs) # earlier) = Some (refresh_payload (cached_after earlier) vs now)"

fun unbroken :: "string \<Rightarrow> time \<Rightarrow> (time \<times> (string \<times> verdict) list) list \<Rightarrow> bool" where
  "unbroken key s [] = False"
| "unbroken key s ((t, vs) # earlier) = (passes vs key \<and> (t = s \<or>
     (earlier \<noteq> [] \<and> t - fst (hd earlier) \<le> EVIDENCE_STREAK_MAX_GAP \<and> unbroken key s earlier)))"

lemma prior_passed_refresh: "prior_passed (refresh_payload c vs t) key = passes vs key"
  by (simp add: prior_passed_def refresh_payload_def Let_def passes_def)

lemma map_of_passing:
  assumes "distinct (map fst vs)"
  shows "map_of (map (\<lambda>(k, v). (k, f k)) (filter (\<lambda>(k, v). vd_passed v) vs)) key = (if passes vs key then Some (f key) else None)"
  using assms
proof (induction vs)
  case (Cons kv vs)
  obtain k v where kv: "kv = (k, v)" by fastforce
  have "map_of vs k = None" using Cons.prems kv by (simp add: map_of_eq_None_iff)
  then show ?case using Cons kv by (auto simp: passes_def)
qed (simp add: passes_def)

lemma since_of_refresh:
  assumes "distinct (map fst vs)"
  shows "since_of (refresh_payload c vs t) key =
     (if passes vs key then Some (streak_start (case c of None \<Rightarrow> no_payload | Some p \<Rightarrow> p) t key) else None)"
  using map_of_passing [OF assms, of "\<lambda>k. Stamp (streak_start (case c of None \<Rightarrow> no_payload | Some p \<Rightarrow> p) t k)" key]
  by (simp add: since_of_def refresh_payload_def Let_def passing_since_def get_default_def)

lemma streak_sound:
  assumes "\<forall>(t, vs) \<in> set hist. distinct (map fst vs)" "cached_after hist = Some p" "since_of p key = Some s"
  shows "unbroken key s hist"
  using assms
proof (induction hist arbitrary: p s)
  case (Cons tv earlier)
  obtain t vs where tv: "tv = (t, vs)" by fastforce
  let ?prev = "case cached_after earlier of None \<Rightarrow> no_payload | Some p \<Rightarrow> p"
  have "distinct (map fst vs)" using Cons.prems(1) tv by simp
  then have s: "passes vs key" "s = streak_start ?prev t key"
    using Cons.prems(2,3) tv by (auto simp: since_of_refresh split: if_splits)
  show ?case
  proof (cases "s = t")
    case False
    then have c: "continuous ?prev t" "since_of ?prev key = Some s"
      using s(2) by (auto simp: streak_start_def split: option.splits if_splits)
    then obtain q where q: "cached_after earlier = Some q"
      by (cases "cached_after earlier") (auto simp: continuous_def no_payload_def)
    then obtain t' vs' rest where e: "earlier = (t', vs') # rest" by (cases earlier) auto
    then have "py_computed_at q = Stamp t'" using q by (auto simp: refresh_payload_def Let_def)
    then have "t - t' \<le> EVIDENCE_STREAK_MAX_GAP" using c(1) q by (simp add: continuous_def)
    moreover have "unbroken key s earlier" using Cons.IH [OF _ q] Cons.prems(1) c(2) q by simp
    ultimately show ?thesis using s(1) tv e by simp
  qed (use s(1) tv in simp)
qed simp

text \<open>C24: A pass streak is real. Whenever the cache, after any sequence of refreshes, reports that
a strategy has passed for a positive number of hours, there was a run of consecutive refreshes,
ending with the latest, never more than two hours apart, at every one of which the strategy passed,
and that run is at least as long as reported; and the latest refresh is at most two hours old.\<close>

theorem streak_is_unbroken:
  assumes "\<forall>(t, vs) \<in> set ((computed, latest) # earlier). distinct (map fst vs)"
    and "passing_hours (cached_after ((computed, latest) # earlier)) key now = Some h" "0 < h"
  shows "\<exists>s. unbroken key s ((computed, latest) # earlier) \<and> h * of_int hour_us \<le> of_int (computed - s) \<and>
    now - computed \<le> EVIDENCE_STREAK_MAX_GAP"
proof -
  let ?p = "refresh_payload (cached_after earlier) latest computed"
  have comp: "py_computed_at ?p = Stamp computed" by (simp add: refresh_payload_def Let_def)
  have "now - computed \<le> EVIDENCE_STREAK_MAX_GAP"
    using assms(2,3) by (auto simp: passing_hours_def comp split: if_splits option.splits)
  moreover obtain s where s: "since_of ?p key = Some s" "h = max (of_int (min now computed - s) / of_int hour_us) 0"
    using assms(2,3) by (auto simp: passing_hours_def comp split: if_splits option.splits)
  then have "h = of_int (min now computed - s) / of_int hour_us" using assms(3) by (auto simp: max_def split: if_splits)
  then have "h * of_int hour_us = of_int (min now computed - s)" by (simp add: hour_us_def minute_us_def)
  then have "h * of_int hour_us \<le> of_int (computed - s)" by simp
  moreover have "unbroken key s ((computed, latest) # earlier)"
    by (rule streak_sound [OF assms(1) _ s(1)]) simp
  ultimately show ?thesis by blast
qed

text \<open>Three refreshes an hour apart: the strategy fails, then passes twice.\<close>

definition demo_verdict :: "bool \<Rightarrow> verdict" where
  "demo_verdict ok = \<lparr>vd_passed = ok, vd_reasons = [], vd_symbols = 1, vd_oos_trades = 50, vd_oos_expectancy_usd = None,
     vd_oos_expectancy_r = None, vd_holdout_trades = 10, vd_holdout_expectancy_usd = 1, vd_paper_oos_passed = ok,
     vd_paper_passed = None, vd_paper_reasons = []\<rparr>"

lemma streak_is_unbroken_witness:
  "\<exists>s. unbroken ''orb:5m'' s [(2 * hour_us, [(''orb:5m'', demo_verdict True)]), (hour_us, [(''orb:5m'', demo_verdict True)]),
       (0, [(''orb:5m'', demo_verdict False)])] \<and> 1 * of_int hour_us \<le> (of_int (2 * hour_us - s) :: pyfloat) \<and>
     3 * hour_us - 2 * hour_us \<le> EVIDENCE_STREAK_MAX_GAP"
  by (rule streak_is_unbroken) (simp, code_simp, simp)

end
