(* ===== verification/Live_Room.thy ===== *)
theory Live_Room
  imports Evidence Reconciliation
begin

text \<open>
  The real-money side: the state of the eToro live mirror and the room its account leaves for a
  copy (src/app/broker/etoro_live_room.py; the state and the constants of etoro_live_mirror.py,
  etoro_live_backup_stop.py and etoro_live_scorecard.py).

  Each JSON value of the runtime state is a typed field here; \<open>None\<close> stands for one that cannot
  be read. A number is \<open>None\<close> when it is missing, not a number or not finite, which the code
  treats alike, except for the free cash, where "never read" and "unreadable" differ. The eToro
  client, the clock and the New York calendar are functions of the calls made so far. Telegram
  messages are left out: they are best effort and their failures are suppressed.
\<close>

subsection \<open>State\<close>

record notional_row =
  nr_cost_usd :: "pyfloat option"
  nr_units :: "pyfloat option"
  nr_unreadable :: bool

record mirror_state =
  ms_day :: "int option"
  ms_trades_today :: "int option"
  ms_open_symbols :: "string list"
  ms_successful_1x :: int
  ms_leverage_2x_done :: bool
  ms_day_start_equity :: "pyfloat option"
  ms_last_equity :: "pyfloat option"
  ms_last_cash :: "pyfloat option option"
  ms_open_notional :: "(string \<times> notional_row) list option"

definition empty_mirror_state :: mirror_state where
  "empty_mirror_state = \<lparr>ms_day = None, ms_trades_today = Some 0, ms_open_symbols = [], ms_successful_1x = 0,
     ms_leverage_2x_done = False, ms_day_start_equity = None, ms_last_equity = None, ms_last_cash = None,
     ms_open_notional = Some []\<rparr>"

record card =
  cd_symbol :: string
  cd_status :: string
  cd_notional_usd :: "pyfloat option"
  cd_amount_usd :: "pyfloat option"
  cd_units :: "pyfloat option"
  cd_instrument_id :: "int option"

record mark =
  mk_rate :: "pyfloat option"
  mk_at :: "time option"

record intended_stop =
  is_stop :: pyfloat
  is_instrument_id :: "int option"
  is_recorded_at :: time
  is_seen :: bool

record reserve =
  rs_instrument_id :: "int option"
  rs_last_topup_day :: "int option"

datatype live_error = Rate_limited string | Etoro_error string | Reserve_error string

fun live_error_str :: "live_error \<Rightarrow> string" where
  "live_error_str (Rate_limited m) = m"
| "live_error_str (Etoro_error m) = m"
| "live_error_str (Reserve_error m) = m"

datatype live_call =
    Fetch_raw_portfolio
  | Get_live_portfolio
  | Open_live_order trade_order string
  | Close_live_position int int "pyfloat option"
  | Search_instrument string
  | Fresh_rate string
  | Sleep_seconds pyfloat

record live_world =
  lw_state :: "mirror_state option"
  lw_halted :: "string option"
  lw_reconcile_failures :: "int option"
  lw_cards :: "(string \<times> card) list option"
  lw_marks :: "(string \<times> mark) list option"
  lw_test_order :: "card option"
  lw_verdicts :: "payload option"
  lw_reserve :: reserve
  lw_copy_failed :: "time option"
  lw_stops :: "(string \<times> intended_stop) list"
  lw_calls :: "live_call list"
  lw_logs :: "(string \<times> string list) list"

text \<open>A raw portfolio of eToro, and the client's reading of it.\<close>

record raw_position =
  rp_position_id :: "int option"
  rp_instrument_id :: "int option"
  rp_amount :: "pyfloat option"
  rp_leverage :: "pyfloat option"
  rp_units :: "pyfloat option"
  rp_stop_loss_rate :: "pyfloat option"
  rp_is_no_stop_loss :: bool
  rp_is_buy :: bool

record raw_portfolio =
  rw_credit :: "pyfloat option"
  rw_positions :: "raw_position list"

record live_position =
  lp_position_id :: "int option"
  lp_instrument_id :: "int option"
  lp_symbol :: string

record live_portfolio =
  lpf_equity :: pyfloat
  lpf_positions :: "live_position list"

record live_settings =
  ls_mirror_enabled :: bool
  ls_acknowledgement :: string
  ls_trade_pct_of_equity :: "pyfloat option"
  ls_room_authority_enabled :: bool
  ls_spy_reserve_enabled :: bool
  ls_execution_mode :: string
  ls_paper_broker :: string
  ls_broker_for_equities :: string
  ls_evidence :: evidence_settings
  ls_app :: app_settings

record live_client =
  lc_simulation :: bool
  lc_base_url :: string

record live_order_response =
  lr_order_id :: string
  lr_status :: string

record live_env =
  le_settings :: live_settings
  le_client :: "live_client option"
  le_paper_trades :: "paper_trade list option"
  le_clock :: "live_call list \<Rightarrow> time"
  le_monotonic :: "live_call list \<Rightarrow> pyfloat"
  le_ny :: "time \<Rightarrow> int \<times> int \<times> int"
  le_market_open :: "(live_call list \<Rightarrow> bool) option"
  le_cooldown :: "live_call list \<Rightarrow> pyfloat"
  le_raw :: "live_call list \<Rightarrow> live_error + raw_portfolio"
  le_portfolio :: "live_call list \<Rightarrow> live_error + live_portfolio"
  le_order :: "live_call list \<Rightarrow> live_error + live_order_response"
  le_close :: "live_call list \<Rightarrow> live_error + unit"
  le_search :: "live_call list \<Rightarrow> live_error + int"
  le_rate :: "live_call list \<Rightarrow> live_error + pyfloat option"

type_synonym 'a live = "(live_world, live_error, 'a) state_exn"

definition getL :: "(live_world \<Rightarrow> 'a) \<Rightarrow> 'a live" where
  "getL f w = (Inr (f w), w)"

definition setL :: "(live_world \<Rightarrow> live_world) \<Rightarrow> unit live" where
  "setL f w = (Inr (), f w)"

definition callL :: "live_call \<Rightarrow> (live_call list \<Rightarrow> live_error + 'a) \<Rightarrow> 'a live" where
  "callL c answer w = (let t = lw_calls w @ [c] in (answer t, w\<lparr>lw_calls := t\<rparr>))"

definition logL :: "string \<Rightarrow> string list \<Rightarrow> unit live" where
  "logL event items = setL (\<lambda>w. w\<lparr>lw_logs := lw_logs w @ [(event, items)]\<rparr>)"

definition now_of :: "live_env \<Rightarrow> live_world \<Rightarrow> time" where
  "now_of env w = le_clock env (lw_calls w)"

definition today_of :: "live_env \<Rightarrow> live_world \<Rightarrow> int" where
  "today_of env w = now_of env w div day_us"

subsection \<open>Constants\<close>

definition HARD_MAX_TRADE_PCT_OF_EQUITY :: pyfloat where "HARD_MAX_TRADE_PCT_OF_EQUITY = 25"
definition HARD_MAX_TRADE_USD :: pyfloat where "HARD_MAX_TRADE_USD = 2500"
definition MIN_TRADE_USD :: pyfloat where "MIN_TRADE_USD = 10"
definition HARD_MAX_TRADES_PER_DAY :: int where "HARD_MAX_TRADES_PER_DAY = 3"
definition HARD_MAX_EXPOSURE_PCT_OF_EQUITY :: pyfloat where "HARD_MAX_EXPOSURE_PCT_OF_EQUITY = 100"
definition HARD_MAX_OPEN_POSITIONS :: nat where "HARD_MAX_OPEN_POSITIONS = 9"
definition CASH_RESERVE_USD :: pyfloat where "CASH_RESERVE_USD = 100"
definition HARD_DAILY_LOSS_STOP_PCT :: pyfloat where "HARD_DAILY_LOSS_STOP_PCT = 5"
definition HARD_MAX_RISK_PCT_OF_EQUITY :: pyfloat where "HARD_MAX_RISK_PCT_OF_EQUITY = 1 / 2"
definition HARD_MAX_STOP_DISTANCE_PCT :: pyfloat where "HARD_MAX_STOP_DISTANCE_PCT = 8"
definition MIRROR_MIN_EXPECTANCY_R :: pyfloat where "MIRROR_MIN_EXPECTANCY_R = 3 / 100"
definition MIRROR_BUY_NOW_TIMING_LABELS :: "string list" where "MIRROR_BUY_NOW_TIMING_LABELS = [''immediate'']"
definition MIRROR_MIN_EVIDENCE_STREAK_HOURS :: pyfloat where "MIRROR_MIN_EVIDENCE_STREAK_HOURS = 24"
definition HARD_MAX_RETURN_20D_PCT :: pyfloat where "HARD_MAX_RETURN_20D_PCT = 15"
definition HARD_MAX_RSI_14 :: pyfloat where "HARD_MAX_RSI_14 = 68"
definition LEVERAGE_TEST_AFTER_1X_TRADES :: int where "LEVERAGE_TEST_AFTER_1X_TRADES = 2"
definition LEVERAGE_TEST_ENABLED :: bool where "LEVERAGE_TEST_ENABLED = False"
definition RECONCILE_FAILURES_TO_HALT :: int where "RECONCILE_FAILURES_TO_HALT = 3"
definition PAPER_ONLY_REASON_LIVE :: string where "PAPER_ONLY_REASON_LIVE = ''etoro_live_paper_only''"

definition HARD_MAX_OPEN_PER_BUCKET :: nat where "HARD_MAX_OPEN_PER_BUCKET = 4"
definition COPY_FAILED_HOLD :: int where "COPY_FAILED_HOLD = 30 * minute_us"
definition MARK_MAX_AGE :: int where "MARK_MAX_AGE = 15 * minute_us"
definition ROOM_REASONS :: "string list" where
  "ROOM_REASONS = [''etoro_live_symbol_already_open'', ''etoro_live_open_position_cap'',
     ''etoro_live_insufficient_cash'', ''etoro_live_bucket_cap'', ''etoro_live_exposure_cap'']"
definition LIVE_TRADE_STATUSES :: "string list" where "LIVE_TRADE_STATUSES = [''pending_fill'', ''open'']"

definition RESERVE_SYMBOL :: string where "RESERVE_SYMBOL = ''SPY''"
definition SELLABLE_HAIRCUT :: pyfloat where "SELLABLE_HAIRCUT = 9 / 10"

subsection \<open>The mirror's state and what it holds\<close>

text \<open>\<open>_state()\<close>: the defaults, and the roll to a new UTC day.\<close>

definition state_of :: "live_env \<Rightarrow> live_world \<Rightarrow> mirror_state" where
  "state_of env w =
     (let today = today_of env w; st = (case lw_state w of None \<Rightarrow> empty_mirror_state | Some st \<Rightarrow> st)
      in if ms_day st \<noteq> Some today
         then st\<lparr>ms_day := Some today, ms_trades_today := Some 0, ms_day_start_equity := ms_last_equity st\<rparr>
         else st)"

definition positive :: "pyfloat option \<Rightarrow> pyfloat option" where
  "positive v = (case v of Some x \<Rightarrow> if 0 < x then Some x else None | None \<Rightarrow> None)"

definition or_zero :: "pyfloat option \<Rightarrow> pyfloat" where
  "or_zero v = (case v of Some x \<Rightarrow> x | None \<Rightarrow> 0)"

definition is_live :: "card \<Rightarrow> bool" where
  "is_live t = (cd_status t \<in> set LIVE_TRADE_STATUSES)"

text \<open>\<open>_load\<close> of the scorecard: an unreadable one is empty.\<close>

definition cards_of :: "live_world \<Rightarrow> card list" where
  "cards_of w = (case lw_cards w of None \<Rightarrow> [] | Some cs \<Rightarrow> map snd cs)"

definition named_ids :: "card list \<Rightarrow> (string \<times> string) list" where
  "named_ids trades = concat (map (\<lambda>t. case cd_instrument_id t of
       Some i \<Rightarrow> if i \<noteq> 0 \<and> cd_symbol t \<noteq> [] then [(show_int i, py_upper (cd_symbol t))] else [] | None \<Rightarrow> []) trades)"

definition ids_to_symbols :: "live_world \<Rightarrow> (string \<times> string) list" where
  "ids_to_symbols w = rev (named_ids (cards_of w @ (case lw_test_order w of None \<Rightarrow> [] | Some t \<Rightarrow> [t])))"

definition symbol_name :: "live_world \<Rightarrow> string \<Rightarrow> string" where
  "symbol_name w s = get_default (ids_to_symbols w) s (py_upper s)"

definition effective_open_symbols :: "live_world \<Rightarrow> mirror_state \<Rightarrow> string list" where
  "effective_open_symbols w st =
     sort (remdups (filter (\<lambda>s. s \<noteq> [])
       (map (symbol_name w) (ms_open_symbols st) @ map (\<lambda>t. py_upper (cd_symbol t)) (filter is_live (cards_of w)))))"

subsection \<open>Exposure\<close>

definition cost_readings :: "live_world \<Rightarrow> (string \<times> notional_row) list \<Rightarrow> string \<Rightarrow> pyfloat list" where
  "cost_readings w rows symbol =
     concat (map (\<lambda>(key, row). if symbol_name w key = symbol then case positive (nr_cost_usd row) of Some c \<Rightarrow> [c] | None \<Rightarrow> [] else []) rows)"

definition live_notional :: "live_world \<Rightarrow> string \<Rightarrow> pyfloat" where
  "live_notional w symbol =
     sum_list (map (\<lambda>t. or_zero (case positive (cd_notional_usd t) of Some x \<Rightarrow> Some x | None \<Rightarrow> positive (cd_amount_usd t)))
       (filter (\<lambda>t. is_live t \<and> py_upper (cd_symbol t) = symbol) (cards_of w)))"

definition units_held :: "live_world \<Rightarrow> (string \<times> notional_row) list \<Rightarrow> string \<Rightarrow> pyfloat" where
  "units_held w rows symbol =
     fold max (map (\<lambda>(key, row). or_zero (positive (nr_units row))) (filter (\<lambda>(key, row). symbol_name w key = symbol) rows) @
       map (\<lambda>t. or_zero (positive (cd_units t))) (filter (\<lambda>t. is_live t \<and> py_upper (cd_symbol t) = symbol) (cards_of w))) 0"

definition mark_readings :: "time \<Rightarrow> (string \<times> mark) list \<Rightarrow> pyfloat \<Rightarrow> string \<Rightarrow> pyfloat list" where
  "mark_readings now marks held_units symbol =
     (case map_of marks symbol of None \<Rightarrow> []
      | Some m \<Rightarrow> (case (positive (mk_rate m), mk_at m) of
            (Some rate, Some seen) \<Rightarrow> if now - MARK_MAX_AGE \<le> seen then [held_units * rate] else []
          | _ \<Rightarrow> []))"

text \<open>The largest of what is known about one held symbol; \<open>None\<close> when no notional is known.\<close>

definition symbol_exposure :: "live_world \<Rightarrow> time \<Rightarrow> (string \<times> mark) list \<Rightarrow> (string \<times> notional_row) list \<Rightarrow> string \<Rightarrow> pyfloat option" where
  "symbol_exposure w now marks rows symbol =
     (let readings = cost_readings w rows symbol @ [live_notional w symbol] in
      if fold max readings 0 = 0 then None
      else Some (fold max (readings @ mark_readings now marks (units_held w rows symbol) symbol) 0))"

fun sum_known :: "pyfloat option list \<Rightarrow> pyfloat option" where
  "sum_known [] = Some 0"
| "sum_known (None # vs) = None"
| "sum_known (Some v # vs) = map_option ((+) v) (sum_known vs)"

definition open_exposure_usd :: "live_env \<Rightarrow> live_world \<Rightarrow> mirror_state \<Rightarrow> pyfloat option" where
  "open_exposure_usd env w st =
     (case (lw_cards w, lw_marks w, ms_open_notional st) of
        (Some _, Some marks, Some rows) \<Rightarrow>
          if list_ex (\<lambda>(key, row). nr_unreadable row) rows then None
          else map_option (py_round 2)
            (sum_known (map (symbol_exposure w (now_of env w) marks rows) (effective_open_symbols w st)))
      | _ \<Rightarrow> None)"

text \<open>\<open>bucket_blockers\<close>, and the symbols the position and group caps count.\<close>

definition bucket_blockers :: "string \<Rightarrow> string list \<Rightarrow> string list" where
  "bucket_blockers symbol open_symbols =
     (let bucket = correlation_bucket_for_symbol symbol in
      if bucket = UNKNOWN_BUCKET then []
      else if HARD_MAX_OPEN_PER_BUCKET \<le> length (filter (\<lambda>s. correlation_bucket_for_symbol s = bucket) open_symbols)
      then [''etoro_live_bucket_cap''] else [])"

definition is_reserve_symbol :: "live_settings \<Rightarrow> string \<Rightarrow> bool" where
  "is_reserve_symbol s symbol = (ls_spy_reserve_enabled s \<and> py_upper symbol = RESERVE_SYMBOL)"

definition counted_symbols :: "live_settings \<Rightarrow> string list \<Rightarrow> string list" where
  "counted_symbols s held = filter (\<lambda>x. \<not> is_reserve_symbol s x) held"

text \<open>What a copy may count on from the SPY holding.\<close>

definition sellable_usd :: "live_settings \<Rightarrow> mirror_state \<Rightarrow> pyfloat" where
  "sellable_usd s st =
     (if \<not> ls_spy_reserve_enabled s then 0
      else case ms_open_notional st of None \<Rightarrow> 0
        | Some rows \<Rightarrow> (case map_of rows RESERVE_SYMBOL of None \<Rightarrow> 0
            | Some row \<Rightarrow> (case positive (nr_cost_usd row) of None \<Rightarrow> 0
                | Some cost \<Rightarrow> py_round 2 (cost * SELLABLE_HAIRCUT))))"

end
