(* ===== verification/Live_Mirror.thy ===== *)
theory Live_Mirror
  imports Live_Room
begin

text \<open>
  The eToro live mirror (src/app/broker/etoro_live_mirror.py) with its SPY reserve
  (etoro_live_spy_reserve.py) and the room verdict (etoro_live_room.py): the gates of a copy,
  its size, the order behind its write-ahead, and the reconcile step. A method run under the
  mirror's lock is one program; an exception of the eToro client is a value.
\<close>

subsection \<open>The gates of a copy\<close>

definition effective_trade_pct :: "live_settings \<Rightarrow> pyfloat" where
  "effective_trade_pct s = (case ls_trade_pct_of_equity s of None \<Rightarrow> 0
     | Some pct \<Rightarrow> min (max pct 0) HARD_MAX_TRADE_PCT_OF_EQUITY)"

text \<open>\<open>fit_to_room\<close>; a room that cannot be read is \<open>None\<close>.\<close>

definition fit_to_room :: "pyfloat \<Rightarrow> (string \<times> pyfloat option) list \<Rightarrow> pyfloat option \<times> string list" where
  "fit_to_room stake rooms =
     (if stake \<le> 0 then (None, if rooms = [] then [''etoro_live_exposure_cap''] else map fst rooms)
      else let short = map fst (filter (\<lambda>(r, room). case room of None \<Rightarrow> True | Some x \<Rightarrow> x < stake) rooms)
      in if short = [] then (Some stake, []) else (None, short))"

fun after_slashes :: "string \<Rightarrow> string \<Rightarrow> string" where
  "after_slashes acc [] = acc"
| "after_slashes acc [c] = acc @ [c]"
| "after_slashes acc (c # d # s) = (if c = CHR ''/'' \<and> d = CHR ''/'' then after_slashes [] s else after_slashes (acc @ [c]) (d # s))"

definition client_problem :: "live_client option \<Rightarrow> string option" where
  "client_problem client = (case client of None \<Rightarrow> Some ''etoro_live_keys_missing''
     | Some c \<Rightarrow> if lc_simulation c
         then Some (''etoro_live_client_in_simulation_mode:base_url_host='' @
           takeWhile (\<lambda>x. x \<noteq> CHR ''/'') (after_slashes [] (lc_base_url c)))
         else None)"

definition planner_blocker :: "pydict \<Rightarrow> string option" where
  "planner_blocker metadata =
     (case dict_get metadata ''trade_plan'' of
        PDict plan \<Rightarrow>
          (case dict_get plan ''timing_label'' of
             PStr label \<Rightarrow>
               (if py_strip label = [] then Some ''etoro_live_planner_unknown''
                else if py_lower (py_strip label) \<notin> set MIRROR_BUY_NOW_TIMING_LABELS then Some ''etoro_live_planner_not_buy_now''
                else None)
           | _ \<Rightarrow> Some ''etoro_live_planner_unknown'')
      | _ \<Rightarrow> Some ''etoro_live_planner_unknown'')"

definition backtest_check_blocker :: "pydict \<Rightarrow> string option" where
  "backtest_check_blocker metadata =
     (case dict_get metadata ''backtest_validated'' of
        PBool b \<Rightarrow> if b then None else Some ''etoro_live_backtest_check_failed''
      | _ \<Rightarrow> Some ''etoro_live_backtest_check_unknown'')"

definition evidence_streak_blocker :: "pyfloat option \<Rightarrow> string option" where
  "evidence_streak_blocker hours =
     (case hours of None \<Rightarrow> Some ''etoro_live_evidence_streak_unknown''
      | Some h \<Rightarrow> if h < MIRROR_MIN_EVIDENCE_STREAK_HOURS then Some ''etoro_live_evidence_streak_too_short'' else None)"

fun plain_number :: "pyval \<Rightarrow> pyfloat option" where
  "plain_number (PInt i) = Some (of_int i)"
| "plain_number (PFloat x) = Some x"
| "plain_number _ = None"

definition extension_blockers :: "pyval \<Rightarrow> pyval \<Rightarrow> string list" where
  "extension_blockers extension timeframe =
     (case extension of
        PDict ext \<Rightarrow>
          (if py_lower (str_or_empty timeframe) \<noteq> ''1d'' \<or> dict_get ext ''timeframe'' \<noteq> PStr ''1d''
           then [''etoro_live_extension_unknown'']
           else let rise = plain_number (dict_get ext ''return_20d_pct''); rsi = plain_number (dict_get ext ''rsi_14'');
                    new_high = dict_get ext ''new_high_252_recent''
           in (if rise = None \<or> rsi = None \<or> new_high \<notin> {PBool True, PBool False} then [''etoro_live_extension_unknown''] else []) @
              (case rise of Some x \<Rightarrow> if HARD_MAX_RETURN_20D_PCT < x then [''etoro_live_extended_20d_rise''] else [] | None \<Rightarrow> []) @
              (case rsi of Some x \<Rightarrow> if HARD_MAX_RSI_14 \<le> x then [''etoro_live_extended_rsi''] else [] | None \<Rightarrow> []) @
              (if new_high = PBool True then [''etoro_live_extended_new_high''] else []))
      | _ \<Rightarrow> [''etoro_live_extension_unknown''])"

definition stop_distance_pct :: "pyfloat \<Rightarrow> pyfloat option \<Rightarrow> pyfloat option" where
  "stop_distance_pct entry stop = (case stop of None \<Rightarrow> None
     | Some s \<Rightarrow> if 0 < s \<and> s < entry then Some ((entry - s) / entry * 100) else None)"

subsection \<open>The size of a copy\<close>

definition trade_amount :: "live_settings \<Rightarrow> mirror_state \<Rightarrow> pyfloat option \<Rightarrow> pyfloat option" where
  "trade_amount s st stop_pct =
     (case (ms_last_equity st, stop_pct) of
        (Some equity, Some pct_to_stop) \<Rightarrow>
          (if equity \<le> 0 \<or> \<not> 0 < pct_to_stop then None
           else let pct = effective_trade_pct s;
                    at_risk = equity * HARD_MAX_RISK_PCT_OF_EQUITY / pct_to_stop;
                    amount = py_round 2 (min (min (equity * pct / 100) HARD_MAX_TRADE_USD) at_risk)
                in if 0 < amount then Some amount else None)
      | _ \<Rightarrow> None)"

definition copy_amount :: "live_env \<Rightarrow> live_world \<Rightarrow> mirror_state \<Rightarrow> pyfloat option \<Rightarrow> pyfloat option \<times> string list" where
  "copy_amount env w st stake =
     (case (stake, ms_last_equity st) of
        (Some amount, Some equity) \<Rightarrow>
          (if amount < MIN_TRADE_USD \<or> equity \<le> 0 then (None, [])
           else case open_exposure_usd env w st of
               None \<Rightarrow> (None, [''etoro_live_exposure_unknown''])
             | Some exposure \<Rightarrow>
                 (let spare = sellable_usd (le_settings env) st;
                      exposure_room = (''etoro_live_exposure_cap'', Some (equity * HARD_MAX_EXPOSURE_PCT_OF_EQUITY / 100 - exposure + spare));
                      cash_room = (case ms_last_cash st of None \<Rightarrow> []
                        | Some cash \<Rightarrow> [(''etoro_live_insufficient_cash'', map_option (\<lambda>c. c - CASH_RESERVE_USD + spare) cash)])
                  in fit_to_room amount (exposure_room # cash_room)))
      | _ \<Rightarrow> (None, []))"

subsection \<open>\<open>blockers\<close>\<close>

definition opt_list :: "'a option \<Rightarrow> 'a list" where
  "opt_list x = (case x of None \<Rightarrow> [] | Some y \<Rightarrow> [y])"

text \<open>The order's own metadata wins over the signal's.\<close>

definition signal_metadata :: "trade_signal option \<Rightarrow> pydict" where
  "signal_metadata signal = (case signal of None \<Rightarrow> [] | Some s \<Rightarrow> sig_metadata s)"

definition copy_inputs :: "trade_order \<Rightarrow> trade_signal option \<Rightarrow> pydict" where
  "copy_inputs ord signal = ord_metadata ord @ signal_metadata signal"

definition copy_timeframe :: "trade_order \<Rightarrow> trade_signal option \<Rightarrow> pyval" where
  "copy_timeframe ord signal = py_or (dict_get (ord_metadata ord) ''timeframe'') (dict_get (signal_metadata signal) ''timeframe'')"

definition account_reasons :: "live_env \<Rightarrow> live_world \<Rightarrow> string \<Rightarrow> string list" where
  "account_reasons env w primary_broker =
     (let s = le_settings env in
      opt_list (client_problem (le_client env)) @
      (if ls_acknowledgement s \<noteq> LIVE_OPERATOR_ACKNOWLEDGEMENT then [''etoro_live_acknowledgement_missing''] else []) @
      (if lw_halted w \<notin> {None, Some []} then [''etoro_live_mirror_halted''] else []) @
      (if primary_broker \<noteq> ''alpaca'' \<or> ls_execution_mode s \<noteq> ''paper'' then [''mirror_requires_alpaca_paper_primary''] else []))"

definition shape_reasons :: "trade_order \<Rightarrow> string list" where
  "shape_reasons ord =
     (let bare = py_upper (py_strip (ord_symbol ord)); stop_pct = stop_distance_pct (ord_proposed_price ord) (ord_stop_loss ord) in
      (if ord_side ord \<noteq> Buy then [''mirror_long_only''] else []) @
      (if is_crypto_symbol bare \<or> bare \<in> set KNOWN_CRYPTO_BASES then [''mirror_equities_only''] else []) @
      (if ord_asset_class ord \<notin> {Equity, Unknown_class} then [''mirror_equities_only''] else []) @
      (if ord_stop_loss ord = None \<or> ord_take_profit ord = None then [''mirror_requires_stop_and_target'']
       else case stop_pct of None \<Rightarrow> [''etoro_live_stop_distance_unknown'']
         | Some pct \<Rightarrow> if HARD_MAX_STOP_DISTANCE_PCT < pct then [''etoro_live_stop_too_wide''] else []))"

definition live_evidence_reasons :: "live_env \<Rightarrow> live_world \<Rightarrow> trade_order \<Rightarrow> pyval \<Rightarrow> string list" where
  "live_evidence_reasons env w ord timeframe =
     (if \<not> truthy timeframe then [''mirror_timeframe_unknown'']
      else let strategy = or_empty (ord_strategy_name ord); tf = str_or_empty timeframe; now = now_of env w in
        (case evidence_blocker ((ls_evidence (le_settings env))\<lparr>ev_require_oos := True\<rparr>) (lw_verdicts w) now
                strategy (Some tf) MIRROR_MIN_EXPECTANCY_R False of
           None \<Rightarrow> []
         | Some e \<Rightarrow> [if e \<in> {EDGE_BELOW_BAR, STRATEGY_RETIRED} then e else ''strategy_lacks_oos_evidence'']) @
        opt_list (evidence_streak_blocker (passing_hours (lw_verdicts w) (evidence_key strategy (Some tf)) now)))"

definition live_record_reasons :: "live_env \<Rightarrow> trade_order \<Rightarrow> pyval \<Rightarrow> string list" where
  "live_record_reasons env ord timeframe =
     opt_list (paper_record_blocker (map_option (\<lambda>ts. paper_records (take RECORD_ROWS ts)) (le_paper_trades env))
       (or_empty (ord_strategy_name ord)) (str_or_empty timeframe))"

definition capacity_reasons :: "live_env \<Rightarrow> live_world \<Rightarrow> trade_order \<Rightarrow> string list" where
  "capacity_reasons env w ord =
     (let s = le_settings env; st = state_of env w; held = effective_open_symbols w st; trades = counted_symbols s held in
      (case ms_trades_today st of None \<Rightarrow> [''etoro_live_daily_trade_cap'']
       | Some n \<Rightarrow> if HARD_MAX_TRADES_PER_DAY \<le> n then [''etoro_live_daily_trade_cap''] else []) @
      (if py_upper (ord_symbol ord) \<in> set held then [''etoro_live_symbol_already_open''] else []) @
      (if HARD_MAX_OPEN_POSITIONS \<le> length trades then [''etoro_live_open_position_cap''] else []) @
      bucket_blockers (ord_symbol ord) trades)"

definition equity_reasons :: "mirror_state \<Rightarrow> string list" where
  "equity_reasons st =
     (case ms_day_start_equity st of None \<Rightarrow> [''etoro_live_day_start_unknown'']
      | Some start \<Rightarrow>
          if start \<le> 0 then [''etoro_live_day_start_unknown'']
          else case ms_last_equity st of None \<Rightarrow> []
            | Some l \<Rightarrow> if start * HARD_DAILY_LOSS_STOP_PCT / 100 \<le> start - l then [''etoro_live_daily_loss_stop''] else []) @
     (case ms_last_equity st of None \<Rightarrow> [''etoro_live_equity_unknown'']
      | Some e \<Rightarrow> if e \<le> 0 then [''etoro_live_equity_unknown''] else [])"

definition size_reasons :: "live_env \<Rightarrow> live_world \<Rightarrow> trade_order \<Rightarrow> string list" where
  "size_reasons env w ord =
     (let st = state_of env w; stop_pct = stop_distance_pct (ord_proposed_price ord) (ord_stop_loss ord);
          amount = trade_amount (le_settings env) st stop_pct in
      (if amount = None \<and> (case ms_last_equity st of None \<Rightarrow> False | Some e \<Rightarrow> 0 < e) \<and> stop_pct \<noteq> None
       then [''etoro_live_unsized''] else []) @
      (case amount of None \<Rightarrow> [] | Some a \<Rightarrow> if a < MIN_TRADE_USD then [''etoro_live_trade_below_minimum''] else []) @
      snd (copy_amount env w st amount))"

definition live_blockers :: "live_env \<Rightarrow> live_world \<Rightarrow> trade_order \<Rightarrow> trade_signal option \<Rightarrow> string \<Rightarrow> string list" where
  "live_blockers env w ord signal primary_broker =
     (if \<not> ls_mirror_enabled (le_settings env) then [''etoro_live_mirror_disabled'']
      else if is_paper_only (ord_metadata ord) then [PAPER_ONLY_REASON_LIVE]
      else let timeframe = copy_timeframe ord signal; inputs = copy_inputs ord signal in
        account_reasons env w primary_broker @ shape_reasons ord @
        live_evidence_reasons env w ord timeframe @ live_record_reasons env ord timeframe @
        opt_list (planner_blocker inputs) @ opt_list (backtest_check_blocker inputs) @
        extension_blockers (dict_get inputs ''entry_extension'') timeframe @
        capacity_reasons env w ord @ equity_reasons (state_of env w) @ size_reasons env w ord)"

subsection \<open>The room verdict\<close>

definition recent_copy_failure :: "live_env \<Rightarrow> live_world \<Rightarrow> bool" where
  "recent_copy_failure env w = (case lw_copy_failed w of None \<Rightarrow> False | Some t \<Rightarrow> now_of env w - t < COPY_FAILED_HOLD)"

definition live_room_verdict :: "live_env \<Rightarrow> live_world \<Rightarrow> trade_order \<Rightarrow> trade_signal option \<Rightarrow> string \<Rightarrow> string list option" where
  "live_room_verdict env w ord signal primary_broker =
     (let s = le_settings env in
      if \<not> ls_room_authority_enabled s then None
      else if (ls_paper_broker s \<noteq> [] \<and> ls_paper_broker s \<noteq> ''alpaca'') \<or>
        (ls_broker_for_equities s \<noteq> [] \<and> ls_broker_for_equities s \<noteq> ''alpaca'') then None
      else if (le_client env \<noteq> None \<and> 0 < le_cooldown env (lw_calls w)) \<or> recent_copy_failure env w then None
      else let reasons = live_blockers env w ord signal primary_broker in
        if list_ex (\<lambda>r. r \<notin> set ROOM_REASONS) reasons then None else Some reasons)"

subsection \<open>Writes\<close>

definition save_state :: "mirror_state \<Rightarrow> unit live" where
  "save_state st = setL (\<lambda>w. w\<lparr>lw_state := Some st\<rparr>)"

definition halt :: "string \<Rightarrow> unit live" where
  "halt reason = bindP (setL (\<lambda>w. w\<lparr>lw_halted := Some reason\<rparr>)) (\<lambda>_. logL ''etoro_live_mirror_halted'' [reason])"

definition remember_stop :: "live_env \<Rightarrow> string \<Rightarrow> pyfloat option \<Rightarrow> unit live" where
  "remember_stop env symbol stop = (case stop of None \<Rightarrow> returnP ()
     | Some s \<Rightarrow> setL (\<lambda>w. w\<lparr>lw_stops := AList.update (py_upper symbol)
         \<lparr>is_stop = s, is_instrument_id = None, is_recorded_at = now_of env w, is_seen = False\<rparr> (lw_stops w)\<rparr>))"

definition forget_stop :: "string \<Rightarrow> unit live" where
  "forget_stop symbol = setL (\<lambda>w. w\<lparr>lw_stops := AList.delete (py_upper symbol) (lw_stops w)\<rparr>)"

definition note_copy_failed :: "live_env \<Rightarrow> unit live" where
  "note_copy_failed env = setL (\<lambda>w. w\<lparr>lw_copy_failed := Some (now_of env w)\<rparr>)"

text \<open>\<open>record_entry\<close>: the scorecard's card of a new copy; of its fields those that the caps read.\<close>

definition record_entry :: "string \<Rightarrow> string \<Rightarrow> string \<Rightarrow> pyfloat \<Rightarrow> int \<Rightarrow> unit live" where
  "record_entry order_id proposal_id symbol amount leverage =
     (let key = (if order_id \<noteq> [] then order_id else proposal_id);
          trade = \<lparr>cd_symbol = py_upper symbol, cd_status = ''pending_fill'', cd_notional_usd = Some (py_round 2 (or_zero (positive (Some amount)) * of_int leverage)),
            cd_amount_usd = Some (or_zero (positive (Some amount))), cd_units = None, cd_instrument_id = None\<rparr>
      in if key = [] then returnP ()
         else setL (\<lambda>w. w\<lparr>lw_cards := Some (AList.update key trade (case lw_cards w of None \<Rightarrow> [] | Some cs \<Rightarrow> cs))\<rparr>))"

subsection \<open>Selling the SPY reserve for a copy\<close>

definition CASH_BUFFER_USD :: pyfloat where "CASH_BUFFER_USD = 2500"
definition HARD_MAX_RESERVE_PCT :: pyfloat where "HARD_MAX_RESERVE_PCT = 60"
definition MIN_TOPUP_USD :: pyfloat where "MIN_TOPUP_USD = 50"
definition RELEASE_MARGIN_PCT :: pyfloat where "RELEASE_MARGIN_PCT = 1"
definition MIN_LEFT_USD :: pyfloat where "MIN_LEFT_USD = 20"
definition RELEASE_WAIT_SECONDS :: pyfloat where "RELEASE_WAIT_SECONDS = 15"
definition RELEASE_POLL_SECONDS :: pyfloat where "RELEASE_POLL_SECONDS = 3"

definition fetch_raw :: "live_env \<Rightarrow> raw_portfolio live" where
  "fetch_raw env = callL Fetch_raw_portfolio (le_raw env)"

definition known_id :: "int option \<Rightarrow> int option" where
  "known_id i = (case i of Some n \<Rightarrow> if n \<noteq> 0 then Some n else None | None \<Rightarrow> None)"

definition reserve_instrument_id :: "live_settings \<Rightarrow> live_world \<Rightarrow> int option" where
  "reserve_instrument_id s w = (if ls_spy_reserve_enabled s then known_id (rs_instrument_id (lw_reserve w)) else None)"

definition instrument_id_of :: "live_env \<Rightarrow> int live" where
  "instrument_id_of env = bindP (getL (\<lambda>w. known_id (rs_instrument_id (lw_reserve w))))
     (\<lambda>known. case known of Some n \<Rightarrow> returnP n | None \<Rightarrow> callL (Search_instrument RESERVE_SYMBOL) (le_search env))"

definition spy_held :: "raw_portfolio \<Rightarrow> int \<Rightarrow> raw_position list" where
  "spy_held raw instrument_id = filter (\<lambda>p. (case rp_instrument_id p of None \<Rightarrow> 0 | Some i \<Rightarrow> i) = instrument_id \<and> rp_is_buy p) (rw_positions raw)"

definition close_by_id :: "live_env \<Rightarrow> int option \<Rightarrow> int \<Rightarrow> pyfloat option \<Rightarrow> unit live" where
  "close_by_id env position_id instrument_id units =
     (case position_id of None \<Rightarrow> raiseP (Etoro_error ''int() argument must be a string or a real number'')
      | Some n \<Rightarrow> callL (Close_live_position n instrument_id units) (le_close env))"

text \<open>The sales, largest holding first; the units sold and the units still needed.\<close>

fun sell_units :: "live_env \<Rightarrow> int \<Rightarrow> pyfloat \<Rightarrow> raw_position list \<Rightarrow> pyfloat \<Rightarrow> pyfloat \<Rightarrow> (pyfloat \<times> pyfloat) live" where
  "sell_units env instrument_id rate [] need sold = returnP (sold, need)"
| "sell_units env instrument_id rate (p # ps) need sold =
     (let units = or_zero (rp_units p) in
      if need \<le> 0 \<or> units \<le> 0 then returnP (sold, need)
      else let take_units = min units need; whole = (units - take_units) * rate < MIN_LEFT_USD in
        bindP (close_by_id env (rp_position_id p) instrument_id (if whole then None else Some (py_round 6 take_units)))
          (\<lambda>_. sell_units env instrument_id rate ps (need - (if whole then units else take_units))
                 (sold + (if whole then units else py_round 6 take_units))))"

text \<open>
  The wait for the cash of the sale. Each round sleeps three seconds, so with a monotonic clock
  that a sleep advances by at least its length the fifteen seconds are over after five rounds;
  the first argument counts the rounds left.
\<close>

fun wait_for_cash :: "nat \<Rightarrow> live_env \<Rightarrow> pyfloat \<Rightarrow> pyfloat option \<Rightarrow> pyfloat \<Rightarrow> pyfloat option live" where
  "wait_for_cash 0 env deadline before_credit short = returnP None"
| "wait_for_cash (Suc n) env deadline before_credit short =
     bindP (getL (\<lambda>w. le_monotonic env (lw_calls w))) (\<lambda>now.
     if deadline \<le> now then returnP None
     else bindP (callL (Sleep_seconds RELEASE_POLL_SECONDS) (\<lambda>_. Inr ())) (\<lambda>_.
       bindP (fetch_raw env) (\<lambda>raw.
       case (rw_credit raw, before_credit) of
         (Some credit, Some before) \<Rightarrow>
           (if before + short * (95 / 100) \<le> credit then returnP (Some credit)
            else wait_for_cash n env deadline before_credit short)
       | _ \<Rightarrow> wait_for_cash n env deadline before_credit short)))"

definition WAIT_ROUNDS :: nat where "WAIT_ROUNDS = 5"

definition reduce_reserve :: "pyfloat \<Rightarrow> mirror_state \<Rightarrow> mirror_state" where
  "reduce_reserve value st =
     (case ms_open_notional st of None \<Rightarrow> st
      | Some rows \<Rightarrow> (case map_of rows RESERVE_SYMBOL of None \<Rightarrow> st
          | Some row \<Rightarrow> st\<lparr>ms_open_notional := Some (AList.update RESERVE_SYMBOL
              (row\<lparr>nr_cost_usd := Some (py_round 2 (max (or_zero (nr_cost_usd row) - value) 0))\<rparr>) rows)\<rparr>))"

definition release_for_copy :: "live_env \<Rightarrow> mirror_state \<Rightarrow> pyfloat \<Rightarrow> mirror_state live" where
  "release_for_copy env st amount =
     (let s = le_settings env in
      if \<not> ls_spy_reserve_enabled s then returnP st
      else case ms_last_cash st of
        Some (Some cash) \<Rightarrow>
          (let short = py_round 2 (amount - (cash - CASH_RESERVE_USD)) in
           if short \<le> 0 then returnP st
           else if sellable_usd s st \<le> 0 then raiseP (Reserve_error ''no_spy_to_sell'')
           else bindP (fetch_raw env) (\<lambda>raw.
             bindP (instrument_id_of env) (\<lambda>instrument_id.
             let held = sort_key (\<lambda>p. - or_zero (rp_units p)) (spy_held raw instrument_id) in
             bindP (callL (Fresh_rate RESERVE_SYMBOL) (le_rate env)) (\<lambda>rate.
             case (held, positive rate) of
               ([], _) \<Rightarrow> raiseP (Reserve_error ''spy_not_held'')
             | (_ # _, None) \<Rightarrow> raiseP (Reserve_error ''spy_rate_unknown'')
             | (_ # _, Some r) \<Rightarrow>
                 bindP (sell_units env instrument_id r held (short * (1 + RELEASE_MARGIN_PCT / 100) / r) 0) (\<lambda>(sold, need).
                 if 1 / 10 ^ 9 < need then raiseP (Reserve_error ''spy_holding_too_small'')
                 else bindP (getL (\<lambda>w. le_monotonic env (lw_calls w))) (\<lambda>start.
                   bindP (wait_for_cash WAIT_ROUNDS env (start + RELEASE_WAIT_SECONDS) (rw_credit raw) short) (\<lambda>confirmed.
                   let st1 = (case confirmed of None \<Rightarrow> st | Some c \<Rightarrow> st\<lparr>ms_last_cash := Some (Some (py_round 2 c))\<rparr>);
                       st2 = reduce_reserve (py_round 2 (sold * r)) st1 in
                   bindP (save_state st2) (\<lambda>_.
                   bindP (setL (\<lambda>w. w\<lparr>lw_reserve := (lw_reserve w)\<lparr>rs_instrument_id := Some instrument_id\<rparr>\<rparr>)) (\<lambda>_.
                   bindP (logL ''etoro_live_spy_reserve_released'' []) (\<lambda>_. returnP st2))))))))))
      | _ \<Rightarrow> returnP st)"

subsection \<open>\<open>mirror\<close>\<close>

text \<open>What \<open>mirror\<close> returns and logs about a copy.\<close>

record live_copy =
  lcp_symbol :: string
  lcp_order_id :: string
  lcp_status :: string
  lcp_amount_usd :: pyfloat
  lcp_leverage :: int

text \<open>An answer after which nothing was opened: a rate limit, a client error, a rejection.\<close>

definition never_sent :: "live_error \<Rightarrow> bool" where
  "never_sent e = (case e of Rate_limited _ \<Rightarrow> True | _ \<Rightarrow> py_contains ''with status 4'' (live_error_str e))"

definition refused_status :: "string \<Rightarrow> bool" where
  "refused_status status = (py_lower status \<in> {''rejected'', ''cancelled''})"

definition copy_leverage :: "mirror_state \<Rightarrow> int" where
  "copy_leverage st = (if LEVERAGE_TEST_ENABLED \<and> \<not> ms_leverage_2x_done st \<and> LEVERAGE_TEST_AFTER_1X_TRADES \<le> ms_successful_1x st then 2 else 1)"

text \<open>The write-ahead: the count, the symbol, its notional and the cash as spent.\<close>

definition write_ahead :: "string \<Rightarrow> pyfloat \<Rightarrow> int \<Rightarrow> mirror_state \<Rightarrow> mirror_state" where
  "write_ahead symbol amount leverage st =
     st\<lparr>ms_trades_today := map_option (\<lambda>n. n + 1) (ms_trades_today st),
        ms_open_symbols := sort (remdups (symbol # ms_open_symbols st)),
        ms_open_notional := Some (AList.update symbol \<lparr>nr_cost_usd = Some (py_round 2 (amount * of_int leverage)), nr_units = None, nr_unreadable = False\<rparr>
          (case ms_open_notional st of None \<Rightarrow> [] | Some rows \<Rightarrow> rows)),
        ms_leverage_2x_done := (ms_leverage_2x_done st \<or> leverage = 2),
        ms_last_cash := map_option (map_option (\<lambda>c. py_round 2 (c - amount))) (ms_last_cash st)\<rparr>"

definition blocked :: "string \<Rightarrow> string list \<Rightarrow> live_copy option live" where
  "blocked symbol reasons = bindP (logL ''etoro_live_mirror_blocked'' (symbol # reasons)) (\<lambda>_. returnP None)"

definition undo :: "mirror_state \<Rightarrow> string \<Rightarrow> unit live" where
  "undo before symbol = bindP (save_state before) (\<lambda>_. forget_stop symbol)"

definition open_failed :: "live_env \<Rightarrow> mirror_state \<Rightarrow> string \<Rightarrow> live_error \<Rightarrow> live_copy option live" where
  "open_failed env before symbol e =
     bindP (if never_sent e then undo before symbol else returnP ()) (\<lambda>_.
     case e of
       Rate_limited m \<Rightarrow> bindP (logL ''etoro_live_mirror_rate_limited'' [symbol, m]) (\<lambda>_.
         bindP (note_copy_failed env) (\<lambda>_. returnP None))
     | _ \<Rightarrow> bindP (halt (''open_failed:'' @ symbol @ '':'' @ live_error_str e)) (\<lambda>_. returnP None))"

definition accepted :: "live_env \<Rightarrow> mirror_state \<Rightarrow> trade_order \<Rightarrow> string \<Rightarrow> string \<Rightarrow> live_order_response \<Rightarrow> live_copy option live" where
  "accepted env st ord proposal_id symbol resp =
     bindP (if ord_leverage ord = 1 then save_state (st\<lparr>ms_successful_1x := ms_successful_1x st + 1\<rparr>) else returnP ()) (\<lambda>_.
     bindP (logL ''etoro_live_mirror_submitted'' [symbol, lr_order_id resp]) (\<lambda>_.
     bindP (record_entry (lr_order_id resp) proposal_id symbol (ord_amount_usd ord) (ord_leverage ord)) (\<lambda>_.
     returnP (Some \<lparr>lcp_symbol = symbol, lcp_order_id = lr_order_id resp, lcp_status = lr_status resp,
       lcp_amount_usd = ord_amount_usd ord, lcp_leverage = ord_leverage ord\<rparr>))))"

definition place_copy :: "live_env \<Rightarrow> mirror_state \<Rightarrow> trade_order \<Rightarrow> string \<Rightarrow> string \<Rightarrow> live_copy option live" where
  "place_copy env before ord proposal_id symbol =
     (let st = write_ahead symbol (ord_amount_usd ord) (ord_leverage ord) before in
      bindP (save_state st) (\<lambda>_.
      bindP (remember_stop env symbol (ord_stop_loss ord)) (\<lambda>_.
      bindP (callL (Open_live_order ord (''etoro-live:'' @ proposal_id)) (\<lambda>t. Inr (le_order env t))) (\<lambda>answer.
      case answer of
        Inl e \<Rightarrow> open_failed env before symbol e
      | Inr resp \<Rightarrow>
          (if refused_status (lr_status resp)
           then bindP (undo before symbol) (\<lambda>_.
             bindP (note_copy_failed env) (\<lambda>_.
             bindP (logL ''etoro_live_mirror_rejected'' [symbol, proposal_id, lr_status resp]) (\<lambda>_. returnP None)))
           else accepted env st ord proposal_id symbol resp)))))"

definition live_mirror :: "live_env \<Rightarrow> trade_proposal \<Rightarrow> string \<Rightarrow> live_copy option live" where
  "live_mirror env p primary_broker w =
     (let ord = prop_order p; symbol = py_upper (ord_symbol ord);
          reasons = live_blockers env w ord (prop_signal p) primary_broker in
      if reasons = [''etoro_live_mirror_disabled''] then returnP None w
      else if reasons \<noteq> [] then blocked symbol reasons w
      else let st = state_of env w; leverage = copy_leverage st;
               stake = trade_amount (le_settings env) st (stop_distance_pct (ord_proposed_price ord) (ord_stop_loss ord)) in
        case fst (copy_amount env w st stake) of
          None \<Rightarrow> blocked symbol [''etoro_live_unsized''] w
        | Some amount \<Rightarrow>
            bindP (catchP (bindP (release_for_copy env st amount) (\<lambda>st'. returnP (Inr st'))) (\<lambda>e. returnP (Inl e))) (\<lambda>released.
            case released of
              Inl e \<Rightarrow> blocked symbol [''etoro_live_spy_reserve_release_failed:'' @ take 160 (live_error_str e)]
            | Inr st' \<Rightarrow>
                (let sized = (if 1 < leverage then py_round 2 (amount / of_int leverage) else amount) in
                 place_copy env st' (ord\<lparr>ord_amount_usd := sized, ord_leverage := leverage\<rparr>) (prop_id p) symbol)) w)"

subsection \<open>\<open>reconcile\<close>\<close>

definition account_value_at_cost :: "raw_portfolio \<Rightarrow> pyfloat \<Rightarrow> pyfloat" where
  "account_value_at_cost raw fallback = (case rw_credit raw of None \<Rightarrow> fallback
     | Some credit \<Rightarrow> py_round 2 (credit + sum_list (map (\<lambda>p. or_zero (rp_amount p)) (rw_positions raw))))"

definition position_symbol :: "live_position \<Rightarrow> int option \<Rightarrow> string" where
  "position_symbol p spy_id = (if spy_id \<noteq> None \<and> lp_instrument_id p = spy_id then RESERVE_SYMBOL else py_upper (lp_symbol p))"

text \<open>The later of two positions with one id wins, as in the dictionary.\<close>

definition symbols_by_position :: "live_portfolio \<Rightarrow> int option \<Rightarrow> (int option \<times> string) list" where
  "symbols_by_position pf spy_id = rev (map (\<lambda>p. (lp_position_id p, position_symbol p spy_id)) (lpf_positions pf))"

definition add_notional :: "(int option \<times> string) list \<Rightarrow> raw_position \<Rightarrow> (string \<times> notional_row) list \<Rightarrow> (string \<times> notional_row) list" where
  "add_notional by_position item out =
     (let named = get_default by_position (rp_position_id item) [];
          key = py_upper (if named \<noteq> [] then named else case known_id (rp_instrument_id item) of None \<Rightarrow> [] | Some i \<Rightarrow> show_int i);
          row = get_default out key \<lparr>nr_cost_usd = None, nr_units = None, nr_unreadable = False\<rparr>;
          leverage = (case rp_leverage item of None \<Rightarrow> 1 | Some l \<Rightarrow> if l = 0 then 1 else l);
          row1 = (case positive (rp_amount item) of
             None \<Rightarrow> row\<lparr>nr_unreadable := True\<rparr>
           | Some amount \<Rightarrow> if leverage < 1 then row\<lparr>nr_unreadable := True\<rparr>
               else row\<lparr>nr_cost_usd := Some (py_round 2 (or_zero (nr_cost_usd row) + amount * leverage))\<rparr>);
          row2 = (case positive (rp_units item) of None \<Rightarrow> row1
           | Some units \<Rightarrow> row1\<lparr>nr_units := Some (or_zero (nr_units row1) + units)\<rparr>)
      in AList.update key row2 out)"

definition open_notional :: "raw_portfolio \<Rightarrow> (int option \<times> string) list \<Rightarrow> (string \<times> notional_row) list" where
  "open_notional raw by_position = fold (add_notional by_position) (rw_positions raw) []"

definition has_stop :: "raw_position \<Rightarrow> bool" where
  "has_stop item = (rp_stop_loss_rate item \<notin> {None, Some 0} \<and> \<not> rp_is_no_stop_loss item)"

definition unprotected :: "live_settings \<Rightarrow> (int option \<times> string) list \<Rightarrow> raw_position \<Rightarrow> bool" where
  "unprotected s by_position item = (\<not> has_stop item \<and>
     (let symbol = get_default by_position (rp_position_id item) [] in symbol \<noteq> [] \<and> \<not> is_reserve_symbol s symbol))"

fun close_unprotected :: "live_env \<Rightarrow> (int option \<times> string) list \<Rightarrow> raw_position list \<Rightarrow> string list \<Rightarrow> string list live" where
  "close_unprotected env by_position [] done_list = returnP done_list"
| "close_unprotected env by_position (item # items) done_list =
     (if \<not> unprotected (le_settings env) by_position item then close_unprotected env by_position items done_list
      else let symbol = get_default by_position (rp_position_id item) [] in
        bindP (catchP (bindP (close_by_id env (rp_position_id item) (case rp_instrument_id item of None \<Rightarrow> 0 | Some i \<Rightarrow> i) None)
                        (\<lambda>_. returnP True))
                 (\<lambda>e. bindP (halt (''close_unprotected_failed:'' @ symbol @ '':'' @ live_error_str e)) (\<lambda>_. returnP False)))
          (\<lambda>ok. close_unprotected env by_position items (if ok then done_list @ [symbol] else done_list)))"

record reconciled =
  rc_equity :: pyfloat
  rc_open_symbols :: "string list"
  rc_closed_unprotected :: "string list"

datatype live_reconcile_result = No_result | Client_unusable string | Account_read reconciled

definition reconcile_failures :: "live_world \<Rightarrow> int" where
  "reconcile_failures w = (case lw_reconcile_failures w of None \<Rightarrow> RECONCILE_FAILURES_TO_HALT | Some n \<Rightarrow> max n 0)"

definition read_failed :: "live_error \<Rightarrow> live_reconcile_result live" where
  "read_failed e = (case e of
     Rate_limited m \<Rightarrow> bindP (logL ''etoro_live_reconcile_rate_limited'' [m]) (\<lambda>_. returnP No_result)
   | _ \<Rightarrow> bindP (getL (\<lambda>w. reconcile_failures w + 1)) (\<lambda>failures.
       bindP (setL (\<lambda>w. w\<lparr>lw_reconcile_failures := Some failures\<rparr>)) (\<lambda>_.
       if failures < RECONCILE_FAILURES_TO_HALT
       then bindP (logL ''etoro_live_reconcile_read_failed'' [live_error_str e]) (\<lambda>_. returnP No_result)
       else bindP (halt (''reconcile_failed:'' @ show_int failures @ ''_in_a_row:'' @ live_error_str e)) (\<lambda>_. returnP No_result))))"

definition read_accounts :: "live_env \<Rightarrow> (raw_portfolio \<times> live_portfolio) live" where
  "read_accounts env = bindP (fetch_raw env) (\<lambda>raw. bindP (callL Get_live_portfolio (le_portfolio env)) (\<lambda>pf. returnP (raw, pf)))"

definition reconciled_state :: "live_env \<Rightarrow> live_world \<Rightarrow> raw_portfolio \<Rightarrow> live_portfolio \<Rightarrow> mirror_state" where
  "reconciled_state env w raw pf =
     (let st = state_of env w; equity = account_value_at_cost raw (lpf_equity pf);
          spy_id = reserve_instrument_id (le_settings env) w in
      st\<lparr>ms_day_start_equity := (case positive (ms_day_start_equity st) of None \<Rightarrow> Some equity | Some x \<Rightarrow> Some x),
         ms_last_equity := Some equity,
         ms_last_cash := (case rw_credit raw of None \<Rightarrow> ms_last_cash st | Some c \<Rightarrow> Some (Some (py_round 2 c))),
         ms_open_symbols := sort (remdups (map (\<lambda>p. position_symbol p spy_id) (lpf_positions pf))),
         ms_open_notional := Some (open_notional raw (symbols_by_position pf spy_id))\<rparr>)"

definition apply_reading :: "live_env \<Rightarrow> raw_portfolio \<Rightarrow> live_portfolio \<Rightarrow> live_reconcile_result live" where
  "apply_reading env raw pf =
     bindP (getL reconcile_failures) (\<lambda>failures.
     bindP (if failures \<noteq> 0 then setL (\<lambda>w. w\<lparr>lw_reconcile_failures := Some 0\<rparr>) else returnP ()) (\<lambda>_.
     bindP (getL (\<lambda>w. (reconciled_state env w raw pf, symbols_by_position pf (reserve_instrument_id (le_settings env) w)))) (\<lambda>(st, by_position).
     bindP (close_unprotected env by_position (rw_positions raw) []) (\<lambda>closed_list.
     bindP (save_state st) (\<lambda>_.
     bindP (logL ''etoro_live_reconciled'' closed_list) (\<lambda>_.
     returnP (Account_read \<lparr>rc_equity = account_value_at_cost raw (lpf_equity pf), rc_open_symbols = ms_open_symbols st,
       rc_closed_unprotected = closed_list\<rparr>)))))))"

definition live_reconcile :: "live_env \<Rightarrow> live_reconcile_result live" where
  "live_reconcile env =
     (if \<not> ls_mirror_enabled (le_settings env) \<or> le_client env = None then returnP No_result
      else case client_problem (le_client env) of
        Some problem \<Rightarrow> bindP (logL ''etoro_live_client_unusable'' [problem]) (\<lambda>_. returnP (Client_unusable problem))
      | None \<Rightarrow>
          bindP (catchP (bindP (read_accounts env) (\<lambda>x. returnP (Inr x))) (\<lambda>e. returnP (Inl e))) (\<lambda>reading.
          case reading of
            Inl e \<Rightarrow> read_failed e
          | Inr (raw, pf) \<Rightarrow> apply_reading env raw pf))"

end
