(* ===== verification/Live_Guard.thy ===== *)
theory Live_Guard
  imports Live_Mirror
begin

text \<open>
  What the live guard runs each minute: the backup stops (etoro_live_backup_stop.py) and the
  top-up of the SPY reserve (etoro_live_spy_reserve.py). The value history, the position
  snapshot and the Telegram texts, which nothing trades on, are left out.
\<close>

subsection \<open>The top-up\<close>

definition in_window :: "live_env \<Rightarrow> time \<Rightarrow> bool \<times> int" where
  "in_window env now = (let (weekday, minute, date) = le_ny env now in
     (weekday < 5 \<and> 9 * 60 + 45 \<le> minute \<and> minute < 15 * 60 + 45, date))"

definition set_reserve :: "int \<Rightarrow> int option \<Rightarrow> unit live" where
  "set_reserve instrument_id day = setL (\<lambda>w. w\<lparr>lw_reserve := \<lparr>rs_instrument_id = Some instrument_id, rs_last_topup_day = day\<rparr>\<rparr>)"

definition spy_order :: "pyfloat \<Rightarrow> pyfloat \<Rightarrow> trade_order" where
  "spy_order amount rate = \<lparr>ord_symbol = RESERVE_SYMBOL, ord_side = Buy, ord_amount_usd = amount, ord_leverage = 1,
     ord_proposed_price = rate, ord_stop_loss = None, ord_take_profit = None, ord_asset_class = Unknown_class,
     ord_broker_symbol = None, ord_strategy_name = Some ''spy_reserve'',
     ord_rationale = ''idle cash held in SPY (operator 2026-11-04)'', ord_metadata = []\<rparr>"

definition topup_amount :: "pyfloat \<Rightarrow> pyfloat \<Rightarrow> pyfloat \<Rightarrow> pyfloat" where
  "topup_amount equity cash held_cost =
     py_round 2 (min (equity * HARD_MAX_RESERVE_PCT / 100 - held_cost) (cash - CASH_BUFFER_USD - CASH_RESERVE_USD))"

text \<open>The write-ahead of a purchase.\<close>

definition bought_ahead :: "pyfloat \<Rightarrow> pyfloat \<Rightarrow> mirror_state \<Rightarrow> mirror_state" where
  "bought_ahead held_cost amount st =
     (let rows = (case ms_open_notional st of None \<Rightarrow> [] | Some rows \<Rightarrow> rows);
          row = get_default rows RESERVE_SYMBOL \<lparr>nr_cost_usd = None, nr_units = None, nr_unreadable = False\<rparr>;
          known = (case nr_cost_usd row of None \<Rightarrow> held_cost | Some c \<Rightarrow> if c = 0 then held_cost else c)
      in st\<lparr>ms_open_symbols := sort (remdups (RESERVE_SYMBOL # ms_open_symbols st)),
            ms_open_notional := Some (AList.update RESERVE_SYMBOL (row\<lparr>nr_cost_usd := Some (py_round 2 (known + amount))\<rparr>) rows),
            ms_last_cash := map_option (map_option (\<lambda>c. py_round 2 (c - amount))) (ms_last_cash st)\<rparr>)"

definition buy_spy :: "live_env \<Rightarrow> int \<Rightarrow> int \<Rightarrow> pyfloat \<Rightarrow> pyfloat \<Rightarrow> pyfloat \<Rightarrow> pyfloat option live" where
  "buy_spy env instrument_id day held_cost amount rate =
     bindP (set_reserve instrument_id (Some day)) (\<lambda>_.
     bindP (getL (state_of env)) (\<lambda>before.
     bindP (save_state (bought_ahead held_cost amount before)) (\<lambda>_.
     bindP (callL (Open_live_order (spy_order amount rate) (''etoro-live:spy-reserve:'' @ show_int day)) (\<lambda>t. Inr (le_order env t))) (\<lambda>answer.
     case answer of
       Inl e \<Rightarrow>
         bindP (if never_sent e then save_state before else returnP ()) (\<lambda>_.
         bindP (set_reserve instrument_id (case e of Rate_limited _ \<Rightarrow> None | _ \<Rightarrow> Some day)) (\<lambda>_.
         bindP (logL ''etoro_live_spy_reserve_failed'' [live_error_str e]) (\<lambda>_. returnP None)))
     | Inr resp \<Rightarrow>
         if refused_status (lr_status resp)
         then bindP (save_state before) (\<lambda>_.
           bindP (logL ''etoro_live_spy_reserve_failed'' [lr_status resp]) (\<lambda>_. returnP None))
         else bindP (logL ''etoro_live_spy_reserve_bought'' [lr_order_id resp]) (\<lambda>_. returnP (Some amount))))))"

definition top_up_due :: "live_env \<Rightarrow> int \<Rightarrow> pyfloat option live" where
  "top_up_due env day =
     bindP (fetch_raw env) (\<lambda>raw.
     case rw_credit raw of
       None \<Rightarrow> bindP (logL ''etoro_live_spy_reserve_skipped'' [''account_unreadable'']) (\<lambda>_. returnP None)
     | Some cash \<Rightarrow>
         (let equity = account_value_at_cost raw 0 in
          if equity \<le> 0 then bindP (logL ''etoro_live_spy_reserve_skipped'' [''account_unreadable'']) (\<lambda>_. returnP None)
          else bindP (instrument_id_of env) (\<lambda>instrument_id.
            if isl (resolve (ls_app (le_settings env)) RESERVE_SYMBOL)
            then bindP (set_reserve instrument_id (Some day)) (\<lambda>_.
              bindP (logL ''etoro_live_spy_reserve_skipped'' [''spy_not_allowed'']) (\<lambda>_. returnP None))
            else let held_cost = py_round 2 (sum_list (map (\<lambda>p. or_zero (rp_amount p)) (spy_held raw instrument_id)));
                     amount = topup_amount equity cash held_cost in
              if amount < MIN_TOPUP_USD
              then bindP (set_reserve instrument_id (Some day)) (\<lambda>_.
                bindP (logL ''etoro_live_spy_reserve_checked'' []) (\<lambda>_. returnP (Some 0)))
              else bindP (callL (Fresh_rate RESERVE_SYMBOL) (le_rate env)) (\<lambda>rate.
                case positive rate of
                  None \<Rightarrow> bindP (logL ''etoro_live_spy_reserve_skipped'' [''rate_unknown'']) (\<lambda>_. returnP None)
                | Some r \<Rightarrow> buy_spy env instrument_id day held_cost amount r))))"

definition top_up :: "live_env \<Rightarrow> pyfloat option live" where
  "top_up env w =
     (let s = le_settings env; (inside, day) = in_window env (now_of env w) in
      if \<not> ls_spy_reserve_enabled s \<or> \<not> ls_mirror_enabled s then returnP None w
      else if \<not> inside \<or> rs_last_topup_day (lw_reserve w) = Some day then returnP None w
      else if lw_halted w \<notin> {None, Some []} \<or> client_problem (le_client env) \<noteq> None then returnP None w
      else if (case le_market_open env of None \<Rightarrow> True | Some market_is_open \<Rightarrow> \<not> market_is_open (lw_calls w)) then returnP None w
      else top_up_due env day w)"

subsection \<open>The backup stops\<close>

definition UNSEEN_GRACE :: int where "UNSEEN_GRACE = 24 * 60 * minute_us"
definition CLOSE_RECHECK_SECONDS :: pyfloat where "CLOSE_RECHECK_SECONDS = 3"

definition positions_in :: "raw_portfolio \<Rightarrow> int \<Rightarrow> raw_position list" where
  "positions_in raw instrument_id = filter (\<lambda>p. (case rp_instrument_id p of None \<Rightarrow> 0 | Some i \<Rightarrow> i) = instrument_id) (rw_positions raw)"

text \<open>\<open>_still_open\<close>: two readings, an unreadable one counts as open.\<close>

definition seems_open :: "live_env \<Rightarrow> int \<Rightarrow> bool live" where
  "seems_open env instrument_id =
     catchP (bindP (fetch_raw env) (\<lambda>raw. returnP (positions_in raw instrument_id \<noteq> []))) (\<lambda>_. returnP True)"

definition still_open :: "live_env \<Rightarrow> int \<Rightarrow> bool live" where
  "still_open env instrument_id =
     bindP (seems_open env instrument_id) (\<lambda>first.
     if \<not> first then returnP False
     else bindP (callL (Sleep_seconds CLOSE_RECHECK_SECONDS) (\<lambda>_. Inr ())) (\<lambda>_. seems_open env instrument_id))"

fun close_all_live :: "live_env \<Rightarrow> int \<Rightarrow> raw_position list \<Rightarrow> unit live" where
  "close_all_live env instrument_id [] = returnP ()"
| "close_all_live env instrument_id (p # ps) =
     bindP (close_by_id env (rp_position_id p) instrument_id None) (\<lambda>_. close_all_live env instrument_id ps)"

text \<open>What becomes of one stop: it is kept, dropped with its position gone, or the position is closed.\<close>

datatype stop_outcome = Kept intended_stop | Gone | Stop_closed pyfloat

definition close_at_stop :: "live_env \<Rightarrow> string \<Rightarrow> intended_stop \<Rightarrow> int \<Rightarrow> raw_position list \<Rightarrow> pyfloat \<Rightarrow> stop_outcome live" where
  "close_at_stop env symbol info instrument_id held rate =
     bindP (catchP (bindP (close_all_live env instrument_id held) (\<lambda>_. returnP None)) (\<lambda>e. returnP (Some e))) (\<lambda>failed.
     case failed of
       None \<Rightarrow> bindP (logL ''etoro_live_backup_stop_closed'' [symbol]) (\<lambda>_. returnP (Stop_closed rate))
     | Some (Rate_limited m) \<Rightarrow> bindP (logL ''etoro_live_backup_stop_rate_limited'' [symbol, m]) (\<lambda>_. returnP (Kept info))
     | Some e \<Rightarrow> bindP (still_open env instrument_id) (\<lambda>open_yet.
         if \<not> open_yet then bindP (logL ''etoro_live_backup_stop_closed'' [symbol, ''closed_elsewhere'']) (\<lambda>_. returnP (Stop_closed rate))
         else bindP (logL ''etoro_live_backup_stop_close_failed'' [symbol, live_error_str e]) (\<lambda>_.
           bindP (halt (''backup_stop_close_failed:'' @ symbol @ '':'' @ live_error_str e)) (\<lambda>_. returnP (Kept info)))))"

definition stop_instrument :: "live_env \<Rightarrow> string \<Rightarrow> intended_stop \<Rightarrow> int option live" where
  "stop_instrument env symbol info =
     (case known_id (is_instrument_id info) of
        Some n \<Rightarrow> returnP (Some n)
      | None \<Rightarrow> catchP (bindP (callL (Search_instrument symbol) (le_search env)) (\<lambda>n. returnP (Some n))) (\<lambda>_. returnP None))"

definition check_stop :: "live_env \<Rightarrow> raw_portfolio \<Rightarrow> time \<Rightarrow> string \<Rightarrow> intended_stop \<Rightarrow> (stop_outcome \<times> mark option) live" where
  "check_stop env raw grace symbol info =
     bindP (stop_instrument env symbol info) (\<lambda>found.
     case found of
       None \<Rightarrow> returnP (Kept info, None)
     | Some instrument_id \<Rightarrow>
         (let known = info\<lparr>is_instrument_id := Some instrument_id\<rparr>; held = positions_in raw instrument_id in
          if held = [] then returnP (if \<not> is_seen known \<and> grace < is_recorded_at known then Kept known else Gone, None)
          else let seen = known\<lparr>is_seen := True\<rparr> in
            bindP (catchP (callL (Fresh_rate symbol) (le_rate env)) (\<lambda>_. returnP None)) (\<lambda>rate.
            bindP (getL (\<lambda>w. case rate of None \<Rightarrow> None | Some r \<Rightarrow> Some \<lparr>mk_rate = Some r, mk_at = Some (now_of env w)\<rparr>)) (\<lambda>mark.
            case rate of
              None \<Rightarrow> returnP (Kept seen, mark)
            | Some r \<Rightarrow>
                if is_stop info < r then returnP (Kept seen, mark)
                else bindP (close_at_stop env symbol seen instrument_id held r) (\<lambda>outcome. returnP (outcome, mark))))))"

fun check_stops :: "live_env \<Rightarrow> raw_portfolio \<Rightarrow> time \<Rightarrow> (string \<times> intended_stop) list \<Rightarrow> (string \<times> stop_outcome \<times> mark option) list live" where
  "check_stops env raw grace [] = returnP []"
| "check_stops env raw grace ((symbol, info) # stops) =
     bindP (check_stop env raw grace symbol info) (\<lambda>result.
     bindP (check_stops env raw grace stops) (\<lambda>results. returnP ((symbol, result) # results)))"

text \<open>The merge: only what this pass closed or aged out is dropped, and what it learnt is kept.\<close>

definition merge_stop :: "(string \<times> stop_outcome \<times> mark option) list \<Rightarrow> string \<times> intended_stop \<Rightarrow> (string \<times> intended_stop) list" where
  "merge_stop results entry =
     (case map_of results (fst entry) of
        None \<Rightarrow> [entry]
      | Some (Kept info, _) \<Rightarrow> [(fst entry, (snd entry)\<lparr>
           is_instrument_id := (case known_id (is_instrument_id info) of None \<Rightarrow> is_instrument_id (snd entry) | Some n \<Rightarrow> Some n),
           is_seen := (is_seen (snd entry) \<or> is_seen info)\<rparr>)]
      | Some (_, _) \<Rightarrow> [])"

definition kept_symbols :: "(string \<times> stop_outcome \<times> mark option) list \<Rightarrow> string list" where
  "kept_symbols results = concat (map (\<lambda>(symbol, outcome, _). case outcome of Kept _ \<Rightarrow> [symbol] | _ \<Rightarrow> []) results)"

definition new_marks :: "(string \<times> stop_outcome \<times> mark option) list \<Rightarrow> (string \<times> mark) list" where
  "new_marks results = concat (map (\<lambda>(symbol, _, m). case m of None \<Rightarrow> [] | Some x \<Rightarrow> [(symbol, x)]) results)"

definition save_marks :: "(string \<times> mark) list \<Rightarrow> string list \<Rightarrow> unit live" where
  "save_marks marks held =
     setL (\<lambda>w. w\<lparr>lw_marks := Some (fold (\<lambda>(k, m). AList.update k m) marks
       (filter (\<lambda>(k, m). k \<in> set held \<or> k \<in> fst ` set marks) (case lw_marks w of None \<Rightarrow> [] | Some ms \<Rightarrow> ms)))\<rparr>)"

definition pass_over_stops :: "live_env \<Rightarrow> (string \<times> intended_stop) list \<Rightarrow> int option \<Rightarrow> (string \<times> pyfloat) list option live" where
  "pass_over_stops env stops spy_id =
     bindP (fetch_raw env) (\<lambda>raw.
     if rw_credit raw = None then returnP None
     else bindP (getL (\<lambda>w. now_of env w - UNSEEN_GRACE)) (\<lambda>grace.
       bindP (check_stops env raw grace stops) (\<lambda>results.
       bindP (setL (\<lambda>w. w\<lparr>lw_stops := concat (map (merge_stop results) (lw_stops w))\<rparr>)) (\<lambda>_.
       let spy_here = (case spy_id of None \<Rightarrow> False | Some n \<Rightarrow> positions_in raw n \<noteq> []) in
       bindP (if spy_here then catchP (callL (Fresh_rate RESERVE_SYMBOL) (le_rate env)) (\<lambda>_. returnP None) else returnP None) (\<lambda>spy_rate.
       bindP (getL (\<lambda>w. case spy_rate of None \<Rightarrow> [] | Some r \<Rightarrow> [(RESERVE_SYMBOL, \<lparr>mk_rate = Some r, mk_at = Some (now_of env w)\<rparr>)])) (\<lambda>spy_marks.
       bindP (save_marks (new_marks results @ spy_marks) (kept_symbols results @ (if spy_here then [RESERVE_SYMBOL] else []))) (\<lambda>_.
       returnP (Some (concat (map (\<lambda>(symbol, outcome, _). case outcome of Stop_closed r \<Rightarrow> [(symbol, r)] | _ \<Rightarrow> []) results))))))))))"

definition check_backup_stops :: "live_env \<Rightarrow> (string \<times> pyfloat) list option live" where
  "check_backup_stops env w =
     (let stops = lw_stops w; spy_id = reserve_instrument_id (le_settings env) w in
      if (stops = [] \<and> spy_id = None) \<or> client_problem (le_client env) \<noteq> None then returnP None w
      else pass_over_stops env stops spy_id w)"

end
