(* ===== verification/Live_Safety.thy ===== *)
theory Live_Safety
  imports Live_Guard
begin

text \<open>
  What the live mirror guarantees. The locale \<open>live_relation\<close> carries a reflexive and transitive
  relation between the states before and after through any program of the mirror; it is
  interpreted for the calls a program makes and for what it leaves alone.
\<close>

subsection \<open>Relations kept by programs\<close>

definition steps :: "(live_world \<Rightarrow> live_world \<Rightarrow> bool) \<Rightarrow> 'a live \<Rightarrow> bool" where
  "steps R m \<longleftrightarrow> (\<forall>w. R w (snd (m w)))"

named_theorems steps_intros \<open>structural rules of the step judgement\<close>

lemma stepsD: "steps R m \<Longrightarrow> m w = (r, w') \<Longrightarrow> R w w'"
  unfolding steps_def by (metis snd_conv)

lemma steps_if [steps_intros]: "(b \<Longrightarrow> steps R m) \<Longrightarrow> (\<not> b \<Longrightarrow> steps R n) \<Longrightarrow> steps R (if b then m else n)"
  by simp

lemma steps_option [steps_intros]: "steps R m \<Longrightarrow> (\<And>x. steps R (f x)) \<Longrightarrow> steps R (case v of None \<Rightarrow> m | Some x \<Rightarrow> f x)"
  by (cases v) simp_all

lemma steps_sum [steps_intros]:
  "(\<And>x. steps R (g x)) \<Longrightarrow> (\<And>x. steps R (f x)) \<Longrightarrow> steps R (case v of Inl x \<Rightarrow> g x | Inr x \<Rightarrow> f x)"
  by (cases v) simp_all

lemma steps_prod [steps_intros]: "(\<And>x y. steps R (f x y)) \<Longrightarrow> steps R (case v of (x, y) \<Rightarrow> f x y)"
  by (cases v) simp

lemma steps_list [steps_intros]: "steps R m \<Longrightarrow> (\<And>x xs. steps R (f x xs)) \<Longrightarrow> steps R (case v of [] \<Rightarrow> m | x # xs \<Rightarrow> f x xs)"
  by (cases v) simp_all

lemma steps_error [steps_intros]:
  "(\<And>m. steps R (f m)) \<Longrightarrow> (\<And>m. steps R (g m)) \<Longrightarrow> (\<And>m. steps R (h m)) \<Longrightarrow>
    steps R (case e of Rate_limited m \<Rightarrow> f m | Etoro_error m \<Rightarrow> g m | Reserve_error m \<Rightarrow> h m)"
  by (cases e) simp_all

lemma steps_set: "(\<And>w. R w (f w)) \<Longrightarrow> steps R (setL f)"
  by (simp add: steps_def setL_def)

lemma steps_call: "(\<And>w. R w (w\<lparr>lw_calls := lw_calls w @ [c]\<rparr>)) \<Longrightarrow> steps R (callL c a)"
  by (simp add: steps_def callL_def Let_def)

lemma steps_local: "(\<And>w. steps R (m w)) \<Longrightarrow> steps R (\<lambda>w. m w w)"
  by (simp add: steps_def)

locale live_relation =
  fixes R :: "live_world \<Rightarrow> live_world \<Rightarrow> bool"
  assumes R_refl: "R w w"
    and R_trans: "R w w1 \<Longrightarrow> R w1 w2 \<Longrightarrow> R w w2"
begin

lemma steps_return [steps_intros]: "steps R (returnP x)"
  by (simp add: steps_def returnP_def R_refl)

lemma steps_raise [steps_intros]: "steps R (raiseP e)"
  by (simp add: steps_def raiseP_def R_refl)

lemma steps_get [steps_intros]: "steps R (getL f)"
  by (simp add: steps_def getL_def R_refl)

lemma steps_bind [steps_intros]:
  assumes "steps R m" "\<And>x. steps R (f x)"
  shows "steps R (bindP m f)"
  unfolding steps_def
proof
  fix w
  obtain r w1 where m: "m w = (r, w1)" by (cases "m w")
  have "R w w1" using stepsD [OF assms(1) m] .
  moreover have "R w1 (snd (f x w1))" for x using assms(2) [of x] by (simp add: steps_def)
  ultimately show "R w (snd (bindP m f w))" using m R_trans by (cases r) (auto simp: bindP_def)
qed

lemma steps_catch [steps_intros]:
  assumes "steps R m" "\<And>x. steps R (h x)"
  shows "steps R (catchP m h)"
  unfolding steps_def
proof
  fix w
  obtain r w1 where m: "m w = (r, w1)" by (cases "m w")
  have "R w w1" using stepsD [OF assms(1) m] .
  moreover have "R w1 (snd (h x w1))" for x using assms(2) [of x] by (simp add: steps_def)
  ultimately show "R w (snd (catchP m h w))" using m R_trans by (cases r) (auto simp: catchP_def)
qed

end

subsection \<open>Calls\<close>

fun opens_live :: "live_call \<Rightarrow> bool" where
  "opens_live (Open_live_order _ _) = True"
| "opens_live _ = False"

text \<open>The program adds calls, none of which opens a position.\<close>

definition opens_nothing :: "live_world \<Rightarrow> live_world \<Rightarrow> bool" where
  "opens_nothing w w' \<longleftrightarrow> (\<exists>cs. lw_calls w' = lw_calls w @ cs \<and> list_all (\<lambda>c. \<not> opens_live c) cs)"

text \<open>It leaves the halt, the count of the day and the top-up mark alone.\<close>

definition same_halt :: "live_world \<Rightarrow> live_world \<Rightarrow> bool" where
  "same_halt w w' \<longleftrightarrow> lw_halted w' = lw_halted w \<and> rs_last_topup_day (lw_reserve w') = rs_last_topup_day (lw_reserve w)"

definition releases :: "live_world \<Rightarrow> live_world \<Rightarrow> bool" where
  "releases w w' \<longleftrightarrow> opens_nothing w w' \<and> same_halt w w' \<and> lw_stops w' = lw_stops w"

interpretation calls: live_relation opens_nothing
proof
  show "opens_nothing w w" for w by (auto simp: opens_nothing_def)
  show "opens_nothing w w2" if "opens_nothing w w1" "opens_nothing w1 w2" for w w1 w2
    using that by (force simp: opens_nothing_def)
qed

interpretation rel: live_relation releases
proof
  show "releases w w" for w by (simp add: releases_def calls.R_refl same_halt_def)
  show "releases w w2" if "releases w w1" "releases w1 w2" for w w1 w2
    using that calls.R_trans by (auto simp: releases_def same_halt_def)
qed

lemma releases_call: "\<not> opens_live c \<Longrightarrow> steps releases (callL c a)"
  by (rule steps_call) (simp add: releases_def opens_nothing_def same_halt_def)

lemma releases_set:
  assumes "\<And>w. lw_calls (f w) = lw_calls w" "\<And>w. lw_halted (f w) = lw_halted w"
    and "\<And>w. rs_last_topup_day (lw_reserve (f w)) = rs_last_topup_day (lw_reserve w)" "\<And>w. lw_stops (f w) = lw_stops w"
  shows "steps releases (setL f)"
  by (rule steps_set) (simp add: releases_def opens_nothing_def same_halt_def assms)

lemma releases_log: "steps releases (logL e xs)"
  unfolding logL_def by (rule releases_set) simp_all

lemma releases_save: "steps releases (save_state st)"
  unfolding save_state_def by (rule releases_set) simp_all

lemma releases_fetch: "steps releases (fetch_raw env)"
  unfolding fetch_raw_def by (rule releases_call) simp

lemma releases_instrument: "steps releases (instrument_id_of env)"
  unfolding instrument_id_of_def by (intro rel.steps_get steps_intros rel.steps_bind rel.steps_return releases_call) simp

lemma releases_close_by_id: "steps releases (close_by_id env i n u)"
  unfolding close_by_id_def by (intro steps_intros rel.steps_raise releases_call) simp

lemma releases_sell: "steps releases (sell_units env i rate ps need sold)"
proof (induction ps arbitrary: need sold)
  case (Cons p ps)
  then show ?case
    by (auto simp: Let_def intro!: steps_intros rel.steps_bind rel.steps_return releases_close_by_id)
qed (simp add: rel.steps_return)

lemma releases_wait: "steps releases (wait_for_cash n env deadline before_credit short)"
proof (induction n)
  case (Suc n)
  then show ?case
    by (auto intro!: steps_intros rel.steps_bind rel.steps_get rel.steps_return releases_call releases_fetch)
qed (simp add: rel.steps_return)

lemmas releases_intros = rel.steps_bind rel.steps_get rel.steps_return rel.steps_raise rel.steps_catch
  releases_log releases_save releases_fetch releases_instrument releases_sell releases_wait

lemma releases_release: "steps releases (release_for_copy env st amount)"
  unfolding release_for_copy_def Let_def
  by (intro steps_intros releases_intros releases_call releases_set) simp_all

text \<open>A release changes the free cash and the notional of the state it is given, nothing else.\<close>

definition released :: "mirror_state \<Rightarrow> mirror_state \<Rightarrow> bool" where
  "released st st' \<longleftrightarrow> (\<exists>cash rows. st' = st\<lparr>ms_last_cash := cash, ms_open_notional := rows\<rparr>)"

lemma released_refl: "released st st"
  unfolding released_def by (intro exI [of _ "ms_last_cash st"] exI [of _ "ms_open_notional st"]) simp

lemma after_get [simp]: "after (getL f) w Q = Q (Inr (f w)) w"
  by (simp add: after_def getL_def)

lemma after_set [simp]: "after (setL f) w Q = Q (Inr ()) (f w)"
  by (simp add: after_def setL_def)

lemma after_call [simp]: "after (callL c a) w Q = Q (a (lw_calls w @ [c])) (w\<lparr>lw_calls := lw_calls w @ [c]\<rparr>)"
  by (simp add: after_def callL_def Let_def)

lemma after_trivial: "(\<And>r w'. Q r w') \<Longrightarrow> after m w Q"
  by (simp add: after_def split: prod.splits)

lemma after_both: "after m w P \<Longrightarrow> after m w Q \<Longrightarrow> after m w (\<lambda>r w'. P r w' \<and> Q r w')"
  by (simp add: after_def split: prod.splits)

text \<open>Programs that do not write the state file.\<close>

definition same_file :: "live_world \<Rightarrow> live_world \<Rightarrow> bool" where
  "same_file w w' \<longleftrightarrow> lw_state w' = lw_state w"

interpretation sf: live_relation same_file
  by unfold_locales (simp_all add: same_file_def)

lemma file_call: "steps same_file (callL c a)"
  by (rule steps_call) (simp add: same_file_def)

lemma file_set: "(\<And>w. lw_state (f w) = lw_state w) \<Longrightarrow> steps same_file (setL f)"
  by (rule steps_set) (simp add: same_file_def)

lemma file_log: "steps same_file (logL e xs)"
  unfolding logL_def by (rule file_set) simp

lemma file_fetch: "steps same_file (fetch_raw env)"
  unfolding fetch_raw_def by (rule file_call)

lemma file_instrument: "steps same_file (instrument_id_of env)"
  unfolding instrument_id_of_def by (intro sf.steps_bind sf.steps_get steps_intros sf.steps_return file_call)

lemma file_close_by_id: "steps same_file (close_by_id env i n u)"
  unfolding close_by_id_def by (intro steps_intros sf.steps_raise file_call)

lemma file_sell: "steps same_file (sell_units env i rate ps need sold)"
proof (induction ps arbitrary: need sold)
  case (Cons p ps)
  then show ?case
    by (auto simp: Let_def intro!: steps_intros sf.steps_bind sf.steps_return file_close_by_id)
qed (simp add: sf.steps_return)

lemma file_wait: "steps same_file (wait_for_cash n env deadline before_credit short)"
proof (induction n)
  case (Suc n)
  then show ?case
    by (auto intro!: steps_intros sf.steps_bind sf.steps_get sf.steps_return file_call file_fetch)
qed (simp add: sf.steps_return)

lemmas file_intros = sf.steps_bind sf.steps_get sf.steps_return sf.steps_raise sf.steps_catch
  file_log file_fetch file_instrument file_sell file_wait file_close_by_id

text \<open>The rule for a program whose state is fixed while it runs.\<close>

lemma after_steps: "steps R m \<Longrightarrow> (\<And>r w'. R w w' \<Longrightarrow> Q r w') \<Longrightarrow> after m w Q"
  by (auto simp: after_def steps_def split: prod.splits) (metis snd_conv)

lemma after_file_bindI:
  assumes "steps same_file m" "\<And>e w'. lw_state w' = lw_state w \<Longrightarrow> Q (Inl e) w'"
    and "\<And>x w'. lw_state w' = lw_state w \<Longrightarrow> after (f x) w' Q"
  shows "after (bindP m f) w Q"
  unfolding after_bind
  by (rule after_steps [OF assms(1)]) (auto simp: same_file_def intro: assms(2,3) split: sum.splits)

definition release_result :: "mirror_state \<Rightarrow> live_world \<Rightarrow> live_error + mirror_state \<Rightarrow> live_world \<Rightarrow> bool" where
  "release_result st w r w' = (case r of
       Inl e \<Rightarrow> lw_state w' = lw_state w
     | Inr st' \<Rightarrow> released st st' \<and> (lw_state w' = Some st' \<or> st' = st \<and> lw_state w' = lw_state w))"

lemma released_update: "released st (st\<lparr>ms_last_cash := a, ms_open_notional := b\<rparr>)"
  unfolding released_def by blast

lemma reduce_reserve_eq: "\<exists>b. reduce_reserve v st = st\<lparr>ms_open_notional := b\<rparr>"
proof (cases "ms_open_notional st")
  case None
  then show ?thesis by (intro exI [of _ None]) (simp add: reduce_reserve_def)
next
  case (Some rows)
  show ?thesis
  proof (cases "map_of rows RESERVE_SYMBOL")
    case None
    then show ?thesis using Some by (intro exI [of _ "Some rows"]) (simp add: reduce_reserve_def)
  next
    case (Some row)
    then show ?thesis using \<open>ms_open_notional st = Some rows\<close> by (simp add: reduce_reserve_def) blast
  qed
qed

lemma released_reserve: "released st (reduce_reserve v (case c of None \<Rightarrow> st | Some x \<Rightarrow> st\<lparr>ms_last_cash := Some (Some (g x))\<rparr>))"
proof (cases c)
  case None
  obtain b where "reduce_reserve v st = st\<lparr>ms_open_notional := b\<rparr>" using reduce_reserve_eq by blast
  then show ?thesis using None released_update [of st b "ms_last_cash st"] by simp
next
  case (Some x)
  obtain b where "reduce_reserve v (st\<lparr>ms_last_cash := Some (Some (g x))\<rparr>) = st\<lparr>ms_last_cash := Some (Some (g x)), ms_open_notional := b\<rparr>"
    using reduce_reserve_eq by blast
  then show ?thesis using Some released_update [of st b] by simp
qed

lemma after_optionI:
  "(v = None \<Longrightarrow> after m w Q) \<Longrightarrow> (\<And>x. v = Some x \<Longrightarrow> after (f x) w Q) \<Longrightarrow> after (case v of None \<Rightarrow> m | Some x \<Rightarrow> f x) w Q"
  by (cases v) simp_all

lemma after_ifI: "(b \<Longrightarrow> after m w Q) \<Longrightarrow> (\<not> b \<Longrightarrow> after n w Q) \<Longrightarrow> after (if b then m else n) w Q"
  by simp

lemma after_prodI: "(\<And>x y. v = (x, y) \<Longrightarrow> after (f x y) w Q) \<Longrightarrow> after (case v of (x, y) \<Rightarrow> f x y) w Q"
  by (cases v) simp

lemma after_listI:
  "(v = [] \<Longrightarrow> after m w Q) \<Longrightarrow> (\<And>x xs. v = x # xs \<Longrightarrow> after (f x xs) w Q) \<Longrightarrow> after (case v of [] \<Rightarrow> m | x # xs \<Rightarrow> f x xs) w Q"
  by (cases v) simp_all

lemma after_sumI:
  "(\<And>x. v = Inl x \<Longrightarrow> after (g x) w Q) \<Longrightarrow> (\<And>x. v = Inr x \<Longrightarrow> after (f x) w Q) \<Longrightarrow> after (case v of Inl x \<Rightarrow> g x | Inr x \<Rightarrow> f x) w Q"
  by (cases v) simp_all

lemmas after_cases = after_optionI after_ifI after_prodI after_listI after_sumI

lemma release_result_ret: "lw_state w' = lw_state w \<Longrightarrow> after (returnP st) w' (release_result st w)"
  and release_result_err: "lw_state w' = lw_state w \<Longrightarrow> after (raiseP e) w' (release_result st w)"
  by (simp_all add: release_result_def released_refl)

lemma release_result_bind:
  assumes "steps same_file m" "lw_state w' = lw_state w" "\<And>x w2. lw_state w2 = lw_state w \<Longrightarrow> after (f x) w2 (release_result st w)"
  shows "after (bindP m f) w' (release_result st w)"
  by (rule after_file_bindI) (use assms in \<open>simp_all add: release_result_def\<close>)

lemma release_result_save:
  assumes "released st st'"
  shows "after (bindP (save_state st') (\<lambda>_. bindP (setL (\<lambda>w. w\<lparr>lw_reserve := f w\<rparr>)) (\<lambda>_. bindP (logL e xs) (\<lambda>_. returnP st')))) w' (release_result st w)"
  using assms by (simp add: save_state_def logL_def release_result_def)

lemma after_release: "after (release_for_copy env st amount) w (release_result st w)"
  unfolding release_for_copy_def Let_def
  by (intro after_cases release_result_save released_reserve)
    ((intro after_cases release_result_ret release_result_err release_result_save released_reserve release_result_bind
      file_fetch file_instrument file_call file_sell file_wait sf.steps_get refl | assumption)+)

subsection \<open>One order, after its write-ahead\<close>

text \<open>Whether an answer to an order leaves it possible that a position was opened.\<close>

definition may_have_filled :: "live_error + live_order_response \<Rightarrow> bool" where
  "may_have_filled answer = (case answer of Inl e \<Rightarrow> \<not> never_sent e | Inr resp \<Rightarrow> \<not> refused_status (lr_status resp))"

definition copy_result :: "live_env \<Rightarrow> mirror_state \<Rightarrow> trade_order \<Rightarrow> string \<Rightarrow> string \<Rightarrow> live_world \<Rightarrow> live_copy option \<Rightarrow> live_world \<Rightarrow> bool" where
  "copy_result env before ord proposal_id symbol w r w' \<longleftrightarrow>
     lw_calls w' = lw_calls w @ [Open_live_order ord (''etoro-live:'' @ proposal_id)] \<and>
     (let answer = le_order env (lw_calls w'); ahead = write_ahead symbol (ord_amount_usd ord) (ord_leverage ord) before in
      rs_last_topup_day (lw_reserve w') = rs_last_topup_day (lw_reserve w) \<and>
      (if may_have_filled answer
       then (\<exists>k. lw_state w' = Some (ahead\<lparr>ms_successful_1x := k\<rparr>)) \<and>
         (ord_stop_loss ord \<noteq> None \<longrightarrow> map_of (lw_stops w') (py_upper symbol) = Some \<lparr>is_stop = the (ord_stop_loss ord),
            is_instrument_id = None, is_recorded_at = now_of env w, is_seen = False\<rparr>) \<and>
         (case answer of Inl e \<Rightarrow> r = None \<and> lw_halted w' = Some (''open_failed:'' @ symbol @ '':'' @ live_error_str e)
          | Inr resp \<Rightarrow> r = Some \<lparr>lcp_symbol = symbol, lcp_order_id = lr_order_id resp, lcp_status = lr_status resp,
              lcp_amount_usd = ord_amount_usd ord, lcp_leverage = ord_leverage ord\<rparr> \<and> lw_halted w' = lw_halted w)
       else r = None \<and> lw_state w' = Some before \<and> (lw_halted w' = lw_halted w \<or> lw_halted w' \<notin> {None, Some []})))"

lemma copy_resultI:
  assumes "lw_calls w' = calls" "calls = lw_calls w @ [Open_live_order ord (''etoro-live:'' @ pid)]" "le_order env calls = answer"
    and "rs_last_topup_day (lw_reserve w') = rs_last_topup_day (lw_reserve w)"
    and "may_have_filled answer \<Longrightarrow> \<exists>k. lw_state w' = Some ((write_ahead symbol (ord_amount_usd ord) (ord_leverage ord) before)\<lparr>ms_successful_1x := k\<rparr>)"
    and "may_have_filled answer \<Longrightarrow> ord_stop_loss ord \<noteq> None \<longrightarrow> map_of (lw_stops w') (py_upper symbol) =
      Some \<lparr>is_stop = the (ord_stop_loss ord), is_instrument_id = None, is_recorded_at = now_of env w, is_seen = False\<rparr>"
    and "may_have_filled answer \<Longrightarrow> (case answer of Inl e \<Rightarrow> r = None \<and> lw_halted w' = Some (''open_failed:'' @ symbol @ '':'' @ live_error_str e)
          | Inr resp \<Rightarrow> r = Some \<lparr>lcp_symbol = symbol, lcp_order_id = lr_order_id resp, lcp_status = lr_status resp,
              lcp_amount_usd = ord_amount_usd ord, lcp_leverage = ord_leverage ord\<rparr> \<and> lw_halted w' = lw_halted w)"
    and "\<not> may_have_filled answer \<Longrightarrow> r = None \<and> lw_state w' = Some before \<and> (lw_halted w' = lw_halted w \<or> lw_halted w' \<notin> {None, Some []})"
  shows "copy_result env before ord pid symbol w r w'"
  using assms unfolding copy_result_def Let_def by (cases "may_have_filled answer") auto

lemmas write_simps = save_state_def remember_stop_def forget_stop_def note_copy_failed_def logL_def halt_def undo_def record_entry_def

lemma now_of_calls: "lw_calls w' = lw_calls w \<Longrightarrow> now_of env w' = now_of env w"
  by (simp add: now_of_def)

lemma after_accepted:
  "after (accepted env st ord pid symbol resp) w (\<lambda>r w'.
     r = Inr (Some \<lparr>lcp_symbol = symbol, lcp_order_id = lr_order_id resp, lcp_status = lr_status resp,
              lcp_amount_usd = ord_amount_usd ord, lcp_leverage = ord_leverage ord\<rparr>) \<and>
     lw_calls w' = lw_calls w \<and> lw_halted w' = lw_halted w \<and> lw_stops w' = lw_stops w \<and> lw_reserve w' = lw_reserve w \<and>
     lw_state w' = (if ord_leverage ord = 1 then Some (st\<lparr>ms_successful_1x := ms_successful_1x st + 1\<rparr>) else lw_state w))"
  by (simp add: accepted_def write_simps Let_def)

lemma after_open_failed:
  "after (open_failed env before symbol e) w (\<lambda>r w'. r = Inr None \<and> lw_calls w' = lw_calls w \<and> lw_reserve w' = lw_reserve w \<and>
     lw_state w' = (if never_sent e then Some before else lw_state w) \<and>
     (\<not> never_sent e \<longrightarrow> lw_stops w' = lw_stops w) \<and>
     lw_halted w' = (case e of Rate_limited _ \<Rightarrow> lw_halted w | _ \<Rightarrow> Some (''open_failed:'' @ symbol @ '':'' @ live_error_str e)))"
  by (cases e) (simp_all add: open_failed_def write_simps)

lemma after_place_copy:
  "after (place_copy env before ord pid symbol) w (\<lambda>r w'. \<exists>x. r = Inr x \<and> copy_result env before ord pid symbol w x w')"
proof -
  let ?ahead = "write_ahead symbol (ord_amount_usd ord) (ord_leverage ord) before"
  let ?w1 = "snd (bindP (save_state ?ahead) (\<lambda>_. remember_stop env symbol (ord_stop_loss ord)) w)"
  define calls where "calls = lw_calls w @ [Open_live_order ord (''etoro-live:'' @ pid)]"
  have w1: "lw_calls ?w1 = lw_calls w" "lw_halted ?w1 = lw_halted w" "lw_reserve ?w1 = lw_reserve w" "lw_state ?w1 = Some ?ahead"
    "ord_stop_loss ord \<noteq> None \<Longrightarrow> map_of (lw_stops ?w1) (py_upper symbol) = Some \<lparr>is_stop = the (ord_stop_loss ord),
        is_instrument_id = None, is_recorded_at = now_of env w, is_seen = False\<rparr>"
    by (cases "ord_stop_loss ord"; simp add: bindP_def write_simps setL_def returnP_def now_of_def update_conv')+
  have run: "after (place_copy env before ord pid symbol) w Q =
      after (case le_order env calls of Inl e \<Rightarrow> open_failed env before symbol e
        | Inr resp \<Rightarrow> if refused_status (lr_status resp)
           then bindP (undo before symbol) (\<lambda>_. bindP (note_copy_failed env) (\<lambda>_.
             bindP (logL ''etoro_live_mirror_rejected'' [symbol, pid, lr_status resp]) (\<lambda>_. returnP None)))
           else accepted env ?ahead ord pid symbol resp) (?w1\<lparr>lw_calls := calls\<rparr>) Q" for Q
    unfolding calls_def
    by (cases "ord_stop_loss ord") (simp_all add: place_copy_def Let_def write_simps bindP_def setL_def returnP_def
      callL_def after_def)
  show ?thesis
  proof (cases "le_order env calls")
    case (Inl e)
    have fill: "may_have_filled (Inl e) \<longleftrightarrow> \<not> never_sent e" by (simp add: may_have_filled_def)
    have outcome: "copy_result env before ord pid symbol w None w'"
      if "lw_calls w' = calls" "lw_reserve w' = lw_reserve ?w1" "lw_state w' = (if never_sent e then Some before else Some ?ahead)"
        "\<not> never_sent e \<longrightarrow> lw_stops w' = lw_stops ?w1"
        "lw_halted w' = (case e of Rate_limited _ \<Rightarrow> lw_halted ?w1 | _ \<Rightarrow> Some (''open_failed:'' @ symbol @ '':'' @ live_error_str e))" for w'
    proof (rule copy_resultI [OF that(1) calls_def Inl])
      show "\<exists>k. lw_state w' = Some (?ahead\<lparr>ms_successful_1x := k\<rparr>)" if "may_have_filled (Inl e)"
        using that fill \<open>lw_state w' = _\<close> by (intro exI [of _ "ms_successful_1x ?ahead"]) simp
    qed (use that w1 fill in \<open>auto simp: never_sent_def split: live_error.splits\<close>)
    show ?thesis unfolding run Inl sum.case
      by (rule after_mono [OF after_open_failed])
        (elim conjE, rule exI [of _ None], rule conjI, assumption, rule outcome; simp add: w1(1-4) split: live_error.splits)
  next
    case (Inr resp)
    show ?thesis
    proof (cases "refused_status (lr_status resp)")
      case True
      have outcome: "copy_result env before ord pid symbol w None w'"
        if "lw_calls w' = calls" "lw_reserve w' = lw_reserve ?w1" "lw_state w' = Some before" "lw_halted w' = lw_halted ?w1" for w'
        by (rule copy_resultI [OF that(1) calls_def Inr]) (use that w1 True in \<open>auto simp: may_have_filled_def\<close>)
      show ?thesis unfolding run Inr sum.case if_P [OF True]
        by (auto simp: write_simps intro!: outcome)
    next
      case False
      let ?copy = "\<lparr>lcp_symbol = symbol, lcp_order_id = lr_order_id resp, lcp_status = lr_status resp,
              lcp_amount_usd = ord_amount_usd ord, lcp_leverage = ord_leverage ord\<rparr>"
      have outcome: "copy_result env before ord pid symbol w (Some ?copy) w'"
        if "lw_calls w' = calls" "lw_reserve w' = lw_reserve ?w1" "lw_halted w' = lw_halted ?w1" "lw_stops w' = lw_stops ?w1"
          "lw_state w' = (if ord_leverage ord = 1 then Some (?ahead\<lparr>ms_successful_1x := ms_successful_1x ?ahead + 1\<rparr>) else Some ?ahead)" for w'
      proof (rule copy_resultI [OF that(1) calls_def Inr])
        show "\<exists>k. lw_state w' = Some (?ahead\<lparr>ms_successful_1x := k\<rparr>)" if "may_have_filled (Inr resp)"
          using \<open>lw_state w' = _\<close>
          by (intro exI [of _ "if ord_leverage ord = 1 then ms_successful_1x ?ahead + 1 else ms_successful_1x ?ahead"]) simp
      qed (use that w1 False in \<open>auto simp: may_have_filled_def\<close>)
      show ?thesis unfolding run Inr sum.case if_not_P [OF False]
        by (rule after_mono [OF after_accepted])
          (elim conjE, rule exI [of _ "Some ?copy"], rule conjI, assumption, rule outcome; simp add: w1(1-4))
    qed
  qed
qed

lemma copy_leverage_1 [simp]: "copy_leverage st = 1"
  by (simp add: copy_leverage_def LEVERAGE_TEST_ENABLED_def)

lemma blocked_quiet: "blocked symbol reasons w = (r, w') \<Longrightarrow> releases w w' \<and> same_file w w' \<and> r = Inr None"
  by (auto simp: blocked_def logL_def bindP_def setL_def returnP_def releases_def opens_nothing_def same_halt_def same_file_def)

definition sized_copy :: "live_env \<Rightarrow> live_world \<Rightarrow> trade_order \<Rightarrow> pyfloat option \<times> string list" where
  "sized_copy env w ord = copy_amount env w (state_of env w)
     (trade_amount (le_settings env) (state_of env w) (stop_distance_pct (ord_proposed_price ord) (ord_stop_loss ord)))"

text \<open>Either the mirror opens nothing, or it sends one order, as its last call.\<close>

lemma live_mirror_cases:
  assumes "live_mirror env p pb w = (r, w')"
  obtains (quiet) "r = Inr None" "releases w w'"
      "lw_state w' = lw_state w \<or> (\<exists>st'. released (state_of env w) st' \<and> lw_state w' = Some st')"
  | (sent) amount st' w1 x where "live_blockers env w (prop_order p) (prop_signal p) pb = []"
      "fst (sized_copy env w (prop_order p)) = Some amount" "releases w w1" "released (state_of env w) st'" "r = Inr x"
      "copy_result env st' ((prop_order p)\<lparr>ord_amount_usd := amount, ord_leverage := 1\<rparr>) (prop_id p) (py_upper (ord_symbol (prop_order p))) w1 x w'"
proof -
  let ?ord = "prop_order p" and ?st = "state_of env w" and ?symbol = "py_upper (ord_symbol (prop_order p))"
  let ?reasons = "live_blockers env w ?ord (prop_signal p) pb"
  have still: thesis if "releases w w'" "same_file w w'" "r = Inr None"
    using that quiet by (simp add: same_file_def)
  show thesis
  proof (cases "?reasons = []")
    case False
    show thesis
    proof (cases "?reasons = [''etoro_live_mirror_disabled'']")
      case True
      then have "returnP None w = (r, w')" using assms by (simp add: live_mirror_def Let_def)
      then show thesis using still by (auto simp: returnP_def rel.R_refl same_file_def)
    next
      case other: False
      then have "blocked ?symbol ?reasons w = (r, w')" using assms False by (simp add: live_mirror_def Let_def)
      then show thesis using blocked_quiet still by blast
    qed
  next
    case ok: True
    show thesis
    proof (cases "fst (sized_copy env w ?ord)")
      case None
      then have "blocked ?symbol [''etoro_live_unsized''] w = (r, w')"
        using assms ok by (simp add: live_mirror_def Let_def sized_copy_def)
      then show thesis using blocked_quiet still by blast
    next
      case (Some amount)
      obtain rr w1 where rel: "release_for_copy env ?st amount w = (rr, w1)" by fastforce
      have w1: "releases w w1" "release_result ?st w rr w1"
        using stepsD [OF releases_release rel] afterD [OF after_release rel] by auto
      have run: "(case rr of Inl e \<Rightarrow> blocked ?symbol [''etoro_live_spy_reserve_release_failed:'' @ take 160 (live_error_str e)]
          | Inr st' \<Rightarrow> place_copy env st' (?ord\<lparr>ord_amount_usd := amount, ord_leverage := 1\<rparr>) (prop_id p) ?symbol) w1 = (r, w')"
        using assms ok Some rel
        by (cases rr) (simp_all add: live_mirror_def Let_def sized_copy_def bindP_def catchP_def returnP_def)
      show thesis
      proof (cases rr)
        case (Inl e)
        then have "releases w1 w' \<and> same_file w1 w' \<and> r = Inr None" using run blocked_quiet by simp
        moreover have "lw_state w1 = lw_state w" using w1(2) Inl by (simp add: release_result_def)
        ultimately show thesis using still rel.R_trans [OF w1(1)] by (simp add: same_file_def)
      next
        case (Inr st')
        then have place: "place_copy env st' (?ord\<lparr>ord_amount_usd := amount, ord_leverage := 1\<rparr>) (prop_id p) ?symbol w1 = (r, w')"
          using run by simp
        obtain x where "r = Inr x" "copy_result env st' (?ord\<lparr>ord_amount_usd := amount, ord_leverage := 1\<rparr>) (prop_id p) ?symbol w1 x w'"
          using afterD [OF after_place_copy place] by blast
        moreover have "released ?st st'" using w1(2) Inr by (simp add: release_result_def)
        ultimately show thesis using sent [OF ok Some w1(1)] by blast
      qed
    qed
  qed
qed

subsection \<open>The size of a copy\<close>

lemma py_round_cents_le: "py_round 2 x \<le> x + 1 / 200"
proof -
  have "\<bar>py_round 2 x - x\<bar> \<le> 1 / 200" using py_round_error [of 2 x] by simp
  then show ?thesis by linarith
qed

lemma trade_amount_bounds:
  assumes "trade_amount s st pct = Some amount"
  obtains equity q where "ms_last_equity st = Some equity" "0 < equity" "pct = Some q" "0 < q" "0 < amount"
    "amount \<le> HARD_MAX_TRADE_USD" "amount \<le> equity * HARD_MAX_TRADE_PCT_OF_EQUITY / 100 + 1 / 200"
    "amount \<le> equity * HARD_MAX_RISK_PCT_OF_EQUITY / q + 1 / 200"
proof -
  obtain equity q where eq: "ms_last_equity st = Some equity" "pct = Some q" "0 < equity" "0 < q"
    "amount = py_round 2 (min (min (equity * effective_trade_pct s / 100) HARD_MAX_TRADE_USD) (equity * HARD_MAX_RISK_PCT_OF_EQUITY / q))" "0 < amount"
    using assms by (auto simp: trade_amount_def Let_def split: option.splits if_splits)
  let ?m = "min (min (equity * effective_trade_pct s / 100) HARD_MAX_TRADE_USD) (equity * HARD_MAX_RISK_PCT_OF_EQUITY / q)"
  have "effective_trade_pct s \<le> HARD_MAX_TRADE_PCT_OF_EQUITY"
    by (auto simp: effective_trade_pct_def HARD_MAX_TRADE_PCT_OF_EQUITY_def split: option.splits)
  then have "equity * effective_trade_pct s / 100 \<le> equity * HARD_MAX_TRADE_PCT_OF_EQUITY / 100" using eq(3) by simp
  moreover have "amount \<le> ?m + 1 / 200" unfolding eq(5) by (rule py_round_cents_le)
  moreover have "amount \<le> py_round 2 HARD_MAX_TRADE_USD" unfolding eq(5) by (rule py_round_mono) simp
  then have "amount \<le> HARD_MAX_TRADE_USD" by (simp add: HARD_MAX_TRADE_USD_def py_round_def round_even_def)
  moreover have "?m \<le> equity * effective_trade_pct s / 100" by (rule min.coboundedI1, rule min.cobounded1)
  moreover have "?m \<le> equity * HARD_MAX_RISK_PCT_OF_EQUITY / q" by (rule min.cobounded2)
  ultimately show thesis
    by (intro that [of equity q] eq(1-4,6)) linarith+
qed

lemma fit_to_room_Some: "fst (fit_to_room stake rooms) = Some amount \<longleftrightarrow>
    0 < stake \<and> amount = stake \<and> snd (fit_to_room stake rooms) = [] \<and> list_all (\<lambda>(r, room). case room of None \<Rightarrow> False | Some x \<Rightarrow> stake \<le> x) rooms"
  by (auto simp: fit_to_room_def Let_def list_all_iff filter_empty_conv not_less split: option.splits prod.splits)

text \<open>A copy that has its size fits the exposure cap and the free cash.\<close>

lemma copy_amount_bounds:
  assumes "fst (copy_amount env w st stake) = Some amount"
  obtains equity exposure where "stake = Some amount" "ms_last_equity st = Some equity" "0 < equity" "MIN_TRADE_USD \<le> amount"
    "open_exposure_usd env w st = Some exposure" "exposure + amount \<le> equity + sellable_usd (le_settings env) st"
    "ms_last_cash st \<noteq> None \<longrightarrow> (\<exists>cash. ms_last_cash st = Some (Some cash) \<and> amount \<le> cash - CASH_RESERVE_USD + sellable_usd (le_settings env) st)"
proof -
  obtain a equity exposure where ae: "stake = Some a" "ms_last_equity st = Some equity" "\<not> a < MIN_TRADE_USD" "0 < equity"
    "open_exposure_usd env w st = Some exposure"
    using assms by (auto simp: copy_amount_def Let_def split: option.splits if_splits)
  let ?spare = "sellable_usd (le_settings env) st"
  let ?cash = "case ms_last_cash st of None \<Rightarrow> [] | Some cash \<Rightarrow> [(''etoro_live_insufficient_cash'', map_option (\<lambda>c. c - CASH_RESERVE_USD + ?spare) cash)]"
  have "fst (fit_to_room a ((''etoro_live_exposure_cap'', Some (equity * HARD_MAX_EXPOSURE_PCT_OF_EQUITY / 100 - exposure + ?spare)) # ?cash)) = Some amount"
    using assms ae by (simp add: copy_amount_def Let_def)
  then have "amount = a" "a \<le> equity * HARD_MAX_EXPOSURE_PCT_OF_EQUITY / 100 - exposure + ?spare"
    "list_all (\<lambda>(r, room). case room of None \<Rightarrow> False | Some x \<Rightarrow> a \<le> x) ?cash"
    unfolding fit_to_room_Some by simp_all
  then show thesis
    using that [of equity exposure] ae
    by (auto simp: HARD_MAX_EXPOSURE_PCT_OF_EQUITY_def not_less split: option.splits)
qed

end
