(* ===== verification/Live_Gates.thy ===== *)
theory Live_Gates
  imports Live_Safety
begin

text \<open>
  When real money moves: the gates behind every order of the live mirror, its hard caps, what an
  unknown answer leaves behind, and the number of copies a day.
\<close>

subsection \<open>Every gate of a copy\<close>

text \<open>The orders a run sent.\<close>

definition orders_sent :: "live_world \<Rightarrow> live_world \<Rightarrow> live_call list" where
  "orders_sent w w' = filter opens_live (drop (length (lw_calls w)) (lw_calls w'))"

lemma orders_sent_quiet: "releases w w' \<Longrightarrow> orders_sent w w' = []"
  by (auto simp: orders_sent_def releases_def opens_nothing_def list_all_iff filter_empty_conv)

lemma orders_sent_copy:
  assumes "releases w w1" "copy_result env st ord pid symbol w1 x w'"
  shows "orders_sent w w' = [Open_live_order ord (''etoro-live:'' @ pid)]"
proof -
  obtain cs where "lw_calls w1 = lw_calls w @ cs" "list_all (\<lambda>c. \<not> opens_live c) cs"
    using assms(1) by (auto simp: releases_def opens_nothing_def)
  moreover have "lw_calls w' = lw_calls w1 @ [Open_live_order ord (''etoro-live:'' @ pid)]"
    using assms(2) by (simp only: copy_result_def)
  ultimately show ?thesis by (auto simp: orders_sent_def list_all_iff filter_empty_conv)
qed

text \<open>What was checked of a copy that was sent.\<close>

lemma live_order_cases:
  assumes "live_mirror env p pb w = (r, w')" "c \<in> set (orders_sent w w')"
  obtains amount where "orders_sent w w' = [Open_live_order ((prop_order p)\<lparr>ord_amount_usd := amount, ord_leverage := 1\<rparr>) (''etoro-live:'' @ prop_id p)]"
    "live_blockers env w (prop_order p) (prop_signal p) pb = []" "fst (sized_copy env w (prop_order p)) = Some amount"
  using assms(1)
proof (cases rule: live_mirror_cases)
  case quiet
  then show thesis using assms(2) by (simp add: orders_sent_quiet)
next
  case (sent amount st' w1 x)
  then show thesis using that [of amount] orders_sent_copy by blast
qed

lemma opt_list_Nil [simp]: "opt_list x = [] \<longleftrightarrow> x = None"
  by (simp add: opt_list_def split: option.splits)

lemma live_blockers_Nil:
  "live_blockers env w ord sig pb = [] \<longleftrightarrow> ls_mirror_enabled (le_settings env) \<and> \<not> is_paper_only (ord_metadata ord) \<and>
     account_reasons env w pb = [] \<and> shape_reasons ord = [] \<and>
     live_evidence_reasons env w ord (copy_timeframe ord sig) = [] \<and> live_record_reasons env ord (copy_timeframe ord sig) = [] \<and>
     planner_blocker (copy_inputs ord sig) = None \<and> backtest_check_blocker (copy_inputs ord sig) = None \<and>
     extension_blockers (dict_get (copy_inputs ord sig) ''entry_extension'') (copy_timeframe ord sig) = [] \<and>
     capacity_reasons env w ord = [] \<and> equity_reasons (state_of env w) = [] \<and> size_reasons env w ord = []"
  by (simp add: live_blockers_def Let_def PAPER_ONLY_REASON_LIVE_def)

lemma account_reasons_Nil:
  "account_reasons env w pb = [] \<longleftrightarrow> client_problem (le_client env) = None \<and>
     ls_acknowledgement (le_settings env) = LIVE_OPERATOR_ACKNOWLEDGEMENT \<and> lw_halted w \<in> {None, Some []} \<and>
     pb = ''alpaca'' \<and> ls_execution_mode (le_settings env) = ''paper''"
  by (simp add: account_reasons_def Let_def)

lemma shape_reasons_Nil:
  "shape_reasons ord = [] \<Longrightarrow> ord_side ord = Buy \<and> ord_asset_class ord \<in> {Equity, Unknown_class} \<and>
     \<not> is_crypto_symbol (py_upper (py_strip (ord_symbol ord))) \<and> ord_take_profit ord \<noteq> None \<and>
     (\<exists>q. stop_distance_pct (ord_proposed_price ord) (ord_stop_loss ord) = Some q \<and> q \<le> HARD_MAX_STOP_DISTANCE_PCT)"
  by (auto simp: shape_reasons_def Let_def split: if_splits option.splits)

lemma streak_blocker_None: "evidence_streak_blocker h = None \<longleftrightarrow> (\<exists>x. h = Some x \<and> MIRROR_MIN_EVIDENCE_STREAK_HOURS \<le> x)"
  by (auto simp: evidence_streak_blocker_def split: option.splits)

lemma evidence_reasons_Nil:
  assumes "live_evidence_reasons env w ord tf = []"
  obtains h where "evidence_blocker ((ls_evidence (le_settings env))\<lparr>ev_require_oos := True\<rparr>) (lw_verdicts w) (now_of env w)
      (or_empty (ord_strategy_name ord)) (Some (str_or_empty tf)) MIRROR_MIN_EXPECTANCY_R False = None"
    "passing_hours (lw_verdicts w) (evidence_key (or_empty (ord_strategy_name ord)) (Some (str_or_empty tf))) (now_of env w) = Some h"
    "MIRROR_MIN_EVIDENCE_STREAK_HOURS \<le> h"
  using assms by (auto simp: live_evidence_reasons_def Let_def streak_blocker_None split: if_splits option.splits)

lemma record_reasons_Nil:
  assumes "live_record_reasons env ord tf = []"
  obtains ts n total where "le_paper_trades env = Some ts" "MIN_CLOSED_PAPER_TRADES \<le> n" "0 < total"
    "get_default (paper_records (take RECORD_ROWS ts)) (record_key (or_empty (ord_strategy_name ord)) (str_or_empty tf)) (0, 0) = (n, total)"
  using assms
  by (auto simp: live_record_reasons_def paper_record_blocker_def Let_def not_less not_le split: option.splits prod.splits if_splits)

lemma planner_None: "planner_blocker md = None \<Longrightarrow>
    \<exists>plan label. dict_get md ''trade_plan'' = PDict plan \<and> dict_get plan ''timing_label'' = PStr label \<and> py_lower (py_strip label) = ''immediate''"
  by (auto simp: planner_blocker_def MIRROR_BUY_NOW_TIMING_LABELS_def split: pyval.splits if_splits)

lemma backtest_check_None: "backtest_check_blocker md = None \<longleftrightarrow> dict_get md ''backtest_validated'' = PBool True"
  by (auto simp: backtest_check_blocker_def split: pyval.splits)

lemma capacity_reasons_Nil:
  "capacity_reasons env w ord = [] \<longleftrightarrow>
     (\<exists>n. ms_trades_today (state_of env w) = Some n \<and> n < HARD_MAX_TRADES_PER_DAY) \<and>
     py_upper (ord_symbol ord) \<notin> set (effective_open_symbols w (state_of env w)) \<and>
     length (counted_symbols (le_settings env) (effective_open_symbols w (state_of env w))) < HARD_MAX_OPEN_POSITIONS \<and>
     bucket_blockers (ord_symbol ord) (counted_symbols (le_settings env) (effective_open_symbols w (state_of env w))) = []"
  by (auto simp: capacity_reasons_def Let_def not_le split: option.splits if_splits)

lemma equity_reasons_Nil:
  "equity_reasons st = [] \<Longrightarrow> \<exists>start e. ms_day_start_equity st = Some start \<and> ms_last_equity st = Some e \<and> 0 < e \<and>
     start - e < start * HARD_DAILY_LOSS_STOP_PCT / 100"
  by (auto simp: equity_reasons_def not_le split: option.splits if_splits)


text \<open>C3: Real money moves only behind every gate. Whenever the mirror sends an order, it sends
exactly one, the paper order with another amount at 1x; the mirror is enabled, acknowledged, not
halted and on a real client; the trade is an Alpaca paper long equity entry with stop and target and
not paper-only; its strategy passes the evidence gate, has passed every refresh for 24 hours, and
has made money on at least three closed paper trades; the planner says buy now and the signal's own
backtest passed; and the daily cap, the open-position cap and the daily loss stop leave room.\<close>

theorem live_copy_needs_every_gate:
  assumes "live_mirror env p pb w = (r, w')" "c \<in> set (orders_sent w w')"
  defines "tf \<equiv> str_or_empty (copy_timeframe (prop_order p) (prop_signal p))"
    and "inputs \<equiv> copy_inputs (prop_order p) (prop_signal p)" and "strategy \<equiv> or_empty (ord_strategy_name (prop_order p))"
    and "held \<equiv> effective_open_symbols w (state_of env w)"
  shows "(\<exists>amount. orders_sent w w' = [Open_live_order ((prop_order p)\<lparr>ord_amount_usd := amount, ord_leverage := 1\<rparr>) (''etoro-live:'' @ prop_id p)]) \<and>
    ls_mirror_enabled (le_settings env) \<and> ls_acknowledgement (le_settings env) = LIVE_OPERATOR_ACKNOWLEDGEMENT \<and>
    lw_halted w \<in> {None, Some []} \<and> client_problem (le_client env) = None \<and> pb = ''alpaca'' \<and>
    ls_execution_mode (le_settings env) = ''paper'' \<and> \<not> is_paper_only (ord_metadata (prop_order p)) \<and>
    ord_side (prop_order p) = Buy \<and> ord_asset_class (prop_order p) \<in> {Equity, Unknown_class} \<and>
    ord_stop_loss (prop_order p) \<noteq> None \<and> ord_take_profit (prop_order p) \<noteq> None \<and>
    evidence_blocker ((ls_evidence (le_settings env))\<lparr>ev_require_oos := True\<rparr>) (lw_verdicts w) (now_of env w)
      strategy (Some tf) (3 / 100) False = None \<and>
    (\<exists>h. passing_hours (lw_verdicts w) (evidence_key strategy (Some tf)) (now_of env w) = Some h \<and> 24 \<le> h) \<and>
    (\<exists>ts n total. le_paper_trades env = Some ts \<and> 3 \<le> n \<and> 0 < total \<and>
       get_default (paper_records (take RECORD_ROWS ts)) (record_key strategy tf) (0, 0) = (n, total)) \<and>
    (\<exists>plan label. dict_get inputs ''trade_plan'' = PDict plan \<and> dict_get plan ''timing_label'' = PStr label \<and> py_lower (py_strip label) = ''immediate'') \<and>
    dict_get inputs ''backtest_validated'' = PBool True \<and>
    (\<exists>n. ms_trades_today (state_of env w) = Some n \<and> n < 3) \<and>
    py_upper (ord_symbol (prop_order p)) \<notin> set held \<and> length (counted_symbols (le_settings env) held) < 9 \<and>
    (\<exists>start e. ms_day_start_equity (state_of env w) = Some start \<and> ms_last_equity (state_of env w) = Some e \<and> start - e < start * 5 / 100)"
proof -
  obtain amount where sent: "orders_sent w w' = [Open_live_order ((prop_order p)\<lparr>ord_amount_usd := amount, ord_leverage := 1\<rparr>) (''etoro-live:'' @ prop_id p)]"
    and ok: "live_blockers env w (prop_order p) (prop_signal p) pb = []"
    using live_order_cases [OF assms(1,2)] by blast
  note gates = ok [unfolded live_blockers_Nil account_reasons_Nil capacity_reasons_Nil backtest_check_None]
  obtain h where h: "evidence_blocker ((ls_evidence (le_settings env))\<lparr>ev_require_oos := True\<rparr>) (lw_verdicts w) (now_of env w)
      strategy (Some tf) MIRROR_MIN_EXPECTANCY_R False = None"
    "passing_hours (lw_verdicts w) (evidence_key strategy (Some tf)) (now_of env w) = Some h" "24 \<le> h"
    using gates evidence_reasons_Nil [of env w "prop_order p"] unfolding tf_def strategy_def MIRROR_MIN_EVIDENCE_STREAK_HOURS_def by blast
  obtain ts n total where closed: "le_paper_trades env = Some ts" "3 \<le> n" "0 < total"
    "get_default (paper_records (take RECORD_ROWS ts)) (record_key strategy tf) (0, 0) = (n, total)"
    using gates record_reasons_Nil [of env "prop_order p"] unfolding tf_def strategy_def MIN_CLOSED_PAPER_TRADES_def by blast
  have shape: "ord_side (prop_order p) = Buy" "ord_asset_class (prop_order p) \<in> {Equity, Unknown_class}" "ord_take_profit (prop_order p) \<noteq> None"
    "ord_stop_loss (prop_order p) \<noteq> None"
    using gates shape_reasons_Nil [of "prop_order p"] by (auto simp: stop_distance_pct_def split: option.splits)
  have day: "\<exists>start e. ms_day_start_equity (state_of env w) = Some start \<and> ms_last_equity (state_of env w) = Some e \<and> start - e < start * 5 / 100"
    using gates equity_reasons_Nil [of "state_of env w"] unfolding HARD_DAILY_LOSS_STOP_PCT_def by blast
  have plan: "\<exists>plan label. dict_get inputs ''trade_plan'' = PDict plan \<and> dict_get plan ''timing_label'' = PStr label \<and> py_lower (py_strip label) = ''immediate''"
    using gates planner_None unfolding inputs_def by blast
  show ?thesis
    using sent gates shape day plan h(1) h(2,3) closed unfolding inputs_def held_def
      HARD_MAX_TRADES_PER_DAY_def HARD_MAX_OPEN_POSITIONS_def MIRROR_MIN_EXPECTANCY_R_def by blast
qed

subsection \<open>A world with room for one copy\<close>

text \<open>A proposal every gate lets through: its strategy has passed for 30 hours and closed three
winning paper trades. The answer to the order is a parameter; the client answers every other call.\<close>

definition demo_copy_metadata :: pydict where
  "demo_copy_metadata = [(''timeframe'', PStr ''1d''), (''trade_plan'', PDict [(''timing_label'', PStr ''immediate'')]),
     (''backtest_validated'', PBool True),
     (''entry_extension'', PDict [(''timeframe'', PStr ''1d''), (''return_20d_pct'', PFloat 5), (''rsi_14'', PFloat 50),
        (''new_high_252_recent'', PBool False)])]"

definition demo_copied :: trade_proposal where
  "demo_copied = (demo_proposal EXECUTED)\<lparr>prop_order := demo_order\<lparr>ord_metadata := demo_copy_metadata\<rparr>\<rparr>"

definition demo_winner :: paper_trade where
  "demo_winner = \<lparr>pt_id = ''t'', pt_position_id = ''p'', pt_proposal_id = None, pt_signal_id = None, pt_symbol = ''NVDA'',
     pt_strategy_name = ''swing'', pt_timeframe = ''1d'', pt_side = ''buy'', pt_regime_label = None, pt_hold_style = None,
     pt_outcome = ''take_profit'', pt_entry_price = 100, pt_exit_price = 104, pt_quantity = 5, pt_realized_pnl_usd = 20,
     pt_realized_pnl_pct = 4, pt_opened_at = 0, pt_closed_at = 0, pt_payload = []\<rparr>"

definition demo_live_settings :: live_settings where
  "demo_live_settings = \<lparr>ls_mirror_enabled = True, ls_acknowledgement = LIVE_OPERATOR_ACKNOWLEDGEMENT,
     ls_trade_pct_of_equity = Some 10, ls_room_authority_enabled = True, ls_spy_reserve_enabled = True,
     ls_execution_mode = ''paper'', ls_paper_broker = ''alpaca'', ls_broker_for_equities = ''alpaca'',
     ls_evidence = default_evidence_settings, ls_app = default_settings\<rparr>"

definition demo_live_now :: time where "demo_live_now = 30 * hour_us"

definition demo_live_env :: "(live_error + live_order_response) \<Rightarrow> (live_error + raw_portfolio) \<Rightarrow> live_env" where
  "demo_live_env answer raw = \<lparr>le_settings = demo_live_settings, le_client = Some \<lparr>lc_simulation = False, lc_base_url = ''https://api''\<rparr>,
     le_paper_trades = Some [demo_winner, demo_winner, demo_winner], le_clock = (\<lambda>_. demo_live_now), le_monotonic = (\<lambda>_. 0),
     le_ny = (\<lambda>_. (0, 600, 1)), le_market_open = Some (\<lambda>_. True), le_cooldown = (\<lambda>_. 0), le_raw = (\<lambda>_. raw),
     le_portfolio = (\<lambda>_. Inr \<lparr>lpf_equity = 10000, lpf_positions = []\<rparr>), le_order = (\<lambda>_. answer), le_close = (\<lambda>_. Inr ()),
     le_search = (\<lambda>_. Inr 7), le_rate = (\<lambda>_. Inr (Some 500))\<rparr>"

definition demo_live_state :: mirror_state where
  "demo_live_state = \<lparr>ms_day = Some (demo_live_now div day_us), ms_trades_today = Some 0, ms_open_symbols = [], ms_successful_1x = 0,
     ms_leverage_2x_done = False, ms_day_start_equity = Some 10000, ms_last_equity = Some 10000, ms_last_cash = Some (Some 5000),
     ms_open_notional = Some []\<rparr>"

definition demo_live_world :: live_world where
  "demo_live_world = \<lparr>lw_state = Some demo_live_state, lw_halted = None, lw_reconcile_failures = Some 0, lw_cards = Some [],
     lw_marks = Some [], lw_test_order = None,
     lw_verdicts = Some \<lparr>py_computed_at = Stamp demo_live_now,
       py_verdicts = Some [(''swing:1d'', (demo_verdict True)\<lparr>vd_oos_expectancy_r := Some (1 / 10)\<rparr>)],
       py_passing_since = Some [(''swing:1d'', Stamp 0)]\<rparr>,
     lw_reserve = \<lparr>rs_instrument_id = Some 7, rs_last_topup_day = None\<rparr>, lw_copy_failed = None, lw_stops = [], lw_calls = [], lw_logs = []\<rparr>"

definition demo_filled :: "live_error + live_order_response" where
  "demo_filled = Inr \<lparr>lr_order_id = ''o1'', lr_status = ''filled''\<rparr>"

definition demo_empty_account :: "live_error + raw_portfolio" where
  "demo_empty_account = Inr \<lparr>rw_credit = Some 10000, rw_positions = []\<rparr>"

definition demo_live_order :: trade_order where
  "demo_live_order = demo_order\<lparr>ord_metadata := demo_copy_metadata, ord_amount_usd := 1000\<rparr>"

definition demo_after :: "live_error + live_order_response \<Rightarrow> live_world" where
  "demo_after answer = snd (live_mirror (demo_live_env answer demo_empty_account) demo_copied ''alpaca'' demo_live_world)"

lemma demo_copy_run: "live_mirror (demo_live_env answer demo_empty_account) demo_copied ''alpaca'' demo_live_world =
    (fst (live_mirror (demo_live_env answer demo_empty_account) demo_copied ''alpaca'' demo_live_world), demo_after answer)"
  by (simp add: demo_after_def)

lemma demo_sent: "orders_sent demo_live_world (demo_after demo_filled) = [Open_live_order demo_live_order ''etoro-live:prop_1'']"
  by code_simp


lemma live_copy_needs_every_gate_witness:
  "ls_mirror_enabled (le_settings (demo_live_env demo_filled demo_empty_account)) \<and> lw_halted demo_live_world \<in> {None, Some []} \<and>
   (\<exists>n. ms_trades_today (state_of (demo_live_env demo_filled demo_empty_account) demo_live_world) = Some n \<and> n < 3)"
proof -
  have "Open_live_order demo_live_order ''etoro-live:prop_1'' \<in> set (orders_sent demo_live_world (demo_after demo_filled))"
    by (simp add: demo_sent)
  from live_copy_needs_every_gate [OF demo_copy_run this] show ?thesis by blast
qed

subsection \<open>An unknown answer\<close>

text \<open>C6: A real-money order whose answer is unknown is treated as filled. When an order was sent
and its answer does not rule a position out, the day's count, the open symbols and the order's
notional are in the saved state and its stop is remembered; and unless eToro accepted the order the
mirror is halted, so that nothing more is copied.\<close>

theorem uncertain_copy_is_counted:
  assumes "live_mirror env p pb w = (r, w')" "Open_live_order ord cid \<in> set (orders_sent w w')"
    and "may_have_filled (le_order env (lw_calls w'))"
  defines "symbol \<equiv> py_upper (ord_symbol ord)"
  shows "\<exists>n st' stop. ms_trades_today (state_of env w) = Some n \<and> lw_state w' = Some st' \<and> ms_day st' = Some (today_of env w) \<and>
     ms_trades_today st' = Some (n + 1) \<and> symbol \<in> set (ms_open_symbols st') \<and>
     (\<exists>rows row. ms_open_notional st' = Some rows \<and> map_of rows symbol = Some row \<and> nr_cost_usd row = Some (py_round 2 (ord_amount_usd ord))) \<and>
     ord_stop_loss ord = Some stop \<and> (\<exists>info. map_of (lw_stops w') (py_upper symbol) = Some info \<and> is_stop info = stop) \<and>
     ((\<exists>e. le_order env (lw_calls w') = Inl e) \<longrightarrow> r = Inr None \<and> lw_halted w' \<notin> {None, Some []})"
  using assms(1)
proof (cases rule: live_mirror_cases)
  case quiet
  then show ?thesis using assms(2) by (simp add: orders_sent_quiet)
next
  case (sent amount st' w1 x)
  have ord: "ord = (prop_order p)\<lparr>ord_amount_usd := amount, ord_leverage := 1\<rparr>"
    using assms(2) orders_sent_copy [OF sent(3,6)] by simp
  note result = sent(6) [unfolded copy_result_def Let_def, folded ord] 
  obtain n where n: "ms_trades_today (state_of env w) = Some n"
    using sent(1) by (auto simp: live_blockers_Nil capacity_reasons_Nil)
  obtain stop where stop: "ord_stop_loss ord = Some stop"
    using sent(1) shape_reasons_Nil [of "prop_order p"] by (auto simp: live_blockers_Nil ord stop_distance_pct_def split: option.splits)
  have day: "ms_day (state_of env w) = Some (today_of env w)" by (simp add: state_of_def Let_def)
  have "ms_day st' = Some (today_of env w)" "ms_trades_today st' = Some n" using sent(4) n day by (auto simp: released_def)
  then show ?thesis
    using result sent(5) assms(3) n stop unfolding symbol_def
    by (auto simp: write_ahead_def ord update_conv' split: sum.splits)
qed

text \<open>The order times out: the mirror is halted with the copy counted.\<close>

definition demo_timeout :: "live_error + live_order_response" where
  "demo_timeout = Inl (Etoro_error ''timed out'')"

lemma uncertain_copy_is_counted_witness:
  "\<exists>st'. lw_state (demo_after demo_timeout) = Some st' \<and> ms_trades_today st' = Some 1 \<and> ''NVDA'' \<in> set (ms_open_symbols st') \<and>
     lw_halted (demo_after demo_timeout) \<notin> {None, Some []}"
proof -
  let ?env = "demo_live_env demo_timeout demo_empty_account"
  have *: "Open_live_order demo_live_order ''etoro-live:prop_1'' \<in> set (orders_sent demo_live_world (demo_after demo_timeout))"
    "may_have_filled (le_order ?env (lw_calls (demo_after demo_timeout)))" "ms_trades_today (state_of ?env demo_live_world) = Some 0"
    "py_upper (ord_symbol demo_live_order) = ''NVDA''" "\<exists>e. le_order ?env (lw_calls (demo_after demo_timeout)) = Inl e"
    by (code_simp, code_simp, code_simp, code_simp, simp add: demo_live_env_def demo_timeout_def)
  show ?thesis using uncertain_copy_is_counted [OF demo_copy_run *(1,2)] *(3-5) by auto
qed

subsection \<open>The reserve in the exposure cap\<close>

text \<open>The exposure cap counts on SPY that is not sold: with an open gain and enough free cash, a
copy goes out although the exposure and the copy together are more than the equity.\<close>

definition demo_full_world :: live_world where
  "demo_full_world = demo_live_world\<lparr>
     lw_state := Some (demo_live_state\<lparr>ms_open_symbols := [''AMD'', ''SPY''], ms_last_cash := Some (Some 3000),
       ms_open_notional := Some [(''AMD'', \<lparr>nr_cost_usd = Some 2000, nr_units = Some 20, nr_unreadable = False\<rparr>),
         (''SPY'', \<lparr>nr_cost_usd = Some 5000, nr_units = Some 10, nr_unreadable = False\<rparr>)]\<rparr>),
     lw_marks := Some [(''AMD'', \<lparr>mk_rate = Some 250, mk_at = Some demo_live_now\<rparr>)]\<rparr>"

theorem copy_beyond_equity:
  defines "env \<equiv> demo_live_env demo_filled demo_empty_account"
  shows "ms_last_equity (state_of env demo_full_world) = Some 10000"
    and "open_exposure_usd env demo_full_world (state_of env demo_full_world) = Some 10000"
    and "lw_calls (snd (live_mirror env demo_copied ''alpaca'' demo_full_world)) = [Open_live_order demo_live_order ''etoro-live:prop_1'']"
  unfolding env_def by (code_simp, code_simp, code_simp)

end
