(* ===== verification/Live_Days.thy ===== *)
theory Live_Days
  imports Live_Gates
begin

text \<open>
  The live account over many days: any sequence of copies, account readings and guard passes,
  with whatever the other components do in between, under a clock that does not go backwards.
\<close>

subsection \<open>Runs\<close>

text \<open>The day of a copy that may have filled, and of a purchase of the reserve that may have.\<close>

definition filled_copies :: "live_env \<Rightarrow> live_world \<Rightarrow> live_world \<Rightarrow> int list" where
  "filled_copies env w w' =
     (if orders_sent w w' \<noteq> [] \<and> may_have_filled (le_order env (lw_calls w')) then [today_of env w] else [])"

definition ny_date :: "(time \<Rightarrow> int \<times> int \<times> int) \<Rightarrow> time \<Rightarrow> int" where
  "ny_date ny now = snd (snd (ny now))"

definition filled_purchases :: "live_env \<Rightarrow> live_world \<Rightarrow> live_world \<Rightarrow> int list" where
  "filled_purchases env w w' =
     (if orders_sent w w' \<noteq> [] \<and> may_have_filled (le_order env (lw_calls w')) then [ny_date (le_ny env) (now_of env w)] else [])"

text \<open>The other components add calls and change what they own, not the mirror's state or the top-up mark.\<close>

definition keeps_books :: "live_world \<Rightarrow> live_world \<Rightarrow> bool" where
  "keeps_books w w' \<longleftrightarrow> (\<exists>cs. lw_calls w' = lw_calls w @ cs) \<and> lw_state w' = lw_state w \<and>
     rs_last_topup_day (lw_reserve w') = rs_last_topup_day (lw_reserve w)"

inductive live_run ::
  "(live_call list \<Rightarrow> time) \<Rightarrow> (time \<Rightarrow> int \<times> int \<times> int) \<Rightarrow> live_world \<Rightarrow> int list \<Rightarrow> int list \<Rightarrow> live_world \<Rightarrow> bool"
  for clock ny w0 where
  start: "live_run clock ny w0 [] [] w0"
| copy: "\<lbrakk>live_run clock ny w0 ds bs w; le_clock env = clock; live_mirror env p pb w = (r, w')\<rbrakk>
    \<Longrightarrow> live_run clock ny w0 (ds @ filled_copies env w w') bs w'"
| reading: "\<lbrakk>live_run clock ny w0 ds bs w; le_clock env = clock; live_reconcile env w = (r, w')\<rbrakk>
    \<Longrightarrow> live_run clock ny w0 ds bs w'"
| backup: "\<lbrakk>live_run clock ny w0 ds bs w; le_clock env = clock; check_backup_stops env w = (r, w')\<rbrakk>
    \<Longrightarrow> live_run clock ny w0 ds bs w'"
| topping: "\<lbrakk>live_run clock ny w0 ds bs w; le_clock env = clock; le_ny env = ny; top_up env w = (r, w')\<rbrakk>
    \<Longrightarrow> live_run clock ny w0 ds (bs @ filled_purchases env w w') w'"
| others: "\<lbrakk>live_run clock ny w0 ds bs w; keeps_books w w'\<rbrakk> \<Longrightarrow> live_run clock ny w0 ds bs w'"

subsection \<open>Programs that read, log, halt and close\<close>

text \<open>A relation that calls, log lines and halts keep is kept by every reading of the account, by
the closing of positions and by the check of the backup stops.\<close>

locale guard_relation = live_relation +
  assumes R_call: "R w (w\<lparr>lw_calls := lw_calls w @ [c]\<rparr>)"
    and R_log: "R w (w\<lparr>lw_logs := logs\<rparr>)"
    and R_halt: "reason \<noteq> [] \<Longrightarrow> R w (w\<lparr>lw_halted := Some reason\<rparr>)"
begin

lemma steps_callL [steps_intros]: "steps R (callL c a)"
  by (rule steps_call) (rule R_call)

lemma steps_logL [steps_intros]: "steps R (logL e xs)"
  unfolding logL_def by (rule steps_set) (rule R_log)

lemma steps_halt [steps_intros]: "reason \<noteq> [] \<Longrightarrow> steps R (halt reason)"
  unfolding halt_def by (intro steps_intros steps_set R_halt)

lemma steps_fetch [steps_intros]: "steps R (fetch_raw env)"
  unfolding fetch_raw_def by (rule steps_callL)

lemma steps_close_by_id [steps_intros]: "steps R (close_by_id env i n u)"
  unfolding close_by_id_def by (intro steps_intros)

lemma steps_close_unprotected [steps_intros]: "steps R (close_unprotected env by_position items acc)"
proof (induction items arbitrary: acc)
  case (Cons item items)
  then show ?case by (auto simp: Let_def intro!: steps_intros)
qed (simp add: steps_return)

lemma steps_close_all [steps_intros]: "steps R (close_all_live env n ps)"
  by (induction ps) (auto intro!: steps_intros)

lemma steps_still_open [steps_intros]: "steps R (still_open env n)"
  unfolding still_open_def seems_open_def by (intro steps_intros)

lemma steps_close_at_stop [steps_intros]: "steps R (close_at_stop env symbol info n held rate)"
  unfolding close_at_stop_def by (intro steps_intros) simp_all

lemma steps_check_stop [steps_intros]: "steps R (check_stop env raw grace symbol info)"
  unfolding check_stop_def stop_instrument_def Let_def by (intro steps_intros)

lemma steps_check_stops [steps_intros]: "steps R (check_stops env raw grace stops)"
  by (induction stops rule: check_stops.induct) (auto intro!: steps_intros)

end

interpretation books: guard_relation keeps_books
  by unfold_locales (auto simp: keeps_books_def)

lemma books_set:
  assumes "\<And>w. lw_calls (f w) = lw_calls w" "\<And>w. lw_state (f w) = lw_state w"
    and "\<And>w. rs_last_topup_day (lw_reserve (f w)) = rs_last_topup_day (lw_reserve w)"
  shows "steps keeps_books (setL f)"
  by (rule steps_set) (simp add: keeps_books_def assms)

lemmas books_intros = steps_intros books.steps_bind books.steps_get books.steps_return books.steps_raise books.steps_catch
  books.steps_callL books.steps_logL books.steps_halt books.steps_fetch

lemma books_save_marks: "steps keeps_books (save_marks marks held)"
  unfolding save_marks_def by (rule books_set) simp_all

lemma books_pass: "steps keeps_books (pass_over_stops env stops spy_id)"
  unfolding pass_over_stops_def Let_def
  by (intro books_intros books.steps_check_stops books_save_marks books_set) simp_all

lemma books_backup: "check_backup_stops env w = (r, w') \<Longrightarrow> keeps_books w w'"
  using stepsD [OF books_pass] by (auto simp: check_backup_stops_def Let_def returnP_def books.R_refl split: if_splits)

subsection \<open>The day's count\<close>

text \<open>What the state shows of the copies made so far: its count covers those of its own day, and
all others lie before it.\<close>

definition tallied :: "int list \<Rightarrow> int \<Rightarrow> mirror_state option \<Rightarrow> bool" where
  "tallied ds today b \<longleftrightarrow>
     (\<forall>D \<in> set ds. \<exists>st d. b = Some st \<and> ms_day st = Some d \<and> D \<le> d) \<and>
     (\<forall>D. int (count_list ds D) \<le> HARD_MAX_TRADES_PER_DAY) \<and>
     (\<forall>st d. b = Some st \<and> ms_day st = Some d \<longrightarrow> d \<le> today \<and>
        (\<forall>n. ms_trades_today st = Some n \<longrightarrow> int (count_list ds d) \<le> n))"

lemma tallied_later: "tallied ds t b \<Longrightarrow> t \<le> t' \<Longrightarrow> tallied ds t' b"
  unfolding tallied_def by force

lemma tallied_same:
  "tallied ds t (Some st) \<Longrightarrow> ms_day st' = ms_day st \<Longrightarrow> ms_trades_today st' = ms_trades_today st \<Longrightarrow> tallied ds t (Some st')"
  by (simp add: tallied_def)

lemma tallied_state_of:
  assumes "tallied ds (today_of env w) (lw_state w)"
  shows "tallied ds (today_of env w) (Some (state_of env w))"
proof (cases "\<exists>st. lw_state w = Some st \<and> ms_day st = Some (today_of env w)")
  case True
  then show ?thesis using assms by (auto simp: state_of_def Let_def)
next
  case False
  have before: "D < today_of env w" if mem: "D \<in> set ds" for D
  proof -
    obtain st d where d: "lw_state w = Some st" "ms_day st = Some d" "D \<le> d" "d \<le> today_of env w"
      using assms mem unfolding tallied_def by blast
    with False have "d \<noteq> today_of env w" by auto
    with d show ?thesis by simp
  qed
  then have "count_list ds (today_of env w) = 0" by (auto simp: count_list_0_iff)
  moreover have "ms_day (state_of env w) = Some (today_of env w)" "ms_trades_today (state_of env w) = Some 0"
    using False by (auto simp: state_of_def Let_def empty_mirror_state_def split: option.splits)
  ultimately show ?thesis
    using assms before by (auto simp: tallied_def dest: less_imp_le)
qed

lemma tallied_add:
  assumes "tallied ds t (Some st)" "ms_day st = Some t" "ms_trades_today st = Some n" "n < HARD_MAX_TRADES_PER_DAY"
    and "ms_day st' = Some t" "ms_trades_today st' = Some (n + 1)"
  shows "tallied (ds @ [t]) t (Some st')"
proof -
  have "int (count_list ds t) \<le> n" using assms(1-3) by (simp add: tallied_def)
  then show ?thesis using assms by (auto simp: tallied_def count_list_append)
qed

text \<open>Time does not go backwards.\<close>

definition forward :: "(live_call list \<Rightarrow> time) \<Rightarrow> bool" where
  "forward clock \<longleftrightarrow> (\<forall>cs ds. clock cs \<le> clock (cs @ ds))"

lemma today_later:
  assumes "forward clock" "lw_calls w' = lw_calls w @ cs" "le_clock env = clock"
  shows "today_of env w \<le> today_of env w'"
  using assms by (auto simp: forward_def today_of_def now_of_def intro: zdiv_mono1 simp: day_us_def)

lemma books_tallied:
  assumes "forward (le_clock env)" "keeps_books w w'" "tallied ds (today_of env w) b"
  shows "tallied ds (today_of env w') b"
  using assms tallied_later today_later by (metis keeps_books_def)

lemma state_of_day [simp]: "ms_day (state_of env w) = Some (today_of env w)"
  by (simp add: state_of_def Let_def)

lemma releases_calls: "releases w w' \<Longrightarrow> \<exists>cs. lw_calls w' = lw_calls w @ cs"
  by (auto simp: releases_def opens_nothing_def)

lemma mirror_tallied:
  assumes "forward (le_clock env)" "tallied ds (today_of env w) (lw_state w)" "live_mirror env p pb w = (r, w')"
  shows "tallied (ds @ filled_copies env w w') (today_of env w') (lw_state w')"
  using assms(3)
proof (cases rule: live_mirror_cases)
  case quiet
  have "today_of env w \<le> today_of env w'" using releases_calls [OF quiet(2)] today_later [OF assms(1)] by blast
  moreover have "tallied ds (today_of env w) (lw_state w')"
    using quiet(3) assms(2) tallied_same [OF tallied_state_of [OF assms(2)]] by (auto simp: released_def)
  ultimately show ?thesis using quiet(2) by (simp add: filled_copies_def orders_sent_quiet tallied_later)
next
  case (sent amount st' w1 x)
  let ?ord = "(prop_order p)\<lparr>ord_amount_usd := amount, ord_leverage := 1\<rparr>"
  have orders: "orders_sent w w' \<noteq> []" using orders_sent_copy [OF sent(3,6)] by simp
  have "\<exists>cs. lw_calls w' = lw_calls w @ cs" using releases_calls [OF sent(3)] sent(6) by (auto simp: copy_result_def)
  then have later: "today_of env w \<le> today_of env w'" using today_later [OF assms(1)] by blast
  obtain n where n: "ms_trades_today (state_of env w) = Some n" "n < HARD_MAX_TRADES_PER_DAY"
    using sent(1) by (auto simp: live_blockers_Nil capacity_reasons_Nil)
  have st': "ms_day st' = Some (today_of env w)" "ms_trades_today st' = Some n" using sent(4) n by (auto simp: released_def)
  have tally: "tallied ds (today_of env w) (Some st')"
    by (rule tallied_same [OF tallied_state_of [OF assms(2)]]) (simp_all add: st' n)
  show ?thesis
  proof (cases "may_have_filled (le_order env (lw_calls w'))")
    case True
    then obtain k where state: "lw_state w' = Some ((write_ahead (py_upper (ord_symbol (prop_order p))) (ord_amount_usd ?ord) (ord_leverage ?ord) st')\<lparr>ms_successful_1x := k\<rparr>)"
      using sent(6) by (auto simp: copy_result_def Let_def)
    have "tallied (ds @ [today_of env w]) (today_of env w) (lw_state w')"
      unfolding state by (rule tallied_add [OF tally st' n(2)]) (simp_all add: write_ahead_def st')
    then show ?thesis using True orders later by (simp add: filled_copies_def tallied_later)
  next
    case False
    then have "lw_state w' = Some st'" using sent(6) by (simp add: copy_result_def Let_def)
    then show ?thesis using False tally later by (simp add: filled_copies_def tallied_later)
  qed
qed

text \<open>A reading of the account saves the state of the day it was made on.\<close>

lemma books_today: "keeps_books w w' \<Longrightarrow> forward (le_clock env) \<Longrightarrow> today_of env w \<le> today_of env w'"
  using today_later by (metis keeps_books_def)

lemma after_books_bind:
  assumes "steps keeps_books m" "\<And>r w1. keeps_books w w1 \<Longrightarrow> case r of Inl e \<Rightarrow> Q (Inl e) w1 | Inr x \<Rightarrow> after (f x) w1 Q"
  shows "after (bindP m f) w Q"
  unfolding after_bind by (rule after_steps [OF assms(1)]) (rule assms(2))

lemma close_unprotected_Inr: "after (close_unprotected env by_position items acc) w (\<lambda>r w'. \<exists>xs. r = Inr xs)"
proof (induction items arbitrary: acc w)
  case (Cons item items)
  then show ?case
    by (auto simp: Let_def close_by_id_def halt_def logL_def split: option.splits sum.splits)
qed simp

definition read_result :: "live_env \<Rightarrow> live_world \<Rightarrow> live_world \<Rightarrow> bool" where
  "read_result env w w' \<longleftrightarrow> keeps_books w w' \<or>
     (\<exists>u raw pf. keeps_books w u \<and> keeps_books u (w'\<lparr>lw_state := lw_state u\<rparr>) \<and> lw_state w' = Some (reconciled_state env u raw pf))"

lemma read_result_saved:
  assumes "keeps_books w u" "keeps_books u v"
  shows "read_result env w (v\<lparr>lw_state := Some (reconciled_state env u raw pf), lw_logs := logs\<rparr>)"
  unfolding read_result_def
  by (intro disjI2 exI [of _ u] exI [of _ raw] exI [of _ pf]) (use assms in \<open>auto simp: keeps_books_def\<close>)

lemma after_apply_reading:
  assumes "keeps_books w0 w"
  shows "after (apply_reading env raw pf) w (\<lambda>r w'. read_result env w0 w')"
proof -
  let ?w1 = "if reconcile_failures w \<noteq> 0 then w\<lparr>lw_reconcile_failures := Some 0\<rparr> else w"
  have w1: "keeps_books w0 ?w1" using assms by (auto simp: keeps_books_def)
  let ?st = "reconciled_state env ?w1 raw pf"
    and ?by = "symbols_by_position pf (reserve_instrument_id (le_settings env) ?w1)"
  let ?rest = "bindP (close_unprotected env ?by (rw_positions raw) []) (\<lambda>closed_list.
     bindP (save_state ?st) (\<lambda>_. bindP (logL ''etoro_live_reconciled'' closed_list) (\<lambda>_.
     returnP (Account_read \<lparr>rc_equity = account_value_at_cost raw (lpf_equity pf), rc_open_symbols = ms_open_symbols ?st,
       rc_closed_unprotected = closed_list\<rparr>))))"
  have "after ?rest ?w1 (\<lambda>r w'. read_result env w0 w')"
  proof (rule after_books_bind [OF books.steps_close_unprotected])
    fix r v assume "keeps_books ?w1 v"
    then show "case r of Inl e \<Rightarrow> read_result env w0 v | Inr closed_list \<Rightarrow>
        after (bindP (save_state ?st) (\<lambda>_. bindP (logL ''etoro_live_reconciled'' closed_list) (\<lambda>_.
          returnP (Account_read \<lparr>rc_equity = account_value_at_cost raw (lpf_equity pf), rc_open_symbols = ms_open_symbols ?st,
            rc_closed_unprotected = closed_list\<rparr>)))) v (\<lambda>r w'. read_result env w0 w')"
      using books.R_trans [OF w1] read_result_saved [OF w1]
      by (cases r) (simp_all add: read_result_def save_state_def logL_def)
  qed
  then show ?thesis by (cases "reconcile_failures w = 0") (simp_all add: apply_reading_def)
qed

lemma books_read_failed: "steps keeps_books (read_failed e)"
  unfolding read_failed_def by (intro books_intros books_set) simp_all

lemma after_reconcile: "after (live_reconcile env) w (\<lambda>r w'. read_result env w w')"
proof -
  have still: "after m w (\<lambda>r w'. read_result env w w')" if "steps keeps_books m" for m :: "live_reconcile_result live"
    by (rule after_steps [OF that]) (simp add: read_result_def)
  have reads: "after (bindP (catchP (bindP (read_accounts env) (\<lambda>x. returnP (Inr x))) (\<lambda>e. returnP (Inl e))) (\<lambda>reading.
      case reading of Inl e \<Rightarrow> read_failed e | Inr (raw, pf) \<Rightarrow> apply_reading env raw pf)) w (\<lambda>r w'. read_result env w w')"
  proof (rule after_books_bind)
    show "steps keeps_books (catchP (bindP (read_accounts env) (\<lambda>x. returnP (Inr x))) (\<lambda>e. returnP (Inl e)))"
      unfolding read_accounts_def by (intro books_intros)
    fix r :: "live_error + live_error + raw_portfolio \<times> live_portfolio" and w1
    assume w1: "keeps_books w w1"
    have "after (read_failed e) w1 (\<lambda>r w'. read_result env w w')" for e
      by (rule after_steps [OF books_read_failed]) (auto simp: read_result_def intro: books.R_trans [OF w1])
    then show "case r of Inl e \<Rightarrow> read_result env w w1 | Inr reading \<Rightarrow>
        after (case reading of Inl e \<Rightarrow> read_failed e | Inr (raw, pf) \<Rightarrow> apply_reading env raw pf) w1 (\<lambda>r w'. read_result env w w')"
      using w1 after_apply_reading [OF w1] by (auto simp: read_result_def split: sum.splits)
  qed
  show ?thesis
    unfolding live_reconcile_def
    by (intro after_cases reads still books_intros)
qed

lemma reconcile_tallied:
  assumes "forward (le_clock env)" "tallied ds (today_of env w) (lw_state w)" "live_reconcile env w = (r, w')"
  shows "tallied ds (today_of env w') (lw_state w')"
proof -
  have "read_result env w w'" using afterD [OF after_reconcile assms(3)] .
  then consider "keeps_books w w'" | u raw pf where "keeps_books w u" "keeps_books u (w'\<lparr>lw_state := lw_state u\<rparr>)"
      "lw_state w' = Some (reconciled_state env u raw pf)" unfolding read_result_def by blast
  then show ?thesis
  proof cases
    case 1
    then show ?thesis using books_tallied [OF assms(1) 1 assms(2)] by (simp add: keeps_books_def)
  next
    case 2
    have "tallied ds (today_of env u) (lw_state u)"
      using books_tallied [OF assms(1) 2(1) assms(2)] 2(1) by (simp add: keeps_books_def)
    then have "tallied ds (today_of env u) (lw_state w')"
      unfolding 2(3) by (rule tallied_same [OF tallied_state_of]) (simp_all add: reconciled_state_def Let_def)
    moreover have "today_of env u \<le> today_of env w'"
      using books_today [OF 2(2) assms(1)] by (simp add: today_of_def now_of_def)
    ultimately show ?thesis by (rule tallied_later)
  qed
qed

subsection \<open>The purchases of the reserve\<close>

text \<open>A top-up either sends no order and marks at most its own day, or sends one order as its last
call and keeps the mark of the day unless the order was never sent.\<close>

definition unsold :: "int \<Rightarrow> live_world \<Rightarrow> live_world \<Rightarrow> bool" where
  "unsold day w w' \<longleftrightarrow> opens_nothing w w' \<and> same_file w w' \<and>
     rs_last_topup_day (lw_reserve w') \<in> {rs_last_topup_day (lw_reserve w), Some day}"

definition bought :: "live_env \<Rightarrow> int \<Rightarrow> live_world \<Rightarrow> live_world \<Rightarrow> bool" where
  "bought env day w w' \<longleftrightarrow> (\<exists>u ord cid st. opens_nothing w u \<and> same_file w u \<and> lw_calls w' = lw_calls u @ [Open_live_order ord cid] \<and>
     lw_state w' = Some st \<and> ms_day st = ms_day (state_of env u) \<and> ms_trades_today st = ms_trades_today (state_of env u) \<and>
     rs_last_topup_day (lw_reserve w') = (case le_order env (lw_calls w') of Inl (Rate_limited _) \<Rightarrow> None | _ \<Rightarrow> Some day))"

interpretation unsold: live_relation "unsold day" for day
proof
  show "unsold day w w" for w by (simp add: unsold_def calls.R_refl sf.R_refl)
  show "unsold day w w2" if "unsold day w w1" "unsold day w1 w2" for w w1 w2
    using that calls.R_trans sf.R_trans by (auto simp: unsold_def)
qed

lemma unsold_call: "\<not> opens_live c \<Longrightarrow> steps (unsold day) (callL c a)"
  by (rule steps_call) (simp add: unsold_def opens_nothing_def same_file_def)

lemma unsold_mark: "steps (unsold day) (set_reserve i (Some day))"
  unfolding set_reserve_def by (rule steps_set) (simp add: unsold_def opens_nothing_def same_file_def)

lemma unsold_log: "steps (unsold day) (logL e xs)"
  unfolding logL_def by (rule steps_set) (simp add: unsold_def opens_nothing_def same_file_def)

lemma unsold_instrument: "steps (unsold day) (instrument_id_of env)"
  unfolding instrument_id_of_def
  by (intro unsold.steps_bind unsold.steps_get steps_intros unsold.steps_return unsold_call) simp

lemma bought_simps [simp]: "ms_day (bought_ahead c a st) = ms_day st" "ms_trades_today (bought_ahead c a st) = ms_trades_today st"
  by (simp_all add: bought_ahead_def Let_def)

lemma after_buy: "unsold day w0 w \<Longrightarrow> after (buy_spy env i day cost amount rate) w (\<lambda>r w'. bought env day w0 w')"
  by (auto simp: buy_spy_def set_reserve_def save_state_def logL_def bought_def unsold_def state_of_def today_of_def now_of_def
      same_file_def never_sent_def Let_def split: sum.splits live_error.splits intro!: exI [of _ w])

definition topped :: "live_env \<Rightarrow> int \<Rightarrow> live_world \<Rightarrow> live_world \<Rightarrow> bool" where
  "topped env day w w' \<longleftrightarrow> unsold day w w' \<or> bought env day w w'"

lemma toppedI: "unsold day w w' \<Longrightarrow> topped env day w w'"
  by (simp add: topped_def)

lemma topped_buy: "unsold day w0 w \<Longrightarrow> after (buy_spy env i day cost amount rate) w (\<lambda>r w'. topped env day w0 w')"
  using after_buy [of day w0 w env i cost amount rate] by (simp add: after_def topped_def split: prod.splits)

lemma topped_still: "steps (unsold day) m \<Longrightarrow> unsold day w0 w \<Longrightarrow> after m w (\<lambda>r w'. topped env day w0 w')"
  by (rule after_steps, assumption) (auto simp: topped_def intro: unsold.R_trans)

lemma topped_bind:
  assumes "steps (unsold day) m" "unsold day w0 w" "\<And>x w1. unsold day w0 w1 \<Longrightarrow> after (f x) w1 (\<lambda>r w'. topped env day w0 w')"
  shows "after (bindP m f) w (\<lambda>r w'. topped env day w0 w')"
  unfolding after_bind
  by (rule after_steps [OF assms(1)])
    (auto intro!: assms(3) toppedI intro: unsold.R_trans [OF assms(2)] split: sum.splits)

lemma topped_log: "unsold day w0 w \<Longrightarrow> after (bindP (logL e xs) (\<lambda>_. returnP x)) w (\<lambda>r w'. topped env day w0 w')"
  by (rule topped_still) (intro unsold.steps_bind unsold.steps_return unsold_log)

lemma topped_mark: "unsold day w0 w \<Longrightarrow>
    after (bindP (set_reserve i (Some day)) (\<lambda>_. bindP (logL e xs) (\<lambda>_. returnP x))) w (\<lambda>r w'. topped env day w0 w')"
  by (rule topped_still) (intro unsold.steps_bind unsold.steps_return unsold_log unsold_mark)

lemma after_top_up_due: "after (top_up_due env day) w (\<lambda>r w'. topped env day w w')"
proof -
  have mid: "after (bindP (callL (Fresh_rate RESERVE_SYMBOL) (le_rate env)) (\<lambda>rate. case positive rate of
        None \<Rightarrow> bindP (logL ''etoro_live_spy_reserve_skipped'' [''rate_unknown'']) (\<lambda>_. returnP None)
      | Some r \<Rightarrow> buy_spy env i day cost amount r)) w2 (\<lambda>r w'. topped env day w w')" if "unsold day w w2" for i cost amount w2
  proof (rule topped_bind [OF unsold_call that])
    show "\<not> opens_live (Fresh_rate RESERVE_SYMBOL)" by simp
    show "after (case positive rate of None \<Rightarrow> bindP (logL ''etoro_live_spy_reserve_skipped'' [''rate_unknown'']) (\<lambda>_. returnP None)
        | Some r \<Rightarrow> buy_spy env i day cost amount r) w3 (\<lambda>r w'. topped env day w w')" if "unsold day w w3" for rate w3
      by (intro after_optionI topped_log topped_buy that)
  qed
  show ?thesis
    unfolding top_up_due_def fetch_raw_def
  proof (rule topped_bind [OF unsold_call unsold.R_refl])
    fix raw w1 assume w1: "unsold day w w1"
    show "after (case rw_credit raw of None \<Rightarrow> bindP (logL ''etoro_live_spy_reserve_skipped'' [''account_unreadable'']) (\<lambda>_. returnP None)
     | Some cash \<Rightarrow>
         (let equity = account_value_at_cost raw 0 in
          if equity \<le> 0 then bindP (logL ''etoro_live_spy_reserve_skipped'' [''account_unreadable'']) (\<lambda>_. returnP None)
          else bindP (instrument_id_of env) (\<lambda>instrument_id.
            if isl (resolve (ls_app (le_settings env)) RESERVE_SYMBOL)
            then bindP (set_reserve instrument_id (Some day)) (\<lambda>_.
              bindP (logL ''etoro_live_spy_reserve_skipped'' [''spy_not_allowed'']) (\<lambda>_. returnP None))
            else let held_cost = py_round 2 (sum_list (map (\<lambda>p. or_zero (rp_amount p)) (spy_held raw instrument_id)));
                     amount = topup_amount equity cash held_cost in
              if amount < MIN_TOPUP_USD
              then bindP (set_reserve instrument_id (Some day)) (\<lambda>_.
                bindP (logL ''etoro_live_spy_reserve_checked'' []) (\<lambda>_. returnP (Some 0)))
              else bindP (callL (Fresh_rate RESERVE_SYMBOL) (le_rate env)) (\<lambda>rate.
                case positive rate of
                  None \<Rightarrow> bindP (logL ''etoro_live_spy_reserve_skipped'' [''rate_unknown'']) (\<lambda>_. returnP None)
                | Some r \<Rightarrow> buy_spy env instrument_id day held_cost amount r)))) w1 (\<lambda>r w'. topped env day w w')"
      unfolding Let_def
      by (intro after_optionI after_ifI topped_log topped_mark w1 topped_bind [OF unsold_instrument w1] mid)
  qed simp
qed

lemma top_up_cases:
  assumes "top_up env w = (r, w')"
  defines "day \<equiv> ny_date (le_ny env) (now_of env w)"
  obtains "unsold day w w'" | "bought env day w w'" "rs_last_topup_day (lw_reserve w) \<noteq> Some day"
proof -
  obtain inside where window: "in_window env (now_of env w) = (inside, day)"
    by (auto simp: in_window_def Let_def day_def ny_date_def case_prod_beta)
  have "w' = w \<or> rs_last_topup_day (lw_reserve w) \<noteq> Some day \<and> top_up_due env day w = (r, w')"
    using assms(1) window by (auto simp: top_up_def Let_def returnP_def split: if_splits)
  then have "unsold day w w' \<or> rs_last_topup_day (lw_reserve w) \<noteq> Some day \<and> topped env day w w'"
    using afterD [OF after_top_up_due] unsold.R_refl [of day w] by blast
  then show thesis using that unfolding topped_def by blast
qed

text \<open>The reserve's mark covers every purchase of its own day.\<close>

definition noted :: "int list \<Rightarrow> int \<Rightarrow> int option \<Rightarrow> bool" where
  "noted bs date mark \<longleftrightarrow> distinct bs \<and> (\<forall>B \<in> set bs. B \<le> date \<and> (B = date \<longrightarrow> mark = Some B))"

lemma noted_later: "noted bs d m \<Longrightarrow> d \<le> d' \<Longrightarrow> noted bs d' m"
  by (force simp: noted_def)

lemma noted_mark: "noted bs d m \<Longrightarrow> noted bs d (Some d)"
  by (simp add: noted_def)

lemma noted_add: "noted bs d m \<Longrightarrow> m \<noteq> Some d \<Longrightarrow> noted (bs @ [d]) d (Some d)"
  by (auto simp: noted_def)

lemma noted_clear: "noted bs d m \<Longrightarrow> m \<noteq> Some d \<Longrightarrow> noted bs d None"
  by (auto simp: noted_def)

definition calendar :: "(time \<Rightarrow> int \<times> int \<times> int) \<Rightarrow> bool" where
  "calendar ny \<longleftrightarrow> (\<forall>s t. s \<le> t \<longrightarrow> ny_date ny s \<le> ny_date ny t)"

definition date_at :: "(live_call list \<Rightarrow> time) \<Rightarrow> (time \<Rightarrow> int \<times> int \<times> int) \<Rightarrow> live_world \<Rightarrow> int" where
  "date_at clock ny w = ny_date ny (clock (lw_calls w))"

lemma date_later: "forward clock \<Longrightarrow> calendar ny \<Longrightarrow> \<exists>cs. lw_calls w' = lw_calls w @ cs \<Longrightarrow> date_at clock ny w \<le> date_at clock ny w'"
  by (auto simp: forward_def calendar_def date_at_def)

lemma noted_unmarked:
  assumes "forward clock" "calendar ny" "\<exists>cs. lw_calls w' = lw_calls w @ cs"
    and "rs_last_topup_day (lw_reserve w') = rs_last_topup_day (lw_reserve w)"
    and "noted bs (date_at clock ny w) (rs_last_topup_day (lw_reserve w))"
  shows "noted bs (date_at clock ny w') (rs_last_topup_day (lw_reserve w'))"
  using assms noted_later date_later by metis

lemma top_up_noted:
  assumes "forward (le_clock env)" "calendar (le_ny env)" "top_up env w = (r, w')"
    and "noted bs (date_at (le_clock env) (le_ny env) w) (rs_last_topup_day (lw_reserve w))"
  shows "noted (bs @ filled_purchases env w w') (date_at (le_clock env) (le_ny env) w') (rs_last_topup_day (lw_reserve w'))"
proof -
  let ?day = "ny_date (le_ny env) (now_of env w)" and ?answer = "le_order env (lw_calls w')"
  have day: "date_at (le_clock env) (le_ny env) w = ?day" by (simp add: date_at_def now_of_def)
  note noted = assms(4) [unfolded day]
  from assms(3) show ?thesis
  proof (cases rule: top_up_cases)
    case 1
    have "\<exists>cs. lw_calls w' = lw_calls w @ cs" "orders_sent w w' = []"
      using 1 by (auto simp: unsold_def opens_nothing_def orders_sent_def list_all_iff filter_empty_conv)
    moreover have "noted bs ?day (rs_last_topup_day (lw_reserve w'))" using 1 noted noted_mark by (auto simp: unsold_def)
    ultimately show ?thesis
      using noted_later date_later [OF assms(1,2)] day by (metis append_Nil2 filled_purchases_def)
  next
    case 2
    then obtain u ord cid where u: "opens_nothing w u" "lw_calls w' = lw_calls u @ [Open_live_order ord cid]"
      and mark: "rs_last_topup_day (lw_reserve w') = (case ?answer of Inl (Rate_limited _) \<Rightarrow> None | _ \<Rightarrow> Some ?day)"
      by (auto simp: bought_def)
    have calls: "\<exists>cs. lw_calls w' = lw_calls w @ cs" "orders_sent w w' \<noteq> []"
      using u by (auto simp: opens_nothing_def orders_sent_def)
    have "noted (bs @ filled_purchases env w w') ?day (rs_last_topup_day (lw_reserve w'))"
      unfolding mark filled_purchases_def using calls(2) noted noted_add [OF noted 2(2)] noted_mark [OF noted] noted_clear [OF noted 2(2)]
      by (auto simp: may_have_filled_def never_sent_def split: sum.splits live_error.splits)
    then show ?thesis using noted_later date_later [OF assms(1,2) calls(1)] day by simp
  qed
qed

lemma top_up_tallied:
  assumes "forward (le_clock env)" "tallied ds (today_of env w) (lw_state w)" "top_up env w = (r, w')"
  shows "tallied ds (today_of env w') (lw_state w')"
  using assms(3)
proof (cases rule: top_up_cases)
  case 1
  then show ?thesis using assms(2) tallied_later today_later [OF assms(1)]
    by (auto simp: unsold_def opens_nothing_def same_file_def)
next
  case 2
  then obtain u ord cid st where u: "opens_nothing w u" "lw_state u = lw_state w" "lw_calls w' = lw_calls u @ [Open_live_order ord cid]"
    and st: "lw_state w' = Some st" "ms_day st = ms_day (state_of env u)" "ms_trades_today st = ms_trades_today (state_of env u)"
    by (auto simp: bought_def same_file_def)
  have "today_of env w \<le> today_of env u" using u(1) today_later [OF assms(1)] by (auto simp: opens_nothing_def)
  then have "tallied ds (today_of env u) (lw_state u)" using assms(2) u(2) tallied_later by simp
  then have "tallied ds (today_of env u) (lw_state w')"
    unfolding st(1) by (rule tallied_same [OF tallied_state_of st(2,3)])
  moreover have "today_of env u \<le> today_of env w'" using today_later [OF assms(1) u(3)] by simp
  ultimately show ?thesis by (rule tallied_later)
qed

subsection \<open>The books hold along every run\<close>

lemma mirror_unmarked: "live_mirror env p pb w = (r, w') \<Longrightarrow>
    (\<exists>cs. lw_calls w' = lw_calls w @ cs) \<and> rs_last_topup_day (lw_reserve w') = rs_last_topup_day (lw_reserve w)"
  by (erule live_mirror_cases) (auto simp: releases_def opens_nothing_def same_halt_def copy_result_def Let_def)

lemma reconcile_unmarked: "live_reconcile env w = (r, w') \<Longrightarrow>
    (\<exists>cs. lw_calls w' = lw_calls w @ cs) \<and> rs_last_topup_day (lw_reserve w') = rs_last_topup_day (lw_reserve w)"
  using afterD [OF after_reconcile] by (fastforce simp: read_result_def keeps_books_def)

lemma live_run_books:
  assumes "live_run clock ny w0 ds bs w" "forward clock"
  shows "(tallied [] (clock (lw_calls w0) div day_us) (lw_state w0) \<longrightarrow> tallied ds (clock (lw_calls w) div day_us) (lw_state w)) \<and>
    (calendar ny \<longrightarrow> noted bs (date_at clock ny w) (rs_last_topup_day (lw_reserve w)))"
  using assms(1)
proof induction
  case start
  then show ?case by (simp add: noted_def)
next
  case (copy ds bs w env p pb r w')
  then show ?case
    using mirror_tallied [of env ds w p pb r w'] mirror_unmarked [OF copy.hyps(3)] noted_unmarked [OF assms(2)] assms(2)
    by (auto simp: today_of_def now_of_def)
next
  case (reading ds bs w env r w')
  then show ?case
    using reconcile_tallied [of env ds w r w'] reconcile_unmarked [OF reading.hyps(3)] noted_unmarked [OF assms(2)] assms(2)
    by (auto simp: today_of_def now_of_def)
next
  case (backup ds bs w env r w')
  then have books: "keeps_books w w'" using books_backup by blast
  then have "\<exists>cs. lw_calls w' = lw_calls w @ cs" "rs_last_topup_day (lw_reserve w') = rs_last_topup_day (lw_reserve w)"
    "lw_state w' = lw_state w" by (simp_all add: keeps_books_def)
  then show ?case
    using backup books_tallied [of env w w' ds "lw_state w"] books noted_unmarked [OF assms(2)] assms(2)
    by (auto simp: today_of_def now_of_def)
next
  case (topping ds bs w env r w')
  then show ?case
    using top_up_tallied [of env ds w r w'] top_up_noted [of env w r w' bs] assms(2)
    by (simp add: today_of_def now_of_def)
next
  case (others ds bs w w')
  then have "\<exists>cs. lw_calls w' = lw_calls w @ cs" "rs_last_topup_day (lw_reserve w') = rs_last_topup_day (lw_reserve w)"
    "lw_state w' = lw_state w" by (simp_all add: keeps_books_def)
  moreover from this have "clock (lw_calls w) div day_us \<le> clock (lw_calls w') div day_us"
    using assms(2) by (auto simp: forward_def day_us_def intro!: zdiv_mono1)
  ultimately show ?case using others.IH noted_unmarked [OF assms(2)] tallied_later by (metis (no_types))
qed

text \<open>C5: At most three real-money copies a day. Over any sequence of copies, account readings,
guard passes and changes by other components, with a clock that never goes back, and from a state
whose day is not in the future, at most three copies decided on one UTC day may have filled.\<close>

theorem live_copies_capped_per_day:
  assumes "live_run clock ny w0 ds bs w" "forward clock"
    and "\<And>st d. lw_state w0 = Some st \<Longrightarrow> ms_day st = Some d \<Longrightarrow>
      d \<le> clock (lw_calls w0) div day_us \<and> (\<forall>n. ms_trades_today st = Some n \<longrightarrow> 0 \<le> n)"
  shows "count_list ds day \<le> 3"
proof -
  have "tallied [] (clock (lw_calls w0) div day_us) (lw_state w0)"
    using assms(3) by (simp add: tallied_def HARD_MAX_TRADES_PER_DAY_def)
  then have "tallied ds (clock (lw_calls w) div day_us) (lw_state w)" using live_run_books [OF assms(1,2)] by blast
  then have "int (count_list ds day) \<le> 3" unfolding tallied_def HARD_MAX_TRADES_PER_DAY_def by blast
  then show ?thesis by simp
qed

lemma live_copies_capped_per_day_witness:
  "\<exists>ds w. live_run (\<lambda>_. demo_live_now) (\<lambda>_. (0, 600, 1)) demo_live_world ds [] w \<and> ds = [1] \<and> count_list ds 1 \<le> 3"
proof -
  let ?env = "demo_live_env demo_filled demo_empty_account"
  have "filled_copies ?env demo_live_world (demo_after demo_filled) = [1]" by code_simp
  then have run: "live_run (\<lambda>_. demo_live_now) (\<lambda>_. (0, 600, 1)) demo_live_world [1] [] (demo_after demo_filled)"
    using live_run.copy [OF live_run.start _ demo_copy_run, of demo_filled "\<lambda>_. demo_live_now" "\<lambda>_. (0, 600, 1)"]
    by (simp add: demo_live_env_def)
  have "count_list [1::int] 1 \<le> 3"
  proof (rule live_copies_capped_per_day [OF run])
    show "forward (\<lambda>_. demo_live_now)" by (simp add: forward_def)
    show "d \<le> demo_live_now div day_us \<and> (\<forall>n. ms_trades_today st = Some n \<longrightarrow> 0 \<le> n)"
      if "lw_state demo_live_world = Some st" "ms_day st = Some d" for st d
      using that by (auto simp: demo_live_world_def demo_live_state_def)
  qed
  with run show ?thesis by blast
qed

text \<open>C40: The SPY reserve is bought at most once a day. Over the same runs, no two purchases
that may have filled fall on one New York day, whatever eToro answered to them.\<close>

theorem reserve_bought_once_a_day:
  assumes "live_run clock ny w0 ds bs w" "forward clock" "calendar ny"
  shows "distinct bs"
  using live_run_books [OF assms(1,2)] assms(3) by (simp add: noted_def)

text \<open>The same world with SPY on the list of allowed instruments.\<close>

definition demo_reserve_env :: live_env where
  "demo_reserve_env = (demo_live_env demo_filled demo_empty_account)
     \<lparr>le_settings := demo_live_settings\<lparr>ls_app := default_settings\<lparr>allowed_instruments := [RESERVE_SYMBOL]\<rparr>\<rparr>\<rparr>"

lemma reserve_bought_once_a_day_witness:
  "\<exists>bs w. live_run (\<lambda>_. demo_live_now) (\<lambda>_. (0, 600, 1)) demo_live_world [] bs w \<and> bs = [1] \<and> distinct bs"
proof -
  let ?env = "demo_reserve_env" and ?ny = "\<lambda>_. (0, 600, 1)"
  let ?w = "snd (top_up ?env demo_live_world)"
  have "filled_purchases ?env demo_live_world ?w = [1]" by code_simp
  then have run: "live_run (\<lambda>_. demo_live_now) ?ny demo_live_world [] [1] ?w"
    using live_run.topping [OF live_run.start, of ?env "\<lambda>_. demo_live_now" ?ny demo_live_world "fst (top_up ?env demo_live_world)" ?w]
    by (simp add: demo_reserve_env_def demo_live_env_def)
  have "distinct [1::int]"
    by (rule reserve_bought_once_a_day [OF run]) (simp_all add: forward_def calendar_def ny_date_def)
  with run show ?thesis by blast
qed

end
