(* ===== verification/Live_Stops.thy ===== *)
theory Live_Stops
  imports Live_Days
begin

text \<open>
  The protection of open real-money positions: what a reading of the account does about a position
  without a stop, and what a guard pass does with the backup stops.
\<close>

subsection \<open>Positions without a stop\<close>

text \<open>A close of this position was asked for and answered.\<close>

definition close_answered :: "live_env \<Rightarrow> live_world \<Rightarrow> raw_position \<Rightarrow> bool" where
  "close_answered env w item \<longleftrightarrow> (\<exists>n i cs ds. rp_position_id item = Some n \<and>
     lw_calls w = cs @ Close_live_position n i None # ds \<and> le_close env (cs @ [Close_live_position n i None]) = Inr ())"

definition is_halted :: "live_world \<Rightarrow> bool" where
  "is_halted w \<longleftrightarrow> lw_halted w \<notin> {None, Some []}"

definition dealt_with :: "live_env \<Rightarrow> raw_position \<Rightarrow> live_world \<Rightarrow> bool" where
  "dealt_with env item w \<longleftrightarrow> close_answered env w item \<or> is_halted w"

text \<open>Once dealt with, dealt with: calls are only added and no program of the mirror lifts a halt.\<close>

definition stays_dealt :: "live_world \<Rightarrow> live_world \<Rightarrow> bool" where
  "stays_dealt w w' \<longleftrightarrow> (\<exists>cs. lw_calls w' = lw_calls w @ cs) \<and> (is_halted w \<longrightarrow> is_halted w')"

interpretation dealt: guard_relation stays_dealt
  by unfold_locales (auto simp: stays_dealt_def is_halted_def)

lemma dealt_later: "dealt_with env item w \<Longrightarrow> stays_dealt w w' \<Longrightarrow> dealt_with env item w'"
  unfolding dealt_with_def stays_dealt_def close_answered_def by (metis append_assoc append_Cons)

lemma dealt_same: "dealt_with env item (w\<lparr>lw_state := st, lw_logs := logs\<rparr>) = dealt_with env item w"
  by (simp add: dealt_with_def close_answered_def is_halted_def)

text \<open>Closing one position, or halting.\<close>

lemma after_close_one:
  "after (catchP (bindP (close_by_id env (rp_position_id item) i None) (\<lambda>_. returnP True))
      (\<lambda>e. bindP (halt (''close_unprotected_failed:'' @ symbol @ '':'' @ live_error_str e)) (\<lambda>_. returnP False))) w
    (\<lambda>r w'. (\<exists>ok. r = Inr ok) \<and> dealt_with env item w')"
  by (auto simp: close_by_id_def halt_def logL_def dealt_with_def is_halted_def close_answered_def split: option.splits sum.splits)

lemma after_close_unprotected:
  "after (close_unprotected env by_position items acc) w (\<lambda>r w'. \<forall>item \<in> set items.
     unprotected (le_settings env) by_position item \<longrightarrow> dealt_with env item w')"
proof (induction items arbitrary: acc w)
  case (Cons item items)
  show ?case
  proof (cases "unprotected (le_settings env) by_position item")
    case False
    then show ?thesis using Cons by simp
  next
    case True
    let ?rest = "\<lambda>acc w'. after (close_unprotected env by_position items acc) w' (\<lambda>r w''. \<forall>item \<in> set (item # items).
      unprotected (le_settings env) by_position item \<longrightarrow> dealt_with env item w'')"
    have rest: "?rest acc' w'" if "dealt_with env item w'" for acc' w'
    proof -
      have "after (close_unprotected env by_position items acc') w' (\<lambda>r w''. dealt_with env item w'')"
        by (rule after_steps [OF dealt.steps_close_unprotected]) (rule dealt_later [OF that])
      from after_both [OF this Cons [of acc' w']] show ?thesis by (rule after_mono) simp
    qed
    show ?thesis
      using True
      by (simp only: close_unprotected.simps Let_def not_True_eq_False if_False after_bind)
        (rule after_mono [OF after_close_one], use rest in \<open>auto\<close>)
  qed
qed simp


text \<open>A position in AMD without a stop, which eToro closes.\<close>

definition demo_bare_position :: raw_position where
  "demo_bare_position = \<lparr>rp_position_id = Some 5, rp_instrument_id = Some 9, rp_amount = Some 400, rp_leverage = Some 1,
     rp_units = Some 4, rp_stop_loss_rate = None, rp_is_no_stop_loss = True, rp_is_buy = True\<rparr>"

definition demo_bare_account :: raw_portfolio where
  "demo_bare_account = \<lparr>rw_credit = Some 5000, rw_positions = [demo_bare_position]\<rparr>"

definition demo_bare_view :: live_portfolio where
  "demo_bare_view = \<lparr>lpf_equity = 5400, lpf_positions = [\<lparr>lp_position_id = Some 5, lp_instrument_id = Some 9, lp_symbol = ''AMD''\<rparr>]\<rparr>"

definition demo_bare_env :: live_env where
  "demo_bare_env = (demo_live_env demo_filled (Inr demo_bare_account))\<lparr>le_portfolio := \<lambda>_. Inr demo_bare_view\<rparr>"


subsection \<open>Backup stops\<close>

text \<open>A stop on a held position is kept, or the position is closed at a rate at or below the stop.\<close>

definition stop_outcome_ok :: "intended_stop \<Rightarrow> stop_outcome \<Rightarrow> bool" where
  "stop_outcome_ok info outcome = (case outcome of Kept _ \<Rightarrow> True | Gone \<Rightarrow> False | Stop_closed r \<Rightarrow> r \<le> is_stop info)"

lemma after_close_at_stop:
  assumes "r \<le> is_stop info"
  shows "after (close_at_stop env symbol seen n held r) w (\<lambda>x w'. \<forall>outcome. x = Inr outcome \<longrightarrow> stop_outcome_ok info outcome)"
proof -
  have ok: "stop_outcome_ok info (Kept seen)" "stop_outcome_ok info (Stop_closed r)" using assms by (simp_all add: stop_outcome_ok_def)
  show ?thesis
    unfolding close_at_stop_def after_bind after_catch
    by (rule after_trivial) (auto simp: logL_def halt_def ok split: sum.splits option.splits live_error.splits bool.splits intro!: after_trivial)
qed

definition on_hold :: "raw_portfolio \<Rightarrow> intended_stop \<Rightarrow> bool" where
  "on_hold raw info = (case known_id (is_instrument_id info) of None \<Rightarrow> False | Some n \<Rightarrow> positions_in raw n \<noteq> [])"

lemma after_check_stop:
  assumes "on_hold raw info"
  shows "after (check_stop env raw grace symbol info) w (\<lambda>x w'. \<forall>outcome m. x = Inr (outcome, m) \<longrightarrow> stop_outcome_ok info outcome)"
proof -
  obtain n where n: "known_id (is_instrument_id info) = Some n" "positions_in raw n \<noteq> []"
    using assms by (auto simp: on_hold_def split: option.splits)
  have kept: "stop_outcome_ok info (Kept i)" for i by (simp add: stop_outcome_ok_def)
  show ?thesis
    using n(2)
    by (auto simp: check_stop_def stop_instrument_def n(1) Let_def kept split: sum.splits option.splits
      intro!: after_mono [OF after_close_at_stop])
qed

definition outcomes_ok :: "raw_portfolio \<Rightarrow> (string \<times> intended_stop) list \<Rightarrow> (string \<times> stop_outcome \<times> mark option) list \<Rightarrow> bool" where
  "outcomes_ok raw stops results \<longleftrightarrow> list_all2 (\<lambda>(symbol, info) (symbol', outcome, m). symbol' = symbol \<and>
     (on_hold raw info \<longrightarrow> stop_outcome_ok info outcome)) stops results"

lemma after_check_stops:
  "after (check_stops env raw grace stops) w (\<lambda>x w'. \<forall>results. x = Inr results \<longrightarrow> outcomes_ok raw stops results)"
proof (induction stops arbitrary: w)
  case (Cons stop stops)
  obtain symbol info where stop: "stop = (symbol, info)" by (cases stop)
  have one: "after (check_stop env raw grace symbol info) w
      (\<lambda>x w'. \<forall>outcome m. x = Inr (outcome, m) \<longrightarrow> on_hold raw info \<longrightarrow> stop_outcome_ok info outcome)"
    using after_check_stop by (cases "on_hold raw info") (auto intro: after_mono after_trivial)
  show ?case
    unfolding stop check_stops.simps after_bind
    by (rule after_mono [OF one])
      (auto simp: outcomes_ok_def split: sum.splits intro!: after_mono [OF Cons [unfolded outcomes_ok_def]])
qed (simp add: outcomes_ok_def)

definition same_stops :: "live_world \<Rightarrow> live_world \<Rightarrow> bool" where
  "same_stops w w' \<longleftrightarrow> lw_stops w' = lw_stops w"

interpretation stops: guard_relation same_stops
  by unfold_locales (auto simp: same_stops_def)

lemma outcomes_lookup:
  assumes "outcomes_ok raw stops results" "(symbol, info) \<in> set stops" "distinct (map fst stops)" "on_hold raw info"
  obtains outcome m where "map_of results symbol = Some (outcome, m)" "(symbol, outcome, m) \<in> set results" "stop_outcome_ok info outcome"
proof -
  obtain i where i: "i < length stops" "stops ! i = (symbol, info)" using assms(2) by (auto simp: in_set_conv_nth)
  have all2: "list_all2 (\<lambda>(symbol, info) (symbol', outcome, m). symbol' = symbol \<and> (on_hold raw info \<longrightarrow> stop_outcome_ok info outcome)) stops results"
    using assms(1) by (simp add: outcomes_ok_def)
  have len: "length results = length stops" using list_all2_lengthD [OF all2] by simp
  have "map fst results = map fst stops"
    using all2 by (induction rule: list_all2_induct) auto
  then have dist: "distinct (map fst results)" using assms(3) by simp
  obtain outcome m where r: "results ! i = (symbol, outcome, m)" "stop_outcome_ok info outcome"
    using list_all2_nthD [OF all2 i(1)] i(2) assms(4) by (cases "results ! i") auto
  have "(symbol, outcome, m) \<in> set results" using r(1) i(1) len by (metis nth_mem)
  with that [of outcome m] dist r(2) show thesis by (simp add: map_of_is_SomeI)
qed

text \<open>What a pass leaves of a stop: the stop itself, or a close at or below it.\<close>

definition stop_survives :: "string \<Rightarrow> intended_stop \<Rightarrow> (string \<times> pyfloat) list option \<Rightarrow> live_world \<Rightarrow> bool" where
  "stop_survives symbol info res w' \<longleftrightarrow> (\<exists>info'. (symbol, info') \<in> set (lw_stops w') \<and> is_stop info' = is_stop info) \<or>
     (\<exists>closed_list r. res = Some closed_list \<and> (symbol, r) \<in> set closed_list \<and> r \<le> is_stop info)"

definition closed_stops :: "(string \<times> stop_outcome \<times> mark option) list \<Rightarrow> (string \<times> pyfloat) list" where
  "closed_stops results = concat (map (\<lambda>(symbol, outcome, _). case outcome of Stop_closed r \<Rightarrow> [(symbol, r)] | _ \<Rightarrow> []) results)"

lemma merged_survives:
  assumes "outcomes_ok raw stops results" "(symbol, info) \<in> set stops" "distinct (map fst stops)" "on_hold raw info"
    and "lw_stops w' = concat (map (merge_stop results) stops)"
  shows "stop_survives symbol info (Some (closed_stops results)) w'"
proof -
  obtain outcome m where o: "map_of results symbol = Some (outcome, m)" "(symbol, outcome, m) \<in> set results" "stop_outcome_ok info outcome"
    using outcomes_lookup [OF assms(1-4)] .
  show ?thesis
  proof (cases outcome)
    case (Kept i)
    have "merge_stop results (symbol, info) = [(symbol, info\<lparr>
        is_instrument_id := (case known_id (is_instrument_id i) of None \<Rightarrow> is_instrument_id info | Some n \<Rightarrow> Some n),
        is_seen := (is_seen info \<or> is_seen i)\<rparr>)]" using o(1) Kept by (simp add: merge_stop_def split: option.split)
    then show ?thesis unfolding stop_survives_def assms(5) using assms(2)
      by (intro disjI1 exI conjI, force) simp
  next
    case Gone
    then show ?thesis using o(3) by (simp add: stop_outcome_ok_def)
  next
    case (Stop_closed r)
    then show ?thesis using o(2,3) by (force simp: stop_survives_def stop_outcome_ok_def closed_stops_def)
  qed
qed

lemma after_pass:
  assumes "le_raw env (lw_calls w @ [Fetch_raw_portfolio]) = Inr raw" "(symbol, info) \<in> set (lw_stops w)"
    and "distinct (map fst (lw_stops w))" "on_hold raw info"
  shows "after (pass_over_stops env (lw_stops w) spy_id) w (\<lambda>x w'. \<forall>res. x = Inr res \<longrightarrow> stop_survives symbol info res w')"
proof (cases "rw_credit raw = None")
  case True
  then show ?thesis using assms(1,2) by (auto simp: pass_over_stops_def fetch_raw_def stop_survives_def)
next
  case False
  have both: "after (check_stops env raw grace (lw_stops w)) u
      (\<lambda>x u'. (\<forall>results. x = Inr results \<longrightarrow> outcomes_ok raw (lw_stops w) results) \<and> lw_stops u' = lw_stops u)" for grace u
    by (rule after_both [OF after_check_stops after_steps [OF stops.steps_check_stops]]) (simp add: same_stops_def)
  show ?thesis
    unfolding pass_over_stops_def fetch_raw_def after_bind after_call assms(1) sum.case if_not_P [OF False] after_get
    by (rule after_mono [OF both])
      (auto simp: Let_def save_marks_def merged_survives [OF _ assms(2-4)] closed_stops_def [symmetric] split: sum.splits)
qed


text \<open>AMD at 500 is above its stop of 98: the stop is kept.\<close>

definition demo_stopped_world :: live_world where
  "demo_stopped_world = demo_live_world\<lparr>lw_stops := [(''AMD'', \<lparr>is_stop = 98, is_instrument_id = Some 9, is_recorded_at = 0, is_seen = False\<rparr>)]\<rparr>"


end
