(* ===== verification/Spec2Isabelle.thy ===== *)
theory Spec2Isabelle
  imports Allocation Queue_Cases Reconciliation_Safety Unattended_Safety Live_Stops
begin

text \<open>
  A verification development for the AlgoTrader paper-trading bot (src/app).

  \<^bold>\<open>The program.\<close> Strategies produce signals; a signal becomes a proposal, which a human or
  the automatic reviewer approves; an approved proposal is enqueued and the execution
  coordinator takes it through quote, account, market and risk checks to a broker. The
  automation service holds the pause, kill switch and circuit breaker; the repositories keep
  everything in one SQL database. What may trade is decided by backtests: the engine runs a
  strategy over stored bars with costs, the walk-forward batch pools its out-of-sample trades,
  and the evidence gate reads the pooled verdicts. Every paper entry may be copied with real
  money by the eToro live mirror, behind its own gates and caps. This development models that
  order path end to end, the evaluation that feeds it, and the copy.

  \<^bold>\<open>Theories and the code they model.\<close>
  \<^item> Prelude: Python values, strings, rounding and dictionaries, and the \<open>running_totals\<close> locale.
  \<^item> Settings, Models: the settings fields (runtime_settings.py) and the pydantic models
    (models/*.py) that the components read.
  \<^item> Instruments: broker/crypto.py, broker/instrument_resolver.py, risk/sectors.py.
  \<^item> Sizing: risk/position_sizing.py, risk/rules.py, risk/proposal_sizing.py,
    risk/volatility_target.py. Allocation: risk/allocation.py, risk/portfolio.py.
  \<^item> Guardrails: the risk gate, risk/guardrails.py and risk/shorting.py, with the abstract
    specification \<open>order_admissible\<close> that it refines.
  \<^item> Storage: the repositories (storage/repositories.py) over tables with unique keys and
    indexes (storage/db.py); the locale \<open>keyed_table\<close>, interpreted for eight tables, and the
    step relation \<open>store_step\<close> of all repository writes.
  \<^item> RiskContext: risk/context.py. Router: broker/router.py.
  \<^item> Program: the services as programs over a world (store and trace of outside calls), the
    judgements \<open>keeps\<close>, \<open>at_most\<close> and \<open>after\<close>, and the locales \<open>quiet_invariant\<close> and
    \<open>repository_invariant\<close> that carry a store invariant through every service.
  \<^item> Approvals: approvals/service.py, the approve route, performance/paper_only.py.
  \<^item> Automation: automation/service.py. MarketDirection: risk/market_direction.py.
    Paper: paper/service.py (opening, refreshing, closing). Trader: execution/trader.py.
    Comparison: broker/comparison.py.
  \<^item> Coordinator: execution/coordinator.py, all of it; Coordinator_Safety and Settlement: what
    it guarantees; Queue_Cases: enqueueing, and where the queue does not do what it should.
  \<^item> Alpaca: the order payloads that broker/alpaca_client.py builds, the form in which broker
    orders reach the rest of the program.
  \<^item> Reconciliation: automation/reconciliation.py, the sweep over the broker account and the
    updates of the trade stream, with the memory the service keeps between sweeps
    (\<open>w_sweep\<close>); Reconciliation_Safety: what it guarantees, with the locale \<open>sweep_invariant\<close>
    for properties that every step of a sweep keeps.
  \<^item> Broker_Ledger: the records of Alpaca paper executions (paper/service.py) and their mirror
    into the paper ledger (paper/broker_ledger.py), which is the argument of the refresh in
    Paper; Broker_Ledger_Safety: what the mirror guarantees.
  \<^item> Lifecycles: the evidence about each paper trade (paper/service.py) and the approval
    tiers that read it (automation/reliability.py). Universe: universe/us_stocks.py.
  \<^item> Unattended: automation/unattended.py, the path from a scan candidate to an executed
    order with no person in the loop, composed of the services above; Unattended_Safety.
  \<^item> Costs: backtesting/cost_model.py, venue_costs.py. Metrics: backtesting/metrics.py.
    Engine: backtesting/engine.py and intraday.py, one definition per stage of the bar loop;
    Engine_Safety (the locale \<open>run_invariant\<close>: what one bar keeps, a run keeps) and
    Engine_Causality: what it guarantees, and where a backtest misreports.
  \<^item> Walk_Forward: backtesting/walk_forward.py, the splitter's \<open>while True\<close> loop as a partial
    function. Walk_Forward_Runs: the walk-forward part of backtesting/batch.py and
    intraday_plan.py. Evidence: performance/strategy_evidence.py and
    broker/etoro_live_paper_record.py.
  \<^item> Live_Room: the state of the eToro live mirror and the room of its account
    (broker/etoro_live_room.py, the constants and \<open>_state\<close> of etoro_live_mirror.py). Live_Mirror:
    etoro_live_mirror.py, the gates, the size, the order behind its write-ahead and the account
    reading, with the sale of the SPY reserve for a copy and \<open>record_entry\<close> of
    etoro_live_scorecard.py. Live_Guard: the top-up of etoro_live_spy_reserve.py and
    etoro_live_backup_stop.py.
  \<^item> Live_Safety (the locale \<open>live_relation\<close>: a relation of states carried through any program
    of the mirror), Live_Gates (what stands before every real order), Live_Days (the step
    relation \<open>live_run\<close> of all operations and the locale \<open>guard_relation\<close>), Live_Stops.

  \<^bold>\<open>What is shown.\<close> Sizing and the risk gate: budgets, bounds, monotonicity and the refinement
  of the gate. The store: unique keys, one open queue item per symbol, exclusive claims. The
  services: the proposal lifecycle, the kill switch and circuit breaker until they are
  released, the reach of the emergency stop, the consistency of the paper ledger. The
  coordinator: at most one order per run and only after every gate, never twice for an item,
  none while killed, sound bracket orders, admissible orders after the governor.
  Reconciliation: unsafe positions and repeated failures trip the breaker, standalone exits are
  booked, every invariant survives a sweep. The broker mirror: one position per execution, no
  effect when repeated, results equal to the fills. The unattended path: an order only behind
  every gate and on readable evidence, losing strategies switched off. Backtests: no look-ahead,
  fills after their signals, one position at a time, costs that only hurt, pessimistic stops,
  books that balance, flat sessions. Walk-forward: the splitter always returns, no fold leaks,
  pooled trades are out of sample. Evidence: verdicts pool the whole universe, a pass streak is
  backed by an unbroken run of refreshes. The live mirror: a real order only behind every gate
  and within the hard caps, at most three a day over any run, an unknown answer counted and
  halting, no open position left without a stop in silence, backup stops that outlive failures,
  the reserve bought once a day. Some theorems record
  where the code does not do what its comments or documents say.

  \<^bold>\<open>How the proofs are built.\<close> An invariant of the store is proved once per repository operation
  and carried through the services by \<open>repository_invariant\<close>; calls are counted by \<open>at_most\<close>,
  whose rules are the collection \<open>calls_intros\<close>; what a run leaves behind is stated with
  \<open>after\<close> or with one case rule per program. The mirror's loop is related to the ledger by
  \<open>tracks\<close>: its dictionary is exactly the set of broker-backed rows.

  \<^bold>\<open>Conventions.\<close> Floats are exact rationals, so rounding is modelled where the code calls
  \<open>round\<close> or formats, and binary representation error is not. Timestamps are integers of
  microseconds; ISO strings are compared as the times they denote. Upper and lower case map
  ASCII letters. A program raises by returning an exception value and keeps the effects made
  before it. Everything outside (brokers, quotes, clock, fresh ids, the learning service, the
  readiness report, and for the coordinator the live mirror and its room verdict) answers as an arbitrary function
  of all calls so far; the SHA-256 digest, ISO formatting and the New York calendar are
  parameters too; so are the governance tables, the trade reviews and the market clock. A
  fingerprint of the sweep is the value it renders; its CRC-32 is computed on words. The clock advances at outside calls only. The coordinator's entry lock
  makes one run one program; other interleavings are sequences of whole runs. Functions
  are total, mostly by structural recursion, and fuel bounds one wait only (below); the splitter's loop may run
  forever on bad settings, so it is a partial function and \<open>splitting_terminates\<close> says when it
  returns. The wait for the cash of an SPY sale polls every three seconds for fifteen, so
  it is given five rounds, enough when a sleep advances the monotonic clock by its length. A
  strategy is an arbitrary function of the bars it is shown; New York time and the
  square root and power of the metrics are arguments.

  \<^bold>\<open>Not modelled.\<close> HTTP clients and routes, Telegram, dashboards and reports (the summary of
  the paper account and the statistics of its lifecycles included), schedulers, market data
  providers, the strategies' own indicator code, screening and learning: they only feed candidates and proposals into, or read results from, the order path. Of
  backtesting, the market-impact model, the deflated Sharpe ratio and the batch's sweep over
  symbols are left out. Of the live mirror's helpers the scorecard's later bookkeeping, the overnight
  alert, the daily report, the manual test order and the copy of paper exits are left out; in
  \<open>live_run\<close> they are steps that keep the mirror's state. Of the unattended
  service, the check before a proposal is created rests on the evidence reports and is left out.
\<close>

end
